(* ===== verification/Prelude.thy ===== *)
theory Prelude
  imports Complex_Main "HOL-Library.List_Lexorder" "HOL-Library.Char_ord"
begin

text \<open>
  Shared vocabulary of the development: the error values of
  \<open>apps/api/src/errors.ts\<close>, the shape of a request handler (a function from the
  database to a result and a database), and the generic table operations behind
  the scoped query builders of \<open>apps/api/src/auth/scope.ts\<close>.

  A handler that throws after an earlier statement has committed keeps that
  statement's effect; a handler body wrapped in \<open>db.transaction()\<close> does not.  The
  combinator \<open>transaction\<close> is the only place where an error undoes a write.
\<close>

named_theorems handler_simps \<open>definitions of the handler combinators\<close>
named_theorems handler_steps \<open>introduction rules for relations every step of a handler obeys\<close>

type_synonym uuid = string
type_synonym timestamp = int

section \<open>Errors\<close>

datatype api_error =
    Malformed
  | ValidationError
  | Unauthenticated
  | Forbidden
  | NotFound
  | Conflict
  | StaleRevision
  | IdempotencyMismatch
  | PayloadTooLarge
  | Unprocessable
  | ProtocolUnsupported
  | QuotaExceeded "int option"
  | BudgetExhausted
  | SetupClosed
  | InternalError

fun error_status :: "api_error \<Rightarrow> nat" where
  "error_status Malformed = 400"
| "error_status ValidationError = 400"
| "error_status Unauthenticated = 401"
| "error_status Forbidden = 403"
| "error_status NotFound = 404"
| "error_status Conflict = 409"
| "error_status StaleRevision = 409"
| "error_status IdempotencyMismatch = 409"
| "error_status PayloadTooLarge = 413"
| "error_status Unprocessable = 422"
| "error_status ProtocolUnsupported = 426"
| "error_status (QuotaExceeded _) = 429"
| "error_status BudgetExhausted = 409"
| "error_status SetupClosed = 409"
| "error_status InternalError = 500"

section \<open>Handlers\<close>

type_synonym ('s, 'a) handler = "'s \<Rightarrow> (api_error + 'a) \<times> 's"

definition ret :: "'a \<Rightarrow> ('s, 'a) handler" where
  "ret a s = (Inr a, s)"

definition fail :: "api_error \<Rightarrow> ('s, 'a) handler" where
  "fail e s = (Inl e, s)"

definition andThen :: "('s, 'a) handler \<Rightarrow> ('a \<Rightarrow> ('s, 'b) handler) \<Rightarrow> ('s, 'b) handler" where
  "andThen m k s = (case m s of (Inl e, s') \<Rightarrow> (Inl e, s') | (Inr a, s') \<Rightarrow> k a s')"

definition gets :: "('s \<Rightarrow> 'a) \<Rightarrow> ('s, 'a) handler" where
  "gets f s = (Inr (f s), s)"

definition reads :: "('s \<Rightarrow> api_error + 'a) \<Rightarrow> ('s, 'a) handler" where
  "reads f s = (f s, s)"

definition modify :: "('s \<Rightarrow> 's) \<Rightarrow> ('s, unit) handler" where
  "modify f s = (Inr (), f s)"

definition throw_if :: "bool \<Rightarrow> api_error \<Rightarrow> ('s, unit) handler" where
  "throw_if c e = (if c then fail e else ret ())"

definition require :: "'a option \<Rightarrow> api_error \<Rightarrow> ('s, 'a) handler" where
  "require x e = (case x of None \<Rightarrow> fail e | Some a \<Rightarrow> ret a)"

definition transaction :: "('s, 'a) handler \<Rightarrow> ('s, 'a) handler" where
  "transaction m s = (case m s of (Inl e, _) \<Rightarrow> (Inl e, s) | (Inr a, s') \<Rightarrow> (Inr a, s'))"

fun for_each :: "('a \<Rightarrow> ('s, unit) handler) \<Rightarrow> 'a list \<Rightarrow> ('s, unit) handler" where
  "for_each f [] = ret ()"
| "for_each f (x # xs) = andThen (f x) (\<lambda>_. for_each f xs)"

fun map_each :: "('a \<Rightarrow> ('s, 'b) handler) \<Rightarrow> 'a list \<Rightarrow> ('s, 'b list) handler" where
  "map_each f [] = ret []"
| "map_each f (x # xs) = andThen (f x) (\<lambda>y. andThen (map_each f xs) (\<lambda>ys. ret (y # ys)))"

lemmas handler_defs [handler_simps] =
  ret_def fail_def andThen_def gets_def reads_def modify_def throw_if_def require_def

lemma ret_eq [simp]: "ret a s = (r, s') \<longleftrightarrow> r = Inr a \<and> s' = s"
  by (auto simp: ret_def)

lemma fail_eq [simp]: "fail e s = (r, s') \<longleftrightarrow> r = Inl e \<and> s' = s"
  by (auto simp: fail_def)

lemma ret_fst_snd [simp]: "fst (ret a s) = Inr a" "snd (ret a s) = s"
  by (simp_all add: ret_def)

lemma fail_fst_snd [simp]: "fst (fail e s) = Inl e" "snd (fail e s) = s"
  by (simp_all add: fail_def)

lemma gets_apply [simp]: "gets f s = (Inr (f s), s)"
  by (simp add: gets_def)

lemma reads_apply [simp]: "reads f s = (f s, s)"
  by (simp add: reads_def)

lemma modify_apply [simp]: "modify f s = (Inr (), f s)"
  by (simp add: modify_def)

lemma throw_if_apply: "throw_if c e s = (if c then Inl e else Inr (), s)"
  by (simp add: throw_if_def ret_def fail_def)

lemma throw_if_ok [simp]: "throw_if c e s = (Inr u, s') \<longleftrightarrow> \<not> c \<and> s' = s"
  by (auto simp: throw_if_def)

lemma throw_if_err [simp]: "throw_if c e s = (Inl e', s') \<longleftrightarrow> c \<and> e' = e \<and> s' = s"
  by (auto simp: throw_if_def)

lemma require_ok [simp]: "require x e s = (Inr a, s') \<longleftrightarrow> x = Some a \<and> s' = s"
  by (auto simp: require_def split: option.splits)

lemma require_err [simp]: "require x e s = (Inl e', s') \<longleftrightarrow> x = None \<and> e' = e \<and> s' = s"
  by (auto simp: require_def split: option.splits)

lemma andThen_ok:
  "andThen m k s = (Inr b, s') \<longleftrightarrow> (\<exists>a s1. m s = (Inr a, s1) \<and> k a s1 = (Inr b, s'))"
  by (auto simp: andThen_def split: prod.splits sum.splits)

lemma andThen_err:
  "andThen m k s = (Inl e, s') \<longleftrightarrow>
     m s = (Inl e, s') \<or> (\<exists>a s1. m s = (Inr a, s1) \<and> k a s1 = (Inl e, s'))"
  by (auto simp: andThen_def split: prod.splits sum.splits)

lemma andThen_okE:
  assumes "andThen m k s = (Inr b, s')"
  obtains a s1 where "m s = (Inr a, s1)" "k a s1 = (Inr b, s')"
  using assms by (auto simp: andThen_ok)

lemma andThen_assoc: "andThen (andThen m k) h = andThen m (\<lambda>a. andThen (k a) h)"
  by (rule ext) (auto simp: andThen_def split: prod.splits sum.splits)

lemma andThen_ret [simp]: "andThen (ret a) k = k a" "andThen m ret = m"
  by (rule ext, auto simp: andThen_def split: prod.splits sum.splits)+

lemma transaction_ok [simp]: "transaction m s = (Inr a, s') \<longleftrightarrow> m s = (Inr a, s')"
  by (auto simp: transaction_def split: prod.splits sum.splits)

lemma transaction_err [simp]:
  "transaction m s = (Inl e, s') \<longleftrightarrow> s' = s \<and> (\<exists>t. m s = (Inl e, t))"
  by (auto simp: transaction_def split: prod.splits sum.splits)

lemmas ok_simps = andThen_ok throw_if_ok require_ok transaction_ok

section \<open>Relations that every step obeys\<close>

text \<open>\<open>obeys R m\<close>: whatever \<open>m\<close> returns, the state it leaves is related by \<open>R\<close>
  to the state it was given.  Frame conditions, workspace isolation and inductive
  invariants are all instances.\<close>

definition obeys :: "('s \<Rightarrow> 's \<Rightarrow> bool) \<Rightarrow> ('s, 'a) handler \<Rightarrow> bool" where
  "obeys R m \<longleftrightarrow> (\<forall>s. R s (snd (m s)))"

lemma obeysI: "(\<And>s. R s (snd (m s))) \<Longrightarrow> obeys R m"
  by (simp add: obeys_def)

lemma obeysD: "obeys R m \<Longrightarrow> m s = (r, s') \<Longrightarrow> R s s'"
  by (metis obeys_def snd_conv)

locale step_relation =
  fixes R :: "'s \<Rightarrow> 's \<Rightarrow> bool"
  assumes step_refl: "R s s"
    and step_trans: "R s t \<Longrightarrow> R t u \<Longrightarrow> R s u"
begin

lemma obeys_ret: "obeys R (ret a)"
  by (simp add: obeys_def step_refl)

lemma obeys_fail: "obeys R (fail e)"
  by (simp add: obeys_def step_refl)

lemma obeys_gets: "obeys R (gets f)"
  by (simp add: obeys_def step_refl)

lemma obeys_reads: "obeys R (reads f)"
  by (simp add: obeys_def step_refl)

lemma obeys_throw_if: "obeys R (throw_if c e)"
  by (simp add: obeys_def throw_if_apply step_refl)

lemma obeys_require: "obeys R (require x e)"
  by (simp add: obeys_def require_def step_refl split: option.splits)

lemma obeys_modify: "(\<And>s. R s (f s)) \<Longrightarrow> obeys R (modify f)"
  by (simp add: obeys_def)

lemma obeys_andThen:
  assumes "obeys R m" and "\<And>a. obeys R (k a)"
  shows "obeys R (andThen m k)"
  unfolding obeys_def
proof
  fix s
  show "R s (snd (andThen m k s))"
    using assms step_trans
    by (auto simp: obeys_def andThen_def split: prod.splits sum.splits)
       (metis snd_conv)+
qed

lemma obeys_transaction: "obeys R m \<Longrightarrow> obeys R (transaction m)"
  by (auto simp: obeys_def transaction_def step_refl split: prod.splits sum.splits)
     (metis snd_conv)

lemma obeys_for_each: "(\<And>x. obeys R (f x)) \<Longrightarrow> obeys R (for_each f xs)"
  by (induction xs) (simp_all add: obeys_ret obeys_andThen)

lemma obeys_map_each: "(\<And>x. obeys R (f x)) \<Longrightarrow> obeys R (map_each f xs)"
  by (induction xs) (simp_all add: obeys_ret obeys_andThen)

lemma obeys_if: "obeys R m \<Longrightarrow> obeys R n \<Longrightarrow> obeys R (if c then m else n)"
  by simp

lemma obeys_option:
  "obeys R m \<Longrightarrow> (\<And>x. obeys R (k x)) \<Longrightarrow> obeys R (case y of None \<Rightarrow> m | Some x \<Rightarrow> k x)"
  by (cases y) simp_all

lemmas obeys_rules =
  obeys_ret obeys_fail obeys_gets obeys_reads obeys_throw_if obeys_require
  obeys_andThen obeys_transaction obeys_for_each obeys_map_each obeys_if obeys_option

end

text \<open>A frame: the observation \<open>f\<close> of the state does not move.\<close>

definition same :: "('s \<Rightarrow> 'x) \<Rightarrow> 's \<Rightarrow> 's \<Rightarrow> bool" where
  "same f s s' \<longleftrightarrow> f s' = f s"

interpretation frame: step_relation "same f" for f :: "'s \<Rightarrow> 'x"
  by unfold_locales (auto simp: same_def)

abbreviation read_only :: "('s, 'a) handler \<Rightarrow> bool" where
  "read_only m \<equiv> obeys (same (\<lambda>s. s)) m"

lemma read_only_state: "read_only m \<Longrightarrow> m s = (r, s') \<Longrightarrow> s' = s"
  by (drule obeysD) (simp_all add: same_def)

text \<open>An invariant: if \<open>I\<close> held before, it holds afterwards.\<close>

definition keeps :: "('s \<Rightarrow> bool) \<Rightarrow> 's \<Rightarrow> 's \<Rightarrow> bool" where
  "keeps I s s' \<longleftrightarrow> (I s \<longrightarrow> I s')"

interpretation inv: step_relation "keeps I" for I :: "'s \<Rightarrow> bool"
  by unfold_locales (auto simp: keeps_def)

section \<open>Outcomes of a handler\<close>

text \<open>\<open>wp m Q F s\<close>: started in \<open>s\<close>, the handler either returns a value and a state
  that satisfy \<open>Q\<close>, or throws an error and leaves a state that satisfy \<open>F\<close>.  The
  equations compute it along the statements of a handler.\<close>

definition wp :: "('s, 'a) handler \<Rightarrow> ('a \<Rightarrow> 's \<Rightarrow> bool) \<Rightarrow> (api_error \<Rightarrow> 's \<Rightarrow> bool) \<Rightarrow> 's \<Rightarrow> bool" where
  "wp m Q F s = (case m s of (Inr a, s') \<Rightarrow> Q a s' | (Inl e, s') \<Rightarrow> F e s')"

lemma wpI:
  assumes "\<And>a s'. m s = (Inr a, s') \<Longrightarrow> Q a s'" and "\<And>e s'. m s = (Inl e, s') \<Longrightarrow> F e s'"
  shows "wp m Q F s"
  using assms by (auto simp: wp_def split: prod.splits sum.splits)

lemma wp_okD: "wp m Q F s \<Longrightarrow> m s = (Inr a, s') \<Longrightarrow> Q a s'"
  by (simp add: wp_def)

lemma wp_errD: "wp m Q F s \<Longrightarrow> m s = (Inl e, s') \<Longrightarrow> F e s'"
  by (simp add: wp_def)

lemma wp_total: "wp m Q (\<lambda>_ _. False) s \<Longrightarrow> \<exists>a s'. m s = (Inr a, s') \<and> Q a s'"
  by (cases "m s"; cases "fst (m s)") (auto simp: wp_def)

lemma wp_cases:
  assumes "wp m Q F s" and "\<And>a t. Q a t \<Longrightarrow> Q' a t" and "\<And>e t. F e t \<Longrightarrow> F' e t"
  shows "case m s of (Inl e, t) \<Rightarrow> F' e t | (Inr a, t) \<Rightarrow> Q' a t"
  using assms by (auto simp: wp_def split: prod.splits sum.splits)

lemma wp_state: "wp m (\<lambda>_. I) (\<lambda>_. I) s \<longleftrightarrow> I (snd (m s))"
  by (auto simp: wp_def split: prod.splits sum.splits)

lemma wp_mono:
  assumes "wp m Q F s" and "\<And>a t. Q a t \<Longrightarrow> Q' a t" and "\<And>e t. F e t \<Longrightarrow> F' e t"
  shows "wp m Q' F' s"
  using assms by (auto simp: wp_def split: prod.splits sum.splits)

lemma wp_ret [simp]: "wp (ret a) Q F = Q a"
  by (rule ext) (simp add: wp_def ret_def)

lemma wp_fail [simp]: "wp (fail e) Q F = F e"
  by (rule ext) (simp add: wp_def fail_def)

lemma wp_gets [simp]: "wp (gets f) Q F = (\<lambda>s. Q (f s) s)"
  by (rule ext) (simp add: wp_def)

lemma wp_reads [simp]: "wp (reads f) Q F = (\<lambda>s. case f s of Inl e \<Rightarrow> F e s | Inr a \<Rightarrow> Q a s)"
  by (rule ext) (simp add: wp_def split: sum.splits)

lemma wp_modify [simp]: "wp (modify f) Q F = (\<lambda>s. Q () (f s))"
  by (rule ext) (simp add: wp_def)

lemma wp_throw_if [simp]: "wp (throw_if c e) Q F = (\<lambda>s. if c then F e s else Q () s)"
  by (rule ext) (simp add: wp_def throw_if_apply)

lemma wp_require [simp]: "wp (require x e) Q F = (\<lambda>s. case x of None \<Rightarrow> F e s | Some a \<Rightarrow> Q a s)"
  by (rule ext) (simp add: wp_def require_def ret_def fail_def split: option.splits)

lemma wp_andThen [simp]: "wp (andThen m k) Q F = wp m (\<lambda>a. wp (k a) Q F) F"
  by (rule ext) (auto simp: wp_def andThen_def split: prod.splits sum.splits)

lemma wp_transaction [simp]: "wp (transaction m) Q F = (\<lambda>s. wp m Q (\<lambda>e _. F e s) s)"
  by (rule ext) (auto simp: wp_def transaction_def split: prod.splits sum.splits)

lemma wp_if: "wp (if c then m else n) Q F s = (if c then wp m Q F s else wp n Q F s)"
  by simp

section \<open>Tables\<close>

text \<open>A table is a list of rows in insertion order.  \<open>scoped_find\<close>, \<open>scoped_filter\<close>
  and \<open>scoped_update\<close> are the queries of \<open>WorkspaceScope\<close>: the workspace condition is
  always part of the \<open>WHERE\<close> clause.\<close>

definition scoped_filter :: "('r \<Rightarrow> uuid) \<Rightarrow> uuid \<Rightarrow> ('r \<Rightarrow> bool) \<Rightarrow> 'r list \<Rightarrow> 'r list" where
  "scoped_filter owner ws P rows = filter (\<lambda>r. owner r = ws \<and> P r) rows"

definition scoped_find :: "('r \<Rightarrow> uuid) \<Rightarrow> uuid \<Rightarrow> ('r \<Rightarrow> bool) \<Rightarrow> 'r list \<Rightarrow> 'r option" where
  "scoped_find owner ws P rows = find (\<lambda>r. owner r = ws \<and> P r) rows"

definition scoped_update :: "('r \<Rightarrow> uuid) \<Rightarrow> uuid \<Rightarrow> ('r \<Rightarrow> bool) \<Rightarrow> ('r \<Rightarrow> 'r) \<Rightarrow> 'r list \<Rightarrow> 'r list" where
  "scoped_update owner ws P f rows = map (\<lambda>r. if owner r = ws \<and> P r then f r else r) rows"

definition insert_row :: "'r \<Rightarrow> 'r list \<Rightarrow> 'r list" where
  "insert_row r rows = rows @ [r]"

definition foreign_rows :: "('r \<Rightarrow> uuid) \<Rightarrow> uuid \<Rightarrow> 'r list \<Rightarrow> 'r list" where
  "foreign_rows owner ws rows = filter (\<lambda>r. owner r \<noteq> ws) rows"

lemma find_SomeD: "find P xs = Some x \<Longrightarrow> x \<in> set xs \<and> P x"
  by (induction xs) (auto split: if_splits)

lemma find_append:
  "find P (xs @ ys) = (case find P xs of None \<Rightarrow> find P ys | Some x \<Rightarrow> Some x)"
  by (induction xs) auto

lemma scoped_find_SomeD:
  "scoped_find owner ws P rows = Some r \<Longrightarrow> r \<in> set rows \<and> owner r = ws \<and> P r"
  unfolding scoped_find_def by (drule find_SomeD) simp

lemma scoped_find_None:
  "scoped_find owner ws P rows = None \<longleftrightarrow> (\<forall>r \<in> set rows. owner r = ws \<longrightarrow> \<not> P r)"
  by (auto simp: scoped_find_def find_None_iff)

lemma scoped_find_strengthen:
  assumes "scoped_find owner ws P rows = Some r" and "Q r" and "\<And>x. Q x \<Longrightarrow> P x"
  shows "scoped_find owner ws Q rows = Some r"
  using assms unfolding scoped_find_def by (induction rows) (auto split: if_splits)

lemma scoped_find_key:
  assumes "r \<in> set rows" and "owner r = ws" and "distinct (map key rows)"
  shows "scoped_find owner ws (\<lambda>x. key x = key r) rows = Some r"
  using assms unfolding scoped_find_def by (induction rows) force+

lemma scoped_find_update:
  assumes "scoped_find owner ws P rows = Some r" and "\<And>x. owner (f x) = owner x" and "\<And>x. P (f x) = P x"
  shows "scoped_find owner ws P (scoped_update owner ws Q f rows) = Some (if Q r then f r else r)"
  using assms unfolding scoped_find_def scoped_update_def by (induction rows) (auto split: if_splits)

lemma scoped_find_insert_old:
  "scoped_find owner ws P rows = Some r \<Longrightarrow> scoped_find owner ws P (insert_row q rows) = Some r"
  by (simp add: scoped_find_def insert_row_def find_append)

lemma scoped_find_insert_new:
  "scoped_find owner ws P rows = None \<Longrightarrow>
     scoped_find owner ws P (insert_row q rows) = (if owner q = ws \<and> P q then Some q else None)"
  by (simp add: scoped_find_def insert_row_def find_append)

lemma foreign_rows_insert [simp]:
  "owner r = ws \<Longrightarrow> foreign_rows owner ws (insert_row r rows) = foreign_rows owner ws rows"
  by (simp add: foreign_rows_def insert_row_def)

lemma foreign_rows_update [simp]:
  "(\<And>r. owner (f r) = owner r) \<Longrightarrow>
     foreign_rows owner ws (scoped_update owner ws P f rows) = foreign_rows owner ws rows"
  by (induction rows) (auto simp: foreign_rows_def scoped_update_def)

lemma set_insert_row [simp]: "set (insert_row r rows) = insert r (set rows)"
  by (simp add: insert_row_def)

lemma scoped_updateE:
  assumes "r \<in> set (scoped_update owner ws P f rows)"
  obtains q where "q \<in> set rows" "r = (if owner q = ws \<and> P q then f q else q)"
  using assms by (auto simp: scoped_update_def)

lemma map_scoped_update:
  "(\<And>r. owner r = ws \<Longrightarrow> P r \<Longrightarrow> g (f r) = g r) \<Longrightarrow> map g (scoped_update owner ws P f rows) = map g rows"
  by (simp add: scoped_update_def)

text \<open>A keyed table: rows carry an owner and an id.  The laws are what every table
  of the database must offer a client that looks a row up, changes it by id and
  looks it up again.\<close>

locale keyed_table =
  fixes get :: "'s \<Rightarrow> 'r list"
    and upd :: "('r list \<Rightarrow> 'r list) \<Rightarrow> 's \<Rightarrow> 's"
    and owner :: "'r \<Rightarrow> uuid"
    and key :: "'r \<Rightarrow> uuid"
  assumes get_upd: "get (upd f s) = f (get s)"
    and upd_upd: "upd f (upd g s) = upd (\<lambda>rs. f (g rs)) s"
    and upd_id: "upd (\<lambda>rs. rs) s = s"
begin

abbreviation lookup :: "uuid \<Rightarrow> uuid \<Rightarrow> 's \<Rightarrow> 'r option" where
  "lookup ws i s \<equiv> scoped_find owner ws (\<lambda>r. key r = i) (get s)"

lemma lookup_insert_new:
  assumes "lookup (owner r) (key r) s = None"
  shows "lookup (owner r) (key r) (upd (insert_row r) s) = Some r"
  using assms by (simp add: get_upd insert_row_def scoped_find_def find_append)

lemma lookup_insert_old:
  assumes "lookup ws i s = Some q"
  shows "lookup ws i (upd (insert_row r) s) = Some q"
  using assms by (auto simp: get_upd insert_row_def scoped_find_def find_append
      split: option.splits)

lemma lookup_update:
  assumes "\<And>r. owner (f r) = owner r" and "\<And>r. key (f r) = key r"
    and "lookup ws i s = Some q"
  shows "lookup ws i (upd (scoped_update owner ws (\<lambda>r. key r = i) f) s) = Some (f q)"
proof -
  have "find (\<lambda>r. owner r = ws \<and> key r = i) rows = Some q \<Longrightarrow>
      find (\<lambda>r. owner r = ws \<and> key r = i)
        (map (\<lambda>r. if owner r = ws \<and> key r = i then f r else r) rows) = Some (f q)" for rows
    using assms(1,2) by (induction rows) (auto split: if_splits)
  then show ?thesis
    using assms(3) by (simp add: get_upd scoped_find_def scoped_update_def)
qed

lemma lookup_update_other:
  assumes "\<And>r. owner (f r) = owner r" and "\<And>r. key (f r) = key r" and "j \<noteq> i \<or> ws' \<noteq> ws"
  shows "lookup ws' j (upd (scoped_update owner ws (\<lambda>r. key r = i) f) s) = lookup ws' j s"
proof -
  have "find (\<lambda>r. owner r = ws' \<and> key r = j)
        (map (\<lambda>r. if owner r = ws \<and> key r = i then f r else r) rows)
      = find (\<lambda>r. owner r = ws' \<and> key r = j) rows" for rows
    using assms by (induction rows) auto
  then show ?thesis
    by (simp add: get_upd scoped_find_def scoped_update_def)
qed

lemma distinct_insert:
  assumes "distinct (map key (get s))" and "key r \<notin> key ` set (get s)"
  shows "distinct (map key (get (upd (insert_row r) s)))"
  using assms by (simp add: get_upd insert_row_def)

lemma keys_update:
  assumes "\<And>r. key (f r) = key r"
  shows "map key (get (upd (scoped_update owner ws P f) s)) = map key (get s)"
  using assms by (simp add: get_upd map_scoped_update)

lemma foreign_update:
  assumes "\<And>r. owner (f r) = owner r"
  shows "foreign_rows owner ws (get (upd (scoped_update owner ws P f) s)) = foreign_rows owner ws (get s)"
  using assms by (simp add: get_upd)

lemma foreign_insert:
  assumes "owner r = ws"
  shows "foreign_rows owner ws (get (upd (insert_row r) s)) = foreign_rows owner ws (get s)"
  using assms by (simp add: get_upd)

end

section \<open>Pages\<close>

text \<open>The rows after the last row of a page are the rest of the list.\<close>

lemma strict_take_filter:
  assumes "sorted_wrt R xs" and "0 < n" and "n \<le> length xs" and asym: "\<And>a b. R a b \<Longrightarrow> \<not> R b a"
  shows "filter (R (last (take n xs))) xs = drop n xs"
proof -
  let ?l = "last (take n xs)"
  have ne: "take n xs \<noteq> []" using assms(2,3) by auto
  have split: "sorted_wrt R (butlast (take n xs) @ [?l])" "\<forall>x \<in> set (take n xs). \<forall>y \<in> set (drop n xs). R x y"
    using assms(1) ne by (metis append_butlast_last_id append_take_drop_id sorted_wrt_append)+
  have "\<not> R ?l x" if "x \<in> set (take n xs)" for x
  proof -
    have "x \<in> set (butlast (take n xs) @ [?l])" using that ne by simp
    then show ?thesis using split(1) asym by (auto simp: sorted_wrt_append)
  qed
  then have "filter (R ?l) (take n xs) = []" by (simp add: filter_empty_conv)
  moreover have "filter (R ?l) (drop n xs) = drop n xs"
    using split(2) last_in_set [OF ne] by (intro filter_True) blast
  ultimately show ?thesis by (metis append_Nil append_take_drop_id filter_append)
qed

lemma sorted_groups:
  fixes f :: "'a \<Rightarrow> 'b :: linorder"
  assumes "sorted (map f ys)" and "\<And>k. sorted_wrt Q (filter (\<lambda>y. f y = k) ys)"
  shows "sorted_wrt (\<lambda>a b. f a < f b \<or> f a = f b \<and> Q a b) ys"
  using assms
proof (induction ys)
  case (Cons y ys)
  have "sorted_wrt Q (filter (\<lambda>y. f y = k) ys)" for k
    using Cons.prems(2) [of k] by (auto split: if_splits)
  moreover have "f y < f z \<or> f y = f z \<and> Q y z" if "z \<in> set ys" for z
    using Cons.prems(1) Cons.prems(2) [of "f y"] that by force
  ultimately show ?case using Cons by simp
qed simp

lemma double_sorted:
  fixes f :: "'a \<Rightarrow> 'b :: linorder" and g :: "'a \<Rightarrow> 'c :: linorder"
  assumes "distinct (map g xs)"
  shows "sorted_wrt (\<lambda>a b. f b < f a \<or> f b = f a \<and> g b < g a) (rev (sort_key f (sort_key g xs)))"
proof -
  have "distinct (map g (sort_key g xs))" using assms by (simp add: distinct_map)
  then have "sorted_wrt (<) (map g (sort_key g xs))" by (simp add: strict_sorted_iff)
  then have "sorted_wrt (\<lambda>a b. g a < g b) (sort_key g xs)" by (simp add: sorted_wrt_map)
  then have "sorted_wrt (\<lambda>a b. g a < g b) (filter (\<lambda>y. f y = k) (sort_key f (sort_key g xs)))" for k
    by (simp add: sort_key_stable sorted_wrt_filter)
  then have "sorted_wrt (\<lambda>a b. f a < f b \<or> f a = f b \<and> g a < g b) (sort_key f (sort_key g xs))"
    by (intro sorted_groups) simp_all
  then show ?thesis by (simp add: sorted_wrt_rev)
qed

end
