(* ===== verification/Json.thy ===== *)
theory Json
  imports Prelude "HOL-Library.Multiset"
begin

text \<open>
  JSON values and \<open>canonicalJson\<close> of \<open>apps/api/src/util/crypto.ts\<close>: the text an
  approval's content hash and an idempotency record's request hash are computed
  over.  Numbers are integers and a character is a code unit below 256, so a
  string here is the part of a JavaScript string that fits one byte per unit.

  The theory shows that the canonical text determines the value up to the order
  of object keys, so two requests with the same canonical text are the same
  request.
\<close>

datatype json =
    JNull
  | JBool bool
  | JNum int
  | JStr string
  | JArr "json list"
  | JObj "(string \<times> json) list"

section \<open>Text of numbers and strings\<close>

fun digits :: "nat \<Rightarrow> string" where
  "digits n = (if n < 10 then [char_of (48 + n)] else digits (n div 10) @ [char_of (48 + n mod 10)])"

declare digits.simps [simp del]

definition string_of_int :: "int \<Rightarrow> string" where
  "string_of_int i = (if i < 0 then CHR ''-'' # digits (nat (- i)) else digits (nat i))"

definition hex_digit :: "nat \<Rightarrow> char" where
  "hex_digit d = (if d < 10 then char_of (48 + d) else char_of (87 + d))"

definition escape_char :: "char \<Rightarrow> string" where
  "escape_char c =
     (let n = (of_char c :: nat) in
      if n = 34 then [CHR 0x5C, CHR 0x22]
      else if n = 92 then [CHR 0x5C, CHR 0x5C]
      else if n = 8 then [CHR 0x5C, CHR ''b'']
      else if n = 9 then [CHR 0x5C, CHR ''t'']
      else if n = 10 then [CHR 0x5C, CHR ''n'']
      else if n = 12 then [CHR 0x5C, CHR ''f'']
      else if n = 13 then [CHR 0x5C, CHR ''r'']
      else if n < 32 then [CHR 0x5C, CHR ''u'', CHR ''0'', CHR ''0'', hex_digit (n div 16), hex_digit (n mod 16)]
      else [c])"

definition quote :: "string \<Rightarrow> string" where
  "quote s = [CHR 0x22] @ concat (map escape_char s) @ [CHR 0x22]"

fun commas :: "string list \<Rightarrow> string" where
  "commas [] = []"
| "commas [x] = x"
| "commas (x # y # ys) = x @ [CHR '',''] @ commas (y # ys)"

section \<open>The canonical text\<close>

definition entry_text :: "string \<times> string \<Rightarrow> string" where
  "entry_text e = quote (fst e) @ [CHR '':''] @ snd e"

primrec canonicalJson :: "json \<Rightarrow> string" where
  "canonicalJson JNull = ''null''"
| "canonicalJson (JBool b) = (if b then ''true'' else ''false'')"
| "canonicalJson (JNum i) = string_of_int i"
| "canonicalJson (JStr s) = quote s"
| "canonicalJson (JArr vs) = [CHR ''[''] @ commas (map canonicalJson vs) @ [CHR '']'']"
| "canonicalJson (JObj kvs) =
     [CHR ''{''] @
     commas (map entry_text (sort_key fst (map (map_prod (\<lambda>k. k) canonicalJson) kvs))) @
     [CHR ''}'']"

definition hashRequestBody :: "(string \<Rightarrow> string) \<Rightarrow> json \<Rightarrow> string" where
  "hashRequestBody sha256Hex v = sha256Hex (canonicalJson v)"

text \<open>The same value with the keys of every object in order.\<close>

primrec sorted_keys :: "json \<Rightarrow> json" where
  "sorted_keys JNull = JNull"
| "sorted_keys (JBool b) = JBool b"
| "sorted_keys (JNum i) = JNum i"
| "sorted_keys (JStr s) = JStr s"
| "sorted_keys (JArr vs) = JArr (map sorted_keys vs)"
| "sorted_keys (JObj kvs) = JObj (sort_key fst (map (map_prod (\<lambda>k. k) sorted_keys) kvs))"

text \<open>The text of a value as it stands.\<close>

primrec json_text :: "json \<Rightarrow> string" where
  "json_text JNull = ''null''"
| "json_text (JBool b) = (if b then ''true'' else ''false'')"
| "json_text (JNum i) = string_of_int i"
| "json_text (JStr s) = quote s"
| "json_text (JArr vs) = [CHR ''[''] @ commas (map json_text vs) @ [CHR '']'']"
| "json_text (JObj kvs) =
     [CHR ''{''] @ commas (map entry_text (map (map_prod (\<lambda>k. k) json_text) kvs)) @ [CHR ''}'']"

lemma insort_key_map_fst:
  "insort_key fst (map_prod (\<lambda>k. k) f x) (map (map_prod (\<lambda>k. k) f) xs) =
     map (map_prod (\<lambda>k. k) f) (insort_key fst x xs)"
  by (induction xs) auto

lemma sort_key_map_fst:
  "sort_key fst (map (map_prod (\<lambda>k. k) f) xs) = map (map_prod (\<lambda>k. k) f) (sort_key fst xs)"
  by (induction xs) (simp_all add: insort_key_map_fst sort_key_def)

lemma canonicalJson_text: "canonicalJson v = json_text (sorted_keys v)"
proof (induction v)
  case (JArr vs)
  then show ?case by (simp cong: map_cong)
next
  case (JObj kvs)
  have "map (map_prod (\<lambda>k. k) canonicalJson) kvs =
        map (map_prod (\<lambda>k. k) json_text) (map (map_prod (\<lambda>k. k) sorted_keys) kvs)"
    using JObj by auto
  then show ?case by (simp add: sort_key_map_fst del: map_map)
qed simp_all

section \<open>Reading the text back\<close>

definition is_digit :: "char \<Rightarrow> bool" where
  "is_digit c \<longleftrightarrow> 48 \<le> (of_char c :: nat) \<and> (of_char c :: nat) \<le> 57"

definition stops :: "string \<Rightarrow> bool" where
  "stops r \<longleftrightarrow> r = [] \<or> hd r \<in> {CHR '','', CHR '']'', CHR ''}''}"

definition digits_value :: "string \<Rightarrow> nat" where
  "digits_value = foldl (\<lambda>a c. 10 * a + (of_char c - 48)) 0"

lemma digits_value_digits: "digits_value (digits n) = n"
proof (induction n rule: digits.induct)
  case (1 n)
  then show ?case
    by (subst digits.simps) (auto simp: digits_value_def)
qed

lemma digits_are_digits: "c \<in> set (digits n) \<Longrightarrow> is_digit c"
proof (induction n rule: digits.induct)
  case (1 n)
  show ?case
  proof (cases "n < 10")
    case True
    then show ?thesis using "1.prems" by (subst (asm) digits.simps) (auto simp: is_digit_def)
  next
    case False
    have "n mod 10 < 10" by simp
    then show ?thesis
      using False "1.prems" "1.IH" by (subst (asm) digits.simps) (auto simp: is_digit_def)
  qed
qed

lemma digits_nonempty: "digits n \<noteq> []"
  by (subst digits.simps) simp

lemma stops_not_digit: "stops r \<Longrightarrow> takeWhile is_digit r = []"
  by (cases r) (auto simp: stops_def is_digit_def)

lemma takeWhile_digits: "stops r \<Longrightarrow> takeWhile is_digit (digits n @ r) = digits n"
  using digits_are_digits [of _ n]
  by (simp add: takeWhile_append2 stops_not_digit)

lemma digits_prefix:
  assumes "digits n @ r = digits m @ u" "stops r" "stops u"
  shows "n = m \<and> r = u"
proof -
  have "digits n = digits m"
    using assms takeWhile_digits by metis
  then show ?thesis
    using assms(1) digits_value_digits by (metis append_same_eq same_append_eq)
qed

lemma hd_digits: "is_digit (hd (digits n))"
  using digits_are_digits digits_nonempty hd_in_set by blast

lemma string_of_int_prefix:
  assumes eq: "string_of_int i @ r = string_of_int j @ u" and st: "stops r" "stops u"
  shows "i = j \<and> r = u"
proof -
  have minus: "CHR ''-'' # xs \<noteq> digits n @ ys" for xs ys n
    using hd_digits [of n] digits_nonempty [of n]
    by (cases "digits n") (auto simp: is_digit_def)
  have ij: "i < 0 \<longleftrightarrow> j < 0"
    using eq minus minus [symmetric] by (auto simp: string_of_int_def split: if_splits)
  show ?thesis
  proof (cases "i < 0")
    case True
    then have "digits (nat (- i)) @ r = digits (nat (- j)) @ u"
      using eq ij by (simp add: string_of_int_def)
    from digits_prefix [OF this st] show ?thesis using True ij by linarith
  next
    case False
    then have "digits (nat i) @ r = digits (nat j) @ u"
      using eq ij by (simp add: string_of_int_def)
    from digits_prefix [OF this st] show ?thesis using False ij by linarith
  qed
qed

lemma of_char_hex_digit: "a < 16 \<Longrightarrow> (of_char (hex_digit a) :: nat) = (if a < 10 then 48 + a else 87 + a)"
  by (simp add: hex_digit_def)

definition hex_value :: "char \<Rightarrow> nat" where
  "hex_value c = (let n = of_char c in if n < 58 then n - 48 else n - 87)"

lemma hex_value_digit: "a < 16 \<Longrightarrow> hex_value (hex_digit a) = a"
  by (simp add: hex_value_def of_char_hex_digit)

fun unescape :: "string \<Rightarrow> char \<times> string" where
  "unescape (a # xs) =
     (if a \<noteq> CHR 0x5C then (a, xs)
      else case xs of
        [] \<Rightarrow> (a, [])
      | b # ys \<Rightarrow>
          if b = CHR ''u'' then (char_of (16 * hex_value (ys ! 2) + hex_value (ys ! 3)), drop 4 ys)
          else if b = CHR ''b'' then (char_of (8 :: nat), ys)
          else if b = CHR ''t'' then (char_of (9 :: nat), ys)
          else if b = CHR ''n'' then (char_of (10 :: nat), ys)
          else if b = CHR ''f'' then (char_of (12 :: nat), ys)
          else if b = CHR ''r'' then (char_of (13 :: nat), ys)
          else (b, ys))"
| "unescape [] = (CHR 0x00, [])"

lemma char_ofI: "(of_char c :: nat) = n \<Longrightarrow> char_of n = c"
  by (metis char_of_char)

lemma unescape_escape: "unescape (escape_char c @ r) = (c, r)"
proof -
  define n where "n = (of_char c :: nat)"
  have c: "char_of n = c" by (simp add: n_def)
  have q: "char_of (34 :: nat) = CHR 0x22" "char_of (92 :: nat) = CHR 0x5C" by code_simp+
  have bs: "c = CHR 0x5C \<Longrightarrow> n = 92" by (simp add: n_def)
  have hex: "n < 32 \<Longrightarrow> 16 * hex_value (hex_digit (n div 16)) + hex_value (hex_digit (n mod 16)) = n"
    by (simp add: hex_value_digit)
  consider "n = 34" | "n = 92" | "n = 8" | "n = 9" | "n = 10" | "n = 12" | "n = 13"
    | "n < 32" "n \<notin> {8, 9, 10, 12, 13}" | "n \<ge> 32" "n \<noteq> 34" "n \<noteq> 92"
    by fastforce
  then show ?thesis
  proof cases
    case 1
    then have "c = CHR 0x22" using c q by simp
    then show ?thesis by (simp add: escape_char_def)
  next
    case 2
    then have "c = CHR 0x5C" using c q by simp
    then show ?thesis by (simp add: escape_char_def)
  next
    case 8
    then have "escape_char c = [CHR 0x5C, CHR ''u'', CHR ''0'', CHR ''0'', hex_digit (n div 16), hex_digit (n mod 16)]"
      unfolding escape_char_def n_def [symmetric] by simp
    then show ?thesis using hex 8 c by simp
  next
    case 9
    then have "escape_char c = [c]" unfolding escape_char_def n_def [symmetric] by simp
    then show ?thesis using bs 9 by auto
  qed (use c in \<open>simp_all add: escape_char_def n_def [symmetric]\<close>)
qed

lemma escape_char_prefix:
  assumes "escape_char c @ r = escape_char d @ u"
  shows "c = d \<and> r = u"
  using assms unescape_escape by (metis prod.inject)

lemma escape_char_Cons: "\<exists>a xs. escape_char c = a # xs"
  by (simp add: escape_char_def Let_def)

lemma escape_char_head: "escape_char c = a # xs \<Longrightarrow> a \<noteq> CHR 0x22"
  by (auto simp: escape_char_def Let_def split: if_splits)

lemma quote_prefix_aux:
  "concat (map escape_char s) @ CHR 0x22 # r = concat (map escape_char t) @ CHR 0x22 # u \<Longrightarrow> s = t \<and> r = u"
proof (induction s arbitrary: t)
  case Nil
  then show ?case
  proof (cases t)
    case (Cons d t')
    obtain a xs where "escape_char d = a # xs"
      using escape_char_Cons by blast
    then show ?thesis using Nil Cons escape_char_head by fastforce
  qed simp
next
  case (Cons c s)
  obtain a xs where ac: "escape_char c = a # xs"
    using escape_char_Cons by blast
  show ?case
  proof (cases t)
    case Nil
    then show ?thesis using Cons.prems ac escape_char_head by fastforce
  next
    case (Cons d t')
    with Cons.prems have "c = d \<and> concat (map escape_char s) @ CHR 0x22 # r = concat (map escape_char t') @ CHR 0x22 # u"
      by (intro escape_char_prefix) simp
    then show ?thesis using Cons.IH Cons by blast
  qed
qed

lemma quote_prefix: "quote s @ r = quote t @ u \<Longrightarrow> s = t \<and> r = u"
  unfolding quote_def by (rule quote_prefix_aux) simp

section \<open>The text determines the value\<close>

text \<open>\<open>readable f x\<close>: wherever \<open>f x\<close> stands before a delimiter, it can be read back in
  one way only.\<close>

definition readable :: "('a \<Rightarrow> string) \<Rightarrow> 'a \<Rightarrow> bool" where
  "readable f x \<longleftrightarrow>
     (f x \<noteq> [] \<and> hd (f x) \<notin> {CHR '','', CHR '']'', CHR ''}''}) \<and>
     (\<forall>y r u. stops r \<longrightarrow> stops u \<longrightarrow> f x @ r = f y @ u \<longrightarrow> x = y \<and> r = u)"

lemma commas_Cons: "commas (x # xs) = x @ (if xs = [] then [] else CHR '','' # commas xs)"
  by (cases xs) simp_all

lemma commas_prefix:
  assumes "\<And>x. x \<in> set xs \<Longrightarrow> readable f x"
    and "\<And>y. y \<in> set ys \<Longrightarrow> f y \<noteq> [] \<and> hd (f y) \<notin> {CHR '','', CHR '']'', CHR ''}''}"
    and "commas (map f xs) @ e # r = commas (map f ys) @ e # u" and "e \<in> {CHR '']'', CHR ''}''}"
  shows "xs = ys \<and> r = u"
  using assms
proof (induction xs arbitrary: ys)
  case Nil
  then show ?case
  proof (cases ys)
    case (Cons y ys')
    then obtain a t where "f y = a # t" "a \<noteq> e"
      using Nil.prems(2) [of y] Nil.prems(4) by (cases "f y") auto
    then show ?thesis using Nil.prems(3) Cons by (simp add: commas_Cons)
  qed simp
next
  case (Cons x xs)
  have rx: "readable f x" using Cons.prems(1) by simp
  show ?case
  proof (cases ys)
    case Nil
    then show ?thesis
      using Cons.prems(3,4) rx by (cases "f x") (auto simp: commas_Cons readable_def)
  next
    case (Cons y ys')
    let ?R = "(if xs = [] then [] else CHR '','' # commas (map f xs)) @ e # r"
    let ?U = "(if ys' = [] then [] else CHR '','' # commas (map f ys')) @ e # u"
    have "f x @ ?R = f y @ ?U"
      using Cons.prems(3) Cons by (simp add: commas_Cons)
    moreover have "stops ?R" "stops ?U"
      using Cons.prems(4) by (auto simp: stops_def)
    ultimately have xy: "x = y" and RU: "?R = ?U"
      using rx unfolding readable_def by blast+
    have "commas (map f xs) @ e # r = commas (map f ys') @ e # u"
      using RU Cons.prems(4) by (auto split: if_splits)
    then have "xs = ys' \<and> r = u"
      using Cons.IH [of ys'] Cons.prems Cons by simp
    then show ?thesis using xy Cons by simp
  qed
qed

lemma json_text_head:
  "json_text v \<noteq> [] \<and> hd (json_text v) \<notin> {CHR '','', CHR '']'', CHR ''}''}"
proof (cases v)
  case (JNum i)
  then show ?thesis
    using hd_digits [of "nat i"] digits_nonempty [of "nat i"]
    by (auto simp: string_of_int_def is_digit_def)
qed (auto simp: quote_def)

definition pair_text :: "string \<times> json \<Rightarrow> string" where
  "pair_text e = entry_text (map_prod (\<lambda>k. k) json_text e)"

lemma pair_text_head: "pair_text e \<noteq> [] \<and> hd (pair_text e) \<notin> {CHR '','', CHR '']'', CHR ''}''}"
  by (simp add: pair_text_def entry_text_def quote_def)

lemma readable_pair:
  assumes "readable json_text (snd e)"
  shows "readable pair_text e"
  unfolding readable_def
proof (intro conjI allI impI pair_text_head [THEN conjunct1] pair_text_head [THEN conjunct2])
  fix y r u
  assume st: "stops r" "stops u" and eq: "pair_text e @ r = pair_text y @ u"
  then have "fst e = fst y \<and> CHR '':'' # json_text (snd e) @ r = CHR '':'' # json_text (snd y) @ u"
    by (intro quote_prefix) (simp add: pair_text_def entry_text_def)
  then have "fst e = fst y" "snd e = snd y \<and> r = u"
    using assms st unfolding readable_def by auto
  then show "e = y" "r = u" by (auto simp: prod_eq_iff)
qed

lemma json_text_obj: "json_text (JObj kvs) = CHR ''{'' # commas (map pair_text kvs) @ [CHR ''}'']"
  by (simp add: pair_text_def [abs_def] comp_def)

definition kind_char :: "json \<Rightarrow> char" where
  "kind_char v = (case v of JNull \<Rightarrow> CHR ''n'' | JBool b \<Rightarrow> (if b then CHR ''t'' else CHR ''f'')
     | JNum _ \<Rightarrow> CHR ''0'' | JStr _ \<Rightarrow> CHR 0x22 | JArr _ \<Rightarrow> CHR ''['' | JObj _ \<Rightarrow> CHR ''{'')"

definition char_kind :: "char \<Rightarrow> char" where
  "char_kind c = (if c = CHR ''-'' \<or> is_digit c then CHR ''0'' else c)"

lemma char_kind_text: "char_kind (hd (json_text v)) = kind_char v"
proof (cases v)
  case (JNum i)
  then show ?thesis
    using hd_digits [of "nat i"] digits_nonempty [of "nat i"]
    by (auto simp: string_of_int_def char_kind_def kind_char_def)
qed (auto simp: kind_char_def char_kind_def is_digit_def quote_def)

lemma same_kind: "json_text v @ r = json_text w @ u \<Longrightarrow> kind_char v = kind_char w"
  using char_kind_text json_text_head by (metis hd_append2)

lemma readable_json_text: "readable json_text v"
proof (induction v)
  case (JArr vs)
  show ?case
    unfolding readable_def
  proof (intro conjI allI impI json_text_head [THEN conjunct1] json_text_head [THEN conjunct2])
    fix w r u
    assume eq: "json_text (JArr vs) @ r = json_text w @ u"
    then obtain ws where w: "w = JArr ws"
      using same_kind [OF eq] by (cases w) (auto simp: kind_char_def split: if_splits)
    have "vs = ws \<and> r = u"
      by (rule commas_prefix [of _ json_text _ "CHR '']''"]) (use JArr json_text_head eq w in auto)
    then show "JArr vs = w" "r = u" using w by simp_all
  qed
next
  case (JObj kvs)
  show ?case
    unfolding readable_def
  proof (intro conjI allI impI json_text_head [THEN conjunct1] json_text_head [THEN conjunct2])
    fix w r u
    assume eq: "json_text (JObj kvs) @ r = json_text w @ u"
    then obtain ws where w: "w = JObj ws"
      using same_kind [OF eq] by (cases w) (auto simp: kind_char_def split: if_splits)
    have re: "readable pair_text e" if "e \<in> set kvs" for e
      using JObj [OF that, of "snd e"] by (intro readable_pair) (simp add: prod_set_defs)
    have "kvs = ws \<and> r = u"
      by (rule commas_prefix [of _ pair_text _ "CHR ''}''"])
         (use re pair_text_head eq w in \<open>auto simp del: json_text.simps simp: json_text_obj\<close>)
    then show "JObj kvs = w" "r = u" using w by simp_all
  qed
next
  case (JNum i)
  show ?case
    unfolding readable_def
  proof (intro conjI allI impI json_text_head [THEN conjunct1] json_text_head [THEN conjunct2])
    fix w r u
    assume st: "stops r" "stops u" and eq: "json_text (JNum i) @ r = json_text w @ u"
    then obtain j where w: "w = JNum j"
      using same_kind [OF eq] by (cases w) (auto simp: kind_char_def split: if_splits)
    then show "JNum i = w" "r = u" using string_of_int_prefix [of i r j u] st eq by simp_all
  qed
next
  case (JStr s)
  show ?case
    unfolding readable_def
  proof (intro conjI allI impI json_text_head [THEN conjunct1] json_text_head [THEN conjunct2])
    fix w r u
    assume eq: "json_text (JStr s) @ r = json_text w @ u"
    then obtain t where w: "w = JStr t"
      using same_kind [OF eq] by (cases w) (auto simp: kind_char_def split: if_splits)
    then show "JStr s = w" "r = u" using quote_prefix [of s r t u] eq by simp_all
  qed
next
  case (JBool b)
  show ?case
    unfolding readable_def
  proof (intro conjI allI impI json_text_head [THEN conjunct1] json_text_head [THEN conjunct2])
    fix w r u
    assume eq: "json_text (JBool b) @ r = json_text w @ u"
    then have "w = JBool b"
      using same_kind [OF eq] by (cases w) (auto simp: kind_char_def split: if_splits)
    then show "JBool b = w" "r = u" using eq by (auto split: if_splits)
  qed
next
  case JNull
  show ?case
    unfolding readable_def
  proof (intro conjI allI impI json_text_head [THEN conjunct1] json_text_head [THEN conjunct2])
    fix w r u
    assume eq: "json_text JNull @ r = json_text w @ u"
    then have "w = JNull"
      using same_kind [OF eq] by (cases w) (auto simp: kind_char_def split: if_splits)
    then show "JNull = w" "r = u" using eq by auto
  qed
qed

lemma json_text_inject: "json_text v = json_text w \<longleftrightarrow> v = w"
  using readable_json_text [of v] unfolding readable_def by (metis append_Nil2 stops_def)

lemma canonicalJson_eq_iff: "canonicalJson v = canonicalJson w \<longleftrightarrow> sorted_keys v = sorted_keys w"
  by (simp add: canonicalJson_text json_text_inject)

text \<open>Objects whose keys are already in order and nested values already sorted are
  left alone, which is how the fixed-shape objects of the API are compared.\<close>

lemma sorted_keys_flat:
  assumes "\<And>v. v \<in> snd ` set kvs \<Longrightarrow> sorted_keys v = v" and "sorted (map fst kvs)"
  shows "sorted_keys (JObj kvs) = JObj kvs"
proof -
  have "map (map_prod (\<lambda>k. k) sorted_keys) kvs = kvs"
    using assms(1) by (intro map_idI) (auto simp: prod_eq_iff)
  then show ?thesis using assms(2) by (simp add: sort_key_id_if_sorted)
qed

lemma sorted_keys_perm:
  assumes "mset kvs = mset kvs'" and "distinct (map fst kvs)"
  shows "sorted_keys (JObj kvs) = sorted_keys (JObj kvs')"
proof -
  let ?f = "map_prod (\<lambda>k::string. k) sorted_keys"
  have "mset (map fst kvs') = mset (map fst kvs)"
    using assms(1) by simp
  then have "distinct (map fst kvs')"
    using assms(2) mset_eq_imp_distinct_iff by blast
  then have "inj_on fst (set kvs')"
    by (simp add: distinct_map)
  then have inj: "inj_on fst (set (map ?f kvs'))"
    by (auto simp: inj_on_def)
  have "sort_key fst (map ?f kvs') = sort_key fst (map ?f kvs)"
    by (rule sort_key_inj_key_eq) (use assms(1) inj in simp_all)
  then show ?thesis by simp
qed

end
