(* ===== verification/Clock.thy ===== *)
theory Clock
  imports Json
begin

text \<open>
  The part of the JavaScript runtime the handlers use: \<open>Date.prototype.toISOString\<close>
  on millisecond timestamps, \<open>String.prototype.trim\<close> and \<open>slice\<close>, and the
  environment of one request.  A request reads the clock several times in the code;
  here it reads it once, so every \<open>new Date()\<close> of one handler is the same instant.

  SHA-256 (\<open>node:crypto\<close>), random bytes and the URL parser are not code of the
  repository.  The digest and the parser are fields of the environment; random
  values and the row ids PostgreSQL generates are arguments of the handlers.
\<close>

section \<open>Timestamps\<close>

definition civil_from_days :: "int \<Rightarrow> int \<times> int \<times> int" where
  "civil_from_days days =
     (let z = days + 719468;
          era = z div 146097;
          doe = z mod 146097;
          yoe = (doe - doe div 1460 + doe div 36524 - doe div 146096) div 365;
          doy = doe - (365 * yoe + yoe div 4 - yoe div 100);
          mp = (5 * doy + 2) div 153;
          d = doy - (153 * mp + 2) div 5 + 1;
          m = (if mp < 10 then mp + 3 else mp - 9)
      in (yoe + era * 400 + (if m \<le> 2 then 1 else 0), m, d))"

definition pad :: "nat \<Rightarrow> int \<Rightarrow> string" where
  "pad w i = (let s = string_of_int i in replicate (w - length s) CHR ''0'' @ s)"

text \<open>\<open>toISOString\<close> for the years 0 to 9999, which are the years it prints with four digits.\<close>

definition toISOString :: "timestamp \<Rightarrow> string" where
  "toISOString t =
     (let ms = t mod 86400000;
          ymd = civil_from_days (t div 86400000);
          y = fst ymd; m = fst (snd ymd); d = snd (snd ymd)
      in pad 4 y @ ''-'' @ pad 2 m @ ''-'' @ pad 2 d @ ''T'' @
         pad 2 (ms div 3600000) @ '':'' @ pad 2 (ms div 60000 mod 60) @ '':'' @
         pad 2 (ms div 1000 mod 60) @ ''.'' @ pad 3 (ms mod 1000) @ ''Z'')"

lemma toISOString_epoch: "toISOString 0 = ''1970-01-01T00:00:00.000Z''"
  by code_simp

lemma toISOString_sample: "toISOString 1767225599999 = ''2025-12-31T23:59:59.999Z''"
  by code_simp

section \<open>Strings\<close>

definition is_space :: "char \<Rightarrow> bool" where
  "is_space c = (let n = (of_char c :: nat) in n = 32 \<or> (9 \<le> n \<and> n \<le> 13) \<or> n = 160)"

definition trim :: "string \<Rightarrow> string" where
  "trim s = rev (dropWhile is_space (rev (dropWhile is_space s)))"

definition slice :: "nat \<Rightarrow> string \<Rightarrow> string" where
  "slice n s = take n s"

section \<open>The environment of a request\<close>

record url =
  url_protocol :: string
  url_username :: string
  url_password :: string
  url_host :: string
  url_hostname :: string
  url_port :: string
  url_pathname :: string
  url_params :: "(string \<times> string) list"
  url_origin :: string
  url_href :: string

record env =
  now :: timestamp
  sha256Hex :: "string \<Rightarrow> string"
  parse_url :: "string \<Rightarrow> url option"

section \<open>JSON of optional values\<close>

definition jopt :: "('a \<Rightarrow> json) \<Rightarrow> 'a option \<Rightarrow> json" where
  "jopt f x = (case x of None \<Rightarrow> JNull | Some a \<Rightarrow> f a)"

definition jstrs :: "string list \<Rightarrow> json" where
  "jstrs xs = JArr (map JStr xs)"

lemma jopt_inject:
  assumes "\<And>a b. f a = f b \<longleftrightarrow> a = b" and "\<And>a. f a \<noteq> JNull"
  shows "jopt f x = jopt f y \<longleftrightarrow> x = y"
  using assms(2) assms(2) [symmetric] by (auto simp: jopt_def assms(1) split: option.splits)

lemma jopt_JStr_inject [simp]: "jopt JStr x = jopt JStr y \<longleftrightarrow> x = y"
  by (rule jopt_inject) simp_all

lemma jstrs_inject [simp]: "jstrs xs = jstrs ys \<longleftrightarrow> xs = ys"
  by (simp add: jstrs_def inj_map_eq_map inj_def)

lemma sorted_keys_jstrs [simp]: "sorted_keys (jstrs xs) = jstrs xs"
  by (simp add: jstrs_def)

lemma sorted_keys_jopt_JStr [simp]: "sorted_keys (jopt JStr x) = jopt JStr x"
  by (simp add: jopt_def split: option.splits)

end
