(* ===== verification/AppContract.thy ===== *)
theory AppContract
  imports Clock
begin

text \<open>
  The application vocabulary of \<open>packages/contracts/src/schemas\<close>: statuses and the
  transition table, packet answers, the destination, the material a content hash
  covers, submission evidence and reportable outcomes.  Length bounds of the wire
  schemas are not carried: the schema validator is a library, and none of the
  domain rules below depends on a string's length.
\<close>

section \<open>Answers\<close>

datatype answer_scope = ScopeGeneral | ScopeCompany | ScopeJob

datatype answer_sensitivity = Standard | Sensitive | NeverReuse

text \<open>\<open>Type.Number()\<close> is a double on the wire; answers are modelled with integers.\<close>

datatype answer_value = AString string | ANumber int | ABool bool | AStrings "string list"

section \<open>Statuses\<close>

datatype application_status =
    Draft
  | Preparing
  | NeedsInput
  | ReadyForReview
  | Approved
  | Filling
  | AwaitingUserSubmit
  | Submitted
  | OutcomeUnknown
  | Failed
  | Cancelled
  | Interview
  | Rejected
  | Offer
  | Withdrawn

definition all_application_statuses :: "application_status list" where
  "all_application_statuses =
     [Draft, Preparing, NeedsInput, ReadyForReview, Approved, Filling, AwaitingUserSubmit,
      Submitted, OutcomeUnknown, Failed, Cancelled, Interview, Rejected, Offer, Withdrawn]"

fun status_text :: "application_status \<Rightarrow> string" where
  "status_text Draft = ''draft''"
| "status_text Preparing = ''preparing''"
| "status_text NeedsInput = ''needs_input''"
| "status_text ReadyForReview = ''ready_for_review''"
| "status_text Approved = ''approved''"
| "status_text Filling = ''filling''"
| "status_text AwaitingUserSubmit = ''awaiting_user_submit''"
| "status_text Submitted = ''submitted''"
| "status_text OutcomeUnknown = ''outcome_unknown''"
| "status_text Failed = ''failed''"
| "status_text Cancelled = ''cancelled''"
| "status_text Interview = ''interview''"
| "status_text Rejected = ''rejected''"
| "status_text Offer = ''offer''"
| "status_text Withdrawn = ''withdrawn''"

fun application_transitions :: "application_status \<Rightarrow> application_status list" where
  "application_transitions Draft = [Preparing, Submitted, Cancelled]"
| "application_transitions Preparing = [NeedsInput, ReadyForReview, Failed, Cancelled]"
| "application_transitions NeedsInput = [Preparing, Submitted, Cancelled]"
| "application_transitions ReadyForReview = [Approved, Preparing, Cancelled]"
| "application_transitions Approved = [Filling, Preparing, ReadyForReview, Submitted, Cancelled]"
| "application_transitions Filling =
     [AwaitingUserSubmit, NeedsInput, Approved, Failed, Preparing, Cancelled]"
| "application_transitions AwaitingUserSubmit = [Submitted, OutcomeUnknown, Failed, Cancelled]"
| "application_transitions Submitted = [Interview, Rejected, Offer, Withdrawn, OutcomeUnknown]"
| "application_transitions OutcomeUnknown = [Submitted, Preparing]"
| "application_transitions Failed = [Preparing, Cancelled]"
| "application_transitions Cancelled = []"
| "application_transitions Interview = [Rejected, Offer, Withdrawn]"
| "application_transitions Rejected = []"
| "application_transitions Offer = []"
| "application_transitions Withdrawn = []"

definition terminal_application_statuses :: "application_status list" where
  "terminal_application_statuses = [Cancelled, Rejected, Offer, Withdrawn]"

definition submitted_application_statuses :: "application_status list" where
  "submitted_application_statuses =
     [Submitted, OutcomeUnknown, Interview, Rejected, Offer, Withdrawn]"

definition isAllowedApplicationTransition :: "application_status \<Rightarrow> application_status \<Rightarrow> bool" where
  "isAllowedApplicationTransition old new \<longleftrightarrow> old = new \<or> new \<in> set (application_transitions old)"

section \<open>Events\<close>

datatype application_actor = ActorUser | ActorSystem | ActorRunner

datatype application_event_type =
    EvCreated
  | EvPacketCreated
  | EvPacketApproved
  | EvApprovalInvalidated
  | EvApprovalExpired
  | EvFillRequested
  | EvFillPaused
  | EvFillFailed
  | EvSubmitted
  | EvOutcomeRecorded
  | EvCancelled
  | EvNote

section \<open>Packets\<close>

definition packet_hash_version :: int where
  "packet_hash_version = 1"

definition packet_approval_max_ttl_hours :: int where
  "packet_approval_max_ttl_hours = 24"

datatype provenance = UserEntered | FromAnswerBank | FromProfileFact | FromPreference

fun provenance_text :: "provenance \<Rightarrow> string" where
  "provenance_text UserEntered = ''user_entered''"
| "provenance_text FromAnswerBank = ''answer_bank''"
| "provenance_text FromProfileFact = ''profile_fact''"
| "provenance_text FromPreference = ''preference''"

record packet_answer =
  pa_question_key :: string
  pa_label :: "string option"
  pa_answer :: "answer_value option"
  pa_required :: bool
  pa_sensitivity :: answer_sensitivity
  pa_provenance :: provenance
  pa_source_id :: "uuid option"

record packet_destination =
  pd_url :: string
  pd_origin :: string
  pd_connector :: "string option"
  pd_connector_version :: "string option"

record hashed_answer =
  ha_question_key :: string
  ha_answer :: "answer_value option"
  ha_provenance :: provenance

record packet_hash_material =
  hm_hash_version :: int
  hm_profile_revision :: int
  hm_job_id :: uuid
  hm_job_revision :: int
  hm_resume_id :: uuid
  hm_resume_sha256 :: "string option"
  hm_destination :: packet_destination
  hm_form_fingerprint :: "string option"
  hm_answers :: "hashed_answer list"

datatype staleness_reason =
    ProfileRevisionChanged
  | JobRevisionChanged
  | ResumeChanged
  | DestinationChanged
  | FormSchemaChanged
  | ApprovalExpired

fun staleness_text :: "staleness_reason \<Rightarrow> string" where
  "staleness_text ProfileRevisionChanged = ''profile_revision_changed''"
| "staleness_text JobRevisionChanged = ''job_revision_changed''"
| "staleness_text ResumeChanged = ''resume_changed''"
| "staleness_text DestinationChanged = ''destination_changed''"
| "staleness_text FormSchemaChanged = ''form_schema_changed''"
| "staleness_text ApprovalExpired = ''approval_expired''"

section \<open>Evidence and outcomes\<close>

datatype evidence_type = AdapterObserved | UserReport | NoEvidence

fun evidence_text :: "evidence_type \<Rightarrow> string" where
  "evidence_text AdapterObserved = ''adapter_observed''"
| "evidence_text UserReport = ''user_report''"
| "evidence_text NoEvidence = ''none''"

record submission_evidence =
  se_evidence_type :: evidence_type
  se_confirmation_text :: "string option"
  se_reference :: "string option"
  se_url :: "string option"
  se_observed_at :: "timestamp option"
  se_screenshot_file_id :: "uuid option"
  se_note :: "string option"

datatype application_outcome =
    OutSubmitted
  | OutNotSubmitted
  | OutOutcomeUnknown
  | OutInterview
  | OutRejected
  | OutOffer
  | OutWithdrawn
  | OutCancelled

fun outcome_text :: "application_outcome \<Rightarrow> string" where
  "outcome_text OutSubmitted = ''submitted''"
| "outcome_text OutNotSubmitted = ''not_submitted''"
| "outcome_text OutOutcomeUnknown = ''outcome_unknown''"
| "outcome_text OutInterview = ''interview''"
| "outcome_text OutRejected = ''rejected''"
| "outcome_text OutOffer = ''offer''"
| "outcome_text OutWithdrawn = ''withdrawn''"
| "outcome_text OutCancelled = ''cancelled''"

fun application_outcome_status :: "application_outcome \<Rightarrow> application_status" where
  "application_outcome_status OutSubmitted = Submitted"
| "application_outcome_status OutNotSubmitted = Preparing"
| "application_outcome_status OutOutcomeUnknown = OutcomeUnknown"
| "application_outcome_status OutInterview = Interview"
| "application_outcome_status OutRejected = Rejected"
| "application_outcome_status OutOffer = Offer"
| "application_outcome_status OutWithdrawn = Withdrawn"
| "application_outcome_status OutCancelled = Cancelled"

definition isOutcomeAllowedFrom :: "application_status \<Rightarrow> application_outcome \<Rightarrow> bool" where
  "isOutcomeAllowedFrom status outcome \<longleftrightarrow>
     application_outcome_status outcome \<noteq> status \<and>
     isAllowedApplicationTransition status (application_outcome_status outcome)"

section \<open>Requests\<close>

record create_packet_request =
  cp_expected_revision :: int
  cp_resume_id :: uuid
  cp_answers :: "packet_answer list"
  cp_form_fingerprint :: "string option"

record approve_request =
  ar_expected_revision :: int
  ar_packet_id :: uuid
  ar_content_hash :: string

record outcome_evidence =
  oe_confirmation_text :: "string option"
  oe_reference :: "string option"
  oe_url :: "string option"
  oe_observed_at :: "timestamp option"
  oe_screenshot_file_id :: "uuid option"
  oe_note :: "string option"

record outcome_request =
  or_expected_revision :: int
  or_outcome :: application_outcome
  or_evidence_type :: evidence_type
  or_evidence :: "outcome_evidence option"

section \<open>Facts about the transition table\<close>

text \<open>A walk along permitted transitions, as \<open>transitionApplication\<close> checks it.\<close>

fun allowed_path :: "application_status \<Rightarrow> application_status list \<Rightarrow> bool" where
  "allowed_path s [] = True"
| "allowed_path s (t # ts) \<longleftrightarrow> isAllowedApplicationTransition s t \<and> allowed_path t ts"

lemma allowed_path_append:
  "allowed_path s (xs @ ys) \<longleftrightarrow> allowed_path s xs \<and> allowed_path (last (s # xs)) ys"
  by (induction xs arbitrary: s) auto

lemma terminal_no_exit:
  "s \<in> set terminal_application_statuses \<Longrightarrow> isAllowedApplicationTransition s t \<longleftrightarrow> t = s"
  by (auto simp: terminal_application_statuses_def isAllowedApplicationTransition_def)

lemma terminal_path:
  "s \<in> set terminal_application_statuses \<Longrightarrow> allowed_path s ts \<Longrightarrow> last (s # ts) = s"
  by (induction ts arbitrary: s) (auto simp: terminal_no_exit)

lemma submitted_exit:
  assumes "s \<in> set submitted_application_statuses" and "isAllowedApplicationTransition s t"
    and "t \<notin> set submitted_application_statuses"
  shows "s = OutcomeUnknown \<and> t = Preparing"
  using assms
  by (cases s) (auto simp: submitted_application_statuses_def isAllowedApplicationTransition_def)

lemma approved_entry:
  "isAllowedApplicationTransition s Approved \<Longrightarrow> s \<in> {ReadyForReview, Filling, Approved}"
  by (cases s) (auto simp: isAllowedApplicationTransition_def)

lemma filling_entry: "isAllowedApplicationTransition s Filling \<Longrightarrow> s \<in> {Approved, Filling}"
  by (cases s) (auto simp: isAllowedApplicationTransition_def)

lemma awaiting_entry:
  "isAllowedApplicationTransition s AwaitingUserSubmit \<Longrightarrow> s \<in> {Filling, AwaitingUserSubmit}"
  by (cases s) (auto simp: isAllowedApplicationTransition_def)

lemma outcome_unknown_exit:
  "isAllowedApplicationTransition OutcomeUnknown t \<Longrightarrow> t \<in> {OutcomeUnknown, Submitted, Preparing}"
  by (auto simp: isAllowedApplicationTransition_def)

end
