(* ===== verification/TaskContract.thy ===== *)
theory TaskContract
  imports AppContract
begin

text \<open>
  The task vocabulary of \<open>packages/contracts/src/tasks\<close>: types, states, failure
  codes, the lease and retry constants, the closed input and output schemas of
  the two tasks a paired runner executes (\<open>fill_local\<close>, \<open>observe_confirmation\<close>), and
  the device and fill-session shapes of \<open>schemas/devices.ts\<close> and
  \<open>schemas/fill-sessions.ts\<close>.
\<close>

datatype task_type =
    NoopEcho
  | ParseProfile
  | FetchBoard
  | FetchJob
  | MatchJob
  | RenderCv
  | BuildPacket
  | FillLocal
  | ObserveConfirmation
  | ExportWorkspace
  | DeleteWorkspace
  | DiscoverBoards

definition all_task_types :: "task_type list" where
  "all_task_types =
     [NoopEcho, ParseProfile, FetchBoard, FetchJob, MatchJob, RenderCv, BuildPacket, FillLocal,
      ObserveConfirmation, ExportWorkspace, DeleteWorkspace, DiscoverBoards]"

fun task_type_text :: "task_type \<Rightarrow> string" where
  "task_type_text NoopEcho = ''noop_echo''"
| "task_type_text ParseProfile = ''parse_profile''"
| "task_type_text FetchBoard = ''fetch_board''"
| "task_type_text FetchJob = ''fetch_job''"
| "task_type_text MatchJob = ''match_job''"
| "task_type_text RenderCv = ''render_cv''"
| "task_type_text BuildPacket = ''build_packet''"
| "task_type_text FillLocal = ''fill_local''"
| "task_type_text ObserveConfirmation = ''observe_confirmation''"
| "task_type_text ExportWorkspace = ''export_workspace''"
| "task_type_text DeleteWorkspace = ''delete_workspace''"
| "task_type_text DiscoverBoards = ''discover_boards''"

definition implemented_task_types :: "task_type list" where
  "implemented_task_types =
     [NoopEcho, ParseProfile, FetchBoard, FetchJob, MatchJob, RenderCv, FillLocal, ObserveConfirmation]"

datatype task_state = Queued | Leased | Succeeded | TaskFailed | TaskCancelled

definition runner_only_capabilities :: "task_type list" where
  "runner_only_capabilities = [FillLocal, ObserveConfirmation]"

definition no_retry_task_types :: "task_type list" where
  "no_retry_task_types = [FillLocal, ObserveConfirmation]"

definition lease_seconds :: int where
  "lease_seconds = 120"

definition default_max_attempts :: int where
  "default_max_attempts = 3"

definition protocol_version :: int where
  "protocol_version = 1"

datatype task_failure_code =
    ProviderUnavailable
  | ProviderInvalidOutput
  | FBudgetExhausted
  | InputInvalid
  | FileUnreadable
  | EncryptedDocument
  | OcrRequired
  | ExtractionEmpty
  | LimitExceeded
  | FetchBlocked
  | RateLimited
  | Timeout
  | CodeCancelled
  | UnsupportedTaskType
  | FInternalError

fun failure_code_text :: "task_failure_code \<Rightarrow> string" where
  "failure_code_text ProviderUnavailable = ''PROVIDER_UNAVAILABLE''"
| "failure_code_text ProviderInvalidOutput = ''PROVIDER_INVALID_OUTPUT''"
| "failure_code_text FBudgetExhausted = ''BUDGET_EXHAUSTED''"
| "failure_code_text InputInvalid = ''INPUT_INVALID''"
| "failure_code_text FileUnreadable = ''FILE_UNREADABLE''"
| "failure_code_text EncryptedDocument = ''ENCRYPTED_DOCUMENT''"
| "failure_code_text OcrRequired = ''OCR_REQUIRED''"
| "failure_code_text ExtractionEmpty = ''EXTRACTION_EMPTY''"
| "failure_code_text LimitExceeded = ''LIMIT_EXCEEDED''"
| "failure_code_text FetchBlocked = ''FETCH_BLOCKED''"
| "failure_code_text RateLimited = ''RATE_LIMITED''"
| "failure_code_text Timeout = ''TIMEOUT''"
| "failure_code_text CodeCancelled = ''CANCELLED''"
| "failure_code_text UnsupportedTaskType = ''UNSUPPORTED_TASK_TYPE''"
| "failure_code_text FInternalError = ''INTERNAL_ERROR''"

record task_progress =
  tp_stage :: string
  tp_percent :: int

section \<open>fill\_local\<close>

record fill_field =
  ff_question_key :: string
  ff_label :: "string option"
  ff_answer :: answer_value
  ff_required :: bool
  ff_sensitivity :: answer_sensitivity

record fill_job_identity =
  fj_job_id :: uuid
  fj_company :: string
  fj_title :: string

record fill_local_input =
  fi_application_id :: uuid
  fi_packet_id :: uuid
  fi_content_hash :: string
  fi_device_id :: uuid
  fi_destination :: packet_destination
  fi_allowed_origins :: "string list"
  fi_job :: fill_job_identity
  fi_resume_file_id :: "uuid option"
  fi_resume_sha256 :: "string option"
  fi_resume_filename :: "string option"
  fi_fields :: "fill_field list"
  fi_known_form_fingerprint :: "string option"
  fi_adapter :: "string option"

datatype fill_field_outcome = FieldFilled | FieldSkipped | FieldFailed

record filled_field =
  fd_question_key :: string
  fd_outcome :: fill_field_outcome
  fd_matched_label :: "string option"

datatype unresolved_reason =
    NoAnswer
  | NewQuestion
  | UnsupportedWidget
  | NeedsExactMapping
  | NeverInferable
  | FileUploadBlocked

record unresolved_field =
  uf_question_key :: string
  uf_label :: "string option"
  uf_required :: bool
  uf_reason :: unresolved_reason
  uf_options :: "string list"

datatype fill_outcome = FillAwaitingUserSubmit | FillNeedsInput | FillUnsupported

record fill_local_result =
  fr_packet_id :: uuid
  fr_filled_fields :: "filled_field list"
  fr_unresolved_fields :: "unresolved_field list"
  fr_page_url :: "string option"
  fr_form_fingerprint :: "string option"
  fr_outcome :: fill_outcome
  fr_adapter :: "string option"
  fr_adapter_version :: "string option"
  fr_screenshot_file_id :: "uuid option"

record fill_application_request =
  fq_expected_revision :: int
  fq_packet_id :: uuid
  fq_device_id :: uuid

section \<open>observe\_confirmation\<close>

record observe_input =
  oi_application_id :: uuid
  oi_packet_id :: uuid
  oi_device_id :: uuid
  oi_destination :: packet_destination
  oi_allowed_origins :: "string list"
  oi_timeout_seconds :: int
  oi_adapter :: "string option"
  oi_capture_evidence :: bool

datatype observation_outcome = Observed | Unknown

datatype unknown_reason =
    TimedOut
  | NoConfirmationFound
  | LeftAllowedOrigin
  | UnsupportedPage
  | RunnerError

fun unknown_reason_text :: "unknown_reason \<Rightarrow> string" where
  "unknown_reason_text TimedOut = ''timed_out''"
| "unknown_reason_text NoConfirmationFound = ''no_confirmation_found''"
| "unknown_reason_text LeftAllowedOrigin = ''left_allowed_origin''"
| "unknown_reason_text UnsupportedPage = ''unsupported''"
| "unknown_reason_text RunnerError = ''runner_error''"

record observed_confirmation =
  oc_confirmation_text :: "string option"
  oc_reference :: "string option"
  oc_url :: "string option"
  oc_observed_at :: timestamp

record observe_result =
  os_application_id :: uuid
  os_packet_id :: uuid
  os_outcome :: observation_outcome
  os_confirmation :: "observed_confirmation option"
  os_unknown_reason :: "unknown_reason option"
  os_watched_seconds :: int
  os_page_url :: "string option"
  os_adapter :: "string option"
  os_adapter_version :: "string option"
  os_screenshot_file_id :: "uuid option"

definition observationResultIsCoherent :: "observe_result \<Rightarrow> bool" where
  "observationResultIsCoherent r \<longleftrightarrow>
     (if os_outcome r = Observed then os_confirmation r \<noteq> None \<and> os_unknown_reason r = None
      else os_confirmation r = None \<and> os_unknown_reason r \<noteq> None)"

record observe_application_request =
  oq_expected_revision :: int
  oq_packet_id :: uuid
  oq_device_id :: uuid
  oq_timeout_seconds :: "int option"

definition default_observe_timeout_seconds :: int where
  "default_observe_timeout_seconds = 90"

definition max_observe_timeout_seconds :: int where
  "max_observe_timeout_seconds = 600"

section \<open>Devices and fill sessions\<close>

datatype device_kind = LocalRunner | Extension

fun device_kind_text :: "device_kind \<Rightarrow> string" where
  "device_kind_text LocalRunner = ''local_runner''"
| "device_kind_text Extension = ''extension''"

datatype device_status = DevicePending | DevicePaired | DeviceRevoked | DeviceExpired

definition device_pairing_ttl_seconds :: int where
  "device_pairing_ttl_seconds = 300"

definition device_token_ttl_days :: int where
  "device_token_ttl_days = 30"

record create_pairing_request =
  cr_device_kind :: device_kind
  cr_label :: string
  cr_allowed_origins :: "string list option"

record device_exchange_request =
  dx_pairing_code :: string
  dx_device_public_id :: string

definition fill_session_ttl_seconds :: int where
  "fill_session_ttl_seconds = 600"

definition fill_target_limit :: nat where
  "fill_target_limit = 50"

datatype fill_session_state = SessionActive | SessionExpired | SessionEnded

datatype fill_session_end_reason = EndReported | EndCancelled | EndSuperseded | EndDeviceRevoked

record create_fill_session_request =
  cs_application_id :: uuid
  cs_origin :: string
  cs_content_hash :: string

record fill_target =
  tg_application_id :: uuid
  tg_content_hash :: string
  tg_job :: fill_job_identity
  tg_destination :: packet_destination
  tg_approval_expires_at :: "timestamp option"

record awaiting_submission =
  aw_fill_session_id :: uuid
  aw_application_id :: uuid
  aw_job :: fill_job_identity
  aw_destination :: packet_destination
  aw_filled_at :: timestamp

record fill_session_grant =
  gr_session_id :: uuid
  gr_nonce :: string
  gr_expires_at :: timestamp
  gr_application_id :: uuid
  gr_packet_id :: uuid
  gr_content_hash :: string
  gr_origin :: string
  gr_destination :: packet_destination
  gr_job :: fill_job_identity
  gr_resume_file_id :: "uuid option"
  gr_resume_sha256 :: "string option"
  gr_resume_filename :: "string option"
  gr_fields :: "fill_field list"
  gr_known_form_fingerprint :: "string option"
  gr_adapter :: "string option"

record report_fill_session_request =
  rf_filled_fields :: "filled_field list"
  rf_unresolved_fields :: "unresolved_field list"
  rf_page_url :: "string option"
  rf_form_fingerprint :: "string option"
  rf_outcome :: fill_outcome
  rf_adapter :: "string option"
  rf_adapter_version :: "string option"

record extension_confirmation =
  xc_confirmation_text :: string
  xc_reference :: "string option"
  xc_url :: "string option"

record report_observation_request =
  ro_outcome :: observation_outcome
  ro_confirmation :: "extension_confirmation option"
  ro_unknown_reason :: "unknown_reason option"
  ro_page_url :: string
  ro_adapter :: "string option"
  ro_adapter_version :: "string option"

end
