(* ===== verification/JobContract.thy ===== *)
theory JobContract
  imports Clock
begin

text \<open>
  The data of discovery, matching, profiles, resumes and preferences that crosses the
  API: \<open>packages/contracts/src/schemas/{jobs,requirements,preferences,profile,resumes,
  matches}.ts\<close> and the inputs and results of the tasks \<open>fetch_board\<close>, \<open>fetch_job\<close>,
  \<open>parse_profile\<close>, \<open>match_job\<close> and \<open>render_cv\<close>.  A nullable field is an option, a
  closed union a datatype, and a number with decimals a rational.  The length and
  pattern limits of the schemas are not part of the types.
\<close>

section \<open>Shared vocabulary\<close>

datatype tri_state = TriYes | TriNo | TriUnknown

datatype locale_id = En | Es

section \<open>Jobs\<close>

datatype connector_id = Greenhouse | Lever | ManualConnector | UrlConnector

fun connector_text :: "connector_id \<Rightarrow> string" where
  "connector_text Greenhouse = ''greenhouse''"
| "connector_text Lever = ''lever''"
| "connector_text ManualConnector = ''manual''"
| "connector_text UrlConnector = ''url''"

definition board_connector_ids :: "connector_id list" where
  "board_connector_ids = [Greenhouse, Lever]"

fun connector_versions :: "connector_id \<Rightarrow> string" where
  "connector_versions _ = ''1''"

datatype remote_type = Remote | Hybrid | Onsite | RemoteUnknown

datatype job_status = JobActive | JobClosed | JobUnknown

datatype employment_type = FullTime | PartTime | ContractWork | Internship | Temporary | Freelance

record job_location =
  jl_country :: "string option"
  jl_region :: "string option"
  jl_city :: "string option"
  jl_source_excerpt :: "string option"

datatype salary_period = PerYear | PerMonth | PerWeek | PerDay | PerHour

record job_salary =
  sa_min :: "rat option"
  sa_max :: "rat option"
  sa_currency :: "string option"
  sa_period :: "salary_period option"
  sa_source_excerpt :: string

datatype requirement_kind = RequiredReq | PreferredReq | UnknownReq

record job_requirement =
  rq_text :: string
  rq_kind :: requirement_kind
  rq_evidence_excerpt :: string

datatype inferred_name =
    InfRemoteType | InfLocations | InfEligibleCountries | InfEmploymentType | InfSalary | InfLanguage | InfRequirements

record inferred_field =
  in_field :: inferred_name
  in_source_excerpt :: string

record normalized_job =
  nj_external_id :: string
  nj_source_key :: string
  nj_canonical_url :: string
  nj_apply_url :: "string option"
  nj_company :: string
  nj_title :: string
  nj_description_text :: string
  nj_published_at :: "timestamp option"
  nj_updated_at :: "timestamp option"
  nj_locations :: "job_location list"
  nj_remote_type :: remote_type
  nj_eligible_countries :: "string list option"
  nj_employment_type :: "employment_type option"
  nj_salary :: "job_salary option"
  nj_language :: "string option"
  nj_requirements :: "job_requirement list"
  nj_inferred :: "inferred_field list"
  nj_content_hash :: string
  nj_retrieved_at :: timestamp

datatype source_health_state = HealthUnknown | HealthOk | HealthDegraded | HealthBlocked | HealthDisabled

record create_source_request =
  sq_connector :: connector_id
  sq_board_key :: string
  sq_base_url :: "string option"

text \<open>An optional nullable field is absent (\<open>None\<close>), null (\<open>Some None\<close>) or a value.\<close>

record patch_source_request =
  sp_enabled :: "bool option"
  sp_base_url :: "string option option"

datatype scan_status = ScanQueued | ScanRunning | ScanSucceeded | ScanPartial | ScanFailed | ScanCancelled

record scan_counts =
  sc_fetched :: int
  sc_created :: int
  sc_updated :: int
  sc_unchanged :: int
  sc_closed :: int
  sc_pages :: int

datatype duplicate_reason = DupSameApplyUrl | DupSameRequisition | DupSimilarTitle

record possible_duplicate =
  pd_job_id :: uuid
  pd_reason :: duplicate_reason
  pd_detail :: string

record job_import_request =
  jq_url :: "string option"
  jq_description_text :: "string option"
  jq_company :: "string option"
  jq_title :: "string option"
  jq_apply_url :: "string option"

record patch_job_request =
  jp_expected_revision :: int
  jp_saved :: "bool option"
  jp_close :: bool
  jp_company :: "string option"
  jp_title :: "string option"

definition min_request_interval_ms :: int where
  "min_request_interval_ms = 1000"

definition scan_interval_jitter_minutes :: int where
  "scan_interval_jitter_minutes = 30"

definition request_timeout_seconds :: int where
  "request_timeout_seconds = 20"

definition max_jobs_per_scan :: int where
  "max_jobs_per_scan = 1000"

definition max_pages_per_scan :: int where
  "max_pages_per_scan = 100"

definition block_after_consecutive_denials :: int where
  "block_after_consecutive_denials = 3"

definition missing_complete_snapshots_to_close :: int where
  "missing_complete_snapshots_to_close = 2"

definition min_hours_between_snapshots :: int where
  "min_hours_between_snapshots = 24"

section \<open>The fetch tasks\<close>

record fetch_limits =
  fl_max_jobs :: int
  fl_max_pages :: int
  fl_timeout_seconds :: int
  fl_min_request_interval_ms :: int

record fetch_board_input =
  fbi_scan_id :: uuid
  fbi_source_id :: uuid
  fbi_connector :: connector_id
  fbi_connector_version :: string
  fbi_board_key :: string
  fbi_base_url :: "string option"
  fbi_etag :: "string option"
  fbi_last_modified :: "string option"
  fbi_limits :: fetch_limits

datatype fetch_warning_code =
    RateLimitedWarning | AccessDenied | NotModified | PageLimitReached | JobLimitReached | SchemaDrift
  | RobotsDisallowed | BlockedDestination | RedirectLimit | ContentTypeRejected | BodyTruncated
  | NoStructuredData | MultiplePostings | FieldInferred | FieldDroppedInvalid

fun fetch_warning_text :: "fetch_warning_code \<Rightarrow> string" where
  "fetch_warning_text RateLimitedWarning = ''RATE_LIMITED''"
| "fetch_warning_text AccessDenied = ''ACCESS_DENIED''"
| "fetch_warning_text NotModified = ''NOT_MODIFIED''"
| "fetch_warning_text PageLimitReached = ''PAGE_LIMIT_REACHED''"
| "fetch_warning_text JobLimitReached = ''JOB_LIMIT_REACHED''"
| "fetch_warning_text SchemaDrift = ''SCHEMA_DRIFT''"
| "fetch_warning_text RobotsDisallowed = ''ROBOTS_DISALLOWED''"
| "fetch_warning_text BlockedDestination = ''BLOCKED_DESTINATION''"
| "fetch_warning_text RedirectLimit = ''REDIRECT_LIMIT''"
| "fetch_warning_text ContentTypeRejected = ''CONTENT_TYPE_REJECTED''"
| "fetch_warning_text BodyTruncated = ''BODY_TRUNCATED''"
| "fetch_warning_text NoStructuredData = ''NO_STRUCTURED_DATA''"
| "fetch_warning_text MultiplePostings = ''MULTIPLE_POSTINGS''"
| "fetch_warning_text FieldInferred = ''FIELD_INFERRED''"
| "fetch_warning_text FieldDroppedInvalid = ''FIELD_DROPPED_INVALID''"

record fetch_warning =
  fw_code :: fetch_warning_code
  fw_message :: string
  fw_detail :: "string option"

record fetch_board_result =
  fb_jobs :: "normalized_job list"
  fb_complete_snapshot :: bool
  fb_next_cursor :: "string option"
  fb_pages_fetched :: int
  fb_etag :: "string option"
  fb_last_modified :: "string option"
  fb_state :: source_health_state
  fb_http_status :: "int option"
  fb_retry_after_seconds :: "int option"
  fb_warnings :: "fetch_warning list"
  fb_fetched_at :: timestamp

record fetch_job_input =
  fji_job_import_id :: uuid
  fji_url :: "string option"
  fji_description_text :: "string option"
  fji_company_hint :: "string option"
  fji_title_hint :: "string option"
  fji_apply_url_hint :: "string option"
  fji_max_redirects :: int
  fji_max_html_bytes :: int
  fji_timeout_seconds :: int

datatype job_extraction = JsonldJobposting | HtmlText | PastedText | NoExtraction

record fetch_job_result =
  fjr_job :: "normalized_job option"
  fjr_candidates :: "normalized_job list"
  fjr_performed :: bool
  fjr_final_url :: "string option"
  fjr_http_status :: "int option"
  fjr_content_type :: "string option"
  fjr_bytes :: "int option"
  fjr_redirects :: int
  fjr_extraction :: job_extraction
  fjr_warnings :: "fetch_warning list"

section \<open>Preferences\<close>

datatype remote_mode = ModeRemote | ModeHybrid | ModeOnsite

record match_weights =
  mw_skills :: int
  mw_role_title :: int
  mw_seniority :: int
  mw_work_arrangement :: int
  mw_industry :: int

record operational_limits =
  scan_max_jobs :: int
  request_concurrency_per_host :: int
  ai_requests_per_day :: int
  fill_attempts_per_day :: int
  approval_ttl_hours :: int
  consented_evidence_capture :: bool
  raw_logs :: bool

record salary_minimum =
  sm_minimum :: rat
  sm_currency :: string
  sm_period :: salary_period

datatype sponsorship_policy = SponsorAllow | SponsorAvoid | SponsorUnknown

datatype unknown_eligibility_policy = ReviewUnknown | HideUnknown

datatype resume_mode = OriginalMode | TailoredMode

record preferences =
  settings_version :: int
  target_titles :: "string list"
  excluded_titles :: "string list"
  required_skills :: "string list"
  preferred_skills :: "string list"
  excluded_companies_pref :: "string list"
  countries :: "string list"
  remote_modes :: "remote_mode list"
  employment_types :: "employment_type list"
  languages :: "string list"
  salary_pref :: "salary_minimum option"
  sponsorship :: sponsorship_policy
  unknown_eligibility :: unknown_eligibility_policy
  scan_interval_hours :: int
  weights :: match_weights
  cv_language :: locale_id
  cv_template :: string
  default_resume_mode :: resume_mode
  limits :: operational_limits
  prompt_style_suffix :: "string option"

definition default_match_weights :: match_weights where
  "default_match_weights =
     \<lparr> mw_skills = 40, mw_role_title = 20, mw_seniority = 15, mw_work_arrangement = 15, mw_industry = 10 \<rparr>"

definition default_limits :: operational_limits where
  "default_limits =
     \<lparr> scan_max_jobs = 1000, request_concurrency_per_host = 1, ai_requests_per_day = 50,
       fill_attempts_per_day = 10, approval_ttl_hours = 24, consented_evidence_capture = False,
       raw_logs = False \<rparr>"

definition default_preferences :: preferences where
  "default_preferences =
     \<lparr> settings_version = 1, target_titles = [], excluded_titles = [], required_skills = [],
       preferred_skills = [], excluded_companies_pref = [], countries = [], remote_modes = [ModeRemote],
       employment_types = [FullTime], languages = [''en''], salary_pref = None,
       sponsorship = SponsorUnknown, unknown_eligibility = ReviewUnknown, scan_interval_hours = 24,
       weights = default_match_weights, cv_language = En, cv_template = ''simple'',
       default_resume_mode = TailoredMode, limits = default_limits, prompt_style_suffix = None \<rparr>"

definition matchWeightsSum :: "match_weights \<Rightarrow> int" where
  "matchWeightsSum w = sum_list [mw_skills w, mw_role_title w, mw_seniority w, mw_work_arrangement w, mw_industry w]"

record preferences_put_request =
  pp_expected_revision :: int
  pp_config :: preferences

section \<open>Profile facts\<close>

datatype fact_kind =
    KContact | KSummary | KExperience | KEducation | KSkill | KLanguage | KAuthorization | KProject | KCertification

record profile_fact =
  fact_id :: uuid
  fact_kind :: fact_kind
  fact_value :: json
  fact_source_file_id :: "uuid option"
  fact_source_excerpt :: "string option"
  fact_confirmed :: bool
  fact_revision :: int
  fact_supersedes_id :: "uuid option"
  fact_created_at :: timestamp
  fact_updated_at :: timestamp

datatype format_hint = HintPdf | HintDocx | HintLinkedin | HintPlainText | HintAuto

record parse_profile_input =
  ppi_profile_import_id :: uuid
  ppi_profile_revision :: int
  ppi_format_hint :: format_hint
  ppi_locale :: locale_id
  ppi_inline_text :: "string option"
  ppi_source_file_id :: "uuid option"
  ppi_max_pdf_pages :: int
  ppi_max_extracted_chars :: int

datatype import_warning_code =
    ExtractionShort | PagesTruncated | CharsTruncated | TableLayoutUncertain | DateAmbiguous
  | ImportFieldDropped | ModelCorrectedOnce | NoProviderConfigured | PromptInjectionIgnored

record import_warning =
  iw_code :: import_warning_code
  iw_message :: string
  iw_detail :: "string option"

record draft_fact =
  df_draft_id :: string
  df_kind :: fact_kind
  df_value :: json
  df_source_excerpt :: "string option"
  df_source_locator :: "string option"
  df_confidence :: rat

record parse_provider =
  pv_id :: string
  pv_model :: string
  pv_input_tokens :: "int option"
  pv_output_tokens :: "int option"

record parse_profile_result =
  ppr_draft_facts :: "draft_fact list"
  ppr_warnings :: "import_warning list"
  ppr_extracted_chars :: int
  ppr_provider :: parse_provider

datatype import_status = ImportQueued | ImportParsing | ImportReady | ImportConfirmed | ImportFailed

text \<open>An accepted draft: an edited value overrides the draft's, an explicit supersedes
  choice (\<open>Some\<close>) overrides the inferred one.\<close>

record accepted_field =
  af_draft_id :: string
  af_edited_value :: "json option"
  af_supersedes_fact_id :: "uuid option option"

record confirm_import_request =
  ci_expected_profile_revision :: int
  ci_accepted_fields :: "accepted_field list"

record upsert_change =
  uc_id :: "uuid option"
  uc_kind :: fact_kind
  uc_value :: json
  uc_confirmed :: bool
  uc_source_excerpt :: "string option option"
  uc_source_file_id :: "uuid option option"

datatype fact_change = UpsertFact upsert_change | DeleteFact uuid

record profile_patch_request =
  pq_expected_revision :: int
  pq_contact :: "json option"
  pq_locale :: "locale_id option"
  pq_changes :: "fact_change list"

section \<open>Matches\<close>

definition match_algorithm_version :: string where
  "match_algorithm_version = ''v1''"

record match_job_snapshot =
  ms_company :: string
  ms_title :: string
  ms_description_text :: string
  ms_locations :: "job_location list"
  ms_remote_type :: remote_type
  ms_eligible_countries :: "string list option"
  ms_employment_type :: "employment_type option"
  ms_salary :: "job_salary option"
  ms_language :: "string option"
  ms_requirements :: "job_requirement list"

record match_job_input =
  mj_job_id :: uuid
  mj_job_revision :: int
  mj_profile_revision :: int
  mj_preferences_revision :: int
  mj_locale :: locale_id
  mj_job :: match_job_snapshot
  mj_confirmed_facts :: "profile_fact list"
  mj_preferences :: preferences

text \<open>The explanation is stored and returned whole; of it the handlers read only the
  version of the algorithm.\<close>

record match_explanation =
  me_algorithm_version :: string
  me_body :: json

record match_job_result =
  mr_eligible :: tri_state
  mr_score :: "int option"
  mr_coverage_percent :: int
  mr_explanation :: match_explanation
  mr_computed_at :: timestamp

text \<open>\<open>Math.round\<close> of a non-negative quotient.\<close>

definition coveragePercent :: "int \<Rightarrow> int \<Rightarrow> int" where
  "coveragePercent evaluated whole =
     (if whole \<le> 0 then 0 else \<lfloor>(of_int evaluated / of_int whole * 100 + 1 / 2 :: rat)\<rfloor>)"

section \<open>Resumes\<close>

definition resume_page_target_default :: int where
  "resume_page_target_default = 2"

datatype finding_severity = Blocking | WarningFinding

record resume_finding =
  rfi_code :: string
  rfi_severity :: finding_severity
  rfi_where :: "string option"
  rfi_excerpt :: "string option"
  rfi_removed :: bool

record resume_validation =
  rv_passed_automatic_checks :: bool
  rv_findings :: "resume_finding list"
  rv_fact_ids :: "uuid list"
  rv_provenance :: json
  rv_pdf_pages :: "int option"

datatype resume_status = ResumeQueued | ResumeReady | ResumeFailed

record create_resume_request =
  cr_mode :: resume_mode
  cr_job_id :: "uuid option"
  cr_input_file_id :: "uuid option"
  cr_template_id :: "string option"
  cr_language :: "locale_id option"
  cr_page_target :: "int option"

record render_job =
  rj_job_id :: uuid
  rj_job_revision :: int
  rj_company :: string
  rj_title :: string
  rj_requirements :: "job_requirement list"

record render_cv_input =
  rci_resume_id :: uuid
  rci_profile_revision :: int
  rci_language :: locale_id
  rci_template_id :: string
  rci_page_target :: int
  rci_confirmed_facts :: "profile_fact list"
  rci_job :: "render_job option"
  rci_prompt_style_suffix :: "string option"

record render_cv_result =
  rcr_document_json :: json
  rcr_validation :: resume_validation
  rcr_pdf_file_id :: "uuid option"
  rcr_docx_file_id :: "uuid option"
  rcr_fact_ids :: "uuid list"

end
