(* ===== verification/Rows.thy ===== *)
theory Rows
  imports TaskContract JobContract
begin

text \<open>
  The tables of \<open>apps/api/src/db/types.ts\<close>, one record per row interface, and the
  database as the record of its tables.  A column name carries a prefix for its
  table.  A jsonb column is kept at the type its reader casts it to.  Bookkeeping
  timestamps no handler reads, and ids of append-only rows that are only ever
  addressed by their parent, are left out.
\<close>

section \<open>Rows\<close>

datatype file_state = Staging | Ready | Deleting

datatype file_purpose = CvOriginal | ProfileText | GeneratedCv | ExportFile | EvidenceFile

record file_row =
  f_id :: uuid
  f_workspace_id :: uuid
  f_storage_key :: string
  f_original_name :: string
  f_mime :: string
  f_bytes :: int
  f_sha256 :: string
  f_state :: file_state
  f_purpose :: file_purpose
  f_expires_at :: "timestamp option"

text \<open>The payload of a task at the type its handler casts it to.\<close>

datatype task_payload =
    ParsePayload parse_profile_input
  | FetchBoardPayload fetch_board_input
  | FetchJobPayload fetch_job_input
  | MatchPayload match_job_input
  | RenderPayload render_cv_input
  | FillPayload fill_local_input
  | ObservePayload observe_input
  | OtherPayload json

text \<open>A stored result.  The domain of \<open>fetch_job\<close> extends the result it applied with
  what became of the import.\<close>

datatype job_import_status = JobImportQueued | JobImportResolved | JobImportNeedsChoice | JobImportFailed

record job_import_extension =
  jx_id :: uuid
  jx_status :: job_import_status
  jx_job_id :: "uuid option"

datatype task_result =
    ParseResult parse_profile_result
  | FetchBoardResult fetch_board_result
  | FetchJobResult fetch_job_result
  | ExtendedJobResult fetch_job_result job_import_extension
  | MatchResult match_job_result
  | RenderResult render_cv_result
  | FillResult fill_local_result
  | ObserveResult observe_result
  | OtherResult json

record task_row =
  t_id :: uuid
  t_workspace_id :: uuid
  t_type :: task_type
  t_state :: task_state
  t_payload :: task_payload
  t_result :: "task_result option"
  t_idempotency_key :: "string option"
  t_attempt :: int
  t_max_attempts :: int
  t_run_after :: timestamp
  t_lease_token_hash :: "string option"
  t_lease_expires_at :: "timestamp option"
  t_leased_by :: "string option"
  t_last_heartbeat_at :: "timestamp option"
  t_capability :: task_type
  t_progress :: "task_progress option"
  t_cancel_requested :: bool
  t_error_code :: "task_failure_code option"
  t_error_message :: "string option"
  t_error_retryable :: "bool option"
  t_input_file_ids :: "uuid list"
  t_created_at :: timestamp
  t_updated_at :: timestamp

record task_artifact_row =
  ta_id :: uuid
  ta_workspace_id :: uuid
  ta_task_id :: uuid
  ta_file_id :: uuid
  ta_lease_token_hash :: string
  ta_committed :: bool

record idempotency_row =
  i_workspace_id :: uuid
  i_route_key :: string
  i_idempotency_key :: string
  i_request_hash :: string
  i_response_status :: nat
  i_response_body :: json
  i_expires_at :: timestamp

record audit_event_row =
  au_workspace_id :: uuid
  au_actor_id :: "uuid option"
  au_action :: string
  au_object_id :: "uuid option"
  au_object_type :: "string option"
  au_metadata :: json

record profile_row =
  pr_id :: uuid
  pr_workspace_id :: uuid
  pr_revision :: int
  pr_confirmed_revision :: "int option"
  pr_contact :: "json option"
  pr_locale :: locale_id

record profile_fact_row =
  fa_id :: uuid
  fa_workspace_id :: uuid
  fa_profile_id :: uuid
  fa_kind :: fact_kind
  fa_value :: json
  fa_source_file_id :: "uuid option"
  fa_source_excerpt :: "string option"
  fa_confirmed :: bool
  fa_revision :: int
  fa_supersedes_id :: "uuid option"
  fa_created_at :: timestamp
  fa_updated_at :: timestamp

text \<open>A stored draft: the accepted facts of a parse, and how many were dropped.\<close>

record extracted_draft =
  ed_draft_facts :: "draft_fact list"
  ed_extracted_chars :: int
  ed_provider :: parse_provider
  ed_dropped_invalid :: nat

record profile_import_row =
  im_id :: uuid
  im_workspace_id :: uuid
  im_file_id :: "uuid option"
  im_text_file_id :: "uuid option"
  im_task_id :: "uuid option"
  im_status :: import_status
  im_format_hint :: format_hint
  im_extracted_draft :: "extracted_draft option"
  im_warnings :: "import_warning list"
  im_error_code :: "string option"
  im_error_message :: "string option"
  im_created_at :: timestamp
  im_updated_at :: timestamp

text \<open>A stored configuration that no longer matches the settings schema is \<open>None\<close>.\<close>

record preferences_row =
  pf_workspace_id :: uuid
  pf_revision :: int
  pf_config :: "preferences option"

datatype usage_status = Reserved | Settled | Released

datatype job_closed_reason = ClosedByUser | ClosedBySnapshot | ClosedBySource

record job_row =
  j_id :: uuid
  j_workspace_id :: uuid
  j_canonical_key :: string
  j_company :: string
  j_title :: string
  j_description_text :: string
  j_locations :: "job_location list"
  j_salary :: "job_salary option"
  j_requirements :: "job_requirement list"
  j_inferred :: "inferred_field list"
  j_remote_type :: remote_type
  j_eligible_countries :: "string list option"
  j_employment_type :: "employment_type option"
  j_language :: "string option"
  j_status :: job_status
  j_content_hash :: string
  j_revision :: int
  j_published_at :: "timestamp option"
  j_source_updated_at :: "timestamp option"
  j_first_seen_at :: timestamp
  j_last_seen_at :: timestamp
  j_last_fetched_at :: "timestamp option"
  j_saved :: bool
  j_excluded_reason :: "string option"
  j_closed_at :: "timestamp option"
  j_closed_reason :: "job_closed_reason option"
  j_title_edited_at :: "timestamp option"
  j_company_edited_at :: "timestamp option"
  j_updated_at :: timestamp

record job_source_row =
  js_id :: uuid
  js_workspace_id :: uuid
  js_job_id :: uuid
  js_source_id :: "uuid option"
  js_connector :: connector_id
  js_external_id :: string
  js_source_key :: string
  js_canonical_url :: string
  js_apply_url :: "string option"
  js_retrieved_at :: timestamp
  js_missing_snapshots :: int
  js_missing_since :: "timestamp option"
  js_last_missing_at :: "timestamp option"
  js_created_at :: timestamp
  js_updated_at :: timestamp

record source_row =
  so_id :: uuid
  so_workspace_id :: uuid
  so_connector :: connector_id
  so_connector_version :: string
  so_board_key :: string
  so_base_url :: "string option"
  so_enabled :: bool
  so_last_success_at :: "timestamp option"
  so_last_scan_id :: "uuid option"
  so_next_scan_after :: "timestamp option"
  so_health_state :: source_health_state
  so_consecutive_failures :: int
  so_consecutive_denials :: int
  so_last_error_code :: "string option"
  so_last_error_at :: "timestamp option"
  so_health_detail :: "string option"
  so_etag :: "string option"
  so_last_modified :: "string option"
  so_created_at :: timestamp
  so_updated_at :: timestamp

record scan_row =
  sn_id :: uuid
  sn_workspace_id :: uuid
  sn_source_id :: uuid
  sn_task_id :: "uuid option"
  sn_status :: scan_status
  sn_complete_snapshot :: bool
  sn_counts :: scan_counts
  sn_error_code :: "string option"
  sn_error_message :: "string option"
  sn_started_at :: "timestamp option"
  sn_completed_at :: "timestamp option"
  sn_created_at :: timestamp
  sn_updated_at :: timestamp

text \<open>What the import route recorded of its request.\<close>

record job_import_input =
  ji_url :: "string option"
  ji_description_chars :: int
  ji_company :: "string option"
  ji_title :: "string option"
  ji_apply_url :: "string option"

record job_import_row =
  jm_id :: uuid
  jm_workspace_id :: uuid
  jm_task_id :: "uuid option"
  jm_status :: job_import_status
  jm_input :: job_import_input
  jm_job_id :: "uuid option"
  jm_candidates :: "normalized_job list"
  jm_warnings :: "fetch_warning list"
  jm_error_code :: "string option"
  jm_error_message :: "string option"
  jm_created_at :: timestamp
  jm_updated_at :: timestamp

record match_row =
  m_id :: uuid
  m_workspace_id :: uuid
  m_job_id :: uuid
  m_job_revision :: int
  m_profile_revision :: int
  m_preferences_revision :: int
  m_algorithm_version :: string
  m_eligible :: tri_state
  m_score :: "int option"
  m_coverage_percent :: int
  m_explanation :: match_explanation
  m_computed_at :: timestamp
  m_updated_at :: timestamp

record resume_row =
  r_id :: uuid
  r_workspace_id :: uuid
  r_mode :: resume_mode
  r_status :: resume_status
  r_job_id :: "uuid option"
  r_job_revision :: "int option"
  r_profile_revision :: int
  r_language :: locale_id
  r_template_id :: string
  r_page_target :: int
  r_document_json :: "json option"
  r_validation :: "resume_validation option"
  r_input_file_id :: "uuid option"
  r_pdf_file_id :: "uuid option"
  r_docx_file_id :: "uuid option"
  r_approved_at :: "timestamp option"
  r_task_id :: "uuid option"
  r_error_code :: "string option"
  r_error_message :: "string option"
  r_created_at :: timestamp
  r_updated_at :: timestamp

record answer_bank_row =
  ab_id :: uuid
  ab_workspace_id :: uuid
  ab_question_key :: string
  ab_label :: "string option"
  ab_answer :: answer_value
  ab_sensitivity :: answer_sensitivity
  ab_scope :: answer_scope
  ab_scope_id :: string
  ab_confirmed_at :: "timestamp option"
  ab_expires_at :: "timestamp option"

record application_row =
  a_id :: uuid
  a_workspace_id :: uuid
  a_job_id :: uuid
  a_status :: application_status
  a_revision :: int
  a_current_packet_id :: "uuid option"
  a_submission_evidence :: "submission_evidence option"
  a_submitted_at :: "timestamp option"
  a_observed_form_fingerprint :: "string option"
  a_form_observed_at :: "timestamp option"
  a_created_at :: timestamp
  a_updated_at :: timestamp

record paired_device_row =
  d_id :: uuid
  d_workspace_id :: uuid
  d_kind :: device_kind
  d_label :: string
  d_pairing_code_hash :: "string option"
  d_pairing_expires_at :: "timestamp option"
  d_pairing_consumed_at :: "timestamp option"
  d_token_hash :: "string option"
  d_device_public_id :: "string option"
  d_expires_at :: "timestamp option"
  d_revoked_at :: "timestamp option"
  d_last_seen_at :: "timestamp option"
  d_allowed_origins :: "string list"
  d_created_at :: timestamp
  d_updated_at :: timestamp

record packet_row =
  p_id :: uuid
  p_workspace_id :: uuid
  p_application_id :: uuid
  p_revision :: int
  p_profile_revision :: int
  p_job_revision :: int
  p_resume_id :: uuid
  p_resume_sha256 :: "string option"
  p_destination_url :: string
  p_destination_origin :: string
  p_connector :: "string option"
  p_connector_version :: "string option"
  p_answers :: "packet_answer list"
  p_form_fingerprint :: "string option"
  p_content_hash :: string
  p_approved_hash :: "string option"
  p_approved_at :: "timestamp option"
  p_expires_at :: "timestamp option"
  p_created_at :: timestamp

record application_event_row =
  e_workspace_id :: uuid
  e_application_id :: uuid
  e_sequence :: int
  e_type :: application_event_type
  e_actor :: application_actor
  e_status_before :: "application_status option"
  e_status_after :: "application_status option"
  e_reason :: "string option"
  e_data :: json
  e_occurred_at :: timestamp

record fill_session_row =
  fs_id :: uuid
  fs_workspace_id :: uuid
  fs_device_id :: uuid
  fs_application_id :: uuid
  fs_packet_id :: uuid
  fs_content_hash :: string
  fs_origin :: string
  fs_nonce_hash :: string
  fs_created_at :: timestamp
  fs_expires_at :: timestamp
  fs_ended_at :: "timestamp option"
  fs_ended_reason :: "fill_session_end_reason option"
  fs_last_seen_at :: "timestamp option"

section \<open>Model providers\<close>

datatype provider_id = NoProvider | FakeProvider | Ollama | OpenaiCompatible

record provider_limits =
  li_context_limit :: int
  li_output_token_limit :: int
  li_temperature :: rat
  li_timeout_seconds :: int
  li_daily_token_budget :: "int option"
  li_daily_cost_budget :: "rat option"

record rate_card =
  rc_currency :: string
  rc_input_cost_per_million :: rat
  rc_output_cost_per_million :: rat

text \<open>\<open>validated_config\<close>: only the settings route writes it, so it is stored as what it is read as;
  the limits of a row written before there were any are absent.\<close>

record validated_provider_config =
  vc_limits :: "provider_limits option"
  vc_rate_card :: "rate_card option"
  vc_api_key_masked :: "string option"
  vc_key_version :: "int option"

record usage_ledger_row =
  u_id :: uuid
  u_workspace_id :: uuid
  u_task_id :: "uuid option"
  u_provider :: provider_id
  u_input_tokens :: int
  u_output_tokens :: int
  u_measured_cost :: "rat option"
  u_reserved_cost :: "rat option"
  u_currency :: "string option"
  u_status :: usage_status
  u_created_at :: timestamp

record provider_settings_row =
  ps_workspace_id :: uuid
  ps_provider :: provider_id
  ps_base_url :: "string option"
  ps_model :: string
  ps_secret_ciphertext :: "string option"
  ps_daily_budget :: "rat option"
  ps_validated_config :: validated_provider_config
  ps_updated_at :: timestamp

datatype deleted_object_kind = DelWorkspace | DelFile | DelAnswerBank | DelSource | DelApplication | DelResume | DelProfileFact

datatype deletion_reason = UserRequest | RetentionExpiry | WorkspaceDeleted

record deletion_ledger_row =
  dl_workspace_id :: uuid
  dl_object_kind :: deleted_object_kind
  dl_object_id :: "uuid option"
  dl_reason :: deletion_reason

datatype workspace_deletion_state = DeletionErasing | DeletionCompleted | DeletionFailed

record workspace_deletion_row =
  wd_id :: uuid
  wd_workspace_id :: uuid
  wd_state :: workspace_deletion_state
  wd_requested_at :: timestamp
  wd_completed_at :: "timestamp option"
  wd_attempts :: int
  wd_files_erased :: int
  wd_failure_code :: "string option"
  wd_setup_reopened :: bool
  wd_updated_at :: timestamp

section \<open>Accounts\<close>

record system_flag_row =
  sf_key :: string
  sf_value :: json

record user_row =
  us_id :: uuid
  us_normalized_email :: string
  us_email :: string
  us_password_hash :: string
  us_verified_at :: "timestamp option"
  us_disabled_at :: "timestamp option"

datatype workspace_mode = LocalMode | HostedMode

datatype deletion_state = ActiveWorkspace | DeletingWorkspace | DeletedWorkspace

record workspace_row =
  w_id :: uuid
  w_owner_user_id :: uuid
  w_mode :: workspace_mode
  w_locale :: locale_id
  w_deletion_state :: deletion_state

record membership_row =
  mb_workspace_id :: uuid
  mb_user_id :: uuid

record session_row =
  ss_id :: uuid
  ss_token_hash :: string
  ss_user_id :: uuid
  ss_workspace_id :: uuid
  ss_expires_at :: timestamp
  ss_revoked_at :: "timestamp option"
  ss_last_seen_at :: timestamp
  ss_created_at :: timestamp

section \<open>The database\<close>

record db =
  system_flags :: "system_flag_row list"
  users :: "user_row list"
  workspaces :: "workspace_row list"
  memberships :: "membership_row list"
  sessions :: "session_row list"
  files :: "file_row list"
  tasks :: "task_row list"
  task_artifacts :: "task_artifact_row list"
  idempotency_records :: "idempotency_row list"
  audit_events :: "audit_event_row list"
  profiles :: "profile_row list"
  profile_facts :: "profile_fact_row list"
  preferences_rows :: "preferences_row list"
  profile_imports :: "profile_import_row list"
  provider_settings :: "provider_settings_row list"
  usage_ledger :: "usage_ledger_row list"
  sources :: "source_row list"
  scans :: "scan_row list"
  jobs :: "job_row list"
  job_sources :: "job_source_row list"
  job_imports :: "job_import_row list"
  matches :: "match_row list"
  resumes :: "resume_row list"
  answer_bank :: "answer_bank_row list"
  applications :: "application_row list"
  application_packets :: "packet_row list"
  application_events :: "application_event_row list"
  paired_devices :: "paired_device_row list"
  fill_sessions :: "fill_session_row list"
  deletion_ledger :: "deletion_ledger_row list"
  workspace_deletions :: "workspace_deletion_row list"

definition empty_db :: db where
  "empty_db =
     \<lparr> system_flags = [], users = [], workspaces = [], memberships = [], sessions = [],
       files = [], tasks = [], task_artifacts = [], idempotency_records = [], audit_events = [],
       profiles = [], profile_facts = [], preferences_rows = [], profile_imports = [],
       provider_settings = [], usage_ledger = [], sources = [], scans = [], jobs = [],
       job_sources = [], job_imports = [], matches = [], resumes = [], answer_bank = [],
       applications = [], application_packets = [], application_events = [], paired_devices = [],
       fill_sessions = [], deletion_ledger = [], workspace_deletions = [] \<rparr>"

end
