(* ===== verification/Database.thy ===== *)
theory Database
  imports Rows
begin

text \<open>
  Access to the tables as \<open>WorkspaceScope\<close> of \<open>apps/api/src/auth/scope.ts\<close> grants it:
  lookups and updates by id inside one workspace, the audit trail, the frame every
  scoped handler respects, and the CHECK clauses of migration 0005 as predicates on
  rows.
\<close>

section \<open>Scoped access\<close>

interpretation task_table: keyed_table tasks tasks_update t_workspace_id t_id
  by unfold_locales (simp_all add: comp_def)

interpretation application_table: keyed_table applications applications_update a_workspace_id a_id
  by unfold_locales (simp_all add: comp_def)

interpretation packet_table: keyed_table application_packets application_packets_update p_workspace_id p_id
  by unfold_locales (simp_all add: comp_def)

interpretation device_table: keyed_table paired_devices paired_devices_update d_workspace_id d_id
  by unfold_locales (simp_all add: comp_def)

interpretation session_table: keyed_table fill_sessions fill_sessions_update fs_workspace_id fs_id
  by unfold_locales (simp_all add: comp_def)

definition find_application :: "uuid \<Rightarrow> uuid \<Rightarrow> db \<Rightarrow> application_row option" where
  "find_application ws i s = scoped_find a_workspace_id ws (\<lambda>r. a_id r = i) (applications s)"

definition find_packet :: "uuid \<Rightarrow> uuid \<Rightarrow> db \<Rightarrow> packet_row option" where
  "find_packet ws i s = scoped_find p_workspace_id ws (\<lambda>r. p_id r = i) (application_packets s)"

definition find_job :: "uuid \<Rightarrow> uuid \<Rightarrow> db \<Rightarrow> job_row option" where
  "find_job ws i s = scoped_find j_workspace_id ws (\<lambda>r. j_id r = i) (jobs s)"

definition find_resume :: "uuid \<Rightarrow> uuid \<Rightarrow> db \<Rightarrow> resume_row option" where
  "find_resume ws i s = scoped_find r_workspace_id ws (\<lambda>r. r_id r = i) (resumes s)"

definition find_file :: "uuid \<Rightarrow> uuid \<Rightarrow> db \<Rightarrow> file_row option" where
  "find_file ws i s = scoped_find f_workspace_id ws (\<lambda>r. f_id r = i) (files s)"

definition find_device :: "uuid \<Rightarrow> uuid \<Rightarrow> db \<Rightarrow> paired_device_row option" where
  "find_device ws i s = scoped_find d_workspace_id ws (\<lambda>r. d_id r = i) (paired_devices s)"

definition find_session :: "uuid \<Rightarrow> uuid \<Rightarrow> db \<Rightarrow> fill_session_row option" where
  "find_session ws i s = scoped_find fs_workspace_id ws (\<lambda>r. fs_id r = i) (fill_sessions s)"

definition profile_revision :: "uuid \<Rightarrow> db \<Rightarrow> int" where
  "profile_revision ws s =
     (case scoped_find pr_workspace_id ws (\<lambda>_. True) (profiles s) of None \<Rightarrow> 1 | Some p \<Rightarrow> pr_revision p)"

definition requireJob :: "uuid \<Rightarrow> uuid \<Rightarrow> (db, job_row) handler" where
  "requireJob ws i = andThen (gets (find_job ws i)) (\<lambda>r. require r NotFound)"

definition recordAuditEvent ::
  "uuid \<Rightarrow> string \<Rightarrow> uuid option \<Rightarrow> uuid option \<Rightarrow> string option \<Rightarrow> json \<Rightarrow> (db, unit) handler" where
  "recordAuditEvent ws action actor object_id object_type metadata =
     modify (audit_events_update (insert_row
       \<lparr> au_workspace_id = ws, au_actor_id = actor, au_action = action, au_object_id = object_id,
         au_object_type = object_type, au_metadata = metadata \<rparr>))"

definition recordDeletion ::
  "uuid \<Rightarrow> deleted_object_kind \<Rightarrow> uuid option \<Rightarrow> deletion_reason \<Rightarrow> (db, unit) handler" where
  "recordDeletion ws kind object_id reason =
     modify (deletion_ledger_update (insert_row
       \<lparr> dl_workspace_id = ws, dl_object_kind = kind,
         dl_object_id = (if kind = DelWorkspace then None else object_id), dl_reason = reason \<rparr>))"

lemmas find_defs =
  find_application_def find_packet_def find_job_def find_resume_def find_file_def
  find_device_def find_session_def

lemma find_applicationD:
  "find_application ws i s = Some a \<Longrightarrow> a \<in> set (applications s) \<and> a_workspace_id a = ws \<and> a_id a = i"
  unfolding find_application_def by (drule scoped_find_SomeD) simp

lemma find_packetD:
  "find_packet ws i s = Some p \<Longrightarrow> p \<in> set (application_packets s) \<and> p_workspace_id p = ws \<and> p_id p = i"
  unfolding find_packet_def by (drule scoped_find_SomeD) simp

lemma find_jobD:
  "find_job ws i s = Some j \<Longrightarrow> j \<in> set (jobs s) \<and> j_workspace_id j = ws \<and> j_id j = i"
  unfolding find_job_def by (drule scoped_find_SomeD) simp

lemma find_deviceD:
  "find_device ws i s = Some d \<Longrightarrow> d \<in> set (paired_devices s) \<and> d_workspace_id d = ws \<and> d_id d = i"
  unfolding find_device_def by (drule scoped_find_SomeD) simp

lemma find_sessionD:
  "find_session ws i s = Some r \<Longrightarrow> r \<in> set (fill_sessions s) \<and> fs_workspace_id r = ws \<and> fs_id r = i"
  unfolding find_session_def by (drule scoped_find_SomeD) simp

section \<open>Weakest preconditions\<close>

lemma wp_requireJob [simp]:
  "wp (requireJob ws i) Q F = (\<lambda>s. case find_job ws i s of None \<Rightarrow> F NotFound s | Some a \<Rightarrow> Q a s)"
  by (rule ext) (simp add: requireJob_def)

definition audit_row ::
  "uuid \<Rightarrow> string \<Rightarrow> uuid option \<Rightarrow> uuid option \<Rightarrow> string option \<Rightarrow> json \<Rightarrow> audit_event_row" where
  "audit_row ws action actor object_id object_type metadata =
     \<lparr> au_workspace_id = ws, au_actor_id = actor, au_action = action, au_object_id = object_id,
       au_object_type = object_type, au_metadata = metadata \<rparr>"

lemma wp_recordAuditEvent [simp]:
  "wp (recordAuditEvent ws a b c d m) Q F =
     (\<lambda>s. Q () (audit_events_update (insert_row (audit_row ws a b c d m)) s))"
  by (rule ext) (simp add: recordAuditEvent_def audit_row_def)

section \<open>What another workspace can see\<close>

text \<open>The rows of every table that do not belong to workspace \<open>ws\<close>, and the two
  operator tables no workspace owns.  A handler of \<open>ws\<close> that keeps this value has had no
  effect on any other workspace.\<close>

definition outside :: "uuid \<Rightarrow> db \<Rightarrow> db" where
  "outside ws s =
     \<lparr> system_flags = system_flags s,
       users = users s,
       workspaces = foreign_rows w_id ws (workspaces s),
       memberships = foreign_rows mb_workspace_id ws (memberships s),
       sessions = foreign_rows ss_workspace_id ws (sessions s),
       files = foreign_rows f_workspace_id ws (files s),
       tasks = foreign_rows t_workspace_id ws (tasks s),
       task_artifacts = foreign_rows ta_workspace_id ws (task_artifacts s),
       idempotency_records = foreign_rows i_workspace_id ws (idempotency_records s),
       audit_events = foreign_rows au_workspace_id ws (audit_events s),
       profiles = foreign_rows pr_workspace_id ws (profiles s),
       profile_facts = foreign_rows fa_workspace_id ws (profile_facts s),
       preferences_rows = foreign_rows pf_workspace_id ws (preferences_rows s),
       profile_imports = foreign_rows im_workspace_id ws (profile_imports s),
       provider_settings = foreign_rows ps_workspace_id ws (provider_settings s),
       usage_ledger = foreign_rows u_workspace_id ws (usage_ledger s),
       sources = foreign_rows so_workspace_id ws (sources s),
       scans = foreign_rows sn_workspace_id ws (scans s),
       jobs = foreign_rows j_workspace_id ws (jobs s),
       job_sources = foreign_rows js_workspace_id ws (job_sources s),
       job_imports = foreign_rows jm_workspace_id ws (job_imports s),
       matches = foreign_rows m_workspace_id ws (matches s),
       resumes = foreign_rows r_workspace_id ws (resumes s),
       answer_bank = foreign_rows ab_workspace_id ws (answer_bank s),
       applications = foreign_rows a_workspace_id ws (applications s),
       application_packets = foreign_rows p_workspace_id ws (application_packets s),
       application_events = foreign_rows e_workspace_id ws (application_events s),
       paired_devices = foreign_rows d_workspace_id ws (paired_devices s),
       fill_sessions = foreign_rows fs_workspace_id ws (fill_sessions s),
       deletion_ledger = foreign_rows dl_workspace_id ws (deletion_ledger s),
       workspace_deletions = foreign_rows wd_workspace_id ws (workspace_deletions s) \<rparr>"

section \<open>The history\<close>

definition events_of :: "uuid \<Rightarrow> uuid \<Rightarrow> db \<Rightarrow> application_event_row list" where
  "events_of ws app s =
     scoped_filter e_workspace_id ws (\<lambda>e. e_application_id e = app) (application_events s)"

text \<open>The sequence numbers of an application's events are 1, 2, 3 and so on.\<close>

definition dense_events :: "uuid \<Rightarrow> uuid \<Rightarrow> db \<Rightarrow> bool" where
  "dense_events ws app s \<longleftrightarrow>
     map e_sequence (events_of ws app s) = map int [1..<Suc (length (events_of ws app s))]"

section \<open>Steps of a scoped handler\<close>

text \<open>What every handler that works through a \<open>WorkspaceScope\<close> of \<open>ws\<close> does to the
  database, whatever it answers: the rows of other workspaces stay as they are, the
  event log is only appended to, and dense histories stay dense.\<close>

definition scoped_step :: "uuid \<Rightarrow> db \<Rightarrow> db \<Rightarrow> bool" where
  "scoped_step ws s s' \<longleftrightarrow>
     outside ws s' = outside ws s \<and>
     (\<exists>es. application_events s' = application_events s @ es) \<and>
     (\<forall>w a. dense_events w a s \<longrightarrow> dense_events w a s')"

interpretation scope: step_relation "scoped_step ws" for ws
  by unfold_locales (auto simp: scoped_step_def)

abbreviation scoped :: "uuid \<Rightarrow> (db, 'a) handler \<Rightarrow> bool" where
  "scoped ws m \<equiv> obeys (scoped_step ws) m"

lemma scoped_modify:
  assumes "\<And>s. outside ws (f s) = outside ws s" and "\<And>s. application_events (f s) = application_events s"
  shows "scoped ws (modify f)"
  using assms
  by (intro scope.obeys_modify) (auto simp: scoped_step_def dense_events_def events_of_def)

lemma scoped_recordAuditEvent [handler_steps]: "scoped ws (recordAuditEvent ws a b c d e)"
  unfolding recordAuditEvent_def by (rule scoped_modify) (simp_all add: outside_def)

lemma scoped_recordDeletion [handler_steps]: "scoped ws (recordDeletion ws kind i reason)"
  unfolding recordDeletion_def by (rule scoped_modify) (simp_all add: outside_def)

lemma scoped_requireJob [handler_steps]: "scoped ws (requireJob ws i)"
  unfolding requireJob_def by (intro scope.obeys_rules)

lemma scoped_isolated: "scoped ws m \<Longrightarrow> outside ws (snd (m s)) = outside ws s"
  by (simp add: obeys_def scoped_step_def)

lemma scoped_history: "scoped ws m \<Longrightarrow> \<exists>es. application_events (snd (m s)) = application_events s @ es"
  by (simp add: obeys_def scoped_step_def)

lemma scoped_dense: "scoped ws m \<Longrightarrow> dense_events w a s \<Longrightarrow> dense_events w a (snd (m s))"
  by (simp add: obeys_def scoped_step_def)

section \<open>Constraints\<close>

text \<open>The CHECK clauses of \<open>applications\<close> and \<open>application_packets\<close> (migration 0005):
  a submitted application records when; evidence and a submission time exist only at
  or past submission; an approval is whole, names its own content and expires after
  it was given.\<close>

definition application_check :: "application_row \<Rightarrow> bool" where
  "application_check a \<longleftrightarrow>
     1 \<le> a_revision a \<and>
     (a_status a = Submitted \<longrightarrow> a_submitted_at a \<noteq> None) \<and>
     (a_submitted_at a \<noteq> None \<or> a_submission_evidence a \<noteq> None \<longrightarrow>
        a_status a \<in> set submitted_application_statuses)"

definition packet_check :: "packet_row \<Rightarrow> bool" where
  "packet_check p \<longleftrightarrow>
     (p_approved_hash p = None \<or> p_approved_hash p = Some (p_content_hash p)) \<and>
     (p_approved_at p = None \<longleftrightarrow> p_approved_hash p = None) \<and>
     (p_approved_at p = None \<longleftrightarrow> p_expires_at p = None) \<and>
     (case (p_approved_at p, p_expires_at p) of (Some t, Some u) \<Rightarrow> t < u | _ \<Rightarrow> True)"

end
