(* ===== verification/Packets.thy ===== *)
theory Packets
  imports Database
begin

text \<open>
  The packet side of \<open>apps/api/src/applications/service.ts\<close>: where an application
  is sent, which file is attached, the material the content hash covers, unresolved
  questions, staleness against the live state, and the expiry of an approval.
\<close>

section \<open>The destination\<close>

definition parseDestination :: "env \<Rightarrow> string option \<Rightarrow> url option" where
  "parseDestination E raw =
     (case raw of None \<Rightarrow> None
      | Some text \<Rightarrow>
          if trim text = '''' then None
          else case parse_url E (trim text) of None \<Rightarrow> None
            | Some u \<Rightarrow>
                if url_protocol u \<noteq> ''https:'' \<and> url_protocol u \<noteq> ''http:'' then None
                else if url_username u \<noteq> '''' \<or> url_password u \<noteq> '''' then None
                else Some u)"

text \<open>Newest provenance first: \<open>ORDER BY retrieved_at DESC, id DESC\<close>.\<close>

definition provenance_rows :: "uuid \<Rightarrow> uuid \<Rightarrow> db \<Rightarrow> job_source_row list" where
  "provenance_rows ws job s =
     rev (sort_key (\<lambda>r. js_retrieved_at r)
       (sort_key (\<lambda>r. js_id r) (scoped_filter js_workspace_id ws (\<lambda>r. js_job_id r = job) (job_sources s))))"

text \<open>The loop over the ordered rows: the first row is kept until a row with an apply
  URL replaces one without.\<close>

fun best_provenance :: "job_source_row option \<Rightarrow> job_source_row list \<Rightarrow> job_source_row option" where
  "best_provenance best [] = best"
| "best_provenance best (r # rs) =
     (case best of
        None \<Rightarrow> best_provenance (Some r) rs
      | Some b \<Rightarrow>
          if js_apply_url b = None \<and> js_apply_url r \<noteq> None then best_provenance (Some r) rs
          else best_provenance (Some b) rs)"

definition source_connector_version :: "uuid \<Rightarrow> job_source_row \<Rightarrow> db \<Rightarrow> string option" where
  "source_connector_version ws r s =
     (case js_source_id r of None \<Rightarrow> None
      | Some sid \<Rightarrow> map_option so_connector_version (scoped_find so_workspace_id ws (\<lambda>x. so_id x = sid) (sources s)))"

definition destination_of :: "env \<Rightarrow> uuid \<Rightarrow> uuid \<Rightarrow> db \<Rightarrow> packet_destination option" where
  "destination_of E ws job s =
     (case best_provenance None (provenance_rows ws job s) of None \<Rightarrow> None
      | Some r \<Rightarrow>
          (case parseDestination E (case js_apply_url r of Some u \<Rightarrow> Some u | None \<Rightarrow> Some (js_canonical_url r)) of
             None \<Rightarrow> None
           | Some u \<Rightarrow> Some
               \<lparr> pd_url = url_href u, pd_origin = url_origin u,
                 pd_connector = Some (connector_text (js_connector r)),
                 pd_connector_version = source_connector_version ws r s \<rparr>))"

definition resolveDestination :: "env \<Rightarrow> uuid \<Rightarrow> uuid \<Rightarrow> (db, packet_destination) handler" where
  "resolveDestination E ws job = andThen (gets (destination_of E ws job)) (\<lambda>d. require d Unprocessable)"

section \<open>The attachment\<close>

definition attachmentFileId :: "resume_row \<Rightarrow> uuid option" where
  "attachmentFileId r =
     (if r_mode r = OriginalMode then r_input_file_id r
      else case r_pdf_file_id r of Some f \<Rightarrow> Some f | None \<Rightarrow> r_docx_file_id r)"

definition attachmentSha256 :: "uuid \<Rightarrow> resume_row \<Rightarrow> db \<Rightarrow> string option" where
  "attachmentSha256 ws r s =
     (case attachmentFileId r of None \<Rightarrow> None | Some f \<Rightarrow> map_option f_sha256 (find_file ws f s))"

section \<open>The content hash\<close>

record packet_material_input =
  mi_profile_revision :: int
  mi_job_id :: uuid
  mi_job_revision :: int
  mi_resume_id :: uuid
  mi_resume_sha256 :: "string option"
  mi_destination :: packet_destination
  mi_form_fingerprint :: "string option"
  mi_answers :: "packet_answer list"

definition hashed_answer_of :: "packet_answer \<Rightarrow> hashed_answer" where
  "hashed_answer_of a =
     \<lparr> ha_question_key = pa_question_key a, ha_answer = pa_answer a, ha_provenance = pa_provenance a \<rparr>"

definition buildPacketHashMaterial :: "packet_material_input \<Rightarrow> packet_hash_material" where
  "buildPacketHashMaterial i =
     \<lparr> hm_hash_version = packet_hash_version,
       hm_profile_revision = mi_profile_revision i,
       hm_job_id = mi_job_id i,
       hm_job_revision = mi_job_revision i,
       hm_resume_id = mi_resume_id i,
       hm_resume_sha256 = mi_resume_sha256 i,
       hm_destination = mi_destination i,
       hm_form_fingerprint = mi_form_fingerprint i,
       hm_answers = map hashed_answer_of (sort_key pa_question_key (mi_answers i)) \<rparr>"

fun answer_json :: "answer_value \<Rightarrow> json" where
  "answer_json (AString s) = JStr s"
| "answer_json (ANumber i) = JNum i"
| "answer_json (ABool b) = JBool b"
| "answer_json (AStrings xs) = jstrs xs"

definition hashed_answer_json :: "hashed_answer \<Rightarrow> json" where
  "hashed_answer_json a = JObj
     [(''question_key'', JStr (ha_question_key a)),
      (''answer'', jopt answer_json (ha_answer a)),
      (''provenance'', JStr (provenance_text (ha_provenance a)))]"

definition destination_json :: "packet_destination \<Rightarrow> json" where
  "destination_json d = JObj
     [(''url'', JStr (pd_url d)), (''origin'', JStr (pd_origin d)),
      (''connector'', jopt JStr (pd_connector d)),
      (''connector_version'', jopt JStr (pd_connector_version d))]"

definition material_json :: "packet_hash_material \<Rightarrow> json" where
  "material_json m = JObj
     [(''hash_version'', JNum (hm_hash_version m)),
      (''profile_revision'', JNum (hm_profile_revision m)),
      (''job_id'', JStr (hm_job_id m)),
      (''job_revision'', JNum (hm_job_revision m)),
      (''resume_id'', JStr (hm_resume_id m)),
      (''resume_sha256'', jopt JStr (hm_resume_sha256 m)),
      (''destination'', destination_json (hm_destination m)),
      (''form_fingerprint'', jopt JStr (hm_form_fingerprint m)),
      (''answers'', JArr (map hashed_answer_json (hm_answers m)))]"

definition computeContentHash :: "env \<Rightarrow> packet_hash_material \<Rightarrow> string" where
  "computeContentHash E m = sha256Hex E (canonicalJson (material_json m))"

definition unresolvedQuestionKeys :: "packet_answer list \<Rightarrow> string list" where
  "unresolvedQuestionKeys answers =
     map pa_question_key (filter (\<lambda>a. pa_required a \<and> pa_answer a = None) answers)"

section \<open>Staleness and expiry\<close>

record packet_live_state =
  lv_profile_revision :: int
  lv_job_revision :: int
  lv_resume_sha256 :: "string option"
  lv_destination :: packet_destination

definition packetStaleness :: "packet_row \<Rightarrow> packet_live_state \<Rightarrow> timestamp \<Rightarrow> staleness_reason list" where
  "packetStaleness p live t =
     (if lv_profile_revision live \<noteq> p_profile_revision p then [ProfileRevisionChanged] else []) @
     (if lv_job_revision live \<noteq> p_job_revision p then [JobRevisionChanged] else []) @
     (if lv_resume_sha256 live \<noteq> p_resume_sha256 p then [ResumeChanged] else []) @
     (if pd_url (lv_destination live) \<noteq> p_destination_url p \<or>
         pd_origin (lv_destination live) \<noteq> p_destination_origin p then [DestinationChanged] else []) @
     (case p_expires_at p of None \<Rightarrow> [] | Some x \<Rightarrow> if x \<le> t then [ApprovalExpired] else [])"

definition approvalExpiry :: "timestamp \<Rightarrow> int \<Rightarrow> timestamp" where
  "approvalExpiry approved_at ttl_hours =
     approved_at + min (max ttl_hours 1) packet_approval_max_ttl_hours * 60 * 60 * 1000"

section \<open>Lemmas\<close>

lemma answer_json_inject [simp]: "answer_json a = answer_json b \<longleftrightarrow> a = b"
  by (cases a; cases b) (auto simp: jstrs_def inj_map_eq_map inj_def)

lemma answer_json_not_null: "answer_json a \<noteq> JNull"
  by (cases a) (simp_all add: jstrs_def)

lemma jopt_answer_inject [simp]: "jopt answer_json x = jopt answer_json y \<longleftrightarrow> x = y"
  by (rule jopt_inject) (simp_all add: answer_json_not_null)

lemma provenance_text_inject [simp]: "provenance_text a = provenance_text b \<longleftrightarrow> a = b"
  by (cases a; cases b) simp_all

lemma sorted_keys_answer_json [simp]: "sorted_keys (answer_json a) = answer_json a"
  by (cases a) simp_all

lemma sorted_keys_answer [simp]: "sorted_keys (jopt answer_json x) = jopt answer_json x"
  by (simp add: jopt_def split: option.splits)

lemma hashed_answer_json_inject: "sorted_keys (hashed_answer_json a) = sorted_keys (hashed_answer_json b) \<longleftrightarrow> a = b"
  by (cases a; cases b) (simp add: hashed_answer_json_def sort_key_def; auto)

lemma destination_json_inject: "sorted_keys (destination_json d) = sorted_keys (destination_json e) \<longleftrightarrow> d = e"
  by (cases d; cases e) (simp add: destination_json_def sort_key_def; auto)

lemma material_json_inject:
  "sorted_keys (material_json m) = sorted_keys (material_json n) \<longleftrightarrow> m = n"
proof -
  have answers: "map (sorted_keys \<circ> hashed_answer_json) xs = map (sorted_keys \<circ> hashed_answer_json) ys \<longleftrightarrow> xs = ys"
    for xs ys
    by (rule inj_map_eq_map) (simp add: inj_def hashed_answer_json_inject)
  show ?thesis
    by (cases m; cases n)
       (simp add: material_json_def sort_key_def answers destination_json_inject; auto)
qed

end
