(* ===== verification/AppService.thy ===== *)
theory AppService
  imports Packets
begin

text \<open>
  The state machine side of \<open>apps/api/src/applications/service.ts\<close>: the append-only
  history, \<open>transitionApplication\<close> (the only writer of the status column), the
  contexts a read loads and the reconciliation that withdraws a stale approval.
\<close>

section \<open>Events\<close>

record event_input =
  ev_type :: application_event_type
  ev_actor :: application_actor
  ev_status_before :: "application_status option"
  ev_status_after :: "application_status option"
  ev_reason :: "string option"
  ev_data :: "(string \<times> json) list"

definition event :: "application_event_type \<Rightarrow> application_actor \<Rightarrow> string option \<Rightarrow> (string \<times> json) list \<Rightarrow> event_input" where
  "event ty actor reason data =
     \<lparr> ev_type = ty, ev_actor = actor, ev_status_before = None, ev_status_after = None,
       ev_reason = reason, ev_data = data \<rparr>"

definition next_sequence :: "uuid \<Rightarrow> uuid \<Rightarrow> db \<Rightarrow> int" where
  "next_sequence ws app s = foldr max (map e_sequence (events_of ws app s)) 0 + 1"

definition event_row :: "env \<Rightarrow> uuid \<Rightarrow> uuid \<Rightarrow> event_input \<Rightarrow> db \<Rightarrow> application_event_row" where
  "event_row E ws app ev s =
     \<lparr> e_workspace_id = ws, e_application_id = app, e_sequence = next_sequence ws app s,
       e_type = ev_type ev, e_actor = ev_actor ev, e_status_before = ev_status_before ev,
       e_status_after = ev_status_after ev, e_reason = ev_reason ev, e_data = JObj (ev_data ev),
       e_occurred_at = now E \<rparr>"

definition appendApplicationEvent :: "env \<Rightarrow> uuid \<Rightarrow> uuid \<Rightarrow> event_input \<Rightarrow> (db, unit) handler" where
  "appendApplicationEvent E ws app ev =
     modify (\<lambda>s. application_events_update (insert_row (event_row E ws app ev s)) s)"

section \<open>Transitions\<close>

text \<open>An option that is \<open>None\<close> was not passed; \<open>Some None\<close> writes SQL NULL.\<close>

record transition_options =
  to_submitted_at :: "timestamp option option"
  to_evidence :: "submission_evidence option option"
  to_current_packet_id :: "uuid option option"

definition no_options :: transition_options where
  "no_options = \<lparr> to_submitted_at = None, to_evidence = None, to_current_packet_id = None \<rparr>"

definition patch_application ::
  "env \<Rightarrow> application_status \<Rightarrow> int \<Rightarrow> transition_options \<Rightarrow> application_row \<Rightarrow> application_row" where
  "patch_application E status revision opts r =
     r \<lparr> a_status := status, a_revision := revision, a_updated_at := now E,
         a_submitted_at := (case to_submitted_at opts of None \<Rightarrow> a_submitted_at r | Some x \<Rightarrow> x),
         a_submission_evidence := (case to_evidence opts of None \<Rightarrow> a_submission_evidence r | Some x \<Rightarrow> x),
         a_current_packet_id :=
           (case to_current_packet_id opts of None \<Rightarrow> a_current_packet_id r | Some x \<Rightarrow> x) \<rparr>"

text \<open>Where the walk ends, and the event as it is stored: the statuses default to the
  ends of the walk, and a walk of several steps is recorded in \<open>data.path\<close>.\<close>

definition final_status :: "application_row \<Rightarrow> application_status list \<Rightarrow> application_status" where
  "final_status app path = last (a_status app # path)"

definition stamp_event :: "application_row \<Rightarrow> application_status list \<Rightarrow> event_input \<Rightarrow> event_input" where
  "stamp_event app path ev =
     ev \<lparr> ev_status_before := Some (case ev_status_before ev of Some b \<Rightarrow> b | None \<Rightarrow> a_status app),
          ev_status_after := Some (case ev_status_after ev of Some b \<Rightarrow> b | None \<Rightarrow> final_status app path),
          ev_data := ev_data ev @
            (if length path > 1 then [(''path'', jstrs (map status_text (a_status app # path)))] else []) \<rparr>"

definition same_revision :: "application_row \<Rightarrow> application_row \<Rightarrow> bool" where
  "same_revision app r \<longleftrightarrow> a_id r = a_id app \<and> a_revision r = a_revision app"

definition transitionApplication ::
  "env \<Rightarrow> uuid \<Rightarrow> application_row \<Rightarrow> application_status list \<Rightarrow> event_input \<Rightarrow> transition_options
     \<Rightarrow> (db, application_row) handler" where
  "transitionApplication E ws app path ev opts =
     (let patch = patch_application E (final_status app path) (a_revision app + 1) opts in
     andThen (throw_if (\<not> allowed_path (a_status app) path) Conflict) (\<lambda>_.
     andThen (gets (\<lambda>s. scoped_find a_workspace_id ws (same_revision app) (applications s))) (\<lambda>found.
     andThen (require found Conflict) (\<lambda>row.
     andThen (modify (applications_update (scoped_update a_workspace_id ws (same_revision app) patch))) (\<lambda>_.
     andThen (appendApplicationEvent E ws (a_id app) (stamp_event app path ev)) (\<lambda>_.
     ret (patch row)))))))"

section \<open>Reading and reconciling\<close>

record application_context =
  cx_application :: application_row
  cx_job :: job_row
  cx_packet :: "packet_row option"
  cx_live :: "packet_live_state option"
  cx_staleness :: "staleness_reason list"

definition no_destination :: packet_destination where
  "no_destination = \<lparr> pd_url = '''', pd_origin = '''', pd_connector = None, pd_connector_version = None \<rparr>"

definition live_state :: "env \<Rightarrow> uuid \<Rightarrow> job_row \<Rightarrow> packet_row \<Rightarrow> db \<Rightarrow> packet_live_state" where
  "live_state E ws job p s =
     \<lparr> lv_profile_revision = profile_revision ws s,
       lv_job_revision = j_revision job,
       lv_resume_sha256 =
         (case find_resume ws (p_resume_id p) s of None \<Rightarrow> None | Some r \<Rightarrow> attachmentSha256 ws r s),
       lv_destination =
         (case destination_of E ws (j_id job) s of None \<Rightarrow> no_destination | Some d \<Rightarrow> d) \<rparr>"

definition load_context :: "env \<Rightarrow> uuid \<Rightarrow> db \<Rightarrow> application_row \<Rightarrow> application_context option" where
  "load_context E ws s app =
     (case find_job ws (a_job_id app) s of None \<Rightarrow> None
      | Some job \<Rightarrow>
          (case a_current_packet_id app of
             None \<Rightarrow> Some \<lparr> cx_application = app, cx_job = job, cx_packet = None, cx_live = None, cx_staleness = [] \<rparr>
           | Some pid \<Rightarrow>
               (case find_packet ws pid s of
                  None \<Rightarrow> Some \<lparr> cx_application = app, cx_job = job, cx_packet = None, cx_live = None, cx_staleness = [] \<rparr>
                | Some p \<Rightarrow>
                    let live = live_state E ws job p s in
                    Some \<lparr> cx_application = app, cx_job = job, cx_packet = Some p, cx_live = Some live,
                           cx_staleness = packetStaleness p live (now E) \<rparr>)))"

definition loadApplicationContexts :: "env \<Rightarrow> uuid \<Rightarrow> application_row list \<Rightarrow> (db, application_context list) handler" where
  "loadApplicationContexts E ws apps = gets (\<lambda>s. List.map_filter (load_context E ws s) apps)"

definition withdraw_approval :: "packet_row \<Rightarrow> packet_row" where
  "withdraw_approval p = p \<lparr> p_approved_at := None, p_approved_hash := None, p_expires_at := None \<rparr>"

definition withdraw_packet_approval :: "uuid \<Rightarrow> uuid \<Rightarrow> (db, unit) handler" where
  "withdraw_packet_approval ws pid =
     modify (application_packets_update (scoped_update p_workspace_id ws (\<lambda>p. p_id p = pid) withdraw_approval))"

definition join_reasons :: "staleness_reason list \<Rightarrow> string" where
  "join_reasons rs = commas (map staleness_text rs)"

definition reconcile_one :: "env \<Rightarrow> uuid \<Rightarrow> application_context \<Rightarrow> (db, application_context) handler" where
  "reconcile_one E ws c =
     (case cx_packet c of None \<Rightarrow> ret c
      | Some p \<Rightarrow>
          if p_approved_at p = None \<or> cx_staleness c = [] \<or> a_status (cx_application c) \<noteq> Approved then ret c
          else
            let expired_only = (cx_staleness c = [ApprovalExpired]);
                target = (if expired_only then ReadyForReview else Preparing)
            in
            andThen (transaction (
              andThen (withdraw_packet_approval ws (p_id p)) (\<lambda>_.
              transitionApplication E ws (cx_application c) [target]
                (event (if expired_only then EvApprovalExpired else EvApprovalInvalidated) ActorSystem
                   (Some (join_reasons (cx_staleness c)))
                   [(''packet_id'', JStr (p_id p)),
                    (''reasons'', jstrs (map staleness_text (cx_staleness c)))])
                no_options))) (\<lambda>updated.
            ret (c \<lparr> cx_application := updated, cx_packet := Some (withdraw_approval p) \<rparr>)))"

definition reconcileApplications ::
  "env \<Rightarrow> uuid \<Rightarrow> application_context list \<Rightarrow> (db, application_context list) handler" where
  "reconcileApplications E ws cs = map_each (reconcile_one E ws) cs"

text \<open>The common opening of a route that acts on one application: load its context,
  reconcile it, and refuse when the job row is gone.\<close>

definition load_reconciled :: "env \<Rightarrow> uuid \<Rightarrow> application_row \<Rightarrow> (db, application_context) handler" where
  "load_reconciled E ws app =
     andThen (loadApplicationContexts E ws [app]) (\<lambda>cs.
     andThen (reconcileApplications E ws cs) (\<lambda>rs.
     require (case rs of [] \<Rightarrow> None | c # _ \<Rightarrow> Some c) NotFound))"

definition requireApplication :: "uuid \<Rightarrow> uuid \<Rightarrow> (db, application_row) handler" where
  "requireApplication ws i = andThen (gets (find_application ws i)) (\<lambda>r. require r NotFound)"

section \<open>Transitions: what they do and what they keep\<close>

lemma patch_application_simps [simp]:
  "a_id (patch_application E st rv opts r) = a_id r"
  "a_workspace_id (patch_application E st rv opts r) = a_workspace_id r"
  "a_job_id (patch_application E st rv opts r) = a_job_id r"
  "a_status (patch_application E st rv opts r) = st"
  "a_revision (patch_application E st rv opts r) = rv"
  by (simp_all add: patch_application_def)

lemma withdraw_approval_simps [simp]:
  "p_id (withdraw_approval p) = p_id p"
  "p_workspace_id (withdraw_approval p) = p_workspace_id p"
  "p_resume_id (withdraw_approval p) = p_resume_id p"
  "p_content_hash (withdraw_approval p) = p_content_hash p"
  "p_answers (withdraw_approval p) = p_answers p"
  by (simp_all add: withdraw_approval_def)

definition after_transition ::
  "env \<Rightarrow> uuid \<Rightarrow> application_row \<Rightarrow> application_status list \<Rightarrow> event_input \<Rightarrow> transition_options \<Rightarrow> db \<Rightarrow> db" where
  "after_transition E ws app path ev opts s =
     (let t = applications_update (scoped_update a_workspace_id ws (same_revision app)
                (patch_application E (final_status app path) (a_revision app + 1) opts)) s
      in application_events_update (insert_row (event_row E ws (a_id app) (stamp_event app path ev) t)) t)"

lemma transition_ok:
  "transitionApplication E ws app path ev opts s = (Inr r', s') \<longleftrightarrow>
     allowed_path (a_status app) path \<and>
     (\<exists>row. scoped_find a_workspace_id ws (same_revision app) (applications s) = Some row \<and>
        r' = patch_application E (final_status app path) (a_revision app + 1) opts row) \<and>
     s' = after_transition E ws app path ev opts s"
  by (auto simp: transitionApplication_def after_transition_def appendApplicationEvent_def Let_def ok_simps)

lemma transition_err:
  assumes "transitionApplication E ws app path ev opts s = (Inl e, s')"
  shows "e = Conflict \<and> s' = s"
  using assms
  by (auto simp: transitionApplication_def appendApplicationEvent_def Let_def andThen_err)

lemma after_transition_simps [simp]:
  "applications (after_transition E ws app path ev opts s) =
     scoped_update a_workspace_id ws (same_revision app)
       (patch_application E (final_status app path) (a_revision app + 1) opts) (applications s)"
  "application_packets (after_transition E ws app path ev opts s) = application_packets s"
  "jobs (after_transition E ws app path ev opts s) = jobs s"
  "resumes (after_transition E ws app path ev opts s) = resumes s"
  "files (after_transition E ws app path ev opts s) = files s"
  "profiles (after_transition E ws app path ev opts s) = profiles s"
  "sources (after_transition E ws app path ev opts s) = sources s"
  "job_sources (after_transition E ws app path ev opts s) = job_sources s"
  "tasks (after_transition E ws app path ev opts s) = tasks s"
  "paired_devices (after_transition E ws app path ev opts s) = paired_devices s"
  "fill_sessions (after_transition E ws app path ev opts s) = fill_sessions s"
  "audit_events (after_transition E ws app path ev opts s) = audit_events s"
  "preferences_rows (after_transition E ws app path ev opts s) = preferences_rows s"
  by (simp_all add: after_transition_def Let_def)

lemma foldr_max_upt: "foldr max (map int [Suc 0..<Suc n]) 0 = int n"
proof -
  have "foldr max (map int [Suc 0..<Suc n]) a = max a (int n)" if "0 \<le> a" for a
    using that by (induction n arbitrary: a) auto
  then show ?thesis by simp
qed

lemma next_sequence_dense:
  assumes "dense_events ws app s"
  shows "next_sequence ws app s = int (Suc (length (events_of ws app s)))"
  using assms by (simp add: next_sequence_def dense_events_def foldr_max_upt del: upt_Suc)

lemma dense_append:
  assumes "dense_events w a s"
  shows "dense_events w a (application_events_update (insert_row (event_row E ws app ev s)) s)"
proof -
  have rows: "events_of w a (application_events_update (insert_row (event_row E ws app ev s)) s) =
      events_of w a s @ (if ws = w \<and> app = a then [event_row E ws app ev s] else [])"
    by (simp add: events_of_def scoped_filter_def insert_row_def event_row_def)
  have seq: "e_sequence (event_row E w a ev s) = int (Suc (length (events_of w a s)))"
    using next_sequence_dense [OF assms] by (simp add: event_row_def)
  show ?thesis
  proof (cases "ws = w \<and> app = a")
    case True
    then show ?thesis using assms seq unfolding dense_events_def rows by simp
  next
    case False
    then show ?thesis using assms unfolding dense_events_def rows by auto
  qed
qed

lemma outside_append_event [simp]:
  "outside ws (application_events_update (insert_row (event_row E ws app ev t)) s) = outside ws s"
  by (simp add: outside_def event_row_def)

lemma scoped_appendEvent [handler_steps]: "scoped ws (appendApplicationEvent E ws app ev)"
  unfolding appendApplicationEvent_def
  by (rule scope.obeys_modify) (auto simp: scoped_step_def dense_append, simp add: insert_row_def)

lemma scoped_transition [handler_steps]: "scoped ws (transitionApplication E ws app path ev opts)"
  unfolding transitionApplication_def Let_def
  by (intro scope.obeys_rules scoped_appendEvent scoped_modify) (simp_all add: outside_def)

lemma scoped_withdraw [handler_steps]: "scoped ws (withdraw_packet_approval ws pid)"
  unfolding withdraw_packet_approval_def by (rule scoped_modify) (simp_all add: outside_def)

lemma scoped_reconcile_one [handler_steps]: "scoped ws (reconcile_one E ws c)"
  unfolding reconcile_one_def Let_def
  by (intro scope.obeys_rules scoped_transition scoped_withdraw)

lemma scoped_load_contexts [handler_steps]: "scoped ws (loadApplicationContexts E ws apps)"
  unfolding loadApplicationContexts_def by (intro scope.obeys_rules)

lemma scoped_reconcile [handler_steps]: "scoped ws (reconcileApplications E ws cs)"
  unfolding reconcileApplications_def by (intro scope.obeys_rules scoped_reconcile_one)

lemma scoped_load_reconciled [handler_steps]: "scoped ws (load_reconciled E ws app)"
  unfolding load_reconciled_def
  by (intro scope.obeys_rules scoped_load_contexts scoped_reconcile)

lemma scoped_requireApplication [handler_steps]: "scoped ws (requireApplication ws i)"
  unfolding requireApplication_def by (intro scope.obeys_rules)

section \<open>Invariants of the application tables\<close>

text \<open>The content a packet row stores, for the job it is about.\<close>

definition packet_destination_of :: "packet_row \<Rightarrow> packet_destination" where
  "packet_destination_of p =
     \<lparr> pd_url = p_destination_url p, pd_origin = p_destination_origin p,
       pd_connector = p_connector p, pd_connector_version = p_connector_version p \<rparr>"

definition packet_material :: "packet_row \<Rightarrow> uuid \<Rightarrow> packet_hash_material" where
  "packet_material p job = buildPacketHashMaterial
     \<lparr> mi_profile_revision = p_profile_revision p, mi_job_id = job, mi_job_revision = p_job_revision p,
       mi_resume_id = p_resume_id p, mi_resume_sha256 = p_resume_sha256 p,
       mi_destination = packet_destination_of p, mi_form_fingerprint = p_form_fingerprint p,
       mi_answers = p_answers p \<rparr>"

text \<open>A packet belongs to an application of its workspace, and its content hash is the
  hash of the content it stores.\<close>

definition hash_bound :: "(string \<Rightarrow> string) \<Rightarrow> application_row list \<Rightarrow> packet_row \<Rightarrow> bool" where
  "hash_bound sha apps p \<longleftrightarrow>
     (\<exists>a \<in> set apps. a_id a = p_application_id p \<and> a_workspace_id a = p_workspace_id p \<and>
        p_content_hash p = sha (canonicalJson (material_json (packet_material p (a_job_id a)))))"

definition tables_ok :: "(string \<Rightarrow> string) \<Rightarrow> application_row list \<Rightarrow> packet_row list \<Rightarrow> bool" where
  "tables_ok sha apps packets \<longleftrightarrow>
     distinct (map a_id apps) \<and> distinct (map p_id packets) \<and>
     list_all application_check apps \<and> list_all packet_check packets \<and>
     list_all (hash_bound sha apps) packets"

definition db_ok :: "(string \<Rightarrow> string) \<Rightarrow> db \<Rightarrow> bool" where
  "db_ok sha s \<longleftrightarrow> tables_ok sha (applications s) (application_packets s)"

lemma db_ok_cong:
  "applications s' = applications s \<Longrightarrow> application_packets s' = application_packets s \<Longrightarrow>
     db_ok sha s' \<longleftrightarrow> db_ok sha s"
  by (simp add: db_ok_def)

lemma db_ok_application:
  "db_ok sha s \<Longrightarrow> find_application ws i s = Some app \<Longrightarrow> application_check app"
  by (auto simp: db_ok_def tables_ok_def list_all_iff dest!: find_applicationD)

lemma db_ok_packet: "db_ok sha s \<Longrightarrow> find_packet ws i s = Some p \<Longrightarrow> packet_check p"
  by (auto simp: db_ok_def tables_ok_def list_all_iff dest!: find_packetD)

lemma find_application_unique:
  assumes "distinct (map a_id (applications s))" and "a \<in> set (applications s)"
    and "find_application ws i s = Some b" and "a_id a = i"
  shows "a = b"
  using assms find_applicationD [OF assms(3)]
  by (auto simp: distinct_map inj_on_def)

lemma hash_bound_mono:
  assumes "hash_bound sha apps p"
    and "\<And>a. a \<in> set apps \<Longrightarrow> \<exists>b \<in> set apps'. a_id b = a_id a \<and> a_workspace_id b = a_workspace_id a \<and> a_job_id b = a_job_id a"
  shows "hash_bound sha apps' p"
  using assms unfolding hash_bound_def by (metis (no_types, lifting))

lemma tables_ok_update_application:
  assumes ok: "tables_ok sha apps packets"
    and keep: "\<And>r. a_id (f r) = a_id r \<and> a_workspace_id (f r) = a_workspace_id r \<and> a_job_id (f r) = a_job_id r"
    and check: "\<And>r. r \<in> set apps \<Longrightarrow> a_workspace_id r = ws \<Longrightarrow> P r \<Longrightarrow> application_check (f r)"
  shows "tables_ok sha (scoped_update a_workspace_id ws P f apps) packets"
proof -
  have "map a_id (scoped_update a_workspace_id ws P f apps) = map a_id apps"
    using keep by (intro map_scoped_update) simp
  moreover have "list_all application_check (scoped_update a_workspace_id ws P f apps)"
    using ok check by (auto simp: tables_ok_def list_all_iff scoped_update_def)
  moreover have "hash_bound sha (scoped_update a_workspace_id ws P f apps) p" if "hash_bound sha apps p" for p
    using that by (rule hash_bound_mono) (use keep in \<open>auto simp: scoped_update_def\<close>)
  ultimately show ?thesis
    using ok unfolding tables_ok_def list_all_iff by auto
qed

lemma tables_ok_update_packet:
  assumes ok: "tables_ok sha apps packets"
    and keep: "\<And>r. p_id (f r) = p_id r \<and> p_workspace_id (f r) = p_workspace_id r \<and>
                    p_application_id (f r) = p_application_id r \<and> p_content_hash (f r) = p_content_hash r \<and>
                    packet_material (f r) = packet_material r"
    and check: "\<And>r. r \<in> set packets \<Longrightarrow> p_workspace_id r = ws \<Longrightarrow> P r \<Longrightarrow> packet_check (f r)"
  shows "tables_ok sha apps (scoped_update p_workspace_id ws P f packets)"
proof -
  have "map p_id (scoped_update p_workspace_id ws P f packets) = map p_id packets"
    using keep by (intro map_scoped_update) simp
  moreover have "list_all packet_check (scoped_update p_workspace_id ws P f packets)"
    using ok check by (auto simp: tables_ok_def list_all_iff scoped_update_def)
  moreover have "hash_bound sha apps (f r) \<longleftrightarrow> hash_bound sha apps r" for r
    using keep by (simp add: hash_bound_def)
  ultimately show ?thesis
    using ok unfolding tables_ok_def list_all_iff by (auto elim!: scoped_updateE)
qed

lemma packet_material_withdraw [simp]: "packet_material (withdraw_approval p) = packet_material p"
  by (rule ext) (simp add: packet_material_def packet_destination_of_def withdraw_approval_def)

lemma withdraw_approval_fields [simp]:
  "p_application_id (withdraw_approval p) = p_application_id p"
  "p_approved_at (withdraw_approval p) = None"
  "p_approved_hash (withdraw_approval p) = None"
  "p_expires_at (withdraw_approval p) = None"
  by (simp_all add: withdraw_approval_def)

lemma tables_ok_withdraw:
  "tables_ok sha apps packets \<Longrightarrow>
     tables_ok sha apps (scoped_update p_workspace_id ws P withdraw_approval packets)"
  by (rule tables_ok_update_packet) (simp_all add: packet_check_def)

definition quiet :: "transition_options \<Rightarrow> bool" where
  "quiet opts \<longleftrightarrow> to_submitted_at opts = None \<and> to_evidence opts = None"

lemma quiet_no_options [simp]: "quiet no_options"
  by (simp add: quiet_def no_options_def)

lemma check_patch_quiet:
  assumes "application_check app" and "a_status app \<notin> set submitted_application_statuses"
    and "st \<noteq> Submitted" and "quiet opts"
  shows "application_check (patch_application E st (a_revision app + 1) opts app)"
  using assms by (auto simp: application_check_def patch_application_def quiet_def)

lemma same_revision_find:
  "find_application ws (a_id app) s = Some app \<Longrightarrow>
     scoped_find a_workspace_id ws (same_revision app) (applications s) = Some app"
  unfolding find_application_def same_revision_def
  by (erule scoped_find_strengthen) simp_all

lemma find_after_transition:
  assumes "find_application ws (a_id app) s = Some app"
  shows "find_application ws (a_id app) (after_transition E ws app path ev opts s) =
           Some (patch_application E (final_status app path) (a_revision app + 1) opts app)"
  using scoped_find_update [OF assms [unfolded find_application_def]]
  by (simp add: find_application_def same_revision_def)

lemma db_ok_transition:
  assumes ok: "db_ok sha s" and app: "find_application ws (a_id app) s = Some app"
    and check: "application_check (patch_application E (final_status app path) (a_revision app + 1) opts app)"
  shows "db_ok sha (after_transition E ws app path ev opts s)"
proof -
  have "distinct (map a_id (applications s))"
    using ok by (simp add: db_ok_def tables_ok_def)
  then have "r = app" if "r \<in> set (applications s)" "same_revision app r" for r
    using find_application_unique [OF _ that(1) app] that(2) by (simp add: same_revision_def)
  then show ?thesis
    using ok check unfolding db_ok_def
    by (auto intro!: tables_ok_update_application)
qed

text \<open>A transition from a row that is current succeeds exactly when the walk is permitted.\<close>

lemma wp_transition:
  assumes "find_application ws (a_id app) s = Some app"
  shows "wp (transitionApplication E ws app path ev opts) Q F s \<longleftrightarrow>
    (if allowed_path (a_status app) path
     then Q (patch_application E (final_status app path) (a_revision app + 1) opts app)
            (after_transition E ws app path ev opts s)
     else F Conflict s)"
  by (simp add: transitionApplication_def after_transition_def appendApplicationEvent_def Let_def
      same_revision_find [OF assms])

section \<open>What reconciliation leaves\<close>

definition stale_approval :: "application_context \<Rightarrow> bool" where
  "stale_approval c \<longleftrightarrow>
     (case cx_packet c of None \<Rightarrow> False | Some p \<Rightarrow> p_approved_at p \<noteq> None) \<and>
     cx_staleness c \<noteq> [] \<and> a_status (cx_application c) = Approved"

definition withdraw_target :: "application_context \<Rightarrow> application_status" where
  "withdraw_target c = (if cx_staleness c = [ApprovalExpired] then ReadyForReview else Preparing)"

text \<open>The row after a withdrawal: where the user has work to do, one revision later.\<close>

definition withdrawn_application :: "env \<Rightarrow> application_context \<Rightarrow> application_row" where
  "withdrawn_application E c =
     patch_application E (withdraw_target c) (a_revision (cx_application c) + 1) no_options (cx_application c)"

definition withdrawn_context :: "env \<Rightarrow> application_context \<Rightarrow> application_context" where
  "withdrawn_context E c =
     c \<lparr> cx_application := withdrawn_application E c, cx_packet := map_option withdraw_approval (cx_packet c) \<rparr>"

text \<open>A context is current in a database when its rows are the rows stored there and
  its live state is computed from it.\<close>

definition current_context :: "env \<Rightarrow> uuid \<Rightarrow> application_context \<Rightarrow> db \<Rightarrow> bool" where
  "current_context E ws c s \<longleftrightarrow>
     find_application ws (a_id (cx_application c)) s = Some (cx_application c) \<and>
     find_job ws (a_job_id (cx_application c)) s = Some (cx_job c) \<and>
     cx_packet c = (case a_current_packet_id (cx_application c) of None \<Rightarrow> None | Some pid \<Rightarrow> find_packet ws pid s) \<and>
     cx_live c = map_option (\<lambda>p. live_state E ws (cx_job c) p s) (cx_packet c)"

lemma load_context_current:
  assumes "load_context E ws s app = Some c" and "find_application ws (a_id app) s = Some app"
  shows "current_context E ws c s \<and> cx_application c = app \<and>
     cx_staleness c = (case cx_packet c of None \<Rightarrow> []
        | Some p \<Rightarrow> packetStaleness p (live_state E ws (cx_job c) p s) (now E))"
  using assms by (auto simp: load_context_def current_context_def Let_def split: option.splits)

lemma load_context_None: "load_context E ws s app = None \<longleftrightarrow> find_job ws (a_job_id app) s = None"
  by (auto simp: load_context_def Let_def split: option.splits)

definition withdrawal_event :: "application_context \<Rightarrow> packet_row \<Rightarrow> event_input" where
  "withdrawal_event c p =
     event (if cx_staleness c = [ApprovalExpired] then EvApprovalExpired else EvApprovalInvalidated) ActorSystem
       (Some (join_reasons (cx_staleness c)))
       [(''packet_id'', JStr (p_id p)), (''reasons'', jstrs (map staleness_text (cx_staleness c)))]"

definition after_withdrawal :: "env \<Rightarrow> uuid \<Rightarrow> application_context \<Rightarrow> packet_row \<Rightarrow> db \<Rightarrow> db" where
  "after_withdrawal E ws c p s =
     after_transition E ws (cx_application c) [withdraw_target c] (withdrawal_event c p) no_options
       (application_packets_update
          (scoped_update p_workspace_id ws (\<lambda>q. p_id q = p_id p) withdraw_approval) s)"

lemma final_status_single [simp]: "final_status app [st] = st"
  by (simp add: final_status_def)

lemma find_application_packets [simp]:
  "find_application ws i (application_packets_update f s) = find_application ws i s"
  by (simp add: find_application_def)

lemma allowed_withdraw: "a_status app = Approved \<Longrightarrow> allowed_path (a_status app) [withdraw_target c]"
  by (simp add: withdraw_target_def isAllowedApplicationTransition_def)

lemma wp_reconcile_one:
  assumes "find_application ws (a_id (cx_application c)) s = Some (cx_application c)"
  shows "wp (reconcile_one E ws c) Q F s \<longleftrightarrow>
    (if stale_approval c then \<forall>p. cx_packet c = Some p \<longrightarrow> Q (withdrawn_context E c) (after_withdrawal E ws c p s)
     else Q c s)"
proof (cases "stale_approval c")
  case True
  then obtain p x where p: "cx_packet c = Some p" "p_approved_at p = Some x"
      "cx_staleness c \<noteq> []" "a_status (cx_application c) = Approved"
    by (auto simp: stale_approval_def split: option.splits)
  then show ?thesis
    using True allowed_withdraw [of "cx_application c" c]
      wp_transition [of ws "cx_application c" "application_packets_update
          (scoped_update p_workspace_id ws (\<lambda>q. p_id q = p_id p) withdraw_approval) s"] assms
    by (simp add: reconcile_one_def Let_def withdraw_packet_approval_def withdraw_target_def
        withdrawal_event_def [symmetric] after_withdrawal_def withdrawn_context_def withdrawn_application_def)
next
  case False
  then show ?thesis
    by (auto simp: reconcile_one_def Let_def stale_approval_def split: option.splits)
qed

lemma find_after_withdrawal:
  assumes "find_application ws (a_id (cx_application c)) s = Some (cx_application c)"
  shows "find_application ws (a_id (cx_application c)) (after_withdrawal E ws c p s) = Some (withdrawn_application E c)"
  using assms by (simp add: after_withdrawal_def withdrawn_application_def find_after_transition)

lemma live_state_after_transition [simp]:
  "live_state E ws job p (after_transition E ws app path ev opts s) = live_state E ws job p s"
  by (simp add: live_state_def profile_revision_def find_resume_def attachmentSha256_def find_file_def
      destination_of_def provenance_rows_def source_connector_version_def
      split: option.splits)

lemma live_state_packets [simp]:
  "live_state E ws job p (application_packets_update f s) = live_state E ws job p s"
  by (simp add: live_state_def profile_revision_def find_resume_def attachmentSha256_def find_file_def
      destination_of_def provenance_rows_def source_connector_version_def
      split: option.splits)

lemma live_state_withdraw [simp]: "live_state E ws job (withdraw_approval p) s = live_state E ws job p s"
  by (simp add: live_state_def)

lemma current_after_withdrawal:
  assumes cur: "current_context E ws c s" and p: "cx_packet c = Some p"
  shows "current_context E ws (withdrawn_context E c) (after_withdrawal E ws c p s)"
proof -
  from cur p obtain pid where pid: "a_current_packet_id (cx_application c) = Some pid"
      and fp: "find_packet ws pid s = Some p"
    by (auto simp: current_context_def split: option.splits)
  have "find_packet ws pid (after_withdrawal E ws c p s) = Some (withdraw_approval p)"
    using scoped_find_update [OF fp [unfolded find_packet_def]]
    by (simp add: find_packet_def after_withdrawal_def)
  moreover have "find_application ws (a_id (cx_application c)) (after_withdrawal E ws c p s) =
      Some (withdrawn_application E c)"
    using cur by (intro find_after_withdrawal) (simp add: current_context_def)
  moreover have "a_current_packet_id (withdrawn_application E c) = Some pid"
      "a_job_id (withdrawn_application E c) = a_job_id (cx_application c)"
      "a_id (withdrawn_application E c) = a_id (cx_application c)"
    using pid by (simp_all add: withdrawn_application_def patch_application_def no_options_def)
  moreover have "find_job ws i (after_withdrawal E ws c p s) = find_job ws i s" for i
    by (simp add: find_job_def after_withdrawal_def)
  moreover have "live_state E ws (cx_job c) q (after_withdrawal E ws c p s) = live_state E ws (cx_job c) q s" for q
    by (simp add: after_withdrawal_def)
  moreover have "find_job ws (a_job_id (cx_application c)) s = Some (cx_job c)"
      "cx_live c = Some (live_state E ws (cx_job c) p s)"
    using cur p by (simp_all add: current_context_def)
  ultimately show ?thesis
    by (simp add: current_context_def withdrawn_context_def p)
qed

text \<open>The opening of a route: the context is current, and either nothing had to be
  withdrawn and nothing changed, or a stale approval was withdrawn.\<close>

definition opened :: "env \<Rightarrow> uuid \<Rightarrow> application_row \<Rightarrow> db \<Rightarrow> application_context \<Rightarrow> db \<Rightarrow> bool" where
  "opened E ws app s c s' \<longleftrightarrow>
     current_context E ws c s' \<and> a_id (cx_application c) = a_id app \<and>
     (\<exists>c0. load_context E ws s app = Some c0 \<and> cx_application c0 = app \<and> current_context E ws c0 s \<and>
        (\<not> stale_approval c0 \<and> c = c0 \<and> s' = s \<or>
         stale_approval c0 \<and> c = withdrawn_context E c0 \<and>
           (\<exists>p. cx_packet c0 = Some p \<and> s' = after_withdrawal E ws c0 p s)))"

lemma wp_load_reconciled:
  assumes app: "find_application ws (a_id app) s = Some app"
    and ok: "\<And>c s'. opened E ws app s c s' \<Longrightarrow> Q c s'"
    and err: "find_job ws (a_job_id app) s = None \<Longrightarrow> F NotFound s"
  shows "wp (load_reconciled E ws app) Q F s"
proof (cases "load_context E ws s app")
  case None
  then show ?thesis
    using err by (simp add: load_reconciled_def loadApplicationContexts_def reconcileApplications_def
        List.map_filter_def load_context_None)
next
  case (Some c0)
  from load_context_current [OF Some app]
  have cur: "current_context E ws c0 s" and c0: "cx_application c0 = app" by simp_all
  have "opened E ws app s c0 s" if "\<not> stale_approval c0"
    using that cur c0 Some by (auto simp: opened_def)
  moreover have "opened E ws app s (withdrawn_context E c0) (after_withdrawal E ws c0 p s)"
    if "stale_approval c0" "cx_packet c0 = Some p" for p
    using that cur c0 Some current_after_withdrawal [OF cur that(2)]
    by (auto simp: opened_def withdrawn_context_def withdrawn_application_def)
  ultimately have "wp (reconcile_one E ws c0) Q F s"
    using ok app c0 by (simp add: wp_reconcile_one)
  then show ?thesis
    by (simp add: load_reconciled_def loadApplicationContexts_def reconcileApplications_def
        List.map_filter_def Some)
qed

lemma opened_current: "opened E ws app s c s' \<Longrightarrow> current_context E ws c s'"
  by (simp add: opened_def)

lemma opened_id [simp]: "opened E ws app s c s' \<Longrightarrow> a_id (cx_application c) = a_id app"
  by (simp add: opened_def)

text \<open>Reconciliation never leaves an approved application on top of an approval that
  has gone stale.\<close>

lemma opened_not_stale:
  assumes "opened E ws app s c s'" and "a_status (cx_application c) = Approved"
    and "cx_packet c = Some p" and "p_approved_at p \<noteq> None"
  shows "s' = s \<and> cx_application c = app \<and> packetStaleness p (live_state E ws (cx_job c) p s) (now E) = []"
proof -
  from assms(1) obtain c0 where c0: "load_context E ws s app = Some c0" "cx_application c0 = app"
      "current_context E ws c0 s"
      and alt: "\<not> stale_approval c0 \<and> c = c0 \<and> s' = s \<or>
         stale_approval c0 \<and> c = withdrawn_context E c0"
    unfolding opened_def by blast
  have "a_status (cx_application (withdrawn_context E c0)) \<noteq> Approved"
    by (simp add: withdrawn_context_def withdrawn_application_def withdraw_target_def)
  then have fresh: "\<not> stale_approval c0" and c: "c = c0" and s': "s' = s"
    using alt assms(2) by auto
  have "cx_staleness c = packetStaleness p (live_state E ws (cx_job c) p s) (now E)"
    using load_context_current [OF c0(1)] c0(2,3) c assms(3) unfolding current_context_def by simp
  moreover have "cx_staleness c = []"
    using fresh assms(2-4) unfolding c stale_approval_def by simp
  ultimately show ?thesis
    using c s' c0(2) by simp
qed

lemma db_ok_after_withdrawal:
  assumes ok: "db_ok sha s" and st: "stale_approval c"
    and cur: "find_application ws (a_id (cx_application c)) s = Some (cx_application c)"
  shows "db_ok sha (after_withdrawal E ws c p s)"
  unfolding after_withdrawal_def
proof (rule db_ok_transition)
  show "db_ok sha (application_packets_update (scoped_update p_workspace_id ws (\<lambda>q. p_id q = p_id p) withdraw_approval) s)"
    using ok by (simp add: db_ok_def tables_ok_withdraw)
  show "find_application ws (a_id (cx_application c))
      (application_packets_update (scoped_update p_workspace_id ws (\<lambda>q. p_id q = p_id p) withdraw_approval) s)
      = Some (cx_application c)"
    using cur by simp
  have "application_check (cx_application c)"
    using db_ok_application [OF ok cur] .
  then show "application_check (patch_application E (final_status (cx_application c) [withdraw_target c])
      (a_revision (cx_application c) + 1) no_options (cx_application c))"
    using st by (intro check_patch_quiet)
      (auto simp: final_status_single stale_approval_def withdraw_target_def submitted_application_statuses_def)
qed

lemma db_ok_opened: "db_ok sha s \<Longrightarrow> opened E ws app s c s' \<Longrightarrow> db_ok sha s'"
  unfolding opened_def current_context_def using db_ok_after_withdrawal by blast

text \<open>Reconciling a page of applications.\<close>

definition stored_context :: "uuid \<Rightarrow> db \<Rightarrow> application_context \<Rightarrow> bool" where
  "stored_context ws s c \<longleftrightarrow> find_application ws (a_id (cx_application c)) s = Some (cx_application c)"

lemma find_application_withdrawal_other:
  assumes "i \<noteq> a_id (cx_application c)"
  shows "find_application ws i (after_withdrawal E ws c p s) = find_application ws i s"
proof -
  have "find (\<lambda>r. a_workspace_id r = ws \<and> a_id r = i) (scoped_update a_workspace_id ws (same_revision (cx_application c)) f rows)
      = find (\<lambda>r. a_workspace_id r = ws \<and> a_id r = i) rows"
    if "\<And>r. a_id (f r) = a_id r" "\<And>r. a_workspace_id (f r) = a_workspace_id r" for f rows
    using assms that by (induction rows) (auto simp: scoped_update_def same_revision_def)
  then show ?thesis by (simp add: after_withdrawal_def find_application_def scoped_find_def)
qed

lemma wp_reconcile_page:
  assumes "db_ok sha s" and "distinct (map (a_id \<circ> cx_application) cs)" and "list_all (stored_context ws s) cs"
  shows "wp (reconcileApplications E ws cs) (\<lambda>_. db_ok sha) (\<lambda>_. db_ok sha) s"
  using assms unfolding reconcileApplications_def
proof (induction cs arbitrary: s)
  case (Cons c cs)
  have c: "find_application ws (a_id (cx_application c)) s = Some (cx_application c)"
    using Cons.prems(3) by (simp add: stored_context_def)
  have others: "list_all (stored_context ws (after_withdrawal E ws c p s)) cs" for p
  proof -
    have "a_id (cx_application d) \<noteq> a_id (cx_application c)" if "d \<in> set cs" for d
      using Cons.prems(2) that by (simp add: comp_def image_iff) metis
    then show ?thesis
      using Cons.prems(3) by (simp add: list_all_iff stored_context_def find_application_withdrawal_other)
  qed
  show ?case
    using Cons.IH [OF Cons.prems(1)] Cons.IH [OF db_ok_after_withdrawal [OF Cons.prems(1) _ c] _ others] Cons.prems
    by (simp add: wp_reconcile_one [OF c])
qed simp

lemma load_context_application: "load_context E ws s app = Some c \<Longrightarrow> cx_application c = app"
  by (auto simp: load_context_def Let_def split: option.splits)

lemma set_map_filter: "y \<in> set (List.map_filter f xs) \<longleftrightarrow> (\<exists>x \<in> set xs. f x = Some y)"
  by (induction xs) (auto simp: map_filter_simps split: option.split)

lemma stored_contexts:
  assumes "db_ok sha s" and "distinct (map a_id apps)" and "\<And>a. a \<in> set apps \<Longrightarrow> a \<in> set (applications s) \<and> a_workspace_id a = ws"
  shows "distinct (map (a_id \<circ> cx_application) (List.map_filter (load_context E ws s) apps)) \<and>
     list_all (stored_context ws s) (List.map_filter (load_context E ws s) apps)"
  using assms(2,3)
proof (induction apps)
  case (Cons a apps)
  have ids: "a_id (cx_application c) \<in> a_id ` set apps" if "c \<in> set (List.map_filter (load_context E ws s) apps)" for c
    using that by (auto simp: set_map_filter dest!: load_context_application)
  have "find_application ws (a_id a) s = Some a"
  proof -
    obtain b where b: "find_application ws (a_id a) s = Some b"
      using Cons.prems(2) [of a]
      by (cases "find_application ws (a_id a) s") (auto simp: find_application_def scoped_find_None)
    moreover have "distinct (map a_id (applications s))" using assms(1) by (simp add: db_ok_def tables_ok_def)
    ultimately show ?thesis using find_application_unique Cons.prems(2) [of a] by (metis list.set_intros(1))
  qed
  then show ?case
    using Cons ids by (auto simp: map_filter_simps stored_context_def dest!: load_context_application split: option.split)
qed (simp add: map_filter_simps)

lemma wp_load_page:
  assumes "db_ok sha s" and "distinct (map a_id apps)" and "\<And>a. a \<in> set apps \<Longrightarrow> a \<in> set (applications s) \<and> a_workspace_id a = ws"
    and Q: "\<And>rs t. db_ok sha t \<Longrightarrow> Q rs t" and F: "\<And>e t. db_ok sha t \<Longrightarrow> F e t"
  shows "wp (loadApplicationContexts E ws apps) (\<lambda>cs. wp (reconcileApplications E ws cs) Q F) F s"
  using stored_contexts [OF assms(1-3), of E]
  by (auto simp: loadApplicationContexts_def Q F intro!: wp_mono [OF wp_reconcile_page [OF assms(1)]])

end
