(* ===== verification/Text.thy ===== *)
theory Text
  imports Clock "HOL-Library.Sublist"
begin

text \<open>
  The string functions discovery and the profile rely on: \<open>toLowerCase\<close>, the comparison
  form of a name (\<open>normalizeName\<close> of \<open>profile/facts.ts\<close>, \<open>normalizeCompany\<close> of
  \<open>discovery/jobs.ts\<close>), and SQL \<open>LIKE\<close> with the escaping of \<open>routes/jobs.ts\<close>.
\<close>

section \<open>Letters and spaces\<close>

text \<open>\<open>toLowerCase\<close> on the code units below 256.\<close>

definition lower_char :: "char \<Rightarrow> char" where
  "lower_char c =
     (let n = (of_char c :: nat) in
      if 65 \<le> n \<and> n \<le> 90 \<or> 192 \<le> n \<and> n \<le> 222 \<and> n \<noteq> 215 then char_of (n + 32) else c)"

definition toLowerCase :: "string \<Rightarrow> string" where
  "toLowerCase s = map lower_char s"

text \<open>\<open>replace(/\s+/g, ' ')\<close>: every maximal run of white space becomes one space.\<close>

function collapse_spaces :: "string \<Rightarrow> string" where
  "collapse_spaces [] = []"
| "collapse_spaces (c # cs) =
     (if is_space c then CHR '' '' # collapse_spaces (dropWhile is_space cs) else c # collapse_spaces cs)"
  by pat_completeness auto

termination
  by (relation "measure length") (auto simp: le_imp_less_Suc length_dropWhile_le)

text \<open>The comparison form of a name: \<open>trim().toLowerCase().replace(/\s+/g, ' ')\<close>.\<close>

definition normalizeName :: "string \<Rightarrow> string" where
  "normalizeName v = collapse_spaces (toLowerCase (trim v))"

definition normalizeCompany :: "string \<Rightarrow> string" where
  "normalizeCompany v = normalizeName v"

fun join :: "string \<Rightarrow> string list \<Rightarrow> string" where
  "join sep [] = []"
| "join sep [x] = x"
| "join sep (x # y # ys) = x @ sep @ join sep (y # ys)"

definition endsWith :: "string \<Rightarrow> string \<Rightarrow> bool" where
  "endsWith s e \<longleftrightarrow> suffix e s"

definition startsWith :: "string \<Rightarrow> string \<Rightarrow> bool" where
  "startsWith s p \<longleftrightarrow> prefix p s"

lemma of_char_less [simp]: "(of_char c :: nat) < 256"
  by simp

definition is_upper :: "nat \<Rightarrow> bool" where
  "is_upper n \<longleftrightarrow> 65 \<le> n \<and> n \<le> 90 \<or> 192 \<le> n \<and> n \<le> 222 \<and> n \<noteq> 215"

lemma of_char_lower: "(of_char (lower_char c) :: nat) = (if is_upper (of_char c) then of_char c + 32 else of_char c)"
  by (auto simp: lower_char_def is_upper_def Let_def)

lemma lower_char_same: "\<not> is_upper (of_char c) \<Longrightarrow> lower_char c = c"
  by (auto simp: lower_char_def is_upper_def Let_def)

lemma lower_char_idem [simp]: "lower_char (lower_char c) = lower_char c"
  by (rule lower_char_same) (auto simp: of_char_lower is_upper_def)

lemma is_space_lower [simp]: "is_space (lower_char c) = is_space c"
  by (auto simp: of_char_lower is_upper_def is_space_def Let_def)

lemma lower_char_space: "is_space c \<Longrightarrow> lower_char c = c"
  by (rule lower_char_same) (auto simp: is_upper_def is_space_def Let_def)

lemma is_space_blank [simp]: "is_space CHR '' ''"
  by (simp add: is_space_def)

lemma toLowerCase_idem [simp]: "toLowerCase (toLowerCase s) = toLowerCase s"
  by (simp add: toLowerCase_def)

lemma dropWhile_space_lower: "dropWhile is_space (toLowerCase s) = toLowerCase (dropWhile is_space s)"
  by (induction s) (simp_all add: toLowerCase_def)

lemma toLowerCase_collapse: "toLowerCase (collapse_spaces s) = collapse_spaces (toLowerCase s)"
proof (induction s rule: collapse_spaces.induct)
  case (2 c cs)
  show ?case
  proof (cases "is_space c")
    case True
    then show ?thesis using 2(1) by (simp add: toLowerCase_def lower_char_space dropWhile_space_lower [unfolded toLowerCase_def])
  next
    case False
    then show ?thesis using 2(2) by (simp add: toLowerCase_def)
  qed
qed (simp add: toLowerCase_def)

text \<open>A text is tidy when it neither starts nor ends with white space and every white
  space in it is a single blank.\<close>

fun single_spaced :: "string \<Rightarrow> bool" where
  "single_spaced [] = True"
| "single_spaced [c] = (is_space c \<longrightarrow> c = CHR '' '')"
| "single_spaced (c # d # cs) =
     ((is_space c \<longrightarrow> c = CHR '' '' \<and> \<not> is_space d) \<and> single_spaced (d # cs))"

lemma hd_collapse: "collapse_spaces s \<noteq> [] \<Longrightarrow> is_space (hd (collapse_spaces s)) = is_space (hd s)"
  by (cases s) auto

lemma single_spaced_collapse: "single_spaced (collapse_spaces s)"
proof (induction s rule: collapse_spaces.induct)
  case (2 c cs)
  have sp: "single_spaced (collapse_spaces (c # cs))" if "is_space c"
  proof (cases "collapse_spaces (dropWhile is_space cs)")
    case (Cons d ds)
    have "is_space d = is_space (hd (dropWhile is_space cs))"
      using hd_collapse [of "dropWhile is_space cs"] Cons by simp
    moreover have "dropWhile is_space cs \<noteq> []" using Cons by (metis collapse_spaces.simps(1) list.distinct(1))
    ultimately have "\<not> is_space d" by (metis hd_dropWhile)
    then show ?thesis using 2(1) [OF that] that Cons by simp
  qed (use that in simp)
  show ?case
  proof (cases "is_space c")
    case False
    then show ?thesis using 2(2) by (cases "collapse_spaces cs") auto
  qed (rule sp)
qed simp

lemma collapse_single_spaced: "single_spaced s \<Longrightarrow> collapse_spaces s = s"
  by (induction s rule: single_spaced.induct) auto

lemma collapse_idem [simp]: "collapse_spaces (collapse_spaces s) = collapse_spaces s"
  by (rule collapse_single_spaced [OF single_spaced_collapse])

definition tidy :: "string \<Rightarrow> bool" where
  "tidy s \<longleftrightarrow> (s = [] \<or> \<not> is_space (hd s) \<and> \<not> is_space (last s))"

lemma trim_tidy: "tidy (trim s)"
proof (cases "trim s = []")
  case False
  let ?t = "dropWhile is_space s" and ?u = "dropWhile is_space (rev (dropWhile is_space s))"
  have u: "?u \<noteq> []" using False by (simp add: trim_def)
  have "\<not> is_space (last (trim s))"
    using hd_dropWhile [OF u] by (simp add: trim_def last_rev)
  moreover have "hd (trim s) = hd ?t"
  proof -
    obtain p where p: "rev ?t = p @ ?u" by (metis takeWhile_dropWhile_id)
    have "?t = rev ?u @ rev p" using arg_cong [OF p, of rev] by simp
    then have "hd ?t = hd (rev ?u)" using u by (metis Nil_is_rev_conv hd_append2)
    then show ?thesis by (simp add: trim_def)
  qed
  moreover have "?t \<noteq> []"
  proof
    assume "?t = []"
    then show False using u by (metis dropWhile.simps(1) rev.simps(1))
  qed
  then have "\<not> is_space (hd ?t)" by (rule hd_dropWhile)
  ultimately show ?thesis by (simp add: tidy_def)
qed (simp add: tidy_def)

lemma dropWhile_tidy: "s = [] \<or> \<not> P (hd s) \<Longrightarrow> dropWhile P s = s"
  by (cases s) auto

lemma tidy_trim: "tidy s \<Longrightarrow> trim s = s"
  by (auto simp: tidy_def trim_def dropWhile_tidy hd_rev)

lemma tidy_lower [simp]: "tidy (toLowerCase s) = tidy s"
  by (cases s) (auto simp: tidy_def toLowerCase_def last_map)

lemma collapse_Nil [simp]: "collapse_spaces s = [] \<longleftrightarrow> s = []"
  by (cases s) auto

lemma last_dropWhile_same: "dropWhile P xs \<noteq> [] \<Longrightarrow> last (dropWhile P xs) = last xs"
  by (metis last_appendR takeWhile_dropWhile_id)

lemma last_collapse: "s \<noteq> [] \<Longrightarrow> is_space (last (collapse_spaces s)) = is_space (last s)"
proof (induction s rule: collapse_spaces.induct)
  case (2 c cs)
  show ?case
  proof (cases "is_space c")
    case True
    show ?thesis
    proof (cases "dropWhile is_space cs = []")
      case True
      then have "list_all is_space (c # cs)" using \<open>is_space c\<close> by (simp add: dropWhile_eq_Nil_conv list_all_iff)
      then have "is_space (last (c # cs))" unfolding list_all_iff by (rule bspec) (rule last_in_set, simp)
      then show ?thesis using True \<open>is_space c\<close> by simp
    next
      case False
      then have "cs \<noteq> []" by auto
      then have "last (dropWhile is_space cs) = last (c # cs)"
        using last_dropWhile_same [OF False] by simp
      then show ?thesis using 2(1) [OF \<open>is_space c\<close> False] False \<open>is_space c\<close> by simp
    qed
  next
    case False
    then show ?thesis using 2(2) by (cases "cs = []") auto
  qed
qed simp

lemma tidy_collapse: "tidy s \<Longrightarrow> tidy (collapse_spaces s)"
  using hd_collapse [of s] last_collapse [of s] by (cases "s = []") (auto simp: tidy_def)

lemma normalizeName_idem: "normalizeName (normalizeName v) = normalizeName v"
proof -
  have "tidy (normalizeName v)" by (simp add: normalizeName_def tidy_collapse trim_tidy)
  then show ?thesis
    by (simp add: normalizeName_def tidy_trim toLowerCase_collapse)
qed

section \<open>LIKE\<close>

text \<open>PostgreSQL's matcher: a percent sign stands for any text, an underscore for any
  character, and a backslash takes the next character literally.\<close>

function like :: "string \<Rightarrow> string \<Rightarrow> bool" where
  "like [] s \<longleftrightarrow> s = []"
| "like (p # ps) s \<longleftrightarrow>
     (if p = CHR ''%'' then like ps s \<or> (case s of [] \<Rightarrow> False | _ # t \<Rightarrow> like (p # ps) t)
      else if p = CHR 0x5C then
        (case ps of [] \<Rightarrow> False
         | q # qs \<Rightarrow> (case s of [] \<Rightarrow> False | c # t \<Rightarrow> c = q \<and> like qs t))
      else (case s of [] \<Rightarrow> False | c # t \<Rightarrow> (p = CHR ''_'' \<or> c = p) \<and> like ps t))"
  by pat_completeness auto

termination
  by (relation "measures [\<lambda>(p, s). length p, \<lambda>(p, s). length s]") auto

definition like_special :: "char \<Rightarrow> bool" where
  "like_special c \<longleftrightarrow> c = CHR 0x5C \<or> c = CHR ''%'' \<or> c = CHR ''_''"

definition escapeLike :: "string \<Rightarrow> string" where
  "escapeLike v = concat (map (\<lambda>c. if like_special c then [CHR 0x5C, c] else [c]) v)"

lemma like_percent: "like (CHR ''%'' # ps) s \<longleftrightarrow> (\<exists>a b. s = a @ b \<and> like ps b)"
proof (induction s)
  case Nil
  then show ?case by simp
next
  case (Cons c s)
  have "like (CHR ''%'' # ps) (c # s) \<longleftrightarrow> like ps (c # s) \<or> (\<exists>a b. s = a @ b \<and> like ps b)"
    using Cons by simp
  also have "\<dots> \<longleftrightarrow> (\<exists>a b. c # s = a @ b \<and> like ps b)"
    by (auto simp: Cons_eq_append_conv)
  finally show ?case .
qed

lemma like_escaped: "like (escapeLike v @ ps) s \<longleftrightarrow> (\<exists>t. s = v @ t \<and> like ps t)"
proof (induction v arbitrary: s)
  case (Cons c v)
  have "like (escapeLike (c # v) @ ps) s \<longleftrightarrow> (\<exists>t. s = c # t \<and> like (escapeLike v @ ps) t)"
    by (cases s) (auto simp: escapeLike_def like_special_def)
  then show ?case using Cons by auto
qed (simp add: escapeLike_def)

lemma like_contains: "like (CHR ''%'' # escapeLike v @ ''%'') s \<longleftrightarrow> sublist v s"
proof -
  have "like ''%'' t" for t by (induction t) simp_all
  then show ?thesis by (auto simp only: like_percent like_escaped sublist_def append_assoc)
qed

definition ilike :: "string \<Rightarrow> string \<Rightarrow> bool" where
  "ilike pattern s \<longleftrightarrow> like (toLowerCase pattern) (toLowerCase s)"

lemma toLowerCase_append [simp]: "toLowerCase (a @ b) = toLowerCase a @ toLowerCase b"
  by (simp add: toLowerCase_def)

lemma lower_special [simp]: "like_special (lower_char c) = like_special c"
proof -
  have "lower_char c = d \<longleftrightarrow> c = d" if "d \<in> {CHR 0x5C, CHR ''%'', CHR ''_''}" for d
  proof
    assume "lower_char c = d"
    then have n: "(of_char (lower_char c) :: nat) = of_char d" by simp
    have "\<not> is_upper (of_char c)" using that n by (auto simp: of_char_lower is_upper_def split: if_splits)
    then show "c = d" using \<open>lower_char c = d\<close> lower_char_same by simp
  next
    assume "c = d"
    then show "lower_char c = d" using that by (auto intro!: lower_char_same simp: is_upper_def)
  qed
  then show ?thesis by (simp add: like_special_def)
qed

lemma toLowerCase_escape: "toLowerCase (escapeLike v) = escapeLike (toLowerCase v)"
proof (induction v)
  case (Cons c v)
  have bs: "lower_char CHR 0x5C = CHR 0x5C" by (rule lower_char_same) (simp add: is_upper_def)
  show ?case using Cons by (simp add: escapeLike_def toLowerCase_def bs)
qed (simp add: escapeLike_def toLowerCase_def)

text \<open>A search finds exactly the rows that contain the text, whatever characters it has.\<close>

lemma ilike_contains:
  "ilike (CHR ''%'' # escapeLike v @ ''%'') s \<longleftrightarrow> sublist (toLowerCase v) (toLowerCase s)"
proof -
  have "lower_char CHR ''%'' = CHR ''%''" by (rule lower_char_same) (simp add: is_upper_def)
  then have "toLowerCase (CHR ''%'' # escapeLike v @ ''%'') = CHR ''%'' # escapeLike (toLowerCase v) @ ''%''"
    using toLowerCase_escape [of v] by (simp add: toLowerCase_def)
  then show ?thesis unfolding ilike_def by (simp only: like_contains)
qed

end
