(* ===== verification/Answers.thy ===== *)
theory Answers
  imports AppService Text
begin

text \<open>
  The answer bank: \<open>apps/api/src/applications/answers.ts\<close> and the write routes of
  \<open>apps/api/src/routes/answers.ts\<close>.  A packet's answers are checked for repeated
  questions, for reuse of \<open>never_reuse\<close> questions, and for a provenance that names a
  row of the workspace.
\<close>

section \<open>Scopes\<close>

definition normalizeAnswerScope :: "answer_scope \<Rightarrow> string option \<Rightarrow> api_error + string" where
  "normalizeAnswerScope sc scope_id =
     (let value = trim (case scope_id of None \<Rightarrow> '''' | Some v \<Rightarrow> v) in
      if sc = ScopeGeneral then (if value \<noteq> '''' then Inl Unprocessable else Inr '''')
      else if value = '''' then Inl Unprocessable
      else Inr (if sc = ScopeCompany then normalizeCompany value else value))"

definition scopeCoversJob :: "answer_bank_row \<Rightarrow> job_row \<Rightarrow> bool" where
  "scopeCoversJob r job \<longleftrightarrow>
     (case ab_scope r of
        ScopeGeneral \<Rightarrow> True
      | ScopeCompany \<Rightarrow> ab_scope_id r = normalizeCompany (j_company job)
      | ScopeJob \<Rightarrow> ab_scope_id r = j_id job)"

section \<open>Checking a packet's answers\<close>

definition find_bank :: "uuid \<Rightarrow> uuid \<Rightarrow> db \<Rightarrow> answer_bank_row option" where
  "find_bank ws i s = scoped_find ab_workspace_id ws (\<lambda>r. ab_id r = i) (answer_bank s)"

definition find_fact :: "uuid \<Rightarrow> uuid \<Rightarrow> db \<Rightarrow> profile_fact_row option" where
  "find_fact ws i s = scoped_find fa_workspace_id ws (\<lambda>r. fa_id r = i) (profile_facts s)"

fun assert_shapes :: "string list \<Rightarrow> packet_answer list \<Rightarrow> (db, unit) handler" where
  "assert_shapes seen [] = ret ()"
| "assert_shapes seen (a # as) =
     andThen (throw_if (pa_question_key a \<in> set seen) Unprocessable) (\<lambda>_.
     andThen (throw_if (pa_sensitivity a = NeverReuse \<and> pa_provenance a \<noteq> UserEntered) Unprocessable) (\<lambda>_.
     andThen (throw_if (pa_provenance a = FromPreference \<and> pa_source_id a \<noteq> None) Unprocessable) (\<lambda>_.
     andThen (throw_if (pa_provenance a = UserEntered \<and> pa_source_id a \<noteq> None) Unprocessable) (\<lambda>_.
     assert_shapes (pa_question_key a # seen) as))))"

definition from_provenance :: "provenance \<Rightarrow> packet_answer list \<Rightarrow> packet_answer list" where
  "from_provenance pv answers = filter (\<lambda>a. pa_provenance a = pv) answers"

definition assert_bank_answer :: "env \<Rightarrow> uuid \<Rightarrow> job_row \<Rightarrow> packet_answer \<Rightarrow> (db, unit) handler" where
  "assert_bank_answer E ws job a =
     andThen (gets (\<lambda>s. Option.bind (pa_source_id a) (\<lambda>i. find_bank ws i s))) (\<lambda>found.
     andThen (require found NotFound) (\<lambda>row.
     andThen (throw_if (ab_question_key row \<noteq> pa_question_key a) Unprocessable) (\<lambda>_.
     andThen (throw_if (ab_confirmed_at row = None) Unprocessable) (\<lambda>_.
     andThen (throw_if (case ab_expires_at row of None \<Rightarrow> False | Some t \<Rightarrow> t \<le> now E) Unprocessable) (\<lambda>_.
     andThen (throw_if (ab_sensitivity row = NeverReuse) Unprocessable) (\<lambda>_.
     throw_if (\<not> scopeCoversJob row job) Unprocessable))))))"

definition assertBankProvenance :: "env \<Rightarrow> uuid \<Rightarrow> job_row \<Rightarrow> packet_answer list \<Rightarrow> (db, unit) handler" where
  "assertBankProvenance E ws job answers =
     (let bank = from_provenance FromAnswerBank answers in
      if bank = [] then ret ()
      else andThen (throw_if (\<exists>a \<in> set bank. pa_source_id a = None) Unprocessable) (\<lambda>_.
           for_each (assert_bank_answer E ws job) bank))"

definition assert_fact_answer :: "uuid \<Rightarrow> packet_answer \<Rightarrow> (db, unit) handler" where
  "assert_fact_answer ws a =
     andThen (gets (\<lambda>s. Option.bind (pa_source_id a) (\<lambda>i. find_fact ws i s))) (\<lambda>found.
     andThen (require found NotFound) (\<lambda>row.
     throw_if (\<not> fa_confirmed row) Unprocessable))"

definition assertFactProvenance :: "uuid \<Rightarrow> packet_answer list \<Rightarrow> (db, unit) handler" where
  "assertFactProvenance ws answers =
     (let facts = from_provenance FromProfileFact answers in
      if facts = [] then ret ()
      else andThen (throw_if (\<exists>a \<in> set facts. pa_source_id a = None) Unprocessable) (\<lambda>_.
           for_each (assert_fact_answer ws) facts))"

definition assertPacketAnswers :: "env \<Rightarrow> uuid \<Rightarrow> job_row \<Rightarrow> packet_answer list \<Rightarrow> (db, unit) handler" where
  "assertPacketAnswers E ws job answers =
     andThen (assert_shapes [] answers) (\<lambda>_.
     andThen (assertBankProvenance E ws job answers) (\<lambda>_.
     assertFactProvenance ws answers))"

section \<open>Writing the bank\<close>

record answer_bank_put_request =
  bp_question_key :: string
  bp_label :: "string option"
  bp_answer :: answer_value
  bp_sensitivity :: "answer_sensitivity option"
  bp_scope :: "answer_scope option"
  bp_scope_id :: "string option"
  bp_confirmed :: "bool option"
  bp_expires_at :: "timestamp option"

definition bank_identity :: "string \<Rightarrow> answer_scope \<Rightarrow> string \<Rightarrow> answer_bank_row \<Rightarrow> bool" where
  "bank_identity key sc sid r \<longleftrightarrow> ab_question_key r = key \<and> ab_scope r = sc \<and> ab_scope_id r = sid"

definition bank_values :: "env \<Rightarrow> answer_bank_put_request \<Rightarrow> answer_bank_row \<Rightarrow> answer_bank_row" where
  "bank_values E b r =
     r \<lparr> ab_label := bp_label b, ab_answer := bp_answer b,
         ab_sensitivity := (case bp_sensitivity b of None \<Rightarrow> Standard | Some x \<Rightarrow> x),
         ab_confirmed_at := (if (case bp_confirmed b of None \<Rightarrow> True | Some x \<Rightarrow> x) then Some (now E) else None),
         ab_expires_at := bp_expires_at b \<rparr>"

definition new_bank_row :: "env \<Rightarrow> uuid \<Rightarrow> uuid \<Rightarrow> answer_bank_put_request \<Rightarrow> answer_scope \<Rightarrow> string \<Rightarrow> answer_bank_row" where
  "new_bank_row E ws new_id b sc sid = bank_values E b
     \<lparr> ab_id = new_id, ab_workspace_id = ws, ab_question_key = bp_question_key b, ab_label = None,
       ab_answer = bp_answer b, ab_sensitivity = Standard, ab_scope = sc, ab_scope_id = sid,
       ab_confirmed_at = None, ab_expires_at = None \<rparr>"

definition putAnswerBankEntry ::
  "env \<Rightarrow> uuid \<Rightarrow> uuid \<Rightarrow> uuid \<Rightarrow> answer_bank_put_request \<Rightarrow> (db, answer_bank_row) handler" where
  "putAnswerBankEntry E ws user new_id b =
     (let sc = (case bp_scope b of None \<Rightarrow> ScopeGeneral | Some x \<Rightarrow> x) in
     andThen (reads (\<lambda>_. normalizeAnswerScope sc (bp_scope_id b))) (\<lambda>sid.
     transaction (
     andThen (gets (\<lambda>s. scoped_find ab_workspace_id ws (bank_identity (bp_question_key b) sc sid) (answer_bank s))) (\<lambda>old.
     andThen (case old of
         None \<Rightarrow>
           andThen (gets (\<lambda>s. new_id \<in> ab_id ` set (answer_bank s))) (\<lambda>taken.
           andThen (throw_if taken Conflict) (\<lambda>_.
           modify (answer_bank_update (insert_row (new_bank_row E ws new_id b sc sid)))))
       | Some _ \<Rightarrow>
           modify (answer_bank_update (scoped_update ab_workspace_id ws
             (bank_identity (bp_question_key b) sc sid) (bank_values E b)))) (\<lambda>_.
     andThen (gets (\<lambda>s. scoped_find ab_workspace_id ws (bank_identity (bp_question_key b) sc sid) (answer_bank s))) (\<lambda>stored.
     andThen (require stored InternalError) (\<lambda>row.
     andThen (recordAuditEvent ws ''answer_bank.stored'' (Some user) (Some (ab_id row)) (Some ''answer_bank'')
       (JObj [(''question_key'', JStr (bp_question_key b))])) (\<lambda>_.
     ret row))))))))"

definition deleteAnswerBankEntry :: "uuid \<Rightarrow> uuid \<Rightarrow> uuid \<Rightarrow> (db, unit) handler" where
  "deleteAnswerBankEntry ws user i =
     andThen (gets (find_bank ws i)) (\<lambda>found.
     andThen (require found NotFound) (\<lambda>existing.
     transaction (
     andThen (modify (answer_bank_update (filter (\<lambda>r. \<not> (ab_workspace_id r = ws \<and> ab_id r = i))))) (\<lambda>_.
     andThen (recordDeletion ws DelAnswerBank (Some i) UserRequest) (\<lambda>_.
     recordAuditEvent ws ''answer_bank.deleted'' (Some user) (Some i) (Some ''answer_bank'')
       (JObj [(''question_key'', JStr (ab_question_key existing))]))))))"

section \<open>Lemmas\<close>

lemma for_each_ok:
  "for_each f xs s = (Inr (), s') \<Longrightarrow> (\<And>x t t'. f x t = (Inr (), t') \<Longrightarrow> t' = t) \<Longrightarrow>
     s' = s \<and> (\<forall>x \<in> set xs. f x s = (Inr (), s))"
proof (induction xs)
  case (Cons x xs)
  then obtain t where "f x s = (Inr (), t)" "for_each f xs t = (Inr (), s')"
    by (auto simp: andThen_ok)
  then show ?case using Cons.IH Cons.prems(2) by fastforce
qed simp

lemma assert_shapes_ok:
  "assert_shapes seen as s = (Inr (), s') \<Longrightarrow>
     s' = s \<and> distinct (map pa_question_key as) \<and> set seen \<inter> pa_question_key ` set as = {} \<and>
     (\<forall>a \<in> set as. pa_sensitivity a = NeverReuse \<longrightarrow> pa_provenance a = UserEntered)"
proof (induction as arbitrary: seen)
  case (Cons a as)
  then have "assert_shapes (pa_question_key a # seen) as s = (Inr (), s')"
      "pa_question_key a \<notin> set seen"
      "pa_sensitivity a = NeverReuse \<longrightarrow> pa_provenance a = UserEntered"
    by (auto simp: ok_simps)
  with Cons.IH [OF this(1)] show ?case by auto
qed simp

definition usable_bank_answer :: "env \<Rightarrow> uuid \<Rightarrow> job_row \<Rightarrow> db \<Rightarrow> packet_answer \<Rightarrow> bool" where
  "usable_bank_answer E ws job s a \<longleftrightarrow>
     (\<exists>i row. pa_source_id a = Some i \<and> find_bank ws i s = Some row \<and>
        ab_question_key row = pa_question_key a \<and> ab_confirmed_at row \<noteq> None \<and>
        (\<forall>t. ab_expires_at row = Some t \<longrightarrow> now E < t) \<and> ab_sensitivity row \<noteq> NeverReuse \<and>
        scopeCoversJob row job)"

lemma assert_bank_answer_ok:
  "assert_bank_answer E ws job a s = (Inr (), s') \<longleftrightarrow> s' = s \<and> usable_bank_answer E ws job s a"
  by (auto simp: assert_bank_answer_def usable_bank_answer_def ok_simps bind_eq_Some_conv split: option.splits)

lemma assert_fact_answer_ok:
  "assert_fact_answer ws a s = (Inr (), s') \<longleftrightarrow>
     s' = s \<and> (\<exists>i row. pa_source_id a = Some i \<and> find_fact ws i s = Some row \<and> fa_confirmed row)"
  by (auto simp: assert_fact_answer_def ok_simps bind_eq_Some_conv)

lemma assertPacketAnswers_ok:
  assumes "assertPacketAnswers E ws job answers s = (Inr (), s')"
  shows "s' = s" and "distinct (map pa_question_key answers)"
    and "\<And>a. a \<in> set answers \<Longrightarrow> pa_sensitivity a = NeverReuse \<Longrightarrow> pa_provenance a = UserEntered"
    and "\<And>a. a \<in> set answers \<Longrightarrow> pa_provenance a = FromAnswerBank \<Longrightarrow> usable_bank_answer E ws job s a"
    and "\<And>a. a \<in> set answers \<Longrightarrow> pa_provenance a = FromProfileFact \<Longrightarrow>
           \<exists>i row. pa_source_id a = Some i \<and> find_fact ws i s = Some row \<and> fa_confirmed row"
proof -
  from assms obtain s1 s2 where
      1: "assert_shapes [] answers s = (Inr (), s1)"
      and 2: "assertBankProvenance E ws job answers s1 = (Inr (), s2)"
      and 3: "assertFactProvenance ws answers s2 = (Inr (), s')"
    by (auto simp: assertPacketAnswers_def andThen_ok)
  have s1: "s1 = s" using assert_shapes_ok [OF 1] by simp
  have bank: "s2 = s1 \<and> (\<forall>a \<in> set (from_provenance FromAnswerBank answers). usable_bank_answer E ws job s1 a)"
    using 2 for_each_ok [of "assert_bank_answer E ws job"]
    by (auto simp: assertBankProvenance_def Let_def ok_simps assert_bank_answer_ok split: if_splits)
  have fact: "s' = s2 \<and> (\<forall>a \<in> set (from_provenance FromProfileFact answers).
      \<exists>i row. pa_source_id a = Some i \<and> find_fact ws i s2 = Some row \<and> fa_confirmed row)"
    using 3 for_each_ok [of "assert_fact_answer ws"]
    by (auto simp: assertFactProvenance_def Let_def ok_simps assert_fact_answer_ok split: if_splits)
  show "s' = s" using s1 bank fact by simp
  show "distinct (map pa_question_key answers)" using assert_shapes_ok [OF 1] by simp
  show "\<And>a. a \<in> set answers \<Longrightarrow> pa_sensitivity a = NeverReuse \<Longrightarrow> pa_provenance a = UserEntered"
    using assert_shapes_ok [OF 1] by simp
  show "\<And>a. a \<in> set answers \<Longrightarrow> pa_provenance a = FromAnswerBank \<Longrightarrow> usable_bank_answer E ws job s a"
    using bank s1 by (simp add: from_provenance_def)
  show "\<And>a. a \<in> set answers \<Longrightarrow> pa_provenance a = FromProfileFact \<Longrightarrow>
      \<exists>i row. pa_source_id a = Some i \<and> find_fact ws i s = Some row \<and> fa_confirmed row"
    using fact bank s1 by (simp add: from_provenance_def)
qed

lemma assert_shapes_state: "snd (assert_shapes seen as s) = s"
  by (induction as arbitrary: seen) (auto simp: andThen_def throw_if_apply)

lemma scoped_assert_shapes [handler_steps]: "scoped ws (assert_shapes seen as)"
  by (simp add: obeys_def assert_shapes_state scope.step_refl)

lemma scoped_assertPacketAnswers [handler_steps]: "scoped ws (assertPacketAnswers E ws job answers)"
  unfolding assertPacketAnswers_def assertBankProvenance_def assertFactProvenance_def Let_def
    assert_bank_answer_def assert_fact_answer_def
  by (intro scope.obeys_rules scoped_assert_shapes)

lemma scoped_deleteAnswerBankEntry [handler_steps]: "scoped ws (deleteAnswerBankEntry ws user i)"
  unfolding deleteAnswerBankEntry_def
  by (intro scope.obeys_rules scoped_recordAuditEvent scoped_recordDeletion scoped_modify)
     (auto simp: outside_def foreign_rows_def intro: filter_cong)

lemma bank_values_simps [simp]:
  "ab_id (bank_values E b r) = ab_id r" "ab_workspace_id (bank_values E b r) = ab_workspace_id r"
  "ab_question_key (bank_values E b r) = ab_question_key r" "ab_scope (bank_values E b r) = ab_scope r"
  "ab_scope_id (bank_values E b r) = ab_scope_id r"
  by (simp_all add: bank_values_def)

lemma scoped_putAnswerBankEntry [handler_steps]: "scoped ws (putAnswerBankEntry E ws user new_id b)"
  unfolding putAnswerBankEntry_def Let_def
  by (intro scope.obeys_rules scoped_recordAuditEvent scoped_modify)
     (simp_all add: outside_def new_bank_row_def)

lemma trim_trim [simp]: "trim (trim s) = trim s"
  by (rule tidy_trim) (rule trim_tidy)

lemma normalizeCompany_trim: "normalizeCompany (trim v) = normalizeCompany v"
  by (simp add: normalizeCompany_def normalizeName_def)

end
