(* ===== verification/Idempotency.thy ===== *)
theory Idempotency
  imports Database
begin

text \<open>
  \<open>apps/api/src/tasks/idempotency.ts\<close> and the task insertion of
  \<open>apps/api/src/tasks/enqueue.ts\<close>: the two ways a repeated command is kept from
  creating a second object.  The response body of a stored outcome is a JSON value.
  The \<open>catch\<close> around the replay record is not modelled: the insert has a conflict
  clause for its only unique constraint, so nothing else can make it fail here.
\<close>

definition idempotency_ttl_ms :: int where
  "idempotency_ttl_ms = 24 * 60 * 60 * 1000"

definition max_key_length :: nat where
  "max_key_length = 200"

definition min_key_length :: nat where
  "min_key_length = 8"

definition readIdempotencyKey :: "string option \<Rightarrow> api_error + string" where
  "readIdempotencyKey header =
     (case header of None \<Rightarrow> Inl ValidationError
      | Some raw \<Rightarrow>
          let key = trim raw in
          if length key = 0 then Inl ValidationError
          else if length key < min_key_length \<or> length key > max_key_length then Inl ValidationError
          else Inr key)"

type_synonym outcome = "nat \<times> json"

definition same_replay :: "string \<Rightarrow> string \<Rightarrow> idempotency_row \<Rightarrow> bool" where
  "same_replay route key r \<longleftrightarrow> i_route_key r = route \<and> i_idempotency_key r = key"

definition find_replay :: "uuid \<Rightarrow> string \<Rightarrow> string \<Rightarrow> db \<Rightarrow> idempotency_row option" where
  "find_replay ws route key s = scoped_find i_workspace_id ws (same_replay route key) (idempotency_records s)"

definition replay_row :: "env \<Rightarrow> uuid \<Rightarrow> string \<Rightarrow> string \<Rightarrow> string \<Rightarrow> outcome \<Rightarrow> idempotency_row" where
  "replay_row E ws route key hash out =
     \<lparr> i_workspace_id = ws, i_route_key = route, i_idempotency_key = key, i_request_hash = hash,
       i_response_status = fst out, i_response_body = snd out,
       i_expires_at = now E + idempotency_ttl_ms \<rparr>"

definition store_replay :: "env \<Rightarrow> uuid \<Rightarrow> string \<Rightarrow> string \<Rightarrow> string \<Rightarrow> outcome \<Rightarrow> db \<Rightarrow> db" where
  "store_replay E ws route key hash out s =
     (case find_replay ws route key s of
        None \<Rightarrow> idempotency_records_update (insert_row (replay_row E ws route key hash out)) s
      | Some _ \<Rightarrow> idempotency_records_update
          (scoped_update i_workspace_id ws (same_replay route key) (\<lambda>_. replay_row E ws route key hash out)) s)"

definition withIdempotency ::
  "env \<Rightarrow> uuid \<Rightarrow> string option \<Rightarrow> json \<Rightarrow> string \<Rightarrow> (db, outcome) handler \<Rightarrow> (db, outcome) handler" where
  "withIdempotency E ws header body route handler =
     andThen (reads (\<lambda>_. readIdempotencyKey header)) (\<lambda>key.
       let hash = hashRequestBody (sha256Hex E) body in
     andThen (gets (find_replay ws route key)) (\<lambda>existing.
     andThen (throw_if (case existing of None \<Rightarrow> False | Some r \<Rightarrow> i_request_hash r \<noteq> hash) IdempotencyMismatch) (\<lambda>_.
       case existing of
         Some r \<Rightarrow>
           if i_expires_at r > now E then ret (i_response_status r, i_response_body r)
           else andThen handler (\<lambda>out. andThen (modify (store_replay E ws route key hash out)) (\<lambda>_. ret out))
       | None \<Rightarrow>
           andThen handler (\<lambda>out. andThen (modify (store_replay E ws route key hash out)) (\<lambda>_. ret out)))))"

text \<open>\<open>pruneIdempotencyRecords\<close> removes the records whose window has passed.\<close>

definition pruneIdempotencyRecords :: "env \<Rightarrow> (db, nat) handler" where
  "pruneIdempotencyRecords E =
     andThen (gets (\<lambda>s. length (filter (\<lambda>r. i_expires_at r \<le> now E) (idempotency_records s)))) (\<lambda>n.
     andThen (modify (idempotency_records_update (filter (\<lambda>r. \<not> i_expires_at r \<le> now E)))) (\<lambda>_. ret n))"

definition accepted :: "uuid \<Rightarrow> outcome" where
  "accepted task_id = (202, JObj [(''task_id'', JStr task_id), (''status'', JStr ''queued'')])"

section \<open>Enqueueing\<close>

text \<open>The schema check on the payload is the type of the payload here.  A type without
  schemas cannot be enqueued.  The primary key and the unique constraint on
  \<open>(workspace_id, type, idempotency_key)\<close> reject a duplicate.\<close>

record enqueue_input =
  en_type :: task_type
  en_payload :: task_payload
  en_idempotency_key :: "string option"
  en_max_attempts :: int
  en_run_after :: "timestamp option"
  en_input_file_ids :: "uuid list"

definition plain_task :: "task_type \<Rightarrow> task_payload \<Rightarrow> string option \<Rightarrow> enqueue_input" where
  "plain_task ty payload key =
     \<lparr> en_type = ty, en_payload = payload, en_idempotency_key = key, en_max_attempts = default_max_attempts,
       en_run_after = None, en_input_file_ids = [] \<rparr>"

definition new_task :: "env \<Rightarrow> uuid \<Rightarrow> uuid \<Rightarrow> enqueue_input \<Rightarrow> task_row" where
  "new_task E ws new_id i =
     \<lparr> t_id = new_id, t_workspace_id = ws, t_type = en_type i, t_state = Queued, t_payload = en_payload i,
       t_result = None, t_idempotency_key = en_idempotency_key i, t_attempt = 0,
       t_max_attempts = en_max_attempts i,
       t_run_after = (case en_run_after i of None \<Rightarrow> now E | Some x \<Rightarrow> x),
       t_lease_token_hash = None, t_lease_expires_at = None, t_leased_by = None,
       t_last_heartbeat_at = None, t_capability = en_type i, t_progress = None,
       t_cancel_requested = False, t_error_code = None, t_error_message = None,
       t_error_retryable = None, t_input_file_ids = en_input_file_ids i,
       t_created_at = now E, t_updated_at = now E \<rparr>"

definition task_key_taken :: "uuid \<Rightarrow> enqueue_input \<Rightarrow> db \<Rightarrow> bool" where
  "task_key_taken ws i s \<longleftrightarrow>
     en_idempotency_key i \<noteq> None \<and>
     (\<exists>t \<in> set (tasks s). t_workspace_id t = ws \<and> t_type t = en_type i \<and>
        t_idempotency_key t = en_idempotency_key i)"

definition enqueueTask :: "env \<Rightarrow> uuid \<Rightarrow> uuid \<Rightarrow> enqueue_input \<Rightarrow> (db, task_row) handler" where
  "enqueueTask E ws new_id i =
     andThen (throw_if (en_type i \<notin> set implemented_task_types) InternalError) (\<lambda>_.
     andThen (gets (\<lambda>s. new_id \<in> t_id ` set (tasks s) \<or> task_key_taken ws i s)) (\<lambda>taken.
     andThen (throw_if taken Conflict) (\<lambda>_.
     andThen (modify (tasks_update (insert_row (new_task E ws new_id i)))) (\<lambda>_.
     ret (new_task E ws new_id i)))))"

section \<open>Lemmas\<close>

lemma en_type_plain [simp]: "en_type (plain_task ty p k) = ty"
  by (simp add: plain_task_def)

lemma find_replay_store:
  "find_replay ws route key (store_replay E ws route key hash out s) = Some (replay_row E ws route key hash out)"
proof (cases "find_replay ws route key s")
  case None
  then show ?thesis
    by (simp add: find_replay_def store_replay_def scoped_find_insert_new)
       (simp add: replay_row_def same_replay_def)
next
  case (Some r)
  have "find (\<lambda>r. i_workspace_id r = ws \<and> same_replay route key r) rows = Some r \<Longrightarrow>
      find (\<lambda>r. i_workspace_id r = ws \<and> same_replay route key r)
        (map (\<lambda>r. if i_workspace_id r = ws \<and> same_replay route key r then replay_row E ws route key hash out else r) rows)
      = Some (replay_row E ws route key hash out)" for rows
    by (induction rows) (auto simp: replay_row_def same_replay_def split: if_splits)
  then show ?thesis
    using Some by (simp add: find_replay_def store_replay_def scoped_find_def scoped_update_def)
qed

lemma foreign_rows_replace:
  "owner q = ws \<Longrightarrow> foreign_rows owner ws (scoped_update owner ws P (\<lambda>_. q) rows) = foreign_rows owner ws rows"
  by (induction rows) (auto simp: foreign_rows_def scoped_update_def)

lemma outside_store_replay [simp]: "outside ws (store_replay E ws route key hash out s) = outside ws s"
  by (simp add: store_replay_def outside_def foreign_rows_replace replay_row_def split: option.splits)

lemma store_replay_tables [simp]:
  "applications (store_replay E ws route key hash out s) = applications s"
  "application_packets (store_replay E ws route key hash out s) = application_packets s"
  "application_events (store_replay E ws route key hash out s) = application_events s"
  "tasks (store_replay E ws route key hash out s) = tasks s"
  "paired_devices (store_replay E ws route key hash out s) = paired_devices s"
  "fill_sessions (store_replay E ws route key hash out s) = fill_sessions s"
  by (simp_all add: store_replay_def split: option.splits)

lemma scoped_withIdempotency [handler_steps]:
  "scoped ws handler \<Longrightarrow> scoped ws (withIdempotency E ws header body route handler)"
  unfolding withIdempotency_def Let_def
  by (intro scope.obeys_rules scoped_modify) simp_all

lemma scoped_enqueueTask [handler_steps]: "scoped ws (enqueueTask E ws new_id i)"
  unfolding enqueueTask_def
  by (intro scope.obeys_rules scoped_modify) (simp_all add: outside_def new_task_def)

lemma wp_withIdempotency:
  assumes run: "\<And>key. readIdempotencyKey header = Inr key \<Longrightarrow>
      wp handler (\<lambda>out t. Q out (store_replay E ws route key (hashRequestBody (sha256Hex E) body) out t)) F s"
    and replay: "\<And>key r. readIdempotencyKey header = Inr key \<Longrightarrow> find_replay ws route key s = Some r \<Longrightarrow>
      Q (i_response_status r, i_response_body r) s"
    and err: "\<And>e. F e s"
  shows "wp (withIdempotency E ws header body route handler) Q F s"
proof (cases "readIdempotencyKey header")
  case (Inl e)
  then show ?thesis using err by (simp add: withIdempotency_def wp_def andThen_def)
next
  case (Inr key)
  show ?thesis
    using run [OF Inr] replay [OF Inr] err
    by (auto simp: withIdempotency_def Let_def Inr split: option.splits)
qed

lemma wp_enqueueTask:
  "wp (enqueueTask E ws new_id i) Q F s \<longleftrightarrow>
     (if en_type i \<notin> set implemented_task_types then F InternalError s
      else if new_id \<in> t_id ` set (tasks s) \<or> task_key_taken ws i s then F Conflict s
      else Q (new_task E ws new_id i) (tasks_update (insert_row (new_task E ws new_id i)) s))"
  by (simp add: enqueueTask_def)

end
