(* ===== verification/Settings.thy ===== *)
theory Settings
  imports Database
begin

text \<open>
  \<open>apps/api/src/settings/preferences.ts\<close> and \<open>routes/preferences.ts\<close>: a workspace has at
  most one preferences row, created with the defaults on first use, and a write names
  the revision it read.  \<open>workspacePreferences\<close> of \<open>discovery/scans.ts\<close> falls back to the
  defaults when the stored configuration no longer fits its schema.
\<close>

section \<open>Reading\<close>

definition find_preferences :: "uuid \<Rightarrow> db \<Rightarrow> preferences_row option" where
  "find_preferences ws s = scoped_find pf_workspace_id ws (\<lambda>_. True) (preferences_rows s)"

definition ensurePreferences :: "uuid \<Rightarrow> (db, preferences_row) handler" where
  "ensurePreferences ws =
     andThen (gets (find_preferences ws)) (\<lambda>existing.
       case existing of
         Some r \<Rightarrow> ret r
       | None \<Rightarrow>
           let row = \<lparr> pf_workspace_id = ws, pf_revision = 1, pf_config = Some default_preferences \<rparr> in
           andThen (modify (preferences_rows_update (insert_row row))) (\<lambda>_.
           andThen (gets (find_preferences ws)) (\<lambda>created. require created NotFound)))"

definition workspacePreferences :: "uuid \<Rightarrow> (db, preferences) handler" where
  "workspacePreferences ws =
     andThen (ensurePreferences ws) (\<lambda>row.
     ret (case pf_config row of Some c \<Rightarrow> c | None \<Rightarrow> default_preferences))"

section \<open>Frames\<close>

lemma scoped_ensurePreferences [handler_steps]: "scoped ws (ensurePreferences ws)"
  unfolding ensurePreferences_def Let_def
  by (intro scope.obeys_rules scoped_modify) (simp_all add: outside_def)

lemma scoped_workspacePreferences [handler_steps]: "scoped ws (workspacePreferences ws)"
  unfolding workspacePreferences_def by (intro scope.obeys_rules scoped_ensurePreferences)

definition stored_preferences :: "uuid \<Rightarrow> db \<Rightarrow> preferences" where
  "stored_preferences ws s =
     (case find_preferences ws s of None \<Rightarrow> default_preferences
      | Some r \<Rightarrow> (case pf_config r of Some c \<Rightarrow> c | None \<Rightarrow> default_preferences))"

lemma preferences_rows_same [simp]: "preferences_rows_update (\<lambda>x. x) s = s"
  by (cases s) simp

lemma wp_workspacePreferences:
  assumes "\<And>f. Q (stored_preferences ws s) (preferences_rows_update f s)"
  shows "wp (workspacePreferences ws) Q F s"
proof (cases "find_preferences ws s")
  case None
  then have "find_preferences ws (preferences_rows_update (insert_row r) s) =
      (if pf_workspace_id r = ws then Some r else None)" for r
    by (simp add: find_preferences_def scoped_find_insert_new)
  then show ?thesis
    using None assms by (simp add: workspacePreferences_def ensurePreferences_def stored_preferences_def)
next
  case (Some r)
  then show ?thesis
    using assms [of "\<lambda>x. x"]
    by (simp add: workspacePreferences_def ensurePreferences_def stored_preferences_def)
qed

lemma workspacePreferences_result:
  assumes "workspacePreferences ws s = (Inr p, s')"
  shows "p = stored_preferences ws s" and "stored_preferences ws s' = stored_preferences ws s"
    and "\<exists>f. s' = preferences_rows_update f s"
proof -
  have one: "p = stored_preferences ws s \<and> (\<exists>f. s' = preferences_rows_update f s)"
    by (rule wp_okD [OF wp_workspacePreferences assms]) auto
  have "stored_preferences ws s' = p"
    using assms by (auto simp: workspacePreferences_def ensurePreferences_def stored_preferences_def andThen_ok Let_def
        split: option.splits)
  with one show "p = stored_preferences ws s" and "stored_preferences ws s' = stored_preferences ws s"
    and "\<exists>f. s' = preferences_rows_update f s" by simp_all
qed

end
