(* ===== verification/AppRoutes.thy ===== *)
theory AppRoutes
  imports Answers Idempotency Settings
begin

text \<open>
  \<open>apps/api/src/routes/applications.ts\<close>: creating an application and its packets,
  approving, recording an outcome, and the two list reads.  Rendering a view
  reconciles first, so a read may withdraw an approval; the view itself is a
  projection of the context that is returned here.
\<close>

lemma db_ok_store_replay [simp]: "db_ok sha (store_replay E ws route key hash out s) = db_ok sha s"
  by (rule db_ok_cong) simp_all

section \<open>Reading\<close>

definition renderApplication :: "env \<Rightarrow> uuid \<Rightarrow> application_row \<Rightarrow> (db, application_context) handler" where
  "renderApplication E ws row = load_reconciled E ws row"

definition getApplication :: "env \<Rightarrow> uuid \<Rightarrow> uuid \<Rightarrow> (db, application_context) handler" where
  "getApplication E ws i = andThen (requireApplication ws i) (renderApplication E ws)"

definition list_limit :: "nat option \<Rightarrow> nat" where
  "list_limit l = min (max (case l of None \<Rightarrow> 25 | Some n \<Rightarrow> n) 1) 100"

text \<open>\<open>ORDER BY created_at DESC, id DESC\<close>; the cursor is the last row of the page before.\<close>

definition listed_applications ::
  "uuid \<Rightarrow> application_status option \<Rightarrow> uuid option \<Rightarrow> (timestamp \<times> uuid) option \<Rightarrow> db \<Rightarrow> application_row list" where
  "listed_applications ws status job cursor s =
     rev (sort_key a_created_at (sort_key a_id
       (scoped_filter a_workspace_id ws
         (\<lambda>a. (case status of None \<Rightarrow> True | Some st \<Rightarrow> a_status a = st) \<and>
              (case job of None \<Rightarrow> True | Some j \<Rightarrow> a_job_id a = j) \<and>
              (case cursor of None \<Rightarrow> True
               | Some (t, i) \<Rightarrow> a_created_at a < t \<or> (a_created_at a = t \<and> a_id a < i)))
         (applications s))))"

definition listApplications ::
  "env \<Rightarrow> uuid \<Rightarrow> application_status option \<Rightarrow> uuid option \<Rightarrow> (timestamp \<times> uuid) option \<Rightarrow> nat option
     \<Rightarrow> (db, application_context list \<times> (timestamp \<times> uuid) option) handler" where
  "listApplications E ws status job cursor max_rows =
     (let limit = list_limit max_rows in
     andThen (gets (\<lambda>s. take (limit + 1) (listed_applications ws status job cursor s))) (\<lambda>rows.
       let page = take limit rows;
           next_cursor = (if length rows > limit \<and> page \<noteq> []
                          then Some (a_created_at (last page), a_id (last page)) else None)
       in
     andThen (loadApplicationContexts E ws page) (\<lambda>cs.
     andThen (reconcileApplications E ws cs) (\<lambda>items.
     ret (items, next_cursor)))))"

definition listApplicationEvents ::
  "uuid \<Rightarrow> uuid \<Rightarrow> int option \<Rightarrow> nat option \<Rightarrow> (db, application_event_row list \<times> int option) handler" where
  "listApplicationEvents ws i cursor max_rows =
     (let limit = list_limit max_rows in
     andThen (requireApplication ws i) (\<lambda>_.
     andThen (gets (\<lambda>s. take (limit + 1) (sort_key e_sequence (filter
         (\<lambda>e. case cursor of None \<Rightarrow> True | Some after \<Rightarrow> 0 < after \<longrightarrow> after < e_sequence e)
         (events_of ws i s))))) (\<lambda>rows.
     ret (take limit rows,
          if length rows > limit \<and> take limit rows \<noteq> [] then Some (e_sequence (last (take limit rows))) else None))))"

section \<open>Creating\<close>

definition new_application :: "env \<Rightarrow> uuid \<Rightarrow> uuid \<Rightarrow> uuid \<Rightarrow> application_row" where
  "new_application E ws new_id job =
     \<lparr> a_id = new_id, a_workspace_id = ws, a_job_id = job, a_status = Draft, a_revision = 1,
       a_current_packet_id = None, a_submission_evidence = None, a_submitted_at = None,
       a_observed_form_fingerprint = None, a_form_observed_at = None,
       a_created_at = now E, a_updated_at = now E \<rparr>"

definition find_by_job :: "uuid \<Rightarrow> uuid \<Rightarrow> db \<Rightarrow> application_row option" where
  "find_by_job ws job s = scoped_find a_workspace_id ws (\<lambda>a. a_job_id a = job) (applications s)"

definition insert_application :: "env \<Rightarrow> uuid \<Rightarrow> uuid \<Rightarrow> uuid \<Rightarrow> uuid \<Rightarrow> (db, application_row) handler" where
  "insert_application E ws user new_id job =
     transaction (
     andThen (gets (find_by_job ws job)) (\<lambda>existing.
       case existing of
         Some row \<Rightarrow> ret row
       | None \<Rightarrow>
           andThen (gets (\<lambda>s. new_id \<in> a_id ` set (applications s))) (\<lambda>taken.
           andThen (throw_if taken Conflict) (\<lambda>_.
           andThen (modify (applications_update (insert_row (new_application E ws new_id job)))) (\<lambda>_.
           andThen (appendApplicationEvent E ws new_id
             ((event EvCreated ActorUser None [(''job_id'', JStr job)]) \<lparr> ev_status_after := Some Draft \<rparr>)) (\<lambda>_.
           andThen (recordAuditEvent ws ''application.created'' (Some user) (Some new_id) (Some ''application'')
             (JObj [(''job_id'', JStr job)])) (\<lambda>_.
           ret (new_application E ws new_id job))))))))"

definition createApplication :: "env \<Rightarrow> uuid \<Rightarrow> uuid \<Rightarrow> uuid \<Rightarrow> uuid \<Rightarrow> (db, application_context) handler" where
  "createApplication E ws user new_id job_id =
     andThen (requireJob ws job_id) (\<lambda>job.
     andThen (insert_application E ws user new_id (j_id job)) (\<lambda>row.
     renderApplication E ws row))"

section \<open>Packets\<close>

definition blocking_findings :: "resume_row \<Rightarrow> resume_finding list" where
  "blocking_findings r =
     filter (\<lambda>f. rfi_severity f = Blocking) (case r_validation r of None \<Rightarrow> [] | Some v \<Rightarrow> rv_findings v)"

definition assertResumeUsable :: "resume_row \<Rightarrow> job_row \<Rightarrow> (db, unit) handler" where
  "assertResumeUsable r job =
     andThen (throw_if (r_status r \<noteq> ResumeReady) Unprocessable) (\<lambda>_.
     andThen (throw_if (r_job_id r \<noteq> None \<and> r_job_id r \<noteq> Some (j_id job)) Unprocessable) (\<lambda>_.
     throw_if (0 < length (blocking_findings r)) Unprocessable))"

definition packets_of :: "uuid \<Rightarrow> uuid \<Rightarrow> db \<Rightarrow> packet_row list" where
  "packets_of ws app s = scoped_filter p_workspace_id ws (\<lambda>p. p_application_id p = app) (application_packets s)"

definition next_packet_revision :: "uuid \<Rightarrow> uuid \<Rightarrow> db \<Rightarrow> int" where
  "next_packet_revision ws app s = foldr max (map p_revision (packets_of ws app s)) 0 + 1"

text \<open>The insert: the primary key and \<open>UNIQUE (workspace_id, application_id, revision)\<close>.\<close>

definition insert_packet :: "packet_row \<Rightarrow> (db, unit) handler" where
  "insert_packet p =
     andThen (gets (\<lambda>s. p_id p \<in> p_id ` set (application_packets s) \<or>
        p_revision p \<in> p_revision ` set (packets_of (p_workspace_id p) (p_application_id p) s))) (\<lambda>taken.
     andThen (throw_if taken Conflict) (\<lambda>_.
     modify (application_packets_update (insert_row p))))"

definition packet_from_input ::
  "env \<Rightarrow> uuid \<Rightarrow> uuid \<Rightarrow> uuid \<Rightarrow> int \<Rightarrow> packet_material_input \<Rightarrow> packet_row" where
  "packet_from_input E ws new_id app revision i =
     \<lparr> p_id = new_id, p_workspace_id = ws, p_application_id = app, p_revision = revision,
       p_profile_revision = mi_profile_revision i, p_job_revision = mi_job_revision i,
       p_resume_id = mi_resume_id i, p_resume_sha256 = mi_resume_sha256 i,
       p_destination_url = pd_url (mi_destination i), p_destination_origin = pd_origin (mi_destination i),
       p_connector = pd_connector (mi_destination i),
       p_connector_version = pd_connector_version (mi_destination i),
       p_answers = mi_answers i, p_form_fingerprint = mi_form_fingerprint i,
       p_content_hash = computeContentHash E (buildPacketHashMaterial i),
       p_approved_hash = None, p_approved_at = None, p_expires_at = None, p_created_at = now E \<rparr>"

definition packet_created_event :: "uuid \<Rightarrow> int \<Rightarrow> packet_answer list \<Rightarrow> uuid \<Rightarrow> event_input" where
  "packet_created_event pid rv answers resume =
     (let unresolved = unresolvedQuestionKeys answers in
      event EvPacketCreated ActorUser
        (if length unresolved > 0 then Some ''unanswered_required_questions'' else None)
        [(''packet_id'', JStr pid), (''packet_revision'', JNum rv),
         (''answer_count'', JNum (int (length answers))),
         (''unresolved_question_keys'', jstrs unresolved), (''resume_id'', JStr resume)])"

definition write_packet ::
  "env \<Rightarrow> uuid \<Rightarrow> uuid \<Rightarrow> uuid \<Rightarrow> application_row \<Rightarrow> packet_material_input \<Rightarrow> (db, outcome) handler" where
  "write_packet E ws user new_id app i =
     (let unresolved = unresolvedQuestionKeys (mi_answers i);
          target = (if length unresolved > 0 then NeedsInput else ReadyForReview)
      in
     andThen (transaction (
       andThen (gets (next_packet_revision ws (a_id app))) (\<lambda>rv.
       andThen (insert_packet (packet_from_input E ws new_id (a_id app) rv i)) (\<lambda>_.
       andThen (transitionApplication E ws app
         (if a_status app = Preparing then [target] else [Preparing, target])
         (packet_created_event new_id rv (mi_answers i) (mi_resume_id i))
         (no_options \<lparr> to_current_packet_id := Some (Some new_id) \<rparr>)) (\<lambda>_.
       recordAuditEvent ws ''application.packet_created'' (Some user) (Some new_id) (Some ''application_packet'')
         (JObj [(''application_id'', JStr (a_id app)), (''revision'', JNum rv),
                (''answer_count'', JNum (int (length (mi_answers i)))),
                (''unresolved_count'', JNum (int (length unresolved)))])))))) (\<lambda>_.
     ret (accepted new_id)))"

definition createApplicationPacket ::
  "env \<Rightarrow> uuid \<Rightarrow> uuid \<Rightarrow> uuid \<Rightarrow> string option \<Rightarrow> json \<Rightarrow> uuid \<Rightarrow> create_packet_request \<Rightarrow> (db, outcome) handler" where
  "createApplicationPacket E ws user new_id header body app_id b =
     andThen (reads (\<lambda>_. readIdempotencyKey header)) (\<lambda>_.
     andThen (requireApplication ws app_id) (\<lambda>app.
     andThen (throw_if (a_revision app \<noteq> cp_expected_revision b) StaleRevision) (\<lambda>_.
     andThen (throw_if (a_status app \<in> set submitted_application_statuses) Conflict) (\<lambda>_.
     andThen (throw_if (a_status app = Cancelled) Conflict) (\<lambda>_.
     andThen (requireJob ws (a_job_id app)) (\<lambda>job.
     andThen (gets (find_resume ws (cp_resume_id b))) (\<lambda>found.
     andThen (require found NotFound) (\<lambda>resume.
     andThen (assertResumeUsable resume job) (\<lambda>_.
     andThen (assertPacketAnswers E ws job (cp_answers b)) (\<lambda>_.
     andThen (resolveDestination E ws (j_id job)) (\<lambda>destination.
     andThen (gets (attachmentSha256 ws resume)) (\<lambda>sha.
     andThen (throw_if (sha = None) Unprocessable) (\<lambda>_.
     andThen (gets (profile_revision ws)) (\<lambda>profile.
     withIdempotency E ws header body ''POST /applications/:id/packets''
       (write_packet E ws user new_id app
         \<lparr> mi_profile_revision = profile, mi_job_id = j_id job, mi_job_revision = j_revision job,
           mi_resume_id = r_id resume, mi_resume_sha256 = sha, mi_destination = destination,
           mi_form_fingerprint = cp_form_fingerprint b, mi_answers = cp_answers b \<rparr>)))))))))))))))"

section \<open>Approval\<close>

definition approve_row :: "timestamp \<Rightarrow> timestamp \<Rightarrow> string \<Rightarrow> packet_row \<Rightarrow> packet_row" where
  "approve_row approved_at expires_at hash p =
     p \<lparr> p_approved_at := Some approved_at, p_approved_hash := Some hash, p_expires_at := Some expires_at \<rparr>"

definition approved_event :: "packet_row \<Rightarrow> timestamp \<Rightarrow> event_input" where
  "approved_event p expires =
     event EvPacketApproved ActorUser None
       [(''packet_id'', JStr (p_id p)), (''content_hash'', JStr (p_content_hash p)),
        (''expires_at'', JStr (toISOString expires))]"

text \<open>The transaction at the end of the approve route.\<close>

definition commit_approval ::
  "env \<Rightarrow> uuid \<Rightarrow> uuid \<Rightarrow> application_row \<Rightarrow> packet_row \<Rightarrow> timestamp \<Rightarrow> (db, application_row) handler" where
  "commit_approval E ws user app p expires =
     transaction (
       andThen (modify (application_packets_update (scoped_update p_workspace_id ws (\<lambda>q. p_id q = p_id p)
          (approve_row (now E) expires (p_content_hash p))))) (\<lambda>_.
       andThen (transitionApplication E ws app [Approved] (approved_event p expires) no_options) (\<lambda>row.
       andThen (recordAuditEvent ws ''application.approved'' (Some user) (Some (p_id p)) (Some ''application_packet'')
          (JObj [(''application_id'', JStr (a_id app)), (''expires_at'', JStr (toISOString expires))])) (\<lambda>_.
       ret row))))"

definition approveApplication :: "env \<Rightarrow> uuid \<Rightarrow> uuid \<Rightarrow> uuid \<Rightarrow> approve_request \<Rightarrow> (db, application_context) handler" where
  "approveApplication E ws user app_id b =
     andThen (requireApplication ws app_id) (\<lambda>existing.
     andThen (throw_if (a_revision existing \<noteq> ar_expected_revision b) StaleRevision) (\<lambda>_.
     andThen (load_reconciled E ws existing) (\<lambda>c.
       let app = cx_application c in
     andThen (throw_if (a_revision app \<noteq> ar_expected_revision b) StaleRevision) (\<lambda>_.
     andThen (throw_if (a_current_packet_id app \<noteq> Some (ar_packet_id b)) Conflict) (\<lambda>_.
     andThen (require (cx_packet c) Conflict) (\<lambda>p.
     andThen (throw_if (p_content_hash p \<noteq> ar_content_hash b) Conflict) (\<lambda>_.
     andThen (throw_if (length (unresolvedQuestionKeys (p_answers p)) > 0) Conflict) (\<lambda>_.
     andThen (require (cx_live c) InternalError) (\<lambda>live.
     andThen (throw_if (length (packetStaleness p live (now E)) > 0) Conflict) (\<lambda>_.
     andThen (throw_if (a_status app \<noteq> ReadyForReview) Conflict) (\<lambda>_.
     andThen (workspacePreferences ws) (\<lambda>prefs.
     andThen (commit_approval E ws user app p
       (approvalExpiry (now E) (approval_ttl_hours (limits prefs)))) (\<lambda>updated.
     renderApplication E ws updated)))))))))))))"

section \<open>Outcomes\<close>

definition outcome_field :: "(outcome_evidence \<Rightarrow> 'a option) \<Rightarrow> outcome_evidence option \<Rightarrow> 'a option" where
  "outcome_field f e = (case e of None \<Rightarrow> None | Some x \<Rightarrow> f x)"

definition outcome_evidence_of :: "outcome_request \<Rightarrow> submission_evidence option" where
  "outcome_evidence_of b =
     (if or_evidence_type b = NoEvidence \<and> or_evidence b = None then None
      else Some
        \<lparr> se_evidence_type = or_evidence_type b,
          se_confirmation_text = outcome_field oe_confirmation_text (or_evidence b),
          se_reference = outcome_field oe_reference (or_evidence b),
          se_url = outcome_field oe_url (or_evidence b),
          se_observed_at = outcome_field oe_observed_at (or_evidence b),
          se_screenshot_file_id = outcome_field oe_screenshot_file_id (or_evidence b),
          se_note = outcome_field oe_note (or_evidence b) \<rparr>)"

definition outcome_event_type :: "application_outcome \<Rightarrow> application_event_type" where
  "outcome_event_type out =
     (if out = OutCancelled then EvCancelled else if out = OutSubmitted then EvSubmitted else EvOutcomeRecorded)"

definition outcome_options :: "env \<Rightarrow> application_row \<Rightarrow> outcome_request \<Rightarrow> transition_options" where
  "outcome_options E app b =
     (let target = application_outcome_status (or_outcome b);
          observed_at = outcome_field oe_observed_at (or_evidence b);
          submitted_at = (if or_outcome b = OutSubmitted
                          then Some (case observed_at of Some t \<Rightarrow> t | None \<Rightarrow> now E)
                          else a_submitted_at app);
          clearing = (or_outcome b = OutNotSubmitted);
          keeps_evidence = (target \<in> set submitted_application_statuses)
      in \<lparr> to_submitted_at = Some (if clearing \<or> \<not> keeps_evidence then None else submitted_at),
           to_evidence = Some (if clearing \<or> \<not> keeps_evidence then None else outcome_evidence_of b),
           to_current_packet_id = None \<rparr>)"

definition recordApplicationOutcome ::
  "env \<Rightarrow> uuid \<Rightarrow> uuid \<Rightarrow> uuid \<Rightarrow> outcome_request \<Rightarrow> (db, application_context) handler" where
  "recordApplicationOutcome E ws user app_id b =
     andThen (requireApplication ws app_id) (\<lambda>app.
     andThen (throw_if (a_revision app \<noteq> or_expected_revision b) StaleRevision) (\<lambda>_.
     andThen (throw_if (or_evidence_type b = AdapterObserved) Unprocessable) (\<lambda>_.
     andThen (throw_if (or_outcome b = OutSubmitted \<and> or_evidence_type b = NoEvidence) Unprocessable) (\<lambda>_.
     andThen (transaction (
       andThen (transitionApplication E ws app [application_outcome_status (or_outcome b)]
          (event (outcome_event_type (or_outcome b)) ActorUser (Some (outcome_text (or_outcome b)))
            [(''outcome'', JStr (outcome_text (or_outcome b))),
             (''evidence_type'', JStr (evidence_text (or_evidence_type b))),
             (''has_reference'', JBool (outcome_field oe_reference (or_evidence b) \<noteq> None)),
             (''has_confirmation_text'', JBool (outcome_field oe_confirmation_text (or_evidence b) \<noteq> None))])
          (outcome_options E app b)) (\<lambda>row.
       andThen (recordAuditEvent ws ''application.outcome_recorded'' (Some user) (Some (a_id app)) (Some ''application'')
          (JObj [(''outcome'', JStr (outcome_text (or_outcome b))),
                 (''evidence_type'', JStr (evidence_text (or_evidence_type b)))])) (\<lambda>_.
       ret row)))) (\<lambda>updated.
     renderApplication E ws updated)))))"

section \<open>Frames\<close>

lemma scoped_getApplication [handler_steps]: "scoped ws (getApplication E ws i)"
  unfolding getApplication_def renderApplication_def
  by (intro scope.obeys_rules scoped_requireApplication scoped_load_reconciled)

lemma scoped_listApplications [handler_steps]: "scoped ws (listApplications E ws status job cursor max_rows)"
  unfolding listApplications_def Let_def
  by (intro scope.obeys_rules scoped_load_contexts scoped_reconcile)

lemma scoped_listApplicationEvents [handler_steps]: "scoped ws (listApplicationEvents ws i cursor max_rows)"
  unfolding listApplicationEvents_def Let_def
  by (intro scope.obeys_rules scoped_requireApplication)

lemma scoped_insert_application [handler_steps]: "scoped ws (insert_application E ws user new_id job)"
  unfolding insert_application_def
  by (intro scope.obeys_rules scoped_appendEvent scoped_recordAuditEvent scoped_modify)
     (simp_all add: outside_def new_application_def)

lemma scoped_createApplication [handler_steps]: "scoped ws (createApplication E ws user new_id job)"
  unfolding createApplication_def renderApplication_def
  by (intro scope.obeys_rules scoped_requireJob scoped_insert_application scoped_load_reconciled)

lemma scoped_insert_packet [handler_steps]: "p_workspace_id p = ws \<Longrightarrow> scoped ws (insert_packet p)"
  unfolding insert_packet_def
  by (intro scope.obeys_rules scoped_modify) (simp_all add: outside_def)

lemma packet_from_input_simps [simp]:
  "p_id (packet_from_input E ws n app rv i) = n"
  "p_workspace_id (packet_from_input E ws n app rv i) = ws"
  "p_application_id (packet_from_input E ws n app rv i) = app"
  "p_revision (packet_from_input E ws n app rv i) = rv"
  "p_answers (packet_from_input E ws n app rv i) = mi_answers i"
  "p_content_hash (packet_from_input E ws n app rv i) = computeContentHash E (buildPacketHashMaterial i)"
  "p_approved_at (packet_from_input E ws n app rv i) = None"
  by (simp_all add: packet_from_input_def)

lemma scoped_write_packet [handler_steps]: "scoped ws (write_packet E ws user new_id app i)"
  unfolding write_packet_def Let_def
  by (intro scope.obeys_rules scoped_insert_packet scoped_transition scoped_recordAuditEvent) simp

lemma scoped_resolveDestination [handler_steps]: "scoped ws (resolveDestination E ws job)"
  unfolding resolveDestination_def by (intro scope.obeys_rules)

lemma scoped_createApplicationPacket [handler_steps]:
  "scoped ws (createApplicationPacket E ws user new_id header body app_id b)"
  unfolding createApplicationPacket_def assertResumeUsable_def
  by (intro scope.obeys_rules scoped_requireApplication scoped_requireJob scoped_assertPacketAnswers
      scoped_resolveDestination scoped_withIdempotency scoped_write_packet)

lemma scoped_approveApplication [handler_steps]: "scoped ws (approveApplication E ws user app_id b)"
  unfolding approveApplication_def commit_approval_def renderApplication_def Let_def
  by (intro scope.obeys_rules scoped_requireApplication scoped_load_reconciled scoped_workspacePreferences
      scoped_transition scoped_recordAuditEvent scoped_modify)
     (simp_all add: outside_def approve_row_def)

lemma scoped_recordApplicationOutcome [handler_steps]: "scoped ws (recordApplicationOutcome E ws user app_id b)"
  unfolding recordApplicationOutcome_def renderApplication_def
  by (intro scope.obeys_rules scoped_requireApplication scoped_load_reconciled scoped_transition
      scoped_recordAuditEvent)

section \<open>What the routes do\<close>

lemma wp_requireApplication [simp]:
  "wp (requireApplication ws i) Q F =
     (\<lambda>s. case find_application ws i s of None \<Rightarrow> F NotFound s | Some a \<Rightarrow> Q a s)"
  by (rule ext) (simp add: requireApplication_def)

lemma db_ok_frames [simp]:
  "db_ok sha (audit_events_update f s) = db_ok sha s"
  "db_ok sha (preferences_rows_update g s) = db_ok sha s"
  "db_ok sha (tasks_update h s) = db_ok sha s"
  "db_ok sha (fill_sessions_update k s) = db_ok sha s"
  "db_ok sha (paired_devices_update l s) = db_ok sha s"
  "db_ok sha (application_events_update m s) = db_ok sha s"
  "db_ok sha (answer_bank_update n s) = db_ok sha s"
  "db_ok sha (deletion_ledger_update q s) = db_ok sha s"
  by (simp_all add: db_ok_def)

lemma find_application_frames [simp]:
  "find_application ws i (audit_events_update f s) = find_application ws i s"
  "find_application ws i (preferences_rows_update g s) = find_application ws i s"
  "find_application ws i (tasks_update h s) = find_application ws i s"
  "find_application ws i (fill_sessions_update k s) = find_application ws i s"
  by (simp_all add: find_application_def)

lemma find_packet_frames [simp]:
  "find_packet ws i (audit_events_update f s) = find_packet ws i s"
  "find_packet ws i (preferences_rows_update g s) = find_packet ws i s"
  "find_packet ws i (tasks_update h s) = find_packet ws i s"
  "find_packet ws i (fill_sessions_update k s) = find_packet ws i s"
  "find_packet ws i (after_transition E ws' app path ev opts s) = find_packet ws i s"
  by (simp_all add: find_packet_def)

lemma live_state_frames [simp]:
  "live_state E ws job p (audit_events_update f s) = live_state E ws job p s"
  "live_state E ws job p (preferences_rows_update g s) = live_state E ws job p s"
  by (simp_all add: live_state_def profile_revision_def find_resume_def attachmentSha256_def find_file_def
      destination_of_def provenance_rows_def source_connector_version_def split: option.splits)

lemma wp_render_db_ok:
  assumes "db_ok sha s" and "find_application ws (a_id app) s = Some app"
  shows "wp (renderApplication E ws app) (\<lambda>_. db_ok sha) (\<lambda>_. db_ok sha) s"
  unfolding renderApplication_def
  using assms by (intro wp_load_reconciled) (auto dest: db_ok_opened)

lemma approvalExpiry_bounds:
  "t < approvalExpiry t h" "approvalExpiry t h \<le> t + 24 * 60 * 60 * 1000"
  by (auto simp: approvalExpiry_def packet_approval_max_ttl_hours_def min_def max_def)

lemma approve_row_simps [simp]:
  "p_id (approve_row a x h p) = p_id p" "p_workspace_id (approve_row a x h p) = p_workspace_id p"
  "p_application_id (approve_row a x h p) = p_application_id p"
  "p_content_hash (approve_row a x h p) = p_content_hash p"
  "packet_material (approve_row a x h p) = packet_material p"
  "live_state E ws job (approve_row a x h p) s = live_state E ws job p s"
  by (simp_all add: approve_row_def packet_material_def packet_destination_of_def live_state_def fun_eq_iff)

lemma find_packet_unique:
  assumes "distinct (map p_id (application_packets s))" and "q \<in> set (application_packets s)"
    and "find_packet ws i s = Some p" and "p_id q = i"
  shows "q = p"
  using assms find_packetD [OF assms(3)] by (auto simp: distinct_map inj_on_def)

lemma db_ok_approve:
  assumes ok: "db_ok sha s" and p: "find_packet ws i s = Some p" and "t < u"
  shows "db_ok sha (application_packets_update
     (scoped_update p_workspace_id ws (\<lambda>q. p_id q = p_id p) (approve_row t u (p_content_hash p))) s)"
proof -
  have d: "distinct (map p_id (application_packets s))"
    using ok by (simp add: db_ok_def tables_ok_def)
  have "packet_check (approve_row t u (p_content_hash p) q)"
    if "q \<in> set (application_packets s)" "p_id q = p_id p" for q
  proof -
    have "q = p" using find_packet_unique [OF d that(1) p] find_packetD [OF p] that(2) by simp
    then show ?thesis using assms(3) by (simp add: packet_check_def approve_row_def)
  qed
  then show ?thesis
    using ok unfolding db_ok_def by (auto intro!: tables_ok_update_packet)
qed

text \<open>Everything the approve route has established when it writes the approval.\<close>

definition approvable :: "env \<Rightarrow> uuid \<Rightarrow> uuid \<Rightarrow> approve_request \<Rightarrow> db \<Rightarrow> application_row \<Rightarrow> packet_row \<Rightarrow> bool" where
  "approvable E ws app_id b s app p \<longleftrightarrow>
     find_application ws app_id s = Some app \<and> a_status app = ReadyForReview \<and>
     a_revision app = ar_expected_revision b \<and> a_current_packet_id app = Some (ar_packet_id b) \<and>
     find_packet ws (ar_packet_id b) s = Some p \<and> p_content_hash p = ar_content_hash b \<and>
     unresolvedQuestionKeys (p_answers p) = [] \<and>
     (\<exists>job. find_job ws (a_job_id app) s = Some job \<and>
        packetStaleness p (live_state E ws job p s) (now E) = [])"

definition approval_db :: "env \<Rightarrow> uuid \<Rightarrow> timestamp \<Rightarrow> application_row \<Rightarrow> packet_row \<Rightarrow> event_input \<Rightarrow> db \<Rightarrow> db" where
  "approval_db E ws expires app p ev s =
     after_transition E ws app [Approved] ev no_options
       (application_packets_update (scoped_update p_workspace_id ws (\<lambda>q. p_id q = p_id p)
          (approve_row (now E) expires (p_content_hash p))) s)"

lemma opened_ready_for_review:
  assumes op: "opened E ws app s c s'" and st: "a_status (cx_application c) = ReadyForReview"
    and rev: "a_revision (cx_application c) = a_revision app"
  shows "s' = s \<and> cx_application c = app"
proof -
  from op obtain c0 where "cx_application c0 = app"
      and alt: "\<not> stale_approval c0 \<and> c = c0 \<and> s' = s \<or> stale_approval c0 \<and> c = withdrawn_context E c0"
    unfolding opened_def by blast
  moreover have "a_revision (cx_application (withdrawn_context E c0)) = a_revision app + 1"
    using calculation by (simp add: withdrawn_context_def withdrawn_application_def)
  ultimately show ?thesis using rev by auto
qed

lemma approval_db_lookups:
  assumes app: "find_application ws (a_id app) s = Some app" and p: "find_packet ws i s = Some p"
  shows "find_application ws (a_id app) (approval_db E ws x app p ev s) =
           Some (patch_application E Approved (a_revision app + 1) no_options app)"
    and "find_packet ws i (approval_db E ws x app p ev s) = Some (approve_row (now E) x (p_content_hash p) p)"
    and "live_state E ws job q (approval_db E ws x app p ev s) = live_state E ws job q s"
    and "find_job ws j (approval_db E ws x app p ev s) = find_job ws j s"
  using app find_packetD [OF p] scoped_find_update [OF p [unfolded find_packet_def]]
  by (simp_all add: approval_db_def find_after_transition find_packet_def find_job_def)

lemma db_ok_approval_db:
  assumes ok: "db_ok sha s" and app: "find_application ws (a_id app) s = Some app"
    and p: "find_packet ws i s = Some p" and st: "a_status app = ReadyForReview" and "now E < x"
  shows "db_ok sha (approval_db E ws x app p ev s)"
  unfolding approval_db_def
proof (rule db_ok_transition)
  show "application_check (patch_application E (final_status app [Approved]) (a_revision app + 1) no_options app)"
    using db_ok_application [OF ok app] st
    by (simp add: check_patch_quiet submitted_application_statuses_def)
qed (use ok app p assms(5) in \<open>auto intro: db_ok_approve\<close>)

lemma staleness_approve:
  "packetStaleness p live t = [] \<Longrightarrow> t < x \<Longrightarrow> packetStaleness (approve_row t x h p) live t = []"
  by (auto simp: packetStaleness_def approve_row_def split: if_splits)

lemma wp_commit_approval:
  assumes "find_application ws (a_id app) s = Some app" and "a_status app = ReadyForReview"
  shows "wp (commit_approval E ws user app p x) Q F s \<longleftrightarrow>
    Q (patch_application E Approved (a_revision app + 1) no_options app)
      (audit_events_update (insert_row (audit_row ws ''application.approved'' (Some user) (Some (p_id p))
         (Some ''application_packet'')
         (JObj [(''application_id'', JStr (a_id app)), (''expires_at'', JStr (toISOString x))])))
        (approval_db E ws x app p (approved_event p x) s))"
proof -
  have "find_application ws (a_id app) (application_packets_update f s) = Some app" for f
    using assms(1) by simp
  then show ?thesis
    using assms(2) by (simp add: commit_approval_def wp_transition approval_db_def isAllowedApplicationTransition_def)
qed

text \<open>What holds after an approval has been granted.\<close>

definition approve_post ::
  "env \<Rightarrow> uuid \<Rightarrow> uuid \<Rightarrow> approve_request \<Rightarrow> db \<Rightarrow> application_context \<Rightarrow> db \<Rightarrow> bool" where
  "approve_post E ws app_id b s c s' \<longleftrightarrow>
     (\<exists>app p expires. approvable E ws app_id b s app p \<and>
        now E < expires \<and> expires \<le> now E + 24 * 60 * 60 * 1000 \<and>
        find_packet ws (ar_packet_id b) s' = Some (approve_row (now E) expires (ar_content_hash b) p) \<and>
        find_application ws app_id s' = Some (cx_application c) \<and>
        cx_application c = patch_application E Approved (a_revision app + 1) no_options app)"

lemma render_after_approval:
  assumes ok: "db_ok sha s" and ap: "approvable E ws app_id b s app p" and x: "now E < x" "x \<le> now E + 24 * 60 * 60 * 1000"
    and t: "t = audit_events_update f (approval_db E ws x app p ev s)"
  shows "wp (renderApplication E ws (patch_application E Approved (a_revision app + 1) no_options app))
    (\<lambda>c s'. db_ok sha s' \<and> approve_post E ws app_id b s c s') F t"
proof -
  let ?upd = "patch_application E Approved (a_revision app + 1) no_options app"
  from ap have id: "a_id app = app_id" and app: "find_application ws (a_id app) s = Some app"
      and p: "find_packet ws (ar_packet_id b) s = Some p" and h: "p_content_hash p = ar_content_hash b"
      and cur: "a_current_packet_id app = Some (ar_packet_id b)" and st: "a_status app = ReadyForReview"
    by (auto simp: approvable_def dest: find_applicationD)
  from ap obtain job where job: "find_job ws (a_job_id app) s = Some job"
      and fresh: "packetStaleness p (live_state E ws job p s) (now E) = []"
    by (auto simp: approvable_def)
  have okt: "db_ok sha t" using ok app p st x(1) by (simp add: t db_ok_approval_db)
  have appt: "find_application ws (a_id ?upd) t = Some ?upd"
    using approval_db_lookups [OF app p] by (simp add: t)
  have pt: "find_packet ws (ar_packet_id b) t = Some (approve_row (now E) x (ar_content_hash b) p)"
    using approval_db_lookups [OF app p] h by (simp add: t)
  have jobt: "find_job ws (a_job_id ?upd) t = Some job"
    using approval_db_lookups [OF app p] job by (simp add: t find_job_def)
  have curt: "a_current_packet_id ?upd = Some (ar_packet_id b)"
    using cur by (simp add: patch_application_def no_options_def)
  have livet: "live_state E ws job q t = live_state E ws job q s" for q
    using approval_db_lookups [OF app p] by (simp add: t)
  have ctx: "load_context E ws t ?upd = Some
      \<lparr> cx_application = ?upd, cx_job = job,
        cx_packet = Some (approve_row (now E) x (ar_content_hash b) p),
        cx_live = Some (live_state E ws job p s), cx_staleness = [] \<rparr>"
    using jobt curt pt staleness_approve [OF fresh x(1)] by (simp add: load_context_def livet)
  show ?thesis
    unfolding renderApplication_def
  proof (rule wp_load_reconciled [OF appt])
    fix c s'
    assume "opened E ws ?upd t c s'"
    then obtain c0 where "load_context E ws t ?upd = Some c0"
        and alt: "\<not> stale_approval c0 \<and> c = c0 \<and> s' = t \<or> stale_approval c0 \<and> c = withdrawn_context E c0"
      unfolding opened_def by blast
    with ctx have "c = c0" "s' = t" "cx_application c0 = ?upd" by (auto simp: stale_approval_def)
    moreover have "approve_post E ws app_id b s c t" if "cx_application c = ?upd"
      unfolding approve_post_def using ap x pt appt id that by auto
    ultimately show "db_ok sha s' \<and> approve_post E ws app_id b s c s'" using okt by simp
  next
    assume "find_job ws (a_job_id ?upd) t = None"
    then show "F NotFound t" using jobt by simp
  qed
qed

lemma approvable_preferences [simp]:
  "approvable E ws app_id b (preferences_rows_update f s) app p = approvable E ws app_id b s app p"
  by (simp add: approvable_def find_job_def)

lemma approve_post_preferences [simp]:
  "approve_post E ws app_id b (preferences_rows_update f s) c s' = approve_post E ws app_id b s c s'"
  by (simp add: approve_post_def)

lemma opened_approvable:
  assumes op: "opened E ws app s c s'" and app: "find_application ws app_id s = Some app"
    and "cx_packet c = Some p" "cx_live c = Some live" "packetStaleness p live (now E) = []"
    and "a_current_packet_id (cx_application c) = Some (ar_packet_id b)"
    and "a_revision (cx_application c) = ar_expected_revision b" "a_revision app = ar_expected_revision b"
    and "a_status (cx_application c) = ReadyForReview" "unresolvedQuestionKeys (p_answers p) = []"
    and "p_content_hash p = ar_content_hash b"
  shows "s' = s \<and> cx_application c = app \<and> approvable E ws app_id b s app p"
proof -
  have same: "s' = s" "cx_application c = app"
    using opened_ready_for_review [OF op] assms by simp_all
  then show ?thesis
    using opened_current [OF op] assms unfolding current_context_def approvable_def by auto
qed

lemma approve_wp:
  assumes ok: "db_ok sha s"
  shows "wp (approveApplication E ws user app_id b)
    (\<lambda>c s'. db_ok sha s' \<and> approve_post E ws app_id b s c s') (\<lambda>_. db_ok sha) s"
proof (cases "find_application ws app_id s")
  case None
  then show ?thesis using ok by (simp add: approveApplication_def)
next
  case (Some app)
  then have id: "a_id app = app_id" by (auto dest: find_applicationD)
  have app: "find_application ws (a_id app) s = Some app" using Some id by simp
  have commit: "wp (commit_approval E ws user app p (approvalExpiry (now E) h))
      (\<lambda>a. wp (renderApplication E ws a) (\<lambda>c s'. db_ok sha s' \<and> approve_post E ws app_id b s c s') (\<lambda>_. db_ok sha))
      (\<lambda>_. db_ok sha) (preferences_rows_update f s)"
    if ap: "approvable E ws app_id b s app p" for p h f
  proof -
    have "find_application ws (a_id app) (preferences_rows_update f s) = Some app" "a_status app = ReadyForReview"
      using app ap by (simp_all add: approvable_def)
    then show ?thesis
      using render_after_approval [where s = "preferences_rows_update f s" and sha = sha and b = b
          and app_id = app_id and E = E and ws = ws and app = app and p = p] ok ap approvalExpiry_bounds
      by (simp add: wp_commit_approval)
  qed
  show ?thesis
    unfolding approveApplication_def Let_def
    apply (simp add: Some ok)
    apply (intro impI wp_load_reconciled [OF app])
    subgoal premises prems for c s1
      using opened_approvable [OF prems(2) Some] db_ok_opened [OF ok prems(2)] prems(1)
      by (auto split: option.splits intro!: wp_workspacePreferences commit)
    by (simp add: ok)
qed

text \<open>The converse: a request that is approvable is granted.\<close>

lemma approvable_opened:
  assumes ap: "approvable E ws app_id b s app p" and op: "opened E ws app s c s'"
  shows "s' = s \<and> cx_application c = app \<and> cx_packet c = Some p \<and>
    (\<exists>live. cx_live c = Some live \<and> packetStaleness p live (now E) = [])"
proof -
  have "\<not> stale_approval c0" if "cx_application c0 = app" for c0
    using that ap by (simp add: stale_approval_def approvable_def)
  then have same: "s' = s" "cx_application c = app" using op unfolding opened_def by blast+
  then show ?thesis
    using opened_current [OF op] ap unfolding current_context_def approvable_def by auto
qed

lemma approve_grants:
  assumes ok: "db_ok sha s" and ap: "approvable E ws app_id b s app p"
  shows "wp (approveApplication E ws user app_id b)
    (\<lambda>c s'. db_ok sha s' \<and> approve_post E ws app_id b s c s') (\<lambda>_ _. False) s"
proof -
  from ap have Some: "find_application ws app_id s = Some app" by (simp add: approvable_def)
  then have app: "find_application ws (a_id app) s = Some app" by (auto dest: find_applicationD)
  have commit: "wp (commit_approval E ws user app p (approvalExpiry (now E) h))
      (\<lambda>a. wp (renderApplication E ws a) (\<lambda>c s'. db_ok sha s' \<and> approve_post E ws app_id b s c s') (\<lambda>_ _. False))
      (\<lambda>_ _. False) (preferences_rows_update f s)" for h f
  proof -
    have "find_application ws (a_id app) (preferences_rows_update f s) = Some app" "a_status app = ReadyForReview"
      using app ap by (simp_all add: approvable_def)
    then show ?thesis
      using render_after_approval [where s = "preferences_rows_update f s" and sha = sha and b = b
          and app_id = app_id and E = E and ws = ws and app = app and p = p] ok ap approvalExpiry_bounds
      by (simp add: wp_commit_approval)
  qed
  have checks: "a_revision app = ar_expected_revision b" "a_current_packet_id app = Some (ar_packet_id b)"
      "p_content_hash p = ar_content_hash b" "unresolvedQuestionKeys (p_answers p) = []" "a_status app = ReadyForReview"
      "find_job ws (a_job_id app) s \<noteq> None"
    using ap by (auto simp: approvable_def)
  show ?thesis
    unfolding approveApplication_def Let_def
    apply (simp add: Some checks)
    apply (intro wp_load_reconciled [OF app])
    subgoal premises prems for c s1
    proof -
      from approvable_opened [OF ap prems] obtain live where "s1 = s" "cx_application c = app" "cx_packet c = Some p"
          "cx_live c = Some live" "packetStaleness p live (now E) = []"
        by blast
      then show ?thesis using checks by (simp add: wp_workspacePreferences commit)
    qed
    by (simp add: checks)
qed

lemma read_only_assert_shapes: "read_only (assert_shapes seen as)"
  by (simp add: obeys_def same_def assert_shapes_state)

lemma read_only_assertPacketAnswers: "read_only (assertPacketAnswers E ws job answers)"
  unfolding assertPacketAnswers_def assertBankProvenance_def assertFactProvenance_def Let_def
    assert_bank_answer_def assert_fact_answer_def
  by (intro frame.obeys_rules read_only_assert_shapes)

text \<open>What a packet's answers satisfy once they have been checked.\<close>

definition answers_ok :: "env \<Rightarrow> uuid \<Rightarrow> job_row \<Rightarrow> db \<Rightarrow> packet_answer list \<Rightarrow> bool" where
  "answers_ok E ws job s answers \<longleftrightarrow>
     distinct (map pa_question_key answers) \<and>
     (\<forall>a \<in> set answers. pa_sensitivity a = NeverReuse \<longrightarrow> pa_provenance a = UserEntered) \<and>
     (\<forall>a \<in> set answers. pa_provenance a = FromAnswerBank \<longrightarrow> usable_bank_answer E ws job s a) \<and>
     (\<forall>a \<in> set answers. pa_provenance a = FromProfileFact \<longrightarrow>
        (\<exists>i row. pa_source_id a = Some i \<and> find_fact ws i s = Some row \<and> fa_confirmed row))"

lemma wp_assertPacketAnswers:
  assumes "answers_ok E ws job s answers \<Longrightarrow> Q () s" and "\<And>e. F e s"
  shows "wp (assertPacketAnswers E ws job answers) Q F s"
proof (rule wpI)
  fix u s'
  assume "assertPacketAnswers E ws job answers s = (Inr u, s')"
  then have ok: "assertPacketAnswers E ws job answers s = (Inr (), s')" by simp
  then show "Q u s'"
    using assms(1) assertPacketAnswers_ok [OF ok] unfolding answers_ok_def by simp
next
  fix e s'
  assume "assertPacketAnswers E ws job answers s = (Inl e, s')"
  then show "F e s'" using assms(2) read_only_state [OF read_only_assertPacketAnswers] by blast
qed

lemma packet_material_from_input [simp]:
  "packet_material (packet_from_input E ws n app rv i) (mi_job_id i) = buildPacketHashMaterial i"
  by (cases i, cases "mi_destination i")
     (simp add: packet_material_def packet_from_input_def packet_destination_of_def)

lemma tables_ok_insert_packet:
  assumes "tables_ok sha apps packets" and "p_id p \<notin> p_id ` set packets" and "packet_check p"
    and "hash_bound sha apps p"
  shows "tables_ok sha apps (insert_row p packets)"
  using assms by (simp add: tables_ok_def insert_row_def)

lemma packet_check_from_input: "packet_check (packet_from_input E ws n app rv i)"
  by (simp add: packet_check_def packet_from_input_def)

lemma wp_insert_packet:
  assumes "p_id p \<notin> p_id ` set (application_packets s) \<Longrightarrow> Q () (application_packets_update (insert_row p) s)"
    and "F Conflict s"
  shows "wp (insert_packet p) Q F s"
  using assms by (simp add: insert_packet_def)

definition packet_target :: "packet_answer list \<Rightarrow> application_status" where
  "packet_target answers = (if unresolvedQuestionKeys answers \<noteq> [] then NeedsInput else ReadyForReview)"

text \<open>What a created packet leaves behind.\<close>

definition packet_post ::
  "env \<Rightarrow> uuid \<Rightarrow> uuid \<Rightarrow> application_row \<Rightarrow> packet_material_input \<Rightarrow> db \<Rightarrow> db \<Rightarrow> bool" where
  "packet_post E ws new_id app i s s' \<longleftrightarrow>
     (\<exists>app'. find_application ws (a_id app) s' = Some app' \<and>
        a_status app' = packet_target (mi_answers i) \<and> a_revision app' = a_revision app + 1 \<and>
        a_current_packet_id app' = Some new_id) \<and>
     find_packet ws new_id s' =
       Some (packet_from_input E ws new_id (a_id app) (next_packet_revision ws (a_id app) s) i)"

lemma find_packet_insert:
  assumes "p_id p \<notin> p_id ` set (application_packets s)"
  shows "find_packet (p_workspace_id p) (p_id p) (application_packets_update (insert_row p) s) = Some p"
proof -
  have "find_packet (p_workspace_id p) (p_id p) s = None"
    unfolding find_packet_def scoped_find_None using assms by (metis image_eqI)
  then show ?thesis by (simp add: find_packet_def scoped_find_insert_new)
qed

lemma wp_write_packet:
  assumes ok: "db_ok (sha256Hex E) s" and app: "find_application ws (a_id app) s = Some app"
    and st: "a_status app \<notin> set submitted_application_statuses" and job: "mi_job_id i = a_job_id app"
  shows "wp (write_packet E ws user new_id app i)
    (\<lambda>out s'. db_ok (sha256Hex E) s' \<and> packet_post E ws new_id app i s s' \<and> out = accepted new_id)
    (\<lambda>_ s'. s' = s) s"
proof -
  let ?p = "packet_from_input E ws new_id (a_id app) (next_packet_revision ws (a_id app) s) i"
  let ?s1 = "application_packets_update (insert_row ?p) s"
  let ?path = "if a_status app = Preparing then [packet_target (mi_answers i)]
      else [Preparing, packet_target (mi_answers i)]"
  let ?opts = "no_options \<lparr> to_current_packet_id := Some (Some new_id) \<rparr>"
  let ?ev = "packet_created_event new_id (next_packet_revision ws (a_id app) s) (mi_answers i) (mi_resume_id i)"
  have final: "final_status app ?path = packet_target (mi_answers i)"
    by (simp add: final_status_def)
  have app1: "find_application ws (a_id app) ?s1 = Some app" using app by simp
  have "hash_bound (sha256Hex E) (applications s) ?p"
    using find_applicationD [OF app] job unfolding hash_bound_def
    by (intro bexI [of _ app]) (simp_all add: computeContentHash_def flip: job)
  then have ok1: "db_ok (sha256Hex E) ?s1" if "new_id \<notin> p_id ` set (application_packets s)"
    using ok that packet_check_from_input by (simp add: db_ok_def tables_ok_insert_packet)
  have check: "application_check (patch_application E (final_status app ?path) (a_revision app + 1) ?opts app)"
    using db_ok_application [OF ok app] st
    by (intro check_patch_quiet) (simp_all add: final packet_target_def quiet_def no_options_def)
  have ok2: "db_ok (sha256Hex E) (after_transition E ws app ?path ?ev ?opts ?s1)"
    if "new_id \<notin> p_id ` set (application_packets s)"
    using db_ok_transition [OF ok1 [OF that] app1 check] .
  have post: "packet_post E ws new_id app i s
      (audit_events_update f (after_transition E ws app ?path ?ev ?opts ?s1))"
    if "new_id \<notin> p_id ` set (application_packets s)" for f
    using find_after_transition [OF app1, of E ?path ?ev ?opts] find_packet_insert [of ?p s] that final
    by (simp add: packet_post_def patch_application_def no_options_def)
  show ?thesis
    unfolding write_packet_def Let_def
    using ok2 post
    by (auto simp: packet_target_def [symmetric] wp_transition [OF app1] intro!: wp_insert_packet)
qed

lemma wp_resolveDestination [simp]:
  "wp (resolveDestination E ws job) Q F =
     (\<lambda>s. case destination_of E ws job s of None \<Rightarrow> F Unprocessable s | Some d \<Rightarrow> Q d s)"
  by (rule ext) (simp add: resolveDestination_def)

text \<open>The snapshot a packet is built from: the rows as they are when it is created.\<close>

definition packet_snapshot ::
  "env \<Rightarrow> uuid \<Rightarrow> application_row \<Rightarrow> create_packet_request \<Rightarrow> db \<Rightarrow> packet_material_input \<Rightarrow> bool" where
  "packet_snapshot E ws app b s i \<longleftrightarrow>
     (\<exists>job resume. find_job ws (a_job_id app) s = Some job \<and> find_resume ws (cp_resume_id b) s = Some resume \<and>
        r_status resume = ResumeReady \<and> (r_job_id resume = None \<or> r_job_id resume = Some (j_id job)) \<and>
        blocking_findings resume = [] \<and> answers_ok E ws job s (cp_answers b) \<and>
        destination_of E ws (j_id job) s = Some (mi_destination i) \<and>
        attachmentSha256 ws resume s = mi_resume_sha256 i \<and> mi_resume_sha256 i \<noteq> None \<and>
        mi_profile_revision i = profile_revision ws s \<and> mi_job_id i = j_id job \<and>
        mi_job_revision i = j_revision job \<and> mi_resume_id i = r_id resume \<and>
        mi_form_fingerprint i = cp_form_fingerprint b \<and> mi_answers i = cp_answers b)"

definition created_packet ::
  "env \<Rightarrow> uuid \<Rightarrow> uuid \<Rightarrow> uuid \<Rightarrow> create_packet_request \<Rightarrow> db \<Rightarrow> db \<Rightarrow> bool" where
  "created_packet E ws new_id app_id b s s' \<longleftrightarrow>
     (\<exists>app i. find_application ws app_id s = Some app \<and> a_revision app = cp_expected_revision b \<and>
        a_status app \<notin> set submitted_application_statuses \<and> a_status app \<noteq> Cancelled \<and>
        packet_snapshot E ws app b s i \<and> packet_post E ws new_id app i s s')"

lemma packet_post_store_replay [simp]:
  "packet_post E ws n app i s (store_replay E' ws' route key h out t) = packet_post E ws n app i s t"
  by (simp add: packet_post_def find_application_def find_packet_def)

lemma create_packet_wp:
  assumes ok: "db_ok (sha256Hex E) s"
  shows "wp (createApplicationPacket E ws user new_id header body app_id b)
    (\<lambda>out s'. db_ok (sha256Hex E) s' \<and>
       (created_packet E ws new_id app_id b s s' \<and> out = accepted new_id \<or>
        s' = s \<and> (\<exists>key r. readIdempotencyKey header = Inr key \<and>
          find_replay ws ''POST /applications/:id/packets'' key s = Some r \<and>
          out = (i_response_status r, i_response_body r))))
    (\<lambda>_ s'. s' = s) s"
proof (cases "find_application ws app_id s")
  case None
  then show ?thesis by (simp add: createApplicationPacket_def split: sum.split)
next
  case (Some app)
  then have app: "find_application ws (a_id app) s = Some app" by (auto dest: find_applicationD)
  have wr: "wp (write_packet E ws user new_id app i)
      (\<lambda>out t. db_ok (sha256Hex E) (store_replay E ws route key h out t) \<and>
        (created_packet E ws new_id app_id b s (store_replay E ws route key h out t) \<and> out = accepted new_id \<or> R out t))
      (\<lambda>_ s'. s' = s) s"
    if "packet_snapshot E ws app b s i" "a_revision app = cp_expected_revision b"
      "a_status app \<notin> set submitted_application_statuses" "a_status app \<noteq> Cancelled" for i route key h R
  proof (rule wp_mono [OF wp_write_packet [OF ok app that(3)]])
    show "mi_job_id i = a_job_id app" using that(1) by (auto simp: packet_snapshot_def dest!: find_jobD)
  qed (use that Some in \<open>auto simp: created_packet_def\<close>)
  show ?thesis
    unfolding createApplicationPacket_def assertResumeUsable_def
    by (auto simp: Some ok packet_snapshot_def split: sum.split option.split
        intro!: wp_assertPacketAnswers wp_withIdempotency wr)
qed

lemma opened_not_approved:
  assumes "opened E ws app s c s'" and "a_status app \<noteq> Approved"
  shows "s' = s \<and> cx_application c = app"
  using assms unfolding opened_def stale_approval_def by auto

lemma wp_render_not_approved:
  assumes "find_application ws (a_id app) s = Some app" and "a_status app \<noteq> Approved"
    and "\<And>c. cx_application c = app \<Longrightarrow> Q c s" and "F NotFound s"
  shows "wp (renderApplication E ws app) Q F s"
  unfolding renderApplication_def
  using assms by (intro wp_load_reconciled) (auto dest: opened_not_approved)

lemma outcome_never_approved: "application_outcome_status out \<noteq> Approved"
  by (cases out) simp_all

lemma outcome_submitted: "application_outcome_status out = Submitted \<longleftrightarrow> out = OutSubmitted"
  by (cases out) simp_all

lemma check_patch_outcome:
  assumes "application_check app"
  shows "application_check (patch_application E (application_outcome_status (or_outcome b))
     (a_revision app + 1) (outcome_options E app b) app)"
  using assms outcome_submitted [of "or_outcome b"]
  by (auto simp: application_check_def patch_application_def outcome_options_def Let_def
      submitted_application_statuses_def)

text \<open>What recording an outcome leaves behind.\<close>

definition outcome_post ::
  "env \<Rightarrow> uuid \<Rightarrow> uuid \<Rightarrow> outcome_request \<Rightarrow> db \<Rightarrow> application_row \<Rightarrow> db \<Rightarrow> bool" where
  "outcome_post E ws app_id b s row s' \<longleftrightarrow>
     (\<exists>app. find_application ws app_id s = Some app \<and> a_revision app = or_expected_revision b \<and>
        or_evidence_type b \<noteq> AdapterObserved \<and>
        (or_outcome b = OutSubmitted \<longrightarrow> or_evidence_type b = UserReport) \<and>
        isAllowedApplicationTransition (a_status app) (application_outcome_status (or_outcome b)) \<and>
        row = patch_application E (application_outcome_status (or_outcome b)) (a_revision app + 1)
                (outcome_options E app b) app \<and>
        find_application ws app_id s' = Some row)"

lemma record_outcome_wp:
  assumes ok: "db_ok sha s"
  shows "wp (recordApplicationOutcome E ws user app_id b)
    (\<lambda>c s'. db_ok sha s' \<and> outcome_post E ws app_id b s (cx_application c) s')
    (\<lambda>_. db_ok sha) s"
proof (cases "find_application ws app_id s")
  case None
  then show ?thesis using ok by (simp add: recordApplicationOutcome_def)
next
  case (Some app)
  then have app: "find_application ws (a_id app) s = Some app" and id: "a_id app = app_id"
    by (auto dest: find_applicationD)
  let ?st = "application_outcome_status (or_outcome b)"
  let ?row = "patch_application E ?st (a_revision app + 1) (outcome_options E app b) app"
  have ok2: "db_ok sha (after_transition E ws app [?st] ev (outcome_options E app b) s)" for ev
    using db_ok_transition [OF ok app, of E "[?st]"] check_patch_outcome [OF db_ok_application [OF ok app]]
    by simp
  have render: "wp (renderApplication E ws ?row)
      (\<lambda>c s'. db_ok sha s' \<and> outcome_post E ws app_id b s (cx_application c) s') (\<lambda>_. db_ok sha)
      (audit_events_update f (after_transition E ws app [?st] ev (outcome_options E app b) s))"
    if "isAllowedApplicationTransition (a_status app) ?st" "a_revision app = or_expected_revision b"
       "or_evidence_type b \<noteq> AdapterObserved" "or_outcome b = OutSubmitted \<longrightarrow> or_evidence_type b \<noteq> NoEvidence"
    for ev f
    using find_after_transition [OF app, of E "[?st]"] that ok2 Some id
    by (intro wp_render_not_approved)
       (auto simp: outcome_never_approved outcome_post_def intro: evidence_type.exhaust)
  show ?thesis
    unfolding recordApplicationOutcome_def
    using ok render by (auto simp: Some wp_transition [OF app])
qed

lemma wp_insert_application:
  assumes ok: "db_ok sha s"
    and old: "\<And>row. find_by_job ws job s = Some row \<Longrightarrow> Q row s"
    and new: "\<And>s'. find_by_job ws job s = None \<Longrightarrow> db_ok sha s' \<Longrightarrow>
       find_application ws new_id s' = Some (new_application E ws new_id job) \<Longrightarrow>
       applications s' = insert_row (new_application E ws new_id job) (applications s) \<Longrightarrow>
       Q (new_application E ws new_id job) s'"
    and err: "F Conflict s"
  shows "wp (insert_application E ws user new_id job) Q F s"
proof (cases "find_by_job ws job s")
  case (Some row)
  then show ?thesis using old by (simp add: insert_application_def)
next
  case None
  let ?row = "new_application E ws new_id job"
  have sim: "a_id ?row = new_id" "a_workspace_id ?row = ws" "application_check ?row"
    by (simp_all add: new_application_def application_check_def)
  have okn: "db_ok sha (applications_update (insert_row ?row) s)"
    if "new_id \<notin> a_id ` set (applications s)"
  proof -
    have "hash_bound sha (insert_row ?row apps) p" if "hash_bound sha apps p" for apps p
      using that by (rule hash_bound_mono) auto
    then show ?thesis
      using ok that sim unfolding db_ok_def tables_ok_def
      by (auto simp: list_all_iff insert_row_def)
  qed
  have fa: "find_application ws new_id (applications_update (insert_row ?row) s) = Some ?row"
    if "new_id \<notin> a_id ` set (applications s)"
  proof -
    have "find_application ws new_id s = None"
      unfolding find_application_def scoped_find_None using that by (metis image_eqI)
    then show ?thesis using sim by (simp add: find_application_def scoped_find_insert_new)
  qed
  show ?thesis
    unfolding insert_application_def appendApplicationEvent_def
    using None new okn fa err by (simp add: find_application_def)
qed

lemma db_ok_create:
  assumes "db_ok sha s"
  shows "wp (createApplication E ws user new_id job) (\<lambda>_. db_ok sha) (\<lambda>_. db_ok sha) s"
proof -
  have old: "wp (renderApplication E ws row) (\<lambda>_. db_ok sha) (\<lambda>_. db_ok sha) s"
    if "find_by_job ws j s = Some row" for j row
  proof (rule wp_render_db_ok [OF assms])
    have "row \<in> set (applications s)" "a_workspace_id row = ws"
      using that by (auto simp: find_by_job_def dest!: scoped_find_SomeD)
    then obtain a where "find_application ws (a_id row) s = Some a"
      by (cases "find_application ws (a_id row) s") (auto simp: find_application_def scoped_find_None)
    moreover have "distinct (map a_id (applications s))"
      using assms by (simp add: db_ok_def tables_ok_def)
    ultimately show "find_application ws (a_id row) s = Some row"
      using find_application_unique \<open>row \<in> set (applications s)\<close> by metis
  qed
  have fresh: "wp (renderApplication E ws (new_application E ws new_id j)) (\<lambda>_. db_ok sha) (\<lambda>_. db_ok sha) t"
    if "db_ok sha t" "find_application ws new_id t = Some (new_application E ws new_id j)" for j t
    by (rule wp_render_db_ok) (use that in \<open>simp_all add: new_application_def\<close>)
  show ?thesis
    unfolding createApplication_def
    using assms by (auto split: option.split intro!: wp_insert_application old fresh)
qed

end
