(* ===== verification/Devices.thy ===== *)
theory Devices
  imports AppRoutes
begin

text \<open>
  \<open>apps/api/src/devices/service.ts\<close>, \<open>apps/api/src/routes/devices.ts\<close>, the device side
  of \<open>apps/api/src/auth/worker.ts\<close> and the protocol window of
  \<open>packages/contracts/src/headers.ts\<close>: a pairing code is minted, exchanged once for a
  token, presented on every request and revoked.  A device row is looked up by its
  secret over all workspaces; the workspace of the principal is the one on the row.
\<close>

section \<open>The protocol window\<close>

datatype protocol_problem = VersionMalformed | VersionTooOld | VersionTooNew

definition version_part :: "string \<Rightarrow> bool" where
  "version_part s \<longleftrightarrow> 1 \<le> length s \<and> length s \<le> 4 \<and> list_all is_digit s"

definition parse_version :: "string \<Rightarrow> (nat \<times> nat) option" where
  "parse_version s =
     (let t = trim s; major = takeWhile is_digit t in
      case dropWhile is_digit t of
        [] \<Rightarrow> None
      | c # minor \<Rightarrow>
          if c = CHR ''.'' \<and> version_part major \<and> version_part minor
          then Some (digits_value major, digits_value minor) else None)"

definition extension_protocol_version :: string where
  "extension_protocol_version = ''1.0''"

definition extensionProtocolVerdict :: "string option \<Rightarrow> string \<Rightarrow> protocol_problem option" where
  "extensionProtocolVerdict sent current =
     (case (parse_version (case sent of None \<Rightarrow> ''1.0'' | Some v \<Rightarrow> v), parse_version current) of
        (Some (tm, tn), Some (om, on)) \<Rightarrow>
          if tm < om then Some VersionTooOld
          else if tm > om then Some VersionTooNew
          else if tn > on then Some VersionTooNew
          else if int tn < int on - 1 then Some VersionTooOld
          else None
      | _ \<Rightarrow> Some VersionMalformed)"

definition requireSupportedProtocol :: "string option \<Rightarrow> ('s, unit) handler" where
  "requireSupportedProtocol sent =
     throw_if (extensionProtocolVerdict sent extension_protocol_version \<noteq> None) ProtocolUnsupported"

section \<open>Status and tokens\<close>

definition device_token_ttl_ms :: int where
  "device_token_ttl_ms = device_token_ttl_days * 24 * 60 * 60 * 1000"

definition device_pairing_ttl_ms :: int where
  "device_pairing_ttl_ms = device_pairing_ttl_seconds * 1000"

definition deviceStatus :: "paired_device_row \<Rightarrow> timestamp \<Rightarrow> device_status" where
  "deviceStatus d t =
     (if d_revoked_at d \<noteq> None then DeviceRevoked
      else if d_token_hash d = None then
        (case d_pairing_expires_at d of
           Some x \<Rightarrow> if x \<le> t then DeviceExpired else DevicePending
         | None \<Rightarrow> DevicePending)
      else
        (case d_expires_at d of
           Some x \<Rightarrow> if x \<le> t then DeviceExpired else DevicePaired
         | None \<Rightarrow> DevicePaired))"

definition add_origin :: "string list \<Rightarrow> string \<Rightarrow> string list" where
  "add_origin os x = (if x \<in> set os then os else os @ [x])"

fun normalize_origins :: "env \<Rightarrow> string list \<Rightarrow> string list \<Rightarrow> api_error + string list" where
  "normalize_origins E os [] = Inr os"
| "normalize_origins E os (v # vs) =
     (case parse_url E (trim v) of
        None \<Rightarrow> Inl Unprocessable
      | Some u \<Rightarrow>
          if url_protocol u \<noteq> ''https:'' \<and> url_protocol u \<noteq> ''http:'' then Inl Unprocessable
          else normalize_origins E (add_origin os (url_origin u)) vs)"

definition normalizeAllowedOrigins :: "env \<Rightarrow> string list option \<Rightarrow> api_error + string list" where
  "normalizeAllowedOrigins E values = normalize_origins E [] (case values of None \<Rightarrow> [] | Some vs \<Rightarrow> vs)"

definition requireDevice :: "uuid \<Rightarrow> uuid \<Rightarrow> (db, paired_device_row) handler" where
  "requireDevice ws i = andThen (gets (find_device ws i)) (\<lambda>d. require d NotFound)"

definition resolveDeviceToken :: "env \<Rightarrow> string \<Rightarrow> db \<Rightarrow> paired_device_row option" where
  "resolveDeviceToken E token s =
     (if length token < 32 then None
      else case find (\<lambda>d. d_token_hash d = Some (sha256Hex E token)) (paired_devices s) of
             None \<Rightarrow> None
           | Some d \<Rightarrow> if deviceStatus d (now E) = DevicePaired then Some d else None)"

definition touchDevice :: "env \<Rightarrow> paired_device_row \<Rightarrow> (db, unit) handler" where
  "touchDevice E device =
     (if now E - (case d_last_seen_at device of None \<Rightarrow> 0 | Some t \<Rightarrow> t) < 60000 then ret ()
      else modify (paired_devices_update (map (\<lambda>d.
        if d_id d = d_id device then d \<lparr> d_last_seen_at := Some (now E), d_updated_at := now E \<rparr> else d))))"

section \<open>Principals\<close>

datatype principal =
    SessionPrincipal uuid uuid
  | WorkerPrincipal string
  | DevicePrincipal uuid uuid

fun principalWorkspaceId :: "principal \<Rightarrow> uuid option" where
  "principalWorkspaceId (SessionPrincipal user ws) = Some ws"
| "principalWorkspaceId (WorkerPrincipal _) = None"
| "principalWorkspaceId (DevicePrincipal device ws) = Some ws"

definition isRunnerOnlyCapability :: "task_type \<Rightarrow> bool" where
  "isRunnerOnlyCapability c \<longleftrightarrow> c \<in> set runner_only_capabilities"

fun assertCapabilitiesAllowed :: "principal \<Rightarrow> task_type list \<Rightarrow> ('s, unit) handler" where
  "assertCapabilitiesAllowed (WorkerPrincipal _) cs = throw_if (filter isRunnerOnlyCapability cs \<noteq> []) Forbidden"
| "assertCapabilitiesAllowed (DevicePrincipal _ _) cs =
     throw_if (filter (\<lambda>c. \<not> isRunnerOnlyCapability c) cs \<noteq> []) Forbidden"
| "assertCapabilitiesAllowed (SessionPrincipal _ _) cs = fail Forbidden"

text \<open>The header of a device request.  A blank header falls through to the worker
  credential; a token that does not resolve is a 401.\<close>

definition authenticateDevice :: "env \<Rightarrow> string option \<Rightarrow> (db, principal option) handler" where
  "authenticateDevice E header =
     (case header of None \<Rightarrow> ret None
      | Some raw \<Rightarrow>
          if trim raw = '''' then ret None
          else
            andThen (gets (resolveDeviceToken E (trim raw))) (\<lambda>found.
            andThen (require found Unauthenticated) (\<lambda>device.
            andThen (touchDevice E device) (\<lambda>_.
            ret (Some (DevicePrincipal (d_id device) (d_workspace_id device)))))))"

text \<open>The worker credential is compared through digests.\<close>

definition constantTimeEqual :: "env \<Rightarrow> string \<Rightarrow> string \<Rightarrow> bool" where
  "constantTimeEqual E a b \<longleftrightarrow> sha256Hex E a = sha256Hex E b"

definition authenticateWorker :: "env \<Rightarrow> string \<Rightarrow> string option \<Rightarrow> string \<Rightarrow> (db, principal) handler" where
  "authenticateWorker E configured bearer worker_id =
     andThen (require bearer Unauthenticated) (\<lambda>token.
     andThen (throw_if (\<not> constantTimeEqual E token configured) Unauthenticated) (\<lambda>_.
     ret (WorkerPrincipal worker_id)))"

section \<open>Routes\<close>

definition listDevices :: "uuid \<Rightarrow> db \<Rightarrow> paired_device_row list" where
  "listDevices ws s = take 100 (rev (sort_key d_created_at (scoped_filter d_workspace_id ws (\<lambda>_. True) (paired_devices s))))"

text \<open>A pending row.  The primary key and the length check on the label can refuse it.\<close>

definition pending_device :: "env \<Rightarrow> uuid \<Rightarrow> uuid \<Rightarrow> string \<Rightarrow> string list \<Rightarrow> create_pairing_request \<Rightarrow> paired_device_row" where
  "pending_device E ws new_id code origins b =
     \<lparr> d_id = new_id, d_workspace_id = ws, d_kind = cr_device_kind b, d_label = trim (cr_label b),
       d_pairing_code_hash = Some (sha256Hex E code),
       d_pairing_expires_at = Some (now E + device_pairing_ttl_ms), d_pairing_consumed_at = None,
       d_token_hash = None, d_device_public_id = None, d_expires_at = None, d_revoked_at = None,
       d_last_seen_at = None, d_allowed_origins = origins, d_created_at = now E, d_updated_at = now E \<rparr>"

definition createDevicePairing ::
  "env \<Rightarrow> uuid \<Rightarrow> uuid \<Rightarrow> uuid \<Rightarrow> string \<Rightarrow> create_pairing_request \<Rightarrow> (db, uuid \<times> string \<times> int) handler" where
  "createDevicePairing E ws user new_id code b =
     andThen (reads (\<lambda>_. normalizeAllowedOrigins E (cr_allowed_origins b))) (\<lambda>origins.
     andThen (transaction (
       andThen (throw_if (trim (cr_label b) = '''' \<or> length (trim (cr_label b)) > 120) Unprocessable) (\<lambda>_.
       andThen (gets (\<lambda>s. new_id \<in> d_id ` set (paired_devices s))) (\<lambda>taken.
       andThen (throw_if taken Conflict) (\<lambda>_.
       andThen (modify (paired_devices_update (insert_row (pending_device E ws new_id code origins b)))) (\<lambda>_.
       recordAuditEvent ws ''device.pairing_created'' (Some user) (Some new_id) (Some ''paired_device'')
         (JObj [(''kind'', JStr (device_kind_text (cr_device_kind b))),
                (''origin_count'', JNum (int (length origins)))]))))))) (\<lambda>_.
     ret (new_id, code, device_pairing_ttl_seconds)))"

text \<open>The rows the conditional UPDATE of the exchange matches.\<close>

definition exchangeable :: "env \<Rightarrow> string \<Rightarrow> paired_device_row \<Rightarrow> bool" where
  "exchangeable E code d \<longleftrightarrow>
     d_pairing_code_hash d = Some (sha256Hex E (trim code)) \<and>
     (case d_pairing_expires_at d of None \<Rightarrow> False | Some x \<Rightarrow> x > now E) \<and>
     d_token_hash d = None \<and> d_revoked_at d = None"

definition exchanged :: "env \<Rightarrow> string \<Rightarrow> string \<Rightarrow> paired_device_row \<Rightarrow> paired_device_row" where
  "exchanged E token public_id d =
     d \<lparr> d_token_hash := Some (sha256Hex E token), d_device_public_id := Some (trim public_id),
         d_expires_at := Some (now E + device_token_ttl_ms), d_pairing_consumed_at := Some (now E),
         d_pairing_code_hash := None, d_pairing_expires_at := None, d_updated_at := now E \<rparr>"

text \<open>\<open>token_hash\<close> is UNIQUE: the statement fails as a whole when it would store a digest
  twice.\<close>

definition exchangeDevicePairing ::
  "env \<Rightarrow> string option \<Rightarrow> string \<Rightarrow> device_exchange_request
     \<Rightarrow> (db, uuid \<times> string \<times> timestamp \<times> string list) handler" where
  "exchangeDevicePairing E protocol token b =
     andThen (requireSupportedProtocol protocol) (\<lambda>_.
     andThen (gets (\<lambda>s. filter (exchangeable E (dx_pairing_code b)) (paired_devices s))) (\<lambda>rows.
     andThen (gets (\<lambda>s. length rows > 1 \<or> rows \<noteq> [] \<and> Some (sha256Hex E token) \<in> d_token_hash ` set (paired_devices s))) (\<lambda>clash.
     andThen (throw_if clash Conflict) (\<lambda>_.
     andThen (modify (paired_devices_update (map (\<lambda>d. if exchangeable E (dx_pairing_code b) d
        then exchanged E token (dx_device_public_id b) d else d)))) (\<lambda>_.
     andThen (require (case rows of [] \<Rightarrow> None | d # _ \<Rightarrow> Some d) Unprocessable) (\<lambda>device.
     andThen (recordAuditEvent (d_workspace_id device) ''device.paired'' None (Some (d_id device)) (Some ''paired_device'')
        (JObj [(''kind'', JStr (device_kind_text (d_kind device)))])) (\<lambda>_.
     ret (d_id device, token, now E + device_token_ttl_ms, d_allowed_origins device))))))))"

definition revoked :: "env \<Rightarrow> paired_device_row \<Rightarrow> paired_device_row" where
  "revoked E d =
     d \<lparr> d_revoked_at := Some (now E), d_token_hash := None, d_expires_at := None,
         d_pairing_code_hash := None, d_pairing_expires_at := None, d_updated_at := now E \<rparr>"

definition end_session :: "env \<Rightarrow> fill_session_end_reason \<Rightarrow> fill_session_row \<Rightarrow> fill_session_row" where
  "end_session E reason r = r \<lparr> fs_ended_at := Some (now E), fs_ended_reason := Some reason \<rparr>"

definition revokeDevice :: "env \<Rightarrow> uuid \<Rightarrow> uuid \<Rightarrow> uuid \<Rightarrow> (db, unit) handler" where
  "revokeDevice E ws user i =
     andThen (requireDevice ws i) (\<lambda>existing.
     andThen (throw_if (deviceStatus existing (now E) = DeviceRevoked) Conflict) (\<lambda>_.
     transaction (
       andThen (modify (paired_devices_update (scoped_update d_workspace_id ws (\<lambda>d. d_id d = i) (revoked E)))) (\<lambda>_.
       andThen (modify (fill_sessions_update (scoped_update fs_workspace_id ws
          (\<lambda>r. fs_device_id r = i \<and> fs_ended_at r = None) (end_session E EndDeviceRevoked)))) (\<lambda>_.
       recordAuditEvent ws ''device.revoked'' (Some user) (Some i) (Some ''paired_device'')
         (JObj [(''kind'', JStr (device_kind_text (d_kind existing)))]))))))"

section \<open>Frames\<close>

lemma scoped_requireDevice [handler_steps]: "scoped ws (requireDevice ws i)"
  unfolding requireDevice_def by (intro scope.obeys_rules)

lemma wp_requireDevice [simp]:
  "wp (requireDevice ws i) Q F = (\<lambda>s. case find_device ws i s of None \<Rightarrow> F NotFound s | Some d \<Rightarrow> Q d s)"
  by (rule ext) (simp add: requireDevice_def)

lemma scoped_createDevicePairing [handler_steps]: "scoped ws (createDevicePairing E ws user new_id code b)"
  unfolding createDevicePairing_def
  by (intro scope.obeys_rules scoped_recordAuditEvent scoped_modify) (simp_all add: outside_def pending_device_def)

lemma scoped_revokeDevice [handler_steps]: "scoped ws (revokeDevice E ws user i)"
  unfolding revokeDevice_def
  by (intro scope.obeys_rules scoped_requireDevice scoped_recordAuditEvent scoped_modify)
     (simp_all add: outside_def revoked_def end_session_def)

section \<open>Constraints\<close>

text \<open>The CHECK clauses of \<open>paired_devices\<close> (migration 0006), and that a row never
  holds a code and a token together.\<close>

definition device_check :: "paired_device_row \<Rightarrow> bool" where
  "device_check d \<longleftrightarrow>
     (d_pairing_code_hash d = None \<longleftrightarrow> d_pairing_expires_at d = None) \<and>
     (d_token_hash d = None \<longleftrightarrow> d_expires_at d = None) \<and>
     (d_revoked_at d \<noteq> None \<or> d_pairing_code_hash d \<noteq> None \<or> d_token_hash d \<noteq> None) \<and>
     (d_revoked_at d \<noteq> None \<or> d_token_hash d \<noteq> None \<longrightarrow> d_pairing_code_hash d = None) \<and>
     (d_revoked_at d \<noteq> None \<longrightarrow> d_token_hash d = None)"

definition devices_ok :: "db \<Rightarrow> bool" where
  "devices_ok s \<longleftrightarrow>
     distinct (map d_id (paired_devices s)) \<and> list_all device_check (paired_devices s)"

lemma devices_ok_map:
  assumes "devices_ok s" and "\<And>d. d_id (f d) = d_id d" and "\<And>d. device_check d \<Longrightarrow> device_check (f d)"
  shows "devices_ok (paired_devices_update (map f) s)"
  using assms by (auto simp: devices_ok_def list_all_iff comp_def)

lemma check_revoked: "device_check (revoked E d)"
  by (simp add: device_check_def revoked_def)

lemma check_exchanged: "exchangeable E code d \<Longrightarrow> device_check (exchanged E' token p d)"
  by (simp add: device_check_def exchanged_def exchangeable_def)

lemma deviceStatus_paired:
  "device_check d \<Longrightarrow> deviceStatus d t = DevicePaired \<longleftrightarrow>
     d_revoked_at d = None \<and> (\<exists>h x. d_token_hash d = Some h \<and> d_expires_at d = Some x \<and> t < x)"
  by (auto simp: deviceStatus_def device_check_def split: option.splits if_splits)

lemma devices_ok_frames [simp]:
  "devices_ok (audit_events_update f s) = devices_ok s"
  "devices_ok (fill_sessions_update g s) = devices_ok s"
  by (simp_all add: devices_ok_def)

lemma devices_ok_create:
  assumes "devices_ok s"
  shows "devices_ok (snd (createDevicePairing E ws user new_id code b s))"
proof -
  have "devices_ok (paired_devices_update (insert_row (pending_device E ws new_id code os b)) s)"
    if "new_id \<notin> d_id ` set (paired_devices s)" for os
    using assms that
    by (simp add: devices_ok_def insert_row_def pending_device_def device_check_def list_all_iff)
  then have "wp (createDevicePairing E ws user new_id code b) (\<lambda>_. devices_ok) (\<lambda>_. devices_ok) s"
    using assms by (auto simp: createDevicePairing_def split: sum.split)
  then show ?thesis by (simp add: wp_state)
qed

lemma devices_ok_exchange:
  assumes "devices_ok s"
  shows "devices_ok (snd (exchangeDevicePairing E protocol token b s))"
proof -
  have "devices_ok (paired_devices_update (map (\<lambda>d. if exchangeable E c d then exchanged E token p d else d)) s)" for c p
    using assms by (rule devices_ok_map) (auto simp: exchanged_def check_exchanged [unfolded exchanged_def])
  then have "wp (exchangeDevicePairing E protocol token b) (\<lambda>_. devices_ok) (\<lambda>_. devices_ok) s"
    using assms by (auto simp: exchangeDevicePairing_def requireSupportedProtocol_def split: list.split)
  then show ?thesis by (simp add: wp_state)
qed

lemma devices_ok_revoke:
  assumes "devices_ok s"
  shows "devices_ok (snd (revokeDevice E ws user i s))"
proof -
  have "devices_ok (paired_devices_update (scoped_update d_workspace_id ws P (revoked E)) s)" for P
    unfolding scoped_update_def using assms
    by (rule devices_ok_map) (auto simp: revoked_def check_revoked [unfolded revoked_def])
  then have "wp (revokeDevice E ws user i) (\<lambda>_. devices_ok) (\<lambda>_. devices_ok) s"
    using assms by (auto simp: revokeDevice_def split: option.split)
  then show ?thesis by (simp add: wp_state)
qed

lemma devices_ok_authenticate:
  assumes "devices_ok s"
  shows "devices_ok (snd (authenticateDevice E header s))"
proof -
  have "devices_ok (paired_devices_update (map (\<lambda>d. if d_id d = i
      then d \<lparr> d_last_seen_at := Some (now E), d_updated_at := now E \<rparr> else d)) s)" for i
    using assms by (rule devices_ok_map) (auto simp: device_check_def)
  then have "wp (authenticateDevice E header) (\<lambda>_. devices_ok) (\<lambda>_. devices_ok) s"
    using assms by (auto simp: authenticateDevice_def touchDevice_def split: option.split)
  then show ?thesis by (simp add: wp_state)
qed

section \<open>What the operations do\<close>

lemma resolveDeviceToken_Some:
  "resolveDeviceToken E token s = Some d \<Longrightarrow>
     d \<in> set (paired_devices s) \<and> d_token_hash d = Some (sha256Hex E token) \<and>
     deviceStatus d (now E) = DevicePaired \<and> 32 \<le> length token"
  by (auto simp: resolveDeviceToken_def split: if_splits option.splits dest: find_SomeD)

lemma authenticateDevice_ok:
  assumes "authenticateDevice E header s = (Inr (Some p), s')"
  shows "\<exists>d raw. header = Some raw \<and> resolveDeviceToken E (trim raw) s = Some d \<and>
     p = DevicePrincipal (d_id d) (d_workspace_id d)"
  using assms by (auto simp: authenticateDevice_def ok_simps split: option.splits if_splits)

lemma exchange_ok:
  assumes "exchangeDevicePairing E protocol token b s = (Inr r, s')"
  shows "\<exists>d. filter (exchangeable E (dx_pairing_code b)) (paired_devices s) = [d] \<and>
     r = (d_id d, token, now E + device_token_ttl_ms, d_allowed_origins d) \<and>
     Some (sha256Hex E token) \<notin> d_token_hash ` set (paired_devices s) \<and>
     paired_devices s' = map (\<lambda>d. if exchangeable E (dx_pairing_code b) d
        then exchanged E token (dx_device_public_id b) d else d) (paired_devices s) \<and>
     extensionProtocolVerdict protocol extension_protocol_version = None"
  using assms
  by (auto simp: exchangeDevicePairing_def requireSupportedProtocol_def recordAuditEvent_def ok_simps
      split: list.splits)

lemma not_exchangeable_later:
  assumes "list_all device_check rows" and "sha256Hex E' = sha256Hex E" and "now E \<le> now E'"
  shows "filter (exchangeable E' code) (map (\<lambda>d. if exchangeable E code d then exchanged E token p d else d) rows) = []"
  using assms by (auto simp: filter_empty_conv exchangeable_def exchanged_def split: option.splits if_splits)

lemma exchange_none:
  assumes "filter (exchangeable E (dx_pairing_code b)) (paired_devices s) = []"
    and "extensionProtocolVerdict protocol extension_protocol_version = None"
  shows "fst (exchangeDevicePairing E protocol token b s) = Inl Unprocessable"
  using assms by (simp add: exchangeDevicePairing_def requireSupportedProtocol_def andThen_def
      throw_if_apply require_def fail_def)

lemma revoke_ok:
  assumes "revokeDevice E ws user i s = (Inr u, s')"
  shows "paired_devices s' = scoped_update d_workspace_id ws (\<lambda>d. d_id d = i) (revoked E) (paired_devices s) \<and>
     fill_sessions s' = scoped_update fs_workspace_id ws
        (\<lambda>r. fs_device_id r = i \<and> fs_ended_at r = None) (end_session E EndDeviceRevoked) (fill_sessions s) \<and>
     (\<exists>d. find_device ws i s = Some d)"
  using assms by (auto simp: revokeDevice_def requireDevice_def recordAuditEvent_def ok_simps)

end
