(* ===== verification/FillResult.thy ===== *)
theory FillResult
  imports Devices "HOL-Library.AList"
begin

text \<open>
  \<open>apps/api/src/applications/fill.ts\<close>: what a runner's report does to an application.
  A filled form waits for the person, an unsupported page returns the application to
  \<open>approved\<close>, and a page that asks a new question writes a packet revision that
  carries it.  A JavaScript \<open>Map\<close> is an association list in insertion order.

  The row ids of the database are arguments (\<open>new_id\<close>).  A task whose payload is not
  that of its type cannot occur behind the input schema; it is an internal error here.
\<close>

section \<open>Definitions\<close>

fun pause_reason :: "fill_outcome \<Rightarrow> string" where
  "pause_reason FillAwaitingUserSubmit = ''filled_awaiting_user_submit''"
| "pause_reason FillNeedsInput = ''unanswered_required_questions''"
| "pause_reason FillUnsupported = ''no_tested_adapter''"

fun pause_status :: "fill_outcome \<Rightarrow> application_status" where
  "pause_status FillAwaitingUserSubmit = AwaitingUserSubmit"
| "pause_status FillNeedsInput = NeedsInput"
| "pause_status FillUnsupported = Approved"

fun fill_outcome_text :: "fill_outcome \<Rightarrow> string" where
  "fill_outcome_text FillAwaitingUserSubmit = ''awaiting_user_submit''"
| "fill_outcome_text FillNeedsInput = ''needs_input''"
| "fill_outcome_text FillUnsupported = ''unsupported''"

definition discovered_answer :: "unresolved_field \<Rightarrow> packet_answer" where
  "discovered_answer f =
     \<lparr> pa_question_key = uf_question_key f, pa_label = uf_label f, pa_answer = None,
       pa_required = uf_required f,
       pa_sensitivity = (if uf_reason f = NeverInferable then NeverReuse else Standard),
       pa_provenance = UserEntered, pa_source_id = None \<rparr>"

definition merge_question :: "unresolved_field \<Rightarrow> (string \<times> packet_answer) list \<Rightarrow> (string \<times> packet_answer) list" where
  "merge_question f m =
     (case map_of m (uf_question_key f) of
        Some current \<Rightarrow> AList.update (uf_question_key f)
          (current \<lparr> pa_required := pa_required current \<or> uf_required f \<rparr>) m
      | None \<Rightarrow> AList.update (uf_question_key f) (discovered_answer f) m)"

definition answers_by_key :: "packet_answer list \<Rightarrow> (string \<times> packet_answer) list" where
  "answers_by_key answers = foldl (\<lambda>m a. AList.update (pa_question_key a) a m) [] answers"

definition mergeDiscoveredQuestions :: "packet_answer list \<Rightarrow> unresolved_field list \<Rightarrow> packet_answer list" where
  "mergeDiscoveredQuestions answers asked =
     map snd (foldl (\<lambda>m f. merge_question f m) (answers_by_key answers) asked)"

definition record_observed_form :: "env \<Rightarrow> uuid \<Rightarrow> uuid \<Rightarrow> string option \<Rightarrow> (db, unit) handler" where
  "record_observed_form E ws app fingerprint =
     (case fingerprint of None \<Rightarrow> ret ()
      | Some fp \<Rightarrow> modify (applications_update (scoped_update a_workspace_id ws (\<lambda>a. a_id a = app)
          (\<lambda>a. a \<lparr> a_observed_form_fingerprint := Some fp, a_form_observed_at := Some (now E) \<rparr>))))"

definition discovered_packet ::
  "env \<Rightarrow> uuid \<Rightarrow> uuid \<Rightarrow> application_row \<Rightarrow> packet_row \<Rightarrow> string option \<Rightarrow> packet_answer list \<Rightarrow> packet_row" where
  "discovered_packet E ws new_id app previous fingerprint answers =
     packet_from_input E ws new_id (a_id app) (p_revision previous + 1)
       \<lparr> mi_profile_revision = p_profile_revision previous, mi_job_id = a_job_id app,
         mi_job_revision = p_job_revision previous, mi_resume_id = p_resume_id previous,
         mi_resume_sha256 = p_resume_sha256 previous, mi_destination = packet_destination_of previous,
         mi_form_fingerprint = fingerprint, mi_answers = answers \<rparr>"

definition writeDiscoveredPacket ::
  "env \<Rightarrow> uuid \<Rightarrow> uuid \<Rightarrow> application_row \<Rightarrow> fill_local_input \<Rightarrow> fill_local_result \<Rightarrow> (db, uuid option) handler" where
  "writeDiscoveredPacket E ws new_id app i r =
     (if a_current_packet_id app \<noteq> Some (fi_packet_id i) then ret None
      else andThen (gets (find_packet ws (fi_packet_id i))) (\<lambda>found.
        case found of None \<Rightarrow> ret None
        | Some previous \<Rightarrow>
            let answers = mergeDiscoveredQuestions (p_answers previous) (fr_unresolved_fields r) in
            if length (unresolvedQuestionKeys answers) = 0 then ret None
            else
              andThen (insert_packet (discovered_packet E ws new_id app previous (fr_form_fingerprint r) answers)) (\<lambda>_.
              andThen (withdraw_packet_approval ws (p_id previous)) (\<lambda>_.
              ret (Some new_id)))))"

definition fill_event_data :: "fill_local_result \<Rightarrow> uuid \<Rightarrow> (string \<times> json) list" where
  "fill_event_data r packet_id =
     [(''packet_id'', JStr packet_id), (''outcome'', JStr (fill_outcome_text (fr_outcome r))),
      (''filled_count'', JNum (int (length (filter (\<lambda>f. fd_outcome f = FieldFilled) (fr_filled_fields r))))),
      (''unresolved_question_keys'', jstrs (map uf_question_key (fr_unresolved_fields r))),
      (''adapter'', jopt JStr (fr_adapter r)), (''adapter_version'', jopt JStr (fr_adapter_version r))]"

definition applyFillLocalResult :: "env \<Rightarrow> uuid \<Rightarrow> task_row \<Rightarrow> fill_local_result \<Rightarrow> (db, unit) handler" where
  "applyFillLocalResult E new_id task r =
     (case t_payload task of
        FillPayload i \<Rightarrow>
          let ws = t_workspace_id task in
          andThen (gets (find_application ws (fi_application_id i))) (\<lambda>found.
            case found of None \<Rightarrow> ret ()
            | Some app \<Rightarrow>
              andThen (record_observed_form E ws (a_id app) (fr_form_fingerprint r)) (\<lambda>_.
                if fr_outcome r = FillNeedsInput then
                  andThen (writeDiscoveredPacket E ws new_id app i r) (\<lambda>written.
                  andThen (gets (find_application ws (a_id app))) (\<lambda>reloaded.
                  andThen (transitionApplication E ws (case reloaded of Some a \<Rightarrow> a | None \<Rightarrow> app) [NeedsInput]
                    (event EvFillPaused ActorRunner (Some (pause_reason FillNeedsInput))
                      (fill_event_data r (case written of Some p \<Rightarrow> p | None \<Rightarrow> fr_packet_id r)))
                    (no_options \<lparr> to_current_packet_id := (case written of None \<Rightarrow> None | Some p \<Rightarrow> Some (Some p)) \<rparr>)) (\<lambda>_.
                  ret ())))
                else
                  andThen (transitionApplication E ws app [pause_status (fr_outcome r)]
                    (event EvFillPaused ActorRunner (Some (pause_reason (fr_outcome r)))
                      (fill_event_data r (fr_packet_id r))) no_options) (\<lambda>_. ret ())))
      | _ \<Rightarrow> fail InternalError)"

definition applyFillLocalFailure :: "env \<Rightarrow> task_row \<Rightarrow> string \<Rightarrow> string \<Rightarrow> (db, unit) handler" where
  "applyFillLocalFailure E task code message =
     (case t_payload task of
        FillPayload i \<Rightarrow>
          let ws = t_workspace_id task in
          andThen (gets (find_application ws (fi_application_id i))) (\<lambda>found.
            case found of None \<Rightarrow> ret ()
            | Some app \<Rightarrow>
                if a_status app \<noteq> Filling then
                  appendApplicationEvent E ws (a_id app)
                    (event EvFillFailed ActorRunner (Some (slice 120 code))
                      [(''packet_id'', JStr (fi_packet_id i)), (''code'', JStr code)])
                else
                  andThen (transitionApplication E ws app [Failed]
                    (event EvFillFailed ActorRunner (Some (slice 120 code))
                      [(''packet_id'', JStr (fi_packet_id i)), (''code'', JStr code),
                       (''message'', JStr (slice 600 message))]) no_options) (\<lambda>_. ret ()))
      | _ \<Rightarrow> fail InternalError)"

section \<open>Merging\<close>

lemma keys_answers_by_key [simp]: "fst ` set (answers_by_key answers) = pa_question_key ` set answers"
proof -
  have "fst ` set (foldl (\<lambda>m a. AList.update (pa_question_key a) a m) m answers) =
      fst ` set m \<union> pa_question_key ` set answers" for m
    by (induction answers arbitrary: m) (auto simp: dom_update)
  then show ?thesis by (simp add: answers_by_key_def)
qed

lemma distinct_answers_by_key: "distinct (map fst (answers_by_key answers))"
proof -
  have "distinct (map fst m) \<Longrightarrow> distinct (map fst (foldl (\<lambda>m a. AList.update (pa_question_key a) a m) m answers))" for m
    by (induction answers arbitrary: m) (auto simp: distinct_update)
  then show ?thesis by (simp add: answers_by_key_def)
qed

lemma map_of_answers_by_key:
  assumes "distinct (map pa_question_key answers)"
  shows "map_of (answers_by_key answers) k = find (\<lambda>a. pa_question_key a = k) answers"
proof -
  have "map_of (foldl (\<lambda>m a. AList.update (pa_question_key a) a m) m answers) k =
      (case find (\<lambda>a. pa_question_key a = k) answers of Some a \<Rightarrow> Some a | None \<Rightarrow> map_of m k)" for m
    using assms
  proof (induction answers arbitrary: m)
    case (Cons a as)
    have "find (\<lambda>x. pa_question_key x = pa_question_key a) as = None"
      using Cons.prems by (simp add: find_None_iff) (metis imageI)
    then show ?case using Cons by (auto simp: update_conv' split: option.split)
  qed simp
  then show ?thesis by (simp add: answers_by_key_def split: option.split)
qed

definition merged :: "packet_answer list \<Rightarrow> unresolved_field list \<Rightarrow> (string \<times> packet_answer) list" where
  "merged answers asked = foldl (\<lambda>m f. merge_question f m) (answers_by_key answers) asked"

definition keyed :: "(string \<times> packet_answer) list \<Rightarrow> bool" where
  "keyed m \<longleftrightarrow> distinct (map fst m) \<and> (\<forall>(k, a) \<in> set m. pa_question_key a = k)"

lemma set_update_subset: "set (AList.update k a m) \<subseteq> insert (k, a) (set m)"
  by (induction m) auto

lemma keyed_update: "keyed m \<Longrightarrow> pa_question_key a = k \<Longrightarrow> keyed (AList.update k a m)"
  using set_update_subset [of k a m] by (auto simp: keyed_def distinct_update)

lemma keyed_keys: "keyed m \<Longrightarrow> map (pa_question_key \<circ> snd) m = map fst m"
  by (auto simp: keyed_def)

lemma keyed_merge: "keyed m \<Longrightarrow> keyed (merge_question f m)"
  unfolding merge_question_def
  by (auto split: option.split intro!: keyed_update simp: discovered_answer_def)
     (auto simp: keyed_def dest!: map_of_SomeD)

lemma keyed_answers: "keyed (answers_by_key answers)"
proof -
  have "keyed m \<Longrightarrow> keyed (foldl (\<lambda>m a. AList.update (pa_question_key a) a m) m answers)" for m
    by (induction answers arbitrary: m) (auto simp: keyed_update)
  from this [of "[]"] show ?thesis by (simp add: answers_by_key_def) (simp add: keyed_def)
qed

lemma keyed_merged: "keyed (merged answers asked)"
proof -
  have "keyed m \<Longrightarrow> keyed (foldl (\<lambda>m f. merge_question f m) m asked)" for m
    by (induction asked arbitrary: m) (auto simp: keyed_merge)
  then show ?thesis by (simp add: merged_def keyed_answers)
qed

text \<open>An answer the packet had is carried over as it was, and can only become required.\<close>

definition carried :: "packet_answer \<Rightarrow> packet_answer \<Rightarrow> bool" where
  "carried a b \<longleftrightarrow> (\<exists>q. b = a \<lparr> pa_required := pa_required a \<or> q \<rparr>)"

lemma carried_refl: "carried a a"
  unfolding carried_def by (rule exI [of _ False]) simp

lemma carried_trans: "carried a b \<Longrightarrow> carried b c \<Longrightarrow> carried a c"
  unfolding carried_def by (elim exE, rename_tac p q, rule_tac x = "p \<or> q" in exI) (simp add: disj_assoc)

lemma merge_question_carried:
  "map_of m k = Some a \<Longrightarrow> \<exists>b. map_of (merge_question f m) k = Some b \<and> carried a b"
  by (auto simp: merge_question_def update_conv' carried_refl split: option.split)
     (auto simp: carried_def)

lemma merge_fields_carried:
  "map_of m k = Some a \<Longrightarrow> \<exists>b. map_of (foldl (\<lambda>m f. merge_question f m) m asked) k = Some b \<and> carried a b"
proof (induction asked arbitrary: m a)
  case (Cons f fs)
  obtain b where "map_of (merge_question f m) k = Some b" "carried a b"
    using merge_question_carried [OF Cons.prems] by blast
  then show ?case using Cons.IH carried_trans by fastforce
qed (auto intro: carried_refl)

lemma merge_question_field:
  "\<exists>b. map_of (merge_question f m) (uf_question_key f) = Some b \<and> (uf_required f \<longrightarrow> pa_required b) \<and>
     (map_of m (uf_question_key f) = None \<longrightarrow> pa_answer b = None)"
  by (auto simp: merge_question_def update_conv' discovered_answer_def split: option.split)

lemma merge_fields_field:
  assumes "f \<in> set asked"
  shows "\<exists>b. map_of (foldl (\<lambda>m f. merge_question f m) m asked) (uf_question_key f) = Some b \<and>
     (uf_required f \<longrightarrow> pa_required b) \<and> (map_of m (uf_question_key f) = None \<longrightarrow> pa_answer b = None)"
  using assms
proof (induction asked arbitrary: m)
  case (Cons g gs)
  show ?case
  proof (cases "f \<in> set gs \<and> map_of (merge_question g m) (uf_question_key f) = None")
    case True
    then show ?thesis using Cons.IH [of "merge_question g m"] by auto
  next
    case False
    then consider (old) "f \<in> set gs" "map_of (merge_question g m) (uf_question_key f) \<noteq> None"
      | (here) "f = g" using Cons.prems by auto
    then show ?thesis
    proof cases
      case here
      obtain b where b: "map_of (merge_question f m) (uf_question_key f) = Some b"
          "uf_required f \<longrightarrow> pa_required b" "map_of m (uf_question_key f) = None \<longrightarrow> pa_answer b = None"
        using merge_question_field by blast
      then show ?thesis using merge_fields_carried [OF b(1), of gs] here by (auto simp: carried_def)
    next
      case old
      then obtain a where a: "map_of (merge_question g m) (uf_question_key f) = Some a" by blast
      obtain b where b: "map_of (foldl (\<lambda>m f. merge_question f m) (merge_question g m) gs) (uf_question_key f) = Some b"
          "uf_required f \<longrightarrow> pa_required b" using Cons.IH [OF old(1)] by blast
      have "carried a b" using merge_fields_carried [OF a, of gs] b(1) by auto
      moreover have "pa_answer a = None" if "map_of m (uf_question_key f) = None"
        using a that
        by (auto simp: merge_question_def update_conv' discovered_answer_def split: option.splits if_splits)
      ultimately show ?thesis using b by (auto simp: carried_def)
    qed
  qed
qed simp

lemma mergeDiscoveredQuestions_keys: "distinct (map pa_question_key (mergeDiscoveredQuestions answers asked))"
proof -
  have "map pa_question_key (mergeDiscoveredQuestions answers asked) = map fst (merged answers asked)"
    using keyed_keys [OF keyed_merged] by (simp add: mergeDiscoveredQuestions_def merged_def)
  then show ?thesis using keyed_merged [of answers asked] by (simp add: keyed_def)
qed

lemma merged_member:
  "map_of (merged answers asked) k = Some b \<Longrightarrow> b \<in> set (mergeDiscoveredQuestions answers asked)"
  by (auto simp: mergeDiscoveredQuestions_def merged_def [symmetric] dest!: map_of_SomeD intro!: image_eqI [of _ snd])

lemma mergeDiscoveredQuestions_keeps:
  assumes "distinct (map pa_question_key answers)" and "a \<in> set answers"
  shows "\<exists>b \<in> set (mergeDiscoveredQuestions answers asked). carried a b"
proof -
  have "find (\<lambda>x. pa_question_key x = pa_question_key a) answers = Some a"
    using assms by (induction answers) (auto simp: rev_image_eqI)
  then have "map_of (answers_by_key answers) (pa_question_key a) = Some a"
    using map_of_answers_by_key [OF assms(1)] by simp
  from merge_fields_carried [OF this, of asked] show ?thesis
    by (auto simp: merged_def [symmetric] dest!: merged_member)
qed

text \<open>A required question the packet does not have ends up unresolved, so the new
  revision cannot be approved before someone answers it.\<close>

lemma mergeDiscoveredQuestions_blocks:
  assumes "f \<in> set asked" and "uf_required f" and "uf_question_key f \<notin> pa_question_key ` set answers"
  shows "uf_question_key f \<in> set (unresolvedQuestionKeys (mergeDiscoveredQuestions answers asked))"
proof -
  have "map_of (answers_by_key answers) (uf_question_key f) = None"
    using assms(3) by (simp add: map_of_eq_None_iff)
  then obtain b where b: "map_of (merged answers asked) (uf_question_key f) = Some b" "pa_required b" "pa_answer b = None"
    using merge_fields_field [OF assms(1), of "answers_by_key answers"] assms(2) by (auto simp: merged_def)
  then have "pa_question_key b = uf_question_key f"
    using keyed_merged [of answers asked] by (auto simp: keyed_def dest!: map_of_SomeD)
  then show ?thesis
    using merged_member [OF b(1)] b(2,3) by (auto simp: unresolvedQuestionKeys_def image_iff)
qed

section \<open>Frames\<close>

lemma scoped_record_observed_form [handler_steps]: "scoped ws (record_observed_form E ws app fp)"
  unfolding record_observed_form_def
  by (intro scope.obeys_rules scoped_modify) (simp_all add: outside_def)

lemma scoped_writeDiscoveredPacket [handler_steps]: "scoped ws (writeDiscoveredPacket E ws new_id app i r)"
  unfolding writeDiscoveredPacket_def Let_def
  by (intro scope.obeys_rules scoped_insert_packet scoped_withdraw) (simp add: discovered_packet_def)

lemma scoped_applyFillLocalResult [handler_steps]:
  "scoped (t_workspace_id task) (applyFillLocalResult E new_id task r)"
  unfolding applyFillLocalResult_def Let_def
  by (cases "t_payload task")
     (auto intro!: scope.obeys_rules scoped_record_observed_form scoped_writeDiscoveredPacket scoped_transition)

lemma scoped_applyFillLocalFailure [handler_steps]:
  "scoped (t_workspace_id task) (applyFillLocalFailure E task code message)"
  unfolding applyFillLocalFailure_def Let_def
  by (cases "t_payload task") (auto intro!: scope.obeys_rules scoped_appendEvent scoped_transition)

section \<open>What a report does\<close>

lemma transition_cong:
  assumes "a_id r = a_id app" and "a_revision r = a_revision app" and "a_status r = a_status app"
  shows "transitionApplication E ws r path ev opts = transitionApplication E ws app path ev opts"
proof -
  have "same_revision r = same_revision app"
    using assms by (simp add: same_revision_def fun_eq_iff)
  moreover have fin: "final_status r path = final_status app path"
    using assms by (simp add: final_status_def)
  moreover have "stamp_event r path ev = stamp_event app path ev"
    using assms by (simp add: fin stamp_event_def split: option.split)
  ultimately show ?thesis
    using assms by (simp add: transitionApplication_def)
qed

definition observed_row :: "env \<Rightarrow> string option \<Rightarrow> application_row \<Rightarrow> application_row" where
  "observed_row E fp a =
     (case fp of None \<Rightarrow> a
      | Some x \<Rightarrow> a \<lparr> a_observed_form_fingerprint := Some x, a_form_observed_at := Some (now E) \<rparr>)"

lemma observed_row_simps [simp]:
  "a_id (observed_row E fp a) = a_id a" "a_workspace_id (observed_row E fp a) = a_workspace_id a"
  "a_job_id (observed_row E fp a) = a_job_id a" "a_status (observed_row E fp a) = a_status a"
  "a_revision (observed_row E fp a) = a_revision a"
  "a_current_packet_id (observed_row E fp a) = a_current_packet_id a"
  "application_check (observed_row E fp a) = application_check a"
  by (simp_all add: observed_row_def application_check_def split: option.split)

definition observed_db :: "env \<Rightarrow> uuid \<Rightarrow> uuid \<Rightarrow> string option \<Rightarrow> db \<Rightarrow> db" where
  "observed_db E ws i fp s =
     applications_update (scoped_update a_workspace_id ws (\<lambda>a. a_id a = i) (observed_row E fp)) s"

lemma scoped_update_id [simp]: "scoped_update owner ws P (\<lambda>a. a) = (\<lambda>rows. rows)"
  by (simp add: scoped_update_def fun_eq_iff)

lemma wp_record_observed_form [simp]:
  "wp (record_observed_form E ws i fp) Q F = (\<lambda>s. Q () (observed_db E ws i fp s))"
proof (cases fp)
  case None
  have "applications_update (\<lambda>x. x) s = s" for s :: db by (cases s) simp
  then have "observed_db E ws i None = (\<lambda>s. s)"
    by (simp add: observed_db_def fun_eq_iff observed_row_def [abs_def])
  then show ?thesis using None by (simp add: record_observed_form_def)
next
  case (Some x)
  then show ?thesis
    by (simp add: record_observed_form_def observed_db_def fun_eq_iff observed_row_def [abs_def])
qed

lemma find_observed_db:
  "find_application ws i s = Some a \<Longrightarrow> find_application ws i (observed_db E ws i fp s) = Some (observed_row E fp a)"
  unfolding find_application_def observed_db_def
  by (simp add: scoped_find_update) (drule scoped_find_SomeD, simp)

lemma db_ok_observed:
  assumes "db_ok sha s"
  shows "db_ok sha (observed_db E ws i fp s)"
proof -
  have "tables_ok sha (applications s) (application_packets s)" "list_all application_check (applications s)"
    using assms by (simp_all add: db_ok_def tables_ok_def)
  then show ?thesis
    unfolding db_ok_def observed_db_def
    by simp (erule tables_ok_update_application, auto simp: list_all_iff)
qed

definition discovery ::
  "uuid \<Rightarrow> application_row \<Rightarrow> fill_local_input \<Rightarrow> fill_local_result \<Rightarrow> db \<Rightarrow> (packet_row \<times> packet_answer list) option" where
  "discovery ws app i r s =
     (if a_current_packet_id app \<noteq> Some (fi_packet_id i) then None
      else case find_packet ws (fi_packet_id i) s of None \<Rightarrow> None
        | Some p \<Rightarrow>
            let answers = mergeDiscoveredQuestions (p_answers p) (fr_unresolved_fields r) in
            if unresolvedQuestionKeys answers = [] then None else Some (p, answers))"

definition discovered_db ::
  "env \<Rightarrow> uuid \<Rightarrow> uuid \<Rightarrow> application_row \<Rightarrow> packet_row \<Rightarrow> string option \<Rightarrow> packet_answer list \<Rightarrow> db \<Rightarrow> db" where
  "discovered_db E ws new_id app p fp answers s =
     application_packets_update (\<lambda>ps. scoped_update p_workspace_id ws (\<lambda>q. p_id q = p_id p) withdraw_approval
       (insert_row (discovered_packet E ws new_id app p fp answers) ps)) s"

lemma discovered_observed [simp]:
  "discovered_db E ws n (observed_row E' f app) p fp answers s = discovered_db E ws n app p fp answers s"
  by (simp add: discovered_db_def discovered_packet_def)

lemma wp_writeDiscoveredPacket:
  assumes "discovery ws app i r s = None \<Longrightarrow> Q None s"
    and "\<And>p answers. discovery ws app i r s = Some (p, answers) \<Longrightarrow>
       new_id \<notin> p_id ` set (application_packets s) \<Longrightarrow>
       Q (Some new_id) (discovered_db E ws new_id app p (fr_form_fingerprint r) answers s)"
    and "F Conflict s"
  shows "wp (writeDiscoveredPacket E ws new_id app i r) Q F s"
proof -
  have "wp (insert_packet (discovered_packet E ws new_id app p (fr_form_fingerprint r) answers))
      (\<lambda>_. wp (withdraw_packet_approval ws (p_id p)) (\<lambda>_. Q (Some new_id)) F) F s"
    if "discovery ws app i r s = Some (p, answers)" for p answers
    using assms(2) [OF that] assms(3)
    by (intro wp_insert_packet)
       (simp_all add: withdraw_packet_approval_def discovered_db_def discovered_packet_def comp_def)
  then show ?thesis
    using assms(1) by (auto simp: writeDiscoveredPacket_def discovery_def Let_def split: option.splits if_splits)
qed

lemma find_packet_discovered:
  assumes "find_packet ws i s = Some p" and "new_id \<notin> p_id ` set (application_packets s)"
  shows "find_packet ws i (discovered_db E ws new_id app p fp answers s) = Some (withdraw_approval p)"
    and "find_packet ws new_id (discovered_db E ws new_id app p fp answers s) =
      Some (discovered_packet E ws new_id app p fp answers)"
proof -
  have old: "scoped_find p_workspace_id ws (\<lambda>q. p_id q = i)
      (insert_row (discovered_packet E ws new_id app p fp answers) (application_packets s)) = Some p"
    using assms(1) by (simp add: find_packet_def scoped_find_insert_old)
  have new: "scoped_find p_workspace_id ws (\<lambda>q. p_id q = new_id)
      (insert_row (discovered_packet E ws new_id app p fp answers) (application_packets s)) =
      Some (discovered_packet E ws new_id app p fp answers)"
    using find_packet_insert [of "discovered_packet E ws new_id app p fp answers" s] assms(2)
    by (simp add: find_packet_def discovered_packet_def)
  have "p_id p \<noteq> new_id" using find_packetD [OF assms(1)] assms(2) by blast
  then show "find_packet ws i (discovered_db E ws new_id app p fp answers s) = Some (withdraw_approval p)"
    and "find_packet ws new_id (discovered_db E ws new_id app p fp answers s) =
      Some (discovered_packet E ws new_id app p fp answers)"
    using scoped_find_update [OF old] scoped_find_update [OF new]
    by (simp_all add: find_packet_def discovered_db_def) (simp add: discovered_packet_def)
qed

lemma db_ok_discovered:
  assumes ok: "db_ok (sha256Hex E) s" and app: "find_application ws i s = Some app"
    and fresh: "new_id \<notin> p_id ` set (application_packets s)"
  shows "db_ok (sha256Hex E) (discovered_db E ws new_id app p fp answers s)"
proof -
  let ?p = "discovered_packet E ws new_id app p fp answers"
  have "hash_bound (sha256Hex E) (applications s) ?p"
    using find_applicationD [OF app] unfolding hash_bound_def
    by (intro bexI [of _ app])
       (simp_all add: computeContentHash_def discovered_packet_def packet_material_def
         packet_from_input_def packet_destination_of_def)
  moreover have "packet_check ?p" by (simp add: discovered_packet_def packet_check_from_input)
  ultimately have "tables_ok (sha256Hex E) (applications s) (insert_row ?p (application_packets s))"
    using ok fresh unfolding db_ok_def by (intro tables_ok_insert_packet) (simp_all add: discovered_packet_def)
  then show ?thesis
    unfolding db_ok_def discovered_db_def by (simp add: tables_ok_withdraw)
qed

definition fill_result_post ::
  "env \<Rightarrow> uuid \<Rightarrow> uuid \<Rightarrow> application_row \<Rightarrow> fill_local_input \<Rightarrow> fill_local_result \<Rightarrow> db \<Rightarrow> db \<Rightarrow> bool" where
  "fill_result_post E ws new_id app i r s s' \<longleftrightarrow>
     isAllowedApplicationTransition (a_status app) (pause_status (fr_outcome r)) \<and>
     (\<exists>app'. find_application ws (a_id app) s' = Some app' \<and> a_status app' = pause_status (fr_outcome r) \<and>
        a_revision app' = a_revision app + 1 \<and>
        (case (if fr_outcome r = FillNeedsInput then discovery ws app i r s else None) of
           None \<Rightarrow> a_current_packet_id app' = a_current_packet_id app \<and> application_packets s' = application_packets s
         | Some (p, answers) \<Rightarrow>
             a_current_packet_id app' = Some new_id \<and>
             find_packet ws new_id s' = Some (discovered_packet E ws new_id app p (fr_form_fingerprint r) answers) \<and>
             find_packet ws (p_id p) s' = Some (withdraw_approval p)))"

lemma pause_entry:
  "isAllowedApplicationTransition st (pause_status out) \<Longrightarrow> st \<notin> set submitted_application_statuses"
  by (cases st; cases out) (simp_all add: isAllowedApplicationTransition_def submitted_application_statuses_def)

lemma pause_not_submitted: "pause_status out \<noteq> Submitted"
  by (cases out) simp_all


lemma fill_result_wp:
  assumes ok: "db_ok (sha256Hex E) s" and pay: "t_payload task = FillPayload i"
    and found: "find_application (t_workspace_id task) (fi_application_id i) s = Some app"
  shows "wp (applyFillLocalResult E new_id task r)
    (\<lambda>_ s'. db_ok (sha256Hex E) s' \<and> fill_result_post E (t_workspace_id task) new_id app i r s s')
    (\<lambda>e s'. e = Conflict \<and> db_ok (sha256Hex E) s') s"
proof -
  let ?ws = "t_workspace_id task" and ?fp = "fr_form_fingerprint r"
  let ?row = "observed_row E ?fp app"
  have app: "find_application ?ws (a_id app) s = Some app"
    using found find_applicationD [OF found] by simp
  have row: "find_application ?ws (a_id ?row) (observed_db E ?ws (a_id app) ?fp s) = Some ?row"
    using find_observed_db [OF app] by simp
  have ok1: "db_ok (sha256Hex E) (observed_db E ?ws (a_id app) ?fp s)"
    using ok by (rule db_ok_observed)
  have check: "application_check (patch_application E (final_status ?row [pause_status out]) (a_revision ?row + 1) opts ?row)"
    if "quiet opts" "allowed_path (a_status ?row) [pause_status out]" for opts out
    using that db_ok_application [OF ok app] pause_entry [of "a_status app"] pause_not_submitted
    by (intro check_patch_quiet) auto
  have trans: "wp (transitionApplication E ?ws ?row [pause_status out] ev opts) Q
      (\<lambda>e s'. e = Conflict \<and> db_ok (sha256Hex E) s') t"
    if "find_application ?ws (a_id ?row) t = Some ?row" "db_ok (sha256Hex E) t" "quiet opts"
      and post: "\<And>u. isAllowedApplicationTransition (a_status app) (pause_status out) \<Longrightarrow> db_ok (sha256Hex E) u \<Longrightarrow>
        application_packets u = application_packets t \<Longrightarrow>
        find_application ?ws (a_id app) u = Some (patch_application E (pause_status out) (a_revision app + 1) opts ?row) \<Longrightarrow>
        Q (patch_application E (pause_status out) (a_revision app + 1) opts ?row) u"
    for out ev opts t Q
    unfolding wp_transition [OF that(1)]
    using post [of "after_transition E ?ws ?row [pause_status out] ev opts t"] that(2,3)
      db_ok_transition [OF that(2,1) check] find_after_transition [OF that(1), of E "[pause_status out]" ev opts]
    by simp
  show ?thesis
  proof (cases "fr_outcome r = FillNeedsInput")
    case False
    have "wp (transitionApplication E ?ws app [pause_status (fr_outcome r)] ev no_options)
       (\<lambda>_ s'. db_ok (sha256Hex E) s' \<and> fill_result_post E ?ws new_id app i r s s')
       (\<lambda>e s'. e = Conflict \<and> db_ok (sha256Hex E) s') (observed_db E ?ws (a_id app) ?fp s)" for ev
      unfolding transition_cong [of ?row app, symmetric, simplified]
      using row ok1 False
      by (intro trans) (auto simp: quiet_def fill_result_post_def patch_application_def no_options_def observed_db_def)
    then show ?thesis
      using False by (simp add: applyFillLocalResult_def Let_def pay found)
  next
    case True
    have disc: "discovery ?ws app i r (observed_db E ?ws (a_id app) ?fp s) = discovery ?ws app i r s"
      by (simp add: discovery_def find_packet_def observed_db_def)
    have pk: "application_packets (observed_db E ?ws (a_id app) ?fp s) = application_packets s"
      by (simp add: observed_db_def)
    have "wp (writeDiscoveredPacket E ?ws new_id app i r)
        (\<lambda>written. wp (gets (find_application ?ws (a_id app)))
          (\<lambda>reloaded. wp (transitionApplication E ?ws (case reloaded of Some a \<Rightarrow> a | None \<Rightarrow> app) [pause_status FillNeedsInput]
              (ev written) (no_options \<lparr> to_current_packet_id := (case written of None \<Rightarrow> None | Some p \<Rightarrow> Some (Some p)) \<rparr>))
            (\<lambda>_ s'. db_ok (sha256Hex E) s' \<and> fill_result_post E ?ws new_id app i r s s')
            (\<lambda>e s'. e = Conflict \<and> db_ok (sha256Hex E) s'))
          (\<lambda>e s'. e = Conflict \<and> db_ok (sha256Hex E) s'))
        (\<lambda>e s'. e = Conflict \<and> db_ok (sha256Hex E) s') (observed_db E ?ws (a_id app) ?fp s)" for ev
    proof (rule wp_writeDiscoveredPacket, goal_cases)
      case 1
      then show ?case
        using row ok1 True disc pk
        by (auto simp: quiet_def no_options_def fill_result_post_def patch_application_def intro!: trans simp del: pause_status.simps)
    next
      case (2 p answers)
      let ?t = "discovered_db E ?ws new_id app p ?fp answers (observed_db E ?ws (a_id app) ?fp s)"
      have p: "find_packet ?ws (fi_packet_id i) (observed_db E ?ws (a_id app) ?fp s) = Some p"
        using 2(1) by (auto simp: discovery_def Let_def split: option.splits if_splits)
      have rowt: "find_application ?ws (a_id ?row) ?t = Some ?row"
        using row by (simp add: discovered_db_def)
      have okt: "db_ok (sha256Hex E) ?t"
        using db_ok_discovered [OF ok1 row] 2(2) by simp
      have id: "p_id p = fi_packet_id i" using find_packetD [OF p] by simp
      have d: "discovery ?ws app i r s = Some (p, answers)" using 2(1) disc by simp
      show ?case
        using rowt okt True d 2(2) find_packet_discovered [OF p 2(2)]
        by (auto simp: quiet_def no_options_def fill_result_post_def patch_application_def id find_packet_def intro!: trans simp del: pause_status.simps)
    next
      case 3
      then show ?case using ok1 by simp
    qed
    then show ?thesis
      using True by (simp add: applyFillLocalResult_def Let_def pay found)
  qed
qed

definition fill_failure_post :: "env \<Rightarrow> uuid \<Rightarrow> application_row \<Rightarrow> db \<Rightarrow> db \<Rightarrow> bool" where
  "fill_failure_post E ws app s s' \<longleftrightarrow>
     application_packets s' = application_packets s \<and>
     (if a_status app = Filling
      then find_application ws (a_id app) s' = Some (patch_application E Failed (a_revision app + 1) no_options app)
      else applications s' = applications s)"

lemma fill_failure_wp:
  assumes ok: "db_ok sha s" and pay: "t_payload task = FillPayload i"
    and found: "find_application (t_workspace_id task) (fi_application_id i) s = Some app"
  shows "wp (applyFillLocalFailure E task code message)
    (\<lambda>_ s'. db_ok sha s' \<and> fill_failure_post E (t_workspace_id task) app s s') (\<lambda>_ _. False) s"
proof -
  have app: "find_application (t_workspace_id task) (a_id app) s = Some app"
    using found find_applicationD [OF found] by simp
  show ?thesis
  proof (cases "a_status app = Filling")
    case False
    then show ?thesis
      using ok by (simp add: applyFillLocalFailure_def pay found Let_def appendApplicationEvent_def fill_failure_post_def)
  next
    case True
    have "application_check (patch_application E (final_status app [Failed]) (a_revision app + 1) no_options app)"
      using db_ok_application [OF ok app] True
      by (intro check_patch_quiet) (simp_all add: submitted_application_statuses_def)
    then have "db_ok sha (after_transition E (t_workspace_id task) app [Failed] ev no_options s)" for ev
      by (rule db_ok_transition [OF ok app])
    then show ?thesis
      using True find_after_transition [OF app, of E "[Failed]"]
      by (simp add: applyFillLocalFailure_def pay found Let_def wp_transition [OF app] fill_failure_post_def
          isAllowedApplicationTransition_def)
  qed
qed

text \<open>Whatever the task carries, a report or a failure keeps the constraints.\<close>

lemma db_ok_applyFillLocalResult:
  assumes ok: "db_ok (sha256Hex E) s"
  shows "db_ok (sha256Hex E) (snd (applyFillLocalResult E new_id task r s))"
proof -
  have "wp (applyFillLocalResult E new_id task r) (\<lambda>_. db_ok (sha256Hex E)) (\<lambda>_. db_ok (sha256Hex E)) s"
  proof (cases "t_payload task")
    case (FillPayload i)
    show ?thesis
    proof (cases "find_application (t_workspace_id task) (fi_application_id i) s")
      case None
      then show ?thesis using ok by (simp add: applyFillLocalResult_def FillPayload Let_def)
    next
      case (Some app)
      show ?thesis by (rule wp_mono [OF fill_result_wp [OF ok FillPayload Some]]) simp_all
    qed
  qed (use ok in \<open>simp_all add: applyFillLocalResult_def\<close>)
  then show ?thesis by (simp add: wp_state)
qed

lemma db_ok_applyFillLocalFailure:
  assumes ok: "db_ok sha s"
  shows "db_ok sha (snd (applyFillLocalFailure E task code message s))"
proof -
  have "wp (applyFillLocalFailure E task code message) (\<lambda>_. db_ok sha) (\<lambda>_. db_ok sha) s"
  proof (cases "t_payload task")
    case (FillPayload i)
    show ?thesis
    proof (cases "find_application (t_workspace_id task) (fi_application_id i) s")
      case None
      then show ?thesis using ok by (simp add: applyFillLocalFailure_def FillPayload Let_def)
    next
      case (Some app)
      show ?thesis by (rule wp_mono [OF fill_failure_wp [OF ok FillPayload Some]]) simp_all
    qed
  qed (use ok in \<open>simp_all add: applyFillLocalFailure_def\<close>)
  then show ?thesis by (simp add: wp_state)
qed

end
