(* ===== verification/ObserveResult.thy ===== *)
theory ObserveResult
  imports FillResult
begin

text \<open>
  \<open>apps/api/src/applications/observe.ts\<close>: what an application becomes when a client
  reports what the employer's page said.  Both the runner's task result and the
  extension's look at the page end in \<open>applyObservation\<close>.
\<close>

fun observation_text :: "observation_outcome \<Rightarrow> string" where
  "observation_text Observed = ''observed''"
| "observation_text Unknown = ''unknown''"

definition observable_statuses :: "application_status list" where
  "observable_statuses = [AwaitingUserSubmit]"

definition observation_event_data :: "observe_result \<Rightarrow> (string \<times> json) list \<Rightarrow> (string \<times> json) list" where
  "observation_event_data r extra =
     (let coherent = observationResultIsCoherent r in
      [(''packet_id'', JStr (os_packet_id r)),
       (''outcome'', JStr (if coherent then observation_text (os_outcome r) else ''unknown'')),
       (''watched_seconds'', JNum (os_watched_seconds r)),
       (''unknown_reason'', if coherent then jopt (\<lambda>x. JStr (unknown_reason_text x)) (os_unknown_reason r)
                            else JStr ''runner_error''),
       (''adapter'', jopt JStr (os_adapter r)), (''adapter_version'', jopt JStr (os_adapter_version r))] @ extra)"

definition observed_evidence :: "observe_result \<Rightarrow> observed_confirmation \<Rightarrow> submission_evidence" where
  "observed_evidence r c =
     \<lparr> se_evidence_type = AdapterObserved, se_confirmation_text = oc_confirmation_text c,
       se_reference = oc_reference c, se_url = oc_url c, se_observed_at = Some (oc_observed_at c),
       se_screenshot_file_id = os_screenshot_file_id r, se_note = None \<rparr>"

definition unknown_event_reason :: "observe_result \<Rightarrow> string" where
  "unknown_event_reason r = slice 120
     (if observationResultIsCoherent r
      then (case os_unknown_reason r of Some x \<Rightarrow> unknown_reason_text x | None \<Rightarrow> ''unknown'')
      else ''runner_error'')"

definition superseded_note ::
  "env \<Rightarrow> uuid \<Rightarrow> application_row \<Rightarrow> (string \<times> json) list \<Rightarrow> (db, unit) handler" where
  "superseded_note E ws app data =
     appendApplicationEvent E ws (a_id app)
       (event EvNote ActorRunner (Some ''observation_superseded'') (data @ [(''status'', JStr (status_text (a_status app)))]))"

text \<open>The non-null assertion on the confirmation is the branch of the coherent observed
  result; without one it would throw.\<close>

definition applyObservation ::
  "env \<Rightarrow> uuid \<Rightarrow> application_row \<Rightarrow> observe_result \<Rightarrow> (string \<times> json) list \<Rightarrow> (db, unit) handler" where
  "applyObservation E ws app r extra =
     (let data = observation_event_data r extra in
      if a_status app \<notin> set observable_statuses then superseded_note E ws app data
      else if \<not> (observationResultIsCoherent r \<and> os_outcome r = Observed) then
        andThen (transitionApplication E ws app [OutcomeUnknown]
          (event EvOutcomeRecorded ActorRunner (Some (unknown_event_reason r)) data) no_options) (\<lambda>_. ret ())
      else
        andThen (require (os_confirmation r) InternalError) (\<lambda>c.
        andThen (transitionApplication E ws app [Submitted]
          (event EvSubmitted ActorRunner (Some ''adapter_observed'')
            (data @ [(''reference'', jopt JStr (oc_reference c)),
                     (''has_confirmation_text'', JBool (oc_confirmation_text c \<noteq> None))]))
          (no_options \<lparr> to_submitted_at := Some (Some (oc_observed_at c)),
                        to_evidence := Some (Some (observed_evidence r c)) \<rparr>)) (\<lambda>_. ret ())))"

definition applyObserveConfirmationResult :: "env \<Rightarrow> task_row \<Rightarrow> observe_result \<Rightarrow> (db, unit) handler" where
  "applyObserveConfirmationResult E task r =
     (case t_payload task of
        ObservePayload i \<Rightarrow>
          andThen (gets (find_application (t_workspace_id task) (oi_application_id i))) (\<lambda>found.
            case found of None \<Rightarrow> ret ()
            | Some app \<Rightarrow> applyObservation E (t_workspace_id task) app r [])
      | _ \<Rightarrow> fail InternalError)"

definition failed_observation_data :: "observe_input \<Rightarrow> string \<Rightarrow> string \<Rightarrow> (string \<times> json) list" where
  "failed_observation_data i code message =
     [(''packet_id'', JStr (oi_packet_id i)), (''outcome'', JStr ''unknown''),
      (''unknown_reason'', JStr ''runner_error''), (''code'', JStr code),
      (''detail'', JStr (slice 500 message))]"

definition applyObserveConfirmationFailure :: "env \<Rightarrow> task_row \<Rightarrow> string \<Rightarrow> string \<Rightarrow> (db, unit) handler" where
  "applyObserveConfirmationFailure E task code message =
     (case t_payload task of
        ObservePayload i \<Rightarrow>
          let ws = t_workspace_id task in
          andThen (gets (find_application ws (oi_application_id i))) (\<lambda>found.
            case found of None \<Rightarrow> ret ()
            | Some app \<Rightarrow>
                if a_status app \<notin> set observable_statuses
                then superseded_note E ws app (failed_observation_data i code message)
                else andThen (transitionApplication E ws app [OutcomeUnknown]
                  (event EvOutcomeRecorded ActorRunner (Some (slice 120 code)) (failed_observation_data i code message))
                  no_options) (\<lambda>_. ret ()))
      | _ \<Rightarrow> fail InternalError)"

section \<open>Frames\<close>

lemma scoped_applyObservation [handler_steps]: "scoped ws (applyObservation E ws app r extra)"
  unfolding applyObservation_def superseded_note_def Let_def
  by (intro scope.obeys_rules scoped_appendEvent scoped_transition)

lemma scoped_applyObserveResult [handler_steps]:
  "scoped (t_workspace_id task) (applyObserveConfirmationResult E task r)"
  unfolding applyObserveConfirmationResult_def
  by (cases "t_payload task") (auto intro!: scope.obeys_rules scoped_applyObservation)

lemma scoped_applyObserveFailure [handler_steps]:
  "scoped (t_workspace_id task) (applyObserveConfirmationFailure E task code message)"
  unfolding applyObserveConfirmationFailure_def superseded_note_def Let_def
  by (cases "t_payload task") (auto intro!: scope.obeys_rules scoped_appendEvent scoped_transition)

section \<open>What an observation does\<close>

text \<open>A submission is recorded only for an application that waits for its person and
  only from a coherent positive observation, with the page's own words as evidence;
  any other look at a waiting application leaves it unresolved and without evidence.\<close>

definition observation_post :: "env \<Rightarrow> uuid \<Rightarrow> application_row \<Rightarrow> observe_result \<Rightarrow> db \<Rightarrow> db \<Rightarrow> bool" where
  "observation_post E ws app r s s' \<longleftrightarrow>
     application_packets s' = application_packets s \<and>
     (if a_status app \<noteq> AwaitingUserSubmit then applications s' = applications s
      else \<exists>app'. find_application ws (a_id app) s' = Some app' \<and> a_revision app' = a_revision app + 1 \<and>
        a_current_packet_id app' = a_current_packet_id app \<and>
        (if observationResultIsCoherent r \<and> os_outcome r = Observed
         then a_status app' = Submitted \<and>
           (\<exists>c. os_confirmation r = Some c \<and> a_submitted_at app' = Some (oc_observed_at c) \<and>
              a_submission_evidence app' = Some (observed_evidence r c))
         else a_status app' = OutcomeUnknown \<and> a_submitted_at app' = a_submitted_at app \<and>
           a_submission_evidence app' = a_submission_evidence app))"

lemma observation_wp:
  assumes ok: "db_ok sha s" and app: "find_application ws (a_id app) s = Some app"
  shows "wp (applyObservation E ws app r extra)
    (\<lambda>_ s'. db_ok sha s' \<and> observation_post E ws app r s s') (\<lambda>_ _. False) s"
proof (cases "a_status app = AwaitingUserSubmit")
  case False
  then show ?thesis
    using ok by (simp add: applyObservation_def Let_def superseded_note_def appendApplicationEvent_def
        observable_statuses_def observation_post_def)
next
  case True
  have check: "application_check (patch_application E (final_status app [st]) (a_revision app + 1) opts app)"
    if "st = Submitted \<and> to_submitted_at opts = Some (Some t) \<and> to_evidence opts = Some e \<or>
        st = OutcomeUnknown \<and> quiet opts" for st opts t e
    using db_ok_application [OF ok app] True that
    by (auto simp: application_check_def patch_application_def quiet_def submitted_application_statuses_def)
  show ?thesis
  proof (cases "observationResultIsCoherent r \<and> os_outcome r = Observed")
    case obs: True
    then obtain c where c: "os_confirmation r = Some c"
      by (auto simp: observationResultIsCoherent_def)
    let ?opts = "no_options \<lparr> to_submitted_at := Some (Some (oc_observed_at c)),
        to_evidence := Some (Some (observed_evidence r c)) \<rparr>"
    have "db_ok sha (after_transition E ws app [Submitted] ev ?opts s)" for ev
      by (rule db_ok_transition [OF ok app check [where t = "oc_observed_at c"]]) simp
    then show ?thesis
      using True obs c find_after_transition [OF app, of E "[Submitted]" _ ?opts]
      by (simp add: applyObservation_def Let_def observable_statuses_def wp_transition [OF app]
          isAllowedApplicationTransition_def observation_post_def)
         (simp add: patch_application_def no_options_def)
  next
    case obs: False
    have "db_ok sha (after_transition E ws app [OutcomeUnknown] ev no_options s)" for ev
      by (rule db_ok_transition [OF ok app check]) simp
    then show ?thesis
      using True obs find_after_transition [OF app, of E "[OutcomeUnknown]" _ no_options]
      by (simp add: applyObservation_def Let_def observable_statuses_def wp_transition [OF app]
          isAllowedApplicationTransition_def observation_post_def)
         (simp add: patch_application_def no_options_def)
  qed
qed

definition observe_failure_post :: "env \<Rightarrow> uuid \<Rightarrow> application_row \<Rightarrow> db \<Rightarrow> db \<Rightarrow> bool" where
  "observe_failure_post E ws app s s' \<longleftrightarrow>
     application_packets s' = application_packets s \<and>
     (if a_status app = AwaitingUserSubmit
      then find_application ws (a_id app) s' =
             Some (patch_application E OutcomeUnknown (a_revision app + 1) no_options app)
      else applications s' = applications s)"

lemma observe_failure_wp:
  assumes ok: "db_ok sha s" and pay: "t_payload task = ObservePayload i"
    and found: "find_application (t_workspace_id task) (oi_application_id i) s = Some app"
  shows "wp (applyObserveConfirmationFailure E task code message)
    (\<lambda>_ s'. db_ok sha s' \<and> observe_failure_post E (t_workspace_id task) app s s') (\<lambda>_ _. False) s"
proof -
  have app: "find_application (t_workspace_id task) (a_id app) s = Some app"
    using found find_applicationD [OF found] by simp
  show ?thesis
  proof (cases "a_status app = AwaitingUserSubmit")
    case False
    then show ?thesis
      using ok by (simp add: applyObserveConfirmationFailure_def pay found Let_def superseded_note_def
          appendApplicationEvent_def observable_statuses_def observe_failure_post_def)
  next
    case True
    have "application_check (patch_application E (final_status app [OutcomeUnknown]) (a_revision app + 1) no_options app)"
      using db_ok_application [OF ok app] True
      by (intro check_patch_quiet) (simp_all add: submitted_application_statuses_def)
    then have "db_ok sha (after_transition E (t_workspace_id task) app [OutcomeUnknown] ev no_options s)" for ev
      by (rule db_ok_transition [OF ok app])
    then show ?thesis
      using True find_after_transition [OF app, of E "[OutcomeUnknown]"]
      by (simp add: applyObserveConfirmationFailure_def pay found Let_def wp_transition [OF app]
          observable_statuses_def observe_failure_post_def isAllowedApplicationTransition_def)
  qed
qed

lemma db_ok_applyObserveResult:
  assumes ok: "db_ok sha s"
  shows "db_ok sha (snd (applyObserveConfirmationResult E task r s))"
proof -
  have "wp (applyObserveConfirmationResult E task r) (\<lambda>_. db_ok sha) (\<lambda>_. db_ok sha) s"
  proof (cases "t_payload task")
    case (ObservePayload i)
    show ?thesis
    proof (cases "find_application (t_workspace_id task) (oi_application_id i) s")
      case None
      then show ?thesis using ok by (simp add: applyObserveConfirmationResult_def ObservePayload)
    next
      case (Some app)
      then have "find_application (t_workspace_id task) (a_id app) s = Some app"
        using find_applicationD [OF Some] by simp
      from wp_mono [OF observation_wp [OF ok this]] show ?thesis
        by (simp add: applyObserveConfirmationResult_def ObservePayload Some)
    qed
  qed (use ok in \<open>simp_all add: applyObserveConfirmationResult_def\<close>)
  then show ?thesis by (simp add: wp_state)
qed

lemma db_ok_applyObserveFailure:
  assumes ok: "db_ok sha s"
  shows "db_ok sha (snd (applyObserveConfirmationFailure E task code message s))"
proof -
  have "wp (applyObserveConfirmationFailure E task code message) (\<lambda>_. db_ok sha) (\<lambda>_. db_ok sha) s"
  proof (cases "t_payload task")
    case (ObservePayload i)
    show ?thesis
    proof (cases "find_application (t_workspace_id task) (oi_application_id i) s")
      case None
      then show ?thesis using ok by (simp add: applyObserveConfirmationFailure_def ObservePayload Let_def)
    next
      case (Some app)
      show ?thesis by (rule wp_mono [OF observe_failure_wp [OF ok ObservePayload Some]]) simp_all
    qed
  qed (use ok in \<open>simp_all add: applyObserveConfirmationFailure_def\<close>)
  then show ?thesis by (simp add: wp_state)
qed

end
