(* ===== verification/Fillable.thy ===== *)
theory Fillable
  imports ObserveResult
begin

text \<open>
  \<open>apps/api/src/applications/fillable.ts\<close>, \<open>apps/api/src/routes/fill.ts\<close> and
  \<open>apps/api/src/routes/observe.ts\<close>: the checks that decide whether an approved packet
  may be filled now, and the two commands that hand a paired runner a task.
\<close>

section \<open>Whether a packet may be filled\<close>

datatype fill_refusal =
    OutcomeUnresolved
  | NotApprovedStatus application_status
  | PacketNotApproved
  | PacketSuperseded
  | PacketOutOfDate "staleness_reason list"
  | QuestionsOpen nat
  | LiveStateMissing

text \<open>A loaded context with a packet has a live state; the code asserts it with \<open>!\<close>.\<close>

definition fillRefusal :: "application_context \<Rightarrow> timestamp \<Rightarrow> fill_refusal option" where
  "fillRefusal c t =
     (let app = cx_application c in
      if a_status app = OutcomeUnknown then Some OutcomeUnresolved
      else if a_status app \<noteq> Approved then Some (NotApprovedStatus (a_status app))
      else case cx_packet c of None \<Rightarrow> Some PacketNotApproved
        | Some p \<Rightarrow>
            if p_approved_at p = None then Some PacketNotApproved
            else if a_current_packet_id app \<noteq> Some (p_id p) then Some PacketSuperseded
            else case cx_live c of None \<Rightarrow> Some LiveStateMissing
              | Some live \<Rightarrow>
                  let stale = packetStaleness p live t; unanswered = unresolvedQuestionKeys (p_answers p) in
                  if length stale > 0 then Some (PacketOutOfDate stale)
                  else if length unanswered > 0 then Some (QuestionsOpen (length unanswered))
                  else None)"

definition requireFillablePacket ::
  "env \<Rightarrow> uuid \<Rightarrow> uuid \<Rightarrow> int option \<Rightarrow> (db, application_row \<times> packet_row \<times> packet_answer list) handler" where
  "requireFillablePacket E ws app_id expected =
     andThen (requireApplication ws app_id) (\<lambda>existing.
     andThen (throw_if (case expected of None \<Rightarrow> False | Some n \<Rightarrow> a_revision existing \<noteq> n) StaleRevision) (\<lambda>_.
     andThen (load_reconciled E ws existing) (\<lambda>c.
     andThen (throw_if (case expected of None \<Rightarrow> False | Some n \<Rightarrow> a_revision (cx_application c) \<noteq> n) StaleRevision) (\<lambda>_.
     andThen (throw_if (fillRefusal c (now E) \<noteq> None) Conflict) (\<lambda>_.
     andThen (require (cx_packet c) InternalError) (\<lambda>p.
     ret (cx_application c, p, p_answers p)))))))"

definition fill_field_of :: "packet_answer \<Rightarrow> answer_value \<Rightarrow> fill_field" where
  "fill_field_of a v =
     \<lparr> ff_question_key = pa_question_key a, ff_label = pa_label a, ff_answer = v,
       ff_required = pa_required a, ff_sensitivity = pa_sensitivity a \<rparr>"

definition fillableFields :: "packet_answer list \<Rightarrow> fill_field list" where
  "fillableFields answers =
     List.map_filter (\<lambda>a. map_option (fill_field_of a) (pa_answer a)) answers"

definition attachment_row :: "uuid \<Rightarrow> resume_row \<Rightarrow> db \<Rightarrow> file_row option" where
  "attachment_row ws r s = (case attachmentFileId r of None \<Rightarrow> None | Some f \<Rightarrow> find_file ws f s)"

definition packetAttachment :: "uuid \<Rightarrow> packet_row \<Rightarrow> (db, uuid option \<times> string option) handler" where
  "packetAttachment ws p =
     andThen (gets (find_resume ws (p_resume_id p))) (\<lambda>found.
     andThen (require found Conflict) (\<lambda>resume.
     andThen (gets (attachment_row ws resume)) (\<lambda>file.
     ret (map_option f_id file, map_option f_original_name file))))"

section \<open>Handing a task to a runner\<close>

definition day_ms :: int where
  "day_ms = 24 * 60 * 60 * 1000"

definition resolveAllowedOrigins :: "string list \<Rightarrow> string \<Rightarrow> api_error + string list" where
  "resolveAllowedOrigins declared origin =
     (if declared = [] then Inr [origin]
      else if origin \<notin> set declared then Inl Unprocessable
      else Inr [origin])"

definition live_task_state :: "task_state \<Rightarrow> bool" where
  "live_task_state st \<longleftrightarrow> st = Queued \<or> st = Leased"

definition has_live_task :: "uuid \<Rightarrow> task_type list \<Rightarrow> db \<Rightarrow> bool" where
  "has_live_task ws types s \<longleftrightarrow>
     scoped_filter t_workspace_id ws (\<lambda>t. t_type t \<in> set types \<and> live_task_state (t_state t)) (tasks s) \<noteq> []"

definition fills_today :: "env \<Rightarrow> uuid \<Rightarrow> db \<Rightarrow> int" where
  "fills_today E ws s = int (length
     (scoped_filter t_workspace_id ws (\<lambda>t. t_type t = FillLocal \<and> t_created_at t > now E - day_ms) (tasks s)))"

text \<open>The device checks of both routes.\<close>

definition require_runner :: "env \<Rightarrow> uuid \<Rightarrow> uuid \<Rightarrow> (db, paired_device_row) handler" where
  "require_runner E ws device_id =
     andThen (requireDevice ws device_id) (\<lambda>d.
     andThen (throw_if (d_kind d \<noteq> LocalRunner) Unprocessable) (\<lambda>_.
     andThen (throw_if (deviceStatus d (now E) \<noteq> DevicePaired) Unprocessable) (\<lambda>_. ret d)))"

definition job_identity :: "job_row \<Rightarrow> fill_job_identity" where
  "job_identity j = \<lparr> fj_job_id = j_id j, fj_company = j_company j, fj_title = j_title j \<rparr>"

definition fill_payload ::
  "application_row \<Rightarrow> packet_row \<Rightarrow> paired_device_row \<Rightarrow> string list \<Rightarrow> job_row \<Rightarrow> file_row option \<Rightarrow> fill_local_input" where
  "fill_payload app p d origins job file =
     \<lparr> fi_application_id = a_id app, fi_packet_id = p_id p, fi_content_hash = p_content_hash p,
       fi_device_id = d_id d, fi_destination = packet_destination_of p, fi_allowed_origins = origins,
       fi_job = job_identity job, fi_resume_file_id = map_option f_id file,
       fi_resume_sha256 = p_resume_sha256 p, fi_resume_filename = map_option f_original_name file,
       fi_fields = fillableFields (p_answers p), fi_known_form_fingerprint = p_form_fingerprint p,
       fi_adapter = p_connector p \<rparr>"

definition fill_task :: "fill_local_input \<Rightarrow> file_row option \<Rightarrow> enqueue_input" where
  "fill_task payload file =
     \<lparr> en_type = FillLocal, en_payload = FillPayload payload, en_idempotency_key = None,
       en_max_attempts = 1, en_run_after = None,
       en_input_file_ids = (case file of None \<Rightarrow> [] | Some f \<Rightarrow> [f_id f]) \<rparr>"

definition fill_requested_event :: "packet_row \<Rightarrow> (string \<times> json) list \<Rightarrow> int \<Rightarrow> event_input" where
  "fill_requested_event p ids n =
     event EvFillRequested ActorUser None
       ([(''packet_id'', JStr (p_id p))] @ ids @
        [(''field_count'', JNum n), (''origin'', JStr (p_destination_origin p))])"

definition start_fill ::
  "env \<Rightarrow> uuid \<Rightarrow> uuid \<Rightarrow> uuid \<Rightarrow> application_row \<Rightarrow> packet_row \<Rightarrow> paired_device_row \<Rightarrow> fill_local_input \<Rightarrow> file_row option
     \<Rightarrow> (db, outcome) handler" where
  "start_fill E ws user new_id app p d payload file =
     andThen (transaction (
       andThen (enqueueTask E ws new_id (fill_task payload file)) (\<lambda>task.
       andThen (transitionApplication E ws app [Filling]
         (fill_requested_event p [(''device_id'', JStr (d_id d)), (''task_id'', JStr (t_id task))]
            (int (length (fi_fields payload)))) no_options) (\<lambda>_.
       andThen (recordAuditEvent ws ''application.fill_requested'' (Some user) (Some (a_id app)) (Some ''application'')
         (JObj [(''device_id'', JStr (d_id d)), (''origin'', JStr (p_destination_origin p)),
                (''field_count'', JNum (int (length (fi_fields payload))))])) (\<lambda>_.
       ret (t_id task)))))) (\<lambda>task_id.
     ret (accepted task_id))"

definition fillApplication ::
  "env \<Rightarrow> uuid \<Rightarrow> uuid \<Rightarrow> uuid \<Rightarrow> string option \<Rightarrow> json \<Rightarrow> uuid \<Rightarrow> fill_application_request \<Rightarrow> (db, outcome) handler" where
  "fillApplication E ws user new_id header body app_id b =
     andThen (reads (\<lambda>_. readIdempotencyKey header)) (\<lambda>_.
     andThen (requireApplication ws app_id) (\<lambda>existing.
     andThen (throw_if (a_revision existing \<noteq> fq_expected_revision b) StaleRevision) (\<lambda>_.
     andThen (load_reconciled E ws existing) (\<lambda>c.
       let app = cx_application c in
     andThen (throw_if (a_revision app \<noteq> fq_expected_revision b) StaleRevision) (\<lambda>_.
     andThen (throw_if (a_status app = OutcomeUnknown) Conflict) (\<lambda>_.
     andThen (throw_if (a_status app \<noteq> Approved) Conflict) (\<lambda>_.
     andThen (throw_if (a_current_packet_id app \<noteq> Some (fq_packet_id b)) Conflict) (\<lambda>_.
     andThen (require (cx_packet c) Conflict) (\<lambda>p.
     andThen (throw_if (p_approved_at p = None) Conflict) (\<lambda>_.
     andThen (require (cx_live c) InternalError) (\<lambda>live.
     andThen (throw_if (length (packetStaleness p live (now E)) > 0) Conflict) (\<lambda>_.
     andThen (throw_if (length (unresolvedQuestionKeys (p_answers p)) > 0) Conflict) (\<lambda>_.
     andThen (require_runner E ws (fq_device_id b)) (\<lambda>d.
     andThen (reads (\<lambda>_. resolveAllowedOrigins (d_allowed_origins d) (p_destination_origin p))) (\<lambda>origins.
     andThen (gets (has_live_task ws [FillLocal])) (\<lambda>active.
     andThen (throw_if active Conflict) (\<lambda>_.
     andThen (workspacePreferences ws) (\<lambda>prefs.
     andThen (gets (fills_today E ws)) (\<lambda>spent.
     andThen (throw_if (spent \<ge> fill_attempts_per_day (limits prefs)) (QuotaExceeded None)) (\<lambda>_.
     andThen (requireJob ws (a_job_id app)) (\<lambda>job.
     andThen (gets (find_resume ws (p_resume_id p))) (\<lambda>found.
     andThen (require found Conflict) (\<lambda>resume.
     andThen (gets (attachment_row ws resume)) (\<lambda>file.
     withIdempotency E ws header body ''POST /applications/:id/fill''
       (start_fill E ws user new_id app p d (fill_payload app p d origins job file) file)))))))))))))))))))))))))"

section \<open>Asking a runner to look\<close>

definition observe_payload ::
  "application_row \<Rightarrow> packet_row \<Rightarrow> paired_device_row \<Rightarrow> string list \<Rightarrow> int \<Rightarrow> bool \<Rightarrow> observe_input" where
  "observe_payload app p d origins seconds capture =
     \<lparr> oi_application_id = a_id app, oi_packet_id = p_id p, oi_device_id = d_id d,
       oi_destination = packet_destination_of p, oi_allowed_origins = origins,
       oi_timeout_seconds = seconds, oi_adapter = p_connector p, oi_capture_evidence = capture \<rparr>"

definition observe_task :: "observe_input \<Rightarrow> enqueue_input" where
  "observe_task payload =
     \<lparr> en_type = ObserveConfirmation, en_payload = ObservePayload payload, en_idempotency_key = None,
       en_max_attempts = 1, en_run_after = None, en_input_file_ids = [] \<rparr>"

definition start_observation ::
  "env \<Rightarrow> uuid \<Rightarrow> uuid \<Rightarrow> uuid \<Rightarrow> application_row \<Rightarrow> packet_row \<Rightarrow> paired_device_row \<Rightarrow> observe_input \<Rightarrow> (db, outcome) handler" where
  "start_observation E ws user new_id app p d payload =
     andThen (transaction (
       andThen (enqueueTask E ws new_id (observe_task payload)) (\<lambda>task.
       andThen (transitionApplication E ws app [AwaitingUserSubmit]
         (event EvNote ActorUser (Some ''observation_requested'')
           [(''packet_id'', JStr (p_id p)), (''device_id'', JStr (d_id d)), (''task_id'', JStr (t_id task)),
            (''timeout_seconds'', JNum (oi_timeout_seconds payload))]) no_options) (\<lambda>_.
       andThen (recordAuditEvent ws ''application.observation_requested'' (Some user) (Some (a_id app)) (Some ''application'')
         (JObj [(''device_id'', JStr (d_id d)), (''origin'', JStr (p_destination_origin p)),
                (''timeout_seconds'', JNum (oi_timeout_seconds payload))])) (\<lambda>_.
       ret (t_id task)))))) (\<lambda>task_id.
     ret (accepted task_id))"

definition observe_seconds :: "int option \<Rightarrow> int" where
  "observe_seconds t =
     min (case t of None \<Rightarrow> default_observe_timeout_seconds | Some n \<Rightarrow> n) max_observe_timeout_seconds"

definition observeApplication ::
  "env \<Rightarrow> uuid \<Rightarrow> uuid \<Rightarrow> uuid \<Rightarrow> string option \<Rightarrow> json \<Rightarrow> uuid \<Rightarrow> observe_application_request \<Rightarrow> (db, outcome) handler" where
  "observeApplication E ws user new_id header body app_id b =
     andThen (requireApplication ws app_id) (\<lambda>existing.
     andThen (load_reconciled E ws existing) (\<lambda>c.
       let app = cx_application c in
     andThen (throw_if (a_revision app \<noteq> oq_expected_revision b) StaleRevision) (\<lambda>_.
     andThen (throw_if (a_status app = OutcomeUnknown) Conflict) (\<lambda>_.
     andThen (throw_if (a_status app \<noteq> AwaitingUserSubmit) Conflict) (\<lambda>_.
     andThen (throw_if (a_current_packet_id app \<noteq> Some (oq_packet_id b)) Conflict) (\<lambda>_.
     andThen (require (cx_packet c) Conflict) (\<lambda>p.
     andThen (require_runner E ws (oq_device_id b)) (\<lambda>d.
     andThen (gets (has_live_task ws [FillLocal, ObserveConfirmation])) (\<lambda>active.
     andThen (throw_if active Conflict) (\<lambda>_.
     andThen (workspacePreferences ws) (\<lambda>prefs.
     andThen (reads (\<lambda>_. resolveAllowedOrigins (d_allowed_origins d) (p_destination_origin p))) (\<lambda>origins.
     withIdempotency E ws header body ''POST /applications/:id/observe''
       (start_observation E ws user new_id app p d
         (observe_payload app p d origins (observe_seconds (oq_timeout_seconds b))
           (consented_evidence_capture (limits prefs))))))))))))))))"

section \<open>Frames\<close>

lemma scoped_requireFillablePacket [handler_steps]: "scoped ws (requireFillablePacket E ws app_id expected)"
  unfolding requireFillablePacket_def
  by (intro scope.obeys_rules scoped_requireApplication scoped_load_reconciled)

lemma scoped_packetAttachment [handler_steps]: "scoped ws (packetAttachment ws p)"
  unfolding packetAttachment_def by (intro scope.obeys_rules)

lemma scoped_fillApplication [handler_steps]: "scoped ws (fillApplication E ws user new_id header body app_id b)"
  unfolding fillApplication_def require_runner_def start_fill_def Let_def
  by (intro scope.obeys_rules scoped_requireApplication scoped_load_reconciled scoped_requireDevice
      scoped_workspacePreferences scoped_requireJob scoped_withIdempotency scoped_enqueueTask scoped_transition
      scoped_recordAuditEvent)

lemma scoped_observeApplication [handler_steps]: "scoped ws (observeApplication E ws user new_id header body app_id b)"
  unfolding observeApplication_def require_runner_def start_observation_def Let_def
  by (intro scope.obeys_rules scoped_requireApplication scoped_load_reconciled scoped_requireDevice
      scoped_workspacePreferences scoped_withIdempotency scoped_enqueueTask scoped_transition
      scoped_recordAuditEvent)

section \<open>What the checks establish\<close>

text \<open>A packet that may be filled at an instant: its application is approved, it is the
  current packet, it is approved and fresh, and no required question is open.\<close>

definition may_fill :: "env \<Rightarrow> uuid \<Rightarrow> db \<Rightarrow> application_row \<Rightarrow> packet_row \<Rightarrow> job_row \<Rightarrow> bool" where
  "may_fill E ws s app p job \<longleftrightarrow>
     find_application ws (a_id app) s = Some app \<and> a_status app = Approved \<and>
     a_current_packet_id app = Some (p_id p) \<and> find_packet ws (p_id p) s = Some p \<and>
     find_job ws (a_job_id app) s = Some job \<and> p_approved_at p \<noteq> None \<and>
     packetStaleness p (live_state E ws job p s) (now E) = [] \<and>
     unresolvedQuestionKeys (p_answers p) = []"

lemma may_fill_preferences [simp]:
  "may_fill E ws (preferences_rows_update f s) app p job = may_fill E ws s app p job"
  by (simp add: may_fill_def find_job_def)

lemma opened_may_fill:
  assumes op: "opened E ws app s c s'" and "a_status (cx_application c) = Approved"
    and "cx_packet c = Some p" and "p_approved_at p \<noteq> None" and "unresolvedQuestionKeys (p_answers p) = []"
  shows "s' = s \<and> cx_application c = app \<and> may_fill E ws s app p (cx_job c) \<and>
    find_job ws (a_job_id app) s = Some (cx_job c)"
proof -
  have same: "s' = s" "cx_application c = app"
      and fresh: "packetStaleness p (live_state E ws (cx_job c) p s) (now E) = []"
    using opened_not_stale [OF op] assms by blast+
  have cur: "current_context E ws c s" using opened_current [OF op] same by simp
  then obtain pid where "a_current_packet_id app = Some pid" "find_packet ws pid s = Some p"
    using same assms(3) by (auto simp: current_context_def split: option.splits)
  moreover have "p_id p = pid" using find_packetD calculation by blast
  ultimately show ?thesis
    using same fresh cur assms unfolding may_fill_def current_context_def by simp
qed

lemma fillRefusal_None:
  "fillRefusal c t = None \<longleftrightarrow>
     a_status (cx_application c) = Approved \<and>
     (\<exists>p live. cx_packet c = Some p \<and> p_approved_at p \<noteq> None \<and>
        a_current_packet_id (cx_application c) = Some (p_id p) \<and> cx_live c = Some live \<and>
        packetStaleness p live t = [] \<and> unresolvedQuestionKeys (p_answers p) = [])"
  by (auto simp: fillRefusal_def Let_def split: option.splits)

lemma requireFillablePacket_wp:
  assumes ok: "db_ok sha s"
    and good: "\<And>app p job. find_application ws app_id s = Some app \<Longrightarrow> may_fill E ws s app p job \<Longrightarrow>
      (\<And>n. expected = Some n \<Longrightarrow> a_revision app = n) \<Longrightarrow> Q (app, p, p_answers p) s"
    and bad: "\<And>e t. db_ok sha t \<Longrightarrow> F e t"
  shows "wp (requireFillablePacket E ws app_id expected) Q F s"
proof (cases "find_application ws app_id s")
  case None
  then show ?thesis using ok bad by (simp add: requireFillablePacket_def)
next
  case (Some app)
  then have app: "find_application ws (a_id app) s = Some app" by (auto dest: find_applicationD)
  have start: "wp (load_reconciled E ws app)
      (\<lambda>c s'. if (case expected of None \<Rightarrow> False | Some n \<Rightarrow> a_revision (cx_application c) \<noteq> n) then F StaleRevision s'
        else if fillRefusal c (now E) \<noteq> None then F Conflict s'
        else case cx_packet c of None \<Rightarrow> F InternalError s' | Some p \<Rightarrow> Q (cx_application c, p, p_answers p) s') F s"
  proof (rule wp_load_reconciled [OF app])
    fix c s'
    assume op: "opened E ws app s c s'"
    show "if (case expected of None \<Rightarrow> False | Some n \<Rightarrow> a_revision (cx_application c) \<noteq> n) then F StaleRevision s'
        else if fillRefusal c (now E) \<noteq> None then F Conflict s'
        else case cx_packet c of None \<Rightarrow> F InternalError s' | Some p \<Rightarrow> Q (cx_application c, p, p_answers p) s'"
      using opened_may_fill [OF op] bad [OF db_ok_opened [OF ok op]] good [OF Some]
      by (auto simp: fillRefusal_None split: option.splits)
  qed (use ok bad in simp)
  show ?thesis
    using ok bad
    by (auto simp: requireFillablePacket_def Some intro!: wp_mono [OF start] split: if_splits option.split)
qed

section \<open>What the commands do\<close>

lemma preferences_frames [simp]:
  "has_live_task ws types (preferences_rows_update f s) = has_live_task ws types s"
  "fills_today E ws (preferences_rows_update f s) = fills_today E ws s"
  "find_job ws i (preferences_rows_update f s) = find_job ws i s"
  "find_resume ws i (preferences_rows_update f s) = find_resume ws i s"
  "find_device ws i (preferences_rows_update f s) = find_device ws i s"
  "attachment_row ws r (preferences_rows_update f s) = attachment_row ws r s"
  by (simp_all add: has_live_task_def fills_today_def find_job_def find_resume_def find_device_def
      attachment_row_def find_file_def split: option.split)

lemma wp_require_runner:
  assumes "\<And>d. find_device ws i s = Some d \<Longrightarrow> d_kind d = LocalRunner \<Longrightarrow> deviceStatus d (now E) = DevicePaired \<Longrightarrow> Q d s"
    and "\<And>e. F e s"
  shows "wp (require_runner E ws i) Q F s"
  using assms by (auto simp: require_runner_def split: option.split)

lemma resolveAllowedOrigins_ok:
  "resolveAllowedOrigins declared x = Inr os \<longleftrightarrow> os = [x] \<and> (declared = [] \<or> x \<in> set declared)"
  by (auto simp: resolveAllowedOrigins_def)

definition task_started ::
  "env \<Rightarrow> uuid \<Rightarrow> uuid \<Rightarrow> application_row \<Rightarrow> application_status \<Rightarrow> enqueue_input \<Rightarrow> db \<Rightarrow> db \<Rightarrow> bool" where
  "task_started E ws new_id app st i s s' \<longleftrightarrow>
     tasks s' = insert_row (new_task E ws new_id i) (tasks s) \<and> application_packets s' = application_packets s \<and>
     find_application ws (a_id app) s' = Some (patch_application E st (a_revision app + 1) no_options app)"

lemma task_started_frames [simp]:
  "task_started E ws n app st i (preferences_rows_update f s) s' = task_started E ws n app st i s s'"
  "task_started E ws n app st i s (store_replay E' ws' route key h out t) = task_started E ws n app st i s t"
  by (simp_all add: task_started_def find_application_def)

lemma wp_task_transition:
  assumes ok: "db_ok sha s" and app: "find_application ws (a_id app) s = Some app"
    and st: "isAllowedApplicationTransition (a_status app) st" "st \<noteq> Submitted"
      "a_status app \<notin> set submitted_application_statuses"
    and i: "en_type i \<in> set implemented_task_types"
    and Q: "\<And>t. db_ok sha t \<Longrightarrow> task_started E ws new_id app st i s t \<Longrightarrow> Q new_id t"
    and F: "\<And>t. F Conflict t"
  shows "wp (enqueueTask E ws new_id i) (\<lambda>task. wp (transitionApplication E ws app [st] (ev task) no_options)
     (\<lambda>_. wp (recordAuditEvent ws a b c d m) (\<lambda>_. Q (t_id task)) F) F) F s"
proof -
  let ?t = "tasks_update (insert_row (new_task E ws new_id i)) s"
  have appt: "find_application ws (a_id app) ?t = Some app" using app by simp
  have "application_check (patch_application E (final_status app [st]) (a_revision app + 1) no_options app)"
    using db_ok_application [OF ok app] st by (intro check_patch_quiet) simp_all
  then have "db_ok sha (after_transition E ws app [st] e no_options ?t)" for e
    using ok by (intro db_ok_transition [OF _ appt]) simp
  moreover have "task_started E ws new_id app st i s (audit_events_update f (after_transition E ws app [st] e no_options ?t))" for f e
    using find_after_transition [OF appt, of E "[st]"] by (simp add: task_started_def)
  moreover have "t_id (new_task E ws new_id i) = new_id" by (simp add: new_task_def)
  ultimately show ?thesis
    using st(1) i F by (simp add: wp_enqueueTask wp_transition [OF appt] Q)
qed

text \<open>What a granted fill has checked and what it leaves behind.\<close>

definition fill_granted ::
  "env \<Rightarrow> uuid \<Rightarrow> uuid \<Rightarrow> fill_application_request \<Rightarrow> db \<Rightarrow> application_row \<Rightarrow> packet_row \<Rightarrow> paired_device_row
     \<Rightarrow> job_row \<Rightarrow> file_row option \<Rightarrow> bool" where
  "fill_granted E ws app_id b s app p d job file \<longleftrightarrow>
     find_application ws app_id s = Some app \<and> a_revision app = fq_expected_revision b \<and>
     may_fill E ws s app p job \<and> a_current_packet_id app = Some (fq_packet_id b) \<and>
     find_device ws (fq_device_id b) s = Some d \<and> d_kind d = LocalRunner \<and>
     deviceStatus d (now E) = DevicePaired \<and>
     (d_allowed_origins d = [] \<or> p_destination_origin p \<in> set (d_allowed_origins d)) \<and>
     \<not> has_live_task ws [FillLocal] s \<and>
     fills_today E ws s < fill_attempts_per_day (limits (stored_preferences ws s)) \<and>
     (\<exists>resume. find_resume ws (p_resume_id p) s = Some resume \<and> file = attachment_row ws resume s)"

definition fill_post ::
  "env \<Rightarrow> uuid \<Rightarrow> uuid \<Rightarrow> uuid \<Rightarrow> fill_application_request \<Rightarrow> db \<Rightarrow> db \<Rightarrow> bool" where
  "fill_post E ws new_id app_id b s s' \<longleftrightarrow>
     (\<exists>app p d job file. fill_granted E ws app_id b s app p d job file \<and>
        task_started E ws new_id app Filling
          (fill_task (fill_payload app p d [p_destination_origin p] job file) file) s s')"

lemma fill_post_store_replay [simp]:
  "fill_post E ws n app_id b s (store_replay E' ws' route key h out t) = fill_post E ws n app_id b s t"
  by (simp add: fill_post_def)

lemma fill_postI:
  "task_started E ws new_id app Filling
       (fill_task (fill_payload app p d [p_destination_origin p] job file) file) s t \<Longrightarrow>
     fill_granted E ws app_id b s app p d job file \<Longrightarrow> fill_post E ws new_id app_id b s t"
  unfolding fill_post_def by blast

definition replayed :: "string option \<Rightarrow> string \<Rightarrow> uuid \<Rightarrow> outcome \<Rightarrow> db \<Rightarrow> bool" where
  "replayed header route ws out s \<longleftrightarrow>
     (\<exists>key r. readIdempotencyKey header = Inr key \<and> find_replay ws route key s = Some r \<and>
        out = (i_response_status r, i_response_body r))"

lemma find_replay_preferences [simp]:
  "find_replay ws route key (preferences_rows_update f s) = find_replay ws route key s"
  by (simp add: find_replay_def)

lemma replayed_preferences [simp]: "replayed h route ws out (preferences_rows_update f s) = replayed h route ws out s"
  by (simp add: replayed_def)

lemma wp_start_fill:
  assumes ok: "db_ok sha s" and may: "may_fill E ws s app p job"
    and Q: "\<And>t. db_ok sha t \<Longrightarrow> task_started E ws new_id app Filling (fill_task payload file) s t \<Longrightarrow> Q (accepted new_id) t"
    and F: "\<And>e t. db_ok sha t \<Longrightarrow> F e t"
  shows "wp (start_fill E ws user new_id app p d payload file) Q F s"
proof -
  have "find_application ws (a_id app) s = Some app" "a_status app = Approved"
    using may by (simp_all add: may_fill_def)
  then show ?thesis
    unfolding start_fill_def using ok F Q
    by (simp del: wp_recordAuditEvent, intro wp_task_transition)
       (simp_all add: isAllowedApplicationTransition_def submitted_application_statuses_def fill_task_def
         implemented_task_types_def)
qed

lemma fill_wp:
  assumes ok: "db_ok sha s"
  shows "wp (fillApplication E ws user new_id header body app_id b)
    (\<lambda>out s'. db_ok sha s' \<and>
       (fill_post E ws new_id app_id b s s' \<and> out = accepted new_id \<or>
        replayed header ''POST /applications/:id/fill'' ws out s))
    (\<lambda>_. db_ok sha) s"
proof (cases "find_application ws app_id s")
  case None
  then show ?thesis using ok by (simp add: fillApplication_def split: sum.split)
next
  case (Some app)
  then have app: "find_application ws (a_id app) s = Some app" by (auto dest: find_applicationD)
  show ?thesis
    unfolding fillApplication_def Let_def
    apply (simp add: Some ok split: sum.split)
    apply (intro allI impI wp_load_reconciled [OF app])
    subgoal premises prems for c s1
      using opened_may_fill [OF prems(3)] db_ok_opened [OF ok prems(3)] prems(1,2) Some ok
      by (auto split: option.split sum.split simp: resolveAllowedOrigins_ok replayed_def fill_granted_def
          intro: fill_postI intro!: wp_require_runner wp_workspacePreferences wp_withIdempotency wp_start_fill)
    by (simp add: ok)
qed

lemma opened_unchanged:
  assumes "opened E ws app s c s'" and "a_status (cx_application c) \<noteq> ReadyForReview"
    and "a_status (cx_application c) \<noteq> Preparing"
  shows "s' = s \<and> cx_application c = app \<and> current_context E ws c s"
proof -
  from assms(1) obtain c0 where c0: "cx_application c0 = app" "current_context E ws c0 s"
      and alt: "\<not> stale_approval c0 \<and> c = c0 \<and> s' = s \<or> stale_approval c0 \<and> c = withdrawn_context E c0"
    unfolding opened_def by blast
  have "a_status (cx_application (withdrawn_context E c0)) \<in> {ReadyForReview, Preparing}"
    by (simp add: withdrawn_context_def withdrawn_application_def withdraw_target_def)
  then show ?thesis using alt assms(2,3) c0 by auto
qed

definition observation_granted ::
  "env \<Rightarrow> uuid \<Rightarrow> uuid \<Rightarrow> observe_application_request \<Rightarrow> db \<Rightarrow> application_row \<Rightarrow> packet_row \<Rightarrow> paired_device_row \<Rightarrow> bool" where
  "observation_granted E ws app_id b s app p d \<longleftrightarrow>
     find_application ws app_id s = Some app \<and> a_revision app = oq_expected_revision b \<and>
     a_status app = AwaitingUserSubmit \<and> a_current_packet_id app = Some (oq_packet_id b) \<and>
     find_packet ws (oq_packet_id b) s = Some p \<and>
     find_device ws (oq_device_id b) s = Some d \<and> d_kind d = LocalRunner \<and>
     deviceStatus d (now E) = DevicePaired \<and>
     (d_allowed_origins d = [] \<or> p_destination_origin p \<in> set (d_allowed_origins d)) \<and>
     \<not> has_live_task ws [FillLocal, ObserveConfirmation] s"

definition observe_post ::
  "env \<Rightarrow> uuid \<Rightarrow> uuid \<Rightarrow> uuid \<Rightarrow> observe_application_request \<Rightarrow> db \<Rightarrow> db \<Rightarrow> bool" where
  "observe_post E ws new_id app_id b s s' \<longleftrightarrow>
     (\<exists>app p d. observation_granted E ws app_id b s app p d \<and>
        task_started E ws new_id app AwaitingUserSubmit
          (observe_task (observe_payload app p d [p_destination_origin p] (observe_seconds (oq_timeout_seconds b))
             (consented_evidence_capture (limits (stored_preferences ws s))))) s s')"

lemma observe_post_store_replay [simp]:
  "observe_post E ws n app_id b s (store_replay E' ws' route key h out t) = observe_post E ws n app_id b s t"
  by (simp add: observe_post_def)

lemma observe_postI:
  "task_started E ws new_id app AwaitingUserSubmit
      (observe_task (observe_payload app p d [p_destination_origin p] (observe_seconds (oq_timeout_seconds b))
         (consented_evidence_capture (limits (stored_preferences ws s))))) s t \<Longrightarrow>
     observation_granted E ws app_id b s app p d \<Longrightarrow> observe_post E ws new_id app_id b s t"
  unfolding observe_post_def by blast

lemma wp_start_observation:
  assumes ok: "db_ok sha s" and "find_application ws (a_id app) s = Some app" "a_status app = AwaitingUserSubmit"
    and Q: "\<And>t. db_ok sha t \<Longrightarrow> task_started E ws new_id app AwaitingUserSubmit (observe_task payload) s t \<Longrightarrow>
      Q (accepted new_id) t"
    and F: "\<And>e t. db_ok sha t \<Longrightarrow> F e t"
  shows "wp (start_observation E ws user new_id app p d payload) Q F s"
  unfolding start_observation_def using assms
  by (simp del: wp_recordAuditEvent, intro wp_task_transition)
     (simp_all add: isAllowedApplicationTransition_def submitted_application_statuses_def observe_task_def
       implemented_task_types_def)

lemma observe_wp:
  assumes ok: "db_ok sha s"
  shows "wp (observeApplication E ws user new_id header body app_id b)
    (\<lambda>out s'. db_ok sha s' \<and>
       (observe_post E ws new_id app_id b s s' \<and> out = accepted new_id \<or>
        replayed header ''POST /applications/:id/observe'' ws out s))
    (\<lambda>_. db_ok sha) s"
proof (cases "find_application ws app_id s")
  case None
  then show ?thesis using ok by (simp add: observeApplication_def)
next
  case (Some app)
  then have app: "find_application ws (a_id app) s = Some app" by (auto dest: find_applicationD)
  show ?thesis
    unfolding observeApplication_def Let_def
    apply (simp add: Some ok)
    apply (intro allI impI wp_load_reconciled [OF app])
    subgoal premises prems for c s1
      using opened_unchanged [OF prems(1)] db_ok_opened [OF ok prems(1)] Some ok app
      by (auto split: option.split sum.split simp: resolveAllowedOrigins_ok replayed_def observation_granted_def
          current_context_def intro: observe_postI
          intro!: wp_require_runner wp_workspacePreferences wp_withIdempotency wp_start_observation)
    by (simp add: ok)
qed

end
