(* ===== verification/Frames.thy ===== *)
theory Frames
  imports Fillable
begin

text \<open>
  What the application handlers leave alone.  \<open>rest\<close> is the database without the six
  tables they write: applications, packets, events, the audit trail, preferences and
  the replay records.  Reading, reconciling, approving and observing keep it, so
  invariants of the task queue, the devices and the fill sessions need no argument
  about them.
\<close>

definition rest :: "db \<Rightarrow> db" where
  "rest s = s \<lparr> applications := [], application_packets := [], application_events := [],
     audit_events := [], preferences_rows := [], idempotency_records := [] \<rparr>"

abbreviation keeps_rest :: "(db, 'a) handler \<Rightarrow> bool" where
  "keeps_rest m \<equiv> obeys (same rest) m"

lemma keeps_rest_modify: "(\<And>s. rest (f s) = rest s) \<Longrightarrow> keeps_rest (modify f)"
  by (rule frame.obeys_modify) (simp add: same_def)

lemma rest_tables [simp]:
  "rest (applications_update f s) = rest s"
  "rest (application_packets_update g s) = rest s"
  "rest (application_events_update h s) = rest s"
  "rest (audit_events_update k s) = rest s"
  "rest (preferences_rows_update l s) = rest s"
  "rest (idempotency_records_update m s) = rest s"
  by (simp_all add: rest_def)

lemma rest_fields:
  "rest s' = rest s \<Longrightarrow> tasks s' = tasks s \<and> fill_sessions s' = fill_sessions s \<and>
     paired_devices s' = paired_devices s \<and> files s' = files s \<and> jobs s' = jobs s \<and> resumes s' = resumes s \<and>
     task_artifacts s' = task_artifacts s"
  by (drule arg_cong [where f = "\<lambda>d. (tasks d, fill_sessions d, paired_devices d, files d, jobs d, resumes d, task_artifacts d)"])
     (simp add: rest_def)

lemma rest_store_replay [simp]: "rest (store_replay E ws route key h out s) = rest s"
  by (simp add: store_replay_def split: option.split)

lemma rest_observed [simp]: "rest (observed_db E ws i fp s) = rest s"
  by (simp add: observed_db_def)

named_theorems rest_steps \<open>handlers that keep the rest of the database\<close>

lemma keeps_rest_audit [rest_steps]: "keeps_rest (recordAuditEvent ws a b c d m)"
  unfolding recordAuditEvent_def by (rule keeps_rest_modify) simp

lemma keeps_rest_append [rest_steps]: "keeps_rest (appendApplicationEvent E ws app ev)"
  unfolding appendApplicationEvent_def by (rule keeps_rest_modify) simp

lemma keeps_rest_transition [rest_steps]: "keeps_rest (transitionApplication E ws app path ev opts)"
  unfolding transitionApplication_def Let_def
  by (intro frame.obeys_rules keeps_rest_append keeps_rest_modify) simp

lemma keeps_rest_withdraw [rest_steps]: "keeps_rest (withdraw_packet_approval ws pid)"
  unfolding withdraw_packet_approval_def by (rule keeps_rest_modify) simp

lemma keeps_rest_load [rest_steps]: "keeps_rest (loadApplicationContexts E ws apps)"
  unfolding loadApplicationContexts_def by (rule frame.obeys_gets)

lemma keeps_rest_reconcile [rest_steps]: "keeps_rest (reconcileApplications E ws cs)"
  unfolding reconcileApplications_def reconcile_one_def Let_def
  by (intro frame.obeys_rules keeps_rest_withdraw keeps_rest_transition)

lemma keeps_rest_load_reconciled [rest_steps]: "keeps_rest (load_reconciled E ws app)"
  unfolding load_reconciled_def by (intro frame.obeys_rules keeps_rest_load keeps_rest_reconcile)

lemma keeps_rest_requireApplication [rest_steps]: "keeps_rest (requireApplication ws i)"
  unfolding requireApplication_def by (intro frame.obeys_rules)

lemma keeps_rest_requireJob [rest_steps]: "keeps_rest (requireJob ws i)"
  unfolding requireJob_def by (intro frame.obeys_rules)

lemma keeps_rest_requireDevice [rest_steps]: "keeps_rest (requireDevice ws i)"
  unfolding requireDevice_def by (intro frame.obeys_rules)

lemma keeps_rest_preferences [rest_steps]: "keeps_rest (workspacePreferences ws)"
  unfolding workspacePreferences_def ensurePreferences_def Let_def
  by (intro frame.obeys_rules keeps_rest_modify) simp

lemma keeps_rest_idempotency [rest_steps]:
  "keeps_rest h \<Longrightarrow> keeps_rest (withIdempotency E ws header body route h)"
  unfolding withIdempotency_def Let_def by (intro frame.obeys_rules keeps_rest_modify) simp_all

lemma keeps_rest_fillable [rest_steps]: "keeps_rest (requireFillablePacket E ws app_id expected)"
  unfolding requireFillablePacket_def
  by (intro frame.obeys_rules keeps_rest_requireApplication keeps_rest_load_reconciled)

lemma keeps_rest_attachment [rest_steps]: "keeps_rest (packetAttachment ws p)"
  unfolding packetAttachment_def by (intro frame.obeys_rules)

lemma keeps_rest_observation [rest_steps]: "keeps_rest (applyObservation E ws app r extra)"
  unfolding applyObservation_def superseded_note_def Let_def
  by (intro frame.obeys_rules keeps_rest_append keeps_rest_transition)

lemma keeps_rest_fill_result [rest_steps]: "keeps_rest (applyFillLocalResult E new_id task r)"
  unfolding applyFillLocalResult_def Let_def record_observed_form_def writeDiscoveredPacket_def insert_packet_def
  by (cases "t_payload task")
     (auto intro!: frame.obeys_rules keeps_rest_transition keeps_rest_modify keeps_rest_withdraw)

lemma keeps_rest_fill_failure [rest_steps]: "keeps_rest (applyFillLocalFailure E task code message)"
  unfolding applyFillLocalFailure_def Let_def
  by (cases "t_payload task") (auto intro!: frame.obeys_rules keeps_rest_transition keeps_rest_append)

lemma keeps_rest_observe_result [rest_steps]: "keeps_rest (applyObserveConfirmationResult E task r)"
  unfolding applyObserveConfirmationResult_def
  by (cases "t_payload task") (auto intro!: frame.obeys_rules keeps_rest_observation)

lemma keeps_rest_observe_failure [rest_steps]: "keeps_rest (applyObserveConfirmationFailure E task code message)"
  unfolding applyObserveConfirmationFailure_def superseded_note_def Let_def
  by (cases "t_payload task") (auto intro!: frame.obeys_rules keeps_rest_append keeps_rest_transition)

lemma keeps_rest_get [rest_steps]: "keeps_rest (getApplication E ws i)"
  unfolding getApplication_def renderApplication_def by (intro frame.obeys_rules rest_steps)

lemma keeps_rest_list [rest_steps]: "keeps_rest (listApplications E ws status job cursor n)"
  unfolding listApplications_def Let_def by (intro frame.obeys_rules rest_steps)

lemma keeps_rest_events [rest_steps]: "keeps_rest (listApplicationEvents ws i cursor n)"
  unfolding listApplicationEvents_def Let_def by (intro frame.obeys_rules rest_steps)

lemma keeps_rest_create [rest_steps]: "keeps_rest (createApplication E ws user new_id job)"
  unfolding createApplication_def insert_application_def renderApplication_def
  by (intro frame.obeys_rules rest_steps keeps_rest_modify) simp

lemma keeps_rest_packet [rest_steps]: "keeps_rest (createApplicationPacket E ws user new_id header body app_id b)"
proof -
  have answers: "keeps_rest (assertPacketAnswers E ws job answers)" for job answers
    using read_only_assertPacketAnswers [of E ws job answers] by (simp add: obeys_def same_def)
  show ?thesis
    unfolding createApplicationPacket_def assertResumeUsable_def resolveDestination_def write_packet_def
      insert_packet_def Let_def
    by (intro frame.obeys_rules answers keeps_rest_requireApplication keeps_rest_requireJob
        keeps_rest_idempotency keeps_rest_transition keeps_rest_audit keeps_rest_modify) simp
qed

lemma keeps_rest_approve [rest_steps]: "keeps_rest (approveApplication E ws user app_id b)"
  unfolding approveApplication_def commit_approval_def renderApplication_def Let_def
  by (intro frame.obeys_rules rest_steps keeps_rest_modify) simp

lemma keeps_rest_outcome [rest_steps]: "keeps_rest (recordApplicationOutcome E ws user app_id b)"
  unfolding recordApplicationOutcome_def renderApplication_def by (intro frame.obeys_rules rest_steps)

text \<open>An invariant that only depends on the rest is kept by every such handler.\<close>

lemma keeps_from_rest:
  assumes "keeps_rest m" and "\<And>s s'. rest s' = rest s \<Longrightarrow> I s' = I s"
  shows "obeys (keeps I) m"
  using assms unfolding obeys_def same_def keeps_def by blast

end
