(* ===== verification/FillSessions.thy ===== *)
theory FillSessions
  imports Frames
begin

text \<open>
  \<open>apps/api/src/routes/fill-sessions.ts\<close>: the scoped credential a browser extension
  fills with.  The table's partial unique index (one live session per application) is
  the condition the insert checks.  A generated nonce and the ids are arguments;
  whether a stored file can be opened is the argument \<open>can_open\<close>.
\<close>

section \<open>State, origin and nonce\<close>

definition fillSessionState :: "fill_session_row \<Rightarrow> timestamp \<Rightarrow> fill_session_state" where
  "fillSessionState r t =
     (if fs_ended_at r \<noteq> None then SessionEnded
      else if fs_expires_at r \<le> t then SessionExpired
      else SessionActive)"

definition normalizeOrigin :: "env \<Rightarrow> string \<Rightarrow> api_error + string" where
  "normalizeOrigin E raw =
     (case parse_url E raw of
        None \<Rightarrow> Inl Unprocessable
      | Some u \<Rightarrow>
          if url_protocol u \<noteq> ''https:'' \<and> url_protocol u \<noteq> ''http:'' then Inl Unprocessable
          else Inr (url_origin u))"

definition verifyNonce :: "env \<Rightarrow> string option \<Rightarrow> fill_session_row \<Rightarrow> (db, unit) handler" where
  "verifyNonce E header r =
     (case header of None \<Rightarrow> fail Unauthenticated
      | Some nonce \<Rightarrow>
          if trim nonce = '''' then fail Unauthenticated
          else throw_if (sha256Hex E (trim nonce) \<noteq> fs_nonce_hash r) Unauthenticated)"

definition loadSession :: "uuid \<Rightarrow> uuid \<Rightarrow> uuid \<Rightarrow> (db, fill_session_row) handler" where
  "loadSession ws i device_id =
     andThen (gets (find_session ws i)) (\<lambda>found.
     andThen (require found NotFound) (\<lambda>row.
     andThen (throw_if (fs_device_id row \<noteq> device_id) NotFound) (\<lambda>_. ret row)))"

definition requireExtension :: "paired_device_row \<Rightarrow> (db, unit) handler" where
  "requireExtension d = throw_if (d_kind d \<noteq> Extension) Unprocessable"

definition devicePermitsOrigin :: "paired_device_row \<Rightarrow> string \<Rightarrow> bool" where
  "devicePermitsOrigin d x \<longleftrightarrow> d_allowed_origins d = [] \<or> x \<in> set (d_allowed_origins d)"

definition requireDeviceScope :: "string option \<Rightarrow> principal option \<Rightarrow> (db, uuid \<times> uuid) handler" where
  "requireDeviceScope protocol p =
     andThen (requireSupportedProtocol protocol) (\<lambda>_.
     case p of Some (DevicePrincipal device ws) \<Rightarrow> ret (ws, device) | _ \<Rightarrow> fail Unauthenticated)"

section \<open>Listing\<close>

definition fill_target_of :: "application_context \<Rightarrow> packet_row \<Rightarrow> fill_target" where
  "fill_target_of c p =
     \<lparr> tg_application_id = a_id (cx_application c), tg_content_hash = p_content_hash p,
       tg_job = job_identity (cx_job c), tg_destination = packet_destination_of p,
       tg_approval_expires_at = p_expires_at p \<rparr>"

definition listed_target :: "env \<Rightarrow> paired_device_row \<Rightarrow> application_context \<Rightarrow> fill_target option" where
  "listed_target E d c =
     (case cx_packet c of None \<Rightarrow> None
      | Some p \<Rightarrow>
          if fillRefusal c (now E) \<noteq> None then None
          else if \<not> devicePermitsOrigin d (p_destination_origin p) then None
          else Some (fill_target_of c p))"

definition reported_sessions :: "uuid \<Rightarrow> uuid \<Rightarrow> db \<Rightarrow> fill_session_row list" where
  "reported_sessions ws device_id s =
     take (fill_target_limit * 4) (rev (sort_key (\<lambda>r. case fs_ended_at r of None \<Rightarrow> 0 | Some t \<Rightarrow> t)
       (scoped_filter fs_workspace_id ws (\<lambda>r. fs_device_id r = device_id \<and> fs_ended_reason r = Some EndReported)
         (fill_sessions s))))"

definition waiting_of :: "application_context list \<Rightarrow> fill_session_row \<Rightarrow> awaiting_submission option" where
  "waiting_of cs r =
     (case find (\<lambda>c. a_id (cx_application c) = fs_application_id r) cs of None \<Rightarrow> None
      | Some c \<Rightarrow>
          (case cx_packet c of None \<Rightarrow> None
           | Some p \<Rightarrow>
               if a_current_packet_id (cx_application c) \<noteq> Some (fs_packet_id r) then None
               else Some
                 \<lparr> aw_fill_session_id = fs_id r, aw_application_id = a_id (cx_application c),
                   aw_job = job_identity (cx_job c), aw_destination = packet_destination_of p,
                   aw_filled_at = (case fs_ended_at r of Some t \<Rightarrow> t | None \<Rightarrow> fs_created_at r) \<rparr>))"

fun collect_waiting ::
  "application_context list \<Rightarrow> uuid list \<Rightarrow> awaiting_submission list \<Rightarrow> fill_session_row list \<Rightarrow> awaiting_submission list" where
  "collect_waiting cs seen items [] = items"
| "collect_waiting cs seen items (r # rs) =
     (if fs_application_id r \<in> set seen then collect_waiting cs seen items rs
      else case waiting_of cs r of
        None \<Rightarrow> collect_waiting cs seen items rs
      | Some w \<Rightarrow>
          if length (items @ [w]) = fill_target_limit then items @ [w]
          else collect_waiting cs (fs_application_id r # seen) (items @ [w]) rs)"

definition awaitingSubmission :: "env \<Rightarrow> uuid \<Rightarrow> uuid \<Rightarrow> (db, awaiting_submission list) handler" where
  "awaitingSubmission E ws device_id =
     andThen (gets (reported_sessions ws device_id)) (\<lambda>sessions.
       if sessions = [] then ret []
       else
         andThen (gets (\<lambda>s. scoped_filter a_workspace_id ws
           (\<lambda>a. a_status a = AwaitingUserSubmit \<and> a_id a \<in> fs_application_id ` set sessions) (applications s))) (\<lambda>waiting.
         andThen (loadApplicationContexts E ws waiting) (\<lambda>cs.
         ret (collect_waiting cs [] [] sessions))))"

definition listFillTargets ::
  "env \<Rightarrow> string option \<Rightarrow> principal option \<Rightarrow> (db, fill_target list \<times> awaiting_submission list) handler" where
  "listFillTargets E protocol who =
     andThen (requireDeviceScope protocol who) (\<lambda>(ws, device_id).
     andThen (requireDevice ws device_id) (\<lambda>d.
     andThen (requireExtension d) (\<lambda>_.
     andThen (gets (\<lambda>s. take fill_target_limit (rev (sort_key a_updated_at
        (scoped_filter a_workspace_id ws (\<lambda>a. a_status a = Approved) (applications s)))))) (\<lambda>approved.
     andThen (loadApplicationContexts E ws approved) (\<lambda>cs.
     andThen (reconcileApplications E ws cs) (\<lambda>reconciled.
     andThen (awaitingSubmission E ws device_id) (\<lambda>waiting.
     ret (List.map_filter (listed_target E d) reconciled, waiting))))))))"

section \<open>Opening a session\<close>

definition new_session ::
  "env \<Rightarrow> uuid \<Rightarrow> uuid \<Rightarrow> string \<Rightarrow> paired_device_row \<Rightarrow> application_row \<Rightarrow> packet_row \<Rightarrow> string \<Rightarrow> fill_session_row" where
  "new_session E ws new_id nonce d app p bound =
     \<lparr> fs_id = new_id, fs_workspace_id = ws, fs_device_id = d_id d, fs_application_id = a_id app,
       fs_packet_id = p_id p, fs_content_hash = p_content_hash p, fs_origin = bound,
       fs_nonce_hash = sha256Hex E nonce, fs_created_at = now E,
       fs_expires_at = now E + fill_session_ttl_seconds * 1000, fs_ended_at = None,
       fs_ended_reason = None, fs_last_seen_at = None \<rparr>"

definition live_session :: "uuid \<Rightarrow> uuid \<Rightarrow> fill_session_row \<Rightarrow> bool" where
  "live_session ws app r \<longleftrightarrow> fs_workspace_id r = ws \<and> fs_application_id r = app \<and> fs_ended_at r = None"

text \<open>The insert: the primary key and \<open>fill_sessions_one_live_per_application\<close>.\<close>

definition insert_session :: "fill_session_row \<Rightarrow> (db, fill_session_row) handler" where
  "insert_session r =
     andThen (gets (\<lambda>s. fs_id r \<in> fs_id ` set (fill_sessions s) \<or>
        list_ex (live_session (fs_workspace_id r) (fs_application_id r)) (fill_sessions s))) (\<lambda>taken.
     andThen (throw_if taken Conflict) (\<lambda>_.
     andThen (modify (fill_sessions_update (insert_row r))) (\<lambda>_. ret r)))"

definition supersede_expired :: "env \<Rightarrow> uuid \<Rightarrow> (db, unit) handler" where
  "supersede_expired E ws =
     modify (fill_sessions_update (scoped_update fs_workspace_id ws
       (\<lambda>r. fs_ended_at r = None \<and> fs_expires_at r \<le> now E) (end_session E EndSuperseded)))"

definition open_session ::
  "env \<Rightarrow> uuid \<Rightarrow> fill_session_row \<Rightarrow> application_row \<Rightarrow> packet_row \<Rightarrow> (db, fill_session_row) handler" where
  "open_session E ws r app p =
     transaction (
       andThen (supersede_expired E ws) (\<lambda>_.
       andThen (insert_session r) (\<lambda>inserted.
       andThen (transitionApplication E ws app [Filling]
         (fill_requested_event p
            [(''device_id'', JStr (fs_device_id r)), (''fill_session_id'', JStr (fs_id r))]
            (int (length (p_answers p)))) no_options) (\<lambda>_.
       ret inserted))))"

definition session_grant ::
  "fill_session_row \<Rightarrow> string \<Rightarrow> application_row \<Rightarrow> packet_row \<Rightarrow> packet_answer list \<Rightarrow> job_row
     \<Rightarrow> uuid option \<times> string option \<Rightarrow> fill_session_grant" where
  "session_grant r nonce app p answers job attachment =
     \<lparr> gr_session_id = fs_id r, gr_nonce = nonce, gr_expires_at = fs_expires_at r,
       gr_application_id = a_id app, gr_packet_id = p_id p, gr_content_hash = p_content_hash p,
       gr_origin = fs_origin r, gr_destination = packet_destination_of p, gr_job = job_identity job,
       gr_resume_file_id = fst attachment, gr_resume_sha256 = p_resume_sha256 p,
       gr_resume_filename = snd attachment, gr_fields = fillableFields answers,
       gr_known_form_fingerprint = p_form_fingerprint p, gr_adapter = p_connector p \<rparr>"

definition createFillSession ::
  "env \<Rightarrow> string option \<Rightarrow> principal option \<Rightarrow> uuid \<Rightarrow> string \<Rightarrow> create_fill_session_request
     \<Rightarrow> (db, fill_session_grant) handler" where
  "createFillSession E protocol who new_id nonce b =
     andThen (requireDeviceScope protocol who) (\<lambda>(ws, device_id).
     andThen (requireDevice ws device_id) (\<lambda>d.
     andThen (requireExtension d) (\<lambda>_.
     andThen (requireFillablePacket E ws (cs_application_id b) None) (\<lambda>(app, p, answers).
     andThen (throw_if (cs_content_hash b \<noteq> p_content_hash p) Conflict) (\<lambda>_.
     andThen (reads (\<lambda>_. normalizeOrigin E (cs_origin b))) (\<lambda>bound.
     andThen (throw_if (bound \<noteq> p_destination_origin p) Unprocessable) (\<lambda>_.
     andThen (reads (\<lambda>_. resolveAllowedOrigins (d_allowed_origins d) bound)) (\<lambda>_.
     andThen (requireJob ws (a_job_id app)) (\<lambda>job.
     andThen (packetAttachment ws p) (\<lambda>attachment.
     andThen (open_session E ws (new_session E ws new_id nonce d app p bound) app p) (\<lambda>row.
     andThen (recordAuditEvent ws ''fill_session.created'' None (Some (fs_id row)) (Some ''fill_session'')
       (JObj [(''device_id'', JStr (d_id d)), (''application_id'', JStr (a_id app)),
              (''origin'', JStr bound), (''field_count'', JNum (int (length answers)))])) (\<lambda>_.
     ret (session_grant row nonce app p answers job attachment)))))))))))))"

section \<open>Using and ending a session\<close>

definition getFillSession ::
  "env \<Rightarrow> string option \<Rightarrow> principal option \<Rightarrow> string option \<Rightarrow> uuid \<Rightarrow> (db, fill_session_row \<times> fill_session_state) handler" where
  "getFillSession E protocol who nonce i =
     andThen (requireDeviceScope protocol who) (\<lambda>(ws, device_id).
     andThen (loadSession ws i device_id) (\<lambda>row.
     andThen (verifyNonce E nonce row) (\<lambda>_.
     ret (row, fillSessionState row (now E)))))"

definition see_session :: "env \<Rightarrow> fill_session_row \<Rightarrow> fill_session_row" where
  "see_session E r = r \<lparr> fs_last_seen_at := Some (now E) \<rparr>"

definition downloadFillSessionResume ::
  "env \<Rightarrow> (string \<Rightarrow> bool) \<Rightarrow> string option \<Rightarrow> principal option \<Rightarrow> string option \<Rightarrow> uuid \<Rightarrow> (db, file_row) handler" where
  "downloadFillSessionResume E can_open protocol who nonce i =
     andThen (requireDeviceScope protocol who) (\<lambda>(ws, device_id).
     andThen (loadSession ws i device_id) (\<lambda>row.
     andThen (verifyNonce E nonce row) (\<lambda>_.
     andThen (throw_if (fillSessionState row (now E) \<noteq> SessionActive) Conflict) (\<lambda>_.
     andThen (gets (find_packet ws (fs_packet_id row))) (\<lambda>found.
     andThen (require found NotFound) (\<lambda>p.
     andThen (packetAttachment ws p) (\<lambda>attachment.
     andThen (require (fst attachment) NotFound) (\<lambda>file_id.
     andThen (gets (\<lambda>s. scoped_find f_workspace_id ws (\<lambda>f. f_id f = file_id \<and> f_state f \<noteq> Deleting) (files s))) (\<lambda>stored.
     andThen (require stored NotFound) (\<lambda>file.
     andThen (throw_if (\<not> can_open (f_storage_key file)) NotFound) (\<lambda>_.
     andThen (modify (fill_sessions_update (scoped_update fs_workspace_id ws (\<lambda>r. fs_id r = fs_id row) (see_session E)))) (\<lambda>_.
     ret file))))))))))))"

definition report_session :: "env \<Rightarrow> fill_session_row \<Rightarrow> fill_session_row" where
  "report_session E r = (end_session E EndReported r) \<lparr> fs_last_seen_at := Some (now E) \<rparr>"

definition report_event :: "fill_session_row \<Rightarrow> report_fill_session_request \<Rightarrow> event_input" where
  "report_event r b =
     event EvFillPaused ActorRunner (Some (pause_reason (rf_outcome b)))
       [(''fill_session_id'', JStr (fs_id r)), (''device_id'', JStr (fs_device_id r)),
        (''packet_id'', JStr (fs_packet_id r)), (''origin'', JStr (fs_origin r)),
        (''filled'', JNum (int (length (rf_filled_fields b)))),
        (''unresolved'', JNum (int (length (rf_unresolved_fields b)))),
        (''outcome'', JStr (fill_outcome_text (rf_outcome b))),
        (''adapter'', jopt JStr (rf_adapter b)), (''adapter_version'', jopt JStr (rf_adapter_version b))]"

definition commit_report ::
  "env \<Rightarrow> uuid \<Rightarrow> fill_session_row \<Rightarrow> report_fill_session_request \<Rightarrow> (db, fill_session_row) handler" where
  "commit_report E ws row b =
     transaction (
       andThen (gets (\<lambda>s. scoped_find fs_workspace_id ws (\<lambda>r. fs_id r = fs_id row \<and> fs_ended_at r = None) (fill_sessions s))) (\<lambda>found.
       andThen (modify (fill_sessions_update (scoped_update fs_workspace_id ws
          (\<lambda>r. fs_id r = fs_id row \<and> fs_ended_at r = None) (report_session E)))) (\<lambda>_.
       andThen (require found Conflict) (\<lambda>live.
       andThen (gets (find_application ws (fs_application_id row))) (\<lambda>stored.
       andThen (require stored InternalError) (\<lambda>app.
       andThen (transitionApplication E ws app [pause_status (rf_outcome b)] (report_event row b) no_options) (\<lambda>_.
       ret (report_session E live))))))))"

definition reportFillSession ::
  "env \<Rightarrow> string option \<Rightarrow> principal option \<Rightarrow> string option \<Rightarrow> uuid \<Rightarrow> report_fill_session_request
     \<Rightarrow> (db, fill_session_row) handler" where
  "reportFillSession E protocol who nonce i b =
     andThen (requireDeviceScope protocol who) (\<lambda>(ws, device_id).
     andThen (loadSession ws i device_id) (\<lambda>row.
     andThen (verifyNonce E nonce row) (\<lambda>_.
     andThen (throw_if (fillSessionState row (now E) \<noteq> SessionActive) Conflict) (\<lambda>_.
     andThen (case rf_page_url b of None \<Rightarrow> ret ()
       | Some u \<Rightarrow> andThen (reads (\<lambda>_. normalizeOrigin E u)) (\<lambda>reported. throw_if (reported \<noteq> fs_origin row) Unprocessable)) (\<lambda>_.
     commit_report E ws row b)))))"

definition endFillSession ::
  "env \<Rightarrow> string option \<Rightarrow> principal option \<Rightarrow> string option \<Rightarrow> uuid \<Rightarrow> (db, unit) handler" where
  "endFillSession E protocol who nonce i =
     andThen (requireDeviceScope protocol who) (\<lambda>(ws, device_id).
     andThen (loadSession ws i device_id) (\<lambda>row.
     andThen (verifyNonce E nonce row) (\<lambda>_.
     modify (fill_sessions_update (scoped_update fs_workspace_id ws
       (\<lambda>r. fs_id r = fs_id row \<and> fs_ended_at r = None) (end_session E EndCancelled))))))"

section \<open>The extension's look at the page\<close>

definition look_result :: "env \<Rightarrow> fill_session_row \<Rightarrow> report_observation_request \<Rightarrow> observe_result" where
  "look_result E r b =
     \<lparr> os_application_id = fs_application_id r, os_packet_id = fs_packet_id r, os_outcome = ro_outcome b,
       os_confirmation = map_option (\<lambda>c.
         \<lparr> oc_confirmation_text = Some (xc_confirmation_text c), oc_reference = xc_reference c,
           oc_url = xc_url c, oc_observed_at = now E \<rparr>) (ro_confirmation b),
       os_unknown_reason = ro_unknown_reason b, os_watched_seconds = 0, os_page_url = Some (ro_page_url b),
       os_adapter = ro_adapter b, os_adapter_version = ro_adapter_version b, os_screenshot_file_id = None \<rparr>"

definition commit_look ::
  "env \<Rightarrow> uuid \<Rightarrow> paired_device_row \<Rightarrow> fill_session_row \<Rightarrow> report_observation_request \<Rightarrow> (db, application_status) handler" where
  "commit_look E ws d r b =
     transaction (
       andThen (gets (find_application ws (fs_application_id r))) (\<lambda>stored.
       andThen (require stored NotFound) (\<lambda>app.
       andThen (throw_if (a_status app = OutcomeUnknown) Conflict) (\<lambda>_.
       andThen (throw_if (a_status app \<noteq> AwaitingUserSubmit) Conflict) (\<lambda>_.
       andThen (throw_if (a_current_packet_id app \<noteq> Some (fs_packet_id r)) Conflict) (\<lambda>_.
       andThen (gets (find_packet ws (fs_packet_id r))) (\<lambda>found.
       andThen (require found InternalError) (\<lambda>p.
       andThen (reads (\<lambda>_. resolveAllowedOrigins (d_allowed_origins d) (p_destination_origin p))) (\<lambda>allowed.
       andThen (reads (\<lambda>_. normalizeOrigin E (ro_page_url b))) (\<lambda>page.
       andThen (throw_if (page \<notin> set allowed) Unprocessable) (\<lambda>_.
       andThen (applyObservation E ws app (look_result E r b)
         [(''via'', JStr ''extension''), (''fill_session_id'', JStr (fs_id r)), (''device_id'', JStr (fs_device_id r))]) (\<lambda>_.
       andThen (recordAuditEvent ws ''application.observed'' None (Some (a_id app)) (Some ''application'')
         (JObj [(''via'', JStr ''extension''), (''device_id'', JStr (fs_device_id r)),
                (''outcome'', JStr (observation_text (ro_outcome b))),
                (''unknown_reason'', jopt (\<lambda>x. JStr (unknown_reason_text x)) (ro_unknown_reason b))])) (\<lambda>_.
       andThen (gets (find_application ws (a_id app))) (\<lambda>after.
       andThen (require after InternalError) (\<lambda>row. ret (a_status row))))))))))))))))"

definition reportFillSessionObservation ::
  "env \<Rightarrow> string option \<Rightarrow> principal option \<Rightarrow> uuid \<Rightarrow> report_observation_request \<Rightarrow> (db, uuid \<times> application_status) handler" where
  "reportFillSessionObservation E protocol who i b =
     andThen (requireDeviceScope protocol who) (\<lambda>(ws, device_id).
     andThen (requireDevice ws device_id) (\<lambda>d.
     andThen (requireExtension d) (\<lambda>_.
     andThen (loadSession ws i device_id) (\<lambda>r.
     andThen (throw_if (fs_ended_reason r \<noteq> Some EndReported) Conflict) (\<lambda>_.
     andThen (throw_if (\<not> observationResultIsCoherent (look_result E r b)) Unprocessable) (\<lambda>_.
     andThen (commit_look E ws d r b) (\<lambda>status.
     ret (fs_application_id r, status))))))))"

section \<open>Frames\<close>

lemma wp_requireDeviceScope [simp]:
  "wp (requireDeviceScope protocol who) Q F =
     (\<lambda>s. if extensionProtocolVerdict protocol extension_protocol_version \<noteq> None then F ProtocolUnsupported s
          else case who of Some (DevicePrincipal device ws) \<Rightarrow> Q (ws, device) s | _ \<Rightarrow> F Unauthenticated s)"
  by (rule ext) (auto simp: requireDeviceScope_def requireSupportedProtocol_def split: option.split principal.split)

text \<open>A device route acts in the workspace of its principal, and without one it does
  nothing.\<close>

definition device_workspace :: "principal option \<Rightarrow> uuid \<Rightarrow> bool" where
  "device_workspace who ws \<longleftrightarrow> (\<forall>device w. who = Some (DevicePrincipal device w) \<longrightarrow> w = ws)"

lemma scoped_device_route:
  assumes "device_workspace who ws" and "\<And>device. scoped ws (k (ws, device))"
  shows "scoped ws (andThen (requireDeviceScope protocol who) k)"
  unfolding obeys_def
proof
  fix s
  have "wp (k (ws, device)) (\<lambda>_. scoped_step ws s) (\<lambda>_. scoped_step ws s) s" for device
    using assms(2) by (simp add: wp_state obeys_def)
  moreover have "scoped_step ws s s" by (rule scope.step_refl)
  ultimately have "wp (andThen (requireDeviceScope protocol who) k) (\<lambda>_. scoped_step ws s) (\<lambda>_. scoped_step ws s) s"
    using assms(1) by (auto simp: device_workspace_def split: option.split principal.split)
  then show "scoped_step ws s (snd (andThen (requireDeviceScope protocol who) k s))"
    by (simp only: wp_state)
qed

lemma scoped_loadSession [handler_steps]: "scoped ws (loadSession ws i device)"
  unfolding loadSession_def by (intro scope.obeys_rules)

lemma scoped_verifyNonce [handler_steps]: "scoped ws (verifyNonce E header r)"
  unfolding verifyNonce_def by (intro scope.obeys_rules)

lemma scoped_requireExtension [handler_steps]: "scoped ws (requireExtension d)"
  unfolding requireExtension_def by (intro scope.obeys_rules)

lemma scoped_session_update:
  "(\<And>r. fs_workspace_id (f r) = fs_workspace_id r) \<Longrightarrow>
     scoped ws (modify (fill_sessions_update (scoped_update fs_workspace_id ws P f)))"
  by (rule scoped_modify) (simp_all add: outside_def)

lemma session_row_simps [simp]:
  "fs_workspace_id (end_session E reason r) = fs_workspace_id r"
  "fs_application_id (end_session E reason r) = fs_application_id r"
  "fs_id (end_session E reason r) = fs_id r"
  "fs_workspace_id (report_session E r) = fs_workspace_id r"
  "fs_application_id (report_session E r) = fs_application_id r"
  "fs_id (report_session E r) = fs_id r"
  "fs_workspace_id (see_session E r) = fs_workspace_id r"
  "fs_application_id (see_session E r) = fs_application_id r"
  "fs_id (see_session E r) = fs_id r"
  by (simp_all add: end_session_def report_session_def see_session_def)

lemma scoped_open_session [handler_steps]:
  "fs_workspace_id r = ws \<Longrightarrow> scoped ws (open_session E ws r app p)"
  unfolding open_session_def supersede_expired_def insert_session_def
  by (intro scope.obeys_rules scoped_transition scoped_session_update scoped_modify) (simp_all add: outside_def)

lemma scoped_createFillSession [handler_steps]:
  "device_workspace who ws \<Longrightarrow> scoped ws (createFillSession E protocol who new_id nonce b)"
  unfolding createFillSession_def
  by (erule scoped_device_route, simp only: prod.case)
     (intro scope.obeys_rules scoped_requireDevice scoped_requireExtension scoped_requireFillablePacket
       scoped_requireJob scoped_packetAttachment scoped_open_session scoped_recordAuditEvent,
      auto simp: new_session_def split: prod.split
        intro!: scope.obeys_rules scoped_requireJob scoped_packetAttachment scoped_open_session scoped_recordAuditEvent)

lemma scoped_listFillTargets [handler_steps]:
  "device_workspace who ws \<Longrightarrow> scoped ws (listFillTargets E protocol who)"
  unfolding listFillTargets_def awaitingSubmission_def
  by (erule scoped_device_route, simp only: prod.case)
     (intro scope.obeys_rules scoped_requireDevice scoped_requireExtension scoped_load_contexts scoped_reconcile)

lemma scoped_getFillSession [handler_steps]:
  "device_workspace who ws \<Longrightarrow> scoped ws (getFillSession E protocol who nonce i)"
  unfolding getFillSession_def
  by (erule scoped_device_route, simp only: prod.case)
     (intro scope.obeys_rules scoped_loadSession scoped_verifyNonce)

lemma scoped_downloadFillSessionResume [handler_steps]:
  "device_workspace who ws \<Longrightarrow> scoped ws (downloadFillSessionResume E can_open protocol who nonce i)"
  unfolding downloadFillSessionResume_def
  by (erule scoped_device_route, simp only: prod.case)
     (intro scope.obeys_rules scoped_loadSession scoped_verifyNonce scoped_packetAttachment scoped_session_update, simp)

lemma scoped_reportFillSession [handler_steps]:
  "device_workspace who ws \<Longrightarrow> scoped ws (reportFillSession E protocol who nonce i b)"
  unfolding reportFillSession_def commit_report_def
  by (erule scoped_device_route, simp only: prod.case)
     (intro scope.obeys_rules scoped_loadSession scoped_verifyNonce scoped_transition scoped_session_update, simp)

lemma scoped_endFillSession [handler_steps]:
  "device_workspace who ws \<Longrightarrow> scoped ws (endFillSession E protocol who nonce i)"
  unfolding endFillSession_def
  by (erule scoped_device_route, simp only: prod.case)
     (intro scope.obeys_rules scoped_loadSession scoped_verifyNonce scoped_session_update, simp)

lemma scoped_reportFillSessionObservation [handler_steps]:
  "device_workspace who ws \<Longrightarrow> scoped ws (reportFillSessionObservation E protocol who i b)"
  unfolding reportFillSessionObservation_def commit_look_def
  by (erule scoped_device_route, simp only: prod.case)
     (intro scope.obeys_rules scoped_requireDevice scoped_requireExtension scoped_loadSession
       scoped_applyObservation scoped_recordAuditEvent)

section \<open>One live session per application\<close>

text \<open>The constraints of \<open>fill_sessions\<close> (migration 0011): unique ids, an end that says
  why, a deadline after the creation, and at most one live session per application.\<close>

definition session_check :: "fill_session_row \<Rightarrow> bool" where
  "session_check r \<longleftrightarrow> (fs_ended_at r = None \<longleftrightarrow> fs_ended_reason r = None) \<and> fs_created_at r < fs_expires_at r"

definition sessions_ok :: "db \<Rightarrow> bool" where
  "sessions_ok s \<longleftrightarrow>
     distinct (map fs_id (fill_sessions s)) \<and> list_all session_check (fill_sessions s) \<and>
     (\<forall>ws app. length (filter (live_session ws app) (fill_sessions s)) \<le> 1)"

lemma sessions_ok_rest: "rest s' = rest s \<Longrightarrow> sessions_ok s' = sessions_ok s"
  by (drule rest_fields) (simp add: sessions_ok_def)

lemma live_scoped_update:
  assumes "\<And>r. live_session w a (f r) \<Longrightarrow> live_session w a r"
  shows "length (filter (live_session w a) (scoped_update owner ws P f rows)) \<le> length (filter (live_session w a) rows)"
  using assms by (induction rows) (auto simp: scoped_update_def intro: le_SucI)

lemma sessions_ok_update:
  assumes ok: "sessions_ok s" and "\<And>r. fs_id (f r) = fs_id r"
    and "\<And>r. session_check r \<Longrightarrow> session_check (f r)"
    and "\<And>w a r. live_session w a (f r) \<Longrightarrow> live_session w a r"
  shows "sessions_ok (fill_sessions_update (scoped_update fs_workspace_id ws P f) s)"
proof -
  have "map fs_id (scoped_update fs_workspace_id ws P f rows) = map fs_id rows" for rows
    using assms(2) by (intro map_scoped_update) simp
  moreover have "list_all session_check (scoped_update fs_workspace_id ws P f (fill_sessions s))"
    using ok assms(3) by (auto simp: sessions_ok_def list_all_iff scoped_update_def)
  moreover have "length (filter (live_session w a) (scoped_update fs_workspace_id ws P f (fill_sessions s))) \<le> 1" for w a
  proof (rule le_trans)
    show "length (filter (live_session w a) (scoped_update fs_workspace_id ws P f (fill_sessions s)))
        \<le> length (filter (live_session w a) (fill_sessions s))"
      by (rule live_scoped_update) (rule assms(4))
    show "length (filter (live_session w a) (fill_sessions s)) \<le> 1"
      using ok by (simp add: sessions_ok_def)
  qed
  ultimately show ?thesis
    using ok by (simp add: sessions_ok_def)
qed

lemma session_updates_ok [intro]:
  "sessions_ok s \<Longrightarrow> sessions_ok (fill_sessions_update (scoped_update fs_workspace_id ws P (end_session E reason)) s)"
  "sessions_ok s \<Longrightarrow> sessions_ok (fill_sessions_update (scoped_update fs_workspace_id ws P (report_session E)) s)"
  "sessions_ok s \<Longrightarrow> sessions_ok (fill_sessions_update (scoped_update fs_workspace_id ws P (see_session E)) s)"
  by (erule sessions_ok_update,
      simp_all add: end_session_def report_session_def see_session_def session_check_def live_session_def)+

lemma sessions_ok_insert:
  assumes "sessions_ok s" and "fs_id r \<notin> fs_id ` set (fill_sessions s)" and "session_check r"
    and "\<not> list_ex (live_session (fs_workspace_id r) (fs_application_id r)) (fill_sessions s)"
  shows "sessions_ok (fill_sessions_update (insert_row r) s)"
proof -
  have "length (filter (live_session w a) (insert_row r (fill_sessions s))) \<le> 1" for w a
  proof (cases "live_session w a r")
    case True
    then have "filter (live_session w a) (fill_sessions s) = []"
      using assms(4) by (auto simp: live_session_def list_ex_iff filter_empty_conv)
    then show ?thesis by (simp add: insert_row_def)
  next
    case False
    then show ?thesis using assms(1) by (simp add: insert_row_def sessions_ok_def)
  qed
  then show ?thesis using assms by (simp add: sessions_ok_def insert_row_def)
qed

abbreviation keeps_sessions :: "(db, 'a) handler \<Rightarrow> bool" where
  "keeps_sessions m \<equiv> obeys (keeps sessions_ok) m"

lemma keeps_sessions_rest: "keeps_rest m \<Longrightarrow> keeps_sessions m"
  by (erule keeps_from_rest) (rule sessions_ok_rest)

lemma keeps_sessions_update:
  "keeps_sessions (modify (fill_sessions_update (scoped_update fs_workspace_id ws P (end_session E reason))))"
  "keeps_sessions (modify (fill_sessions_update (scoped_update fs_workspace_id ws P (report_session E))))"
  "keeps_sessions (modify (fill_sessions_update (scoped_update fs_workspace_id ws P (see_session E))))"
  by (rule inv.obeys_modify, auto simp: keeps_def)+

lemma keeps_sessions_insert:
  assumes "session_check r"
  shows "keeps_sessions (insert_session r)"
proof -
  have "wp (insert_session r) (\<lambda>_. sessions_ok) (\<lambda>_. sessions_ok) s" if "sessions_ok s" for s
    using that assms sessions_ok_insert [OF that] by (simp add: insert_session_def)
  then show ?thesis by (simp add: obeys_def keeps_def wp_state)
qed

lemma keeps_sessions_case [intro]: "(\<And>a b. keeps_sessions (k a b)) \<Longrightarrow> keeps_sessions (case x of (a, b) \<Rightarrow> k a b)"
  by (cases x) simp

lemma keeps_rest_scope [rest_steps]: "keeps_rest (requireDeviceScope protocol who)"
  unfolding requireDeviceScope_def requireSupportedProtocol_def
  by (auto intro!: frame.obeys_rules split: option.split principal.split)

lemma keeps_rest_loadSession [rest_steps]: "keeps_rest (loadSession ws i device)"
  unfolding loadSession_def by (intro frame.obeys_rules)

lemma keeps_rest_verifyNonce [rest_steps]: "keeps_rest (verifyNonce E header r)"
  unfolding verifyNonce_def by (intro frame.obeys_rules)

lemma keeps_rest_requireExtension [rest_steps]: "keeps_rest (requireExtension d)"
  unfolding requireExtension_def by (intro frame.obeys_rules)

lemma keeps_rest_commit_look [rest_steps]: "keeps_rest (commit_look E ws d r b)"
  unfolding commit_look_def by (intro frame.obeys_rules rest_steps)

lemmas session_steps = inv.obeys_rules keeps_sessions_case rest_steps [THEN keeps_sessions_rest]

lemma keeps_sessions_create: "keeps_sessions (createFillSession E protocol who new_id nonce b)"
  unfolding createFillSession_def open_session_def supersede_expired_def
  by (intro session_steps keeps_sessions_insert keeps_sessions_update)
     (simp add: session_check_def new_session_def fill_session_ttl_seconds_def)

lemma keeps_sessions_list: "keeps_sessions (listFillTargets E protocol who)"
  unfolding listFillTargets_def awaitingSubmission_def by (intro session_steps)

lemma keeps_sessions_get: "keeps_sessions (getFillSession E protocol who nonce i)"
  unfolding getFillSession_def by (intro session_steps)

lemma keeps_sessions_download: "keeps_sessions (downloadFillSessionResume E can_open protocol who nonce i)"
  unfolding downloadFillSessionResume_def by (intro session_steps keeps_sessions_update)

lemma keeps_sessions_report: "keeps_sessions (reportFillSession E protocol who nonce i b)"
  unfolding reportFillSession_def commit_report_def by (intro session_steps keeps_sessions_update)

lemma keeps_sessions_end: "keeps_sessions (endFillSession E protocol who nonce i)"
  unfolding endFillSession_def by (intro session_steps keeps_sessions_update)

lemma keeps_sessions_look: "keeps_sessions (reportFillSessionObservation E protocol who i b)"
  unfolding reportFillSessionObservation_def by (intro session_steps)

lemma keeps_sessions_revoke: "keeps_sessions (revokeDevice E ws user i)"
proof -
  have "keeps_sessions (modify (paired_devices_update f))" for f
    by (rule inv.obeys_modify) (simp add: keeps_def sessions_ok_def)
  then show ?thesis
    unfolding revokeDevice_def by (intro session_steps keeps_sessions_update)
qed

section \<open>What the routes do\<close>

lemma find_session_insert:
  assumes "fs_id r \<notin> fs_id ` set (fill_sessions s)"
  shows "find_session (fs_workspace_id r) (fs_id r) (fill_sessions_update (insert_row r) s) = Some r"
proof -
  have "find_session (fs_workspace_id r) (fs_id r) s = None"
    unfolding find_session_def scoped_find_None using assms by (metis image_eqI)
  then show ?thesis by (simp add: find_session_def scoped_find_insert_new)
qed

lemma find_session_frames [simp]:
  "find_session ws i (audit_events_update f s) = find_session ws i s"
  "find_session ws i (after_transition E ws' app path ev opts s) = find_session ws i s"
  by (simp_all add: find_session_def)

definition superseded_db :: "env \<Rightarrow> uuid \<Rightarrow> db \<Rightarrow> db" where
  "superseded_db E ws s = fill_sessions_update (scoped_update fs_workspace_id ws
     (\<lambda>r. fs_ended_at r = None \<and> fs_expires_at r \<le> now E) (end_session E EndSuperseded)) s"

lemma superseded_live:
  "r \<in> set (fill_sessions s) \<Longrightarrow> live_session ws a r \<Longrightarrow> now E < fs_expires_at r \<Longrightarrow>
     r \<in> set (fill_sessions (superseded_db E ws s)) \<and> live_session ws a r"
  by (force simp: superseded_db_def scoped_update_def)

text \<open>A session is opened for the packet that may be filled, on its own origin, and only
  when no other session of the application is still running.\<close>

definition session_opened ::
  "env \<Rightarrow> uuid \<Rightarrow> fill_session_row \<Rightarrow> application_row \<Rightarrow> db \<Rightarrow> db \<Rightarrow> bool" where
  "session_opened E ws r app s s' \<longleftrightarrow>
     find_session ws (fs_id r) s' = Some r \<and>
     (\<forall>q \<in> set (fill_sessions s). live_session ws (a_id app) q \<longrightarrow> fs_expires_at q \<le> now E) \<and>
     application_packets s' = application_packets s \<and>
     find_application ws (a_id app) s' = Some (patch_application E Filling (a_revision app + 1) no_options app)"

lemma wp_open_session:
  assumes ok: "db_ok sha s" and may: "may_fill E ws s app p job"
    and r: "fs_workspace_id r = ws" "fs_application_id r = a_id app"
    and Q: "\<And>t. db_ok sha t \<Longrightarrow> session_opened E ws r app s t \<Longrightarrow> Q r t"
    and F: "\<And>e. F e s"
  shows "wp (open_session E ws r app p) Q F s"
proof -
  let ?u = "superseded_db E ws s"
  let ?t = "fill_sessions_update (insert_row r) ?u"
  from may have app: "find_application ws (a_id app) s = Some app" and st: "a_status app = Approved"
    by (simp_all add: may_fill_def)
  have appt: "find_application ws (a_id app) ?t = Some app"
    using app by (simp add: superseded_db_def)
  have "application_check (patch_application E (final_status app [Filling]) (a_revision app + 1) no_options app)"
    using db_ok_application [OF ok app] st
    by (intro check_patch_quiet) (simp_all add: submitted_application_statuses_def)
  then have okt: "db_ok sha (after_transition E ws app [Filling] ev no_options ?t)" for ev
    using ok by (intro db_ok_transition [OF _ appt]) (simp_all add: superseded_db_def)
  have "session_opened E ws r app s (after_transition E ws app [Filling] ev no_options ?t)"
    if fresh: "fs_id r \<notin> fs_id ` set (fill_sessions ?u)"
      and free: "\<not> list_ex (live_session ws (a_id app)) (fill_sessions ?u)" for ev
  proof -
    have "fs_expires_at q \<le> now E" if "q \<in> set (fill_sessions s)" "live_session ws (a_id app) q" for q
      using superseded_live [OF that, of E] free by (force simp: list_ex_iff)
    then show ?thesis
      using find_session_insert [OF fresh] r find_after_transition [OF appt, of E "[Filling]"]
      by (simp add: session_opened_def) (simp add: superseded_db_def)
  qed
  then show ?thesis
    using F Q okt st r
    by (simp add: open_session_def supersede_expired_def superseded_db_def [symmetric] insert_session_def
        wp_transition [OF appt] isAllowedApplicationTransition_def)
qed

lemma normalizeOrigin_ok:
  "normalizeOrigin E raw = Inr x \<longleftrightarrow>
     (\<exists>u. parse_url E raw = Some u \<and> url_protocol u \<in> {''https:'', ''http:''} \<and> x = url_origin u)"
  by (auto simp: normalizeOrigin_def split: option.splits if_splits)

definition session_granted ::
  "env \<Rightarrow> uuid \<Rightarrow> uuid \<Rightarrow> uuid \<Rightarrow> string \<Rightarrow> create_fill_session_request \<Rightarrow> db \<Rightarrow> fill_session_grant \<Rightarrow> db \<Rightarrow> bool" where
  "session_granted E ws device new_id nonce b s g s' \<longleftrightarrow>
     (\<exists>app p d job attachment.
        find_application ws (cs_application_id b) s = Some app \<and> may_fill E ws s app p job \<and>
        p_content_hash p = cs_content_hash b \<and> find_device ws device s = Some d \<and> d_kind d = Extension \<and>
        normalizeOrigin E (cs_origin b) = Inr (p_destination_origin p) \<and>
        devicePermitsOrigin d (p_destination_origin p) \<and>
        (let r = new_session E ws new_id nonce d app p (p_destination_origin p) in
           session_opened E ws r app s s' \<and> g = session_grant r nonce app p (p_answers p) job attachment))"

lemma wp_packetAttachment:
  assumes "\<And>x. Q x s" and "F Conflict s"
  shows "wp (packetAttachment ws p) Q F s"
  using assms by (auto simp: packetAttachment_def split: option.split)

lemma session_opened_audit [simp]:
  "session_opened E ws r app s (audit_events_update f t) = session_opened E ws r app s t"
  by (simp add: session_opened_def)

lemma new_session_simps [simp]:
  "fs_id (new_session E ws n nonce d app p x) = n"
  "fs_workspace_id (new_session E ws n nonce d app p x) = ws"
  "fs_application_id (new_session E ws n nonce d app p x) = a_id app"
  by (simp_all add: new_session_def)

lemma create_session_wp:
  assumes ok: "db_ok sha s"
  shows "wp (createFillSession E protocol (Some (DevicePrincipal device ws)) new_id nonce b)
    (\<lambda>g s'. db_ok sha s' \<and> session_granted E ws device new_id nonce b s g s') (\<lambda>_. db_ok sha) s"
proof -
  have grant: "session_granted E ws device new_id nonce b s
      (session_grant (new_session E ws new_id nonce d app p (p_destination_origin p)) nonce app p (p_answers p) job x) t"
    if "find_application ws (cs_application_id b) s = Some app" "may_fill E ws s app p job"
      "cs_content_hash b = p_content_hash p" "find_device ws device s = Some d" "d_kind d = Extension"
      "normalizeOrigin E (cs_origin b) = Inr (p_destination_origin p)"
      "d_allowed_origins d = [] \<or> p_destination_origin p \<in> set (d_allowed_origins d)"
      "session_opened E ws (new_session E ws new_id nonce d app p (p_destination_origin p)) app s t"
    for app p job d x t
    using that unfolding session_granted_def devicePermitsOrigin_def Let_def
    by (intro exI [of _ app] exI [of _ p] exI [of _ d] exI [of _ job] exI [of _ x]) simp
  show ?thesis
    unfolding createFillSession_def requireExtension_def
    apply (simp add: ok split: option.split)
    apply (intro allI impI requireFillablePacket_wp [OF ok])
    subgoal for d app p job
      using grant ok
      by (auto simp: may_fill_def resolveAllowedOrigins_ok split: sum.split option.split
          intro!: wp_packetAttachment wp_open_session)
    by simp
qed

lemma wp_loadSession:
  assumes "\<And>r. find_session ws i s = Some r \<Longrightarrow> fs_device_id r = device \<Longrightarrow> Q r s" and "\<And>e. F e s"
  shows "wp (loadSession ws i device) Q F s"
  using assms by (auto simp: loadSession_def split: option.split)

lemma wp_verifyNonce:
  assumes "\<And>n. header = Some n \<Longrightarrow> sha256Hex E (trim n) = fs_nonce_hash r \<Longrightarrow> Q () s" and "\<And>e. F e s"
  shows "wp (verifyNonce E header r) Q F s"
  using assms by (auto simp: verifyNonce_def split: option.split)

text \<open>A report is taken once, from the device that holds the session and its nonce, for
  the page the session is bound to; it ends the session.\<close>

definition session_reported ::
  "env \<Rightarrow> uuid \<Rightarrow> uuid \<Rightarrow> string option \<Rightarrow> uuid \<Rightarrow> report_fill_session_request \<Rightarrow> db \<Rightarrow> fill_session_row \<Rightarrow> db \<Rightarrow> bool" where
  "session_reported E ws device nonce i b s r' s' \<longleftrightarrow>
     (\<exists>r n app. find_session ws i s = Some r \<and> fs_device_id r = device \<and>
        fillSessionState r (now E) = SessionActive \<and>
        nonce = Some n \<and> sha256Hex E (trim n) = fs_nonce_hash r \<and>
        (\<forall>u. rf_page_url b = Some u \<longrightarrow> normalizeOrigin E u = Inr (fs_origin r)) \<and>
        find_application ws (fs_application_id r) s = Some app \<and>
        isAllowedApplicationTransition (a_status app) (pause_status (rf_outcome b)) \<and>
        r' = report_session E r \<and> find_session ws i s' = Some r' \<and>
        application_packets s' = application_packets s \<and>
        find_application ws (a_id app) s' =
          Some (patch_application E (pause_status (rf_outcome b)) (a_revision app + 1) no_options app))"

lemma wp_commit_report:
  assumes ok: "db_ok sha s" and r: "find_session ws i s = Some r" "fs_ended_at r = None"
    and Q: "\<And>app t. find_application ws (fs_application_id r) s = Some app \<Longrightarrow>
      isAllowedApplicationTransition (a_status app) (pause_status (rf_outcome b)) \<Longrightarrow> db_ok sha t \<Longrightarrow>
      find_session ws i t = Some (report_session E r) \<Longrightarrow> application_packets t = application_packets s \<Longrightarrow>
      find_application ws (a_id app) t =
        Some (patch_application E (pause_status (rf_outcome b)) (a_revision app + 1) no_options app) \<Longrightarrow>
      Q (report_session E r) t"
    and F: "\<And>e. F e s"
  shows "wp (commit_report E ws r b) Q F s"
proof -
  let ?P = "\<lambda>q. fs_id q = fs_id r \<and> fs_ended_at q = None"
  let ?t = "fill_sessions_update (scoped_update fs_workspace_id ws ?P (report_session E)) s"
  have id: "fs_id r = i" using find_sessionD [OF r(1)] by simp
  have live: "scoped_find fs_workspace_id ws ?P (fill_sessions s) = Some r"
    by (rule scoped_find_strengthen [where P = "\<lambda>q. fs_id q = i"])
       (use r id in \<open>simp_all add: find_session_def\<close>)
  have sess: "find_session ws i ?t = Some (report_session E r)"
    using scoped_find_update [OF r(1) [unfolded find_session_def], of "report_session E" ?P] r(2) id
    by (simp add: find_session_def)
  show ?thesis
  proof (cases "find_application ws (fs_application_id r) s")
    case None
    then show ?thesis using live F by (simp add: commit_report_def)
  next
    case (Some app)
    then have app: "find_application ws (a_id app) s = Some app" using find_applicationD [OF Some] by simp
    then have appt: "find_application ws (a_id app) ?t = Some app" by simp
    have "application_check (patch_application E (final_status app [pause_status (rf_outcome b)]) (a_revision app + 1) no_options app)"
      if "isAllowedApplicationTransition (a_status app) (pause_status (rf_outcome b))"
      using db_ok_application [OF ok app] pause_entry [OF that] pause_not_submitted
      by (intro check_patch_quiet) simp_all
    then have "db_ok sha (after_transition E ws app [pause_status (rf_outcome b)] ev no_options ?t)"
      if "isAllowedApplicationTransition (a_status app) (pause_status (rf_outcome b))" for ev
      using that ok by (intro db_ok_transition [OF _ appt]) simp_all
    then show ?thesis
      using live F Some Q [OF Some] sess find_after_transition [OF appt, of E "[pause_status (rf_outcome b)]"]
      by (simp add: commit_report_def wp_transition [OF appt])
  qed
qed

lemma report_session_wp:
  assumes ok: "db_ok sha s"
  shows "wp (reportFillSession E protocol (Some (DevicePrincipal device ws)) nonce i b)
    (\<lambda>r s'. db_ok sha s' \<and> session_reported E ws device nonce i b s r s') (\<lambda>_. db_ok sha) s"
proof -
  have fin: "db_ok sha t \<and> session_reported E ws device nonce i b s (report_session E r) t"
    if "find_session ws i s = Some r" "fs_device_id r = device" "fillSessionState r (now E) = SessionActive"
      "nonce = Some n" "sha256Hex E (trim n) = fs_nonce_hash r"
      "\<forall>u. rf_page_url b = Some u \<longrightarrow> normalizeOrigin E u = Inr (fs_origin r)"
      "find_application ws (fs_application_id r) s = Some app"
      "isAllowedApplicationTransition (a_status app) (pause_status (rf_outcome b))" "db_ok sha t"
      "find_session ws i t = Some (report_session E r)" "application_packets t = application_packets s"
      "find_application ws (a_id app) t =
        Some (patch_application E (pause_status (rf_outcome b)) (a_revision app + 1) no_options app)" for r n app t
    using that unfolding session_reported_def by blast
  have active: "fillSessionState r (now E) = SessionActive \<Longrightarrow> fs_ended_at r = None" for r
    by (auto simp: fillSessionState_def split: if_splits)
  show ?thesis
    unfolding reportFillSession_def
    using ok fin active
    by (auto simp: wp_if split: option.split sum.split intro!: wp_loadSession wp_verifyNonce wp_commit_report)
qed

text \<open>The extension's look counts only for a fill this device reported, while the
  application waits for its person, and only on the packet's own origin.\<close>

definition look_taken ::
  "env \<Rightarrow> uuid \<Rightarrow> uuid \<Rightarrow> uuid \<Rightarrow> report_observation_request \<Rightarrow> db \<Rightarrow> db \<Rightarrow> bool" where
  "look_taken E ws device i b s s' \<longleftrightarrow>
     (\<exists>d r app p. find_device ws device s = Some d \<and> d_kind d = Extension \<and> find_session ws i s = Some r \<and>
        fs_device_id r = device \<and> fs_ended_reason r = Some EndReported \<and>
        observationResultIsCoherent (look_result E r b) \<and>
        find_application ws (fs_application_id r) s = Some app \<and> a_status app = AwaitingUserSubmit \<and>
        a_current_packet_id app = Some (fs_packet_id r) \<and> find_packet ws (fs_packet_id r) s = Some p \<and>
        devicePermitsOrigin d (p_destination_origin p) \<and>
        normalizeOrigin E (ro_page_url b) = Inr (p_destination_origin p) \<and>
        observation_post E ws app (look_result E r b) s s')"

lemma observation_post_audit [simp]:
  "observation_post E ws app r s (audit_events_update f t) = observation_post E ws app r s t"
  by (simp add: observation_post_def)

lemma wp_commit_look:
  assumes ok: "db_ok sha s"
    and Q: "\<And>app p status t. find_application ws (fs_application_id r) s = Some app \<Longrightarrow>
      a_status app = AwaitingUserSubmit \<Longrightarrow> a_current_packet_id app = Some (fs_packet_id r) \<Longrightarrow>
      find_packet ws (fs_packet_id r) s = Some p \<Longrightarrow> devicePermitsOrigin d (p_destination_origin p) \<Longrightarrow>
      normalizeOrigin E (ro_page_url b) = Inr (p_destination_origin p) \<Longrightarrow> db_ok sha t \<Longrightarrow>
      observation_post E ws app (look_result E r b) s t \<Longrightarrow> Q status t"
    and F: "\<And>e. F e s"
  shows "wp (commit_look E ws d r b) Q F s"
proof (cases "find_application ws (fs_application_id r) s")
  case None
  then show ?thesis using F by (simp add: commit_look_def)
next
  case (Some app)
  then have app: "find_application ws (a_id app) s = Some app" using find_applicationD [OF Some] by simp
  have look: "wp (applyObservation E ws app (look_result E r b) data)
      (\<lambda>_ t. \<forall>f st. Q st (audit_events_update f t)) (\<lambda>_ _. False) s"
    if "a_status app = AwaitingUserSubmit" "a_current_packet_id app = Some (fs_packet_id r)"
      "find_packet ws (fs_packet_id r) s = Some p" "devicePermitsOrigin d (p_destination_origin p)"
      "normalizeOrigin E (ro_page_url b) = Inr (p_destination_origin p)" for p data
    by (rule wp_mono [OF observation_wp [OF ok app]]) (use Q [OF Some that] in simp_all)
  show ?thesis
    unfolding commit_look_def
    using F
    by (auto simp: Some resolveAllowedOrigins_ok devicePermitsOrigin_def split: option.split sum.split
        intro!: wp_mono [OF look])
qed

lemma look_wp:
  assumes ok: "db_ok sha s"
  shows "wp (reportFillSessionObservation E protocol (Some (DevicePrincipal device ws)) i b)
    (\<lambda>_ s'. db_ok sha s' \<and> look_taken E ws device i b s s') (\<lambda>_. db_ok sha) s"
proof -
  have fin: "db_ok sha t \<and> look_taken E ws device i b s t"
    if "find_device ws device s = Some d" "d_kind d = Extension" "find_session ws i s = Some r"
      "fs_device_id r = device" "fs_ended_reason r = Some EndReported"
      "observationResultIsCoherent (look_result E r b)"
      "find_application ws (fs_application_id r) s = Some app" "a_status app = AwaitingUserSubmit"
      "a_current_packet_id app = Some (fs_packet_id r)" "find_packet ws (fs_packet_id r) s = Some p"
      "devicePermitsOrigin d (p_destination_origin p)"
      "normalizeOrigin E (ro_page_url b) = Inr (p_destination_origin p)" "db_ok sha t"
      "observation_post E ws app (look_result E r b) s t" for d r app p t
    using that unfolding look_taken_def by blast
  show ?thesis
    unfolding reportFillSessionObservation_def requireExtension_def
    using ok fin
    by (auto split: option.split intro!: wp_loadSession wp_commit_look)
qed

section \<open>The constraints of the application tables\<close>

lemma page_rows:
  assumes "db_ok sha s" and "distinct apps" and "set apps \<subseteq> set (scoped_filter a_workspace_id ws P (applications s))"
  shows "distinct (map a_id (take n apps))"
    and "\<And>a. a \<in> set (take n apps) \<Longrightarrow> a \<in> set (applications s) \<and> a_workspace_id a = ws"
proof -
  have inj: "inj_on a_id (set (applications s))"
    using assms(1) by (simp add: db_ok_def tables_ok_def distinct_map)
  have sub: "set (take n apps) \<subseteq> set (scoped_filter a_workspace_id ws P (applications s))"
    using assms(3) set_take_subset by fast
  have "inj_on a_id (set (take n apps))"
    by (rule inj_on_subset [OF inj]) (use sub in \<open>auto simp: scoped_filter_def\<close>)
  then show "distinct (map a_id (take n apps))"
    using assms(2) by (simp add: distinct_map)
  show "\<And>a. a \<in> set (take n apps) \<Longrightarrow> a \<in> set (applications s) \<and> a_workspace_id a = ws"
    using sub by (auto simp: scoped_filter_def)
qed

lemma distinct_rows: "db_ok sha s \<Longrightarrow> distinct (scoped_filter a_workspace_id ws P (applications s))"
  by (simp add: db_ok_def tables_ok_def scoped_filter_def distinct_map)

lemma db_ok_listApplications:
  assumes ok: "db_ok sha s"
  shows "wp (listApplications E ws status job cursor n) (\<lambda>_. db_ok sha) (\<lambda>_. db_ok sha) s"
proof -
  have d: "distinct (listed_applications ws status job cursor s)"
    unfolding listed_applications_def using distinct_rows [OF ok] by simp
  have "\<exists>P. set (listed_applications ws status job cursor s) \<subseteq> set (scoped_filter a_workspace_id ws P (applications s))"
    unfolding listed_applications_def by (rule exI) (simp only: set_rev set_sort, rule order_refl)
  then obtain P where sub: "set (listed_applications ws status job cursor s) \<subseteq> set (scoped_filter a_workspace_id ws P (applications s))"
    by blast
  show ?thesis
    unfolding listApplications_def Let_def
    using wp_load_page [OF ok page_rows(1) [OF ok d sub] page_rows(2) [OF ok d sub]] ok by simp
qed

lemma db_ok_waiting:
  assumes "db_ok sha s"
  shows "wp (awaitingSubmission E ws device) (\<lambda>_. db_ok sha) (\<lambda>_. db_ok sha) s"
  using assms by (simp add: awaitingSubmission_def loadApplicationContexts_def)

lemma db_ok_listFillTargets:
  assumes ok: "db_ok sha s"
  shows "wp (listFillTargets E protocol who) (\<lambda>_. db_ok sha) (\<lambda>_. db_ok sha) s"
proof -
  have page: "wp (loadApplicationContexts E ws (take fill_target_limit (rev (sort_key a_updated_at
      (scoped_filter a_workspace_id ws P (applications s))))))
      (\<lambda>cs. wp (reconcileApplications E ws cs) (\<lambda>rs t. db_ok sha t) (\<lambda>_. db_ok sha)) (\<lambda>_. db_ok sha) s" for ws P
    by (rule wp_load_page [OF ok page_rows(1) [OF ok] page_rows(2) [OF ok]]) (auto simp: distinct_rows [OF ok])
  have "wp (loadApplicationContexts E ws (take fill_target_limit (rev (sort_key a_updated_at
      (scoped_filter a_workspace_id ws P (applications s))))))
      (\<lambda>cs. wp (reconcileApplications E ws cs) (\<lambda>rs. wp (awaitingSubmission E ws device) (\<lambda>_. db_ok sha) (\<lambda>_. db_ok sha)) (\<lambda>_. db_ok sha))
      (\<lambda>_. db_ok sha) s" for ws P device
    by (rule wp_mono [OF page]) (auto intro: wp_mono db_ok_waiting)
  then show ?thesis
    using ok by (auto simp: listFillTargets_def requireExtension_def split: option.split principal.split)
qed

lemma db_ok_session_reads:
  assumes "db_ok sha s"
  shows "wp (getFillSession E protocol who nonce i) (\<lambda>_. db_ok sha) (\<lambda>_. db_ok sha) s"
    and "wp (downloadFillSessionResume E can_open protocol who nonce i) (\<lambda>_. db_ok sha) (\<lambda>_. db_ok sha) s"
    and "wp (endFillSession E protocol who nonce i) (\<lambda>_. db_ok sha) (\<lambda>_. db_ok sha) s"
  using assms
  by (auto simp: getFillSession_def downloadFillSessionResume_def endFillSession_def
      split: option.split principal.split intro!: wp_loadSession wp_verifyNonce wp_packetAttachment)

lemma db_ok_device_route:
  assumes "db_ok sha s"
    and "\<And>device ws. wp (h (Some (DevicePrincipal device ws))) (\<lambda>_. db_ok sha) (\<lambda>_. db_ok sha) s"
    and "\<And>who. h who = andThen (requireDeviceScope protocol who) k"
  shows "wp (h who) (\<lambda>_. db_ok sha) (\<lambda>_. db_ok sha) s"
proof (cases "\<exists>device ws. who = Some (DevicePrincipal device ws)")
  case True
  then show ?thesis using assms(2) by blast
next
  case False
  then show ?thesis
    using assms(1) by (simp add: assms(3)) (auto split: option.split principal.split)
qed

lemma db_ok_session_writes:
  assumes ok: "db_ok sha s"
  shows "wp (createFillSession E protocol who new_id nonce b) (\<lambda>_. db_ok sha) (\<lambda>_. db_ok sha) s"
    and "wp (reportFillSession E protocol who key i rb) (\<lambda>_. db_ok sha) (\<lambda>_. db_ok sha) s"
    and "wp (reportFillSessionObservation E protocol who i lb) (\<lambda>_. db_ok sha) (\<lambda>_. db_ok sha) s"
proof -
  show "wp (createFillSession E protocol who new_id nonce b) (\<lambda>_. db_ok sha) (\<lambda>_. db_ok sha) s"
    by (rule db_ok_device_route [OF ok _ createFillSession_def])
       (rule wp_mono [OF create_session_wp [OF ok]], simp_all)
  show "wp (reportFillSession E protocol who key i rb) (\<lambda>_. db_ok sha) (\<lambda>_. db_ok sha) s"
    by (rule db_ok_device_route [OF ok _ reportFillSession_def])
       (rule wp_mono [OF report_session_wp [OF ok]], simp_all)
  show "wp (reportFillSessionObservation E protocol who i lb) (\<lambda>_. db_ok sha) (\<lambda>_. db_ok sha) s"
    by (rule db_ok_device_route [OF ok _ reportFillSessionObservation_def])
       (rule wp_mono [OF look_wp [OF ok]], simp_all)
qed

end
