(* ===== verification/Queue.thy ===== *)
theory Queue
  imports FillSessions
begin

text \<open>
  \<open>apps/api/src/tasks/queue.ts\<close>: leasing, heartbeats, completion, failure and retry,
  cancellation and the sweep of abandoned leases.  The two domain dispatchers are the
  record \<open>task_domains\<close>, so that the queue is verified against what it needs of them;
  theory \<open>Dispatch\<close> gives the code's own.

  Each operation is one database transaction and runs alone, so no row is ever locked
  by another claim.  The lease token (rnd bytes) is an argument, the jitter is a
  rational in the place of \<open>Math.rnd()\<close>, and the validation of a result against the
  output schema of its task type is the argument \<open>decode\<close>.
\<close>

section \<open>Retrying\<close>

definition lease_ms :: int where
  "lease_ms = lease_seconds * 1000"

definition server_retryable_codes :: "task_failure_code list" where
  "server_retryable_codes = [ProviderUnavailable, RateLimited, Timeout, FInternalError]"

definition backoff_base_ms :: int where
  "backoff_base_ms = 2000"

definition backoff_max_ms :: int where
  "backoff_max_ms = 5 * 60 * 1000"

text \<open>\<open>Math.round\<close> rounds a half up.\<close>

definition backoffMs :: "int \<Rightarrow> rat \<Rightarrow> int" where
  "backoffMs attempt rnd =
     (let exponential = min (backoff_base_ms * 2 ^ nat (max 0 (attempt - 1))) backoff_max_ms;
          jitter = of_int exponential * (1 / 4) * (rnd * 2 - 1)
      in max backoff_base_ms \<lfloor>of_int exponential + jitter + 1 / 2\<rfloor>)"

definition isRetryableFailure :: "task_type \<Rightarrow> task_failure_code \<Rightarrow> bool \<Rightarrow> int \<Rightarrow> int \<Rightarrow> bool" where
  "isRetryableFailure ty code worker_says attempt max_attempts =
     (if ty \<in> set no_retry_task_types then False
      else if \<not> worker_says then False
      else if code \<notin> set server_retryable_codes then False
      else attempt < max_attempts)"

section \<open>Rows\<close>

record task_domains =
  dom_result :: "task_row \<Rightarrow> task_result \<Rightarrow> (db, unit) handler"
  dom_failure :: "task_row \<Rightarrow> string \<Rightarrow> string \<Rightarrow> (db, unit) handler"

definition truncateMessage :: "string \<Rightarrow> string" where
  "truncateMessage m = (if length m > 2000 then take 1997 m @ ''...'' else m)"

definition release_lease :: "env \<Rightarrow> task_row \<Rightarrow> task_row" where
  "release_lease E t =
     t \<lparr> t_lease_token_hash := None, t_lease_expires_at := None, t_leased_by := None, t_updated_at := now E \<rparr>"

definition with_error :: "task_failure_code \<Rightarrow> string \<Rightarrow> bool \<Rightarrow> task_row \<Rightarrow> task_row" where
  "with_error code message retryable t =
     t \<lparr> t_error_code := Some code, t_error_message := Some message, t_error_retryable := Some retryable \<rparr>"

definition failed_row :: "env \<Rightarrow> task_failure_code \<Rightarrow> string \<Rightarrow> task_row \<Rightarrow> task_row" where
  "failed_row E code message t = (with_error code message False (release_lease E t)) \<lparr> t_state := TaskFailed \<rparr>"

definition cancelled_row :: "env \<Rightarrow> task_row \<Rightarrow> task_row" where
  "cancelled_row E t = (release_lease E t) \<lparr> t_state := TaskCancelled \<rparr>"

definition requeued_row :: "env \<Rightarrow> int \<Rightarrow> task_failure_code \<Rightarrow> string \<Rightarrow> task_row \<Rightarrow> task_row" where
  "requeued_row E delay code message t =
     (with_error code message True (release_lease E t)) \<lparr> t_state := Queued, t_run_after := now E + delay \<rparr>"

definition leased_row :: "env \<Rightarrow> string \<Rightarrow> string \<Rightarrow> task_row \<Rightarrow> task_row" where
  "leased_row E worker token t =
     t \<lparr> t_state := Leased, t_attempt := t_attempt t + 1, t_lease_token_hash := Some (sha256Hex E token),
         t_lease_expires_at := Some (now E + lease_ms), t_leased_by := Some worker,
         t_last_heartbeat_at := Some (now E), t_updated_at := now E \<rparr>"

definition heartbeat_row :: "env \<Rightarrow> task_progress option \<Rightarrow> task_row \<Rightarrow> task_row" where
  "heartbeat_row E progress t =
     t \<lparr> t_lease_expires_at := Some (now E + lease_ms), t_last_heartbeat_at := Some (now E),
         t_progress := (case progress of Some p \<Rightarrow> Some p | None \<Rightarrow> t_progress t), t_updated_at := now E \<rparr>"

definition succeeded_row :: "env \<Rightarrow> task_result \<Rightarrow> task_row \<Rightarrow> task_row" where
  "succeeded_row E result t =
     (release_lease E t) \<lparr> t_state := Succeeded, t_result := Some result,
         t_progress := Some \<lparr> tp_stage = ''complete'', tp_percent = 100 \<rparr>,
         t_error_code := None, t_error_message := None, t_error_retryable := None \<rparr>"

definition find_task :: "uuid \<Rightarrow> db \<Rightarrow> task_row option" where
  "find_task i s = find (\<lambda>t. t_id t = i) (tasks s)"

definition update_task :: "uuid \<Rightarrow> (task_row \<Rightarrow> task_row) \<Rightarrow> (db, unit) handler" where
  "update_task i f = modify (tasks_update (map (\<lambda>t. if t_id t = i then f t else t)))"

section \<open>Claiming\<close>

record task_input_file =
  ti_file_id :: uuid
  ti_purpose :: file_purpose
  ti_original_name :: string
  ti_mime :: string
  ti_bytes :: int
  ti_sha256 :: string

record claim_response =
  cl_task_id :: uuid
  cl_type :: task_type
  cl_lease_token :: string
  cl_lease_expires_at :: timestamp
  cl_attempt :: int
  cl_max_attempts :: int
  cl_input :: task_payload
  cl_files :: "task_input_file list"

definition claimable :: "env \<Rightarrow> task_type list \<Rightarrow> uuid option \<Rightarrow> task_row \<Rightarrow> bool" where
  "claimable E caps ws t \<longleftrightarrow>
     t_capability t \<in> set caps \<and>
     (t_state t = Queued \<and> t_run_after t \<le> now E \<or>
      t_state t = Leased \<and> (case t_lease_expires_at t of None \<Rightarrow> False | Some x \<Rightarrow> x \<le> now E)) \<and>
     (case ws of None \<Rightarrow> True | Some w \<Rightarrow> t_workspace_id t = w)"

definition selectClaimCandidate :: "env \<Rightarrow> task_type list \<Rightarrow> uuid option \<Rightarrow> db \<Rightarrow> task_row option" where
  "selectClaimCandidate E caps ws s =
     (case sort_key t_run_after (sort_key t_created_at (filter (claimable E caps ws) (tasks s))) of
        [] \<Rightarrow> None | t # _ \<Rightarrow> Some t)"

definition loadInputFiles :: "task_row \<Rightarrow> db \<Rightarrow> task_input_file list" where
  "loadInputFiles t s =
     map (\<lambda>f. \<lparr> ti_file_id = f_id f, ti_purpose = f_purpose f, ti_original_name = f_original_name f,
                ti_mime = f_mime f, ti_bytes = f_bytes f, ti_sha256 = f_sha256 f \<rparr>)
       (filter (\<lambda>f. f_workspace_id f = t_workspace_id t \<and> f_id f \<in> set (t_input_file_ids t)) (files s))"

definition claim_of :: "string \<Rightarrow> timestamp \<Rightarrow> task_row \<Rightarrow> task_input_file list \<Rightarrow> claim_response" where
  "claim_of token expires t input_files =
     \<lparr> cl_task_id = t_id t, cl_type = t_type t, cl_lease_token = token, cl_lease_expires_at = expires,
       cl_attempt = t_attempt t, cl_max_attempts = t_max_attempts t, cl_input = t_payload t,
       cl_files = input_files \<rparr>"

definition expiry_message :: "bool \<Rightarrow> string" where
  "expiry_message never_retry =
     (if never_retry then ''The lease expired and this task type is never retried automatically.''
      else ''The lease expired and no retry attempts remain.'')"

text \<open>The body of the claim loop; the argument counts the candidates still to inspect.\<close>

fun claim_loop ::
  "env \<Rightarrow> task_domains \<Rightarrow> string \<Rightarrow> task_type list \<Rightarrow> uuid option \<Rightarrow> string \<Rightarrow> nat \<Rightarrow> (db, claim_response option) handler" where
  "claim_loop E h worker caps ws token 0 = ret None"
| "claim_loop E h worker caps ws token (Suc n) =
     andThen (gets (selectClaimCandidate E caps ws)) (\<lambda>candidate.
       case candidate of None \<Rightarrow> ret None
       | Some t \<Rightarrow>
           let exhausted = t_attempt t \<ge> t_max_attempts t;
               never_retry = t_type t \<in> set no_retry_task_types
           in
           if t_state t = Leased \<and> (exhausted \<or> never_retry) then
             andThen (update_task (t_id t) (failed_row E Timeout (expiry_message never_retry))) (\<lambda>_.
             andThen (dom_failure h t ''TIMEOUT'' (expiry_message never_retry)) (\<lambda>_.
             claim_loop E h worker caps ws token n))
           else if t_cancel_requested t then
             andThen (update_task (t_id t) (cancelled_row E)) (\<lambda>_. claim_loop E h worker caps ws token n)
           else
             andThen (update_task (t_id t) (leased_row E worker token)) (\<lambda>_.
             andThen (gets (loadInputFiles t)) (\<lambda>input_files.
             ret (Some (claim_of token (now E + lease_ms) (leased_row E worker token t) input_files)))))"

definition claim_workspace :: "principal \<Rightarrow> uuid option" where
  "claim_workspace p = (case p of DevicePrincipal device ws \<Rightarrow> Some ws | _ \<Rightarrow> None)"

definition claimTask ::
  "env \<Rightarrow> task_domains \<Rightarrow> principal \<Rightarrow> string \<Rightarrow> task_type list \<Rightarrow> int \<Rightarrow> string \<Rightarrow> (db, claim_response option) handler" where
  "claimTask E h who worker caps version token =
     andThen (throw_if (version \<noteq> protocol_version) Unprocessable) (\<lambda>_.
     andThen (assertCapabilitiesAllowed who caps) (\<lambda>_.
     transaction (claim_loop E h worker caps (claim_workspace who) token 10)))"

section \<open>Holding a lease\<close>

definition lockLeasedTask :: "env \<Rightarrow> uuid \<Rightarrow> string \<Rightarrow> (db, task_row) handler" where
  "lockLeasedTask E i token =
     andThen (gets (find_task i)) (\<lambda>found.
     andThen (require found NotFound) (\<lambda>t.
     andThen (throw_if (t_state t \<noteq> Leased \<or> t_lease_token_hash t = None) Conflict) (\<lambda>_.
     andThen (throw_if (t_lease_token_hash t \<noteq> Some (sha256Hex E token)) Conflict) (\<lambda>_.
     andThen (throw_if (case t_lease_expires_at t of None \<Rightarrow> False | Some x \<Rightarrow> x \<le> now E) Conflict) (\<lambda>_.
     ret t)))))"

definition heartbeatTask :: "env \<Rightarrow> uuid \<Rightarrow> string \<Rightarrow> task_progress option \<Rightarrow> (db, bool \<times> timestamp) handler" where
  "heartbeatTask E i token progress =
     transaction (
       andThen (lockLeasedTask E i token) (\<lambda>t.
       andThen (update_task (t_id t) (heartbeat_row E progress)) (\<lambda>_.
       ret (t_cancel_requested t, now E + lease_ms))))"

definition failTaskRow ::
  "env \<Rightarrow> task_domains \<Rightarrow> task_row \<Rightarrow> task_failure_code \<Rightarrow> string \<Rightarrow> (db, task_row) handler" where
  "failTaskRow E h t code message =
     (let row = failed_row E code (truncateMessage message) t in
      andThen (update_task (t_id t) (failed_row E code (truncateMessage message))) (\<lambda>_.
      andThen (dom_failure h row (failure_code_text code) message) (\<lambda>_.
      ret row)))"

definition own_artifact :: "env \<Rightarrow> task_row \<Rightarrow> string \<Rightarrow> task_artifact_row \<Rightarrow> bool" where
  "own_artifact E t token a \<longleftrightarrow>
     ta_task_id a = t_id t \<and> ta_workspace_id a = t_workspace_id t \<and> ta_lease_token_hash a = sha256Hex E token"

definition commit_artifacts :: "env \<Rightarrow> task_row \<Rightarrow> string \<Rightarrow> (db, unit) handler" where
  "commit_artifacts E t token =
     andThen (gets (\<lambda>s. filter (own_artifact E t token) (task_artifacts s))) (\<lambda>artifacts.
       if length artifacts = 0 then ret ()
       else
         andThen (modify (task_artifacts_update (map (\<lambda>a.
            if ta_id a \<in> ta_id ` set artifacts then a \<lparr> ta_committed := True \<rparr> else a)))) (\<lambda>_.
         modify (files_update (map (\<lambda>f.
            if f_workspace_id f = t_workspace_id t \<and> f_id f \<in> ta_file_id ` set artifacts
            then f \<lparr> f_state := Ready, f_expires_at := None \<rparr> else f)))))"

definition unregistered_message :: "task_type \<Rightarrow> string" where
  "unregistered_message ty =
     ''No output schema is registered for task type '' @ [CHR 0x22] @ task_type_text ty @ [CHR 0x22] @ ''.''"

definition mismatch_message :: "task_type \<Rightarrow> string" where
  "mismatch_message ty = ''The result does not match the '' @ task_type_text ty @ '' output schema.''"

text \<open>The second component says whether the result was accepted.\<close>

definition completeTask ::
  "env \<Rightarrow> task_domains \<Rightarrow> (task_type \<Rightarrow> json \<Rightarrow> task_result option) \<Rightarrow> uuid \<Rightarrow> string \<Rightarrow> json
     \<Rightarrow> (db, task_row \<times> bool) handler" where
  "completeTask E h decode i token raw =
     transaction (
       andThen (lockLeasedTask E i token) (\<lambda>t.
         if t_type t \<notin> set implemented_task_types then
           andThen (failTaskRow E h t UnsupportedTaskType (unregistered_message (t_type t))) (\<lambda>row.
           ret (row, False))
         else case decode (t_type t) raw of
           None \<Rightarrow>
             andThen (failTaskRow E h t ProviderInvalidOutput (mismatch_message (t_type t))) (\<lambda>row.
             ret (row, False))
         | Some result \<Rightarrow>
             andThen (commit_artifacts E t token) (\<lambda>_.
             andThen (update_task (t_id t) (succeeded_row E result)) (\<lambda>_.
             andThen (dom_result h (succeeded_row E result t) result) (\<lambda>_.
             andThen (recordAuditEvent (t_workspace_id t) ''task.succeeded'' None (Some (t_id t)) (Some ''task'')
               (JObj [(''type'', JStr (task_type_text (t_type t))), (''attempt'', JNum (t_attempt t))])) (\<lambda>_.
             ret (succeeded_row E result t, True)))))))"

definition failTask ::
  "env \<Rightarrow> task_domains \<Rightarrow> uuid \<Rightarrow> string \<Rightarrow> task_failure_code \<Rightarrow> bool \<Rightarrow> string \<Rightarrow> int option \<Rightarrow> rat
     \<Rightarrow> (db, task_row) handler" where
  "failTask E h i token code retryable message retry_after rnd =
     transaction (
       andThen (lockLeasedTask E i token) (\<lambda>t.
         let retry = \<not> t_cancel_requested t \<and>
               isRetryableFailure (t_type t) code retryable (t_attempt t) (t_max_attempts t)
         in
         if \<not> retry then
           (if t_cancel_requested t then
              let f = (\<lambda>t. with_error code (truncateMessage message) False (cancelled_row E t)) in
              andThen (update_task (t_id t) f) (\<lambda>_. ret (f t))
            else failTaskRow E h t code message)
         else
           let backoff = backoffMs (t_attempt t) rnd;
               delay = (case retry_after of
                          Some ms \<Rightarrow> if code = RateLimited then max backoff ms else backoff
                        | None \<Rightarrow> backoff);
               f = requeued_row E delay code (truncateMessage message)
           in andThen (update_task (t_id t) f) (\<lambda>_. ret (f t))))"

definition cancelTask :: "env \<Rightarrow> uuid \<Rightarrow> uuid \<Rightarrow> (db, task_row) handler" where
  "cancelTask E ws i =
     transaction (
       andThen (gets (\<lambda>s. scoped_find t_workspace_id ws (\<lambda>t. t_id t = i) (tasks s))) (\<lambda>found.
       andThen (require found NotFound) (\<lambda>t.
         if t_state t = Queued then
           let f = (\<lambda>t. t \<lparr> t_state := TaskCancelled, t_cancel_requested := True, t_updated_at := now E \<rparr>) in
           andThen (update_task (t_id t) f) (\<lambda>_. ret (f t))
         else if t_state t = Leased then
           let f = (\<lambda>t. t \<lparr> t_cancel_requested := True, t_updated_at := now E \<rparr>) in
           andThen (update_task (t_id t) f) (\<lambda>_. ret (f t))
         else ret t)))"

section \<open>The sweep\<close>

definition expired_lease :: "env \<Rightarrow> task_row \<Rightarrow> bool" where
  "expired_lease E t \<longleftrightarrow>
     t_state t = Leased \<and> (case t_lease_expires_at t of None \<Rightarrow> False | Some x \<Rightarrow> x \<le> now E)"

definition reclaim_one :: "env \<Rightarrow> task_domains \<Rightarrow> (task_row \<Rightarrow> rat) \<Rightarrow> task_row \<Rightarrow> (db, bool) handler" where
  "reclaim_one E h rnd t =
     (let exhausted = t_attempt t \<ge> t_max_attempts t;
          never_retry = t_type t \<in> set no_retry_task_types;
          message = expiry_message never_retry
      in
      if exhausted \<or> never_retry \<or> t_cancel_requested t then
        andThen (update_task (t_id t) (\<lambda>t. if t_cancel_requested t
          then with_error Timeout message False (cancelled_row E t) else failed_row E Timeout message t)) (\<lambda>_.
        andThen (dom_failure h t (if t_cancel_requested t then ''CANCELLED'' else ''TIMEOUT'') message) (\<lambda>_.
        ret False))
      else
        andThen (update_task (t_id t) (requeued_row E (backoffMs (t_attempt t) (rnd t)) Timeout
          ''The worker stopped heartbeating; the task was returned to the queue.'')) (\<lambda>_.
        ret True))"

definition reclaimExpiredLeases :: "env \<Rightarrow> task_domains \<Rightarrow> (task_row \<Rightarrow> rat) \<Rightarrow> nat \<Rightarrow> (db, uuid list \<times> uuid list) handler" where
  "reclaimExpiredLeases E h rnd max_rows =
     transaction (
       andThen (gets (\<lambda>s. take max_rows (filter (expired_lease E) (tasks s)))) (\<lambda>expired.
       andThen (map_each (reclaim_one E h rnd) expired) (\<lambda>requeued.
       ret (map (t_id \<circ> fst) (filter snd (zip expired requeued)),
            map (t_id \<circ> fst) (filter (Not \<circ> snd) (zip expired requeued))))))"

section \<open>Files of a task\<close>

definition authorizeTaskFile :: "env \<Rightarrow> uuid \<Rightarrow> uuid \<Rightarrow> string \<Rightarrow> (db, file_row) handler" where
  "authorizeTaskFile E i file_id token =
     andThen (gets (find_task i)) (\<lambda>found.
     andThen (require found NotFound) (\<lambda>t.
     andThen (throw_if (t_state t \<noteq> Leased \<or> t_lease_token_hash t \<noteq> Some (sha256Hex E token)) Conflict) (\<lambda>_.
     andThen (throw_if (file_id \<notin> set (t_input_file_ids t)) NotFound) (\<lambda>_.
     andThen (gets (find_file (t_workspace_id t) file_id)) (\<lambda>file.
     require file NotFound)))))"

definition authorizeArtifactUpload :: "env \<Rightarrow> uuid \<Rightarrow> string \<Rightarrow> (db, task_row) handler" where
  "authorizeArtifactUpload E i token =
     andThen (gets (find_task i)) (\<lambda>found.
     andThen (require found NotFound) (\<lambda>t.
     andThen (throw_if (t_state t \<noteq> Leased \<or> t_lease_token_hash t \<noteq> Some (sha256Hex E token)) Conflict) (\<lambda>_.
     andThen (throw_if (case t_lease_expires_at t of None \<Rightarrow> False | Some x \<Rightarrow> x \<le> now E) Conflict) (\<lambda>_.
     ret t))))"

section \<open>Backoff\<close>

lemma backoff_lower: "backoff_base_ms \<le> backoffMs attempt rnd"
  by (simp add: backoffMs_def Let_def)

definition backoff_step :: "int \<Rightarrow> int" where
  "backoff_step attempt = min (backoff_base_ms * 2 ^ nat (max 0 (attempt - 1))) backoff_max_ms"

lemma backoff_step_bounds: "2000 \<le> backoff_step attempt" "backoff_step attempt \<le> 300000"
proof -
  have "1 \<le> (2::int) ^ nat (max 0 (attempt - 1))" by (rule one_le_power) simp
  then show "2000 \<le> backoff_step attempt" "backoff_step attempt \<le> 300000"
    by (simp_all add: backoff_step_def backoff_base_ms_def backoff_max_ms_def)
qed

lemma backoff_floor:
  fixes e :: int and rnd :: rat
  assumes "0 \<le> e" and "0 \<le> rnd" and "rnd \<le> 1"
  shows "4 * \<lfloor>of_int e + of_int e * (1 / 4) * (rnd * 2 - 1) + 1 / 2\<rfloor> \<le> 5 * e + 2"
proof -
  let ?y = "of_int e + of_int e * (1 / 4) * (rnd * 2 - 1) + 1 / 2"
  have "of_int e * (rnd * 2 - 1) \<le> of_int e * (1 :: rat)"
    using assms by (intro mult_left_mono) simp_all
  then have y: "4 * ?y \<le> 5 * of_int e + 2" by (simp add: algebra_simps)
  have "of_int (4 * \<lfloor>?y\<rfloor>) \<le> 4 * ?y" using of_int_floor_le [of ?y] by (simp del: of_int_floor_le)
  also have "\<dots> \<le> of_int (5 * e + 2)" using y by simp
  finally show ?thesis by (simp only: of_int_le_iff)
qed

lemma backoff_window:
  assumes "0 \<le> rnd" and "rnd \<le> 1"
  shows "4 * backoffMs attempt rnd \<le> 5 * backoff_step attempt + 2"
proof -
  have e: "0 \<le> backoff_step attempt" using backoff_step_bounds(1) [of attempt] by simp
  from backoff_floor [OF e assms] backoff_step_bounds(1) [of attempt]
  show ?thesis
    unfolding backoffMs_def Let_def backoff_step_def [symmetric] by (simp add: max_def backoff_base_ms_def)
qed

lemma backoff_upper: "0 \<le> rnd \<Longrightarrow> rnd \<le> 1 \<Longrightarrow> backoffMs attempt rnd \<le> 375000"
  using backoff_window [of rnd attempt] backoff_step_bounds(2) [of attempt] by simp

section \<open>Rows and steps\<close>

lemma wp_update_task [simp]:
  "wp (update_task i f) Q F = (\<lambda>s. Q () (tasks_update (map (\<lambda>t. if t_id t = i then f t else t)) s))"
  by (rule ext) (simp add: update_task_def)

lemma row_ids [simp]:
  "t_id (failed_row E c m t) = t_id t" "t_id (cancelled_row E t) = t_id t"
  "t_id (leased_row E w k t) = t_id t" "t_id (heartbeat_row E p t) = t_id t"
  "t_id (succeeded_row E r t) = t_id t" "t_id (requeued_row E d c m t) = t_id t"
  "t_id (with_error c m b t) = t_id t"
  by (simp_all add: failed_row_def cancelled_row_def leased_row_def heartbeat_row_def succeeded_row_def
      requeued_row_def with_error_def release_lease_def)

text \<open>The constraints of \<open>tasks\<close> (migration 0001) and what the queue adds to them: a
  queued task has an attempt left, exactly the leased tasks hold a lease, and a task
  that is never retried is leased at most once.\<close>

definition task_check :: "task_row \<Rightarrow> bool" where
  "task_check t \<longleftrightarrow>
     0 \<le> t_attempt t \<and> t_attempt t \<le> t_max_attempts t \<and>
     (t_state t = Queued \<longrightarrow> t_attempt t < t_max_attempts t) \<and>
     (t_state t = Leased \<longleftrightarrow> t_lease_token_hash t \<noteq> None) \<and>
     (t_state t = Leased \<longleftrightarrow> t_lease_expires_at t \<noteq> None) \<and>
     (t_type t \<in> set no_retry_task_types \<longrightarrow>
        t_attempt t \<le> 1 \<and> (t_state t = Queued \<longrightarrow> t_attempt t = 0))"

definition tasks_ok :: "db \<Rightarrow> bool" where
  "tasks_ok s \<longleftrightarrow> distinct (map t_id (tasks s)) \<and> list_all task_check (tasks s)"

lemma tasks_ok_update:
  assumes "tasks_ok s" and "\<And>t. t_id (f t) = t_id t"
    and "\<And>t. t \<in> set (tasks s) \<Longrightarrow> t_id t = i \<Longrightarrow> task_check (f t)"
  shows "tasks_ok (tasks_update (map (\<lambda>t. if t_id t = i then f t else t)) s)"
  using assms by (auto simp: tasks_ok_def list_all_iff comp_def if_distrib cong: if_cong)

lemma tasks_ok_cong: "tasks s' = tasks s \<Longrightarrow> tasks_ok s' = tasks_ok s"
  by (simp add: tasks_ok_def)

lemma tasks_ok_unique:
  "tasks_ok s \<Longrightarrow> t \<in> set (tasks s) \<Longrightarrow> u \<in> set (tasks s) \<Longrightarrow> t_id t = t_id u \<Longrightarrow> t = u"
  by (auto simp: tasks_ok_def distinct_map inj_on_def)

lemma tasks_ok_check: "tasks_ok s \<Longrightarrow> t \<in> set (tasks s) \<Longrightarrow> task_check t"
  by (simp add: tasks_ok_def list_all_iff)

lemma check_released [simp]:
  "task_check t \<Longrightarrow> task_check (failed_row E c m t)"
  "task_check t \<Longrightarrow> task_check (cancelled_row E t)"
  "task_check t \<Longrightarrow> task_check (succeeded_row E r t)"
  "task_check t \<Longrightarrow> task_check (with_error c m b (cancelled_row E t))"
  by (simp_all add: task_check_def failed_row_def cancelled_row_def succeeded_row_def with_error_def release_lease_def)

lemma check_heartbeat [simp]: "task_check t \<Longrightarrow> t_state t = Leased \<Longrightarrow> task_check (heartbeat_row E p t)"
  by (simp add: task_check_def heartbeat_row_def)

lemma check_requeued:
  "task_check t \<Longrightarrow> t_attempt t < t_max_attempts t \<Longrightarrow> t_type t \<notin> set no_retry_task_types \<Longrightarrow>
     task_check (requeued_row E d c m t)"
  by (simp add: task_check_def requeued_row_def with_error_def release_lease_def)

lemma check_leased:
  "task_check t \<Longrightarrow> t_state t = Queued \<or> t_state t = Leased \<and> t_attempt t < t_max_attempts t \<and>
       t_type t \<notin> set no_retry_task_types \<Longrightarrow> task_check (leased_row E w k t)"
  by (auto simp: task_check_def leased_row_def)

lemma find_taskD: "find_task i s = Some t \<Longrightarrow> t \<in> set (tasks s) \<and> t_id t = i"
  unfolding find_task_def by (drule find_SomeD) simp

lemma selectClaimCandidateD:
  "selectClaimCandidate E caps ws s = Some t \<Longrightarrow> t \<in> set (tasks s) \<and> claimable E caps ws t"
proof -
  assume "selectClaimCandidate E caps ws s = Some t"
  then obtain ts where "sort_key t_run_after (sort_key t_created_at (filter (claimable E caps ws) (tasks s))) = t # ts"
    by (auto simp: selectClaimCandidate_def split: list.splits)
  then have "set (sort_key t_run_after (sort_key t_created_at (filter (claimable E caps ws) (tasks s)))) = set (t # ts)"
    by (rule arg_cong)
  then show ?thesis by auto
qed

lemma wp_lockLeasedTask:
  assumes "\<And>t. find_task i s = Some t \<Longrightarrow> t_state t = Leased \<Longrightarrow> t_lease_token_hash t = Some (sha256Hex E token) \<Longrightarrow>
      (\<forall>x. t_lease_expires_at t = Some x \<longrightarrow> now E < x) \<Longrightarrow> Q t s"
    and "\<And>e. e = NotFound \<or> e = Conflict \<Longrightarrow> F e s"
  shows "wp (lockLeasedTask E i token) Q F s"
  using assms by (auto simp: lockLeasedTask_def split: option.splits)

text \<open>What a claim returns: a task that was there, was free to take, and is now leased
  under the presented token.\<close>

definition claimed ::
  "env \<Rightarrow> string \<Rightarrow> task_type list \<Rightarrow> uuid option \<Rightarrow> string \<Rightarrow> db \<Rightarrow> claim_response option \<Rightarrow> db \<Rightarrow> bool" where
  "claimed E worker caps ws token s r s' \<longleftrightarrow>
     (\<forall>c. r = Some c \<longrightarrow> (\<exists>t \<in> set (tasks s). t_id t = cl_task_id c \<and> claimable E caps ws t \<and>
        \<not> t_cancel_requested t \<and> cl_attempt c = t_attempt t + 1 \<and> cl_attempt c \<le> t_max_attempts t \<and>
        cl_type c = t_type t \<and> cl_lease_token c = token \<and> leased_row E worker token t \<in> set (tasks s')))"

lemma claim_takeable:
  assumes "task_check t" and "claimable E caps ws t"
    and "\<not> (t_state t = Leased \<and> (t_attempt t \<ge> t_max_attempts t \<or> t_type t \<in> set no_retry_task_types))"
  shows "t_attempt t < t_max_attempts t" and "task_check (leased_row E w k t)"
proof -
  have st: "t_state t = Queued \<or> t_state t = Leased"
    using assms(2) by (auto simp: claimable_def)
  then show "t_attempt t < t_max_attempts t" using assms(1,3) by (auto simp: task_check_def)
  then show "task_check (leased_row E w k t)" using st assms(1,3) by (intro check_leased) auto
qed

text \<open>A lease that still runs is not claimable, so two claims never hand out one task
  within the lease time.\<close>

lemma leased_not_claimable:
  "now E' < now E + lease_ms \<Longrightarrow> \<not> claimable E' caps ws (leased_row E w k t)"
  by (simp add: claimable_def leased_row_def)

lemma no_double_lease:
  assumes "claimed E w caps ws k s (Some c) s1" and "tasks_ok s1"
    and "claimed E' w' caps' ws' k' s1 (Some c') s2" and "now E' < now E + lease_ms"
  shows "cl_task_id c' \<noteq> cl_task_id c"
proof
  assume eq: "cl_task_id c' = cl_task_id c"
  from assms(1) obtain t where t: "t_id t = cl_task_id c" "leased_row E w k t \<in> set (tasks s1)"
    by (auto simp: claimed_def)
  from assms(3) obtain u where u: "u \<in> set (tasks s1)" "t_id u = cl_task_id c'" "claimable E' caps' ws' u"
    by (auto simp: claimed_def)
  have "u = leased_row E w k t" using tasks_ok_unique [OF assms(2) u(1) t(2)] u(2) t(1) eq by simp
  then show False using leased_not_claimable [OF assms(4)] u(3) by simp
qed

lemma lock_stale:
  assumes "find_task i s = Some t" and "t_lease_token_hash t \<noteq> Some (sha256Hex E token) \<or>
     t_state t \<noteq> Leased \<or> (\<exists>x. t_lease_expires_at t = Some x \<and> x \<le> now E)"
  shows "lockLeasedTask E i token s = (Inl Conflict, s)"
  using assms by (auto simp: lockLeasedTask_def andThen_def throw_if_def require_def ret_def fail_def)

lemma stale_effects:
  assumes "lockLeasedTask E i token s = (Inl Conflict, s)"
  shows "heartbeatTask E i token progress s = (Inl Conflict, s)"
    and "completeTask E h decode i token raw s = (Inl Conflict, s)"
    and "failTask E h i token code retryable message retry_after rnd s = (Inl Conflict, s)"
  using assms by (simp_all add: heartbeatTask_def completeTask_def failTask_def transaction_def andThen_def)

section \<open>The interface to the domains\<close>

text \<open>What the queue needs of the domain handlers: they leave the task table alone, and
  they act inside the workspace of the task.\<close>

text \<open>The domain may extend the stored result of the task it applies; of the tasks it
  changes nothing else.\<close>

definition result_extended :: "task_row \<Rightarrow> task_row \<Rightarrow> bool" where
  "result_extended q q' \<longleftrightarrow> (\<exists>r u. q' = q \<lparr> t_result := r, t_updated_at := u \<rparr>)"

definition extends_result :: "uuid \<Rightarrow> db \<Rightarrow> db \<Rightarrow> bool" where
  "extends_result i s s' \<longleftrightarrow>
     (\<exists>f. tasks s' = map (\<lambda>q. if t_id q = i then f q else q) (tasks s) \<and> (\<forall>q. result_extended q (f q)))"

lemma result_extended_refl [simp]: "result_extended q q"
  unfolding result_extended_def by (rule exI [where x = "t_result q"], rule exI [where x = "t_updated_at q"]) simp

lemma result_extended_trans: "result_extended a b \<Longrightarrow> result_extended b c \<Longrightarrow> result_extended a c"
  unfolding result_extended_def by (elim exE, simp) (intro exI, rule refl)

lemma result_extendedD:
  "result_extended q q' \<Longrightarrow> t_id q' = t_id q \<and> t_state q' = t_state q \<and> t_type q' = t_type q \<and>
     t_workspace_id q' = t_workspace_id q \<and> task_check q' = task_check q"
  by (auto simp: result_extended_def task_check_def)

interpretation result_extension: step_relation "extends_result i" for i
proof
  fix s :: db
  show "extends_result i s s"
    unfolding extends_result_def by (rule exI [where x = "\<lambda>q. q"]) simp
next
  fix s t u :: db
  assume "extends_result i s t" and "extends_result i t u"
  then obtain f g where f: "tasks t = map (\<lambda>q. if t_id q = i then f q else q) (tasks s)" "\<And>q. result_extended q (f q)"
    and g: "tasks u = map (\<lambda>q. if t_id q = i then g q else q) (tasks t)" "\<And>q. result_extended q (g q)"
    unfolding extends_result_def by blast
  have "result_extended q (g (f q))" for q
    using f(2) [of q] g(2) [of "f q"] by (rule result_extended_trans)
  moreover have "t_id (f q) = t_id q" for q using result_extendedD [OF f(2)] by simp
  then have "tasks u = map (\<lambda>q. if t_id q = i then g (f q) else q) (tasks s)" unfolding f(1) g(1) by auto
  ultimately show "extends_result i s u"
    unfolding extends_result_def by (intro exI [where x = "\<lambda>q. g (f q)"]) simp
qed

lemma extends_result_same: "tasks s' = tasks s \<Longrightarrow> extends_result i s s'"
  unfolding extends_result_def by (rule exI [where x = "\<lambda>q. q"]) simp

lemma obeys_same_tasks: "obeys (same tasks) m \<Longrightarrow> obeys (extends_result i) m"
  by (simp add: obeys_def same_def extends_result_same)

locale task_handlers =
  fixes h :: task_domains
  assumes result_tasks: "obeys (extends_result (t_id t)) (dom_result h t r)"
    and failure_tasks: "obeys (same tasks) (dom_failure h t c m)"
    and result_scope: "scoped (t_workspace_id t) (dom_result h t r)"
    and failure_scope: "scoped (t_workspace_id t) (dom_failure h t c m)"
begin

lemma wp_result:
  assumes "\<And>s' f. tasks s' = map (\<lambda>q. if t_id q = t_id t then f q else q) (tasks s) \<Longrightarrow>
      (\<And>q. result_extended q (f q)) \<Longrightarrow> Q () s'" and "\<And>e s'. F e s'"
  shows "wp (dom_result h t r) Q F s"
proof (rule wpI)
  fix a s'
  assume "dom_result h t r s = (Inr a, s')"
  from obeysD [OF result_tasks this] obtain f
    where "tasks s' = map (\<lambda>q. if t_id q = t_id t then f q else q) (tasks s)" "\<And>q. result_extended q (f q)"
    unfolding extends_result_def by blast
  then show "Q a s'" using assms(1) [of s' f] by simp
qed (rule assms(2))

lemma wp_failure:
  assumes "\<And>s'. tasks s' = tasks s \<Longrightarrow> Q () s'" and "\<And>e s'. F e s'"
  shows "wp (dom_failure h t c m) Q F s"
proof (rule wpI)
  fix a s'
  assume "dom_failure h t c m s = (Inr a, s')"
  from obeysD [OF failure_tasks this] show "Q a s'" using assms(1) by (simp add: same_def)
qed (rule assms(2))

lemma claim_loop_wp:
  assumes "tasks_ok s" and "\<And>t. t \<in> set (tasks s) \<Longrightarrow> claimable E caps ws t \<Longrightarrow> t \<in> set (tasks s0)"
  shows "wp (claim_loop E h worker caps ws token n)
    (\<lambda>r s'. tasks_ok s' \<and> claimed E worker caps ws token s0 r s') (\<lambda>_ _. True) s"
  using assms
proof (induction n arbitrary: s)
  case 0
  then show ?case by (simp add: claimed_def)
next
  case (Suc n)
  show ?case
  proof (cases "selectClaimCandidate E caps ws s")
    case None
    then show ?thesis using Suc.prems by (simp add: claimed_def)
  next
    case (Some t)
    from selectClaimCandidateD [OF Some] have t: "t \<in> set (tasks s)" and c: "claimable E caps ws t" by simp_all
    have check: "task_check t" using tasks_ok_check [OF Suc.prems(1) t] .
    have again: "wp (claim_loop E h worker caps ws token n)
        (\<lambda>r s'. tasks_ok s' \<and> claimed E worker caps ws token s0 r s') (\<lambda>_ _. True) u"
      if u: "tasks u = map (\<lambda>q. if t_id q = t_id t then f q else q) (tasks s)"
        and f: "\<And>q. t_id (f q) = t_id q" "\<And>q. task_check q \<Longrightarrow> task_check (f q)" "\<And>q. \<not> claimable E caps ws (f q)" for f u
    proof (rule Suc.IH)
      have "tasks_ok (tasks_update (map (\<lambda>q. if t_id q = t_id t then f q else q)) s)"
        using Suc.prems(1) f tasks_ok_check by (intro tasks_ok_update) blast+
      then show "tasks_ok u" using u by (simp add: tasks_ok_def)
      show "\<And>q. q \<in> set (tasks u) \<Longrightarrow> claimable E caps ws q \<Longrightarrow> q \<in> set (tasks s0)"
        using u f(3) Suc.prems(2) by (auto split: if_splits)
    qed
    have gone: "\<not> claimable E caps ws (failed_row E a b q)" "\<not> claimable E caps ws (cancelled_row E q)" for a b q
      by (simp_all add: claimable_def failed_row_def cancelled_row_def with_error_def release_lease_def)
    let ?dead = "t_state t = Leased \<and> (t_attempt t \<ge> t_max_attempts t \<or> t_type t \<in> set no_retry_task_types)"
    consider (dead) ?dead | (cancel) "\<not> ?dead" "t_cancel_requested t" | (take) "\<not> ?dead" "\<not> t_cancel_requested t"
      by blast
    then show ?thesis
    proof cases
      case dead
      then show ?thesis
        using Some gone by (auto simp: Let_def intro!: wp_failure again)
    next
      case cancel
      then show ?thesis
        using Some gone by (auto simp: Let_def intro!: again)
    next
      case take
      have bound: "t_attempt t < t_max_attempts t" and lc: "task_check (leased_row E worker token t)"
        using claim_takeable [OF check c take(1)] by auto
      let ?s = "tasks_update (map (\<lambda>q. if t_id q = t_id t then leased_row E worker token q else q)) s"
      have "tasks_ok ?s"
      proof (rule tasks_ok_update [OF Suc.prems(1)])
        fix q
        assume "q \<in> set (tasks s)" "t_id q = t_id t"
        then have "q = t" using tasks_ok_unique [OF Suc.prems(1) _ t] by blast
        then show "task_check (leased_row E worker token q)" using lc by simp
      qed simp
      moreover have "claimed E worker caps ws token s0
          (Some (claim_of token (now E + lease_ms) (leased_row E worker token t) fs)) ?s" for fs
        using t c take(2) bound Suc.prems(2) [OF t c]
        by (auto simp: claimed_def claim_of_def leased_row_def intro!: bexI [of _ t])
      ultimately show ?thesis
        using Some take by (auto simp: Let_def)
    qed
  qed
qed

lemma claim_wp:
  assumes "tasks_ok s"
  shows "wp (claimTask E h who worker caps version token)
    (\<lambda>r s'. tasks_ok s' \<and> claimed E worker caps (claim_workspace who) token s r s' \<and>
       assertCapabilitiesAllowed who caps s = (Inr (), s)) (\<lambda>_ s'. s' = s) s"
proof (cases "fst (assertCapabilitiesAllowed who caps s)")
  case (Inl e)
  have "assertCapabilitiesAllowed who caps s = (Inl e, s)"
    using Inl by (cases who) (auto simp: throw_if_apply fail_def split: if_splits)
  then show ?thesis by (simp add: claimTask_def) (simp add: wp_def)
next
  case (Inr u)
  have ok: "assertCapabilitiesAllowed who caps s = (Inr (), s)"
    using Inr by (cases who) (auto simp: throw_if_apply fail_def split: if_splits)
  have "wp (claim_loop E h worker caps (claim_workspace who) token 10)
      (\<lambda>r s'. tasks_ok s' \<and> claimed E worker caps (claim_workspace who) token s r s') (\<lambda>_ _. True) s"
    using assms by (intro claim_loop_wp)
  then have "wp (claim_loop E h worker caps (claim_workspace who) token 10)
      (\<lambda>r s'. tasks_ok s' \<and> claimed E worker caps (claim_workspace who) token s r s' \<and>
         assertCapabilitiesAllowed who caps s = (Inr (), s)) (\<lambda>_ _. s = s) s"
    by (rule wp_mono) (simp_all add: ok)
  then show ?thesis
    using ok by (simp add: claimTask_def) (auto simp: wp_def split: prod.splits sum.splits)
qed

end

section \<open>Keeping the queue's constraints\<close>

text \<open>The row an operation holds: leased under the presented token and not expired.\<close>

definition holds_lease :: "env \<Rightarrow> uuid \<Rightarrow> string \<Rightarrow> db \<Rightarrow> task_row \<Rightarrow> bool" where
  "holds_lease E i token s t \<longleftrightarrow>
     find_task i s = Some t \<and> t_state t = Leased \<and> t_lease_token_hash t = Some (sha256Hex E token) \<and>
     (\<forall>x. t_lease_expires_at t = Some x \<longrightarrow> now E < x)"

lemma wp_lock:
  assumes "\<And>t. holds_lease E i token s t \<Longrightarrow> Q t s" and "\<And>e. F e s"
  shows "wp (lockLeasedTask E i token) Q F s"
  using assms by (intro wp_lockLeasedTask) (simp_all add: holds_lease_def)

lemma tasks_ok_update_row:
  assumes ok: "tasks_ok s" and t: "t \<in> set (tasks s)" and id: "\<And>q. t_id (f q) = t_id q" and check: "task_check (f t)"
    and u: "tasks u = map (\<lambda>q. if t_id q = t_id t then f q else q) (tasks s)"
  shows "tasks_ok u"
proof -
  have "tasks_ok (tasks_update (map (\<lambda>q. if t_id q = t_id t then f q else q)) s)"
  proof (rule tasks_ok_update [OF ok id])
    fix q
    assume "q \<in> set (tasks s)" "t_id q = t_id t"
    then have "q = t" using tasks_ok_unique [OF ok _ t] by blast
    then show "task_check (f q)" using check by simp
  qed
  then show ?thesis using u by (simp add: tasks_ok_def)
qed

lemma find_task_update:
  assumes "find_task i s = Some t" and "\<And>q. t_id (f q) = t_id q"
    and u: "tasks u = map (\<lambda>q. if t_id q = i then f q else q) (tasks s)"
  shows "find_task i u = Some (f t)"
proof -
  have "find (\<lambda>q. t_id q = i) rows = Some t \<Longrightarrow>
      find (\<lambda>q. t_id q = i) (map (\<lambda>q. if t_id q = i then f q else q) rows) = Some (f t)" for rows
    using assms(2) by (induction rows) (auto split: if_splits)
  then show ?thesis using assms(1) u by (simp add: find_task_def)
qed

lemma holds_leaseD:
  assumes "tasks_ok s" and "holds_lease E i token s t"
  shows "t \<in> set (tasks s)" and "t_id t = i" and "task_check t" and "t_state t = Leased" and "find_task i s = Some t"
  using assms find_taskD [of i s t] tasks_ok_check [OF assms(1)] by (auto simp: holds_lease_def)

lemma heartbeat_wp:
  assumes ok: "tasks_ok s"
  shows "wp (heartbeatTask E i token progress)
    (\<lambda>r s'. tasks_ok s' \<and> (\<exists>t. holds_lease E i token s t \<and> r = (t_cancel_requested t, now E + lease_ms) \<and>
       find_task i s' = Some (heartbeat_row E progress t))) (\<lambda>_ s'. s' = s) s"
proof -
  have "tasks_ok u \<and> find_task i u = Some (heartbeat_row E progress t)"
    if t: "holds_lease E i token s t" and u: "tasks u = map (\<lambda>q. if t_id q = t_id t then heartbeat_row E progress q else q) (tasks s)" for t u
    using tasks_ok_update_row [OF ok, of t "heartbeat_row E progress"] find_task_update [of i s t "heartbeat_row E progress"]
      holds_leaseD [OF ok t] ok u by simp
  then show ?thesis
    unfolding heartbeatTask_def by (auto intro!: wp_lock)
qed

lemma cancel_wp:
  assumes ok: "tasks_ok s"
  shows "wp (cancelTask E ws i)
    (\<lambda>r s'. tasks_ok s' \<and> applications s' = applications s \<and> application_packets s' = application_packets s \<and>
      (\<exists>t \<in> set (tasks s). t_id t = i \<and> t_workspace_id t = ws \<and>
        (if t_state t = Queued then t_state r = TaskCancelled
         else if t_state t = Leased then r = t \<lparr> t_cancel_requested := True, t_updated_at := now E \<rparr>
         else r = t \<and> s' = s))) (\<lambda>_ s'. s' = s) s"
proof (cases "scoped_find t_workspace_id ws (\<lambda>t. t_id t = i) (tasks s)")
  case None
  then show ?thesis by (simp add: cancelTask_def)
next
  case (Some t)
  from scoped_find_SomeD [OF Some] have t: "t \<in> set (tasks s)" "t_id t = i" "t_workspace_id t = ws" by simp_all
  have check: "task_check t" using tasks_ok_check [OF ok t(1)] .
  let ?c = "\<lambda>t. t \<lparr> t_state := TaskCancelled, t_cancel_requested := True, t_updated_at := now E \<rparr>"
  let ?f = "\<lambda>t. t \<lparr> t_cancel_requested := True, t_updated_at := now E \<rparr>"
  have c: "tasks_ok (tasks_update (map (\<lambda>q. if t_id q = t_id t then ?c q else q)) s)" if "t_state t = Queued"
    using that check by (intro tasks_ok_update_row [OF ok t(1), where f = ?c]) (auto simp: task_check_def)
  have f: "tasks_ok (tasks_update (map (\<lambda>q. if t_id q = t_id t then ?f q else q)) s)"
    using check by (intro tasks_ok_update_row [OF ok t(1), where f = ?f]) (auto simp: task_check_def)
  show ?thesis
    using Some t c f ok by (auto simp: cancelTask_def Let_def)
qed

text \<open>What a worker's failure report leads to: the server requeues a retryable failure
  for later, and otherwise the task is over.\<close>

definition failure_delay :: "env \<Rightarrow> task_row \<Rightarrow> task_failure_code \<Rightarrow> int option \<Rightarrow> rat \<Rightarrow> int" where
  "failure_delay E t code retry_after rnd =
     (let backoff = backoffMs (t_attempt t) rnd in
      case retry_after of Some ms \<Rightarrow> if code = RateLimited then max backoff ms else backoff | None \<Rightarrow> backoff)"

definition failure_handled ::
  "env \<Rightarrow> uuid \<Rightarrow> string \<Rightarrow> task_failure_code \<Rightarrow> bool \<Rightarrow> string \<Rightarrow> int option \<Rightarrow> rat \<Rightarrow> db \<Rightarrow> task_row \<Rightarrow> db \<Rightarrow> bool" where
  "failure_handled E i token code retryable message retry_after rnd s r s' \<longleftrightarrow>
     (\<exists>t. holds_lease E i token s t \<and>
        (if \<not> t_cancel_requested t \<and> isRetryableFailure (t_type t) code retryable (t_attempt t) (t_max_attempts t)
         then r = requeued_row E (failure_delay E t code retry_after rnd) code (truncateMessage message) t
         else t_state r = (if t_cancel_requested t then TaskCancelled else TaskFailed)) \<and>
        find_task i s' = Some r)"

context task_handlers
begin

lemma wp_failTaskRow:
  assumes ok: "tasks_ok s" and t: "holds_lease E i token s t"
    and Q: "\<And>u. tasks_ok u \<Longrightarrow> find_task i u = Some (failed_row E code (truncateMessage message) t) \<Longrightarrow>
      Q (failed_row E code (truncateMessage message) t) u"
    and F: "\<And>e u. F e u"
  shows "wp (failTaskRow E h t code message) Q F s"
proof -
  let ?f = "failed_row E code (truncateMessage message)"
  have "tasks_ok u \<and> find_task i u = Some (?f t)"
    if u: "tasks u = map (\<lambda>q. if t_id q = t_id t then ?f q else q) (tasks s)" for u
    using tasks_ok_update_row [OF ok, of t ?f u] find_task_update [of i s t ?f u] holds_leaseD [OF ok t] ok u by simp
  then show ?thesis
    unfolding failTaskRow_def Let_def using Q F by (auto intro!: wp_failure)
qed

lemma fail_wp:
  assumes ok: "tasks_ok s"
  shows "wp (failTask E h i token code retryable message retry_after rnd)
    (\<lambda>r s'. tasks_ok s' \<and> failure_handled E i token code retryable message retry_after rnd s r s') (\<lambda>_ s'. s' = s) s"
proof -
  let ?m = "truncateMessage message"
  have step: "tasks_ok u \<and> find_task i u = Some (f t)"
    if "holds_lease E i token s t" "task_check (f t)" "\<And>q. t_id (f q) = t_id q"
      and u: "tasks u = map (\<lambda>q. if t_id q = t_id t then f q else q) (tasks s)" for t f u
    using tasks_ok_update_row [OF ok, of t f u] find_task_update [of i s t f u] holds_leaseD [OF ok that(1)] that by simp
  have requeue: "tasks_ok u \<and> failure_handled E i token code retryable message retry_after rnd s
      (requeued_row E (failure_delay E t code retry_after rnd) code ?m t) u"
    if t: "holds_lease E i token s t" and r: "\<not> t_cancel_requested t"
        "isRetryableFailure (t_type t) code retryable (t_attempt t) (t_max_attempts t)"
      and u: "tasks u = map (\<lambda>q. if t_id q = t_id t then requeued_row E (failure_delay E t code retry_after rnd) code ?m q else q) (tasks s)"
    for t u
  proof -
    have "task_check (requeued_row E (failure_delay E t code retry_after rnd) code ?m t)"
      using r(2) holds_leaseD(3) [OF ok t] by (intro check_requeued) (auto simp: isRetryableFailure_def split: if_splits)
    from step [OF t this _ u] show ?thesis using t r unfolding failure_handled_def by auto
  qed
  have cancelled: "tasks_ok u \<and> failure_handled E i token code retryable message retry_after rnd s
      (with_error code ?m False (cancelled_row E t)) u"
    if t: "holds_lease E i token s t" and r: "t_cancel_requested t"
      and u: "tasks u = map (\<lambda>q. if t_id q = t_id t then with_error code ?m False (cancelled_row E q) else q) (tasks s)"
    for t u
  proof -
    have "tasks_ok u \<and> find_task i u = Some (with_error code ?m False (cancelled_row E t))"
      using step [OF t _ _ u] holds_leaseD(3) [OF ok t] by simp
    moreover have "t_state (with_error code ?m False (cancelled_row E t)) = TaskCancelled"
      by (simp add: with_error_def cancelled_row_def)
    ultimately show ?thesis
      using t r unfolding failure_handled_def by (intro conjI exI [of _ t]) simp_all
  qed
  have failed: "failure_handled E i token code retryable message retry_after rnd s (failed_row E code ?m t) u"
    if "holds_lease E i token s t" "\<not> t_cancel_requested t"
       "\<not> isRetryableFailure (t_type t) code retryable (t_attempt t) (t_max_attempts t)"
       "find_task i u = Some (failed_row E code ?m t)" for t u
  proof -
    have "t_state (failed_row E code ?m t) = TaskFailed" by (simp add: failed_row_def)
    then show ?thesis using that unfolding failure_handled_def by (intro exI [of _ t]) simp
  qed
  have body: "failTask E h i token code retryable message retry_after rnd =
     transaction (
       andThen (lockLeasedTask E i token) (\<lambda>t.
         if \<not> (\<not> t_cancel_requested t \<and> isRetryableFailure (t_type t) code retryable (t_attempt t) (t_max_attempts t)) then
           (if t_cancel_requested t then
              andThen (update_task (t_id t) (\<lambda>t. with_error code ?m False (cancelled_row E t)))
                (\<lambda>_. ret (with_error code ?m False (cancelled_row E t)))
            else failTaskRow E h t code message)
         else
           andThen (update_task (t_id t) (requeued_row E (failure_delay E t code retry_after rnd) code ?m))
             (\<lambda>_. ret (requeued_row E (failure_delay E t code retry_after rnd) code ?m t))))"
    by (simp only: failTask_def failure_delay_def Let_def)
  show ?thesis
    unfolding body
    by (simp, intro wp_lock allI impI)
       (auto intro!: wp_failTaskRow [OF ok] simp: requeue cancelled failed)
qed

end

text \<open>A completion under a valid lease either stores the decoded result and hands it to
  the domain, or fails the task.\<close>

definition completed ::
  "env \<Rightarrow> (task_type \<Rightarrow> json \<Rightarrow> task_result option) \<Rightarrow> uuid \<Rightarrow> string \<Rightarrow> json \<Rightarrow> db \<Rightarrow> task_row \<times> bool \<Rightarrow> db \<Rightarrow> bool" where
  "completed E decode i token raw s r s' \<longleftrightarrow>
     (\<exists>t row. holds_lease E i token s t \<and> find_task i s' = Some row \<and>
        (case (if t_type t \<in> set implemented_task_types then decode (t_type t) raw else None) of
           Some result \<Rightarrow> r = (succeeded_row E result t, True) \<and> result_extended (succeeded_row E result t) row
         | None \<Rightarrow> row = fst r \<and> t_state row = TaskFailed \<and> \<not> snd r))"

lemma wp_commit_artifacts:
  assumes "\<And>u. tasks u = tasks s \<Longrightarrow> Q () u"
  shows "wp (commit_artifacts E t token) Q F s"
  using assms by (simp add: commit_artifacts_def)

text \<open>What the sweep does to the leases it takes up.\<close>

definition swept :: "db \<Rightarrow> task_row \<Rightarrow> bool" where
  "swept u t \<longleftrightarrow> (\<exists>t'. find_task (t_id t) u = Some t' \<and> t_state t' \<noteq> Leased \<and>
     (t_type t \<in> set no_retry_task_types \<longrightarrow> t_state t' \<noteq> Queued))"

lemma member_find_task: "tasks_ok s \<Longrightarrow> t \<in> set (tasks s) \<Longrightarrow> find_task (t_id t) s = Some t"
proof -
  assume ok: "tasks_ok s" and t: "t \<in> set (tasks s)"
  obtain u where u: "find_task (t_id t) s = Some u"
    using t by (cases "find_task (t_id t) s") (auto simp: find_task_def find_None_iff)
  have "t = u" using tasks_ok_unique [OF ok t] find_taskD [OF u] by metis
  then show ?thesis using u by simp
qed

context task_handlers
begin

lemma complete_wp:
  assumes ok: "tasks_ok s"
  shows "wp (completeTask E h decode i token raw)
    (\<lambda>r s'. tasks_ok s' \<and> completed E decode i token raw s r s') (\<lambda>_ s'. s' = s) s"
proof -
  have failed: "tasks_ok u \<and> completed E decode i token raw s (failed_row E c m t, False) u"
    if t: "holds_lease E i token s t" and d: "t_type t \<in> set implemented_task_types \<longrightarrow> decode (t_type t) raw = None"
      and u: "tasks_ok u" "find_task i u = Some (failed_row E c m t)" for t c m u
  proof -
    have "t_state (failed_row E c m t) = TaskFailed" by (simp add: failed_row_def)
    then show ?thesis using t d u unfolding completed_def by (intro conjI exI [of _ t] exI [of _ "failed_row E c m t"]) simp_all
  qed
  have fin: "tasks_ok u \<and> completed E decode i token raw s (succeeded_row E result t, True) u"
    if t: "holds_lease E i token s t" and d: "t_type t \<in> set implemented_task_types" "decode (t_type t) raw = Some result"
      and u: "tasks u = map ((\<lambda>q. if t_id q = t_id t then f q else q) \<circ>
        (\<lambda>q. if t_id q = t_id t then succeeded_row E result q else q)) (tasks s)"
      and f: "\<And>q. result_extended q (f q)" for t result u f
  proof -
    let ?g = "\<lambda>q. f (succeeded_row E result q)"
    have id: "t_id (?g q) = t_id q" for q using result_extendedD [OF f] by simp
    have check: "task_check (?g t)" using result_extendedD [OF f] holds_leaseD [OF ok t] by simp
    have u': "tasks u = map (\<lambda>q. if t_id q = t_id t then ?g q else q) (tasks s)" unfolding u by auto
    have "tasks_ok u" by (rule tasks_ok_update_row [OF ok holds_leaseD(1) [OF ok t] id check u'])
    moreover have "find_task i u = Some (?g t)"
      using find_task_update [of i s t ?g u] id u' holds_leaseD [OF ok t] by simp
    ultimately show ?thesis
      using t d f unfolding completed_def by (intro conjI exI [of _ t] exI [of _ "?g t"]) simp_all
  qed
  show ?thesis
    unfolding completeTask_def
    by (simp, intro wp_lock)
       (auto split: option.split intro!: wp_failTaskRow [OF ok] wp_commit_artifacts wp_result
         intro: fin [THEN conjunct1] fin [THEN conjunct2] simp: failed)
qed

lemma reclaim_one_wp:
  assumes ok: "tasks_ok s" and t: "t \<in> set (tasks s)" "t_state t = Leased"
    and Q: "\<And>b u. tasks_ok u \<Longrightarrow> swept u t \<Longrightarrow>
      (\<And>q. t_id q \<noteq> t_id t \<Longrightarrow> q \<in> set (tasks s) \<Longrightarrow> q \<in> set (tasks u)) \<Longrightarrow>
      (\<And>q. t_id q \<noteq> t_id t \<Longrightarrow> swept s q \<Longrightarrow> swept u q) \<Longrightarrow> Q b u"
    and F: "\<And>e u. F e u"
  shows "wp (reclaim_one E h rnd t) Q F s"
proof -
  have check: "task_check t" using tasks_ok_check [OF ok t(1)] .
  have other: "find_task j u = find_task j s"
    if "j \<noteq> t_id t" "\<And>q. t_id (f q) = t_id q" "tasks u = map (\<lambda>q. if t_id q = t_id t then f q else q) (tasks s)" for f j u
  proof -
    have "find (\<lambda>q. t_id q = j) (map (\<lambda>q. if t_id q = t_id t then f q else q) rows) = find (\<lambda>q. t_id q = j) rows" for rows
      using that(1,2) by (induction rows) auto
    then show ?thesis using that(3) by (simp add: find_task_def)
  qed
  have step: "Q b u"
    if u: "tasks u = map (\<lambda>q. if t_id q = t_id t then f q else q) (tasks s)" and f: "\<And>q. t_id (f q) = t_id q"
      "task_check (f t)" "t_state (f t) \<noteq> Leased" "t_type t \<in> set no_retry_task_types \<longrightarrow> t_state (f t) \<noteq> Queued" for f b u
  proof (rule Q)
    show "tasks_ok u" using tasks_ok_update_row [OF ok t(1) f(1,2) u] .
    show "swept u t"
      using find_task_update [OF member_find_task [OF ok t(1)] f(1) u] f(3,4) unfolding swept_def by blast
    show "\<And>q. t_id q \<noteq> t_id t \<Longrightarrow> q \<in> set (tasks s) \<Longrightarrow> q \<in> set (tasks u)"
      unfolding u by (force intro: rev_image_eqI)
    show "\<And>q. t_id q \<noteq> t_id t \<Longrightarrow> swept s q \<Longrightarrow> swept u q"
      using other [OF _ f(1) u] unfolding swept_def by simp
  qed
  let ?m = "expiry_message (t_type t \<in> set no_retry_task_types)"
  let ?over = "\<lambda>t. if t_cancel_requested t then with_error Timeout ?m False (cancelled_row E t) else failed_row E Timeout ?m t"
  have over: "\<And>q. t_id (?over q) = t_id q" "task_check (?over t)" "t_state (?over t) \<noteq> Leased" "t_state (?over t) \<noteq> Queued"
    using check by (simp_all add: with_error_def cancelled_row_def failed_row_def)
       (simp_all add: task_check_def release_lease_def)
  show ?thesis
  proof (cases "t_attempt t \<ge> t_max_attempts t \<or> t_type t \<in> set no_retry_task_types \<or> t_cancel_requested t")
    case True
    then show ?thesis
      unfolding reclaim_one_def Let_def
      using step [of _ ?over] over F by (auto intro!: wp_failure)
  next
    case False
    let ?again = "requeued_row E (backoffMs (t_attempt t) (rnd t)) Timeout
      ''The worker stopped heartbeating; the task was returned to the queue.''"
    have "task_check (?again t)" using False check by (intro check_requeued) simp_all
    moreover have "t_state (?again t) = Queued" by (simp add: requeued_row_def)
    ultimately show ?thesis
      using False step [of _ ?again] by (simp add: reclaim_one_def Let_def)
  qed
qed

lemma reclaim_each_wp:
  assumes "tasks_ok s" and "distinct (map t_id ts)" and "\<And>t. t \<in> set ts \<Longrightarrow> t \<in> set (tasks s) \<and> t_state t = Leased"
  shows "wp (map_each (reclaim_one E h rnd) ts)
    (\<lambda>_ u. tasks_ok u \<and> (\<forall>t \<in> set ts. swept u t) \<and> (\<forall>q. t_id q \<notin> t_id ` set ts \<longrightarrow> swept s q \<longrightarrow> swept u q)) (\<lambda>_ _. True) s"
  using assms
proof (induction ts arbitrary: s)
  case (Cons t ts)
  have ids: "t_id q \<noteq> t_id t" if "q \<in> set ts" for q
    using Cons.prems(2) that by (metis distinct.simps(2) image_eqI list.set_map list.simps(9))
  show ?case
    unfolding map_each.simps wp_andThen
  proof (rule reclaim_one_wp)
    show "tasks_ok s" "t \<in> set (tasks s)" "t_state t = Leased" using Cons.prems by simp_all
  next
    fix b u
    assume u: "tasks_ok u" "swept u t" "\<And>q. t_id q \<noteq> t_id t \<Longrightarrow> q \<in> set (tasks s) \<Longrightarrow> q \<in> set (tasks u)"
       "\<And>q. t_id q \<noteq> t_id t \<Longrightarrow> swept s q \<Longrightarrow> swept u q"
    have "wp (map_each (reclaim_one E h rnd) ts)
      (\<lambda>_ v. tasks_ok v \<and> (\<forall>t \<in> set ts. swept v t) \<and> (\<forall>q. t_id q \<notin> t_id ` set ts \<longrightarrow> swept u q \<longrightarrow> swept v q)) (\<lambda>_ _. True) u"
      using Cons.prems ids u by (intro Cons.IH) auto
    then show "wp (map_each (reclaim_one E h rnd) ts) (\<lambda>ys. wp (ret (b # ys))
        (\<lambda>_ v. tasks_ok v \<and> (\<forall>t \<in> set (t # ts). swept v t) \<and>
           (\<forall>q. t_id q \<notin> t_id ` set (t # ts) \<longrightarrow> swept s q \<longrightarrow> swept v q)) (\<lambda>_ _. True)) (\<lambda>_ _. True) u"
    proof (rule wp_mono, goal_cases)
      case (1 ys v)
      have "t_id t \<notin> t_id ` set ts" using Cons.prems(2) by simp
      then show ?case using 1 u by auto
    qed simp
  qed simp
qed simp

lemma reclaim_wp:
  assumes ok: "tasks_ok s"
  shows "wp (reclaimExpiredLeases E h rnd n)
    (\<lambda>_ u. tasks_ok u \<and> (\<forall>t \<in> set (take n (filter (expired_lease E) (tasks s))). swept u t)) (\<lambda>_ s'. s' = s) s"
proof -
  have rows: "t \<in> set (tasks s) \<and> t_state t = Leased" if "t \<in> set (take n (filter (expired_lease E) (tasks s)))" for t
    using that set_take_subset [of n "filter (expired_lease E) (tasks s)"] by (auto simp: expired_lease_def)
  have "distinct (map t_id (take n (filter (expired_lease E) (tasks s))))"
    using ok by (simp add: tasks_ok_def take_map [symmetric] distinct_map_filter)
  from wp_mono [OF reclaim_each_wp [OF ok this rows, of E rnd]] show ?thesis
    unfolding reclaimExpiredLeases_def by simp
qed

end

section \<open>Invariants across the domains\<close>

text \<open>A predicate that does not look at tasks, artifacts, files or the audit trail, and
  that the domain handlers keep, is kept by every operation of the queue.\<close>

locale domain_invariant =
  fixes h :: task_domains and I :: "db \<Rightarrow> bool"
  assumes result_keeps: "obeys (keeps I) (dom_result h t r)"
    and failure_keeps: "obeys (keeps I) (dom_failure h t c m)"
    and local_tasks: "I (tasks_update f s) = I s"
    and local_files: "I (files_update g s) = I s"
    and local_artifacts: "I (task_artifacts_update k s) = I s"
    and local_audit: "I (audit_events_update l s) = I s"
begin

lemma keeps_update_task: "obeys (keeps I) (update_task i f)"
  unfolding update_task_def by (rule inv.obeys_modify) (simp add: keeps_def local_tasks)

lemma keeps_audit: "obeys (keeps I) (recordAuditEvent ws a b c d m)"
  unfolding recordAuditEvent_def by (rule inv.obeys_modify) (simp add: keeps_def local_audit)

lemma keeps_artifacts: "obeys (keeps I) (commit_artifacts E t token)"
  unfolding commit_artifacts_def
  by (intro inv.obeys_rules inv.obeys_modify) (simp_all add: keeps_def local_artifacts local_files)

lemmas queue_steps = inv.obeys_rules keeps_update_task keeps_audit keeps_artifacts result_keeps failure_keeps

lemma keeps_lock: "obeys (keeps I) (lockLeasedTask E i token)"
  unfolding lockLeasedTask_def by (intro queue_steps)

lemma keeps_claim_loop: "obeys (keeps I) (claim_loop E h worker caps ws token n)"
  by (induction n) (auto simp: Let_def intro!: queue_steps)

lemma keeps_claim: "obeys (keeps I) (claimTask E h who worker caps version token)"
  unfolding claimTask_def
  by (cases who) (auto intro!: queue_steps keeps_claim_loop)

lemma keeps_heartbeat: "obeys (keeps I) (heartbeatTask E i token progress)"
  unfolding heartbeatTask_def by (intro queue_steps keeps_lock)

lemma keeps_failTaskRow: "obeys (keeps I) (failTaskRow E h t code message)"
  unfolding failTaskRow_def Let_def by (intro queue_steps)

lemma keeps_complete: "obeys (keeps I) (completeTask E h decode i token raw)"
  unfolding completeTask_def by (intro queue_steps keeps_lock keeps_failTaskRow)

lemma keeps_fail: "obeys (keeps I) (failTask E h i token code retryable message retry_after rnd)"
  unfolding failTask_def Let_def by (intro queue_steps keeps_lock keeps_failTaskRow)

lemma keeps_cancel: "obeys (keeps I) (cancelTask E ws i)"
  unfolding cancelTask_def Let_def by (intro queue_steps)

lemma keeps_reclaim: "obeys (keeps I) (reclaimExpiredLeases E h rnd n)"
  unfolding reclaimExpiredLeases_def reclaim_one_def Let_def by (intro queue_steps)

end

end
