(* ===== verification/Samples.thy ===== *)
theory Samples
  imports Queue
begin

text \<open>
  Concrete requests, rows and databases at which the properties are exercised: one
  workspace with a job, a CV, an application with a packet, a paired runner, a paired
  extension and a task.  The digest and the URL parser of the sample environment are
  small stand-ins for the two functions the model takes as parameters.
\<close>

definition sample_now :: timestamp where
  "sample_now = 1767225600000"

definition sample_url :: "string \<Rightarrow> url" where
  "sample_url text = \<lparr> url_protocol = ''https:'', url_username = '''', url_password = '''',
     url_host = ''jobs.example'', url_hostname = ''jobs.example'', url_port = '''', url_pathname = ''/'', url_params = [],
     url_origin = ''https://jobs.example'', url_href = text \<rparr>"

definition sample_env :: env where
  "sample_env = \<lparr> now = sample_now, sha256Hex = (\<lambda>text. ''h'' @ take 12 text),
     parse_url = (\<lambda>text. Some (sample_url text)) \<rparr>"

definition sample_job :: job_row where
  "sample_job = \<lparr> j_id = ''job'', j_workspace_id = ''ws'', j_canonical_key = ''greenhouse:board:1'', j_company = ''Acme'',
     j_title = ''Engineer'', j_description_text = ''Build'', j_locations = [], j_salary = None, j_requirements = [],
     j_inferred = [], j_remote_type = Remote, j_eligible_countries = None, j_employment_type = None,
     j_language = None, j_status = JobActive, j_content_hash = ''c'', j_revision = 1, j_published_at = None,
     j_source_updated_at = None, j_first_seen_at = 0, j_last_seen_at = 0, j_last_fetched_at = None, j_saved = False,
     j_excluded_reason = None, j_closed_at = None, j_closed_reason = None, j_title_edited_at = None,
     j_company_edited_at = None, j_updated_at = 0 \<rparr>"

definition sample_job_source :: job_source_row where
  "sample_job_source = \<lparr> js_id = ''js'', js_workspace_id = ''ws'', js_job_id = ''job'', js_source_id = None,
     js_connector = Greenhouse, js_external_id = ''1'', js_source_key = ''board'',
     js_canonical_url = ''https://jobs.example/1'', js_apply_url = Some ''https://jobs.example/apply'',
     js_retrieved_at = 0, js_missing_snapshots = 0, js_missing_since = None, js_last_missing_at = None,
     js_created_at = 0, js_updated_at = 0 \<rparr>"

definition sample_file :: file_row where
  "sample_file = \<lparr> f_id = ''file'', f_workspace_id = ''ws'', f_storage_key = ''key'', f_original_name = ''cv.pdf'',
     f_mime = ''application/pdf'', f_bytes = 1000, f_sha256 = ''sha'', f_state = Ready,
     f_purpose = CvOriginal, f_expires_at = None \<rparr>"

definition sample_resume :: resume_row where
  "sample_resume = \<lparr> r_id = ''cv'', r_workspace_id = ''ws'', r_mode = OriginalMode, r_status = ResumeReady,
     r_job_id = None, r_job_revision = None, r_profile_revision = 1, r_language = En, r_template_id = ''simple'',
     r_page_target = 2, r_document_json = None, r_validation = None, r_input_file_id = Some ''file'',
     r_pdf_file_id = None, r_docx_file_id = None, r_approved_at = None, r_task_id = None, r_error_code = None,
     r_error_message = None, r_created_at = 0, r_updated_at = 0 \<rparr>"

definition sample_answer :: packet_answer where
  "sample_answer = \<lparr> pa_question_key = ''name'', pa_label = Some ''Name'', pa_answer = Some (AString ''Ada''),
     pa_required = True, pa_sensitivity = Standard, pa_provenance = UserEntered, pa_source_id = None \<rparr>"

definition sample_application :: "application_status \<Rightarrow> application_row" where
  "sample_application status = \<lparr> a_id = ''app'', a_workspace_id = ''ws'', a_job_id = ''job'', a_status = status,
     a_revision = 3, a_current_packet_id = Some ''packet'', a_submission_evidence = None,
     a_submitted_at = (if status = Submitted then Some 5 else None), a_observed_form_fingerprint = None,
     a_form_observed_at = None, a_created_at = 0, a_updated_at = 0 \<rparr>"

definition sample_material :: packet_material_input where
  "sample_material = \<lparr> mi_profile_revision = 1, mi_job_id = ''job'', mi_job_revision = 1, mi_resume_id = ''cv'',
     mi_resume_sha256 = Some ''sha'',
     mi_destination = \<lparr> pd_url = ''https://jobs.example/apply'', pd_origin = ''https://jobs.example'',
       pd_connector = Some ''greenhouse'', pd_connector_version = None \<rparr>,
     mi_form_fingerprint = None, mi_answers = [sample_answer] \<rparr>"

definition sample_packet :: packet_row where
  "sample_packet = packet_from_input sample_env ''ws'' ''packet'' ''app'' 1 sample_material"

definition sample_approved :: packet_row where
  "sample_approved = approve_row (sample_now - 1000) (sample_now + 3600000) (p_content_hash sample_packet) sample_packet"

definition sample_device :: "device_kind \<Rightarrow> paired_device_row" where
  "sample_device kind = \<lparr> d_id = ''device'', d_workspace_id = ''ws'', d_kind = kind, d_label = ''laptop'',
     d_pairing_code_hash = None, d_pairing_expires_at = None, d_pairing_consumed_at = Some 1,
     d_token_hash = Some ''hdevice-token'', d_device_public_id = Some ''pub'',
     d_expires_at = Some (sample_now + 1000000), d_revoked_at = None, d_last_seen_at = None,
     d_allowed_origins = [''https://jobs.example''], d_created_at = 0, d_updated_at = 0 \<rparr>"

definition sample_db :: "application_status \<Rightarrow> packet_row \<Rightarrow> device_kind \<Rightarrow> db" where
  "sample_db status p kind = empty_db \<lparr> files := [sample_file], jobs := [sample_job], job_sources := [sample_job_source],
     resumes := [sample_resume], applications := [sample_application status], application_packets := [p],
     paired_devices := [sample_device kind] \<rparr>"

definition sample_session :: fill_session_row where
  "sample_session = new_session sample_env ''ws'' ''session'' ''nonce'' (sample_device Extension)
     (sample_application Filling) sample_approved ''https://jobs.example''"

definition sample_task :: "task_type \<Rightarrow> task_row" where
  "sample_task ty = (new_task sample_env ''ws'' ''task''
     \<lparr> en_type = ty, en_payload = OtherPayload JNull, en_idempotency_key = None,
       en_max_attempts = 3, en_run_after = None, en_input_file_ids = [] \<rparr>)"

definition sample_queue :: "task_row \<Rightarrow> db" where
  "sample_queue t = empty_db \<lparr> tasks := [t] \<rparr>"

definition sample_approve_request :: approve_request where
  "sample_approve_request = \<lparr> ar_expected_revision = 3, ar_packet_id = ''packet'',
     ar_content_hash = p_content_hash sample_packet \<rparr>"

definition sample_posting :: normalized_job where
  "sample_posting = \<lparr> nj_external_id = ''1'', nj_source_key = ''greenhouse:board:1'', nj_canonical_url = ''https://jobs.example/1'',
     nj_apply_url = None, nj_company = ''Acme Inc'', nj_title = ''Senior Engineer'', nj_description_text = ''Build more'',
     nj_published_at = None, nj_updated_at = None, nj_locations = [], nj_remote_type = Remote, nj_eligible_countries = None,
     nj_employment_type = None, nj_salary = None, nj_language = None, nj_requirements = [], nj_inferred = [],
     nj_content_hash = ''new'', nj_retrieved_at = 7 \<rparr>"

definition sample_fetched :: fetch_job_result where
  "sample_fetched = \<lparr> fjr_job = Some sample_posting, fjr_candidates = [], fjr_performed = True, fjr_final_url = None,
     fjr_http_status = Some 200, fjr_content_type = None, fjr_bytes = None, fjr_redirects = 0, fjr_extraction = JsonldJobposting,
     fjr_warnings = [] \<rparr>"

lemmas sample_rows =
  sample_env_def sample_job_def sample_job_source_def sample_file_def sample_resume_def sample_answer_def
  sample_application_def sample_material_def sample_device_def sample_db_def empty_db_def sample_now_def

lemma sample_packet_bound:
  "p_content_hash sample_packet = sha256Hex sample_env (canonicalJson (material_json (packet_material sample_packet ''job'')))"
  "p_content_hash sample_approved = p_content_hash sample_packet"
  "packet_material sample_approved = packet_material sample_packet"
proof -
  have "mi_job_id sample_material = ''job''" by (simp add: sample_material_def)
  then have "packet_material sample_packet ''job'' = buildPacketHashMaterial sample_material"
    using packet_material_from_input [of sample_env "''ws''" "''packet''" "''app''" 1 sample_material]
    by (simp add: sample_packet_def)
  then show "p_content_hash sample_packet =
      sha256Hex sample_env (canonicalJson (material_json (packet_material sample_packet ''job'')))"
    by (simp add: sample_packet_def computeContentHash_def)
qed (simp_all add: sample_approved_def)

lemma sample_db_ok:
  assumes "p = sample_packet \<or> p = sample_approved"
  shows "db_ok (sha256Hex sample_env) (sample_db status p kind)"
  using assms sample_packet_bound
  by (auto simp: db_ok_def tables_ok_def hash_bound_def application_check_def packet_check_def sample_db_def
      sample_application_def submitted_application_statuses_def)
     (auto simp: sample_packet_def sample_approved_def packet_from_input_def approve_row_def)

end
