(* ===== verification/ApplicationProperties.thy ===== *)
theory ApplicationProperties
  imports Samples
begin

text \<open>
  What the application routes promise, each promise with a concrete instance: approval
  binds exactly the content that was reviewed, a packet snapshots the live rows, an
  outcome a person reports never counts as observed, and a discovered question blocks
  the packet it was asked about.
\<close>

section \<open>Content hashes\<close>

text \<open>C29: Two packets with the same content hash have the same hashed content, unless their
  canonical texts are an explicit collision of the digest: nothing about the canonical
  encoding itself can make two different packets hash alike.\<close>

theorem content_hash_binds:
  "computeContentHash E (buildPacketHashMaterial i) = computeContentHash E (buildPacketHashMaterial j) \<longleftrightarrow>
     buildPacketHashMaterial i = buildPacketHashMaterial j \<or>
     canonicalJson (material_json (buildPacketHashMaterial i)) \<noteq> canonicalJson (material_json (buildPacketHashMaterial j)) \<and>
     sha256Hex E (canonicalJson (material_json (buildPacketHashMaterial i))) =
       sha256Hex E (canonicalJson (material_json (buildPacketHashMaterial j)))"
  by (auto simp: computeContentHash_def canonicalJson_eq_iff material_json_inject)

section \<open>Approval\<close>

text \<open>C1: An approval that is granted was asked for the application's current packet, at the
  revision and with the content hash the person reviewed, while nothing about the packet
  was stale or unanswered; it approves exactly that packet and content, and it expires
  within a day.\<close>

theorem approve_sound:
  assumes "db_ok (sha256Hex E) s" and "approveApplication E ws user app_id b s = (Inr c, s')"
  shows "\<exists>app p job expires.
     find_application ws app_id s = Some app \<and> a_status app = ReadyForReview \<and>
     a_revision app = ar_expected_revision b \<and> a_current_packet_id app = Some (ar_packet_id b) \<and>
     find_packet ws (ar_packet_id b) s = Some p \<and> p_content_hash p = ar_content_hash b \<and>
     unresolvedQuestionKeys (p_answers p) = [] \<and>
     find_job ws (a_job_id app) s = Some job \<and> packetStaleness p (live_state E ws job p s) (now E) = [] \<and>
     now E < expires \<and> expires \<le> now E + 24 * 60 * 60 * 1000 \<and>
     find_packet ws (ar_packet_id b) s' = Some (p \<lparr> p_approved_at := Some (now E),
       p_approved_hash := Some (ar_content_hash b), p_expires_at := Some expires \<rparr>) \<and>
     find_application ws app_id s' = Some (app \<lparr> a_status := Approved, a_revision := a_revision app + 1,
       a_updated_at := now E \<rparr>)"
proof -
  have "approve_post E ws app_id b s c s'"
    using wp_okD [OF approve_wp [OF assms(1)] assms(2)] by simp
  then show ?thesis
    unfolding approve_post_def approvable_def
    by (fastforce simp: approve_row_def patch_application_def no_options_def)
qed

lemma sample_review:
  "find_application ''ws'' ''app'' (sample_db status p kind) = Some (sample_application status)"
  "a_status (sample_application status) = status"
  "a_revision (sample_application status) = ar_expected_revision sample_approve_request"
  "a_current_packet_id (sample_application status) = Some (ar_packet_id sample_approve_request)"
  "find_packet ''ws'' (ar_packet_id sample_approve_request) (sample_db status sample_packet kind) = Some sample_packet"
  "p_content_hash sample_packet = ar_content_hash sample_approve_request"
  "unresolvedQuestionKeys (p_answers sample_packet) = []"
  "find_job ''ws'' (a_job_id (sample_application status)) (sample_db status p kind) = Some sample_job"
  "packetStaleness sample_packet (live_state sample_env ''ws'' sample_job sample_packet
     (sample_db status sample_packet kind)) (now sample_env) = []"
  by (simp_all add: sample_approve_request_def sample_packet_def packet_from_input_def sample_rows
      find_defs scoped_find_def unresolvedQuestionKeys_def packetStaleness_def live_state_def profile_revision_def
      attachmentSha256_def attachmentFileId_def destination_of_def provenance_rows_def scoped_filter_def
      parseDestination_def source_connector_version_def trim_def is_space_def sample_url_def)

lemma sample_approvable:
  "approvable sample_env ''ws'' ''app'' sample_approve_request (sample_db ReadyForReview sample_packet Extension)
     (sample_application ReadyForReview) sample_packet"
  unfolding approvable_def using sample_review by blast

lemma sample_approves:
  "\<exists>c s'. approveApplication sample_env ''ws'' ''user'' ''app'' sample_approve_request
     (sample_db ReadyForReview sample_packet Extension) = (Inr c, s')"
proof -
  have "db_ok (sha256Hex sample_env) (sample_db ReadyForReview sample_packet Extension)"
    by (rule sample_db_ok) simp
  from wp_total [OF approve_grants [OF this sample_approvable, of "''user''"]] show ?thesis by blast
qed

theorem approve_sound_witness:
  "\<exists>c s'. approveApplication sample_env ''ws'' ''user'' ''app'' sample_approve_request
       (sample_db ReadyForReview sample_packet Extension) = (Inr c, s') \<and>
     (\<exists>app. find_application ''ws'' ''app'' s' = Some app \<and> a_status app = Approved)"
proof -
  have ok: "db_ok (sha256Hex sample_env) (sample_db ReadyForReview sample_packet Extension)"
    by (rule sample_db_ok) simp
  from sample_approves obtain c s' where run: "approveApplication sample_env ''ws'' ''user'' ''app'' sample_approve_request
       (sample_db ReadyForReview sample_packet Extension) = (Inr c, s')" by blast
  from approve_sound [OF ok run] run show ?thesis by force
qed

text \<open>C31: The approval route refuses nothing it should grant: whenever the request names the
  current packet of an application that waits for review, at its revision and content
  hash, with every required question answered and nothing stale, it succeeds and the
  application is approved.\<close>

theorem approve_complete:
  assumes "db_ok (sha256Hex E) s"
    and "find_application ws app_id s = Some app" and "a_status app = ReadyForReview"
    and "a_revision app = ar_expected_revision b" and "a_current_packet_id app = Some (ar_packet_id b)"
    and "find_packet ws (ar_packet_id b) s = Some p" and "p_content_hash p = ar_content_hash b"
    and "unresolvedQuestionKeys (p_answers p) = []" and "find_job ws (a_job_id app) s = Some job"
    and "packetStaleness p (live_state E ws job p s) (now E) = []"
  shows "\<exists>c s' app'. approveApplication E ws user app_id b s = (Inr c, s') \<and>
     find_application ws app_id s' = Some app' \<and> a_status app' = Approved"
proof -
  have "approvable E ws app_id b s app p" using assms(2-10) by (auto simp: approvable_def)
  from wp_total [OF approve_grants [OF assms(1) this]] show ?thesis
    by (fastforce simp: approve_post_def)
qed

theorem approve_complete_witness:
  "\<exists>c s' app'. approveApplication sample_env ''ws'' ''user'' ''app'' sample_approve_request
       (sample_db ReadyForReview sample_packet LocalRunner) = (Inr c, s') \<and>
     find_application ''ws'' ''app'' s' = Some app' \<and> a_status app' = Approved"
  using approve_complete [OF sample_db_ok [OF disjI1 [OF refl]] sample_review] .

section \<open>Packets and outcomes\<close>

text \<open>A packet the create route stores is a snapshot of the live rows: an application that
  is neither submitted nor cancelled, at the revision the caller read; a finished CV with
  no blocking finding, for this job or for any; the job's own destination; the profile
  and job revisions; and answers that pass every provenance rule.  Its content hash is
  computed from that snapshot, it carries no approval, and the application waits for
  input exactly when a required question is open.  A refused request changes nothing,
  and the only other successful answer is the stored reply to the same request.\<close>

theorem create_packet_sound:
  assumes "db_ok (sha256Hex E) s"
  shows "case createApplicationPacket E ws user new_id header body app_id b s of
     (Inl e, s') \<Rightarrow> s' = s
   | (Inr out, s') \<Rightarrow>
       (s' = s \<and> replayed header ''POST /applications/:id/packets'' ws out s) \<or>
       (\<exists>app i. out = accepted new_id \<and> find_application ws app_id s = Some app \<and>
          a_revision app = cp_expected_revision b \<and>
          a_status app \<notin> set submitted_application_statuses \<and> a_status app \<noteq> Cancelled \<and>
          packet_snapshot E ws app b s i \<and>
          find_packet ws new_id s' = Some (packet_from_input E ws new_id app_id (next_packet_revision ws app_id s) i) \<and>
          (\<exists>app'. find_application ws app_id s' = Some app' \<and> a_current_packet_id app' = Some new_id \<and>
             a_revision app' = a_revision app + 1 \<and>
             a_status app' = (if unresolvedQuestionKeys (cp_answers b) = [] then ReadyForReview else NeedsInput)))"
proof -
  have granted: "\<exists>app i. find_application ws app_id s = Some app \<and>
      a_revision app = cp_expected_revision b \<and>
      a_status app \<notin> set submitted_application_statuses \<and> a_status app \<noteq> Cancelled \<and>
      packet_snapshot E ws app b s i \<and>
      find_packet ws new_id s' = Some (packet_from_input E ws new_id app_id (next_packet_revision ws app_id s) i) \<and>
      (\<exists>app'. find_application ws app_id s' = Some app' \<and> a_current_packet_id app' = Some new_id \<and>
         a_revision app' = a_revision app + 1 \<and>
         a_status app' = (if unresolvedQuestionKeys (cp_answers b) = [] then ReadyForReview else NeedsInput))"
    if c: "created_packet E ws new_id app_id b s s'" for s'
  proof -
    from c obtain app i where app: "find_application ws app_id s = Some app"
        and checks: "a_revision app = cp_expected_revision b" "a_status app \<notin> set submitted_application_statuses"
          "a_status app \<noteq> Cancelled" and snap: "packet_snapshot E ws app b s i"
        and post: "packet_post E ws new_id app i s s'"
      unfolding created_packet_def by blast
    have "a_id app = app_id" "mi_answers i = cp_answers b"
      using find_applicationD [OF app] snap by (auto simp: packet_snapshot_def)
    then have "find_packet ws new_id s' = Some (packet_from_input E ws new_id app_id (next_packet_revision ws app_id s) i)"
        "\<exists>app'. find_application ws app_id s' = Some app' \<and> a_current_packet_id app' = Some new_id \<and>
           a_revision app' = a_revision app + 1 \<and>
           a_status app' = (if unresolvedQuestionKeys (cp_answers b) = [] then ReadyForReview else NeedsInput)"
      using post by (auto simp: packet_post_def packet_target_def)
    then show ?thesis using app checks snap by blast
  qed
  from create_packet_wp [OF assms, of ws user new_id header body app_id b] show ?thesis
    unfolding wp_def replayed_def by (auto split: prod.splits sum.splits dest!: granted)
qed

definition sample_create_request :: create_packet_request where
  "sample_create_request = \<lparr> cp_expected_revision = 3, cp_resume_id = ''cv'', cp_answers = [sample_answer],
     cp_form_fingerprint = None \<rparr>"

lemma sample_creates:
  "fst (createApplicationPacket sample_env ''ws'' ''user'' ''new'' (Some ''0123456789abcdef'') JNull ''app'' sample_create_request
     (sample_db Draft sample_packet Extension)) = Inr (accepted ''new'')"
  by code_simp

theorem create_packet_sound_witness:
  "\<exists>s' app'. createApplicationPacket sample_env ''ws'' ''user'' ''new'' (Some ''0123456789abcdef'') JNull ''app'' sample_create_request
     (sample_db Draft sample_packet Extension) = (Inr (accepted ''new''), s') \<and>
   (s' = sample_db Draft sample_packet Extension \<or>
    find_application ''ws'' ''app'' s' = Some app' \<and> a_status app' = ReadyForReview)"
proof -
  obtain s' where run: "createApplicationPacket sample_env ''ws'' ''user'' ''new'' (Some ''0123456789abcdef'') JNull ''app''
      sample_create_request (sample_db Draft sample_packet Extension) = (Inr (accepted ''new''), s')"
    using sample_creates by (metis prod.collapse)
  have "unresolvedQuestionKeys (cp_answers sample_create_request) = []"
    by (simp add: sample_create_request_def sample_answer_def unresolvedQuestionKeys_def)
  with create_packet_sound [OF sample_db_ok [OF disjI1 [OF refl], of Draft Extension], where ws = "''ws''" and user = "''user''"
      and new_id = "''new''" and header = "Some ''0123456789abcdef''" and body = JNull and app_id = "''app''"
      and b = sample_create_request] run show ?thesis by auto
qed






text \<open>Merging the questions a page asked into a packet's answers keeps one answer per
  question, carries every existing answer over unchanged except that it may become
  required, and leaves every newly discovered required question open, so the packet
  cannot be approved until a person answers it.\<close>

theorem discovered_questions_block:
  assumes "distinct (map pa_question_key answers)"
  shows "distinct (map pa_question_key (mergeDiscoveredQuestions answers asked)) \<and>
    (\<forall>a \<in> set answers. \<exists>q. a \<lparr> pa_required := pa_required a \<or> q \<rparr> \<in> set (mergeDiscoveredQuestions answers asked)) \<and>
    (\<forall>f \<in> set asked. uf_required f \<and> uf_question_key f \<notin> pa_question_key ` set answers \<longrightarrow>
       uf_question_key f \<in> set (unresolvedQuestionKeys (mergeDiscoveredQuestions answers asked)))"
  using mergeDiscoveredQuestions_keys mergeDiscoveredQuestions_keeps [OF assms] mergeDiscoveredQuestions_blocks
  unfolding carried_def by metis

theorem discovered_questions_block_witness:
  "''visa'' \<in> set (unresolvedQuestionKeys (mergeDiscoveredQuestions [sample_answer]
     [\<lparr> uf_question_key = ''visa'', uf_label = None, uf_required = True, uf_reason = NewQuestion, uf_options = [] \<rparr>]))"
  using discovered_questions_block [of "[sample_answer]" "[\<lparr> uf_question_key = ''visa'', uf_label = None,
      uf_required = True, uf_reason = NewQuestion, uf_options = [] \<rparr>]"]
  by (simp add: sample_answer_def)



text \<open>Opening an application never hands a route an approval that has gone stale: when
  the opened application is still approved, with an approved packet, then nothing was
  changed, the row is the stored one, and no staleness reason holds at this instant.\<close>

theorem opened_approval_fresh:
  assumes "find_application ws i s = Some app" and "load_reconciled E ws app s = (Inr c, s')"
    and "a_status (cx_application c) = Approved" and "cx_packet c = Some p" and "p_approved_at p \<noteq> None"
  shows "s' = s \<and> cx_application c = app \<and> packetStaleness p (live_state E ws (cx_job c) p s) (now E) = []"
proof -
  have app: "find_application ws (a_id app) s = Some app"
    using assms(1) find_applicationD [OF assms(1)] by simp
  have "wp (load_reconciled E ws app) (\<lambda>c s'. opened E ws app s c s') (\<lambda>_ _. True) s"
    by (rule wp_load_reconciled [OF app]) simp_all
  from wp_okD [OF this assms(2)] opened_not_stale assms(3-5) show ?thesis by blast
qed

lemma sample_opened:
  "load_reconciled sample_env ''ws'' (sample_application Approved) (sample_db Approved sample_approved kind) =
    (Inr \<lparr> cx_application = sample_application Approved, cx_job = sample_job, cx_packet = Some sample_approved,
       cx_live = Some (live_state sample_env ''ws'' sample_job sample_approved (sample_db Approved sample_approved kind)),
       cx_staleness = [] \<rparr>, sample_db Approved sample_approved kind)"
proof -
  have "packetStaleness sample_approved (live_state sample_env ''ws'' sample_job sample_approved
      (sample_db Approved sample_approved kind)) (now sample_env) = []"
    by (simp add: sample_approved_def approve_row_def sample_packet_def packet_from_input_def sample_rows
      find_defs scoped_find_def packetStaleness_def live_state_def profile_revision_def
      attachmentSha256_def attachmentFileId_def destination_of_def provenance_rows_def scoped_filter_def
      parseDestination_def source_connector_version_def trim_def is_space_def sample_url_def)
  moreover have "find_packet ''ws'' ''packet'' (sample_db Approved sample_approved kind) = Some sample_approved"
      "find_job ''ws'' ''job'' (sample_db Approved sample_approved kind) = Some sample_job"
    by (simp_all add: find_defs scoped_find_def sample_db_def sample_job_def)
       (simp add: sample_approved_def approve_row_def sample_packet_def)
  ultimately show ?thesis
    by (simp add: load_reconciled_def loadApplicationContexts_def reconcileApplications_def reconcile_one_def
        load_context_def sample_application_def List.map_filter_def andThen_def ret_def require_def)
qed

theorem opened_approval_fresh_witness:
  "packetStaleness sample_approved (live_state sample_env ''ws'' sample_job sample_approved
     (sample_db Approved sample_approved Extension)) (now sample_env) = []"
proof -
  have "find_application ''ws'' ''app'' (sample_db Approved sample_approved Extension) = Some (sample_application Approved)"
    by (simp add: find_defs scoped_find_def sample_db_def sample_application_def)
  from opened_approval_fresh [OF this sample_opened] show ?thesis
    by (simp add: sample_application_def) (simp add: sample_approved_def approve_row_def)
qed

text \<open>A runner's report that the form needs input always pauses the application.  When
  it names the packet that is still current and leaves a required question open, the
  packet is superseded by a successor that contains the discovered questions: the
  successor becomes current, unapproved, and the old packet loses its approval.  No
  other report touches a packet, and none moves the application to submitted.\<close>

theorem fill_report_pauses:
  assumes "db_ok (sha256Hex E) s" and "t_payload task = FillPayload i"
    and "find_application (t_workspace_id task) (fi_application_id i) s = Some app"
  shows "case applyFillLocalResult E new_id task r s of
     (Inl e, s') \<Rightarrow> e = Conflict \<and> db_ok (sha256Hex E) s'
   | (Inr _, s') \<Rightarrow> \<exists>app'. find_application (t_workspace_id task) (a_id app) s' = Some app' \<and>
     a_status app' = pause_status (fr_outcome r) \<and> a_status app' \<noteq> Submitted \<and>
     isAllowedApplicationTransition (a_status app) (a_status app') \<and> a_revision app' = a_revision app + 1 \<and>
     (case (if fr_outcome r = FillNeedsInput then discovery (t_workspace_id task) app i r s else None) of
        None \<Rightarrow> a_current_packet_id app' = a_current_packet_id app \<and> application_packets s' = application_packets s
      | Some (p, answers) \<Rightarrow>
          a_current_packet_id app = Some (p_id p) \<and> a_current_packet_id app' = Some new_id \<and>
          unresolvedQuestionKeys answers \<noteq> [] \<and>
          (\<exists>q. find_packet (t_workspace_id task) new_id s' = Some q \<and> p_answers q = answers \<and>
             p_revision q = p_revision p + 1 \<and> p_approved_at q = None) \<and>
          (\<exists>q. find_packet (t_workspace_id task) (p_id p) s' = Some q \<and> p_approved_at q = None))"
proof -
  have facts: "a_current_packet_id app = Some (p_id p) \<and> unresolvedQuestionKeys answers \<noteq> []"
    if "discovery ws app i r s = Some (p, answers)" for ws p answers
    using that by (auto simp: discovery_def Let_def dest: find_packetD split: option.splits if_splits)
  show ?thesis
  proof (rule wp_cases [OF fill_result_wp [OF assms, of new_id r]])
    fix a s'
    assume "db_ok (sha256Hex E) s' \<and> fill_result_post E (t_workspace_id task) new_id app i r s s'"
    then show "\<exists>app'. find_application (t_workspace_id task) (a_id app) s' = Some app' \<and>
       a_status app' = pause_status (fr_outcome r) \<and> a_status app' \<noteq> Submitted \<and>
       isAllowedApplicationTransition (a_status app) (a_status app') \<and> a_revision app' = a_revision app + 1 \<and>
       (case (if fr_outcome r = FillNeedsInput then discovery (t_workspace_id task) app i r s else None) of
          None \<Rightarrow> a_current_packet_id app' = a_current_packet_id app \<and> application_packets s' = application_packets s
        | Some (p, answers) \<Rightarrow>
            a_current_packet_id app = Some (p_id p) \<and> a_current_packet_id app' = Some new_id \<and>
            unresolvedQuestionKeys answers \<noteq> [] \<and>
            (\<exists>q. find_packet (t_workspace_id task) new_id s' = Some q \<and> p_answers q = answers \<and>
               p_revision q = p_revision p + 1 \<and> p_approved_at q = None) \<and>
            (\<exists>q. find_packet (t_workspace_id task) (p_id p) s' = Some q \<and> p_approved_at q = None))"
      unfolding fill_result_post_def
      by (auto simp: pause_not_submitted discovered_packet_def withdraw_approval_def Let_def
          dest: facts split: option.splits if_splits)
  qed simp
qed

definition sample_fill_input :: fill_local_input where
  "sample_fill_input = \<lparr> fi_application_id = ''app'', fi_packet_id = ''packet'', fi_content_hash = ''h'',
     fi_device_id = ''device'', fi_destination = mi_destination sample_material, fi_allowed_origins = [],
     fi_job = \<lparr> fj_job_id = ''job'', fj_company = ''Acme'', fj_title = ''Engineer'' \<rparr>, fi_resume_file_id = None,
     fi_resume_sha256 = None, fi_resume_filename = None, fi_fields = [], fi_known_form_fingerprint = None,
     fi_adapter = None \<rparr>"

definition sample_fill_task :: task_row where
  "sample_fill_task = (sample_task FillLocal) \<lparr> t_payload := FillPayload sample_fill_input \<rparr>"

definition sample_fill_result :: "fill_outcome \<Rightarrow> fill_local_result" where
  "sample_fill_result out = \<lparr> fr_packet_id = ''packet'', fr_filled_fields = [],
     fr_unresolved_fields = [\<lparr> uf_question_key = ''visa'', uf_label = None, uf_required = True, uf_reason = NewQuestion,
       uf_options = [] \<rparr>],
     fr_page_url = None, fr_form_fingerprint = None, fr_outcome = out, fr_adapter = None, fr_adapter_version = None,
     fr_screenshot_file_id = None \<rparr>"

theorem fill_report_pauses_witness:
  "case applyFillLocalResult sample_env ''new'' sample_fill_task (sample_fill_result FillAwaitingUserSubmit)
       (sample_db Filling sample_approved LocalRunner) of
     (Inl e, s') \<Rightarrow> e = Conflict \<and> db_ok (sha256Hex sample_env) s'
   | (Inr _, s') \<Rightarrow> \<exists>app'. find_application ''ws'' ''app'' s' = Some app' \<and> a_status app' = AwaitingUserSubmit"
proof -
  have pay: "t_payload sample_fill_task = FillPayload sample_fill_input" and ws: "t_workspace_id sample_fill_task = ''ws''"
    by (simp_all add: sample_fill_task_def sample_task_def new_task_def)
  have "find_application (t_workspace_id sample_fill_task) (fi_application_id sample_fill_input)
      (sample_db Filling sample_approved LocalRunner) = Some (sample_application Filling)"
    by (simp add: find_defs scoped_find_def sample_db_def sample_application_def sample_fill_input_def ws)
  from fill_report_pauses [OF sample_db_ok [OF disjI2 [OF refl]] pay this, where new_id = "''new''"
      and r = "sample_fill_result FillAwaitingUserSubmit"] show ?thesis
    by (auto simp: ws sample_application_def sample_fill_result_def split: prod.splits sum.splits)
qed

text \<open>Looking at a page always returns normally, and it makes an application submitted
  only when the application was waiting for its person and the look found a coherent
  confirmation; then the stored evidence is marked as observed and carries the page's
  words.  Any other look at a waiting application leaves it unresolved with no new
  evidence, and a look at any other application changes no application at all.\<close>

theorem observation_sound:
  assumes "db_ok (sha256Hex E) s" and "find_application ws (a_id app) s = Some app"
  shows "\<exists>s'. applyObservation E ws app r extra s = (Inr (), s') \<and> application_packets s' = application_packets s \<and>
     (if a_status app \<noteq> AwaitingUserSubmit then applications s' = applications s
      else \<exists>app'. find_application ws (a_id app) s' = Some app' \<and>
        (if observationResultIsCoherent r \<and> os_outcome r = Observed
         then a_status app' = Submitted \<and>
           (\<exists>c e. os_confirmation r = Some c \<and> a_submitted_at app' = Some (oc_observed_at c) \<and>
              a_submission_evidence app' = Some e \<and> se_evidence_type e = AdapterObserved \<and>
              se_confirmation_text e = oc_confirmation_text c \<and> se_reference e = oc_reference c)
         else a_status app' = OutcomeUnknown \<and> a_submission_evidence app' = a_submission_evidence app))"
proof -
  from wp_total [OF observation_wp [OF assms, where r = r and extra = extra and E = E]] obtain s' where
      run: "applyObservation E ws app r extra s = (Inr (), s')" and post: "observation_post E ws app r s s'"
    by auto
  show ?thesis
    using run post unfolding observation_post_def
    by (cases "observationResultIsCoherent r \<and> os_outcome r = Observed"; cases "a_status app = AwaitingUserSubmit")
       (simp_all add: observed_evidence_def, auto)
qed

definition sample_look :: observe_result where
  "sample_look = \<lparr> os_application_id = ''app'', os_packet_id = ''packet'', os_outcome = Observed,
     os_confirmation = Some \<lparr> oc_confirmation_text = Some ''Thank you'', oc_reference = None, oc_url = None, oc_observed_at = 7 \<rparr>,
     os_unknown_reason = None, os_watched_seconds = 5, os_page_url = None, os_adapter = None,
     os_adapter_version = None, os_screenshot_file_id = None \<rparr>"

theorem observation_sound_witness:
  "\<exists>s' app'. applyObservation sample_env ''ws'' (sample_application AwaitingUserSubmit) sample_look []
       (sample_db AwaitingUserSubmit sample_approved Extension) = (Inr (), s') \<and>
     find_application ''ws'' ''app'' s' = Some app' \<and> a_status app' = Submitted"
proof -
  have "find_application ''ws'' (a_id (sample_application AwaitingUserSubmit)) (sample_db AwaitingUserSubmit sample_approved Extension)
      = Some (sample_application AwaitingUserSubmit)"
    by (simp add: find_defs scoped_find_def sample_db_def sample_application_def)
  from observation_sound [OF sample_db_ok [OF disjI2 [OF refl]] this, of sample_look "[]"]
  show ?thesis
    by (auto simp: sample_look_def observationResultIsCoherent_def sample_application_def)
qed

end
