(* ===== verification/Sources.thy ===== *)
theory Sources
  imports Idempotency Settings Text
begin

text \<open>
  Boards and their health: \<open>apps/api/src/discovery/connectors.ts\<close> (endpoints, URL
  normalisation, the canonical key of a posting), \<open>discovery/sources.ts\<close> (what an
  observed success or refusal does to a source) and \<open>routes/sources.ts\<close>.
\<close>

section \<open>Connectors\<close>

definition isBoardConnector :: "connector_id \<Rightarrow> bool" where
  "isBoardConnector c \<longleftrightarrow> c \<in> set board_connector_ids"

fun allowed_base_hosts :: "connector_id \<Rightarrow> string list" where
  "allowed_base_hosts Lever = [''api.lever.co'', ''api.eu.lever.co'']"
| "allowed_base_hosts _ = []"

definition validateBaseUrl :: "env \<Rightarrow> connector_id \<Rightarrow> string option \<Rightarrow> api_error + string option" where
  "validateBaseUrl E connector base =
     (case base of None \<Rightarrow> Inr None
      | Some raw \<Rightarrow>
          if trim raw = '''' then Inr None
          else case parse_url E (trim raw) of None \<Rightarrow> Inl Unprocessable
          | Some u \<Rightarrow>
              if url_protocol u \<noteq> ''https:'' then Inl Unprocessable
              else if url_username u \<noteq> '''' \<or> url_password u \<noteq> '''' then Inl Unprocessable
              else if toLowerCase (url_hostname u) \<notin> set (allowed_base_hosts connector) then Inl Unprocessable
              else Inr (Some (url_protocol u @ ''//'' @ url_host u)))"

definition connectorVersion :: "connector_id \<Rightarrow> string" where
  "connectorVersion c = connector_versions c"

text \<open>\<open>TRACKING_PARAM_PATTERN\<close>: a prefix or a whole name, in any case.\<close>

definition tracking_param :: "string \<Rightarrow> bool" where
  "tracking_param key \<longleftrightarrow>
     (let k = toLowerCase key in
      startsWith k ''utm_'' \<or>
      k \<in> {''fbclid'', ''gclid'', ''msclkid'', ''mc_cid'', ''mc_eid'', ''ref'', ''source''})"

definition kept_params :: "url \<Rightarrow> (string \<times> string) list" where
  "kept_params u = sort_key fst (filter (\<lambda>e. \<not> tracking_param (fst e)) (url_params u))"

definition normalized_path :: "url \<Rightarrow> string" where
  "normalized_path u =
     (if 1 < length (url_pathname u) \<and> endsWith (url_pathname u) ''/'' then butlast (url_pathname u)
      else url_pathname u)"

definition is_http :: "url \<Rightarrow> bool" where
  "is_http u \<longleftrightarrow> url_protocol u = ''http:'' \<or> url_protocol u = ''https:''"

definition normalizeJobUrl :: "env \<Rightarrow> string \<Rightarrow> string" where
  "normalizeJobUrl E value =
     (case parse_url E (trim value) of None \<Rightarrow> trim value
      | Some u \<Rightarrow>
          if \<not> is_http u then trim value
          else
            let query = join ''&'' (map (\<lambda>(k, v). k @ ''='' @ v) (kept_params u))
            in url_protocol u @ ''//'' @ toLowerCase (url_host u) @ normalized_path u @
               (if query = [] then [] else ''?'' @ query))"

definition isHttpUrl :: "env \<Rightarrow> string \<Rightarrow> bool" where
  "isHttpUrl E value = (case parse_url E value of None \<Rightarrow> False | Some u \<Rightarrow> is_http u)"

record job_origin =
  og_connector :: connector_id
  og_source_id :: "uuid option"
  og_board_key :: "string option"

definition canonicalKeyFor :: "env \<Rightarrow> normalized_job \<Rightarrow> job_origin \<Rightarrow> string" where
  "canonicalKeyFor E job origin =
     (case (og_board_key origin, isBoardConnector (og_connector origin)) of
        (Some board, True) \<Rightarrow> connector_text (og_connector origin) @ '':'' @ board @ '':'' @ nj_external_id job
      | _ \<Rightarrow>
          let url = (if isHttpUrl E (nj_canonical_url job) then Some (nj_canonical_url job)
                     else case nj_apply_url job of
                       Some a \<Rightarrow> if isHttpUrl E a then Some a else None
                     | None \<Rightarrow> None)
          in case url of Some u \<Rightarrow> ''url:'' @ normalizeJobUrl E u
             | None \<Rightarrow> ''manual:'' @ nj_content_hash job)"

section \<open>Health\<close>

definition denial_codes :: "string list" where
  "denial_codes = [''ACCESS_DENIED'', ''RATE_LIMITED'', ''FETCH_BLOCKED'']"

definition find_source :: "uuid \<Rightarrow> uuid \<Rightarrow> db \<Rightarrow> source_row option" where
  "find_source ws i s = scoped_find so_workspace_id ws (\<lambda>r. so_id r = i) (sources s)"

interpretation source_table: keyed_table sources sources_update so_workspace_id so_id
  by unfold_locales simp_all

definition loadSource :: "uuid \<Rightarrow> uuid \<Rightarrow> (db, source_row) handler" where
  "loadSource ws i = andThen (gets (find_source ws i)) (\<lambda>row. require row NotFound)"

text \<open>\<open>lockSource\<close> reads the same row; a handler runs in isolation here.\<close>

definition lockSource :: "uuid \<Rightarrow> uuid \<Rightarrow> (db, source_row) handler" where
  "lockSource ws i = andThen (gets (find_source ws i)) (\<lambda>row. require row NotFound)"

definition effectiveHealthState :: "source_row \<Rightarrow> source_health_state" where
  "effectiveHealthState r = (if so_enabled r then so_health_state r else HealthDisabled)"

definition isScannable :: "source_row \<Rightarrow> bool" where
  "isScannable r \<longleftrightarrow> so_enabled r \<and> so_health_state r \<noteq> HealthBlocked"

text \<open>Of the view of a source, what is not a copy of a column: its state and the number
  of distinct jobs seen through it.\<close>

definition source_job_count :: "uuid \<Rightarrow> source_row \<Rightarrow> db \<Rightarrow> nat" where
  "source_job_count ws r s =
     length (remdups (map js_job_id (scoped_filter js_workspace_id ws (\<lambda>q. js_source_id q = Some (so_id r)) (job_sources s))))"

definition toSourceView :: "uuid \<Rightarrow> source_row \<Rightarrow> (db, source_row \<times> source_health_state \<times> nat) handler" where
  "toSourceView ws r = gets (\<lambda>s. (r, effectiveHealthState r, source_job_count ws r s))"

definition update_source :: "uuid \<Rightarrow> uuid \<Rightarrow> (source_row \<Rightarrow> source_row) \<Rightarrow> (db, unit) handler" where
  "update_source ws i f = modify (sources_update (scoped_update so_workspace_id ws (\<lambda>r. so_id r = i) f))"

definition succeeded_source ::
  "env \<Rightarrow> timestamp \<Rightarrow> string option \<Rightarrow> string option \<Rightarrow> source_row \<Rightarrow> source_row" where
  "succeeded_source E seen_at etag modified r =
     r \<lparr> so_health_state := HealthOk, so_consecutive_failures := 0, so_consecutive_denials := 0,
         so_last_error_code := None, so_last_error_at := None, so_health_detail := None,
         so_last_success_at := Some seen_at,
         so_etag := (case etag of None \<Rightarrow> so_etag r | Some x \<Rightarrow> Some x),
         so_last_modified := (case modified of None \<Rightarrow> so_last_modified r | Some x \<Rightarrow> Some x),
         so_updated_at := now E \<rparr>"

definition recordSourceSuccess ::
  "env \<Rightarrow> uuid \<Rightarrow> uuid \<Rightarrow> timestamp \<Rightarrow> string option \<Rightarrow> string option \<Rightarrow> (db, unit) handler" where
  "recordSourceSuccess E ws i seen_at etag modified = update_source ws i (succeeded_source E seen_at etag modified)"

record failure_observation =
  fo_at :: timestamp
  fo_code :: string
  fo_detail :: "string option"
  fo_retry_after_seconds :: "int option"

definition denials_after :: "source_row \<Rightarrow> failure_observation \<Rightarrow> int" where
  "denials_after r ob = (if fo_code ob \<in> set denial_codes then so_consecutive_denials r + 1 else 0)"

definition blocks :: "source_row \<Rightarrow> failure_observation \<Rightarrow> bool" where
  "blocks r ob \<longleftrightarrow> block_after_consecutive_denials \<le> denials_after r ob"

definition next_scan_after_failure :: "source_row \<Rightarrow> failure_observation \<Rightarrow> timestamp option" where
  "next_scan_after_failure r ob =
     (case fo_retry_after_seconds ob of None \<Rightarrow> so_next_scan_after r
      | Some n \<Rightarrow>
          let earliest = fo_at ob + n * 1000
          in case so_next_scan_after r of None \<Rightarrow> Some earliest
             | Some t \<Rightarrow> if t < earliest then Some earliest else Some t)"

definition failed_source :: "env \<Rightarrow> source_row \<Rightarrow> failure_observation \<Rightarrow> source_row \<Rightarrow> source_row" where
  "failed_source E row ob r =
     r \<lparr> so_health_state := (if blocks row ob then HealthBlocked else HealthDegraded),
         so_consecutive_failures := so_consecutive_failures row + 1,
         so_consecutive_denials := denials_after row ob,
         so_last_error_code := Some (slice 64 (fo_code ob)),
         so_last_error_at := Some (fo_at ob),
         so_health_detail :=
           (if blocks row ob then
              Some (''Blocked after '' @ string_of_int (denials_after row ob) @ '' consecutive refusals ('' @
                fo_code ob @ ''). Re-enable the source to scan again.'')
            else map_option (slice 500) (fo_detail ob)),
         so_next_scan_after := next_scan_after_failure row ob,
         so_updated_at := now E \<rparr>"

definition recordSourceFailure :: "env \<Rightarrow> uuid \<Rightarrow> source_row \<Rightarrow> failure_observation \<Rightarrow> (db, unit) handler" where
  "recordSourceFailure E ws row ob = update_source ws (so_id row) (failed_source E row ob)"

section \<open>Routes\<close>

definition listSources :: "uuid \<Rightarrow> (db, (source_row \<times> source_health_state \<times> nat) list) handler" where
  "listSources ws =
     andThen (gets (\<lambda>s. sort_key so_created_at (sort_key so_id (scoped_filter so_workspace_id ws (\<lambda>_. True) (sources s)))))
       (map_each (toSourceView ws))"

definition new_source :: "env \<Rightarrow> uuid \<Rightarrow> uuid \<Rightarrow> connector_id \<Rightarrow> string \<Rightarrow> string option \<Rightarrow> source_row" where
  "new_source E ws new_id connector board base =
     \<lparr> so_id = new_id, so_workspace_id = ws, so_connector = connector,
       so_connector_version = connectorVersion connector, so_board_key = board, so_base_url = base,
       so_enabled = True, so_last_success_at = None, so_last_scan_id = None, so_next_scan_after = None,
       so_health_state = HealthUnknown, so_consecutive_failures = 0, so_consecutive_denials = 0,
       so_last_error_code = None, so_last_error_at = None, so_health_detail = None, so_etag = None,
       so_last_modified = None, so_created_at = now E, so_updated_at = now E \<rparr>"

definition same_board :: "connector_id \<Rightarrow> string \<Rightarrow> source_row \<Rightarrow> bool" where
  "same_board connector board r \<longleftrightarrow> so_connector r = connector \<and> so_board_key r = board"

definition createSource ::
  "env \<Rightarrow> uuid \<Rightarrow> uuid \<Rightarrow> uuid \<Rightarrow> create_source_request \<Rightarrow> (db, source_row \<times> source_health_state \<times> nat) handler" where
  "createSource E ws user new_id b =
     andThen (reads (\<lambda>_. validateBaseUrl E (sq_connector b) (sq_base_url b))) (\<lambda>base.
     andThen (gets (\<lambda>s. scoped_find so_workspace_id ws (same_board (sq_connector b) (trim (sq_board_key b))) (sources s))) (\<lambda>existing.
     andThen (throw_if (existing \<noteq> None) Conflict) (\<lambda>_.
     andThen (transaction (
       andThen (gets (\<lambda>s. new_id \<in> so_id ` set (sources s))) (\<lambda>taken.
       andThen (throw_if taken Conflict) (\<lambda>_.
       andThen (modify (sources_update (insert_row (new_source E ws new_id (sq_connector b) (trim (sq_board_key b)) base)))) (\<lambda>_.
       andThen (recordAuditEvent ws ''source.created'' (Some user) (Some new_id) (Some ''source'')
         (JObj [(''connector'', JStr (connector_text (sq_connector b))), (''has_base_url'', JBool (base \<noteq> None))])) (\<lambda>_.
       ret (new_source E ws new_id (sq_connector b) (trim (sq_board_key b)) base))))))) (\<lambda>created.
     toSourceView ws created))))"

definition patched_source :: "env \<Rightarrow> patch_source_request \<Rightarrow> string option \<Rightarrow> source_row \<Rightarrow> source_row" where
  "patched_source E b base r =
     (let r1 = r \<lparr> so_enabled := (case sp_enabled b of None \<Rightarrow> so_enabled r | Some x \<Rightarrow> x), so_base_url := base \<rparr>;
          r2 = (if sp_enabled b = Some True then
                  r1 \<lparr> so_health_state := HealthUnknown, so_consecutive_failures := 0, so_consecutive_denials := 0,
                       so_last_error_code := None, so_last_error_at := None, so_health_detail := None,
                       so_next_scan_after := None \<rparr>
                else r1);
          r3 = (if base \<noteq> so_base_url r then r2 \<lparr> so_etag := None, so_last_modified := None \<rparr> else r2)
      in r3 \<lparr> so_updated_at := now E \<rparr>)"

fun health_text :: "source_health_state \<Rightarrow> string" where
  "health_text HealthUnknown = ''unknown''"
| "health_text HealthOk = ''ok''"
| "health_text HealthDegraded = ''degraded''"
| "health_text HealthBlocked = ''blocked''"
| "health_text HealthDisabled = ''disabled''"

definition patchSource ::
  "env \<Rightarrow> uuid \<Rightarrow> uuid \<Rightarrow> uuid \<Rightarrow> patch_source_request \<Rightarrow> (db, source_row \<times> source_health_state \<times> nat) handler" where
  "patchSource E ws user i b =
     andThen (transaction (
       andThen (lockSource ws i) (\<lambda>row.
       andThen (reads (\<lambda>_. case sp_base_url b of None \<Rightarrow> Inr (so_base_url row)
         | Some given \<Rightarrow> validateBaseUrl E (so_connector row) given)) (\<lambda>base.
       andThen (update_source ws (so_id row) (patched_source E b base)) (\<lambda>_.
       andThen (recordAuditEvent ws ''source.updated'' (Some user) (Some (so_id row)) (Some ''source'')
         (JObj [(''enabled'', jopt JBool (sp_enabled b)),
                (''reenabled_from'', if sp_enabled b = Some True then JStr (health_text (so_health_state row)) else JNull),
                (''disabled'', JBool (sp_enabled b = Some False)),
                (''base_url_changed'', JBool (base \<noteq> so_base_url row))])) (\<lambda>_.
       lockSource ws (so_id row))))))) (toSourceView ws)"

text \<open>Deleting a source cascades to its scans and clears the reference of the provenance
  rows that came through it (the foreign keys of migration 0002); the jobs stay.\<close>

definition without_source :: "uuid \<Rightarrow> uuid \<Rightarrow> db \<Rightarrow> db" where
  "without_source ws i s = s
     \<lparr> sources := filter (\<lambda>r. \<not> (so_workspace_id r = ws \<and> so_id r = i)) (sources s),
       scans := filter (\<lambda>r. \<not> (sn_workspace_id r = ws \<and> sn_source_id r = i)) (scans s),
       job_sources := scoped_update js_workspace_id ws (\<lambda>r. js_source_id r = Some i)
         (\<lambda>r. r \<lparr> js_source_id := None \<rparr>) (job_sources s) \<rparr>"

definition deleteSource :: "uuid \<Rightarrow> uuid \<Rightarrow> uuid \<Rightarrow> (db, unit) handler" where
  "deleteSource ws user i =
     transaction (
       andThen (lockSource ws i) (\<lambda>row.
       andThen (gets (\<lambda>s. length (scoped_filter js_workspace_id ws (\<lambda>r. js_source_id r = Some (so_id row)) (job_sources s)))) (\<lambda>kept.
       andThen (modify (without_source ws (so_id row))) (\<lambda>_.
       andThen (recordDeletion ws DelSource (Some (so_id row)) UserRequest) (\<lambda>_.
       recordAuditEvent ws ''source.deleted'' (Some user) (Some (so_id row)) (Some ''source'')
         (JObj [(''connector'', JStr (connector_text (so_connector row))), (''provenance_kept'', JNum (int kept))]))))))"

section \<open>What discovery leaves alone\<close>

lemma read_only_loadSource: "read_only (loadSource ws i)"
  unfolding loadSource_def by (intro frame.obeys_rules)

lemma scoped_lockSource [handler_steps]: "scoped ws (lockSource ws i)"
  unfolding lockSource_def by (intro scope.obeys_rules)

lemma scoped_loadSource [handler_steps]: "scoped ws (loadSource ws i)"
  unfolding loadSource_def by (intro scope.obeys_rules)

lemma scoped_toSourceView [handler_steps]: "scoped ws (toSourceView ws r)"
  unfolding toSourceView_def by (intro scope.obeys_rules)

lemma source_rows_simps [simp]:
  "so_workspace_id (succeeded_source E t etag modified r) = so_workspace_id r"
  "so_id (succeeded_source E t etag modified r) = so_id r"
  "so_workspace_id (failed_source E row ob r) = so_workspace_id r"
  "so_id (failed_source E row ob r) = so_id r"
  "so_workspace_id (patched_source E b base r) = so_workspace_id r"
  "so_id (patched_source E b base r) = so_id r"
  "so_connector (patched_source E b base r) = so_connector r"
  "so_board_key (patched_source E b base r) = so_board_key r"
  by (simp_all add: succeeded_source_def failed_source_def patched_source_def Let_def)

lemma scoped_update_source:
  "(\<And>r. so_workspace_id (f r) = so_workspace_id r) \<Longrightarrow> scoped ws (update_source ws i f)"
  unfolding update_source_def by (rule scoped_modify) (simp_all add: outside_def)

lemma scoped_recordSourceSuccess [handler_steps]: "scoped ws (recordSourceSuccess E ws i t etag modified)"
  unfolding recordSourceSuccess_def by (rule scoped_update_source) simp

lemma scoped_recordSourceFailure [handler_steps]: "scoped ws (recordSourceFailure E ws row ob)"
  unfolding recordSourceFailure_def by (rule scoped_update_source) simp

lemma foreign_rows_drop:
  "foreign_rows owner ws (filter (\<lambda>r. owner r = ws \<longrightarrow> P r) rows) = foreign_rows owner ws rows"
  by (induction rows) (auto simp: foreign_rows_def)

lemma scoped_listSources [handler_steps]: "scoped ws (listSources ws)"
  unfolding listSources_def by (intro scope.obeys_rules scoped_toSourceView)

lemma scoped_createSource [handler_steps]: "scoped ws (createSource E ws user new_id b)"
  unfolding createSource_def
  by (intro scope.obeys_rules scoped_recordAuditEvent scoped_toSourceView scoped_modify)
     (simp_all add: outside_def new_source_def)

lemma scoped_patchSource [handler_steps]: "scoped ws (patchSource E ws user i b)"
  unfolding patchSource_def
  by (intro scope.obeys_rules scoped_recordAuditEvent scoped_toSourceView scoped_lockSource scoped_update_source) simp

lemma scoped_deleteSource [handler_steps]: "scoped ws (deleteSource ws user i)"
  unfolding deleteSource_def
  by (intro scope.obeys_rules scoped_recordAuditEvent scoped_recordDeletion scoped_lockSource scoped_modify)
     (simp_all add: outside_def without_source_def foreign_rows_drop)

section \<open>Canonical URLs\<close>

lemma kept_params_tracking: "(k, v) \<in> set (kept_params u) \<longleftrightarrow> (k, v) \<in> set (url_params u) \<and> \<not> tracking_param k"
  by (auto simp: kept_params_def)

text \<open>The normal form does not depend on the tracking parameters, and for distinct
  names it does not depend on the order of the parameters either.\<close>

definition stated_params :: "url \<Rightarrow> (string \<times> string) list" where
  "stated_params u = filter (\<lambda>e. \<not> tracking_param (fst e)) (url_params u)"

lemma kept_params_perm:
  assumes "mset (stated_params u) = mset (stated_params v)" and "distinct (map fst (stated_params u))"
  shows "kept_params u = kept_params v"
proof -
  have "mset (map fst (stated_params v)) = mset (map fst (stated_params u))" using assms(1) by simp
  then have "distinct (map fst (stated_params v))" using assms(2) mset_eq_imp_distinct_iff by blast
  then have "sort_key fst (stated_params u) = sort_key fst (stated_params v)"
    by (intro sort_key_inj_key_eq) (use assms mset_eq_setD [OF assms(1)] in \<open>simp_all add: distinct_map\<close>)
  then show ?thesis by (simp add: kept_params_def stated_params_def)
qed

lemma normalizeJobUrl_equal:
  assumes "parse_url E (trim a) = Some u" and "parse_url E (trim b) = Some v" and "is_http u"
    and "url_protocol v = url_protocol u" and "toLowerCase (url_host v) = toLowerCase (url_host u)"
    and "normalized_path v = normalized_path u" and "kept_params v = kept_params u"
  shows "normalizeJobUrl E a = normalizeJobUrl E b"
  using assms by (simp add: normalizeJobUrl_def is_http_def Let_def)

section \<open>The constraints of a source\<close>

text \<open>The clauses of \<open>sources\<close> (migration 0002) and what the health rules add: a source is
  blocked exactly when it has refused at least three times in a row, and the state
  \<open>disabled\<close> is only ever computed, never stored.\<close>

definition source_check :: "source_row \<Rightarrow> bool" where
  "source_check r \<longleftrightarrow>
     0 \<le> so_consecutive_failures r \<and> 0 \<le> so_consecutive_denials r \<and>
     so_health_state r \<noteq> HealthDisabled \<and>
     (so_health_state r = HealthBlocked \<longleftrightarrow> block_after_consecutive_denials \<le> so_consecutive_denials r)"

definition board_of :: "source_row \<Rightarrow> uuid \<times> connector_id \<times> string" where
  "board_of r = (so_workspace_id r, so_connector r, so_board_key r)"

definition sources_ok :: "db \<Rightarrow> bool" where
  "sources_ok s \<longleftrightarrow>
     distinct (map so_id (sources s)) \<and> distinct (map board_of (sources s)) \<and> list_all source_check (sources s)"

lemma check_succeeded: "source_check (succeeded_source E t etag modified r)"
  by (simp add: source_check_def succeeded_source_def block_after_consecutive_denials_def)

lemma check_failed: "source_check row \<Longrightarrow> source_check (failed_source E row ob r)"
  by (simp add: source_check_def failed_source_def blocks_def denials_after_def)

lemma check_patched: "source_check r \<Longrightarrow> source_check (patched_source E b base r)"
  by (simp add: source_check_def patched_source_def Let_def block_after_consecutive_denials_def)

lemma check_new: "source_check (new_source E ws i c board base)"
  by (simp add: source_check_def new_source_def block_after_consecutive_denials_def)

lemma board_simps [simp]:
  "board_of (succeeded_source E t etag modified r) = board_of r"
  "board_of (failed_source E row ob r) = board_of r"
  "board_of (patched_source E b base r) = board_of r"
  by (simp_all add: board_of_def) (simp_all add: succeeded_source_def failed_source_def)

lemma sources_ok_update:
  assumes "sources_ok s" and "\<And>r. so_id (f r) = so_id r" and "\<And>r. board_of (f r) = board_of r"
    and "\<And>r. source_check r \<Longrightarrow> source_check (f r)"
  shows "sources_ok (sources_update (scoped_update so_workspace_id ws P f) s)"
proof -
  have "list_all source_check (scoped_update so_workspace_id ws P f (sources s))"
    using assms(1,4) by (auto simp: sources_ok_def list_all_iff scoped_update_def)
  then show ?thesis using assms by (simp add: sources_ok_def map_scoped_update)
qed

lemma sources_ok_cong: "sources s' = sources s \<Longrightarrow> sources_ok s' = sources_ok s"
  by (simp add: sources_ok_def)

lemma find_sourceD: "find_source ws i s = Some r \<Longrightarrow> r \<in> set (sources s) \<and> so_workspace_id r = ws \<and> so_id r = i"
  unfolding find_source_def by (drule scoped_find_SomeD) simp

lemma sources_ok_find: "sources_ok s \<Longrightarrow> find_source ws i s = Some r \<Longrightarrow> source_check r"
  using find_sourceD by (fastforce simp: sources_ok_def list_all_iff)

lemma wp_update_source [simp]:
  "wp (update_source ws i f) Q F = (\<lambda>s. Q () (sources_update (scoped_update so_workspace_id ws (\<lambda>r. so_id r = i) f) s))"
  by (simp add: update_source_def)

lemma wp_lockSource [simp]:
  "wp (lockSource ws i) Q F = (\<lambda>s. case find_source ws i s of None \<Rightarrow> F NotFound s | Some r \<Rightarrow> Q r s)"
  by (rule ext) (simp add: lockSource_def)

lemma wp_loadSource [simp]:
  "wp (loadSource ws i) Q F = (\<lambda>s. case find_source ws i s of None \<Rightarrow> F NotFound s | Some r \<Rightarrow> Q r s)"
  by (rule ext) (simp add: loadSource_def)

lemma sources_ok_success:
  "sources_ok s \<Longrightarrow> wp (recordSourceSuccess E ws i t etag modified) (\<lambda>_. sources_ok) F s"
  by (simp add: recordSourceSuccess_def sources_ok_update check_succeeded)

lemma sources_ok_failure:
  assumes "sources_ok s" and "source_check row"
  shows "wp (recordSourceFailure E ws row ob) (\<lambda>_. sources_ok) F s"
  using assms by (simp add: recordSourceFailure_def sources_ok_update check_failed)

lemma sources_ok_insert:
  assumes "sources_ok s" and "source_check r" and "so_id r \<notin> so_id ` set (sources s)"
    and "scoped_find so_workspace_id (so_workspace_id r) (same_board (so_connector r) (so_board_key r)) (sources s) = None"
  shows "sources_ok (sources_update (insert_row r) s)"
proof -
  have "board_of r \<notin> board_of ` set (sources s)"
    using assms(4) by (auto simp: board_of_def scoped_find_None same_board_def)
  then show ?thesis using assms by (simp add: sources_ok_def insert_row_def)
qed

lemma create_source_wp:
  assumes "sources_ok s"
  shows "wp (createSource E ws user new_id b) (\<lambda>_. sources_ok) (\<lambda>_ s'. s' = s) s"
proof -
  have ins: "sources_ok (audit_events_update f (sources_update (insert_row (new_source E ws new_id c board base)) s))"
    if "scoped_find so_workspace_id ws (same_board c board) (sources s) = None" "new_id \<notin> so_id ` set (sources s)"
    for c board base f
    using sources_ok_insert [OF assms check_new, of E ws new_id c board base] that
    by (simp add: sources_ok_def) (simp add: new_source_def)
  show ?thesis
    by (auto simp: createSource_def toSourceView_def ins split: sum.split)
qed

lemma patch_source_wp:
  assumes "sources_ok s"
  shows "wp (patchSource E ws user i b) (\<lambda>_. sources_ok) (\<lambda>_ s'. s' = s) s"
proof -
  have "sources_ok (audit_events_update f (sources_update (scoped_update so_workspace_id ws P (patched_source E b base)) s))"
    for f P base
    using sources_ok_update [OF assms, of "patched_source E b base" ws P] check_patched
    by (simp add: sources_ok_def)
  then show ?thesis
    by (auto simp: patchSource_def toSourceView_def split: sum.split option.split)
qed

lemma delete_source_wp:
  assumes "sources_ok s"
  shows "wp (deleteSource ws user i) (\<lambda>_. sources_ok) (\<lambda>_ s'. s' = s) s"
proof -
  have "sources_ok (audit_events_update f (deletion_ledger_update g (without_source ws j s)))" for f g j
    using assms by (auto simp: sources_ok_def without_source_def distinct_map_filter list_all_iff)
  then show ?thesis
    by (auto simp: deleteSource_def recordDeletion_def split: option.split)
qed

text \<open>The waiting time a board asks for is never shortened by a later failure.\<close>

lemma next_scan_monotone:
  "so_next_scan_after r = Some t \<Longrightarrow> \<exists>u. next_scan_after_failure r ob = Some u \<and> t \<le> u"
  by (auto simp: next_scan_after_failure_def Let_def split: option.split)

lemma retry_after_respected:
  "fo_retry_after_seconds ob = Some n \<Longrightarrow> \<exists>u. next_scan_after_failure r ob = Some u \<and> fo_at ob + n * 1000 \<le> u"
  by (auto simp: next_scan_after_failure_def Let_def split: option.split)

section \<open>The canonical key\<close>

lemma colon_prefix:
  assumes "CHR '':'' \<notin> set a" and "CHR '':'' \<notin> set b" and "a @ '':'' @ x = b @ '':'' @ y"
  shows "a = b \<and> x = y"
  using assms by (induction a arbitrary: b) (case_tac b; auto)+

text \<open>Two postings of boards have the same key exactly when they are the same
  requisition of the same board.  A board key has no colon, by the pattern of its
  schema.\<close>

lemma canonicalKeyFor_board:
  assumes "isBoardConnector (og_connector o1)" and "isBoardConnector (og_connector o2)"
    and "og_board_key o1 = Some b1" and "og_board_key o2 = Some b2"
    and "CHR '':'' \<notin> set b1" and "CHR '':'' \<notin> set b2"
  shows "canonicalKeyFor E j1 o1 = canonicalKeyFor E j2 o2 \<longleftrightarrow>
     og_connector o1 = og_connector o2 \<and> b1 = b2 \<and> nj_external_id j1 = nj_external_id j2"
proof -
  have inj: "connector_text c = connector_text d \<longleftrightarrow> c = d" for c d by (cases c; cases d) simp_all
  have free: "CHR '':'' \<notin> set (connector_text c)" for c by (cases c) simp_all
  have "connector_text (og_connector o1) @ '':'' @ b1 @ '':'' @ nj_external_id j1 =
      connector_text (og_connector o2) @ '':'' @ b2 @ '':'' @ nj_external_id j2 \<longleftrightarrow>
      og_connector o1 = og_connector o2 \<and> b1 = b2 \<and> nj_external_id j1 = nj_external_id j2"
    using colon_prefix [OF free free] colon_prefix [OF assms(5,6)] inj by metis
  then show ?thesis using assms(1-4) by (simp add: canonicalKeyFor_def)
qed

end
