(* ===== verification/Jobs.thy ===== *)
theory Jobs
  imports Sources
begin

text \<open>
  \<open>apps/api/src/discovery/jobs.ts\<close>: the deduplicating upsert every fetched posting goes
  through, and the duplicate candidates shown to the user.  A posting finds its job by
  its source key, by the canonical key, by the destination it applies to, or by the
  requisition; only the identity a job was created under may rewrite its content.
\<close>

section \<open>Finding the job of a posting\<close>

datatype link_reason = SameSourceKey | SameCanonicalKey | SameApplyUrl | SameRequisition

record upsert_outcome =
  uo_job_id :: uuid
  uo_created :: bool
  uo_updated :: bool
  uo_reopened :: bool
  uo_linked_by :: "link_reason option"

definition destinationUrl :: "env \<Rightarrow> string option \<Rightarrow> string \<Rightarrow> string option" where
  "destinationUrl E apply_url canonical_url =
     (let stated = (case apply_url of None \<Rightarrow> None
                    | Some a \<Rightarrow> if trim a \<noteq> [] \<and> isHttpUrl E a then Some a else None);
          url = (case stated of Some a \<Rightarrow> Some a
                 | None \<Rightarrow> if isHttpUrl E canonical_url then Some canonical_url else None)
      in map_option (normalizeJobUrl E) url)"

definition hostOf :: "env \<Rightarrow> string \<Rightarrow> string option" where
  "hostOf E u = map_option (\<lambda>p. toLowerCase (url_host p)) (parse_url E u)"

definition by_source_key :: "uuid \<Rightarrow> string \<Rightarrow> db \<Rightarrow> job_source_row option" where
  "by_source_key ws key s = scoped_find js_workspace_id ws (\<lambda>r. js_source_key r = key) (job_sources s)"

definition by_canonical_key :: "uuid \<Rightarrow> string \<Rightarrow> db \<Rightarrow> job_row option" where
  "by_canonical_key ws key s = scoped_find j_workspace_id ws (\<lambda>r. j_canonical_key r = key) (jobs s)"

definition mentions_host :: "string \<Rightarrow> job_source_row \<Rightarrow> bool" where
  "mentions_host host r \<longleftrightarrow>
     (let pattern = ''%//'' @ host @ ''/%'' in
      (case js_apply_url r of None \<Rightarrow> False | Some a \<Rightarrow> ilike pattern a) \<or> ilike pattern (js_canonical_url r))"

definition by_destination :: "env \<Rightarrow> uuid \<Rightarrow> normalized_job \<Rightarrow> db \<Rightarrow> job_source_row option" where
  "by_destination E ws job s =
     (case destinationUrl E (nj_apply_url job) (nj_canonical_url job) of None \<Rightarrow> None
      | Some destination \<Rightarrow>
          (case hostOf E destination of None \<Rightarrow> None
           | Some host \<Rightarrow>
               find (\<lambda>r. destinationUrl E (js_apply_url r) (js_canonical_url r) = Some destination)
                 (sort_key js_created_at (scoped_filter js_workspace_id ws (mentions_host host) (job_sources s)))))"

definition by_requisition :: "uuid \<Rightarrow> connector_id \<Rightarrow> string \<Rightarrow> db \<Rightarrow> job_source_row option" where
  "by_requisition ws connector external s =
     (if isBoardConnector connector then
        (case sort_key js_created_at (scoped_filter js_workspace_id ws
             (\<lambda>r. js_connector r = connector \<and> js_external_id r = external) (job_sources s)) of
           [] \<Rightarrow> None
         | r # _ \<Rightarrow> Some r)
      else None)"

definition job_of :: "uuid \<Rightarrow> job_source_row option \<Rightarrow> db \<Rightarrow> job_row option" where
  "job_of ws r s = (case r of None \<Rightarrow> None | Some q \<Rightarrow> find_job ws (js_job_id q) s)"

definition findExistingJob ::
  "env \<Rightarrow> uuid \<Rightarrow> normalized_job \<Rightarrow> string \<Rightarrow> job_origin \<Rightarrow> db \<Rightarrow> (job_row \<times> link_reason) option" where
  "findExistingJob E ws job canonical_key origin s =
     (case job_of ws (by_source_key ws (nj_source_key job) s) s of
        Some j \<Rightarrow> Some (j, SameSourceKey)
      | None \<Rightarrow>
     (case by_canonical_key ws canonical_key s of
        Some j \<Rightarrow> Some (j, SameCanonicalKey)
      | None \<Rightarrow>
     (case job_of ws (by_destination E ws job s) s of
        Some j \<Rightarrow> Some (j, SameApplyUrl)
      | None \<Rightarrow>
     (case job_of ws (by_requisition ws (og_connector origin) (nj_external_id job) s) s of
        Some j \<Rightarrow> Some (j, SameRequisition)
      | None \<Rightarrow> None))))"

section \<open>Writing it\<close>

text \<open>The columns a source states.  A field the user corrected is left alone.\<close>

definition sourceContent :: "normalized_job \<Rightarrow> bool \<Rightarrow> bool \<Rightarrow> job_row \<Rightarrow> job_row" where
  "sourceContent job title_edited company_edited r =
     r \<lparr> j_company := (if company_edited then j_company r else nj_company job),
         j_title := (if title_edited then j_title r else nj_title job),
         j_description_text := nj_description_text job, j_locations := nj_locations job,
         j_salary := nj_salary job, j_requirements := nj_requirements job, j_inferred := nj_inferred job,
         j_remote_type := nj_remote_type job, j_eligible_countries := nj_eligible_countries job,
         j_employment_type := nj_employment_type job, j_language := nj_language job,
         j_content_hash := nj_content_hash job, j_published_at := nj_published_at job,
         j_source_updated_at := nj_updated_at job \<rparr>"

definition new_job :: "env \<Rightarrow> uuid \<Rightarrow> uuid \<Rightarrow> string \<Rightarrow> normalized_job \<Rightarrow> timestamp \<Rightarrow> job_row" where
  "new_job E ws new_id key job seen_at =
     \<lparr> j_id = new_id, j_workspace_id = ws, j_canonical_key = key, j_company = nj_company job,
       j_title = nj_title job, j_description_text = nj_description_text job,
       j_locations = nj_locations job, j_salary = nj_salary job, j_requirements = nj_requirements job,
       j_inferred = nj_inferred job, j_remote_type = nj_remote_type job,
       j_eligible_countries = nj_eligible_countries job, j_employment_type = nj_employment_type job,
       j_language = nj_language job, j_status = JobActive, j_content_hash = nj_content_hash job,
       j_revision = 1, j_published_at = nj_published_at job, j_source_updated_at = nj_updated_at job,
       j_first_seen_at = seen_at, j_last_seen_at = seen_at, j_last_fetched_at = Some (nj_retrieved_at job),
       j_saved = False, j_excluded_reason = None, j_closed_at = None, j_closed_reason = None,
       j_title_edited_at = None, j_company_edited_at = None, j_updated_at = now E \<rparr>"

definition reopens :: "job_row \<Rightarrow> bool" where
  "reopens r \<longleftrightarrow> j_status r \<noteq> JobActive \<and> j_closed_reason r \<noteq> Some ClosedByUser"

definition rewrites_content :: "string \<Rightarrow> normalized_job \<Rightarrow> job_row \<Rightarrow> bool" where
  "rewrites_content key job r \<longleftrightarrow> j_canonical_key r = key \<and> j_content_hash r \<noteq> nj_content_hash job"

definition seen_job :: "env \<Rightarrow> string \<Rightarrow> normalized_job \<Rightarrow> timestamp \<Rightarrow> job_row \<Rightarrow> job_row \<Rightarrow> job_row" where
  "seen_job E key job seen_at existing r =
     (let r1 = (if rewrites_content key job existing
                then (sourceContent job (j_title_edited_at existing \<noteq> None) (j_company_edited_at existing \<noteq> None) r)
                       \<lparr> j_revision := j_revision r + 1 \<rparr>
                else r);
          r2 = (if reopens existing then r1 \<lparr> j_status := JobActive, j_closed_at := None, j_closed_reason := None \<rparr>
                else r1)
      in r2 \<lparr> j_last_seen_at := max (j_last_seen_at r) seen_at,
              j_last_fetched_at := Some (case j_last_fetched_at r of None \<Rightarrow> nj_retrieved_at job
                                         | Some t \<Rightarrow> max t (nj_retrieved_at job)),
              j_updated_at := now E \<rparr>)"

definition new_provenance :: "env \<Rightarrow> uuid \<Rightarrow> uuid \<Rightarrow> uuid \<Rightarrow> normalized_job \<Rightarrow> job_origin \<Rightarrow> job_source_row" where
  "new_provenance E ws new_id job_id job origin =
     \<lparr> js_id = new_id, js_workspace_id = ws, js_job_id = job_id, js_source_id = og_source_id origin,
       js_connector = og_connector origin, js_external_id = nj_external_id job,
       js_source_key = nj_source_key job, js_canonical_url = nj_canonical_url job,
       js_apply_url = nj_apply_url job, js_retrieved_at = nj_retrieved_at job, js_missing_snapshots = 0,
       js_missing_since = None, js_last_missing_at = None, js_created_at = now E, js_updated_at = now E \<rparr>"

definition seen_provenance :: "env \<Rightarrow> uuid \<Rightarrow> normalized_job \<Rightarrow> job_origin \<Rightarrow> job_source_row \<Rightarrow> job_source_row" where
  "seen_provenance E job_id job origin r =
     r \<lparr> js_job_id := job_id, js_source_id := og_source_id origin, js_connector := og_connector origin,
         js_external_id := nj_external_id job, js_canonical_url := nj_canonical_url job,
         js_apply_url := nj_apply_url job, js_retrieved_at := nj_retrieved_at job,
         js_missing_snapshots := 0, js_missing_since := None, js_last_missing_at := None,
         js_updated_at := now E \<rparr>"

text \<open>The insert with its \<open>ON CONFLICT\<close> clause.\<close>

definition upsert_provenance ::
  "env \<Rightarrow> uuid \<Rightarrow> uuid \<Rightarrow> uuid \<Rightarrow> normalized_job \<Rightarrow> job_origin \<Rightarrow> (db, unit) handler" where
  "upsert_provenance E ws new_id job_id job origin =
     andThen (gets (by_source_key ws (nj_source_key job))) (\<lambda>found.
       case found of
         Some _ \<Rightarrow> modify (job_sources_update (scoped_update js_workspace_id ws
           (\<lambda>r. js_source_key r = nj_source_key job) (seen_provenance E job_id job origin)))
       | None \<Rightarrow>
           andThen (gets (\<lambda>s. new_id \<in> js_id ` set (job_sources s))) (\<lambda>taken.
           andThen (throw_if taken Conflict) (\<lambda>_.
           modify (job_sources_update (insert_row (new_provenance E ws new_id job_id job origin))))))"

definition upsertNormalizedJob ::
  "env \<Rightarrow> uuid \<Rightarrow> uuid \<Rightarrow> uuid \<Rightarrow> normalized_job \<Rightarrow> job_origin \<Rightarrow> timestamp \<Rightarrow> (db, upsert_outcome) handler" where
  "upsertNormalizedJob E ws new_id prov_id job origin seen_at =
     (let key = canonicalKeyFor E job origin in
      andThen (gets (findExistingJob E ws job key origin)) (\<lambda>found.
      andThen
        (case found of
           None \<Rightarrow>
             andThen (gets (\<lambda>s. new_id \<in> j_id ` set (jobs s) \<or> by_canonical_key ws key s \<noteq> None)) (\<lambda>taken.
             andThen (throw_if taken Conflict) (\<lambda>_.
             andThen (modify (jobs_update (insert_row (new_job E ws new_id key job seen_at)))) (\<lambda>_.
             ret \<lparr> uo_job_id = new_id, uo_created = True, uo_updated = False, uo_reopened = False, uo_linked_by = None \<rparr>)))
         | Some (existing, why) \<Rightarrow>
             andThen (modify (jobs_update (scoped_update j_workspace_id ws (\<lambda>r. j_id r = j_id existing)
               (seen_job E key job seen_at existing)))) (\<lambda>_.
             ret \<lparr> uo_job_id = j_id existing, uo_created = False, uo_updated = rewrites_content key job existing,
                   uo_reopened = reopens existing, uo_linked_by = Some why \<rparr>)) (\<lambda>out.
      andThen (upsert_provenance E ws prov_id (uo_job_id out) job origin) (\<lambda>_.
      ret out))))"

section \<open>Exclusions and duplicates\<close>

definition excludedCompanies :: "preferences \<Rightarrow> string set" where
  "excludedCompanies p = set (map normalizeCompany (excluded_companies_pref p))"

definition excluded_company_reason :: string where
  "excluded_company_reason = ''Employer is in your excluded companies.''"

definition excludedReasonFor :: "job_row \<Rightarrow> string set \<Rightarrow> string option" where
  "excludedReasonFor r excluded =
     (case j_excluded_reason r of Some x \<Rightarrow> Some x
      | None \<Rightarrow> if normalizeCompany (j_company r) \<in> excluded then Some excluded_company_reason else None)"

definition location_signature :: "job_location \<Rightarrow> string" where
  "location_signature l =
     join ''|'' (map (\<lambda>part. toLowerCase (trim (case part of None \<Rightarrow> [] | Some x \<Rightarrow> x)))
       [jl_country l, jl_region l, jl_city l])"

definition locationSignatures :: "job_location list \<Rightarrow> string set" where
  "locationSignatures ls = set (map location_signature ls)"

definition locationsOverlap :: "job_location list \<Rightarrow> job_location list \<Rightarrow> bool" where
  "locationsOverlap left right \<longleftrightarrow>
     (let a = locationSignatures left; b = locationSignatures right in
      if left = [] \<and> right = [] then True else \<exists>x \<in> a. x \<in> b)"

fun job_status_text :: "job_status \<Rightarrow> string" where
  "job_status_text JobActive = ''active''"
| "job_status_text JobClosed = ''closed''"
| "job_status_text JobUnknown = ''unknown''"

text \<open>\<open>lower(regexp_replace(btrim(c), '\\s+', ' ', 'g'))\<close>: \<open>btrim\<close> removes blanks only.\<close>

definition btrim :: "string \<Rightarrow> string" where
  "btrim v = rev (dropWhile (\<lambda>c. c = CHR '' '') (rev (dropWhile (\<lambda>c. c = CHR '' '') v)))"

definition normalizedColumn :: "string \<Rightarrow> string" where
  "normalizedColumn v = toLowerCase (collapse_spaces (btrim v))"

definition similar_jobs :: "job_row \<Rightarrow> job_row \<Rightarrow> bool" where
  "similar_jobs a b \<longleftrightarrow>
     j_workspace_id a = j_workspace_id b \<and> normalizedColumn (j_company a) = normalizedColumn (j_company b) \<and>
     normalizedColumn (j_title a) = normalizedColumn (j_title b) \<and> j_id a \<noteq> j_id b"

definition possibleDuplicatesFor :: "uuid \<Rightarrow> job_row \<Rightarrow> db \<Rightarrow> possible_duplicate list" where
  "possibleDuplicatesFor ws job s =
     map (\<lambda>b. \<lparr> pd_job_id = j_id b, pd_reason = DupSimilarTitle,
         pd_detail = slice 300 ([CHR 0x22] @ j_title b @ [CHR 0x22] @ '' at '' @ j_company b @ '' ('' @
           job_status_text (j_status b) @ '') has the same title and location.'') \<rparr>)
       (filter (\<lambda>b. locationsOverlap (j_locations job) (j_locations b))
         (sort_key j_first_seen_at (scoped_filter j_workspace_id ws (similar_jobs job) (jobs s))))"

section \<open>Frames\<close>

interpretation job_table: keyed_table jobs jobs_update j_workspace_id j_id
  by unfold_locales simp_all

lemma seen_simps [simp]:
  "j_id (seen_job E key job t x r) = j_id r" "j_workspace_id (seen_job E key job t x r) = j_workspace_id r"
  "j_canonical_key (seen_job E key job t x r) = j_canonical_key r"
  "js_id (seen_provenance E i job og q) = js_id q" "js_workspace_id (seen_provenance E i job og q) = js_workspace_id q"
  "js_source_key (seen_provenance E i job og q) = js_source_key q"
  "js_job_id (seen_provenance E i job og q) = i"
  by (simp_all add: seen_job_def sourceContent_def seen_provenance_def Let_def)

lemma new_simps [simp]:
  "j_id (new_job E ws i key job t) = i" "j_workspace_id (new_job E ws i key job t) = ws"
  "j_canonical_key (new_job E ws i key job t) = key"
  "js_id (new_provenance E ws k i job og) = k" "js_workspace_id (new_provenance E ws k i job og) = ws"
  "js_source_key (new_provenance E ws k i job og) = nj_source_key job"
  "js_job_id (new_provenance E ws k i job og) = i"
  by (simp_all add: new_job_def new_provenance_def)

lemma scoped_upsert_provenance [handler_steps]: "scoped ws (upsert_provenance E ws k i job og)"
  unfolding upsert_provenance_def
  by (intro scope.obeys_rules scoped_modify) (simp_all add: outside_def)

lemma scoped_upsert [handler_steps]: "scoped ws (upsertNormalizedJob E ws i k job og t)"
  unfolding upsertNormalizedJob_def Let_def
  by (intro scope.obeys_rules scoped_upsert_provenance)
     (auto intro!: scope.obeys_rules scoped_modify split: option.split simp: outside_def)

section \<open>The constraints of jobs and their provenance\<close>

text \<open>Migration 0002: ids and canonical keys are unique, a posting identity has one
  provenance row, and a provenance row has its job.  Beyond them: a job is closed
  exactly when it says when and why, it was not seen before it was first seen, and
  the absence counters agree.\<close>

definition job_check :: "job_row \<Rightarrow> bool" where
  "job_check j \<longleftrightarrow>
     1 \<le> j_revision j \<and> j_first_seen_at j \<le> j_last_seen_at j \<and> j_status j \<noteq> JobUnknown \<and>
     (j_status j = JobClosed \<longleftrightarrow> j_closed_at j \<noteq> None) \<and> (j_status j = JobClosed \<longleftrightarrow> j_closed_reason j \<noteq> None)"

definition provenance_check :: "job_source_row \<Rightarrow> bool" where
  "provenance_check r \<longleftrightarrow>
     0 \<le> js_missing_snapshots r \<and>
     (case (js_missing_since r, js_last_missing_at r) of
        (None, None) \<Rightarrow> js_missing_snapshots r = 0
      | (Some a, Some b) \<Rightarrow> 1 \<le> js_missing_snapshots r \<and> a \<le> b \<and> (js_missing_snapshots r = 1 \<longrightarrow> a = b)
      | _ \<Rightarrow> False)"

definition job_key :: "job_row \<Rightarrow> uuid \<times> string" where
  "job_key j = (j_workspace_id j, j_canonical_key j)"

definition provenance_key :: "job_source_row \<Rightarrow> uuid \<times> string" where
  "provenance_key r = (js_workspace_id r, js_source_key r)"

definition jobs_ok :: "db \<Rightarrow> bool" where
  "jobs_ok s \<longleftrightarrow>
     distinct (map j_id (jobs s)) \<and> distinct (map job_key (jobs s)) \<and> list_all job_check (jobs s) \<and>
     distinct (map js_id (job_sources s)) \<and> distinct (map provenance_key (job_sources s)) \<and>
     list_all provenance_check (job_sources s) \<and>
     (\<forall>r \<in> set (job_sources s). find_job (js_workspace_id r) (js_job_id r) s \<noteq> None)"

lemma jobs_ok_cong: "jobs s' = jobs s \<Longrightarrow> job_sources s' = job_sources s \<Longrightarrow> jobs_ok s' = jobs_ok s"
  by (simp add: jobs_ok_def find_job_def)

lemma check_new_job: "job_check (new_job E ws i key job t)"
  by (simp add: job_check_def new_job_def)

lemma check_seen_job: "job_check r \<Longrightarrow> existing = r \<Longrightarrow> job_check (seen_job E key job t existing r)"
  by (auto simp: job_check_def seen_job_def sourceContent_def reopens_def Let_def)

lemma check_provenance:
  "provenance_check (new_provenance E ws k i job og)" "provenance_check (seen_provenance E i job og q)"
  by (simp_all add: provenance_check_def new_provenance_def seen_provenance_def)

lemma job_rows_unique:
  assumes "jobs_ok s" and "a \<in> set (jobs s)" and "b \<in> set (jobs s)" and "j_id a = j_id b"
  shows "a = b"
  using assms by (auto simp: jobs_ok_def distinct_map inj_on_def)

lemma find_job_same:
  assumes "jobs_ok s" and "find_job ws i s = Some j" and "r \<in> set (jobs s)" and "j_id r = i"
  shows "r = j"
  using assms find_jobD job_rows_unique by metis

text \<open>Rewriting the one row of a job keeps the tables well formed.\<close>

lemma jobs_ok_update_job:
  assumes ok: "jobs_ok s" and j: "find_job ws i s = Some j"
    and f: "\<And>r. j_id (f r) = j_id r" "\<And>r. j_workspace_id (f r) = j_workspace_id r"
      "\<And>r. j_canonical_key (f r) = j_canonical_key r" and c: "job_check (f j)"
  shows "jobs_ok (jobs_update (scoped_update j_workspace_id ws (\<lambda>r. j_id r = i) f) s)"
proof -
  let ?s = "jobs_update (scoped_update j_workspace_id ws (\<lambda>r. j_id r = i) f) s"
  have "job_check r" if "r \<in> set (jobs ?s)" for r
    using that c find_job_same [OF ok j] ok by (auto simp: scoped_update_def jobs_ok_def list_all_iff)
  moreover have "find_job w k ?s \<noteq> None" if "find_job w k s \<noteq> None" for w k
  proof (cases "k = i \<and> w = ws")
    case True
    then show ?thesis using job_table.lookup_update [of f ws i s j] f j by (simp add: find_job_def)
  next
    case False
    then show ?thesis using job_table.lookup_update_other [of f k i w ws s] f that by (simp add: find_job_def)
  qed
  ultimately show ?thesis
    using ok f by (simp add: jobs_ok_def map_scoped_update list_all_iff job_key_def)
qed

lemma find_job_update_other_table [simp]:
  "find_job ws i (job_sources_update g s) = find_job ws i s"
  by (simp add: find_job_def)

lemma jobs_ok_insert_job:
  assumes ok: "jobs_ok s" and "job_check r" and "j_id r \<notin> j_id ` set (jobs s)"
    and "by_canonical_key (j_workspace_id r) (j_canonical_key r) s = None"
  shows "jobs_ok (jobs_update (insert_row r) s)"
proof -
  have "job_key r \<notin> job_key ` set (jobs s)"
    using assms(4) by (auto simp: job_key_def by_canonical_key_def scoped_find_None)
  moreover have "find_job w k (jobs_update (insert_row r) s) \<noteq> None" if "find_job w k s \<noteq> None" for w k
    using that job_table.lookup_insert_old [of w k s _ r] by (auto simp: find_job_def)
  ultimately show ?thesis using assms by (simp add: jobs_ok_def insert_row_def)
qed

lemma jobs_ok_update_provenance:
  assumes ok: "jobs_ok s" and "find_job ws i s \<noteq> None"
  shows "jobs_ok (job_sources_update (scoped_update js_workspace_id ws P (seen_provenance E i job og)) s)"
proof -
  have "list_all provenance_check (scoped_update js_workspace_id ws P (seen_provenance E i job og) (job_sources s))"
    using ok check_provenance by (auto simp: jobs_ok_def list_all_iff scoped_update_def)
  moreover have "find_job (js_workspace_id r) (js_job_id r) s \<noteq> None"
    if "r \<in> set (scoped_update js_workspace_id ws P (seen_provenance E i job og) (job_sources s))" for r
    using that ok assms(2) by (auto simp: jobs_ok_def scoped_update_def)
  ultimately show ?thesis
    using ok by (simp add: jobs_ok_def map_scoped_update provenance_key_def)
qed

lemma jobs_ok_insert_provenance:
  assumes ok: "jobs_ok s" and "find_job ws i s \<noteq> None" and "k \<notin> js_id ` set (job_sources s)"
    and "by_source_key ws (nj_source_key job) s = None"
  shows "jobs_ok (job_sources_update (insert_row (new_provenance E ws k i job og)) s)"
proof -
  have "(ws, nj_source_key job) \<notin> provenance_key ` set (job_sources s)"
    using assms(4) by (auto simp: provenance_key_def by_source_key_def scoped_find_None)
  then show ?thesis
    using assms check_provenance by (simp add: jobs_ok_def insert_row_def provenance_key_def)
qed

section \<open>What the upsert does\<close>

lemma member_find_job:
  assumes "jobs_ok s" and "j \<in> set (jobs s)"
  shows "find_job (j_workspace_id j) (j_id j) s = Some j"
proof (cases "find_job (j_workspace_id j) (j_id j) s")
  case None
  then show ?thesis using assms(2) by (auto simp: find_job_def scoped_find_None)
next
  case (Some k)
  then show ?thesis using job_rows_unique [OF assms(1) assms(2)] find_jobD [OF Some] by metis
qed

lemma findExistingJob_found:
  assumes ok: "jobs_ok s" and "findExistingJob E ws job key og s = Some (j, why)"
  shows "find_job ws (j_id j) s = Some j"
proof -
  have via: "find_job ws (j_id j) s = Some j" if "job_of ws q s = Some j" for q
    using that find_jobD by (auto simp: job_of_def split: option.splits)
  have key: "find_job ws (j_id j) s = Some j" if "by_canonical_key ws key s = Some j"
    using that member_find_job [OF ok] by (auto simp: by_canonical_key_def dest!: scoped_find_SomeD)
  from assms(2) show ?thesis
    unfolding findExistingJob_def by (auto split: option.splits intro: via key)
qed

lemma findExistingJob_none:
  "findExistingJob E ws job key og s = None \<Longrightarrow> by_canonical_key ws key s = None"
  by (auto simp: findExistingJob_def split: option.splits)

definition upsert_post ::
  "env \<Rightarrow> uuid \<Rightarrow> uuid \<Rightarrow> normalized_job \<Rightarrow> job_origin \<Rightarrow> timestamp \<Rightarrow> db \<Rightarrow> upsert_outcome \<Rightarrow> db \<Rightarrow> bool" where
  "upsert_post E ws new_id job og t s out s' \<longleftrightarrow>
     (let key = canonicalKeyFor E job og in
      (case findExistingJob E ws job key og s of
         None \<Rightarrow>
           out = \<lparr> uo_job_id = new_id, uo_created = True, uo_updated = False, uo_reopened = False, uo_linked_by = None \<rparr> \<and>
           find_job ws new_id s = None \<and> find_job ws new_id s' = Some (new_job E ws new_id key job t)
       | Some (j, why) \<Rightarrow>
           out = \<lparr> uo_job_id = j_id j, uo_created = False, uo_updated = rewrites_content key job j,
                   uo_reopened = reopens j, uo_linked_by = Some why \<rparr> \<and>
           find_job ws (j_id j) s' = Some (seen_job E key job t j j)) \<and>
      (\<exists>q. by_source_key ws (nj_source_key job) s' = Some q \<and> js_job_id q = uo_job_id out \<and>
         js_source_id q = og_source_id og \<and> js_missing_snapshots q = 0) \<and>
      (\<forall>w i. i \<noteq> uo_job_id out \<longrightarrow> find_job w i s' = find_job w i s) \<and>
      (\<forall>w k. k \<noteq> nj_source_key job \<longrightarrow> by_source_key w k s' = by_source_key w k s))"

lemma by_source_key_update:
  assumes "by_source_key ws k s = Some q" and f: "\<And>r. js_workspace_id (f r) = js_workspace_id r"
      "\<And>r. js_source_key (f r) = js_source_key r"
  shows "by_source_key ws k (job_sources_update (scoped_update js_workspace_id ws (\<lambda>r. js_source_key r = k) f) s) = Some (f q)"
    and "k' \<noteq> k \<Longrightarrow> by_source_key w k' (job_sources_update (scoped_update js_workspace_id ws (\<lambda>r. js_source_key r = k) f) s)
       = by_source_key w k' s"
proof -
  have "find (\<lambda>r. js_workspace_id r = ws \<and> js_source_key r = k) rows = Some q \<Longrightarrow>
      find (\<lambda>r. js_workspace_id r = ws \<and> js_source_key r = k)
        (map (\<lambda>r. if js_workspace_id r = ws \<and> js_source_key r = k then f r else r) rows) = Some (f q)" for rows
    using f by (induction rows) (auto split: if_splits)
  then show "by_source_key ws k (job_sources_update (scoped_update js_workspace_id ws (\<lambda>r. js_source_key r = k) f) s) = Some (f q)"
    using assms(1) by (simp add: by_source_key_def scoped_find_def scoped_update_def)
next
  assume "k' \<noteq> k"
  then have "find (\<lambda>r. js_workspace_id r = w \<and> js_source_key r = k')
        (map (\<lambda>r. if js_workspace_id r = ws \<and> js_source_key r = k then f r else r) rows) =
      find (\<lambda>r. js_workspace_id r = w \<and> js_source_key r = k') rows" for rows
    using f by (induction rows) auto
  then show "by_source_key w k' (job_sources_update (scoped_update js_workspace_id ws (\<lambda>r. js_source_key r = k) f) s)
       = by_source_key w k' s"
    by (simp add: by_source_key_def scoped_find_def scoped_update_def)
qed

lemma by_source_key_insert:
  assumes "by_source_key ws (js_source_key r) s = None" and "js_workspace_id r = ws"
  shows "by_source_key ws (js_source_key r) (job_sources_update (insert_row r) s) = Some r"
    and "k' \<noteq> js_source_key r \<Longrightarrow> by_source_key w k' (job_sources_update (insert_row r) s) = by_source_key w k' s"
  using assms by (auto simp: by_source_key_def scoped_find_def insert_row_def find_append split: option.split)

lemma wp_upsert_provenance:
  assumes ok: "jobs_ok s" and j: "find_job ws i s \<noteq> None"
    and Q: "\<And>u q. jobs_ok u \<Longrightarrow> jobs u = jobs s \<Longrightarrow> by_source_key ws (nj_source_key job) u = Some q \<Longrightarrow>
      js_job_id q = i \<Longrightarrow> js_source_id q = og_source_id og \<Longrightarrow> js_missing_snapshots q = 0 \<Longrightarrow>
      (\<And>w k. k \<noteq> nj_source_key job \<Longrightarrow> by_source_key w k u = by_source_key w k s) \<Longrightarrow> Q () u"
    and F: "prov_id \<in> js_id ` set (job_sources s) \<Longrightarrow> F Conflict s"
  shows "wp (upsert_provenance E ws prov_id i job og) Q F s"
proof (cases "by_source_key ws (nj_source_key job) s")
  case None
  let ?r = "new_provenance E ws prov_id i job og"
  have "Q () (job_sources_update (insert_row ?r) s)" if fresh: "prov_id \<notin> js_id ` set (job_sources s)"
  proof (rule Q)
    show "jobs_ok (job_sources_update (insert_row ?r) s)" by (rule jobs_ok_insert_provenance [OF ok j fresh None])
    show "by_source_key ws (nj_source_key job) (job_sources_update (insert_row ?r) s) = Some ?r"
      using by_source_key_insert(1) [of ws ?r s] None by simp
  qed (use by_source_key_insert(2) [of ws ?r s] None in \<open>auto simp: new_provenance_def\<close>)
  then show ?thesis using None F by (simp add: upsert_provenance_def)
next
  case (Some q)
  let ?f = "seen_provenance E i job og"
  let ?s = "job_sources_update (scoped_update js_workspace_id ws (\<lambda>r. js_source_key r = nj_source_key job) ?f) s"
  have "Q () ?s"
  proof (rule Q)
    show "jobs_ok ?s" by (rule jobs_ok_update_provenance [OF ok j])
    show "by_source_key ws (nj_source_key job) ?s = Some (?f q)"
      using by_source_key_update(1) [OF Some, of ?f] by simp
  qed (use by_source_key_update(2) [OF Some, of ?f] in \<open>auto simp: seen_provenance_def\<close>)
  then show ?thesis using Some by (simp add: upsert_provenance_def)
qed

lemma find_job_cong: "jobs t = jobs s \<Longrightarrow> find_job ws i t = find_job ws i s"
  by (simp add: find_job_def)

lemma wp_provenance_after:
  assumes ok: "jobs_ok u" and j: "find_job ws (uo_job_id out) u = Some j" and same: "job_sources u = job_sources s"
    and other: "\<And>w k. k \<noteq> uo_job_id out \<Longrightarrow> find_job w k u = find_job w k s"
    and head: "case findExistingJob E ws job (canonicalKeyFor E job og) og s of
         None \<Rightarrow>
           out = \<lparr> uo_job_id = new_id, uo_created = True, uo_updated = False, uo_reopened = False, uo_linked_by = None \<rparr> \<and>
           find_job ws new_id s = None \<and> find_job ws new_id u = Some (new_job E ws new_id (canonicalKeyFor E job og) job t)
       | Some (j, why) \<Rightarrow>
           out = \<lparr> uo_job_id = j_id j, uo_created = False, uo_updated = rewrites_content (canonicalKeyFor E job og) job j,
                   uo_reopened = reopens j, uo_linked_by = Some why \<rparr> \<and>
           find_job ws (j_id j) u = Some (seen_job E (canonicalKeyFor E job og) job t j j)"
  shows "wp (upsert_provenance E ws prov_id (uo_job_id out) job og)
    (\<lambda>_ s'. jobs_ok s' \<and> upsert_post E ws new_id job og t s out s')
    (\<lambda>e s'. jobs_ok s' \<and> e = Conflict \<and> (new_id \<in> j_id ` set (jobs s) \<or> prov_id \<in> js_id ` set (job_sources s))) u"
proof (rule wp_upsert_provenance [OF ok])
  show "find_job ws (uo_job_id out) u \<noteq> None" using j by simp
next
  fix v q
  assume v: "jobs_ok v" "jobs v = jobs u" "by_source_key ws (nj_source_key job) v = Some q" "js_job_id q = uo_job_id out"
    "js_source_id q = og_source_id og" "js_missing_snapshots q = 0"
    "\<And>w k. k \<noteq> nj_source_key job \<Longrightarrow> by_source_key w k v = by_source_key w k u"
  have "find_job w k v = find_job w k u" for w k using find_job_cong [OF v(2)] .
  moreover have "by_source_key w k u = by_source_key w k s" for w k using same by (simp add: by_source_key_def)
  ultimately have "upsert_post E ws new_id job og t s out v"
    unfolding upsert_post_def Let_def using head v(3-7) other by (simp split: option.splits prod.splits)
  then show "jobs_ok v \<and> upsert_post E ws new_id job og t s out v" using v(1) by simp
qed (simp add: same ok)

lemma upsert_wp:
  assumes ok: "jobs_ok s"
  shows "wp (upsertNormalizedJob E ws new_id prov_id job og t)
    (\<lambda>out s'. jobs_ok s' \<and> upsert_post E ws new_id job og t s out s')
    (\<lambda>e s'. jobs_ok s' \<and> e = Conflict \<and> (new_id \<in> j_id ` set (jobs s) \<or> prov_id \<in> js_id ` set (job_sources s))) s"
proof (cases "findExistingJob E ws job (canonicalKeyFor E job og) og s")
  case None
  let ?r = "new_job E ws new_id (canonicalKeyFor E job og) job t"
  let ?s = "jobs_update (insert_row ?r) s"
  have fk: "by_canonical_key ws (canonicalKeyFor E job og) s = None" by (rule findExistingJob_none [OF None])
  let ?out = "\<lparr> uo_job_id = new_id, uo_created = True, uo_updated = False, uo_reopened = False, uo_linked_by = None \<rparr>"
  have new: "find_job ws new_id s = None \<and> find_job ws new_id ?s = Some ?r" if "new_id \<notin> j_id ` set (jobs s)"
  proof
    show no: "find_job ws new_id s = None" using that by (auto simp: find_job_def scoped_find_None)
    then show "find_job ws new_id ?s = Some ?r"
      using job_table.lookup_insert_new [of ?r s] by (simp add: find_job_def)
  qed
  have "wp (upsert_provenance E ws prov_id (uo_job_id ?out) job og)
    (\<lambda>_ s'. jobs_ok s' \<and> upsert_post E ws new_id job og t s ?out s')
    (\<lambda>e s'. jobs_ok s' \<and> e = Conflict \<and> (new_id \<in> j_id ` set (jobs s) \<or> prov_id \<in> js_id ` set (job_sources s))) ?s"
    if fresh: "new_id \<notin> j_id ` set (jobs s)"
  proof (rule wp_provenance_after)
    show "jobs_ok ?s" using ok fresh fk check_new_job by (intro jobs_ok_insert_job) simp_all
    show "find_job ws (uo_job_id ?out) ?s = Some ?r" using new [OF fresh] by simp
    show "\<And>w k. k \<noteq> uo_job_id ?out \<Longrightarrow> find_job w k ?s = find_job w k s"
      by (auto simp: find_job_def scoped_find_def insert_row_def find_append split: option.split)
    show "job_sources ?s = job_sources s" by simp
  qed (use None new [OF fresh] in simp)
  then show ?thesis
    using None fk ok by (simp add: upsertNormalizedJob_def Let_def)
next
  case (Some p)
  obtain j why where p: "p = (j, why)" by (cases p)
  have j: "find_job ws (j_id j) s = Some j" using findExistingJob_found [OF ok] Some p by simp
  let ?f = "seen_job E (canonicalKeyFor E job og) job t j"
  let ?s = "jobs_update (scoped_update j_workspace_id ws (\<lambda>r. j_id r = j_id j) ?f) s"
  have found: "find_job ws (j_id j) ?s = Some (?f j)"
    using job_table.lookup_update [of ?f ws "j_id j" s j] j by (simp add: find_job_def)
  have "wp (upsert_provenance E ws prov_id (uo_job_id out) job og)
    (\<lambda>_ s'. jobs_ok s' \<and> upsert_post E ws new_id job og t s out s')
    (\<lambda>e s'. jobs_ok s' \<and> e = Conflict \<and> (new_id \<in> j_id ` set (jobs s) \<or> prov_id \<in> js_id ` set (job_sources s))) ?s"
    if out: "out = \<lparr> uo_job_id = j_id j, uo_created = False, uo_updated = rewrites_content (canonicalKeyFor E job og) job j,
       uo_reopened = reopens j, uo_linked_by = Some why \<rparr>" for out
  proof (rule wp_provenance_after)
    have "job_check j" using ok find_jobD [OF j] by (simp add: jobs_ok_def list_all_iff)
    then show "jobs_ok ?s" by (intro jobs_ok_update_job [OF ok j]) (simp_all add: check_seen_job)
    show "find_job ws (uo_job_id out) ?s = Some (?f j)" using found out by simp
    show "find_job w i ?s = find_job w i s" if "i \<noteq> uo_job_id out" for w i
      using job_table.lookup_update_other [of ?f i "j_id j" w ws s] that out by (simp add: find_job_def)
    show "job_sources ?s = job_sources s" by simp
  qed (use Some p found out in simp)
  then show ?thesis
    using Some p by (simp add: upsertNormalizedJob_def Let_def)
qed

end
