(* ===== verification/Scans.thy ===== *)
theory Scans
  imports Jobs
begin

text \<open>
  \<open>apps/api/src/discovery/scans.ts\<close>, the scheduled pass of \<open>discovery/scan-scheduler.ts\<close>
  and the scan routes of \<open>routes/sources.ts\<close> and \<open>routes/scans.ts\<close>: queueing the fetch of
  a board, at most one at a time per source and never for a source that refuses.
\<close>

section \<open>Starting a scan\<close>

definition zero_counts :: scan_counts where
  "zero_counts = \<lparr> sc_fetched = 0, sc_created = 0, sc_updated = 0, sc_unchanged = 0, sc_closed = 0, sc_pages = 0 \<rparr>"

definition in_flight :: "scan_row \<Rightarrow> bool" where
  "in_flight r \<longleftrightarrow> sn_status r = ScanQueued \<or> sn_status r = ScanRunning"

text \<open>\<open>random\<close> is a value of \<open>Math.random()\<close>; \<open>Date\<close> drops the fraction of a millisecond.\<close>

definition hoursFromNowWithJitter :: "timestamp \<Rightarrow> int \<Rightarrow> rat \<Rightarrow> timestamp" where
  "hoursFromNowWithJitter from hours rnd =
     from + hours * 60 * 60 * 1000 + \<lfloor>rnd * of_int (scan_interval_jitter_minutes * 60 * 1000)\<rfloor>"

definition new_scan :: "env \<Rightarrow> uuid \<Rightarrow> uuid \<Rightarrow> uuid \<Rightarrow> scan_row" where
  "new_scan E ws scan_id source_id =
     \<lparr> sn_id = scan_id, sn_workspace_id = ws, sn_source_id = source_id, sn_task_id = None,
       sn_status = ScanQueued, sn_complete_snapshot = False, sn_counts = zero_counts,
       sn_error_code = None, sn_error_message = None, sn_started_at = None, sn_completed_at = None,
       sn_created_at = now E, sn_updated_at = now E \<rparr>"

definition board_payload :: "uuid \<Rightarrow> source_row \<Rightarrow> preferences \<Rightarrow> fetch_board_input" where
  "board_payload scan_id source prefs =
     \<lparr> fbi_scan_id = scan_id, fbi_source_id = so_id source, fbi_connector = so_connector source,
       fbi_connector_version = so_connector_version source, fbi_board_key = so_board_key source,
       fbi_base_url = so_base_url source, fbi_etag = so_etag source,
       fbi_last_modified = so_last_modified source,
       fbi_limits = \<lparr> fl_max_jobs = min max_jobs_per_scan (scan_max_jobs (limits prefs)),
         fl_max_pages = max_pages_per_scan, fl_timeout_seconds = request_timeout_seconds,
         fl_min_request_interval_ms = min_request_interval_ms \<rparr> \<rparr>"

definition insert_scan :: "scan_row \<Rightarrow> (db, unit) handler" where
  "insert_scan r =
     andThen (gets (\<lambda>s. sn_id r \<in> sn_id ` set (scans s) \<or>
       (\<exists>q \<in> set (scans s). sn_source_id q = sn_source_id r \<and> in_flight q))) (\<lambda>taken.
     andThen (throw_if taken Conflict) (\<lambda>_.
     modify (scans_update (insert_row r))))"

definition update_scan :: "uuid \<Rightarrow> uuid \<Rightarrow> (scan_row \<Rightarrow> scan_row) \<Rightarrow> (db, unit) handler" where
  "update_scan ws i f = modify (scans_update (scoped_update sn_workspace_id ws (\<lambda>r. sn_id r = i) f))"

definition in_flight_of :: "uuid \<Rightarrow> uuid \<Rightarrow> db \<Rightarrow> scan_row option" where
  "in_flight_of ws source_id s =
     scoped_find sn_workspace_id ws (\<lambda>r. sn_source_id r = source_id \<and> in_flight r) (scans s)"

definition startScan ::
  "env \<Rightarrow> uuid \<Rightarrow> rat \<Rightarrow> uuid \<Rightarrow> uuid \<Rightarrow> source_row \<Rightarrow> string option \<Rightarrow> (db, scan_row \<times> task_row) handler" where
  "startScan E ws rnd scan_id task_id source key =
     andThen (throw_if (\<not> isScannable source) Unprocessable) (\<lambda>_.
     andThen (gets (in_flight_of ws (so_id source))) (\<lambda>busy.
     andThen (throw_if (busy \<noteq> None) Conflict) (\<lambda>_.
     andThen (workspacePreferences ws) (\<lambda>prefs.
     andThen (insert_scan (new_scan E ws scan_id (so_id source))) (\<lambda>_.
     andThen (enqueueTask E ws task_id (plain_task FetchBoard (FetchBoardPayload (board_payload scan_id source prefs)) key)) (\<lambda>task.
     andThen (update_scan ws scan_id (\<lambda>r. r \<lparr> sn_task_id := Some (t_id task), sn_updated_at := now E \<rparr>)) (\<lambda>_.
     andThen (update_source ws (so_id source) (\<lambda>r. r \<lparr> so_last_scan_id := Some scan_id,
       so_next_scan_after := Some (hoursFromNowWithJitter (now E) (scan_interval_hours prefs) rnd), so_updated_at := now E \<rparr>)) (\<lambda>_.
     ret ((new_scan E ws scan_id (so_id source)) \<lparr> sn_task_id := Some (t_id task) \<rparr>, task)))))))))"

section \<open>Reading scans\<close>

definition scan_by_id :: "uuid \<Rightarrow> uuid \<Rightarrow> db \<Rightarrow> scan_row option" where
  "scan_by_id ws i s = scoped_find sn_workspace_id ws (\<lambda>r. sn_id r = i) (scans s)"

definition scan_by_task :: "uuid \<Rightarrow> uuid \<Rightarrow> db \<Rightarrow> scan_row option" where
  "scan_by_task ws i s = scoped_find sn_workspace_id ws (\<lambda>r. sn_task_id r = Some i) (scans s)"

definition findScan :: "uuid \<Rightarrow> uuid \<Rightarrow> (db, scan_row) handler" where
  "findScan ws i =
     andThen (gets (scan_by_id ws i)) (\<lambda>by_id.
       case by_id of Some r \<Rightarrow> ret r
       | None \<Rightarrow> andThen (gets (scan_by_task ws i)) (\<lambda>by_task. require by_task NotFound))"

definition getScan :: "uuid \<Rightarrow> uuid \<Rightarrow> (db, scan_row) handler" where
  "getScan ws i = findScan ws i"

definition lockScanForTask :: "uuid \<Rightarrow> uuid \<Rightarrow> (db, scan_row option) handler" where
  "lockScanForTask ws task_id = gets (scan_by_task ws task_id)"

section \<open>The scan route\<close>

definition scanSource ::
  "env \<Rightarrow> uuid \<Rightarrow> uuid \<Rightarrow> rat \<Rightarrow> uuid \<Rightarrow> uuid \<Rightarrow> string option \<Rightarrow> json \<Rightarrow> uuid \<Rightarrow> (db, outcome) handler" where
  "scanSource E ws user rnd scan_id task_id header body i =
     andThen (reads (\<lambda>_. readIdempotencyKey header)) (\<lambda>key.
     andThen (loadSource ws i) (\<lambda>_.
     withIdempotency E ws header body (''POST /sources/'' @ i @ ''/scan'')
       (transaction (
         andThen (lockSource ws i) (\<lambda>source.
         andThen (startScan E ws rnd scan_id task_id source (Some key)) (\<lambda>started.
         andThen (recordAuditEvent ws ''source.scan_queued'' (Some user) (Some (sn_id (fst started))) (Some ''scan'')
           (JObj [(''source_id'', JStr (so_id source)), (''connector'', JStr (connector_text (so_connector source))),
                  (''manual'', JBool True)])) (\<lambda>_.
         ret (accepted (t_id (snd started))))))))))"

section \<open>The scheduled pass\<close>

definition isDue :: "source_row \<Rightarrow> timestamp \<Rightarrow> bool" where
  "isDue r t \<longleftrightarrow> so_enabled r \<and> so_health_state r \<noteq> HealthBlocked \<and>
     (case so_next_scan_after r of None \<Rightarrow> True | Some x \<Rightarrow> x \<le> t)"

text \<open>\<open>ORDER BY next_scan_after ASC\<close>: PostgreSQL sorts NULL last.\<close>

definition due_order :: "source_row list \<Rightarrow> source_row list" where
  "due_order rows =
     sort_key (\<lambda>r. case so_next_scan_after r of None \<Rightarrow> 0 | Some t \<Rightarrow> t)
       (filter (\<lambda>r. so_next_scan_after r \<noteq> None) rows) @
     filter (\<lambda>r. so_next_scan_after r = None) rows"

definition scan_candidates :: "env \<Rightarrow> nat \<Rightarrow> db \<Rightarrow> uuid list" where
  "scan_candidates E n s =
     map so_id (take n (due_order (filter (\<lambda>r. isDue r (now E) \<and>
         (\<exists>w \<in> set (workspaces s). w_id w = so_workspace_id r \<and> w_deletion_state w = ActiveWorkspace) \<and>
         \<not> (\<exists>q \<in> set (scans s). sn_source_id q = so_id r \<and> in_flight q)) (sources s))))"

text \<open>A conflict raised while starting one scan skips that source; every other error ends
  the pass.\<close>

definition skip_conflict :: "(db, 'a) handler \<Rightarrow> (db, bool) handler" where
  "skip_conflict m s = (case m s of
     (Inr _, s') \<Rightarrow> (Inr True, s')
   | (Inl e, s') \<Rightarrow> if error_status e = 409 then (Inr False, s') else (Inl e, s'))"

definition schedule_one :: "env \<Rightarrow> (uuid \<Rightarrow> rat) \<Rightarrow> (uuid \<Rightarrow> uuid \<times> uuid) \<Rightarrow> uuid \<Rightarrow> (db, bool) handler" where
  "schedule_one E rnd ids i =
     transaction (
       andThen (gets (\<lambda>s. find (\<lambda>r. so_id r = i) (sources s))) (\<lambda>found.
         case found of None \<Rightarrow> ret False
         | Some source \<Rightarrow>
             if \<not> isDue source (now E) then ret False
             else skip_conflict (startScan E (so_workspace_id source) (rnd i) (fst (ids i)) (snd (ids i)) source None)))"

definition scheduleDueScans ::
  "env \<Rightarrow> (uuid \<Rightarrow> rat) \<Rightarrow> (uuid \<Rightarrow> uuid \<times> uuid) \<Rightarrow> nat \<Rightarrow> (db, uuid list \<times> uuid list) handler" where
  "scheduleDueScans E rnd ids n =
     andThen (gets (scan_candidates E n)) (\<lambda>candidates.
     andThen (map_each (schedule_one E rnd ids) candidates) (\<lambda>queued.
     ret (map fst (filter snd (zip candidates queued)), map fst (filter (Not \<circ> snd) (zip candidates queued)))))"

section \<open>Frames\<close>

interpretation scan_table: keyed_table scans scans_update sn_workspace_id sn_id
  by unfold_locales simp_all

lemma new_scan_simps [simp]:
  "sn_id (new_scan E ws i src) = i" "sn_workspace_id (new_scan E ws i src) = ws"
  "sn_source_id (new_scan E ws i src) = src" "in_flight (new_scan E ws i src)"
  by (simp_all add: new_scan_def in_flight_def)

lemma scoped_insert_scan: "sn_workspace_id r = ws \<Longrightarrow> scoped ws (insert_scan r)"
  unfolding insert_scan_def by (intro scope.obeys_rules scoped_modify) (simp_all add: outside_def)

lemma scoped_update_scan: "(\<And>r. sn_workspace_id (f r) = sn_workspace_id r) \<Longrightarrow> scoped ws (update_scan ws i f)"
  unfolding update_scan_def by (rule scoped_modify) (simp_all add: outside_def)

lemma scoped_startScan [handler_steps]: "scoped ws (startScan E ws rnd i j source key)"
  unfolding startScan_def
  by (intro scope.obeys_rules scoped_workspacePreferences scoped_enqueueTask scoped_insert_scan
      scoped_update_scan scoped_update_source) simp_all

lemma scoped_findScan [handler_steps]: "scoped ws (findScan ws i)"
  unfolding findScan_def by (intro scope.obeys_rules)

lemma scoped_lockScan [handler_steps]: "scoped ws (lockScanForTask ws i)"
  unfolding lockScanForTask_def by (intro scope.obeys_rules)

lemma scoped_scanSource [handler_steps]: "scoped ws (scanSource E ws user rnd i j header body src)"
  unfolding scanSource_def
  by (intro scope.obeys_rules scoped_withIdempotency scoped_loadSource scoped_lockSource scoped_startScan scoped_recordAuditEvent)

section \<open>One scan of a source at a time\<close>

text \<open>The unique index \<open>scans_one_in_flight_idx\<close>.\<close>

definition scans_ok :: "db \<Rightarrow> bool" where
  "scans_ok s \<longleftrightarrow>
     distinct (map sn_id (scans s)) \<and>
     (\<forall>i. length (filter (\<lambda>r. sn_source_id r = i \<and> in_flight r) (scans s)) \<le> 1)"

lemma scans_ok_cong: "scans s' = scans s \<Longrightarrow> scans_ok s' = scans_ok s"
  by (simp add: scans_ok_def)

lemma scans_ok_insert:
  assumes "scans_ok s" and "sn_id r \<notin> sn_id ` set (scans s)"
    and "\<not> (\<exists>q \<in> set (scans s). sn_source_id q = sn_source_id r \<and> in_flight q)"
  shows "scans_ok (scans_update (insert_row r) s)"
proof -
  have "filter (\<lambda>q. sn_source_id q = sn_source_id r \<and> in_flight q) (scans s) = []"
    using assms(3) by (auto simp: filter_empty_conv)
  then have "length (filter (\<lambda>q. sn_source_id q = i \<and> in_flight q) (insert_row r (scans s))) \<le> 1" for i
    using assms(1) by (cases "sn_source_id r = i") (auto simp: insert_row_def scans_ok_def)
  then show ?thesis using assms by (simp add: scans_ok_def insert_row_def)
qed

lemma filter_length_mono:
  "(\<And>x. x \<in> set xs \<Longrightarrow> P (f x) \<Longrightarrow> P x) \<Longrightarrow> length (filter P (map f xs)) \<le> length (filter P xs)"
  by (induction xs) (auto intro: le_SucI)

lemma scans_ok_update:
  assumes "scans_ok s" and "\<And>r. sn_id (f r) = sn_id r" and "\<And>r. sn_source_id (f r) = sn_source_id r"
    and "\<And>r. in_flight (f r) \<Longrightarrow> in_flight r"
  shows "scans_ok (scans_update (scoped_update sn_workspace_id ws P f) s)"
proof -
  have "length (filter (\<lambda>r. sn_source_id r = i \<and> in_flight r) (scoped_update sn_workspace_id ws P f (scans s))) \<le>
      length (filter (\<lambda>r. sn_source_id r = i \<and> in_flight r) (scans s))" for i
    unfolding scoped_update_def using assms by (intro filter_length_mono) (auto split: if_splits)
  then show ?thesis
    using assms(1,2) order_trans by (fastforce simp: scans_ok_def map_scoped_update)
qed

lemma wp_insert_scan:
  "wp (insert_scan r) Q F s \<longleftrightarrow>
     (if sn_id r \<in> sn_id ` set (scans s) \<or> (\<exists>q \<in> set (scans s). sn_source_id q = sn_source_id r \<and> in_flight q)
      then F Conflict s else Q () (scans_update (insert_row r) s))"
  by (simp add: insert_scan_def)

lemma wp_update_scan [simp]:
  "wp (update_scan ws i f) Q F = (\<lambda>s. Q () (scans_update (scoped_update sn_workspace_id ws (\<lambda>r. sn_id r = i) f) s))"
  by (simp add: update_scan_def)

text \<open>A scan is only started for a source that may be scanned and has none in flight; it
  queues one fetch with the source's own coordinates, and the next automatic scan
  moves at least the configured interval into the future.\<close>

definition scan_started ::
  "env \<Rightarrow> uuid \<Rightarrow> rat \<Rightarrow> uuid \<Rightarrow> uuid \<Rightarrow> source_row \<Rightarrow> string option \<Rightarrow> db \<Rightarrow> db \<Rightarrow> bool" where
  "scan_started E ws rnd scan_id task_id source key s s' \<longleftrightarrow>
     isScannable source \<and> in_flight_of ws (so_id source) s = None \<and>
     (let prefs = stored_preferences ws s;
          scan = (new_scan E ws scan_id (so_id source)) \<lparr> sn_task_id := Some task_id \<rparr> in
      tasks s' = insert_row (new_task E ws task_id
        (plain_task FetchBoard (FetchBoardPayload (board_payload scan_id source prefs)) key)) (tasks s) \<and>
      scan_by_id ws scan_id s' = Some scan \<and>
      find_source ws (so_id source) s' = Some (source \<lparr> so_last_scan_id := Some scan_id,
        so_next_scan_after := Some (hoursFromNowWithJitter (now E) (scan_interval_hours prefs) rnd),
        so_updated_at := now E \<rparr>) \<and>
      jobs s' = jobs s \<and> job_sources s' = job_sources s)"

lemma start_scan_wp:
  assumes scans: "scans_ok s" and sources: "sources_ok s" and src: "find_source ws (so_id source) s = Some source"
  shows "wp (startScan E ws rnd scan_id task_id source key)
    (\<lambda>out s'. scans_ok s' \<and> sources_ok s' \<and> t_id (snd out) = task_id \<and> scan_started E ws rnd scan_id task_id source key s s')
    (\<lambda>_ s'. scans_ok s' \<and> sources_ok s') s"
proof -
  let ?prefs = "stored_preferences ws s"
  let ?scan = "new_scan E ws scan_id (so_id source)"
  let ?link = "\<lambda>r. r \<lparr> sn_task_id := Some task_id, sn_updated_at := now E \<rparr>"
  let ?next = "\<lambda>r. r \<lparr> so_last_scan_id := Some scan_id,
      so_next_scan_after := Some (hoursFromNowWithJitter (now E) (scan_interval_hours ?prefs) rnd), so_updated_at := now E \<rparr>"
  let ?task = "new_task E ws task_id (plain_task FetchBoard (FetchBoardPayload (board_payload scan_id source ?prefs)) key)"
  let ?s1 = "\<lambda>f. scans_update (insert_row ?scan) (preferences_rows_update f s)"
  let ?s2 = "\<lambda>f. tasks_update (insert_row ?task) (?s1 f)"
  let ?s3 = "\<lambda>f. sources_update (scoped_update so_workspace_id ws (\<lambda>r. so_id r = so_id source) ?next)
      (scans_update (scoped_update sn_workspace_id ws (\<lambda>r. sn_id r = scan_id) ?link) (?s2 f))"
  have okp: "scans_ok (preferences_rows_update f s) \<and> sources_ok (preferences_rows_update f s)" for f
    using scans sources by (simp add: scans_ok_def sources_ok_def)
  have fin: "scans_ok (?s3 f) \<and> sources_ok (?s3 f) \<and> scan_started E ws rnd scan_id task_id source key s (?s3 f)"
    and mid: "scans_ok (?s1 f) \<and> sources_ok (?s1 f)"
    if may: "isScannable source" "in_flight_of ws (so_id source) s = None"
      and fresh: "scan_id \<notin> sn_id ` set (scans s)" "\<not> (\<exists>q \<in> set (scans s). sn_source_id q = so_id source \<and> in_flight q)" for f
  proof -
    show one: "scans_ok (?s1 f) \<and> sources_ok (?s1 f)"
      using scans_ok_insert [of "preferences_rows_update f s" ?scan] okp fresh sources by (simp add: sources_ok_def)
    have "scans_ok (scans_update (scoped_update sn_workspace_id ws (\<lambda>r. sn_id r = scan_id) ?link) (?s1 f))"
      using one by (intro scans_ok_update) (simp_all add: in_flight_def)
    moreover have "sources_ok (sources_update (scoped_update so_workspace_id ws (\<lambda>r. so_id r = so_id source) ?next) (?s1 f))"
      using one by (intro sources_ok_update) (simp_all add: board_of_def source_check_def)
    moreover have "find_source ws (so_id source) (?s3 f) = Some (?next source)"
      using source_table.lookup_update [of ?next ws "so_id source" s source] src by (simp add: find_source_def)
    moreover have "scan_by_id ws scan_id (?s3 f) = Some (?link ?scan)"
    proof -
      have "scan_by_id ws scan_id (scans_update (insert_row ?scan) s) = Some ?scan"
        using fresh(1) scan_table.lookup_insert_new [of ?scan s] by (auto simp: scan_by_id_def scoped_find_None)
      then show ?thesis
        using scan_table.lookup_update [of ?link ws scan_id "scans_update (insert_row ?scan) s" ?scan]
        by (simp add: scan_by_id_def)
    qed
    moreover have "?link ?scan = ?scan \<lparr> sn_task_id := Some task_id \<rparr>" by (simp add: new_scan_def)
    ultimately show "scans_ok (?s3 f) \<and> sources_ok (?s3 f) \<and> scan_started E ws rnd scan_id task_id source key s (?s3 f)"
      using may unfolding scan_started_def Let_def by (simp add: scans_ok_def sources_ok_def)
  qed
  have "t_id ?task = task_id" by (simp add: new_task_def)
  with fin mid show ?thesis
    unfolding startScan_def
    by (auto simp: wp_insert_scan wp_enqueueTask okp scans sources implemented_task_types_def comp_def
        intro!: wp_workspacePreferences)
qed

end
