(* ===== verification/Boards.thy ===== *)
theory Boards
  imports Scans "HOL-Library.AList"
begin

text \<open>
  \<open>apps/api/src/discovery/apply-board.ts\<close>: what the result of a \<open>fetch_board\<close> task, or its
  final failure, does to the scan, the source and the jobs.  A job closes only after
  every board that lists it has been read completely at least twice without it, at
  least a day apart; a refused or partial fetch closes nothing.
\<close>

section \<open>Reading the result\<close>

record denial =
  dn_code :: string
  dn_detail :: string
  dn_retry_after :: "int option"

definition is_denial_warning :: "fetch_warning \<Rightarrow> bool" where
  "is_denial_warning w \<longleftrightarrow> fw_code w = RateLimitedWarning \<or> fw_code w = AccessDenied"

definition denialFrom :: "fetch_board_result \<Rightarrow> denial option" where
  "denialFrom r =
     (case find is_denial_warning (fb_warnings r) of
        Some w \<Rightarrow> Some \<lparr> dn_code = fetch_warning_text (fw_code w), dn_detail = fw_message w,
                          dn_retry_after = fb_retry_after_seconds r \<rparr>
      | None \<Rightarrow>
          if fb_http_status r = Some 429 then
            Some \<lparr> dn_code = ''RATE_LIMITED'', dn_detail = ''The board answered HTTP 429.'',
                   dn_retry_after = fb_retry_after_seconds r \<rparr>
          else if fb_http_status r = Some 403 \<or> fb_http_status r = Some 401 then
            Some \<lparr> dn_code = ''ACCESS_DENIED'',
                   dn_detail = ''The board answered HTTP '' @ string_of_int (the (fb_http_status r)) @ ''.'',
                   dn_retry_after = fb_retry_after_seconds r \<rparr>
          else if fb_state r = HealthBlocked then
            Some \<lparr> dn_code = ''ACCESS_DENIED'', dn_detail = ''The board refused the request.'',
                   dn_retry_after = fb_retry_after_seconds r \<rparr>
          else None)"

text \<open>A JavaScript \<open>Map\<close> keeps the position of the first and the value of the last
  entry of a key.\<close>

definition dedupeBySourceKey :: "normalized_job list \<Rightarrow> normalized_job list" where
  "dedupeBySourceKey postings = map snd (foldl (\<lambda>m j. AList.update (nj_source_key j) j m) [] postings)"

definition hoursBetween :: "timestamp \<Rightarrow> timestamp \<Rightarrow> rat" where
  "hoursBetween from to = of_int (to - from) / of_int (60 * 60 * 1000)"

section \<open>Absence and closure\<close>

definition missed :: "env \<Rightarrow> timestamp \<Rightarrow> job_source_row \<Rightarrow> job_source_row" where
  "missed E snapshot r =
     r \<lparr> js_missing_snapshots := js_missing_snapshots r + 1,
         js_missing_since := Some (case js_missing_since r of None \<Rightarrow> snapshot | Some t \<Rightarrow> t),
         js_last_missing_at := Some snapshot, js_updated_at := now E \<rparr>"

definition already_counted :: "timestamp \<Rightarrow> job_source_row \<Rightarrow> bool" where
  "already_counted snapshot r \<longleftrightarrow> (case js_last_missing_at r of None \<Rightarrow> False | Some t \<Rightarrow> snapshot \<le> t)"

definition absent_rows :: "uuid \<Rightarrow> uuid \<Rightarrow> string list \<Rightarrow> db \<Rightarrow> job_source_row list" where
  "absent_rows ws source_id seen s =
     scoped_filter js_workspace_id ws
       (\<lambda>r. js_source_id r = Some source_id \<and> (seen = [] \<or> js_source_key r \<notin> set seen)) (job_sources s)"

text \<open>The rows through an enabled source are the votes.\<close>

definition votes_of :: "uuid \<Rightarrow> uuid \<Rightarrow> db \<Rightarrow> job_source_row list" where
  "votes_of ws job_id s =
     scoped_filter js_workspace_id ws
       (\<lambda>r. js_job_id r = job_id \<and>
          (\<exists>src \<in> set (sources s). so_workspace_id src = ws \<and> js_source_id r = Some (so_id src) \<and> so_enabled src))
       (job_sources s)"

definition vote_gone :: "job_source_row \<Rightarrow> bool" where
  "vote_gone r \<longleftrightarrow>
     missing_complete_snapshots_to_close \<le> js_missing_snapshots r \<and>
     (case (js_missing_since r, js_last_missing_at r) of
        (Some since, Some last_seen) \<Rightarrow> of_int min_hours_between_snapshots \<le> hoursBetween since last_seen
      | _ \<Rightarrow> False)"

definition closed_job :: "env \<Rightarrow> timestamp \<Rightarrow> job_row \<Rightarrow> job_row" where
  "closed_job E t j =
     j \<lparr> j_status := JobClosed, j_closed_at := Some t, j_closed_reason := Some ClosedBySnapshot, j_updated_at := now E \<rparr>"

definition closeIfGone :: "env \<Rightarrow> uuid \<Rightarrow> timestamp \<Rightarrow> uuid \<Rightarrow> (db, bool) handler" where
  "closeIfGone E ws t job_id =
     andThen (gets (find_job ws job_id)) (\<lambda>found.
       if (case found of None \<Rightarrow> True | Some j \<Rightarrow> j_status j \<noteq> JobActive) then ret False
       else
         andThen (gets (votes_of ws job_id)) (\<lambda>votes.
           if votes = [] then ret False
           else if \<not> list_all vote_gone votes then ret False
           else
             andThen (modify (jobs_update (scoped_update j_workspace_id ws (\<lambda>j. j_id j = job_id) (closed_job E t)))) (\<lambda>_.
             ret True)))"

definition mark_absent :: "env \<Rightarrow> uuid \<Rightarrow> timestamp \<Rightarrow> job_source_row \<Rightarrow> (db, uuid option) handler" where
  "mark_absent E ws snapshot row =
     (if already_counted snapshot row then ret None
      else
        andThen (modify (job_sources_update (scoped_update js_workspace_id ws (\<lambda>r. js_id r = js_id row) (missed E snapshot)))) (\<lambda>_.
        ret (Some (js_job_id row))))"

definition applyAbsences :: "env \<Rightarrow> uuid \<Rightarrow> uuid \<Rightarrow> string list \<Rightarrow> timestamp \<Rightarrow> (db, nat) handler" where
  "applyAbsences E ws source_id seen snapshot =
     andThen (gets (absent_rows ws source_id seen)) (\<lambda>absent.
     andThen (map_each (mark_absent E ws snapshot) absent) (\<lambda>marked.
     andThen (map_each (closeIfGone E ws snapshot) (rev (remdups (rev (List.map_filter id marked))))) (\<lambda>closed.
     ret (length (filter id closed)))))"

section \<open>The result\<close>

definition count_outcome :: "upsert_outcome \<Rightarrow> scan_counts \<Rightarrow> scan_counts" where
  "count_outcome out c =
     (if uo_created out then c \<lparr> sc_created := sc_created c + 1 \<rparr>
      else if uo_updated out then c \<lparr> sc_updated := sc_updated c + 1 \<rparr>
      else c \<lparr> sc_unchanged := sc_unchanged c + 1 \<rparr>)"

fun upsert_each ::
  "env \<Rightarrow> uuid \<Rightarrow> (nat \<Rightarrow> uuid \<times> uuid) \<Rightarrow> job_origin \<Rightarrow> timestamp \<Rightarrow> nat \<Rightarrow> normalized_job list \<Rightarrow> scan_counts
     \<Rightarrow> (db, scan_counts) handler" where
  "upsert_each E ws ids og t k [] c = ret c"
| "upsert_each E ws ids og t k (job # rest_jobs) c =
     andThen (upsertNormalizedJob E ws (fst (ids k)) (snd (ids k)) job og t) (\<lambda>out.
     upsert_each E ws ids og t (Suc k) rest_jobs (count_outcome out c))"

definition board_scan_status :: "denial option \<Rightarrow> bool \<Rightarrow> normalized_job list \<Rightarrow> scan_status" where
  "board_scan_status denied whole postings =
     (if denied \<noteq> None then (if 0 < length postings then ScanPartial else ScanFailed)
      else if whole then ScanSucceeded else ScanPartial)"

definition finished_scan ::
  "env \<Rightarrow> scan_status \<Rightarrow> bool \<Rightarrow> scan_counts \<Rightarrow> denial option \<Rightarrow> timestamp \<Rightarrow> scan_row \<Rightarrow> scan_row" where
  "finished_scan E status whole counts denied t r =
     r \<lparr> sn_status := status, sn_complete_snapshot := whole, sn_counts := counts,
         sn_error_code := map_option dn_code denied,
         sn_error_message := map_option (\<lambda>d. slice 500 (dn_detail d)) denied,
         sn_started_at := Some t, sn_completed_at := Some (now E), sn_updated_at := now E \<rparr>"

definition applyFetchBoardResult ::
  "env \<Rightarrow> (nat \<Rightarrow> uuid \<times> uuid) \<Rightarrow> task_row \<Rightarrow> fetch_board_result \<Rightarrow> (db, unit) handler" where
  "applyFetchBoardResult E ids task r =
     (let ws = t_workspace_id task in
      andThen (lockScanForTask ws (t_id task)) (\<lambda>found.
        case found of None \<Rightarrow> ret ()
        | Some scan \<Rightarrow>
            andThen (lockSource ws (sn_source_id scan)) (\<lambda>source.
            let fetched = fb_fetched_at r; denied = denialFrom r; postings = dedupeBySourceKey (fb_jobs r);
                og = \<lparr> og_connector = so_connector source, og_source_id = Some (so_id source),
                       og_board_key = Some (so_board_key source) \<rparr>;
                start = zero_counts \<lparr> sc_fetched := int (length (fb_jobs r)), sc_pages := fb_pages_fetched r \<rparr>;
                whole = fb_complete_snapshot r \<and> denied = None
            in
            andThen (upsert_each E ws ids og fetched 0 postings start) (\<lambda>counted.
            andThen (if whole then applyAbsences E ws (so_id source) (map nj_source_key postings) fetched else ret 0) (\<lambda>closed.
            andThen (update_scan ws (sn_id scan) (finished_scan E (board_scan_status denied whole postings) whole
              (counted \<lparr> sc_closed := int closed \<rparr>) denied fetched)) (\<lambda>_.
            case denied of
              None \<Rightarrow> recordSourceSuccess E ws (so_id source) fetched (fb_etag r) (fb_last_modified r)
            | Some d \<Rightarrow> recordSourceFailure E ws source
                \<lparr> fo_at = fetched, fo_code = dn_code d, fo_detail = Some (dn_detail d),
                  fo_retry_after_seconds = dn_retry_after d \<rparr>))))))"

definition failed_scan :: "env \<Rightarrow> string \<Rightarrow> string \<Rightarrow> scan_row \<Rightarrow> scan_row" where
  "failed_scan E code message r =
     r \<lparr> sn_status := (if code = ''CANCELLED'' then ScanCancelled else ScanFailed), sn_complete_snapshot := False,
         sn_error_code := Some (slice 64 code), sn_error_message := Some (slice 500 message),
         sn_completed_at := Some (now E), sn_updated_at := now E \<rparr>"

definition applyFetchBoardFailure :: "env \<Rightarrow> task_row \<Rightarrow> string \<Rightarrow> string \<Rightarrow> (db, unit) handler" where
  "applyFetchBoardFailure E task code message =
     (let ws = t_workspace_id task in
      andThen (lockScanForTask ws (t_id task)) (\<lambda>found.
        case found of None \<Rightarrow> ret ()
        | Some scan \<Rightarrow>
            if \<not> in_flight scan then ret ()
            else
              andThen (update_scan ws (sn_id scan) (failed_scan E code message)) (\<lambda>_.
                if code = ''CANCELLED'' then ret ()
                else
                  andThen (lockSource ws (sn_source_id scan)) (\<lambda>source.
                  recordSourceFailure E ws source
                    \<lparr> fo_at = now E, fo_code = code, fo_detail = Some message, fo_retry_after_seconds = None \<rparr>))))"

section \<open>Frames\<close>

lemma scoped_closeIfGone [handler_steps]: "scoped ws (closeIfGone E ws t i)"
  unfolding closeIfGone_def
  by (intro scope.obeys_rules scoped_modify) (simp_all add: outside_def closed_job_def)

lemma scoped_mark_absent: "scoped ws (mark_absent E ws t row)"
  unfolding mark_absent_def
  by (intro scope.obeys_rules scoped_modify) (simp_all add: outside_def missed_def)

lemma scoped_applyAbsences [handler_steps]: "scoped ws (applyAbsences E ws src seen t)"
  unfolding applyAbsences_def by (intro scope.obeys_rules scoped_mark_absent scoped_closeIfGone)

lemma scoped_upsert_each [handler_steps]: "scoped ws (upsert_each E ws ids og t k postings c)"
  by (induction postings arbitrary: k c) (auto intro!: scope.obeys_rules scoped_upsert)

lemma scoped_applyFetchBoardResult [handler_steps]:
  "scoped (t_workspace_id task) (applyFetchBoardResult E ids task r)"
  unfolding applyFetchBoardResult_def Let_def
  by (intro scope.obeys_rules scoped_lockScan scoped_lockSource scoped_upsert_each scoped_applyAbsences
      scoped_recordSourceSuccess scoped_recordSourceFailure scoped_update_scan) (simp_all add: finished_scan_def)

lemma scoped_applyFetchBoardFailure [handler_steps]:
  "scoped (t_workspace_id task) (applyFetchBoardFailure E task code message)"
  unfolding applyFetchBoardFailure_def Let_def
  by (intro scope.obeys_rules scoped_lockScan scoped_lockSource scoped_recordSourceFailure scoped_update_scan)
     (simp_all add: failed_scan_def)

section \<open>The constraints hold\<close>

text \<open>The tables of discovery together.\<close>

definition discovery_ok :: "db \<Rightarrow> bool" where
  "discovery_ok s \<longleftrightarrow> jobs_ok s \<and> scans_ok s \<and> sources_ok s"

lemma discovery_ok_jobs:
  assumes "discovery_ok s" and "scans s' = scans s" and "sources s' = sources s" and "jobs_ok s'"
  shows "discovery_ok s'"
  using assms scans_ok_cong [OF assms(2)] sources_ok_cong [OF assms(3)] by (simp add: discovery_ok_def)

lemma upsert_frame: "obeys (same (\<lambda>s. (scans s, sources s))) (upsertNormalizedJob E ws i k job og t)"
proof -
  have prov: "obeys (same (\<lambda>s. (scans s, sources s))) (upsert_provenance E ws k j job og)" for j
    unfolding upsert_provenance_def by (intro frame.obeys_rules frame.obeys_modify) (simp_all add: same_def)
  show ?thesis
    unfolding upsertNormalizedJob_def Let_def
    by (intro frame.obeys_rules prov)
       (auto intro!: frame.obeys_rules frame.obeys_modify split: option.split simp: same_def)
qed

lemma keeps_discovery_upsert: "obeys (keeps discovery_ok) (upsertNormalizedJob E ws i k job og t)"
proof (rule obeysI)
  fix s
  let ?s' = "snd (upsertNormalizedJob E ws i k job og t s)"
  have eq: "scans ?s' = scans s \<and> sources ?s' = sources s"
    using upsert_frame by (simp add: obeys_def same_def)
  have "jobs_ok ?s'" if "discovery_ok s"
  proof -
    have "jobs_ok s" using that by (simp add: discovery_ok_def)
    then have "wp (upsertNormalizedJob E ws i k job og t) (\<lambda>_. jobs_ok) (\<lambda>_. jobs_ok) s"
      by (rule wp_mono [OF upsert_wp]) simp_all
    then show ?thesis by (simp only: wp_state)
  qed
  then show "keeps discovery_ok s ?s'" using eq discovery_ok_jobs by (simp add: keeps_def)
qed

lemma keeps_discovery_each: "obeys (keeps discovery_ok) (upsert_each E ws ids og t k postings c)"
  by (induction postings arbitrary: k c) (auto intro!: inv.obeys_rules keeps_discovery_upsert)

lemma provenance_check_missed:
  "provenance_check r \<Longrightarrow> \<not> already_counted t r \<Longrightarrow> provenance_check (missed E t r)"
  by (auto simp: provenance_check_def missed_def already_counted_def split: option.splits)

lemma missed_simps [simp]:
  "js_id (missed E t r) = js_id r" "js_workspace_id (missed E t r) = js_workspace_id r"
  "js_job_id (missed E t r) = js_job_id r" "js_source_key (missed E t r) = js_source_key r"
  "js_source_id (missed E t r) = js_source_id r"
  by (simp_all add: missed_def)

lemma provenance_unique:
  "jobs_ok s \<Longrightarrow> a \<in> set (job_sources s) \<Longrightarrow> b \<in> set (job_sources s) \<Longrightarrow> js_id a = js_id b \<Longrightarrow> a = b"
  by (auto simp: jobs_ok_def distinct_map inj_on_def)

lemma jobs_ok_missed:
  assumes ok: "jobs_ok s" and row: "row \<in> set (job_sources s)" and "\<not> already_counted t row"
  shows "jobs_ok (job_sources_update (scoped_update js_workspace_id ws (\<lambda>r. js_id r = js_id row) (missed E t)) s)"
proof -
  let ?rows = "scoped_update js_workspace_id ws (\<lambda>r. js_id r = js_id row) (missed E t) (job_sources s)"
  have "provenance_check r" if "r \<in> set ?rows" for r
    using that
  proof (rule scoped_updateE)
    fix q assume q: "q \<in> set (job_sources s)"
      and r: "r = (if js_workspace_id q = ws \<and> js_id q = js_id row then missed E t q else q)"
    have "js_id q = js_id row \<Longrightarrow> q = row" by (rule provenance_unique [OF ok q row])
    moreover have "provenance_check q" using ok q by (simp add: jobs_ok_def list_all_iff)
    ultimately show ?thesis using r assms(3) provenance_check_missed by auto
  qed
  then have "list_all provenance_check ?rows" by (simp add: list_all_iff)
  moreover have "find_job (js_workspace_id r) (js_job_id r) s \<noteq> None" if "r \<in> set ?rows" for r
    using that ok by (auto simp: jobs_ok_def scoped_update_def)
  ultimately show ?thesis
    using ok by (simp add: jobs_ok_def map_scoped_update provenance_key_def)
qed

lemma wp_step: "m s = (Inr a, s1) \<Longrightarrow> wp m Q F s \<longleftrightarrow> Q a s1"
  by (simp add: wp_def)

lemma mark_each_wp:
  assumes "discovery_ok s" and "distinct (map js_id rows)" and "set rows \<subseteq> set (job_sources s)"
  shows "wp (map_each (mark_absent E ws t) rows)
    (\<lambda>_ s'. discovery_ok s' \<and> jobs s' = jobs s \<and> sources s' = sources s) (\<lambda>_ _. False) s"
  using assms
proof (induction rows arbitrary: s)
  case (Cons row rows)
  have row: "row \<in> set (job_sources s)" using Cons.prems by simp
  let ?s = "if already_counted t row then s else
    job_sources_update (scoped_update js_workspace_id ws (\<lambda>r. js_id r = js_id row) (missed E t)) s"
  have other: "set rows \<subseteq> set (job_sources ?s)"
  proof
    fix q assume q: "q \<in> set rows"
    then have "js_id q \<noteq> js_id row" using Cons.prems(2) by (metis distinct.simps(2) image_eqI list.set_map list.simps(9))
    moreover have "q \<in> set (job_sources s)" using q Cons.prems(3) by auto
    ultimately show "q \<in> set (job_sources ?s)" by (force simp: scoped_update_def)
  qed
  have "jobs_ok ?s" using jobs_ok_missed [OF _ row] Cons.prems(1) by (simp add: discovery_ok_def)
  then have ok: "discovery_ok ?s" by (intro discovery_ok_jobs [OF Cons.prems(1)]) simp_all
  have "mark_absent E ws t row s = (Inr (if already_counted t row then None else Some (js_job_id row)), ?s)"
    by (simp add: mark_absent_def andThen_def modify_def ret_def)
  moreover have "wp (map_each (mark_absent E ws t) rows)
    (\<lambda>_ s'. discovery_ok s' \<and> jobs s' = jobs s \<and> sources s' = sources s) (\<lambda>_ _. False) ?s"
    using Cons.prems(2) by (intro wp_mono [OF Cons.IH [OF ok _ other]]) simp_all
  ultimately show ?case by (simp add: wp_step)
qed simp

lemma keeps_discovery_close: "obeys (keeps discovery_ok) (closeIfGone E ws t i)"
proof (rule obeysI)
  fix s
  have "wp (closeIfGone E ws t i) (\<lambda>_. discovery_ok) (\<lambda>_. discovery_ok) s" if ok: "discovery_ok s"
  proof (cases "find_job ws i s")
    case None
    then show ?thesis using ok by (simp add: closeIfGone_def)
  next
    case (Some j)
    let ?s = "jobs_update (scoped_update j_workspace_id ws (\<lambda>j. j_id j = i) (closed_job E t)) s"
    have "discovery_ok ?s" if "j_status j = JobActive"
    proof (rule discovery_ok_jobs [OF ok])
      have "job_check j" using ok find_jobD [OF Some] by (simp add: discovery_ok_def jobs_ok_def list_all_iff)
      then show "jobs_ok ?s"
        using ok that by (intro jobs_ok_update_job [OF _ Some]) (simp_all add: discovery_ok_def closed_job_def job_check_def)
    qed simp_all
    then show ?thesis using ok Some by (simp add: closeIfGone_def)
  qed
  then show "keeps discovery_ok s (snd (closeIfGone E ws t i s))" by (simp add: keeps_def wp_state)
qed

lemma absent_rows_props:
  assumes "discovery_ok s"
  shows "distinct (map js_id (absent_rows ws src seen s))" and "set (absent_rows ws src seen s) \<subseteq> set (job_sources s)"
  using assms by (auto simp: absent_rows_def scoped_filter_def discovery_ok_def jobs_ok_def distinct_map_filter)

section \<open>What closes a job\<close>

text \<open>The jobs that are closed afterwards were closed before, or their votes are all gone.\<close>

definition gone_votes :: "uuid \<Rightarrow> uuid \<Rightarrow> db \<Rightarrow> bool" where
  "gone_votes ws i s \<longleftrightarrow> votes_of ws i s \<noteq> [] \<and> list_all vote_gone (votes_of ws i s)"

definition closed_in :: "uuid \<Rightarrow> uuid \<Rightarrow> db \<Rightarrow> bool" where
  "closed_in ws i s \<longleftrightarrow> (\<exists>j. find_job ws i s = Some j \<and> j_status j = JobClosed)"

definition closes_gone :: "db \<Rightarrow> db \<Rightarrow> bool" where
  "closes_gone s s' \<longleftrightarrow> job_sources s' = job_sources s \<and> sources s' = sources s \<and>
     (\<forall>w i. closed_in w i s' \<longrightarrow> closed_in w i s \<or> gone_votes w i s)"

definition closes_none :: "db \<Rightarrow> db \<Rightarrow> bool" where
  "closes_none s s' \<longleftrightarrow> (\<forall>w i. closed_in w i s' \<longrightarrow> closed_in w i s)"

lemma gone_votes_cong:
  "job_sources s' = job_sources s \<Longrightarrow> sources s' = sources s \<Longrightarrow> gone_votes w i s' = gone_votes w i s"
  by (simp add: gone_votes_def votes_of_def)

interpretation closing: step_relation closes_gone
  by unfold_locales (auto simp: closes_gone_def gone_votes_def votes_of_def)

interpretation not_closing: step_relation closes_none
  by unfold_locales (auto simp: closes_none_def)

lemma find_job_mapped:
  assumes "\<And>j. j_id (f j) = j_id j" and "\<And>j. j_workspace_id (f j) = j_workspace_id j"
  shows "find_job w i (jobs_update (scoped_update j_workspace_id ws P f) s) =
     map_option (\<lambda>j. if w = ws \<and> P j then f j else j) (find_job w i s)"
proof -
  have "find (\<lambda>j. j_workspace_id j = w \<and> j_id j = i) (map (\<lambda>j. if j_workspace_id j = ws \<and> P j then f j else j) rows) =
      map_option (\<lambda>j. if w = ws \<and> P j then f j else j) (find (\<lambda>j. j_workspace_id j = w \<and> j_id j = i) rows)" for rows
    using assms by (induction rows) auto
  then show ?thesis by (simp add: find_job_def scoped_find_def scoped_update_def)
qed

lemma closes_gone_refl [simp]: "closes_gone s s"
  by (simp add: closes_gone_def)

lemma closing_close: "obeys closes_gone (closeIfGone E ws t i)"
proof (rule obeysI)
  fix s :: db
  let ?s = "jobs_update (scoped_update j_workspace_id ws (\<lambda>j. j_id j = i) (closed_job E t)) s"
  have "closed_in w k s \<or> (w = ws \<and> k = i)" if "closed_in w k ?s" for w k
  proof -
    have "find_job w k ?s = map_option (\<lambda>j. if w = ws \<and> j_id j = i then closed_job E t j else j) (find_job w k s)"
      by (rule find_job_mapped) (simp_all add: closed_job_def)
    then show ?thesis using that find_jobD [of w k s] by (auto simp: closed_in_def split: if_splits)
  qed
  then have "closes_gone s ?s" if "gone_votes ws i s" using that by (auto simp: closes_gone_def)
  then show "closes_gone s (snd (closeIfGone E ws t i s))"
    by (auto simp: closeIfGone_def andThen_def ret_def gone_votes_def split: option.split)
qed
lemma not_closing_same_jobs: "jobs s' = jobs s \<Longrightarrow> closes_none s s'"
  by (simp add: closes_none_def closed_in_def find_job_def)

lemma discovery_ok_absences:
  "discovery_ok s \<Longrightarrow> discovery_ok (snd (applyAbsences E ws src seen t s))"
proof -
  assume ok: "discovery_ok s"
  have close: "wp (map_each (closeIfGone E ws t) ids) (\<lambda>_. discovery_ok) (\<lambda>_. discovery_ok) u" if "discovery_ok u" for ids u
  proof -
    have "obeys (keeps discovery_ok) (map_each (closeIfGone E ws t) ids)"
      by (intro inv.obeys_map_each keeps_discovery_close)
    then show ?thesis using that by (simp add: wp_state obeys_def keeps_def)
  qed
  show ?thesis
    unfolding applyAbsences_def wp_state [symmetric]
    by (simp, rule wp_mono [OF mark_each_wp [OF ok absent_rows_props [OF ok]]])
       (auto intro: wp_mono [OF close])
qed

lemma absences_close_gone:
  assumes ok: "discovery_ok s" and after: "closed_in w i s'" and run: "applyAbsences E ws src seen t s = (out, s')"
  shows "closed_in w i s \<or> gone_votes w i s'"
proof -
  let ?Q = "\<lambda>s'. closed_in w i s' \<longrightarrow> closed_in w i s \<or> gone_votes w i s'"
  have close: "wp (map_each (closeIfGone E ws t) ids) (\<lambda>_. ?Q) (\<lambda>_. ?Q) u" if "jobs u = jobs s" for ids u
  proof -
    have "obeys closes_gone (map_each (closeIfGone E ws t) ids)"
      by (intro closing.obeys_map_each closing_close)
    then have "closes_gone u (snd (map_each (closeIfGone E ws t) ids u))" by (simp add: obeys_def)
    moreover have "closed_in w i u = closed_in w i s" using that by (simp add: closed_in_def find_job_def)
    ultimately show ?thesis
      using gone_votes_cong unfolding wp_state closes_gone_def by blast
  qed
  have "wp (applyAbsences E ws src seen t) (\<lambda>_. ?Q) (\<lambda>_. ?Q) s"
    unfolding applyAbsences_def
    by (simp, rule wp_mono [OF mark_each_wp [OF ok absent_rows_props [OF ok]]])
       (auto intro: wp_mono [OF close])
  then show ?thesis using after run by (simp add: wp_state)
qed

lemma obeys_wp: "obeys R m \<Longrightarrow> wp m (\<lambda>_. R s) (\<lambda>_. R s) s"
  by (simp add: wp_state obeys_def)

lemma find_job_inserted:
  "find_job w k (jobs_update (insert_row r) s) =
     (case find_job w k s of Some j \<Rightarrow> Some j
      | None \<Rightarrow> if j_workspace_id r = w \<and> j_id r = k then Some r else None)"
  by (simp add: find_job_def scoped_find_def insert_row_def find_append split: option.split)

lemma not_closing_upsert: "obeys closes_none (upsertNormalizedJob E ws new_id prov_id job og t)"
proof -
  have new: "closes_none s (jobs_update (insert_row (new_job E ws new_id key job t)) s)" for s :: db and key
    by (auto simp: closes_none_def closed_in_def find_job_inserted new_job_def split: option.splits if_splits)
  have seen: "closes_none s (jobs_update (scoped_update j_workspace_id ws (\<lambda>r. j_id r = j_id x) (seen_job E key job t x)) s)"
    for s :: db and key x
  proof -
    have "j_status (seen_job E key job t x r) = JobClosed \<Longrightarrow> j_status r = JobClosed" for r
      by (auto simp: seen_job_def sourceContent_def Let_def split: if_splits)
    moreover have "find_job w k (jobs_update (scoped_update j_workspace_id ws (\<lambda>r. j_id r = j_id x) (seen_job E key job t x)) s) =
        map_option (\<lambda>j. if w = ws \<and> j_id j = j_id x then seen_job E key job t x j else j) (find_job w k s)" for w k
      by (rule find_job_mapped) simp_all
    ultimately show ?thesis by (auto simp: closes_none_def closed_in_def split: if_splits)
  qed
  have prov: "obeys closes_none (upsert_provenance E ws k j job og)" for k j
    unfolding upsert_provenance_def
    by (intro not_closing.obeys_rules not_closing.obeys_modify) (simp_all add: not_closing_same_jobs)
  show ?thesis
    unfolding upsertNormalizedJob_def Let_def
    by (intro not_closing.obeys_rules prov)
       (auto intro!: not_closing.obeys_rules not_closing.obeys_modify new seen split: option.split)
qed

lemma not_closing_each: "obeys closes_none (upsert_each E ws ids og t k postings c)"
  by (induction postings arbitrary: k c) (auto intro!: not_closing.obeys_rules not_closing_upsert)

lemma discovery_ok_scan:
  assumes "discovery_ok s" and "\<And>r. sn_id (f r) = sn_id r" and "\<And>r. sn_source_id (f r) = sn_source_id r"
    and "\<And>r. in_flight (f r) \<Longrightarrow> in_flight r"
  shows "discovery_ok (scans_update (scoped_update sn_workspace_id ws P f) s)"
proof -
  have "scans_ok (scans_update (scoped_update sn_workspace_id ws P f) s)"
    using assms by (intro scans_ok_update) (simp_all add: discovery_ok_def)
  then show ?thesis using assms(1) by (simp add: discovery_ok_def cong: jobs_ok_cong sources_ok_cong)
qed

lemma discovery_ok_source:
  assumes "discovery_ok s" and "sources_ok s'" and "scans s' = scans s" and "jobs s' = jobs s"
    and "job_sources s' = job_sources s"
  shows "discovery_ok s'"
  using assms jobs_ok_cong [OF assms(4,5)] scans_ok_cong [OF assms(3)] by (simp add: discovery_ok_def)

definition closes_soundly :: "fetch_board_result \<Rightarrow> db \<Rightarrow> db \<Rightarrow> bool" where
  "closes_soundly r s s' \<longleftrightarrow>
     (\<forall>w i. closed_in w i s' \<longrightarrow>
        closed_in w i s \<or> (fb_complete_snapshot r \<and> denialFrom r = None \<and> gone_votes w i s'))"

lemma closed_in_scans [simp]: "closed_in w i (scans_update g s) = closed_in w i s"
  by (simp add: closed_in_def find_job_def)

lemma closed_in_sources [simp]: "closed_in w i (sources_update g s) = closed_in w i s"
  by (simp add: closed_in_def find_job_def)

lemma gone_votes_scans [simp]: "gone_votes w i (scans_update g s) = gone_votes w i s"
  by (simp add: gone_votes_def votes_of_def)

lemma votes_of_enabled:
  assumes "\<And>r. so_id (f r) = so_id r" and "\<And>r. so_workspace_id (f r) = so_workspace_id r"
    and "\<And>r. so_enabled (f r) = so_enabled r"
  shows "votes_of w i (sources_update (scoped_update so_workspace_id ws P f) s) = votes_of w i s"
proof -
  have "(\<exists>src \<in> set (scoped_update so_workspace_id ws P f rows). so_workspace_id src = w \<and> v = Some (so_id src) \<and> so_enabled src) \<longleftrightarrow>
      (\<exists>src \<in> set rows. so_workspace_id src = w \<and> v = Some (so_id src) \<and> so_enabled src)" for rows v
    unfolding scoped_update_def set_map bex_simps(7) using assms by (intro bex_cong) auto
  then show ?thesis by (simp add: votes_of_def)
qed

lemma recorded_success_wp:
  assumes "discovery_ok s" and "closes_soundly r s0 s"
  shows "wp (recordSourceSuccess E ws i t etag modified) (\<lambda>_ s'. discovery_ok s' \<and> closes_soundly r s0 s') F s"
proof -
  let ?f = "scoped_update so_workspace_id ws (\<lambda>r. so_id r = i) (succeeded_source E t etag modified)"
  have "sources_ok (sources_update ?f s)"
    using assms(1) sources_ok_success [of s E ws i t etag modified] by (simp add: discovery_ok_def recordSourceSuccess_def)
  then have "discovery_ok (sources_update ?f s)"
    using discovery_ok_source [OF assms(1), of "sources_update ?f s"] by simp
  moreover have "votes_of w k (sources_update ?f s) = votes_of w k s" for w k
    by (rule votes_of_enabled) (simp_all add: succeeded_source_def)
  ultimately show ?thesis
    using assms(2) by (simp add: recordSourceSuccess_def closes_soundly_def gone_votes_def)
qed

lemma recorded_failure_wp:
  assumes "discovery_ok s" and "closes_soundly r s0 s" and "denialFrom r \<noteq> None" and "source_check row"
  shows "wp (recordSourceFailure E ws row ob) (\<lambda>_ s'. discovery_ok s' \<and> closes_soundly r s0 s') F s"
proof -
  let ?f = "scoped_update so_workspace_id ws (\<lambda>r. so_id r = so_id row) (failed_source E row ob)"
  have "sources_ok (sources_update ?f s)"
    using assms(1,4) sources_ok_failure [of s row E ws ob] by (simp add: discovery_ok_def recordSourceFailure_def)
  then have "discovery_ok (sources_update ?f s)"
    using discovery_ok_source [OF assms(1), of "sources_update ?f s"] by simp
  then show ?thesis
    using assms(2,3) by (simp add: recordSourceFailure_def closes_soundly_def)
qed

lemma upsert_each_wp:
  assumes "discovery_ok s"
  shows "wp (upsert_each E ws ids og t k postings c) (\<lambda>_ s'. discovery_ok s' \<and> closes_none s s')
    (\<lambda>_ s'. discovery_ok s' \<and> closes_none s s') s"
  using obeysD [OF keeps_discovery_each] obeysD [OF not_closing_each] assms
  unfolding wp_state keeps_def by (metis prod.collapse)

lemma absence_step_wp:
  assumes "discovery_ok u" and "closes_none s u" and "whole = (fb_complete_snapshot r \<and> denialFrom r = None)"
  shows "wp (if whole then applyAbsences E ws src seen t else ret 0) (\<lambda>_ s'. discovery_ok s' \<and> closes_soundly r s s')
    (\<lambda>_ s'. discovery_ok s' \<and> closes_soundly r s s') u"
proof (cases whole)
  case True
  let ?u = "snd (applyAbsences E ws src seen t u)"
  have "closed_in w i u \<or> gone_votes w i ?u" if "closed_in w i ?u" for w i
    by (rule absences_close_gone [OF assms(1) that surjective_pairing])
  then have "closes_soundly r s ?u"
    using True assms(2,3) by (auto simp: closes_soundly_def closes_none_def)
  then show ?thesis using True discovery_ok_absences [OF assms(1)] by (simp add: wp_state)
next
  case False
  then show ?thesis using assms(1,2) by (auto simp: closes_soundly_def closes_none_def)
qed

lemma fetch_board_result_wp:
  assumes ok: "discovery_ok s"
  shows "wp (applyFetchBoardResult E ids task r) (\<lambda>_ s'. discovery_ok s' \<and> closes_soundly r s s')
    (\<lambda>_ s'. discovery_ok s' \<and> closes_soundly r s s') s"
proof -
  have refl: "closes_soundly r s s" by (simp add: closes_soundly_def)
  have checked: "source_check src" if "find_source ws i s = Some src" for ws i src
    using ok that sources_ok_find by (auto simp: discovery_ok_def)
  have scan: "discovery_ok (scans_update (scoped_update sn_workspace_id ws P (finished_scan E status whole counts denied t)) u)"
    if "discovery_ok u" and "status \<in> {ScanPartial, ScanFailed, ScanSucceeded}" for ws P status whole counts denied t u
    using that by (intro discovery_ok_scan) (auto simp: finished_scan_def in_flight_def)
  have status: "board_scan_status d w p \<in> {ScanPartial, ScanFailed, ScanSucceeded}" for d w p
    by (simp add: board_scan_status_def)
  have finish: "wp (case d of
        None \<Rightarrow> recordSourceSuccess E ws (so_id src) t etag modified
      | Some d \<Rightarrow> recordSourceFailure E ws src (fo d)) (\<lambda>_ s'. discovery_ok s' \<and> closes_soundly r s s')
      (\<lambda>_ s'. discovery_ok s' \<and> closes_soundly r s s') u"
    if "discovery_ok u" "closes_soundly r s u" "d = denialFrom r" "source_check src" for d ws src t etag modified fo u
    using that recorded_success_wp recorded_failure_wp by (auto split: option.split)
  have soundly_scans: "closes_soundly r s (scans_update g u) = closes_soundly r s u" for g and u :: db
    by (simp add: closes_soundly_def)
  show ?thesis
  proof (cases "scan_by_task (t_workspace_id task) (t_id task) s")
    case None
    then show ?thesis using ok refl by (simp add: applyFetchBoardResult_def lockScanForTask_def Let_def)
  next
    case (Some scan)
    note scan_found = Some
    show ?thesis
    proof (cases "find_source (t_workspace_id task) (sn_source_id scan) s")
      case None
      then show ?thesis using ok refl scan_found by (simp add: applyFetchBoardResult_def lockScanForTask_def Let_def)
    next
      case (Some src)
      show ?thesis
        unfolding applyFetchBoardResult_def lockScanForTask_def Let_def
        apply (simp only: wp_andThen wp_gets wp_lockSource scan_found Some option.case)
        apply (rule wp_mono [OF upsert_each_wp [OF ok]])
         apply (rule wp_mono [OF absence_step_wp [where s = s and r = r]])
             apply (auto intro!: finish scan status checked [OF Some] simp: soundly_scans) [5]
        apply (auto simp: closes_soundly_def closes_none_def)
        done
    qed
  qed
qed

lemma fetch_board_failure_ok:
  assumes ok: "discovery_ok s"
  shows "wp (applyFetchBoardFailure E task code message) (\<lambda>_. discovery_ok) (\<lambda>_. discovery_ok) s"
proof (cases "scan_by_task (t_workspace_id task) (t_id task) s")
  case None
  then show ?thesis using ok by (simp add: applyFetchBoardFailure_def lockScanForTask_def Let_def)
next
  case (Some scan)
  let ?s = "scans_update (scoped_update sn_workspace_id (t_workspace_id task) (\<lambda>r. sn_id r = sn_id scan) (failed_scan E code message)) s"
  have any: "discovery_ok (scans_update (scoped_update sn_workspace_id ws P (failed_scan E c m)) s)" for ws P c m
    using ok by (intro discovery_ok_scan) (auto simp: failed_scan_def in_flight_def split: if_splits)
  note scan = any [of "t_workspace_id task" "\<lambda>r. sn_id r = sn_id scan" code message]
  have "discovery_ok (sources_update (scoped_update so_workspace_id ws (\<lambda>r. so_id r = so_id src) (failed_source E src ob)) ?s)"
    if "find_source w i ?s = Some src" for ws w i src ob
  proof -
    have "sources_ok ?s" using scan by (simp add: discovery_ok_def)
    from sources_ok_failure [OF this sources_ok_find [OF this that], of E ws ob] discovery_ok_source [OF scan]
    show ?thesis by (simp add: recordSourceFailure_def)
  qed
  then show ?thesis
    using Some ok any by (simp add: applyFetchBoardFailure_def lockScanForTask_def Let_def recordSourceFailure_def split: option.split)
qed

end
