(* ===== verification/JobImports.thy ===== *)
theory JobImports
  imports Boards
begin

text \<open>
  \<open>apps/api/src/discovery/imports.ts\<close> and the import route of \<open>routes/jobs.ts\<close>: a posting
  the user names by its address or pastes.  The \<open>fetch_job\<close> task resolves the import to a
  job through the same upsert as a scan, offers several candidates, or fails; the task's
  stored result then carries what became of the import.
\<close>

section \<open>Requesting an import\<close>

definition fetch_max_redirects :: int where
  "fetch_max_redirects = 3"

definition fetch_max_html_bytes :: int where
  "fetch_max_html_bytes = 2 * 1024 * 1024"

definition fetch_timeout_seconds :: int where
  "fetch_timeout_seconds = 20"

definition validateImportUrl :: "env \<Rightarrow> string \<Rightarrow> api_error + string" where
  "validateImportUrl E value =
     (case parse_url E (trim value) of
        None \<Rightarrow> Inl Unprocessable
      | Some u \<Rightarrow>
          if url_protocol u \<noteq> ''https:'' then Inl Unprocessable
          else if url_username u \<noteq> [] \<or> url_password u \<noteq> [] then Inl Unprocessable
          else Inr (url_href u))"

definition filled :: "string option \<Rightarrow> string option" where
  "filled x = (case x of None \<Rightarrow> None | Some v \<Rightarrow> if trim v = [] then None else Some v)"

definition validated_url :: "env \<Rightarrow> string option \<Rightarrow> api_error + string option" where
  "validated_url E x =
     (case x of None \<Rightarrow> Inr None
      | Some v \<Rightarrow> (case validateImportUrl E v of Inl e \<Rightarrow> Inl e | Inr u \<Rightarrow> Inr (Some u)))"

definition import_input :: "job_import_request \<Rightarrow> string option \<Rightarrow> string option \<Rightarrow> job_import_input" where
  "import_input b url apply_url =
     \<lparr> ji_url = url,
       ji_description_chars = (case filled (jq_description_text b) of None \<Rightarrow> 0 | Some t \<Rightarrow> int (length t)),
       ji_company = jq_company b, ji_title = jq_title b, ji_apply_url = apply_url \<rparr>"

definition new_job_import :: "env \<Rightarrow> uuid \<Rightarrow> uuid \<Rightarrow> job_import_input \<Rightarrow> job_import_row" where
  "new_job_import E ws new_id input =
     \<lparr> jm_id = new_id, jm_workspace_id = ws, jm_task_id = None, jm_status = JobImportQueued, jm_input = input,
       jm_job_id = None, jm_candidates = [], jm_warnings = [], jm_error_code = None, jm_error_message = None,
       jm_created_at = now E, jm_updated_at = now E \<rparr>"

definition import_payload ::
  "uuid \<Rightarrow> job_import_request \<Rightarrow> string option \<Rightarrow> string option \<Rightarrow> fetch_job_input" where
  "import_payload new_id b url apply_url =
     \<lparr> fji_job_import_id = new_id, fji_url = url, fji_description_text = filled (jq_description_text b),
       fji_company_hint = jq_company b, fji_title_hint = jq_title b, fji_apply_url_hint = apply_url,
       fji_max_redirects = fetch_max_redirects, fji_max_html_bytes = fetch_max_html_bytes,
       fji_timeout_seconds = fetch_timeout_seconds \<rparr>"

definition insert_job_import :: "job_import_row \<Rightarrow> (db, unit) handler" where
  "insert_job_import r =
     andThen (gets (\<lambda>s. jm_id r \<in> jm_id ` set (job_imports s))) (\<lambda>taken.
     andThen (throw_if taken Conflict) (\<lambda>_.
     modify (job_imports_update (insert_row r))))"

definition update_job_import :: "uuid \<Rightarrow> (job_import_row \<Rightarrow> bool) \<Rightarrow> (job_import_row \<Rightarrow> job_import_row) \<Rightarrow> (db, unit) handler" where
  "update_job_import ws P f = modify (job_imports_update (scoped_update jm_workspace_id ws P f))"

text \<open>The unique violation of the insert and of the task's key both answer with a
  conflict, as in the route's \<open>catch\<close>.\<close>

definition importJob ::
  "env \<Rightarrow> uuid \<Rightarrow> uuid \<Rightarrow> uuid \<Rightarrow> uuid \<Rightarrow> string option \<Rightarrow> json \<Rightarrow> job_import_request \<Rightarrow> (db, outcome) handler" where
  "importJob E ws user import_id task_id header body b =
     andThen (reads (\<lambda>_. readIdempotencyKey header)) (\<lambda>key.
       let stated = filled (jq_url b); described = filled (jq_description_text b) in
     andThen (throw_if (stated \<noteq> None \<and> described \<noteq> None) Unprocessable) (\<lambda>_.
     andThen (throw_if (stated = None \<and> described = None) Unprocessable) (\<lambda>_.
     andThen (reads (\<lambda>_. validated_url E stated)) (\<lambda>url.
     andThen (reads (\<lambda>_. validated_url E (filled (jq_apply_url b)))) (\<lambda>apply_url.
     withIdempotency E ws header body ''POST /jobs/import''
       (transaction (
         let input = import_input b url apply_url in
         andThen (insert_job_import (new_job_import E ws import_id input)) (\<lambda>_.
         andThen (enqueueTask E ws task_id
           (plain_task FetchJob (FetchJobPayload (import_payload import_id b url apply_url)) (Some key))) (\<lambda>task.
         andThen (update_job_import ws (\<lambda>r. jm_id r = import_id)
           (\<lambda>r. r \<lparr> jm_task_id := Some (t_id task), jm_updated_at := now E \<rparr>)) (\<lambda>_.
         andThen (recordAuditEvent ws ''job_import.queued'' (Some user) (Some import_id) (Some ''job_import'')
           (JObj [(''source'', JStr (if stated \<noteq> None then ''url'' else ''description_text'')),
                  (''description_chars'', JNum (ji_description_chars input)),
                  (''has_hints'', JBool (ji_company input \<noteq> None \<or> ji_title input \<noteq> None))])) (\<lambda>_.
         ret (accepted (t_id task)))))))))))))"

section \<open>The result of the fetch\<close>

definition lockImportForTask :: "uuid \<Rightarrow> uuid \<Rightarrow> (db, job_import_row option) handler" where
  "lockImportForTask ws task_id =
     gets (\<lambda>s. scoped_find jm_workspace_id ws (\<lambda>r. jm_task_id r = Some task_id) (job_imports s))"

definition extended_task :: "env \<Rightarrow> fetch_job_result \<Rightarrow> job_import_extension \<Rightarrow> task_row \<Rightarrow> task_row" where
  "extended_task E r x t = t \<lparr> t_result := Some (ExtendedJobResult r x), t_updated_at := now E \<rparr>"

definition extendTaskResult ::
  "env \<Rightarrow> uuid \<Rightarrow> task_row \<Rightarrow> fetch_job_result \<Rightarrow> job_import_extension \<Rightarrow> (db, unit) handler" where
  "extendTaskResult E ws task r x =
     modify (tasks_update (scoped_update t_workspace_id ws (\<lambda>t. t_id t = t_id task) (extended_task E r x)))"

definition withHints :: "normalized_job \<Rightarrow> job_import_input \<Rightarrow> normalized_job" where
  "withHints job input =
     (if nj_apply_url job \<noteq> None \<or> ji_apply_url input = None then job
      else job \<lparr> nj_apply_url := ji_apply_url input \<rparr>)"

definition import_origin :: "job_import_input \<Rightarrow> job_origin" where
  "import_origin input =
     \<lparr> og_connector = (if ji_url input = None then ManualConnector else UrlConnector),
       og_source_id = None, og_board_key = None \<rparr>"

definition resolved_import :: "env \<Rightarrow> uuid \<Rightarrow> fetch_warning list \<Rightarrow> job_import_row \<Rightarrow> job_import_row" where
  "resolved_import E job_id warnings r =
     r \<lparr> jm_status := JobImportResolved, jm_job_id := Some job_id, jm_candidates := [], jm_warnings := warnings,
         jm_error_code := None, jm_error_message := None, jm_updated_at := now E \<rparr>"

definition first_warning_code :: "fetch_warning list \<Rightarrow> string" where
  "first_warning_code ws = (case ws of [] \<Rightarrow> ''EXTRACTION_EMPTY'' | w # _ \<Rightarrow> fetch_warning_text (fw_code w))"

definition first_warning_message :: "fetch_warning list \<Rightarrow> string" where
  "first_warning_message ws =
     (case ws of [] \<Rightarrow> ''No job posting could be read from the input.'' | w # _ \<Rightarrow> fw_message w)"

definition unresolved_import ::
  "env \<Rightarrow> normalized_job list \<Rightarrow> fetch_warning list \<Rightarrow> job_import_row \<Rightarrow> job_import_row" where
  "unresolved_import E candidates warnings r =
     (let status = (if 0 < length candidates then JobImportNeedsChoice else JobImportFailed) in
      r \<lparr> jm_status := status, jm_job_id := None, jm_candidates := candidates, jm_warnings := warnings,
          jm_error_code := (if status = JobImportFailed then Some (slice 64 (first_warning_code warnings)) else None),
          jm_error_message := (if status = JobImportFailed then Some (slice 500 (first_warning_message warnings)) else None),
          jm_updated_at := now E \<rparr>)"

definition applyFetchJobResult ::
  "env \<Rightarrow> uuid \<Rightarrow> uuid \<Rightarrow> task_row \<Rightarrow> fetch_job_result \<Rightarrow> (db, unit) handler" where
  "applyFetchJobResult E new_id prov_id task r =
     (let ws = t_workspace_id task in
      andThen (lockImportForTask ws (t_id task)) (\<lambda>found.
        case found of None \<Rightarrow> ret ()
        | Some row \<Rightarrow>
            let warnings = take 100 (fjr_warnings r) in
            case fjr_job r of
              Some job \<Rightarrow>
                andThen (upsertNormalizedJob E ws new_id prov_id (withHints job (jm_input row))
                  (import_origin (jm_input row)) (now E)) (\<lambda>out.
                andThen (update_job_import ws (\<lambda>q. jm_id q = jm_id row) (resolved_import E (uo_job_id out) warnings)) (\<lambda>_.
                extendTaskResult E ws task r
                  \<lparr> jx_id = jm_id row, jx_status = JobImportResolved, jx_job_id = Some (uo_job_id out) \<rparr>))
            | None \<Rightarrow>
                andThen (update_job_import ws (\<lambda>q. jm_id q = jm_id row)
                  (unresolved_import E (fjr_candidates r) warnings)) (\<lambda>_.
                extendTaskResult E ws task r
                  \<lparr> jx_id = jm_id row,
                    jx_status = (if 0 < length (fjr_candidates r) then JobImportNeedsChoice else JobImportFailed),
                    jx_job_id = None \<rparr>)))"

definition failed_import :: "env \<Rightarrow> string \<Rightarrow> string \<Rightarrow> job_import_row \<Rightarrow> job_import_row" where
  "failed_import E code message r =
     r \<lparr> jm_status := JobImportFailed, jm_error_code := Some (slice 64 code),
         jm_error_message := Some (slice 500 message), jm_updated_at := now E \<rparr>"

definition applyFetchJobFailure :: "env \<Rightarrow> task_row \<Rightarrow> string \<Rightarrow> string \<Rightarrow> (db, unit) handler" where
  "applyFetchJobFailure E task code message =
     update_job_import (t_workspace_id task)
       (\<lambda>r. jm_task_id r = Some (t_id task) \<and> jm_status r = JobImportQueued) (failed_import E code message)"

section \<open>Frames\<close>

lemma scoped_insert_job_import: "jm_workspace_id r = ws \<Longrightarrow> scoped ws (insert_job_import r)"
  unfolding insert_job_import_def by (intro scope.obeys_rules scoped_modify) (simp_all add: outside_def)

lemma scoped_update_job_import:
  "(\<And>r. jm_workspace_id (f r) = jm_workspace_id r) \<Longrightarrow> scoped ws (update_job_import ws P f)"
  unfolding update_job_import_def by (rule scoped_modify) (simp_all add: outside_def)

lemma scoped_extendTaskResult: "scoped ws (extendTaskResult E ws task r x)"
  unfolding extendTaskResult_def by (rule scoped_modify) (simp_all add: outside_def extended_task_def)

lemma scoped_applyFetchJobResult [handler_steps]:
  "scoped (t_workspace_id task) (applyFetchJobResult E i k task r)"
  unfolding applyFetchJobResult_def lockImportForTask_def Let_def
  by (intro scope.obeys_rules scoped_upsert scoped_update_job_import scoped_extendTaskResult)
     (simp_all add: resolved_import_def unresolved_import_def Let_def)

lemma scoped_applyFetchJobFailure [handler_steps]: "scoped (t_workspace_id task) (applyFetchJobFailure E task code message)"
  unfolding applyFetchJobFailure_def by (rule scoped_update_job_import) (simp add: failed_import_def)

lemma scoped_importJob [handler_steps]: "scoped ws (importJob E ws user i k header body b)"
  unfolding importJob_def Let_def
  by (intro scope.obeys_rules scoped_withIdempotency scoped_insert_job_import scoped_enqueueTask
      scoped_update_job_import scoped_recordAuditEvent) (simp_all add: new_job_import_def)

section \<open>Imports that agree with their status\<close>

text \<open>A resolved import names its job, an open or failed one names none; only an import
  that needs a choice has candidates, and only a failed one an error.\<close>

definition import_check :: "job_import_row \<Rightarrow> bool" where
  "import_check r \<longleftrightarrow>
     (jm_status r = JobImportResolved \<longleftrightarrow> jm_job_id r \<noteq> None) \<and>
     (jm_status r = JobImportNeedsChoice \<longleftrightarrow> jm_candidates r \<noteq> []) \<and>
     (jm_status r = JobImportFailed \<longleftrightarrow> jm_error_code r \<noteq> None) \<and>
     (jm_error_code r = None \<longleftrightarrow> jm_error_message r = None)"

definition imports_ok :: "db \<Rightarrow> bool" where
  "imports_ok s \<longleftrightarrow> distinct (map jm_id (job_imports s)) \<and> list_all import_check (job_imports s)"

lemma imports_ok_cong: "job_imports s' = job_imports s \<Longrightarrow> imports_ok s' = imports_ok s"
  by (simp add: imports_ok_def)

lemma import_checks:
  "import_check (resolved_import E i w r)" "import_check (unresolved_import E c w r)"
  "jm_status r = JobImportQueued \<Longrightarrow> import_check r \<Longrightarrow> import_check (failed_import E code m r)"
  "import_check (new_job_import E ws i input)"
  by (simp_all add: import_check_def resolved_import_def unresolved_import_def failed_import_def new_job_import_def Let_def)

lemma import_ids [simp]:
  "jm_id (resolved_import E i w r) = jm_id r" "jm_id (unresolved_import E c w r) = jm_id r"
  "jm_id (failed_import E code m r) = jm_id r"
  by (simp_all add: resolved_import_def unresolved_import_def failed_import_def Let_def)

lemma imports_ok_update:
  assumes "imports_ok s" and "\<And>r. jm_id (f r) = jm_id r" and "\<And>r. P r \<Longrightarrow> import_check r \<Longrightarrow> import_check (f r)"
  shows "imports_ok (job_imports_update (scoped_update jm_workspace_id ws P f) s)"
proof -
  have "map jm_id (scoped_update jm_workspace_id ws P f (job_imports s)) = map jm_id (job_imports s)"
    using assms(2) by (rule map_scoped_update)
  moreover have "list_all import_check (scoped_update jm_workspace_id ws P f (job_imports s))"
    using assms(1,3) by (auto simp: imports_ok_def list_all_iff scoped_update_def)
  ultimately show ?thesis using assms(1) unfolding imports_ok_def by simp
qed

section \<open>What a result does\<close>

lemma upsert_same_imports: "obeys (same job_imports) (upsertNormalizedJob E ws i k job og t)"
proof -
  have prov: "obeys (same job_imports) (upsert_provenance E ws k j job og)" for j
    unfolding upsert_provenance_def by (intro frame.obeys_rules frame.obeys_modify) (simp_all add: same_def)
  show ?thesis
    unfolding upsertNormalizedJob_def Let_def
    by (intro frame.obeys_rules prov)
       (auto intro!: frame.obeys_rules frame.obeys_modify split: option.split simp: same_def)
qed

text \<open>Tables of discovery and imports together.\<close>

definition import_state_ok :: "db \<Rightarrow> bool" where
  "import_state_ok s \<longleftrightarrow> discovery_ok s \<and> imports_ok s"

lemma discovery_ok_cong:
  assumes "jobs s' = jobs s" and "job_sources s' = job_sources s" and "scans s' = scans s" and "sources s' = sources s"
  shows "discovery_ok s' = discovery_ok s"
  using jobs_ok_cong [OF assms(1,2)] scans_ok_cong [OF assms(3)] sources_ok_cong [OF assms(4)]
  by (simp add: discovery_ok_def)

lemma import_state_tasks [simp]: "import_state_ok (tasks_update f s) = import_state_ok s"
  using discovery_ok_cong [of "tasks_update f s" s] imports_ok_cong [of "tasks_update f s" s]
  by (simp add: import_state_ok_def)

lemma import_state_audit [simp]: "import_state_ok (audit_events_update f s) = import_state_ok s"
  using discovery_ok_cong [of "audit_events_update f s" s] imports_ok_cong [of "audit_events_update f s" s]
  by (simp add: import_state_ok_def)

lemma import_state_update:
  assumes "import_state_ok s" and "\<And>r. jm_id (f r) = jm_id r" and "\<And>r. P r \<Longrightarrow> import_check r \<Longrightarrow> import_check (f r)"
  shows "import_state_ok (job_imports_update (scoped_update jm_workspace_id ws P f) s)"
  using assms imports_ok_update [of s f P ws] discovery_ok_cong [of "job_imports_update (scoped_update jm_workspace_id ws P f) s" s]
  by (simp add: import_state_ok_def)

lemma keeps_imports_upsert: "obeys (keeps import_state_ok) (upsertNormalizedJob E ws i k job og t)"
proof (rule obeysI)
  fix s
  let ?s' = "snd (upsertNormalizedJob E ws i k job og t s)"
  have "job_imports ?s' = job_imports s" using upsert_same_imports by (simp add: obeys_def same_def)
  from imports_ok_cong [OF this] show "keeps import_state_ok s ?s'"
    using keeps_discovery_upsert [of E ws i k job og t] by (simp add: obeys_def keeps_def import_state_ok_def)
qed

lemma keeps_import_update:
  assumes "\<And>r. jm_id (f r) = jm_id r" and "\<And>r. P r \<Longrightarrow> import_check r \<Longrightarrow> import_check (f r)"
  shows "obeys (keeps import_state_ok) (update_job_import ws P f)"
  unfolding update_job_import_def
  by (rule inv.obeys_modify) (auto simp: keeps_def intro: import_state_update assms)

lemma keeps_applyFetchJobResult: "obeys (keeps import_state_ok) (applyFetchJobResult E i k task r)"
  unfolding applyFetchJobResult_def lockImportForTask_def Let_def extendTaskResult_def
  by (intro inv.obeys_rules inv.obeys_modify keeps_imports_upsert keeps_import_update)
     (simp_all add: keeps_def import_checks)

lemma keeps_applyFetchJobFailure: "obeys (keeps import_state_ok) (applyFetchJobFailure E task code message)"
  unfolding applyFetchJobFailure_def
  by (rule keeps_import_update) (simp_all add: import_checks)

lemma not_closing_applyFetchJobResult: "obeys closes_none (applyFetchJobResult E i k task r)"
  unfolding applyFetchJobResult_def lockImportForTask_def Let_def update_job_import_def extendTaskResult_def
  by (intro not_closing.obeys_rules not_closing.obeys_modify not_closing_upsert) (simp_all add: not_closing_same_jobs)

lemma find_import_resolved:
  assumes "scoped_find jm_workspace_id ws P rows = Some row" and "\<And>r. P (f r) = P r" and "\<And>r. jm_workspace_id (f r) = jm_workspace_id r"
  shows "scoped_find jm_workspace_id ws P (scoped_update jm_workspace_id ws (\<lambda>q. jm_id q = jm_id row) f rows) = Some (f row)"
  using scoped_find_update [OF assms(1), of f "\<lambda>q. jm_id q = jm_id row"] assms(2,3) by simp

text \<open>A posting that was read resolves the import to a job of the workspace; the stored
  result names the same job.\<close>

lemma import_resolved_wp:
  assumes ok: "jobs_ok s" and row: "scoped_find jm_workspace_id (t_workspace_id task) (\<lambda>r. jm_task_id r = Some (t_id task)) (job_imports s) = Some row"
    and job: "fjr_job r = Some job"
  shows "wp (applyFetchJobResult E i k task r)
    (\<lambda>_ s'. \<exists>j. find_job (t_workspace_id task) j s' \<noteq> None \<and>
       scoped_find jm_workspace_id (t_workspace_id task) (\<lambda>r. jm_task_id r = Some (t_id task)) (job_imports s') =
         Some (resolved_import E j (take 100 (fjr_warnings r)) row) \<and>
       (\<forall>t \<in> set (tasks s'). t_workspace_id t = t_workspace_id task \<longrightarrow> t_id t = t_id task \<longrightarrow>
          t_result t = Some (ExtendedJobResult r \<lparr> jx_id = jm_id row, jx_status = JobImportResolved, jx_job_id = Some j \<rparr>)))
    (\<lambda>_ _. True) s"
proof -
  let ?ws = "t_workspace_id task"
  let ?P = "\<lambda>r. jm_task_id r = Some (t_id task)"
  let ?job = "withHints job (jm_input row)" and ?og = "import_origin (jm_input row)"
  have up: "wp (upsertNormalizedJob E ?ws i k ?job ?og (now E))
      (\<lambda>out u. find_job ?ws (uo_job_id out) u \<noteq> None \<and> job_imports u = job_imports s) (\<lambda>_ _. True) s"
  proof (rule wpI)
    fix out u
    assume run: "upsertNormalizedJob E ?ws i k ?job ?og (now E) s = (Inr out, u)"
    have "job_imports u = job_imports s" using obeysD [OF upsert_same_imports run] by (simp add: same_def)
    moreover have "find_job ?ws (uo_job_id out) u \<noteq> None"
      using wp_okD [OF upsert_wp [OF ok] run] by (auto simp: upsert_post_def Let_def split: option.splits)
    ultimately show "find_job ?ws (uo_job_id out) u \<noteq> None \<and> job_imports u = job_imports s" by simp
  qed simp
  have found: "scoped_find jm_workspace_id ?ws ?P (scoped_update jm_workspace_id ?ws (\<lambda>q. jm_id q = jm_id row)
      (resolved_import E j w) (job_imports s)) = Some (resolved_import E j w row)" for j w
    by (rule find_import_resolved [OF row]) (simp_all add: resolved_import_def)
  have result: "t_result t = Some (ExtendedJobResult r x)"
    if "t \<in> set (scoped_update t_workspace_id ?ws (\<lambda>t. t_id t = t_id task) (extended_task E r x) rows)"
      "t_workspace_id t = ?ws" "t_id t = t_id task" for t x rows
    using that by (auto simp: scoped_update_def extended_task_def split: if_splits)
  show ?thesis
    unfolding applyFetchJobResult_def lockImportForTask_def Let_def update_job_import_def extendTaskResult_def
    using row job
    by simp (rule wp_mono [OF up], auto simp: found find_job_def result intro!: exI)
qed

end
