(* ===== verification/Matches.thy ===== *)
theory Matches
  imports Jobs
begin

text \<open>
  \<open>apps/api/src/matching/matches.ts\<close>: the input of a \<open>match_job\<close> task, the row its
  result writes, and the newest match of a job with its staleness.  A match is stored
  under the full tuple of revisions it was computed from; anything newer makes it stale.
\<close>

section \<open>The input of a match\<close>

record match_inputs =
  mi_job_revision :: int
  mi_profile_revision :: int
  mi_preferences_revision :: int

record match_context =
  mc_profile_revision :: int
  mc_preferences_revision :: int
  mc_preferences :: preferences
  mc_locale :: locale_id
  mc_confirmed_facts :: "profile_fact list"

definition toProfileFact :: "profile_fact_row \<Rightarrow> profile_fact" where
  "toProfileFact r =
     \<lparr> fact_id = fa_id r, fact_kind = fa_kind r, fact_value = fa_value r,
       fact_source_file_id = fa_source_file_id r, fact_source_excerpt = fa_source_excerpt r,
       fact_confirmed = fa_confirmed r, fact_revision = fa_revision r,
       fact_supersedes_id = fa_supersedes_id r, fact_created_at = fa_created_at r,
       fact_updated_at = fa_updated_at r \<rparr>"

definition find_profile :: "uuid \<Rightarrow> db \<Rightarrow> profile_row option" where
  "find_profile ws s = scoped_find pr_workspace_id ws (\<lambda>_. True) (profiles s)"

definition confirmed_facts :: "uuid \<Rightarrow> db \<Rightarrow> profile_fact list" where
  "confirmed_facts ws s =
     map toProfileFact (sort_key fa_created_at (sort_key fa_id
       (scoped_filter fa_workspace_id ws fa_confirmed (profile_facts s))))"

definition readMatchContext :: "uuid \<Rightarrow> preferences \<Rightarrow> (db, match_context) handler" where
  "readMatchContext ws prefs =
     gets (\<lambda>s.
       \<lparr> mc_profile_revision = (case find_profile ws s of None \<Rightarrow> 1 | Some p \<Rightarrow> pr_revision p),
         mc_preferences_revision = (case find_preferences ws s of None \<Rightarrow> 1 | Some p \<Rightarrow> pf_revision p),
         mc_preferences = prefs,
         mc_locale = (case find_profile ws s of None \<Rightarrow> En | Some p \<Rightarrow> pr_locale p),
         mc_confirmed_facts = confirmed_facts ws s \<rparr>)"

definition buildMatchInput :: "job_row \<Rightarrow> match_context \<Rightarrow> match_job_input" where
  "buildMatchInput j c =
     \<lparr> mj_job_id = j_id j, mj_job_revision = j_revision j, mj_profile_revision = mc_profile_revision c,
       mj_preferences_revision = mc_preferences_revision c, mj_locale = mc_locale c,
       mj_job = \<lparr> ms_company = j_company j, ms_title = j_title j, ms_description_text = j_description_text j,
         ms_locations = j_locations j, ms_remote_type = j_remote_type j,
         ms_eligible_countries = j_eligible_countries j, ms_employment_type = j_employment_type j,
         ms_salary = j_salary j, ms_language = j_language j, ms_requirements = j_requirements j \<rparr>,
       mj_confirmed_facts = mc_confirmed_facts c, mj_preferences = mc_preferences c \<rparr>"

section \<open>Storing the result\<close>

text \<open>The CHECK constraints of migration 0003.\<close>

definition match_check :: "match_row \<Rightarrow> bool" where
  "match_check m \<longleftrightarrow>
     (case m_score m of None \<Rightarrow> True | Some v \<Rightarrow> 0 \<le> v \<and> v \<le> 100) \<and>
     0 \<le> m_coverage_percent m \<and> m_coverage_percent m \<le> 100 \<and>
     1 \<le> m_job_revision m \<and> 1 \<le> m_profile_revision m \<and> 1 \<le> m_preferences_revision m \<and>
     (m_score m = None \<longleftrightarrow> m_coverage_percent m = 0)"

definition match_tuple :: "match_row \<Rightarrow> uuid \<times> uuid \<times> int \<times> int \<times> int \<times> string" where
  "match_tuple m =
     (m_workspace_id m, m_job_id m, m_job_revision m, m_profile_revision m, m_preferences_revision m,
      m_algorithm_version m)"

definition new_match :: "env \<Rightarrow> uuid \<Rightarrow> uuid \<Rightarrow> match_job_input \<Rightarrow> match_job_result \<Rightarrow> match_row" where
  "new_match E ws new_id input r =
     \<lparr> m_id = new_id, m_workspace_id = ws, m_job_id = mj_job_id input, m_job_revision = mj_job_revision input,
       m_profile_revision = mj_profile_revision input,
       m_preferences_revision = mj_preferences_revision input,
       m_algorithm_version = me_algorithm_version (mr_explanation r), m_eligible = mr_eligible r,
       m_score = mr_score r, m_coverage_percent = mr_coverage_percent r, m_explanation = mr_explanation r,
       m_computed_at = mr_computed_at r, m_updated_at = now E \<rparr>"

definition rescored :: "env \<Rightarrow> match_job_result \<Rightarrow> match_row \<Rightarrow> match_row" where
  "rescored E r m =
     m \<lparr> m_eligible := mr_eligible r, m_score := mr_score r, m_coverage_percent := mr_coverage_percent r,
         m_explanation := mr_explanation r, m_computed_at := mr_computed_at r, m_updated_at := now E \<rparr>"

text \<open>The insert checks the constraints of the new row before it looks for a conflict.  A
  payload of another task type has none of the columns.\<close>

definition applyMatchJobResult :: "env \<Rightarrow> uuid \<Rightarrow> task_row \<Rightarrow> match_job_result \<Rightarrow> (db, unit) handler" where
  "applyMatchJobResult E new_id task r =
     (case t_payload task of
        MatchPayload input \<Rightarrow>
          let ws = t_workspace_id task; row = new_match E ws new_id input r in
          andThen (throw_if (\<not> match_check row) InternalError) (\<lambda>_.
          andThen (gets (\<lambda>s. match_tuple row \<in> match_tuple ` set (matches s))) (\<lambda>present.
            if present then
              modify (matches_update (scoped_update m_workspace_id ws (\<lambda>m. match_tuple m = match_tuple row) (rescored E r)))
            else
              andThen (gets (\<lambda>s. new_id \<in> m_id ` set (matches s) \<or> find_job ws (mj_job_id input) s = None)) (\<lambda>refused.
              andThen (throw_if refused InternalError) (\<lambda>_.
              modify (matches_update (insert_row row))))))
      | _ \<Rightarrow> fail InternalError)"

section \<open>Reading it back\<close>

definition isStale :: "match_row \<Rightarrow> match_inputs \<Rightarrow> bool" where
  "isStale m i \<longleftrightarrow>
     m_job_revision m \<noteq> mi_job_revision i \<or> m_profile_revision m \<noteq> mi_profile_revision i \<or>
     m_preferences_revision m \<noteq> mi_preferences_revision i \<or> m_algorithm_version m \<noteq> match_algorithm_version"

record match_summary =
  mv_match_id :: uuid
  mv_eligible :: tri_state
  mv_score :: "int option"
  mv_coverage_percent :: int
  mv_algorithm_version :: string
  mv_stale :: bool
  mv_computed_at :: timestamp

definition toMatchSummary :: "match_row \<Rightarrow> match_inputs \<Rightarrow> match_summary" where
  "toMatchSummary m i =
     \<lparr> mv_match_id = m_id m, mv_eligible = m_eligible m, mv_score = m_score m,
       mv_coverage_percent = m_coverage_percent m, mv_algorithm_version = m_algorithm_version m,
       mv_stale = isStale m i, mv_computed_at = m_computed_at m \<rparr>"

definition latestMatchFor :: "uuid \<Rightarrow> uuid \<Rightarrow> db \<Rightarrow> match_row option" where
  "latestMatchFor ws job_id s =
     (case rev (sort_key m_computed_at (sort_key m_id
         (scoped_filter m_workspace_id ws (\<lambda>m. m_job_id m = job_id) (matches s)))) of
        [] \<Rightarrow> None | m # _ \<Rightarrow> Some m)"

text \<open>The loop over the ordered rows keeps the first of each job.\<close>

fun first_by_job :: "match_row list \<Rightarrow> (uuid \<times> match_row) list \<Rightarrow> (uuid \<times> match_row) list" where
  "first_by_job [] acc = acc"
| "first_by_job (m # ms) acc =
     first_by_job ms (if map_of acc (m_job_id m) = None then acc @ [(m_job_id m, m)] else acc)"

definition latestMatchesFor :: "uuid \<Rightarrow> uuid list \<Rightarrow> db \<Rightarrow> (uuid \<times> match_row) list" where
  "latestMatchesFor ws job_ids s =
     (if job_ids = [] then []
      else first_by_job (rev (sort_key m_computed_at (sort_key m_id
        (scoped_filter m_workspace_id ws (\<lambda>m. m_job_id m \<in> set job_ids) (matches s))))) [])"

section \<open>Lemmas\<close>

definition matches_ok :: "db \<Rightarrow> bool" where
  "matches_ok s \<longleftrightarrow>
     distinct (map m_id (matches s)) \<and> distinct (map match_tuple (matches s)) \<and> list_all match_check (matches s)"

lemma matches_ok_cong: "matches s' = matches s \<Longrightarrow> matches_ok s' = matches_ok s"
  by (simp add: matches_ok_def)

lemma rescored_simps [simp]:
  "m_id (rescored E r m) = m_id m" "m_workspace_id (rescored E r m) = m_workspace_id m"
  "match_tuple (rescored E r m) = match_tuple m" "m_job_id (rescored E r m) = m_job_id m"
  by (simp_all add: rescored_def match_tuple_def)

lemma new_match_simps [simp]:
  "m_workspace_id (new_match E ws k i r) = ws" "m_id (new_match E ws k i r) = k"
  "m_job_id (new_match E ws k i r) = mj_job_id i" "m_eligible (new_match E ws k i r) = mr_eligible r"
  "m_score (new_match E ws k i r) = mr_score r" "m_computed_at (new_match E ws k i r) = mr_computed_at r"
  "m_coverage_percent (new_match E ws k i r) = mr_coverage_percent r"
  by (simp_all add: new_match_def)

lemma scoped_applyMatchJobResult [handler_steps]:
  "scoped (t_workspace_id task) (applyMatchJobResult E k task r)"
  unfolding applyMatchJobResult_def Let_def
  by (cases "t_payload task") (auto intro!: scope.obeys_rules scoped_modify simp: outside_def)

lemma check_rescored:
  "match_check (new_match E ws k i r) \<Longrightarrow> match_check m \<Longrightarrow> match_check (rescored E r m)"
  by (simp add: match_check_def new_match_def rescored_def)

text \<open>Of a pair of equal tuples one row is rescored; a new tuple is a new row and the
  old rows stay as they are.\<close>

definition result_tuple :: "uuid \<Rightarrow> match_job_input \<Rightarrow> match_job_result \<Rightarrow> uuid \<times> uuid \<times> int \<times> int \<times> int \<times> string" where
  "result_tuple ws input r =
     (ws, mj_job_id input, mj_job_revision input, mj_profile_revision input, mj_preferences_revision input,
      me_algorithm_version (mr_explanation r))"

lemma tuple_new [simp]: "match_tuple (new_match E ws k i r) = result_tuple ws i r"
  by (simp add: match_tuple_def new_match_def result_tuple_def)

definition match_stored :: "uuid \<Rightarrow> match_job_input \<Rightarrow> match_job_result \<Rightarrow> db \<Rightarrow> db \<Rightarrow> bool" where
  "match_stored ws input r s s' \<longleftrightarrow>
     (\<exists>m \<in> set (matches s'). match_tuple m = result_tuple ws input r \<and>
        m_eligible m = mr_eligible r \<and> m_score m = mr_score r \<and> m_coverage_percent m = mr_coverage_percent r \<and>
        m_computed_at m = mr_computed_at r) \<and>
     (\<forall>m \<in> set (matches s). match_tuple m \<noteq> result_tuple ws input r \<longrightarrow> m \<in> set (matches s'))"


lemma apply_match_wp:
  assumes ok: "matches_ok s" and payload: "t_payload task = MatchPayload input"
  shows "wp (applyMatchJobResult E k task r)
    (\<lambda>_ s'. matches_ok s' \<and> match_stored (t_workspace_id task) input r s s') (\<lambda>_ s'. s' = s) s"
proof -
  let ?ws = "t_workspace_id task" and ?row = "new_match E (t_workspace_id task) k input r"
  let ?t = "result_tuple ?ws input r"
  let ?P = "\<lambda>m. match_tuple m = ?t"
  let ?rows = "scoped_update m_workspace_id ?ws ?P (rescored E r) (matches s)"
  have upd: "matches_ok (matches_update (scoped_update m_workspace_id ?ws ?P (rescored E r)) s)"
    if "match_check ?row"
  proof -
    have "map m_id ?rows = map m_id (matches s)" and "map match_tuple ?rows = map match_tuple (matches s)"
      by (simp_all only: map_scoped_update rescored_simps)
    moreover have "list_all match_check ?rows"
      using ok check_rescored [OF that] by (auto simp: matches_ok_def list_all_iff scoped_update_def)
    ultimately show ?thesis using ok unfolding matches_ok_def by simp
  qed
  have stored: "match_stored ?ws input r s (matches_update (scoped_update m_workspace_id ?ws ?P (rescored E r)) s)"
    if present: "?t \<in> match_tuple ` set (matches s)"
  proof -
    from present obtain m where m: "m \<in> set (matches s)" "match_tuple m = ?t" by force
    then have "m_workspace_id m = ?ws" by (simp add: match_tuple_def result_tuple_def)
    with m have "rescored E r m \<in> set ?rows" by (force simp: scoped_update_def)
    moreover have "q \<in> set ?rows" if "q \<in> set (matches s)" "match_tuple q \<noteq> ?t" for q
      using that by (force simp: scoped_update_def)
    ultimately show ?thesis
      using m(2) by (auto simp: match_stored_def rescored_def match_tuple_def result_tuple_def intro!: bexI [where x = "rescored E r m"])
  qed
  have ins: "matches_ok (matches_update (insert_row ?row) s) \<and> match_stored ?ws input r s (matches_update (insert_row ?row) s)"
    if "match_check ?row" "?t \<notin> match_tuple ` set (matches s)" "k \<notin> m_id ` set (matches s)"
    using that ok by (auto simp: matches_ok_def match_stored_def insert_row_def)
  show ?thesis
    using payload upd stored ins by (auto simp: applyMatchJobResult_def Let_def)
qed

lemma head_latest:
  assumes "rev (sort_key f rows) = x # xs" and "y \<in> set rows"
  shows "(f y :: 'b :: linorder) \<le> f x"
proof -
  have "sort_key f rows = rev xs @ [x]" using assms(1) by (simp add: rev_eq_Cons_iff)
  moreover have "sorted (map f (sort_key f rows))" by simp
  moreover have "y \<in> set (sort_key f rows)" using assms(2) by simp
  ultimately show ?thesis by (auto simp: sorted_append)
qed

lemma latest_is_newest:
  assumes "latestMatchFor ws job s = Some m" and "q \<in> set (matches s)" and "m_workspace_id q = ws" and "m_job_id q = job"
  shows "m_computed_at q \<le> m_computed_at m"
  using assms head_latest [of m_computed_at _ m _ q]
  by (auto simp: latestMatchFor_def scoped_filter_def split: list.splits)

end
