(* ===== verification/JobRoutes.thy ===== *)
theory JobRoutes
  imports JobImports Matches
begin

text \<open>
  The views of \<open>apps/api/src/discovery/jobs.ts\<close> and the routes of \<open>routes/jobs.ts\<close> that read
  and edit jobs: the filtered, paged list, one job by its own id or the id of the task
  that imported it, the user's corrections, and the request for a match.
\<close>

section \<open>Views\<close>

text \<open>Of the view of a job, what is not a copy of a column.\<close>

record job_view =
  jv_row :: job_row
  jv_excluded_reason :: "string option"
  jv_sources :: "job_source_row list"
  jv_match :: "match_summary option"
  jv_possible_duplicates :: "possible_duplicate list"
  jv_edited_fields :: "string list"

definition loadSources :: "uuid \<Rightarrow> uuid \<Rightarrow> db \<Rightarrow> job_source_row list" where
  "loadSources ws job_id s =
     sort_key js_created_at (sort_key js_id (scoped_filter js_workspace_id ws (\<lambda>r. js_job_id r = job_id) (job_sources s)))"

definition edited_fields :: "job_row \<Rightarrow> string list" where
  "edited_fields r =
     (if j_company_edited_at r = None then [] else [''company'']) @
     (if j_title_edited_at r = None then [] else [''title''])"

definition inputs_of :: "match_context \<Rightarrow> job_row \<Rightarrow> match_inputs" where
  "inputs_of c r =
     \<lparr> mi_job_revision = j_revision r, mi_profile_revision = mc_profile_revision c,
       mi_preferences_revision = mc_preferences_revision c \<rparr>"

definition baseView ::
  "job_row \<Rightarrow> job_source_row list \<Rightarrow> possible_duplicate list \<Rightarrow> string set \<Rightarrow> match_row option \<Rightarrow> match_inputs \<Rightarrow> job_view" where
  "baseView r srcs duplicates excluded m inputs =
     \<lparr> jv_row = r, jv_excluded_reason = excludedReasonFor r excluded, jv_sources = srcs,
       jv_match = map_option (\<lambda>m. toMatchSummary m inputs) m, jv_possible_duplicates = duplicates,
       jv_edited_fields = edited_fields r \<rparr>"

definition buildJobViews :: "uuid \<Rightarrow> job_row list \<Rightarrow> match_context \<Rightarrow> db \<Rightarrow> job_view list" where
  "buildJobViews ws rows c s =
     (let found = latestMatchesFor ws (map j_id rows) s; excluded = excludedCompanies (mc_preferences c) in
      map (\<lambda>r. baseView r (loadSources ws (j_id r) s) (possibleDuplicatesFor ws r s) excluded
             (map_of found (j_id r)) (inputs_of c r)) rows)"

definition buildJobDetailView :: "uuid \<Rightarrow> job_row \<Rightarrow> match_context \<Rightarrow> db \<Rightarrow> job_view list \<times> match_explanation option" where
  "buildJobDetailView ws r c s =
     (buildJobViews ws [r] c s, map_option m_explanation (map_of (latestMatchesFor ws [j_id r] s) (j_id r)))"

section \<open>The list\<close>

record jobs_query =
  jl_query :: "string option"
  jl_status :: "job_status option"
  jl_min_score :: "int option"
  jl_eligible :: "tri_state option"
  jl_include_excluded :: bool
  jl_saved :: "bool option"
  jl_cursor :: "(timestamp \<times> uuid) option"
  jl_limit :: "nat option"

definition matched :: "uuid \<Rightarrow> jobs_query \<Rightarrow> db \<Rightarrow> job_row \<Rightarrow> bool" where
  "matched ws q s r \<longleftrightarrow>
     (jl_min_score q = None \<and> jl_eligible q = None) \<or>
     list_ex (\<lambda>m. m_workspace_id m = ws \<and> m_job_id m = j_id r \<and>
       (case jl_min_score q of None \<Rightarrow> True
        | Some lo \<Rightarrow> (case m_score m of None \<Rightarrow> False | Some v \<Rightarrow> lo \<le> v)) \<and>
       (case jl_eligible q of None \<Rightarrow> True | Some e \<Rightarrow> m_eligible m = e)) (matches s)"

definition mentions :: "string option \<Rightarrow> job_row \<Rightarrow> bool" where
  "mentions text r \<longleftrightarrow>
     (case text of None \<Rightarrow> True
      | Some v \<Rightarrow>
          if trim v = [] then True
          else let pattern = ''%'' @ escapeLike (trim v) @ ''%'' in ilike pattern (j_title r) \<or> ilike pattern (j_company r))"

definition not_excluded :: "preferences \<Rightarrow> jobs_query \<Rightarrow> job_row \<Rightarrow> bool" where
  "not_excluded p q r \<longleftrightarrow>
     jl_include_excluded q \<or>
     (j_excluded_reason r = None \<and> normalizedColumn (j_company r) \<notin> excludedCompanies p)"

definition after_cursor :: "(timestamp \<times> uuid) option \<Rightarrow> job_row \<Rightarrow> bool" where
  "after_cursor cursor r \<longleftrightarrow>
     (case cursor of None \<Rightarrow> True
      | Some (t, i) \<Rightarrow> j_last_seen_at r < t \<or> (j_last_seen_at r = t \<and> j_id r < i))"

definition listed_jobs :: "uuid \<Rightarrow> preferences \<Rightarrow> jobs_query \<Rightarrow> db \<Rightarrow> job_row list" where
  "listed_jobs ws p q s =
     rev (sort_key j_last_seen_at (sort_key j_id
       (scoped_filter j_workspace_id ws
         (\<lambda>r. matched ws q s r \<and> (case jl_status q of None \<Rightarrow> True | Some st \<Rightarrow> j_status r = st) \<and>
              (case jl_saved q of None \<Rightarrow> True | Some b \<Rightarrow> j_saved r = b) \<and> mentions (jl_query q) r \<and>
              not_excluded p q r \<and> after_cursor (jl_cursor q) r)
         (jobs s))))"

definition jobs_limit :: "nat option \<Rightarrow> nat" where
  "jobs_limit l = min (max (case l of None \<Rightarrow> 25 | Some n \<Rightarrow> n) 1) 100"

definition listJobs :: "uuid \<Rightarrow> jobs_query \<Rightarrow> (db, job_view list \<times> (timestamp \<times> uuid) option) handler" where
  "listJobs ws q =
     (let limit = jobs_limit (jl_limit q) in
      andThen (workspacePreferences ws) (\<lambda>prefs.
      andThen (readMatchContext ws prefs) (\<lambda>c.
      andThen (gets (\<lambda>s. take (limit + 1) (listed_jobs ws prefs q s))) (\<lambda>rows.
        let page = take limit rows;
            next_cursor = (if length rows > limit \<and> page \<noteq> []
                           then Some (j_last_seen_at (last page), j_id (last page)) else None)
        in
      andThen (gets (buildJobViews ws page c)) (\<lambda>items.
      ret (items, next_cursor))))))"

section \<open>One job\<close>

definition imported_job :: "uuid \<Rightarrow> uuid \<Rightarrow> db \<Rightarrow> uuid option" where
  "imported_job ws task_id s =
     (case scoped_find jm_workspace_id ws (\<lambda>r. jm_task_id r = Some task_id \<and> jm_job_id r \<noteq> None) (job_imports s) of
        None \<Rightarrow> None | Some r \<Rightarrow> jm_job_id r)"

definition findJob :: "uuid \<Rightarrow> uuid \<Rightarrow> (db, job_row) handler" where
  "findJob ws i =
     andThen (gets (find_job ws i)) (\<lambda>by_id.
       case by_id of
         Some r \<Rightarrow> ret r
       | None \<Rightarrow>
           andThen (gets (imported_job ws i)) (\<lambda>via.
             case via of
               None \<Rightarrow> fail NotFound
             | Some job_id \<Rightarrow> andThen (gets (find_job ws job_id)) (\<lambda>r. require r NotFound)))"

definition getJob :: "uuid \<Rightarrow> uuid \<Rightarrow> (db, job_view list \<times> match_explanation option) handler" where
  "getJob ws i =
     andThen (findJob ws i) (\<lambda>r.
     andThen (workspacePreferences ws) (\<lambda>prefs.
     andThen (readMatchContext ws prefs) (\<lambda>c.
     gets (buildJobDetailView ws r c))))"

section \<open>Corrections\<close>

definition patched_job :: "env \<Rightarrow> patch_job_request \<Rightarrow> job_row \<Rightarrow> job_row \<Rightarrow> job_row" where
  "patched_job E b row r =
     (let closing = jp_close b \<and> j_status row \<noteq> JobClosed;
          r1 = r \<lparr> j_saved := (case jp_saved b of None \<Rightarrow> j_saved row | Some v \<Rightarrow> v) \<rparr>;
          r2 = (if closing then r1 \<lparr> j_status := JobClosed, j_closed_at := Some (now E), j_closed_reason := Some ClosedByUser \<rparr>
                else r1);
          r3 = (case jp_title b of
                  Some t \<Rightarrow> if t \<noteq> j_title row then r2 \<lparr> j_title := t, j_title_edited_at := Some (now E) \<rparr> else r2
                | None \<Rightarrow> r2);
          r4 = (case jp_company b of
                  Some c \<Rightarrow> if c \<noteq> j_company row then r3 \<lparr> j_company := c, j_company_edited_at := Some (now E) \<rparr> else r3
                | None \<Rightarrow> r3)
      in r4 \<lparr> j_revision := j_revision row + 1, j_updated_at := now E \<rparr>)"

definition changed :: "string option \<Rightarrow> string \<Rightarrow> bool" where
  "changed x old \<longleftrightarrow> (case x of None \<Rightarrow> False | Some v \<Rightarrow> v \<noteq> old)"

definition patchJob :: "env \<Rightarrow> uuid \<Rightarrow> uuid \<Rightarrow> uuid \<Rightarrow> patch_job_request \<Rightarrow> (db, job_view list) handler" where
  "patchJob E ws user i b =
     andThen (transaction (
       andThen (gets (find_job ws i)) (\<lambda>found.
       andThen (require found NotFound) (\<lambda>row.
       andThen (throw_if (j_revision row \<noteq> jp_expected_revision b) StaleRevision) (\<lambda>_.
       andThen (modify (jobs_update (scoped_update j_workspace_id ws (\<lambda>r. j_id r = j_id row) (patched_job E b row)))) (\<lambda>_.
       andThen (recordAuditEvent ws ''job.updated'' (Some user) (Some (j_id row)) (Some ''job'')
         (JObj [(''revision'', JNum (j_revision row + 1)),
                (''saved'', jopt JBool (jp_saved b)),
                (''closed'', JBool (jp_close b \<and> j_status row \<noteq> JobClosed)),
                (''corrected'', jstrs ((if changed (jp_company b) (j_company row) then [''company''] else []) @
                   (if changed (jp_title b) (j_title row) then [''title''] else [])))])) (\<lambda>_.
       andThen (gets (find_job ws (j_id row))) (\<lambda>stored.
       require stored InternalError)))))))) (\<lambda>updated.
     andThen (workspacePreferences ws) (\<lambda>prefs.
     andThen (readMatchContext ws prefs) (\<lambda>c.
     gets (buildJobViews ws [updated] c))))"

section \<open>Asking for a match\<close>

definition matchJob ::
  "env \<Rightarrow> uuid \<Rightarrow> uuid \<Rightarrow> uuid \<Rightarrow> string option \<Rightarrow> json \<Rightarrow> uuid \<Rightarrow> (db, outcome) handler" where
  "matchJob E ws user task_id header body i =
     andThen (reads (\<lambda>_. readIdempotencyKey header)) (\<lambda>key.
     andThen (requireJob ws i) (\<lambda>job.
     andThen (workspacePreferences ws) (\<lambda>prefs.
     andThen (readMatchContext ws prefs) (\<lambda>c.
     withIdempotency E ws header body (''POST /jobs/'' @ i @ ''/match'')
       (transaction (
         andThen (enqueueTask E ws task_id (plain_task MatchJob (MatchPayload (buildMatchInput job c)) (Some key))) (\<lambda>task.
         andThen (recordAuditEvent ws ''job.match_queued'' (Some user) (Some (j_id job)) (Some ''job'')
           (JObj [(''job_revision'', JNum (j_revision job)),
                  (''profile_revision'', JNum (mc_profile_revision c)),
                  (''preferences_revision'', JNum (mc_preferences_revision c)),
                  (''confirmed_fact_count'', JNum (int (length (mc_confirmed_facts c))))])) (\<lambda>_.
         ret (accepted (t_id task))))))))))"

section \<open>Frames\<close>

lemma scoped_readMatchContext [handler_steps]: "scoped ws (readMatchContext ws p)"
  unfolding readMatchContext_def by (intro scope.obeys_rules)

lemma scoped_listJobs [handler_steps]: "scoped ws (listJobs ws q)"
  unfolding listJobs_def Let_def by (intro scope.obeys_rules scoped_workspacePreferences scoped_readMatchContext)

lemma scoped_findJob [handler_steps]: "scoped ws (findJob ws i)"
  unfolding findJob_def by (intro scope.obeys_rules)

lemma scoped_getJob [handler_steps]: "scoped ws (getJob ws i)"
  unfolding getJob_def by (intro scope.obeys_rules scoped_findJob scoped_workspacePreferences scoped_readMatchContext)

lemma patched_simps [simp]:
  "j_id (patched_job E b row r) = j_id r" "j_workspace_id (patched_job E b row r) = j_workspace_id r"
  "j_canonical_key (patched_job E b row r) = j_canonical_key r"
  by (simp_all add: patched_job_def Let_def split: option.split)

lemma scoped_patchJob [handler_steps]: "scoped ws (patchJob E ws user i b)"
  unfolding patchJob_def
  by (intro scope.obeys_rules scoped_workspacePreferences scoped_readMatchContext scoped_recordAuditEvent scoped_modify)
     (simp_all add: outside_def)

lemma scoped_matchJob [handler_steps]: "scoped ws (matchJob E ws user k header body i)"
  unfolding matchJob_def
  by (intro scope.obeys_rules scoped_requireJob scoped_workspacePreferences scoped_readMatchContext
      scoped_withIdempotency scoped_enqueueTask scoped_recordAuditEvent)

section \<open>Corrections hold\<close>

lemma check_patched_job: "job_check r \<Longrightarrow> job_check (patched_job E b r r)"
  by (auto simp: job_check_def patched_job_def Let_def split: option.split)

lemma audit_jobs [simp]: "jobs_ok (audit_events_update f s) = jobs_ok s"
  by (simp add: jobs_ok_def find_job_def)

lemma patch_job_wp:
  assumes ok: "jobs_ok s"
  shows "wp (patchJob E ws user i b)
    (\<lambda>views s'. jobs_ok s' \<and> (\<exists>row. find_job ws i s = Some row \<and> j_revision row = jp_expected_revision b \<and>
       find_job ws i s' = Some (patched_job E b row row) \<and> map jv_row views = [patched_job E b row row]))
    (\<lambda>e s'. s' = s \<and> (e = NotFound \<or> e = StaleRevision)) s"
proof (cases "find_job ws i s")
  case None
  then show ?thesis by (simp add: patchJob_def)
next
  case (Some row)
  let ?f = "scoped_update j_workspace_id ws (\<lambda>r. j_id r = i) (patched_job E b row)"
  have i: "j_id row = i" using find_jobD [OF Some] by simp
  have check: "job_check row" using ok find_jobD [OF Some] by (simp add: jobs_ok_def list_all_iff)
  have after: "jobs_ok (jobs_update ?f s)"
    by (rule jobs_ok_update_job [OF ok Some]) (simp_all add: check_patched_job [OF check])
  have found: "find_job ws i (jobs_update ?f u) = Some (patched_job E b row row)" if "find_job ws i u = Some row" for u
    using job_table.lookup_update [of "patched_job E b row" ws i u row] that by (simp add: find_job_def)
  have audit [simp]: "find_job w k (audit_events_update g u) = find_job w k u" for w k g and u :: db
    by (simp add: find_job_def)
  have prefs: "jobs_ok (preferences_rows_update g u) = jobs_ok u" "find_job w k (preferences_rows_update g u) = find_job w k u"
    for g w k and u :: db
    by (simp_all add: jobs_ok_def find_job_def)
  show ?thesis
    using Some i after found [OF Some]
    by (simp add: patchJob_def recordAuditEvent_def readMatchContext_def)
      (auto intro!: wp_workspacePreferences simp: prefs buildJobViews_def baseView_def Let_def)
qed

section \<open>Pages of the listing\<close>

definition row_key :: "job_row \<Rightarrow> timestamp \<times> uuid" where
  "row_key r = (j_last_seen_at r, j_id r)"

lemma listed_after_cursor:
  assumes "jobs_ok s" and "0 < n" and "n \<le> length (listed_jobs ws p q s)"
    and "c = row_key (last (take n (listed_jobs ws p q s)))"
  shows "listed_jobs ws p (q \<lparr> jl_cursor := Some c \<rparr>) s = drop n (listed_jobs ws p q s)"
proof -
  let ?L = "listed_jobs ws p q s"
  let ?l = "last (take n ?L)"
  let ?rows = "\<lambda>P. rev (sort_key j_last_seen_at (sort_key j_id (scoped_filter j_workspace_id ws P (jobs s))))"
  define Q where "Q = (\<lambda>r. matched ws q s r \<and> (case jl_status q of None \<Rightarrow> True | Some st \<Rightarrow> j_status r = st) \<and>
              (case jl_saved q of None \<Rightarrow> True | Some b \<Rightarrow> j_saved r = b) \<and> mentions (jl_query q) r \<and> not_excluded p q r)"
  define R where "R = (\<lambda>(a::job_row) (b::job_row). j_last_seen_at b < j_last_seen_at a \<or> j_last_seen_at b = j_last_seen_at a \<and> j_id b < j_id a)"
  have L: "?L = ?rows (\<lambda>r. Q r \<and> after_cursor (jl_cursor q) r)" by (simp add: listed_jobs_def Q_def conj_assoc)
  have "distinct (map j_id (scoped_filter j_workspace_id ws P (jobs s)))" for P
    using assms(1) by (simp add: jobs_ok_def scoped_filter_def distinct_map_filter)
  then have "sorted_wrt R ?L" unfolding L R_def by (rule double_sorted)
  then have drop: "filter (R ?l) ?L = drop n ?L"
    using assms(2,3) by (rule strict_take_filter) (auto simp: R_def)
  have "?l \<in> set ?L"
    using assms(2,3) by (metis in_set_takeD last_in_set length_greater_0_conv less_le_trans take_eq_Nil2 not_less0)
  then have "after_cursor (jl_cursor q) ?l" unfolding L by (simp add: scoped_filter_def)
  then have "Q r \<and> R ?l r \<longleftrightarrow> (Q r \<and> after_cursor (jl_cursor q) r) \<and> R ?l r" for r
    by (auto simp: after_cursor_def R_def split: option.splits)
  moreover have "listed_jobs ws p (q \<lparr> jl_cursor := Some c \<rparr>) s = ?rows (\<lambda>r. Q r \<and> R ?l r)"
    by (simp add: listed_jobs_def Q_def R_def assms(4) row_key_def after_cursor_def matched_def not_excluded_def conj_assoc)
  moreover have "?rows (\<lambda>r. (Q r \<and> after_cursor (jl_cursor q) r) \<and> R ?l r) = filter (R ?l) ?L"
    unfolding L by (simp add: rev_filter [symmetric] filter_sort scoped_filter_def conj_commute conj_left_commute)
  ultimately show ?thesis using drop by simp
qed

lemma listed_jobs_preferences [simp]:
  "listed_jobs ws p q (preferences_rows_update f s) = listed_jobs ws p q s"
  by (simp add: listed_jobs_def matched_def [abs_def])

lemma listJobs_page:
  assumes "listJobs ws q s = (Inr (items, c), s')"
  shows "\<exists>f. s' = preferences_rows_update f s" and "stored_preferences ws s' = stored_preferences ws s"
    and "map jv_row items = take (jobs_limit (jl_limit q)) (listed_jobs ws (stored_preferences ws s) q s)"
    and "c = (if jobs_limit (jl_limit q) < length (listed_jobs ws (stored_preferences ws s) q s)
        then Some (row_key (last (take (jobs_limit (jl_limit q)) (listed_jobs ws (stored_preferences ws s) q s)))) else None)"
proof -
  obtain prefs s1 where first: "workspacePreferences ws s = (Inr prefs, s1)"
    using assms unfolding listJobs_def Let_def by (elim andThen_okE)
  let ?n = "jobs_limit (jl_limit q)" and ?L = "listed_jobs ws prefs q s1"
  have n: "0 < ?n" by (simp add: jobs_limit_def)
  have rest: "s' = s1 \<and> map jv_row items = take ?n ?L \<and>
      c = (if ?n < length ?L then Some (row_key (last (take ?n ?L))) else None)"
    using assms first n
    by (auto simp: listJobs_def Let_def andThen_ok readMatchContext_def buildJobViews_def baseView_def row_key_def
        comp_def min_def not_less)
  from workspacePreferences_result [OF first] rest
  show "\<exists>f. s' = preferences_rows_update f s" and "stored_preferences ws s' = stored_preferences ws s"
    and "map jv_row items = take ?n (listed_jobs ws (stored_preferences ws s) q s)"
    and "c = (if ?n < length (listed_jobs ws (stored_preferences ws s) q s)
        then Some (row_key (last (take ?n (listed_jobs ws (stored_preferences ws s) q s)))) else None)"
    by auto
qed

end
