(* ===== verification/Facts.thy ===== *)
theory Facts
  imports Text JobContract "HOL-Library.List_Lexorder" "HOL-Library.Char_ord"
begin

text \<open>
  \<open>apps/api/src/profile/facts.ts\<close> and the value schemas of
  \<open>packages/contracts/src/schemas/profile.ts\<close>: a fact's value has the shape its kind
  prescribes and consistent dates, and a draft is compared with the confirmed facts it
  may contradict.
\<close>

section \<open>Schemas\<close>

text \<open>The JSON Schema keywords the value schemas use.  Every object schema is closed:
  a property is listed with whether it is optional, and no other may occur.\<close>

datatype text_pattern = AnyText | IsoMonth | LanguageCode | CountryCode

datatype schema =
    StringS text_pattern nat "nat option"
  | LiteralS string
  | NumberS int int
  | BooleanS
  | NullS
  | ArrayS schema "nat option"
  | UnionS "schema list"
  | ObjectS "(string \<times> bool \<times> schema) list"

definition is_digit_char :: "char \<Rightarrow> bool" where
  "is_digit_char c \<longleftrightarrow> c \<in> set ''0123456789''"

definition is_lower_letter :: "char \<Rightarrow> bool" where
  "is_lower_letter c \<longleftrightarrow> c \<in> set ''abcdefghijklmnopqrstuvwxyz''"

definition is_upper_letter :: "char \<Rightarrow> bool" where
  "is_upper_letter c \<longleftrightarrow> c \<in> set ''ABCDEFGHIJKLMNOPQRSTUVWXYZ''"

fun matches_pattern :: "text_pattern \<Rightarrow> string \<Rightarrow> bool" where
  "matches_pattern AnyText s = True"
| "matches_pattern IsoMonth s =
     (length s = 7 \<and> list_all is_digit_char (take 4 s) \<and> s ! 4 = CHR ''-'' \<and>
      (s ! 5 = CHR ''0'' \<and> is_digit_char (s ! 6) \<and> s ! 6 \<noteq> CHR ''0'' \<or>
       s ! 5 = CHR ''1'' \<and> s ! 6 \<in> set ''012''))"
| "matches_pattern LanguageCode s =
     ((length s = 2 \<or> length s = 5 \<and> s ! 2 = CHR ''-'' \<and> list_all is_upper_letter (drop 3 s)) \<and>
      list_all is_lower_letter (take 2 s))"
| "matches_pattern CountryCode s = (length s = 2 \<and> list_all is_upper_letter s)"

definition at_most :: "nat \<Rightarrow> nat option \<Rightarrow> bool" where
  "at_most n bound \<longleftrightarrow> (case bound of None \<Rightarrow> True | Some m \<Rightarrow> n \<le> m)"

primrec conforms :: "schema \<Rightarrow> json \<Rightarrow> bool" where
  "conforms (StringS p lo hi) v =
     (case v of JStr s \<Rightarrow> matches_pattern p s \<and> lo \<le> length s \<and> at_most (length s) hi | _ \<Rightarrow> False)"
| "conforms (LiteralS t) v = (v = JStr t)"
| "conforms (NumberS lo hi) v = (case v of JNum n \<Rightarrow> lo \<le> n \<and> n \<le> hi | _ \<Rightarrow> False)"
| "conforms BooleanS v = (case v of JBool b \<Rightarrow> True | _ \<Rightarrow> False)"
| "conforms NullS v = (v = JNull)"
| "conforms (ArrayS c hi) v =
     (case v of JArr xs \<Rightarrow> list_all (conforms c) xs \<and> at_most (length xs) hi | _ \<Rightarrow> False)"
| "conforms (UnionS cs) v = list_ex (\<lambda>c. c v) (map conforms cs)"
| "conforms (ObjectS fs) v =
     (case v of
        JObj kvs \<Rightarrow>
          list_all (\<lambda>(k, opt, c). case map_of kvs k of None \<Rightarrow> opt | Some w \<Rightarrow> c w)
            (map (map_prod id (map_prod id conforms)) fs) \<and>
          list_all (\<lambda>(k, w). k \<in> fst ` set fs) kvs
      | _ \<Rightarrow> False)"

definition text_schema :: "nat \<Rightarrow> nat \<Rightarrow> schema" where
  "text_schema lo hi = StringS AnyText lo (Some hi)"

definition iso_month :: schema where
  "iso_month = StringS IsoMonth 0 None"

definition nullable :: "schema \<Rightarrow> schema" where
  "nullable c = UnionS [c, NullS]"

definition required :: "string \<Rightarrow> schema \<Rightarrow> string \<times> bool \<times> schema" where
  "required k c = (k, False, c)"

definition optional :: "string \<Rightarrow> schema \<Rightarrow> string \<times> bool \<times> schema" where
  "optional k c = (k, True, c)"

definition literals :: "string list \<Rightarrow> schema" where
  "literals ts = UnionS (map LiteralS ts)"

definition link_schema :: schema where
  "link_schema = ObjectS [required ''label'' (text_schema 1 60), required ''url'' (text_schema 1 500)]"

definition contact_schema :: schema where
  "contact_schema = ObjectS
     [required ''full_name'' (text_schema 1 200), required ''email'' (text_schema 3 320),
      optional ''phone'' (nullable (text_schema 0 40)), optional ''city'' (nullable (text_schema 0 120)),
      optional ''country'' (nullable (text_schema 0 120)), optional ''links'' (ArrayS link_schema (Some 12))]"

definition summary_schema :: schema where
  "summary_schema = ObjectS [required ''text'' (text_schema 1 2000)]"

definition bullet_schema :: schema where
  "bullet_schema = ObjectS
     [required ''text'' (text_schema 1 600), required ''evidence_reference'' (text_schema 0 300)]"

definition employment_schema :: schema where
  "employment_schema =
     literals [''full_time'', ''part_time'', ''contract'', ''internship'', ''temporary'', ''freelance'', ''unknown'']"

definition experience_schema :: schema where
  "experience_schema = ObjectS
     [required ''employer'' (text_schema 1 200), required ''title'' (text_schema 1 200),
      required ''start_month'' iso_month, required ''end_month'' (nullable iso_month),
      required ''current'' BooleanS, required ''employment_type'' employment_schema,
      optional ''location'' (nullable (text_schema 0 200)),
      required ''bullets'' (ArrayS bullet_schema (Some 30)),
      required ''skills'' (ArrayS (text_schema 0 80) (Some 60))]"

definition education_schema :: schema where
  "education_schema = ObjectS
     [required ''institution'' (text_schema 1 200), required ''degree'' (nullable (text_schema 0 200)),
      required ''subject'' (nullable (text_schema 0 200)), required ''start_month'' (nullable iso_month),
      required ''end_month'' (nullable iso_month), required ''current'' BooleanS]"

definition skill_schema :: schema where
  "skill_schema = ObjectS
     [required ''canonical_name'' (text_schema 1 80), required ''aliases'' (ArrayS (text_schema 0 80) (Some 20)),
      required ''user_declared_proficiency''
        (UnionS [LiteralS ''beginner'', LiteralS ''intermediate'', LiteralS ''advanced'', LiteralS ''expert'', NullS]),
      required ''years'' (nullable (NumberS 0 70))]"

definition language_schema :: schema where
  "language_schema = ObjectS
     [required ''code'' (StringS LanguageCode 0 None),
      required ''declared_level'' (literals [''basic'', ''conversational'', ''professional'', ''native''])]"

definition tri_schema :: schema where
  "tri_schema = literals [''yes'', ''no'', ''unknown'']"

definition authorization_schema :: schema where
  "authorization_schema = ObjectS
     [required ''country'' (StringS CountryCode 0 None), required ''authorized'' tri_schema,
      required ''sponsorship_required'' tri_schema, optional ''note'' (nullable (text_schema 0 300))]"

definition project_schema :: schema where
  "project_schema = ObjectS
     [required ''name'' (text_schema 1 200), required ''role'' (nullable (text_schema 0 200)),
      required ''url'' (nullable (text_schema 0 500)), required ''start_month'' (nullable iso_month),
      required ''end_month'' (nullable iso_month), required ''bullets'' (ArrayS bullet_schema (Some 20)),
      required ''skills'' (ArrayS (text_schema 0 80) (Some 40))]"

definition certification_schema :: schema where
  "certification_schema = ObjectS
     [required ''name'' (text_schema 1 200), required ''issuer'' (nullable (text_schema 0 200)),
      required ''issued_month'' (nullable iso_month), required ''expires_month'' (nullable iso_month),
      required ''credential_id'' (nullable (text_schema 0 200))]"

lemmas value_schema_defs =
  text_schema_def iso_month_def nullable_def required_def optional_def literals_def link_schema_def
  contact_schema_def summary_schema_def bullet_schema_def employment_schema_def experience_schema_def
  education_schema_def skill_schema_def language_schema_def tri_schema_def authorization_schema_def
  project_schema_def certification_schema_def

fun fact_schema :: "fact_kind \<Rightarrow> schema" where
  "fact_schema KContact = contact_schema"
| "fact_schema KSummary = summary_schema"
| "fact_schema KExperience = experience_schema"
| "fact_schema KEducation = education_schema"
| "fact_schema KSkill = skill_schema"
| "fact_schema KLanguage = language_schema"
| "fact_schema KAuthorization = authorization_schema"
| "fact_schema KProject = project_schema"
| "fact_schema KCertification = certification_schema"

fun fact_kind_text :: "fact_kind \<Rightarrow> string" where
  "fact_kind_text KContact = ''contact''"
| "fact_kind_text KSummary = ''summary''"
| "fact_kind_text KExperience = ''experience''"
| "fact_kind_text KEducation = ''education''"
| "fact_kind_text KSkill = ''skill''"
| "fact_kind_text KLanguage = ''language''"
| "fact_kind_text KAuthorization = ''authorization''"
| "fact_kind_text KProject = ''project''"
| "fact_kind_text KCertification = ''certification''"

section \<open>Dates\<close>

text \<open>The members of a value that has passed its schema.\<close>

definition member :: "string \<Rightarrow> json \<Rightarrow> json option" where
  "member k v = (case v of JObj kvs \<Rightarrow> map_of kvs k | _ \<Rightarrow> None)"

definition text_member :: "string \<Rightarrow> json \<Rightarrow> string option" where
  "text_member k v = (case member k v of Some (JStr s) \<Rightarrow> Some s | _ \<Rightarrow> None)"

definition the_text :: "string \<Rightarrow> json \<Rightarrow> string" where
  "the_text k v = (case text_member k v of None \<Rightarrow> [] | Some s \<Rightarrow> s)"

definition true_member :: "string \<Rightarrow> json \<Rightarrow> bool" where
  "true_member k v \<longleftrightarrow> member k v = Some (JBool True)"

definition monthPrecedes :: "string \<Rightarrow> string \<Rightarrow> bool" where
  "monthPrecedes earlier later \<longleftrightarrow> earlier < later"

definition both_precede :: "string option \<Rightarrow> string option \<Rightarrow> bool" where
  "both_precede earlier later \<longleftrightarrow>
     (case (earlier, later) of (Some e, Some l) \<Rightarrow> monthPrecedes e l | _ \<Rightarrow> False)"

text \<open>\<open>None\<close> is consistent; otherwise the message and the field it names.\<close>

definition checkDateConsistency :: "fact_kind \<Rightarrow> json \<Rightarrow> (string \<times> string) option" where
  "checkDateConsistency k v =
     (let start = text_member ''start_month'' v; stop = text_member ''end_month'' v in
      case k of
        KExperience \<Rightarrow>
          if true_member ''current'' v \<and> stop \<noteq> None
          then Some (''A current role cannot also have an end month.'', ''end_month'')
          else if both_precede stop start then Some (''The end month precedes the start month.'', ''end_month'')
          else None
      | KEducation \<Rightarrow>
          if true_member ''current'' v \<and> stop \<noteq> None
          then Some (''Current studies cannot also have an end month.'', ''end_month'')
          else if both_precede stop start then Some (''The end month precedes the start month.'', ''end_month'')
          else None
      | KProject \<Rightarrow>
          if both_precede stop start then Some (''The end month precedes the start month.'', ''end_month'') else None
      | KCertification \<Rightarrow>
          if both_precede (text_member ''expires_month'' v) (text_member ''issued_month'' v)
          then Some (''The expiry month precedes the issue month.'', ''expires_month'') else None
      | _ \<Rightarrow> None)"

text \<open>The paths of a schema error come from the validator library; \<open>paths\<close> stands for
  them.  They reach nothing but the detail of a warning.\<close>

definition validateFactValue ::
  "(schema \<Rightarrow> json \<Rightarrow> string list) \<Rightarrow> fact_kind \<Rightarrow> json \<Rightarrow> (string \<times> string list) option" where
  "validateFactValue paths k v =
     (if \<not> conforms (fact_schema k) v then
        Some (''The value does not match the schema for a '' @ [CHR 0x22] @ fact_kind_text k @ [CHR 0x22] @ '' fact.'',
              paths (fact_schema k) v)
      else map_option (\<lambda>(m, field). (m, [field])) (checkDateConsistency k v))"

definition valid_fact :: "fact_kind \<Rightarrow> json \<Rightarrow> bool" where
  "valid_fact k v \<longleftrightarrow> conforms (fact_schema k) v \<and> checkDateConsistency k v = None"

definition assertFactValue :: "fact_kind \<Rightarrow> json \<Rightarrow> api_error + unit" where
  "assertFactValue k v = (if valid_fact k v then Inr () else Inl Unprocessable)"

lemma validate_valid: "validateFactValue paths k v = None \<longleftrightarrow> valid_fact k v"
  by (simp add: validateFactValue_def valid_fact_def)

section \<open>Conflicts\<close>

definition rangesOverlap :: "string option \<times> string option \<Rightarrow> string option \<times> string option \<Rightarrow> bool" where
  "rangesOverlap a b \<longleftrightarrow>
     (let a_start = case_option ''0000-01'' id (fst a); b_start = case_option ''0000-01'' id (fst b);
          a_stop = case_option ''9999-12'' id (snd a); b_stop = case_option ''9999-12'' id (snd b)
      in a_start \<le> b_stop \<and> b_start \<le> a_stop)"

definition normalizeOptional :: "string option \<Rightarrow> string option" where
  "normalizeOptional v = map_option normalizeName v"

definition link_text :: "json \<Rightarrow> string" where
  "link_text l = normalizeName (the_text ''label'' l) @ ''|'' @ trim (the_text ''url'' l)"

record canonical_contact =
  cn_full_name :: string
  cn_email :: string
  cn_phone :: "string option"
  cn_city :: "string option"
  cn_country :: "string option"
  cn_links :: "string list"

definition canonicalContact :: "json \<Rightarrow> canonical_contact" where
  "canonicalContact v =
     \<lparr> cn_full_name = normalizeName (the_text ''full_name'' v), cn_email = normalizeName (the_text ''email'' v),
       cn_phone = normalizeOptional (text_member ''phone'' v), cn_city = normalizeOptional (text_member ''city'' v),
       cn_country = normalizeOptional (text_member ''country'' v),
       cn_links = sort (map link_text (case member ''links'' v of Some (JArr ls) \<Rightarrow> ls | _ \<Rightarrow> [])) \<rparr>"

definition quoted :: "string \<Rightarrow> string" where
  "quoted s = [CHR 0x22] @ s @ [CHR 0x22]"

definition conflictReason :: "fact_kind \<Rightarrow> json \<Rightarrow> fact_kind \<Rightarrow> json \<Rightarrow> string option" where
  "conflictReason kind draft existing_kind current =
     (if existing_kind \<noteq> kind then None
      else case kind of
        KExperience \<Rightarrow>
          if normalizeName (the_text ''employer'' draft) \<noteq> normalizeName (the_text ''employer'' current) then None
          else if \<not> rangesOverlap (text_member ''start_month'' draft, text_member ''end_month'' draft)
              (text_member ''start_month'' current, text_member ''end_month'' current) then None
          else Some (''An existing confirmed role at '' @ quoted (the_text ''employer'' current) @ '' covers overlapping dates.'')
      | KContact \<Rightarrow>
          if canonicalContact draft = canonicalContact current then None
          else Some ''A confirmed contact block already exists and differs from this one.''
      | KAuthorization \<Rightarrow>
          if the_text ''country'' draft \<noteq> the_text ''country'' current then None
          else Some (''Work authorization for '' @ the_text ''country'' current @ '' is already confirmed.'')
      | KSkill \<Rightarrow>
          if normalizeName (the_text ''canonical_name'' draft) \<noteq> normalizeName (the_text ''canonical_name'' current) then None
          else Some (''The skill '' @ quoted (the_text ''canonical_name'' current) @ '' is already confirmed.'')
      | _ \<Rightarrow> None)"

section \<open>Lemmas\<close>

lemma rangesOverlap_sym: "rangesOverlap a b = rangesOverlap b a"
  by (auto simp: rangesOverlap_def Let_def)

text \<open>Whether two values conflict does not depend on which of them is the draft.\<close>

lemma conflict_symmetric:
  "conflictReason k a k b = None \<longleftrightarrow> conflictReason k b k a = None"
  using rangesOverlap_sym by (cases k) (auto simp: conflictReason_def)

lemma no_conflict_other_kind: "k \<noteq> k' \<Longrightarrow> conflictReason k a k' b = None"
  by (simp add: conflictReason_def)

end
