(* ===== verification/Profile.thy ===== *)
theory Profile
  imports Facts Matches
begin

text \<open>
  \<open>apps/api/src/profile/service.ts\<close> and \<open>routes/profile.ts\<close>: the profile of a workspace, its
  facts and the patch that edits them under optimistic concurrency.  Every patch moves
  the profile's revision; only one that touches confirmed content moves the confirmed
  revision.
\<close>

section \<open>Reading\<close>

definition new_profile :: "uuid \<Rightarrow> uuid \<Rightarrow> locale_id \<Rightarrow> profile_row" where
  "new_profile ws new_id locale =
     \<lparr> pr_id = new_id, pr_workspace_id = ws, pr_revision = 1, pr_confirmed_revision = None,
       pr_contact = None, pr_locale = locale \<rparr>"

definition ensureProfile :: "uuid \<Rightarrow> uuid \<Rightarrow> locale_id \<Rightarrow> (db, profile_row) handler" where
  "ensureProfile ws new_id locale =
     andThen (gets (find_profile ws)) (\<lambda>existing.
       case existing of
         Some r \<Rightarrow> ret r
       | None \<Rightarrow>
           andThen (gets (\<lambda>s. new_id \<in> pr_id ` set (profiles s))) (\<lambda>taken.
           andThen (throw_if taken InternalError) (\<lambda>_.
           andThen (modify (profiles_update (insert_row (new_profile ws new_id locale)))) (\<lambda>_.
           andThen (gets (find_profile ws)) (\<lambda>created. require created NotFound)))))"

definition lockProfile :: "uuid \<Rightarrow> (db, profile_row) handler" where
  "lockProfile ws = andThen (gets (find_profile ws)) (\<lambda>r. require r NotFound)"

definition loadFacts :: "uuid \<Rightarrow> uuid \<Rightarrow> db \<Rightarrow> profile_fact_row list" where
  "loadFacts ws profile_id s =
     sort_key fa_created_at (sort_key fa_id
       (scoped_filter fa_workspace_id ws (\<lambda>r. fa_profile_id r = profile_id) (profile_facts s)))"

text \<open>A view is the row and its facts.\<close>

definition buildProfileView :: "uuid \<Rightarrow> profile_row \<Rightarrow> db \<Rightarrow> profile_row \<times> profile_fact list" where
  "buildProfileView ws r s = (r, map toProfileFact (loadFacts ws (pr_id r) s))"

definition assertProfileRevision :: "profile_row \<Rightarrow> int \<Rightarrow> (db, unit) handler" where
  "assertProfileRevision r expected = throw_if (pr_revision r \<noteq> expected) StaleRevision"

section \<open>Writing facts\<close>

definition has_file :: "uuid \<Rightarrow> uuid option \<Rightarrow> db \<Rightarrow> bool" where
  "has_file ws f s \<longleftrightarrow> (case f of None \<Rightarrow> True | Some i \<Rightarrow> find_file ws i s \<noteq> None)"

text \<open>An insert is refused when its id is taken or a reference dangles.\<close>

definition insert_fact :: "profile_fact_row \<Rightarrow> (db, unit) handler" where
  "insert_fact r =
     andThen (gets (\<lambda>s. fa_id r \<in> fa_id ` set (profile_facts s) \<or>
        \<not> has_file (fa_workspace_id r) (fa_source_file_id r) s)) (\<lambda>refused.
     andThen (throw_if refused InternalError) (\<lambda>_.
     modify (profile_facts_update (insert_row r))))"

text \<open>Migration 0001 declares the reference to the superseded fact \<open>ON DELETE SET NULL\<close>
  over the pair \<open>(workspace_id, supersedes_id)\<close>, so deleting a fact that another one
  supersedes would null the other's \<open>workspace_id\<close>, which is \<open>NOT NULL\<close>: the statement
  fails.\<close>

definition superseded :: "uuid \<Rightarrow> uuid \<Rightarrow> db \<Rightarrow> bool" where
  "superseded ws i s \<longleftrightarrow>
     list_ex (\<lambda>r. fa_workspace_id r = ws \<and> fa_supersedes_id r = Some i \<and> fa_id r \<noteq> i) (profile_facts s)"

definition delete_fact :: "uuid \<Rightarrow> uuid \<Rightarrow> (db, unit) handler" where
  "delete_fact ws i =
     andThen (gets (superseded ws i)) (\<lambda>referenced.
     andThen (throw_if referenced InternalError) (\<lambda>_.
     modify (profile_facts_update (filter (\<lambda>r. \<not> (fa_workspace_id r = ws \<and> fa_id r = i))))))"

definition new_fact :: "env \<Rightarrow> uuid \<Rightarrow> uuid \<Rightarrow> int \<Rightarrow> uuid \<Rightarrow> upsert_change \<Rightarrow> profile_fact_row" where
  "new_fact E ws profile_id revision new_id c =
     \<lparr> fa_id = new_id, fa_workspace_id = ws, fa_profile_id = profile_id, fa_kind = uc_kind c,
       fa_value = uc_value c,
       fa_source_file_id = (case uc_source_file_id c of None \<Rightarrow> None | Some f \<Rightarrow> f),
       fa_source_excerpt = (case uc_source_excerpt c of None \<Rightarrow> None | Some x \<Rightarrow> x),
       fa_confirmed = uc_confirmed c, fa_revision = revision, fa_supersedes_id = None,
       fa_created_at = now E, fa_updated_at = now E \<rparr>"

definition edited_fact :: "env \<Rightarrow> int \<Rightarrow> profile_fact_row \<Rightarrow> upsert_change \<Rightarrow> profile_fact_row \<Rightarrow> profile_fact_row" where
  "edited_fact E revision existing c r =
     r \<lparr> fa_kind := uc_kind c, fa_value := uc_value c,
         fa_source_file_id := (case uc_source_file_id c of None \<Rightarrow> fa_source_file_id existing | Some f \<Rightarrow> f),
         fa_source_excerpt := (case uc_source_excerpt c of None \<Rightarrow> fa_source_excerpt existing | Some x \<Rightarrow> x),
         fa_confirmed := uc_confirmed c, fa_revision := revision, fa_updated_at := now E \<rparr>"

definition update_fact :: "uuid \<Rightarrow> uuid \<Rightarrow> (profile_fact_row \<Rightarrow> profile_fact_row) \<Rightarrow> (db, unit) handler" where
  "update_fact ws i f = modify (profile_facts_update (scoped_update fa_workspace_id ws (\<lambda>r. fa_id r = i) f))"

section \<open>The patch\<close>

type_synonym known_facts = "uuid \<Rightarrow> profile_fact_row option"

definition referenced_facts :: "uuid \<Rightarrow> uuid \<Rightarrow> db \<Rightarrow> known_facts" where
  "referenced_facts ws profile_id s =
     (\<lambda>i. scoped_find fa_workspace_id ws (\<lambda>r. fa_profile_id r = profile_id \<and> fa_id r = i) (profile_facts s))"

fun check_change :: "known_facts \<Rightarrow> fact_change \<Rightarrow> api_error + unit" where
  "check_change known (UpsertFact c) =
     (if (case uc_id c of None \<Rightarrow> False | Some i \<Rightarrow> known i = None) then Inl NotFound
      else assertFactValue (uc_kind c) (uc_value c))"
| "check_change known (DeleteFact i) = (if known i = None then Inl NotFound else Inr ())"

fun touches_confirmed :: "known_facts \<Rightarrow> fact_change \<Rightarrow> bool" where
  "touches_confirmed known (UpsertFact c) \<longleftrightarrow>
     uc_confirmed c \<or> (case uc_id c of None \<Rightarrow> False
       | Some i \<Rightarrow> (case known i of None \<Rightarrow> False | Some r \<Rightarrow> fa_confirmed r))"
| "touches_confirmed known (DeleteFact i) \<longleftrightarrow> (case known i of None \<Rightarrow> False | Some r \<Rightarrow> fa_confirmed r)"

definition apply_upsert ::
  "env \<Rightarrow> uuid \<Rightarrow> uuid \<Rightarrow> int \<Rightarrow> known_facts \<Rightarrow> uuid \<Rightarrow> upsert_change \<Rightarrow> (db, unit) handler" where
  "apply_upsert E ws profile_id revision known new_id c =
     (case uc_id c of
        None \<Rightarrow> insert_fact (new_fact E ws profile_id revision new_id c)
      | Some i \<Rightarrow>
          (case known i of
             None \<Rightarrow> fail InternalError
           | Some existing \<Rightarrow>
               andThen (gets (has_file ws (case uc_source_file_id c of None \<Rightarrow> None | Some f \<Rightarrow> f))) (\<lambda>found.
               andThen (throw_if (\<not> found) InternalError) (\<lambda>_.
               update_fact ws i (edited_fact E revision existing c)))))"

fun apply_changes ::
  "env \<Rightarrow> uuid \<Rightarrow> uuid \<Rightarrow> int \<Rightarrow> known_facts \<Rightarrow> (nat \<Rightarrow> uuid) \<Rightarrow> nat \<Rightarrow> fact_change list \<Rightarrow> (db, unit) handler" where
  "apply_changes E ws profile_id revision known ids k [] = ret ()"
| "apply_changes E ws profile_id revision known ids k (DeleteFact i # cs) =
     andThen (delete_fact ws i) (\<lambda>_. apply_changes E ws profile_id revision known ids (Suc k) cs)"
| "apply_changes E ws profile_id revision known ids k (UpsertFact c # cs) =
     andThen (apply_upsert E ws profile_id revision known (ids k) c)
       (\<lambda>_. apply_changes E ws profile_id revision known ids (Suc k) cs)"

definition patched_profile :: "profile_patch_request \<Rightarrow> bool \<Rightarrow> profile_row \<Rightarrow> profile_row \<Rightarrow> profile_row" where
  "patched_profile b confirmed_changed profile r =
     r \<lparr> pr_revision := pr_revision profile + 1,
         pr_confirmed_revision :=
           (if confirmed_changed then Some (pr_revision profile + 1) else pr_confirmed_revision profile),
         pr_contact := (case pq_contact b of None \<Rightarrow> pr_contact r | Some c \<Rightarrow> Some c),
         pr_locale := (case pq_locale b of None \<Rightarrow> pr_locale r | Some l \<Rightarrow> l) \<rparr>"

definition update_profile :: "uuid \<Rightarrow> uuid \<Rightarrow> (profile_row \<Rightarrow> profile_row) \<Rightarrow> (db, unit) handler" where
  "update_profile ws i f = modify (profiles_update (scoped_update pr_workspace_id ws (\<lambda>r. pr_id r = i) f))"

definition confirmed_changed :: "known_facts \<Rightarrow> profile_patch_request \<Rightarrow> bool" where
  "confirmed_changed known b \<longleftrightarrow> pq_contact b \<noteq> None \<or> list_ex (touches_confirmed known) (pq_changes b)"

definition applyProfilePatch ::
  "env \<Rightarrow> uuid \<Rightarrow> (nat \<Rightarrow> uuid) \<Rightarrow> profile_row \<Rightarrow> profile_patch_request \<Rightarrow> (db, int \<times> bool) handler" where
  "applyProfilePatch E ws ids profile b =
     (let next_revision = pr_revision profile + 1 in
      andThen (gets (referenced_facts ws (pr_id profile))) (\<lambda>known.
      andThen (for_each (\<lambda>c. reads (\<lambda>_. check_change known c)) (pq_changes b)) (\<lambda>_.
      andThen (apply_changes E ws (pr_id profile) next_revision known ids 0 (pq_changes b)) (\<lambda>_.
      andThen (update_profile ws (pr_id profile) (patched_profile b (confirmed_changed known b) profile)) (\<lambda>_.
      ret (next_revision, confirmed_changed known b))))))"

definition syncConfirmedContact :: "uuid \<Rightarrow> uuid \<Rightarrow> json \<Rightarrow> (db, unit) handler" where
  "syncConfirmedContact ws profile_id contact = update_profile ws profile_id (\<lambda>r. r \<lparr> pr_contact := Some contact \<rparr>)"

section \<open>Routes\<close>

definition getProfile :: "uuid \<Rightarrow> uuid \<Rightarrow> (db, profile_row \<times> profile_fact list) handler" where
  "getProfile ws new_id =
     andThen (ensureProfile ws new_id En) (\<lambda>profile. gets (buildProfileView ws profile))"

fun is_upsert :: "fact_change \<Rightarrow> bool" where
  "is_upsert (UpsertFact c) = True"
| "is_upsert (DeleteFact i) = False"

definition patchProfile ::
  "env \<Rightarrow> uuid \<Rightarrow> uuid \<Rightarrow> uuid \<Rightarrow> (nat \<Rightarrow> uuid) \<Rightarrow> profile_patch_request \<Rightarrow> (db, profile_row \<times> profile_fact list) handler" where
  "patchProfile E ws user new_id ids b =
     andThen (ensureProfile ws new_id En) (\<lambda>_.
     andThen (transaction (
       andThen (lockProfile ws) (\<lambda>profile.
       andThen (assertProfileRevision profile (pq_expected_revision b)) (\<lambda>_.
       andThen (applyProfilePatch E ws ids profile b) (\<lambda>out.
       andThen (recordAuditEvent ws ''profile.patched'' (Some user) (Some (pr_id profile)) (Some ''profile'')
         (JObj [(''revision'', JNum (fst out)), (''changes'', JNum (int (length (pq_changes b)))),
                (''upserts'', JNum (int (length (filter is_upsert (pq_changes b))))),
                (''deletes'', JNum (int (length (filter (Not \<circ> is_upsert) (pq_changes b))))),
                (''confirmed_changed'', JBool (snd out)), (''contact_changed'', JBool (pq_contact b \<noteq> None))])) (\<lambda>_.
       lockProfile ws)))))) (\<lambda>updated.
     gets (buildProfileView ws updated)))"

section \<open>Frames\<close>

lemma scoped_ensureProfile [handler_steps]: "scoped ws (ensureProfile ws i l)"
  unfolding ensureProfile_def
  by (intro scope.obeys_rules scoped_modify) (simp_all add: outside_def new_profile_def)

lemma scoped_lockProfile [handler_steps]: "scoped ws (lockProfile ws)"
  unfolding lockProfile_def by (intro scope.obeys_rules)

lemma scoped_insert_fact: "fa_workspace_id r = ws \<Longrightarrow> scoped ws (insert_fact r)"
  unfolding insert_fact_def by (intro scope.obeys_rules scoped_modify) (simp_all add: outside_def)

lemma foreign_delete [simp]:
  "foreign_rows owner ws (filter (\<lambda>r. owner r = ws \<longrightarrow> P r) rows) = foreign_rows owner ws rows"
  by (auto simp: foreign_rows_def intro!: filter_cong)

lemma scoped_delete_fact: "scoped ws (delete_fact ws i)"
  unfolding delete_fact_def
  by (intro scope.obeys_rules scoped_modify) (simp_all add: outside_def)

lemma scoped_update_fact: "(\<And>r. fa_workspace_id (f r) = fa_workspace_id r) \<Longrightarrow> scoped ws (update_fact ws i f)"
  unfolding update_fact_def by (rule scoped_modify) (simp_all add: outside_def)

lemma scoped_update_profile: "(\<And>r. pr_workspace_id (f r) = pr_workspace_id r) \<Longrightarrow> scoped ws (update_profile ws i f)"
  unfolding update_profile_def by (rule scoped_modify) (simp_all add: outside_def)

lemma scoped_apply_upsert: "scoped ws (apply_upsert E ws p rv known i c)"
  unfolding apply_upsert_def
  by (intro scope.obeys_rules scoped_insert_fact scoped_update_fact) (simp_all add: new_fact_def edited_fact_def)

lemma scoped_apply_changes: "scoped ws (apply_changes E ws p rv known ids k cs)"
  by (induction E ws p rv known ids k cs rule: apply_changes.induct)
     (auto intro!: scope.obeys_rules scoped_delete_fact scoped_apply_upsert)

lemma scoped_applyProfilePatch [handler_steps]: "scoped ws (applyProfilePatch E ws ids profile b)"
  unfolding applyProfilePatch_def Let_def
  by (intro scope.obeys_rules scoped_apply_changes scoped_update_profile) (simp_all add: patched_profile_def)

lemma scoped_patchProfile [handler_steps]: "scoped ws (patchProfile E ws user i ids b)"
  unfolding patchProfile_def assertProfileRevision_def
  by (intro scope.obeys_rules scoped_ensureProfile scoped_lockProfile scoped_applyProfilePatch scoped_recordAuditEvent)

lemma scoped_getProfile [handler_steps]: "scoped ws (getProfile ws i)"
  unfolding getProfile_def by (intro scope.obeys_rules scoped_ensureProfile)

section \<open>The invariant of the profile\<close>

text \<open>A workspace has one profile, whose confirmed revision never runs ahead.  Its facts
  are valid for their kind, written at a revision the profile has reached, and
  supersede facts that still exist.\<close>

definition profile_check :: "profile_row \<Rightarrow> bool" where
  "profile_check p \<longleftrightarrow>
     1 \<le> pr_revision p \<and> (case pr_confirmed_revision p of None \<Rightarrow> True | Some n \<Rightarrow> n \<le> pr_revision p)"

definition reached :: "db \<Rightarrow> uuid \<Rightarrow> int" where
  "reached s ws = (case find_profile ws s of None \<Rightarrow> 0 | Some p \<Rightarrow> pr_revision p)"

definition fact_check :: "(uuid \<Rightarrow> int) \<Rightarrow> db \<Rightarrow> profile_fact_row \<Rightarrow> bool" where
  "fact_check bound s r \<longleftrightarrow>
     valid_fact (fa_kind r) (fa_value r) \<and> 1 \<le> fa_revision r \<and> fa_revision r \<le> bound (fa_workspace_id r) \<and>
     (case find_profile (fa_workspace_id r) s of None \<Rightarrow> False | Some p \<Rightarrow> pr_id p = fa_profile_id r) \<and>
     (case fa_supersedes_id r of None \<Rightarrow> True
      | Some i \<Rightarrow> i \<noteq> fa_id r \<and> (\<exists>q \<in> set (profile_facts s). fa_id q = i \<and> fa_workspace_id q = fa_workspace_id r))"

definition facts_ok :: "(uuid \<Rightarrow> int) \<Rightarrow> db \<Rightarrow> bool" where
  "facts_ok bound s \<longleftrightarrow> distinct (map fa_id (profile_facts s)) \<and> (\<forall>r \<in> set (profile_facts s). fact_check bound s r)"

definition profile_ok :: "db \<Rightarrow> bool" where
  "profile_ok s \<longleftrightarrow>
     distinct (map pr_id (profiles s)) \<and> distinct (map pr_workspace_id (profiles s)) \<and>
     list_all profile_check (profiles s) \<and> facts_ok (reached s) s"

lemma find_profileD: "find_profile ws s = Some p \<Longrightarrow> p \<in> set (profiles s) \<and> pr_workspace_id p = ws"
  by (auto simp: find_profile_def dest: scoped_find_SomeD)

lemma find_profile_cong: "profiles s' = profiles s \<Longrightarrow> find_profile ws s' = find_profile ws s"
  by (simp add: find_profile_def)

lemma facts_ok_insert:
  assumes ok: "facts_ok bound s" and "fact_check bound s r" and "fa_id r \<notin> fa_id ` set (profile_facts s)"
  shows "facts_ok bound (profile_facts_update (insert_row r) s)"
  using assms find_profile_cong [of "profile_facts_update (insert_row r) s" s]
  by (auto simp: facts_ok_def insert_row_def fact_check_def split: option.splits)

lemma facts_ok_delete:
  assumes ok: "facts_ok bound s" and free: "\<not> superseded ws i s"
  shows "facts_ok bound (profile_facts_update (filter (\<lambda>r. \<not> (fa_workspace_id r = ws \<and> fa_id r = i))) s)"
proof -
  let ?s = "profile_facts_update (filter (\<lambda>r. \<not> (fa_workspace_id r = ws \<and> fa_id r = i))) s"
  have "fact_check bound ?s r" if r: "r \<in> set (profile_facts s)" "\<not> (fa_workspace_id r = ws \<and> fa_id r = i)" for r
  proof -
    have "fact_check bound s r" using ok r(1) by (simp add: facts_ok_def)
    moreover have "\<not> (q = i \<and> fa_workspace_id r = ws)" if "fa_supersedes_id r = Some q" for q
      using free r that by (auto simp: superseded_def list_ex_iff)
    ultimately show ?thesis
      using find_profile_cong [of ?s s] by (fastforce simp: fact_check_def split: option.splits)
  qed
  then show ?thesis using ok by (auto simp: facts_ok_def distinct_map_filter)
qed

lemma facts_ok_update:
  assumes ok: "facts_ok bound s" and id: "\<And>r. fa_id (f r) = fa_id r" and ws: "\<And>r. fa_workspace_id (f r) = fa_workspace_id r"
    and check: "\<And>r. r \<in> set (profile_facts s) \<Longrightarrow> fa_id r = i \<Longrightarrow> fa_workspace_id r = ws \<Longrightarrow> fact_check bound s (f r)"
  shows "facts_ok bound (profile_facts_update (scoped_update fa_workspace_id ws (\<lambda>r. fa_id r = i) f) s)"
proof -
  let ?g = "scoped_update fa_workspace_id ws (\<lambda>r. fa_id r = i) f"
  let ?s = "profile_facts_update ?g s"
  have keys: "map fa_id (?g (profile_facts s)) = map fa_id (profile_facts s)"
    by (rule map_scoped_update) (simp add: id)
  have "(\<exists>q \<in> set (?g (profile_facts s)). fa_id q = k \<and> fa_workspace_id q = w) \<longleftrightarrow>
      (\<exists>q \<in> set (profile_facts s). fa_id q = k \<and> fa_workspace_id q = w)" for k w
    unfolding scoped_update_def set_map bex_simps(7) by (intro bex_cong) (auto simp: id ws)
  then have same: "fact_check bound ?s r = fact_check bound s r" for r
    using find_profile_cong [of ?s s] by (cases "fa_supersedes_id r") (simp_all add: fact_check_def)
  have "fact_check bound s r" if "r \<in> set (?g (profile_facts s))" for r
    using that ok check by (auto simp: scoped_update_def facts_ok_def)
  then show ?thesis using ok keys same by (simp add: facts_ok_def)
qed

lemma facts_ok_weaken: "facts_ok bound s \<Longrightarrow> (\<And>w. bound w \<le> bound' w) \<Longrightarrow> facts_ok bound' s"
  by (force simp: facts_ok_def fact_check_def intro: order_trans)

lemma find_profile_update:
  assumes "find_profile ws s = Some p" and "\<And>r. pr_workspace_id (f r) = pr_workspace_id r"
  shows "find_profile ws (profiles_update (scoped_update pr_workspace_id ws (\<lambda>r. pr_id r = pr_id p) f) s) = Some (f p)"
  using scoped_find_update [of pr_workspace_id ws "\<lambda>_. True" "profiles s" p f "\<lambda>r. pr_id r = pr_id p"] assms
  by (simp add: find_profile_def)

lemma find_profile_update_other:
  assumes "w \<noteq> ws" and "\<And>r. pr_workspace_id (f r) = pr_workspace_id r"
  shows "find_profile w (profiles_update (scoped_update pr_workspace_id ws P f) s) = find_profile w s"
proof -
  have "find (\<lambda>r. pr_workspace_id r = w) (map (\<lambda>r. if pr_workspace_id r = ws \<and> P r then f r else r) rows) =
      find (\<lambda>r. pr_workspace_id r = w) rows" for rows
    using assms by (induction rows) auto
  then show ?thesis by (simp add: find_profile_def scoped_find_def scoped_update_def)
qed

text \<open>Moving the profile to a revision that its facts may already carry.\<close>

lemma profile_ok_update_profile:
  assumes profiles: "distinct (map pr_id (profiles s))" "distinct (map pr_workspace_id (profiles s))"
      "list_all profile_check (profiles s)"
    and facts: "facts_ok ((reached s)(ws := n)) s" and p: "find_profile ws s = Some p"
    and f: "\<And>r. pr_workspace_id (f r) = pr_workspace_id r" "\<And>r. pr_id (f r) = pr_id r"
    and rv: "pr_revision (f p) = n" and check: "profile_check (f p)"
  shows "profile_ok (profiles_update (scoped_update pr_workspace_id ws (\<lambda>r. pr_id r = pr_id p) f) s)"
proof -
  let ?s = "profiles_update (scoped_update pr_workspace_id ws (\<lambda>r. pr_id r = pr_id p) f) s"
  have unique: "r = p" if "r \<in> set (profiles s)" "pr_id r = pr_id p" for r
    using that profiles(1) find_profileD [OF p] by (auto simp: distinct_map inj_on_def)
  have keys: "map pr_id (profiles ?s) = map pr_id (profiles s)" "map pr_workspace_id (profiles ?s) = map pr_workspace_id (profiles s)"
    by (simp_all add: map_scoped_update f)
  have checks: "list_all profile_check (profiles ?s)"
    using profiles(3) check unique by (auto simp: list_all_iff scoped_update_def)
  have find: "find_profile w ?s = (if w = ws then Some (f p) else find_profile w s)" for w
    using find_profile_update [OF p, of f] find_profile_update_other [of w ws f] f by simp
  have bound: "reached ?s w = ((reached s)(ws := n)) w" for w
    using rv by (simp add: reached_def find)
  then have "reached ?s = (reached s)(ws := n)" by blast
  moreover have "facts_ok ((reached s)(ws := n)) ?s"
    using facts find p f(2) by (fastforce simp: facts_ok_def fact_check_def split: option.splits if_splits)
  ultimately show ?thesis using profiles keys checks unfolding profile_ok_def by simp
qed

lemma wp_insert_fact:
  "wp (insert_fact r) Q F s \<longleftrightarrow>
     (if fa_id r \<in> fa_id ` set (profile_facts s) \<or> \<not> has_file (fa_workspace_id r) (fa_source_file_id r) s
      then F InternalError s else Q () (profile_facts_update (insert_row r) s))"
  by (simp add: insert_fact_def)

lemma wp_delete_fact:
  "wp (delete_fact ws i) Q F s \<longleftrightarrow>
     (if superseded ws i s then F InternalError s
      else Q () (profile_facts_update (filter (\<lambda>r. \<not> (fa_workspace_id r = ws \<and> fa_id r = i))) s))"
  by (simp add: delete_fact_def)

definition profiles_frame :: "db \<Rightarrow> db \<Rightarrow> bool" where
  "profiles_frame s s' \<longleftrightarrow> profiles s' = profiles s"

lemma check_change_valid:
  "check_change known (UpsertFact c) = Inr () \<Longrightarrow> valid_fact (uc_kind c) (uc_value c)"
  by (auto simp: assertFactValue_def split: if_splits)

lemma edited_simps [simp]:
  "fa_id (edited_fact E rv x c r) = fa_id r" "fa_workspace_id (edited_fact E rv x c r) = fa_workspace_id r"
  "fa_profile_id (edited_fact E rv x c r) = fa_profile_id r" "fa_kind (edited_fact E rv x c r) = uc_kind c"
  "fa_value (edited_fact E rv x c r) = uc_value c" "fa_revision (edited_fact E rv x c r) = rv"
  "fa_supersedes_id (edited_fact E rv x c r) = fa_supersedes_id r" "fa_confirmed (edited_fact E rv x c r) = uc_confirmed c"
  by (simp_all add: edited_fact_def)

lemma fact_check_edited:
  assumes "fact_check bound s r" and "valid_fact (uc_kind c) (uc_value c)" and "1 \<le> rv" and "rv \<le> bound (fa_workspace_id r)"
  shows "fact_check bound s (edited_fact E rv existing c r)"
  using assms by (auto simp: fact_check_def split: option.splits)

lemma apply_changes_wp:
  assumes "facts_ok bound s" and "find_profile ws s = Some p" and "1 \<le> rv" and "rv \<le> bound ws"
    and "\<And>c. c \<in> set cs \<Longrightarrow> check_change known c = Inr ()"
  shows "wp (apply_changes E ws (pr_id p) rv known ids k cs)
    (\<lambda>_ s'. facts_ok bound s' \<and> profiles s' = profiles s) (\<lambda>_ _. True) s"
  using assms
proof (induction cs arbitrary: k s)
  case (Cons c cs)
  have step: "wp (apply_changes E ws (pr_id p) rv known ids (Suc k) cs)
      (\<lambda>_ s'. facts_ok bound s' \<and> profiles s' = profiles s) (\<lambda>_ _. True) u"
    if u: "facts_ok bound u" "profiles u = profiles s" for u
  proof (rule wp_mono [OF Cons.IH [of u "Suc k"]])
    show "find_profile ws u = Some p" using find_profile_cong [OF u(2)] Cons.prems(2) by simp
  qed (use u Cons.prems in auto)
  show ?case
  proof (cases c)
    case (DeleteFact i)
    then show ?thesis
      using step [OF facts_ok_delete [OF Cons.prems(1)]] by (simp add: wp_delete_fact)
  next
    case (UpsertFact u)
    have valid: "valid_fact (uc_kind u) (uc_value u)"
      using Cons.prems(5) [of c] UpsertFact check_change_valid by simp
    show ?thesis
    proof (cases "uc_id u")
      case None
      let ?r = "new_fact E ws (pr_id p) rv (ids k) u"
      have "fact_check bound s ?r"
        using valid Cons.prems by (simp add: fact_check_def new_fact_def)
      then show ?thesis
        using UpsertFact None step facts_ok_insert [OF Cons.prems(1)]
        by (simp add: apply_upsert_def wp_insert_fact)
    next
      case (Some i)
      let ?f = "\<lambda>existing. scoped_update fa_workspace_id ws (\<lambda>r. fa_id r = i) (edited_fact E rv existing u)"
      have "facts_ok bound (profile_facts_update (?f existing) s)" for existing
      proof (rule facts_ok_update [OF Cons.prems(1)])
        fix r
        assume "r \<in> set (profile_facts s)" and "fa_workspace_id r = ws"
        then show "fact_check bound s (edited_fact E rv existing u r)"
          using Cons.prems(1,3,4) valid by (intro fact_check_edited) (simp_all add: facts_ok_def)
      qed simp_all
      then show ?thesis
        using UpsertFact Some step by (simp add: apply_upsert_def update_fact_def split: option.split)
    qed
  qed
qed simp

lemma wp_for_each_reads:
  assumes "(\<And>x. x \<in> set xs \<Longrightarrow> f x = Inr ()) \<Longrightarrow> Q () s" and "\<And>x e. x \<in> set xs \<Longrightarrow> f x = Inl e \<Longrightarrow> F e s"
  shows "wp (for_each (\<lambda>x. reads (\<lambda>_. f x)) xs) Q F s"
  using assms
proof (induction xs)
  case (Cons x xs)
  show ?case
    unfolding for_each.simps wp_andThen wp_reads
    using Cons.prems(2) [of x] by (auto split: sum.split intro!: Cons.IH Cons.prems)
qed simp

text \<open>An accepted patch moves the revision by one, and the confirmed revision with it when
  confirmed content is touched.  A refused patch leaves the profile as it was.\<close>

lemma apply_patch_wp:
  assumes ok: "profile_ok s" and p: "find_profile ws s = Some p"
  shows "wp (applyProfilePatch E ws ids p b)
    (\<lambda>out s'. profile_ok s' \<and> find_profile ws s' =
       Some (patched_profile b (confirmed_changed (referenced_facts ws (pr_id p) s) b) p p)) (\<lambda>_ _. True) s"
proof -
  let ?known = "referenced_facts ws (pr_id p) s"
  let ?rv = "pr_revision p + 1"
  let ?bound = "(reached s)(ws := ?rv)"
  let ?f = "patched_profile b (confirmed_changed ?known b) p"
  have p_in: "p \<in> set (profiles s)" "pr_workspace_id p = ws" using find_profileD [OF p] by simp_all
  have p_check: "profile_check p" using ok p_in by (simp add: profile_ok_def list_all_iff)
  have weak: "facts_ok ?bound s"
  proof (rule facts_ok_weaken)
    show "facts_ok (reached s) s" using ok by (simp add: profile_ok_def)
  qed (use p in \<open>simp add: reached_def\<close>)
  have finish: "profile_ok (profiles_update (scoped_update pr_workspace_id ws (\<lambda>r. pr_id r = pr_id p) ?f) u) \<and>
      find_profile ws (profiles_update (scoped_update pr_workspace_id ws (\<lambda>r. pr_id r = pr_id p) ?f) u) = Some (?f p)"
    if u: "facts_ok ?bound u" "profiles u = profiles s" for u
  proof
    have pu: "find_profile ws u = Some p" using find_profile_cong [OF u(2)] p by simp
    have "reached u = reached s"
      by (rule ext) (simp add: reached_def find_profile_cong [OF u(2)])
    show "profile_ok (profiles_update (scoped_update pr_workspace_id ws (\<lambda>r. pr_id r = pr_id p) ?f) u)"
    proof (intro profile_ok_update_profile [where n = ?rv])
      show "distinct (map pr_id (profiles u))" "distinct (map pr_workspace_id (profiles u))"
        "list_all profile_check (profiles u)"
        using ok by (simp_all add: profile_ok_def u(2))
      show "facts_ok ((reached u)(ws := ?rv)) u" using u(1) \<open>reached u = reached s\<close> by simp
      show "profile_check (?f p)"
        using p_check by (auto simp: profile_check_def patched_profile_def split: option.splits)
    qed (simp_all add: pu patched_profile_def)
    show "find_profile ws (profiles_update (scoped_update pr_workspace_id ws (\<lambda>r. pr_id r = pr_id p) ?f) u) = Some (?f p)"
      by (rule find_profile_update [OF pu]) (simp add: patched_profile_def)
  qed
  show ?thesis
    unfolding applyProfilePatch_def Let_def wp_andThen wp_gets
  proof (rule wp_for_each_reads)
    assume checked: "\<And>c. c \<in> set (pq_changes b) \<Longrightarrow> check_change ?known c = Inr ()"
    have rv: "1 \<le> ?rv" using p_check by (simp add: profile_check_def)
    show "wp (apply_changes E ws (pr_id p) ?rv ?known ids 0 (pq_changes b))
      (\<lambda>_. wp (update_profile ws (pr_id p) ?f) (\<lambda>_. wp (ret (?rv, confirmed_changed ?known b))
        (\<lambda>out s'. profile_ok s' \<and> find_profile ws s' = Some (?f p)) (\<lambda>_ _. True)) (\<lambda>_ _. True)) (\<lambda>_ _. True) s"
      by (rule wp_mono [OF apply_changes_wp [OF weak p rv _ checked]]) (use finish in \<open>auto simp: update_profile_def\<close>)
  qed simp
qed

lemma profile_ok_cong:
  assumes "profiles s' = profiles s" and "profile_facts s' = profile_facts s"
  shows "profile_ok s' = profile_ok s"
proof -
  have same: "find_profile w s' = find_profile w s" for w by (rule find_profile_cong [OF assms(1)])
  then have "fact_check bound s' r = fact_check bound s r" for bound r
    using assms(2) by (cases "fa_supersedes_id r") (simp_all add: fact_check_def)
  moreover have "reached s' = reached s" using same by (simp add: reached_def fun_eq_iff)
  ultimately show ?thesis using assms by (simp add: profile_ok_def facts_ok_def)
qed

lemma profile_ok_audit [simp]: "profile_ok (audit_events_update f s) = profile_ok s"
  by (rule profile_ok_cong) simp_all

lemma find_profile_audit [simp]: "find_profile w (audit_events_update f s) = find_profile w s"
  by (simp add: find_profile_def)

lemma patch_profile_wp:
  assumes ok: "profile_ok s" and p: "find_profile ws s = Some p"
  shows "wp (patchProfile E ws user i ids b)
    (\<lambda>v s'. profile_ok s' \<and> pr_revision p = pq_expected_revision b \<and> find_profile ws s' = Some (fst v) \<and>
       fst v = patched_profile b (confirmed_changed (referenced_facts ws (pr_id p) s) b) p p)
    (\<lambda>_ s'. s' = s) s"
proof -
  have "wp (applyProfilePatch E ws ids p b)
    (\<lambda>out s'. profile_ok s' \<and> find_profile ws s' =
       Some (patched_profile b (confirmed_changed (referenced_facts ws (pr_id p) s) b) p p)) (\<lambda>_ _. True) s"
    by (rule apply_patch_wp [OF ok p])
  then show ?thesis
    unfolding patchProfile_def
    by (auto simp: ensureProfile_def p lockProfile_def assertProfileRevision_def recordAuditEvent_def buildProfileView_def
        elim!: wp_mono)
qed

text \<open>Deleting a fact that a newer one supersedes is refused by the database.\<close>

lemma delete_superseded_fails:
  assumes p: "find_profile ws s = Some p" and b: "pq_changes b = [DeleteFact i]" "pq_expected_revision b = pr_revision p"
    and known: "referenced_facts ws (pr_id p) s i \<noteq> None" and sup: "superseded ws i s"
  shows "patchProfile E ws user k ids b s = (Inl InternalError, s)"
  using assms
  by (simp add: patchProfile_def ensureProfile_def lockProfile_def assertProfileRevision_def applyProfilePatch_def Let_def
      delete_fact_def andThen_def gets_def throw_if_def require_def ret_def fail_def reads_def transaction_def)

end
