(* ===== verification/ProfileImports.thy ===== *)
theory ProfileImports
  imports Profile
begin

text \<open>
  \<open>apps/api/src/profile/imports.ts\<close> and \<open>routes/imports.ts\<close>: a document or pasted text is
  parsed into drafts, the drafts that do not validate are dropped with a warning, and
  nothing becomes a confirmed fact before the user accepts it.
\<close>

section \<open>Requesting an import\<close>

record create_import_request =
  cq_file_id :: "uuid option"
  cq_pasted_text :: "string option"
  cq_format_hint :: "format_hint option"

definition max_pdf_pages :: int where
  "max_pdf_pages = 100"

definition max_extracted_chars :: int where
  "max_extracted_chars = 200000"

definition format_by_mime :: "string \<Rightarrow> format_hint" where
  "format_by_mime m =
     (if m = ''application/pdf'' then HintPdf
      else if m = ''application/vnd.openxmlformats-officedocument.wordprocessingml.document'' then HintDocx
      else if m = ''text/plain'' then HintPlainText else HintAuto)"

fun format_hint_text :: "format_hint \<Rightarrow> string" where
  "format_hint_text HintPdf = ''pdf''"
| "format_hint_text HintDocx = ''docx''"
| "format_hint_text HintLinkedin = ''linkedin_text''"
| "format_hint_text HintPlainText = ''plain_text''"
| "format_hint_text HintAuto = ''auto''"

definition pasted :: "create_import_request \<Rightarrow> string option" where
  "pasted b = (case cq_pasted_text b of None \<Rightarrow> None | Some t \<Rightarrow> if trim t = [] then None else Some t)"

definition importable :: "file_row \<Rightarrow> bool" where
  "importable f \<longleftrightarrow> f_purpose f = CvOriginal \<or> f_purpose f = ProfileText"

definition import_source ::
  "uuid \<Rightarrow> create_import_request \<Rightarrow> (db, format_hint \<times> uuid option) handler" where
  "import_source ws b =
     (let hint = (case cq_format_hint b of None \<Rightarrow> HintAuto | Some h \<Rightarrow> h) in
      case cq_file_id b of
        Some i \<Rightarrow>
          andThen (gets (find_file ws i)) (\<lambda>found.
          andThen (require found NotFound) (\<lambda>f.
          andThen (throw_if (f_state f \<noteq> Ready) Unprocessable) (\<lambda>_.
          andThen (throw_if (\<not> importable f) Unprocessable) (\<lambda>_.
          ret (if hint = HintAuto then format_by_mime (f_mime f) else hint, Some (f_id f))))))
      | None \<Rightarrow> ret (if hint = HintAuto then HintPlainText else hint, None))"

definition new_import :: "env \<Rightarrow> uuid \<Rightarrow> uuid \<Rightarrow> uuid option \<Rightarrow> format_hint \<Rightarrow> profile_import_row" where
  "new_import E ws new_id file_id hint =
     \<lparr> im_id = new_id, im_workspace_id = ws, im_file_id = file_id, im_text_file_id = None, im_task_id = None,
       im_status = ImportQueued, im_format_hint = hint, im_extracted_draft = None, im_warnings = [],
       im_error_code = None, im_error_message = None, im_created_at = now E, im_updated_at = now E \<rparr>"

definition insert_import :: "profile_import_row \<Rightarrow> (db, unit) handler" where
  "insert_import r =
     andThen (gets (\<lambda>s. im_id r \<in> im_id ` set (profile_imports s))) (\<lambda>taken.
     andThen (throw_if taken Conflict) (\<lambda>_.
     modify (profile_imports_update (insert_row r))))"

definition update_import ::
  "uuid \<Rightarrow> (profile_import_row \<Rightarrow> bool) \<Rightarrow> (profile_import_row \<Rightarrow> profile_import_row) \<Rightarrow> (db, unit) handler" where
  "update_import ws P f = modify (profile_imports_update (scoped_update im_workspace_id ws P f))"

definition parse_task :: "parse_profile_input \<Rightarrow> string \<Rightarrow> uuid option \<Rightarrow> enqueue_input" where
  "parse_task payload key file_id =
     (plain_task ParseProfile (ParsePayload payload) (Some key))
       \<lparr> en_input_file_ids := (case file_id of None \<Rightarrow> [] | Some f \<Rightarrow> [f]) \<rparr>"

definition createProfileImport ::
  "env \<Rightarrow> uuid \<Rightarrow> uuid \<Rightarrow> uuid \<Rightarrow> uuid \<Rightarrow> uuid \<Rightarrow> string option \<Rightarrow> json \<Rightarrow> create_import_request \<Rightarrow> (db, outcome) handler" where
  "createProfileImport E ws user profile_id import_id task_id header body b =
     andThen (reads (\<lambda>_. readIdempotencyKey header)) (\<lambda>key.
     andThen (throw_if (cq_file_id b \<noteq> None \<and> pasted b \<noteq> None) Unprocessable) (\<lambda>_.
     andThen (throw_if (cq_file_id b = None \<and> pasted b = None) Unprocessable) (\<lambda>_.
     andThen (ensureProfile ws profile_id En) (\<lambda>profile.
     andThen (import_source ws b) (\<lambda>src.
     withIdempotency E ws header body ''POST /profile/imports''
       (transaction (
         andThen (insert_import (new_import E ws import_id (snd src) (fst src))) (\<lambda>_.
         andThen (enqueueTask E ws task_id (parse_task
           \<lparr> ppi_profile_import_id = import_id, ppi_profile_revision = pr_revision profile,
             ppi_format_hint = fst src, ppi_locale = pr_locale profile,
             ppi_inline_text = (if cq_file_id b \<noteq> None then None else pasted b),
             ppi_source_file_id = snd src, ppi_max_pdf_pages = max_pdf_pages,
             ppi_max_extracted_chars = max_extracted_chars \<rparr> key (snd src))) (\<lambda>task.
         andThen (update_import ws (\<lambda>r. im_id r = import_id)
           (\<lambda>r. r \<lparr> im_task_id := Some (t_id task), im_updated_at := now E \<rparr>)) (\<lambda>_.
         andThen (recordAuditEvent ws ''profile_import.queued'' (Some user) (Some import_id) (Some ''profile_import'')
           (JObj [(''format_hint'', JStr (format_hint_text (fst src))),
                  (''source'', JStr (if cq_file_id b \<noteq> None then ''file'' else ''pasted_text'')),
                  (''pasted_chars'', JNum (if cq_file_id b \<noteq> None then 0
                     else int (length (case pasted b of None \<Rightarrow> [] | Some t \<Rightarrow> t))))])) (\<lambda>_.
         ret (accepted (t_id task)))))))))))))"

section \<open>The result of the parse\<close>

definition duplicate_warning :: "fact_kind \<Rightarrow> import_warning" where
  "duplicate_warning k =
     \<lparr> iw_code = ImportFieldDropped, iw_message = ''A draft was discarded because its draft_id was not unique.'',
       iw_detail = Some (''kind: '' @ fact_kind_text k) \<rparr>"

definition invalid_warning :: "fact_kind \<Rightarrow> string \<Rightarrow> string list \<Rightarrow> import_warning" where
  "invalid_warning k message paths =
     \<lparr> iw_code = ImportFieldDropped,
       iw_message = ''A '' @ quoted (fact_kind_text k) @ '' draft was discarded: '' @ message,
       iw_detail = (let d = join '', '' (take 5 paths) in if d = [] then None else Some d) \<rparr>"

text \<open>The loop over the drafts: the accepted ones, the warnings and the number dropped.
  A draft that fails its schema does not reserve its id.\<close>

fun accept_drafts ::
  "(schema \<Rightarrow> json \<Rightarrow> string list) \<Rightarrow> draft_fact list \<Rightarrow> string list \<Rightarrow> draft_fact list \<times> import_warning list \<times> nat" where
  "accept_drafts paths [] seen = ([], [], 0)"
| "accept_drafts paths (d # ds) seen =
     (if df_draft_id d \<in> set seen then
        let (kept, warnings, dropped) = accept_drafts paths ds seen
        in (kept, duplicate_warning (df_kind d) # warnings, Suc dropped)
      else case validateFactValue paths (df_kind d) (df_value d) of
        Some (message, ps) \<Rightarrow>
          let (kept, warnings, dropped) = accept_drafts paths ds seen
          in (kept, invalid_warning (df_kind d) message ps # warnings, Suc dropped)
      | None \<Rightarrow>
          let (kept, warnings, dropped) = accept_drafts paths ds (df_draft_id d # seen)
          in (d # kept, warnings, dropped))"

definition parsed_import ::
  "env \<Rightarrow> (schema \<Rightarrow> json \<Rightarrow> string list) \<Rightarrow> parse_profile_result \<Rightarrow> profile_import_row \<Rightarrow> profile_import_row" where
  "parsed_import E paths r row =
     (let (kept, warnings, dropped) = accept_drafts paths (ppr_draft_facts r) [] in
      row \<lparr> im_status := ImportReady,
            im_extracted_draft := Some \<lparr> ed_draft_facts = kept, ed_extracted_chars = ppr_extracted_chars r,
              ed_provider = ppr_provider r, ed_dropped_invalid = dropped \<rparr>,
            im_warnings := take 100 (ppr_warnings r @ warnings), im_error_code := None,
            im_error_message := None, im_updated_at := now E \<rparr>)"

definition applyParseProfileResult ::
  "env \<Rightarrow> (schema \<Rightarrow> json \<Rightarrow> string list) \<Rightarrow> task_row \<Rightarrow> parse_profile_result \<Rightarrow> (db, unit) handler" where
  "applyParseProfileResult E paths task r =
     update_import (t_workspace_id task) (\<lambda>q. im_task_id q = Some (t_id task)) (parsed_import E paths r)"

definition failed_parse :: "env \<Rightarrow> string \<Rightarrow> string \<Rightarrow> profile_import_row \<Rightarrow> profile_import_row" where
  "failed_parse E code message r =
     r \<lparr> im_status := ImportFailed, im_error_code := Some (slice 64 code),
         im_error_message := Some (slice 500 message), im_updated_at := now E \<rparr>"

definition applyParseProfileFailure :: "env \<Rightarrow> task_row \<Rightarrow> string \<Rightarrow> string \<Rightarrow> (db, unit) handler" where
  "applyParseProfileFailure E task code message =
     update_import (t_workspace_id task)
       (\<lambda>r. im_task_id r = Some (t_id task) \<and> (im_status r = ImportQueued \<or> im_status r = ImportParsing))
       (failed_parse E code message)"

section \<open>Conflicts\<close>

record import_conflict =
  ic_draft_id :: string
  ic_existing_fact_id :: uuid
  ic_reason :: string

definition computeConflicts :: "draft_fact list \<Rightarrow> profile_fact_row list \<Rightarrow> import_conflict list" where
  "computeConflicts drafts facts =
     concat (map (\<lambda>d. List.map_filter (\<lambda>f.
        map_option (\<lambda>reason. \<lparr> ic_draft_id = df_draft_id d, ic_existing_fact_id = fa_id f, ic_reason = slice 200 reason \<rparr>)
          (conflictReason (df_kind d) (df_value d) (fa_kind f) (fa_value f))) facts) drafts)"

definition findImport :: "uuid \<Rightarrow> uuid \<Rightarrow> (db, profile_import_row) handler" where
  "findImport ws i =
     andThen (gets (\<lambda>s. scoped_find im_workspace_id ws (\<lambda>r. im_id r = i) (profile_imports s))) (\<lambda>by_id.
       case by_id of
         Some r \<Rightarrow> ret r
       | None \<Rightarrow>
           andThen (gets (\<lambda>s. scoped_find im_workspace_id ws (\<lambda>r. im_task_id r = Some i) (profile_imports s))) (\<lambda>by_task.
           require by_task NotFound))"

definition confirmedFacts :: "uuid \<Rightarrow> uuid \<Rightarrow> db \<Rightarrow> profile_fact_row list" where
  "confirmedFacts ws profile_id s = filter fa_confirmed (loadFacts ws profile_id s)"

definition getProfileImport ::
  "uuid \<Rightarrow> uuid \<Rightarrow> uuid \<Rightarrow> (db, profile_import_row \<times> import_conflict list) handler" where
  "getProfileImport ws profile_id i =
     andThen (findImport ws i) (\<lambda>row.
     andThen (ensureProfile ws profile_id En) (\<lambda>profile.
     gets (\<lambda>s. (row, case im_extracted_draft row of None \<Rightarrow> []
                      | Some d \<Rightarrow> computeConflicts (ed_draft_facts d) (confirmedFacts ws (pr_id profile) s)))))"

section \<open>Confirming\<close>

record promoted_field =
  pm_draft :: draft_fact
  pm_value :: json
  pm_supersedes_id :: "uuid option"

text \<open>The checks of the accepted fields, in their order.  A map built from pairs keeps
  the last value of a key.\<close>

definition stored_draft :: "draft_fact list \<Rightarrow> string \<Rightarrow> draft_fact option" where
  "stored_draft ds i = map_of (rev (map (\<lambda>d. (df_draft_id d, d)) ds)) i"

definition supersede_target ::
  "profile_fact_row list \<Rightarrow> fact_kind \<Rightarrow> uuid option option \<Rightarrow> api_error + uuid option" where
  "supersede_target facts kind named =
     (case named of
        Some (Some i) \<Rightarrow>
          (case find (\<lambda>r. fa_id r = i) facts of
             None \<Rightarrow> Inl NotFound
           | Some r \<Rightarrow> if fa_kind r \<noteq> kind then Inl Unprocessable else Inr (Some (fa_id r)))
      | _ \<Rightarrow> Inr None)"

definition accepted_value :: "accepted_field \<Rightarrow> draft_fact \<Rightarrow> json" where
  "accepted_value f d = (case af_edited_value f of None \<Rightarrow> df_value d | Some e \<Rightarrow> e)"

fun promote ::
  "draft_fact list \<Rightarrow> profile_fact_row list \<Rightarrow> string list \<Rightarrow> accepted_field list \<Rightarrow> api_error + promoted_field list" where
  "promote ds facts seen [] = Inr []"
| "promote ds facts seen (f # fs) =
     (if af_draft_id f \<in> set seen then Inl Unprocessable
      else case stored_draft ds (af_draft_id f) of
        None \<Rightarrow> Inl Unprocessable
      | Some d \<Rightarrow>
          if \<not> valid_fact (df_kind d) (accepted_value f d) then Inl Unprocessable
          else case supersede_target facts (df_kind d) (af_supersedes_fact_id f) of
            Inl e \<Rightarrow> Inl e
          | Inr target \<Rightarrow>
              (case promote ds facts (af_draft_id f # seen) fs of
                 Inl e \<Rightarrow> Inl e
               | Inr ps \<Rightarrow>
                   Inr (\<lparr> pm_draft = d, pm_value = accepted_value f d, pm_supersedes_id = target \<rparr> # ps)))"

definition promoted_fact ::
  "env \<Rightarrow> uuid \<Rightarrow> uuid \<Rightarrow> int \<Rightarrow> uuid option \<Rightarrow> uuid \<Rightarrow> promoted_field \<Rightarrow> profile_fact_row" where
  "promoted_fact E ws profile_id revision file_id new_id p =
     \<lparr> fa_id = new_id, fa_workspace_id = ws, fa_profile_id = profile_id, fa_kind = df_kind (pm_draft p),
       fa_value = pm_value p, fa_source_file_id = file_id, fa_source_excerpt = df_source_excerpt (pm_draft p),
       fa_confirmed = True, fa_revision = revision, fa_supersedes_id = pm_supersedes_id p,
       fa_created_at = now E, fa_updated_at = now E \<rparr>"

definition retired :: "env \<Rightarrow> profile_fact_row \<Rightarrow> profile_fact_row" where
  "retired E r = r \<lparr> fa_confirmed := False, fa_updated_at := now E \<rparr>"

fun promote_each ::
  "env \<Rightarrow> uuid \<Rightarrow> uuid \<Rightarrow> int \<Rightarrow> uuid option \<Rightarrow> (nat \<Rightarrow> uuid) \<Rightarrow> nat \<Rightarrow> promoted_field list \<Rightarrow> (db, unit) handler" where
  "promote_each E ws profile_id revision file_id ids k [] = ret ()"
| "promote_each E ws profile_id revision file_id ids k (p # ps) =
     andThen (insert_fact (promoted_fact E ws profile_id revision file_id (ids k) p)) (\<lambda>_.
     andThen (case pm_supersedes_id p of None \<Rightarrow> ret ()
              | Some i \<Rightarrow> update_fact ws i (retired E)) (\<lambda>_.
     promote_each E ws profile_id revision file_id ids (Suc k) ps))"

definition closed_import :: "env \<Rightarrow> extracted_draft \<Rightarrow> draft_fact list \<Rightarrow> profile_import_row \<Rightarrow> profile_import_row" where
  "closed_import E stored kept r =
     r \<lparr> im_status := ImportConfirmed,
         im_extracted_draft := Some (stored \<lparr> ed_draft_facts := kept \<rparr>), im_updated_at := now E \<rparr>"

definition closeImport :: "env \<Rightarrow> uuid \<Rightarrow> uuid \<Rightarrow> extracted_draft \<Rightarrow> draft_fact list \<Rightarrow> (db, unit) handler" where
  "closeImport E ws i stored kept = update_import ws (\<lambda>r. im_id r = i) (closed_import E stored kept)"

definition latest_contact :: "promoted_field list \<Rightarrow> json option" where
  "latest_contact ps =
     (case rev (filter (\<lambda>p. df_kind (pm_draft p) = KContact) ps) of [] \<Rightarrow> None | p # _ \<Rightarrow> Some (pm_value p))"

definition confirm_audit :: "uuid \<Rightarrow> uuid \<Rightarrow> uuid \<Rightarrow> json \<Rightarrow> (db, unit) handler" where
  "confirm_audit ws user import_id metadata =
     recordAuditEvent ws ''profile_import.confirmed'' (Some user) (Some import_id) (Some ''profile_import'') metadata"

text \<open>The transaction works on the import row and the drafts read before it began.\<close>

definition confirm_transaction ::
  "env \<Rightarrow> uuid \<Rightarrow> uuid \<Rightarrow> (nat \<Rightarrow> uuid) \<Rightarrow> profile_import_row \<Rightarrow> extracted_draft \<Rightarrow> confirm_import_request
     \<Rightarrow> (db, profile_row) handler" where
  "confirm_transaction E ws user ids row stored b =
     transaction (
       andThen (lockProfile ws) (\<lambda>profile.
       andThen (assertProfileRevision profile (ci_expected_profile_revision b)) (\<lambda>_.
       andThen (gets (loadFacts ws (pr_id profile))) (\<lambda>facts.
       andThen (reads (\<lambda>_. promote (ed_draft_facts stored) facts [] (ci_accepted_fields b))) (\<lambda>promoted.
         if promoted = [] then
           andThen (closeImport E ws (im_id row) stored []) (\<lambda>_.
           andThen (confirm_audit ws user (im_id row)
             (JObj [(''promoted'', JNum 0), (''discarded'', JNum (int (length (ed_draft_facts stored)))),
                    (''superseded'', JNum 0)])) (\<lambda>_.
           ret profile))
         else
           let next_revision = pr_revision profile + 1 in
           andThen (promote_each E ws (pr_id profile) next_revision (im_file_id row) ids 0 promoted) (\<lambda>_.
           andThen (update_profile ws (pr_id profile)
             (\<lambda>r. r \<lparr> pr_revision := next_revision, pr_confirmed_revision := Some next_revision \<rparr>)) (\<lambda>_.
           andThen (case latest_contact promoted of None \<Rightarrow> ret ()
                    | Some c \<Rightarrow> syncConfirmedContact ws (pr_id profile) c) (\<lambda>_.
           andThen (closeImport E ws (im_id row) stored (map pm_draft promoted)) (\<lambda>_.
           andThen (confirm_audit ws user (im_id row)
             (JObj [(''revision'', JNum next_revision), (''promoted'', JNum (int (length promoted))),
                    (''discarded'', JNum (int (length (ed_draft_facts stored)) - int (length promoted))),
                    (''superseded'', JNum (int (length (filter (\<lambda>p. pm_supersedes_id p \<noteq> None) promoted))))])) (\<lambda>_.
           lockProfile ws))))))))))"

definition confirmProfileImport ::
  "env \<Rightarrow> uuid \<Rightarrow> uuid \<Rightarrow> uuid \<Rightarrow> (nat \<Rightarrow> uuid) \<Rightarrow> uuid \<Rightarrow> confirm_import_request
     \<Rightarrow> (db, profile_row \<times> profile_fact list) handler" where
  "confirmProfileImport E ws user profile_id ids i b =
     andThen (findImport ws i) (\<lambda>row.
     andThen (throw_if (im_status row \<noteq> ImportReady) Conflict) (\<lambda>_.
     andThen (require (im_extracted_draft row) Conflict) (\<lambda>stored.
     andThen (ensureProfile ws profile_id En) (\<lambda>_.
     andThen (confirm_transaction E ws user ids row stored b) (\<lambda>updated.
     gets (buildProfileView ws updated))))))"

section \<open>Frames\<close>

lemma scoped_import_source: "scoped ws (import_source ws b)"
  unfolding import_source_def Let_def by (intro scope.obeys_rules)

lemma scoped_insert_import: "im_workspace_id r = ws \<Longrightarrow> scoped ws (insert_import r)"
  unfolding insert_import_def by (intro scope.obeys_rules scoped_modify) (simp_all add: outside_def)

lemma scoped_update_import: "(\<And>r. im_workspace_id (f r) = im_workspace_id r) \<Longrightarrow> scoped ws (update_import ws P f)"
  unfolding update_import_def by (rule scoped_modify) (simp_all add: outside_def)

lemma scoped_createProfileImport [handler_steps]:
  "scoped ws (createProfileImport E ws user p i k header body b)"
  unfolding createProfileImport_def
  by (intro scope.obeys_rules scoped_ensureProfile scoped_import_source scoped_withIdempotency scoped_insert_import
      scoped_enqueueTask scoped_update_import scoped_recordAuditEvent) (simp_all add: new_import_def)

lemma parsed_simps [simp]:
  "im_id (parsed_import E paths r q) = im_id q" "im_workspace_id (parsed_import E paths r q) = im_workspace_id q"
  by (simp_all add: parsed_import_def split: prod.split)

lemma scoped_applyParseProfileResult [handler_steps]:
  "scoped (t_workspace_id task) (applyParseProfileResult E paths task r)"
  unfolding applyParseProfileResult_def by (rule scoped_update_import) simp

lemma scoped_applyParseProfileFailure [handler_steps]:
  "scoped (t_workspace_id task) (applyParseProfileFailure E task code message)"
  unfolding applyParseProfileFailure_def by (rule scoped_update_import) (simp add: failed_parse_def)

lemma scoped_findImport [handler_steps]: "scoped ws (findImport ws i)"
  unfolding findImport_def by (intro scope.obeys_rules)

lemma scoped_getProfileImport [handler_steps]: "scoped ws (getProfileImport ws p i)"
  unfolding getProfileImport_def by (intro scope.obeys_rules scoped_findImport scoped_ensureProfile)

lemma scoped_promote_each: "scoped ws (promote_each E ws p rv f ids k ps)"
  by (induction E ws p rv f ids k ps rule: promote_each.induct)
     (auto intro!: scope.obeys_rules scoped_insert_fact scoped_update_fact simp: promoted_fact_def retired_def split: option.split)

lemma scoped_confirm_transaction: "scoped ws (confirm_transaction E ws user ids row stored b)"
  unfolding confirm_transaction_def assertProfileRevision_def closeImport_def confirm_audit_def syncConfirmedContact_def Let_def
  by (intro scope.obeys_rules scoped_lockProfile scoped_update_import scoped_recordAuditEvent scoped_promote_each
      scoped_update_profile) (simp_all add: closed_import_def)

lemma scoped_confirmProfileImport [handler_steps]: "scoped ws (confirmProfileImport E ws user p ids i b)"
  unfolding confirmProfileImport_def
  by (intro scope.obeys_rules scoped_findImport scoped_ensureProfile scoped_confirm_transaction)

section \<open>Accepted drafts\<close>

text \<open>The kept drafts are a subsequence of the parsed ones, each valid for its kind,
  with distinct ids; every other draft is counted and explained.\<close>

definition drafts_kept :: "draft_fact list \<Rightarrow> string list \<Rightarrow> draft_fact list \<times> import_warning list \<times> nat \<Rightarrow> bool" where
  "drafts_kept ds seen out \<longleftrightarrow>
     (let (kept, warnings, dropped) = out in
      subseq kept ds \<and> (\<forall>d \<in> set kept. valid_fact (df_kind d) (df_value d)) \<and>
      distinct (map df_draft_id kept) \<and> (\<forall>d \<in> set kept. df_draft_id d \<notin> set seen) \<and>
      length kept + dropped = length ds \<and> length warnings = dropped)"

lemma accept_drafts_sound: "drafts_kept ds seen (accept_drafts paths ds seen)"
proof (induction paths ds seen rule: accept_drafts.induct)
  case (2 paths d ds seen)
  show ?case
  proof (cases "df_draft_id d \<in> set seen \<or> validateFactValue paths (df_kind d) (df_value d) \<noteq> None")
    case True
    then obtain w where step: "accept_drafts paths (d # ds) seen =
        (let (kept, warnings, dropped) = accept_drafts paths ds seen in (kept, w # warnings, Suc dropped))"
      by (cases "df_draft_id d \<in> set seen")
         (auto intro: that [of "duplicate_warning (df_kind d)"] that [of "invalid_warning (df_kind d) m ps" for m ps])
    have "drafts_kept ds seen (accept_drafts paths ds seen)" using 2 True by auto
    then show ?thesis
      unfolding step by (auto simp: drafts_kept_def split: prod.splits)
  next
    case False
    then have valid: "valid_fact (df_kind d) (df_value d)" by (simp add: validate_valid)
    have none: "validateFactValue paths (df_kind d) (df_value d) = None" using False by blast
    have "drafts_kept ds (df_draft_id d # seen) (accept_drafts paths ds (df_draft_id d # seen))"
      using 2 False none by simp
    then show ?thesis
      using False valid none by (auto simp: drafts_kept_def split: prod.splits)
  qed
qed (simp add: drafts_kept_def)

text \<open>An import that can be confirmed has drafts, all valid.\<close>

definition drafts_ok :: "profile_import_row \<Rightarrow> bool" where
  "drafts_ok r \<longleftrightarrow>
     (im_status r = ImportReady \<longrightarrow>
        (case im_extracted_draft r of None \<Rightarrow> False
         | Some d \<Rightarrow> distinct (map df_draft_id (ed_draft_facts d)) \<and>
             (\<forall>x \<in> set (ed_draft_facts d). valid_fact (df_kind x) (df_value x))))"

lemma drafts_ok_parsed: "drafts_ok (parsed_import E paths r q)"
proof -
  obtain kept warnings dropped where out: "accept_drafts paths (ppr_draft_facts r) [] = (kept, warnings, dropped)"
    by (metis prod_cases3)
  from accept_drafts_sound [of "ppr_draft_facts r" "[]" paths] show ?thesis
    by (simp add: out drafts_kept_def drafts_ok_def parsed_import_def)
qed

section \<open>What is promoted\<close>

lemma stored_draftD: "stored_draft ds i = Some d \<Longrightarrow> d \<in> set ds \<and> df_draft_id d = i"
  by (auto simp: stored_draft_def dest!: map_of_SomeD)

text \<open>Each promoted field is a draft of the import, valid as edited, and supersedes at most
  one existing fact, of its own kind.\<close>

definition promotion_ok :: "draft_fact list \<Rightarrow> profile_fact_row list \<Rightarrow> promoted_field \<Rightarrow> bool" where
  "promotion_ok ds facts p \<longleftrightarrow>
     pm_draft p \<in> set ds \<and> valid_fact (df_kind (pm_draft p)) (pm_value p) \<and>
     (case pm_supersedes_id p of None \<Rightarrow> True
      | Some i \<Rightarrow> \<exists>r \<in> set facts. fa_id r = i \<and> fa_kind r = df_kind (pm_draft p))"

lemma supersede_target_ok:
  "supersede_target facts k named = Inr (Some i) \<Longrightarrow> \<exists>r \<in> set facts. fa_id r = i \<and> fa_kind r = k"
  by (auto simp: supersede_target_def split: option.splits if_splits dest!: find_SomeD)

lemma promote_sound:
  assumes "promote ds facts seen chosen = Inr ps"
  shows "map (df_draft_id \<circ> pm_draft) ps = map af_draft_id chosen" and "list_all (promotion_ok ds facts) ps"
    and "distinct (map af_draft_id chosen)" and "set (map af_draft_id chosen) \<inter> set seen = {}"
proof -
  have "map (df_draft_id \<circ> pm_draft) ps = map af_draft_id chosen \<and> list_all (promotion_ok ds facts) ps \<and>
      distinct (map af_draft_id chosen) \<and> set (map af_draft_id chosen) \<inter> set seen = {}"
    using assms
  proof (induction ds facts seen chosen arbitrary: ps rule: promote.induct)
    case (2 ds facts seen f fs)
    from "2.prems" obtain d target ps' where d: "af_draft_id f \<notin> set seen" "stored_draft ds (af_draft_id f) = Some d"
        "valid_fact (df_kind d) (accepted_value f d)"
        "supersede_target facts (df_kind d) (af_supersedes_fact_id f) = Inr target"
        "promote ds facts (af_draft_id f # seen) fs = Inr ps'"
        "ps = \<lparr> pm_draft = d, pm_value = accepted_value f d, pm_supersedes_id = target \<rparr> # ps'"
      by (auto split: if_splits option.splits sum.splits)
    have "promotion_ok ds facts \<lparr> pm_draft = d, pm_value = accepted_value f d, pm_supersedes_id = target \<rparr>"
      using d(3,4) stored_draftD [OF d(2)] supersede_target_ok
      by (auto simp: promotion_ok_def split: option.splits)
    moreover have "map (df_draft_id \<circ> pm_draft) ps' = map af_draft_id fs \<and> list_all (promotion_ok ds facts) ps' \<and>
        distinct (map af_draft_id fs) \<and> set (map af_draft_id fs) \<inter> set (af_draft_id f # seen) = {}"
      using "2.IH" [OF d(1,2) _ d(4,5)] d(3) by (simp add: o_def)
    ultimately show ?case using d stored_draftD [OF d(2)] by (auto simp: o_def)
  qed simp
  then show "map (df_draft_id \<circ> pm_draft) ps = map af_draft_id chosen" "list_all (promotion_ok ds facts) ps"
    "distinct (map af_draft_id chosen)" "set (map af_draft_id chosen) \<inter> set seen = {}" by simp_all
qed

section \<open>Confirming keeps the profile well formed\<close>

lemma retired_simps [simp]:
  "fa_id (retired E r) = fa_id r" "fa_workspace_id (retired E r) = fa_workspace_id r"
  "fa_confirmed (retired E r) = False" "fact_check bound s (retired E r) = fact_check bound s r"
  by (simp_all add: retired_def fact_check_def split: option.split)

lemma retire_ok:
  assumes "facts_ok bound s"
  shows "facts_ok bound (profile_facts_update (scoped_update fa_workspace_id ws (\<lambda>r. fa_id r = i) (retired E)) s)"
  by (rule facts_ok_update [OF assms]) (use assms in \<open>auto simp: facts_ok_def\<close>)

definition has_fact :: "uuid \<Rightarrow> uuid \<Rightarrow> db \<Rightarrow> bool" where
  "has_fact ws i s \<longleftrightarrow> (\<exists>q \<in> set (profile_facts s). fa_id q = i \<and> fa_workspace_id q = ws)"

definition stored_fact :: "uuid \<Rightarrow> uuid \<Rightarrow> db \<Rightarrow> profile_fact_row option" where
  "stored_fact ws i s = scoped_find fa_workspace_id ws (\<lambda>r. fa_id r = i) (profile_facts s)"

lemma has_fact_insert: "has_fact ws i s \<Longrightarrow> has_fact ws i (profile_facts_update (insert_row r) s)"
  by (auto simp: has_fact_def insert_row_def)

lemma has_fact_retire:
  assumes "has_fact ws i s"
  shows "has_fact ws i (profile_facts_update (scoped_update fa_workspace_id w P (retired E)) s)"
proof -
  have "\<exists>q \<in> set rows. fa_id q = i \<and> fa_workspace_id q = ws \<Longrightarrow>
      \<exists>q \<in> set (scoped_update fa_workspace_id w P (retired E) rows). fa_id q = i \<and> fa_workspace_id q = ws" for rows
    by (induction rows) (auto simp: scoped_update_def)
  then show ?thesis using assms by (simp add: has_fact_def)
qed

lemma promote_each_wp:
  assumes "facts_ok bound s" and "find_profile ws s = Some p" and "1 \<le> rv" and "rv \<le> bound ws"
    and "\<And>q. q \<in> set ps \<Longrightarrow> valid_fact (df_kind (pm_draft q)) (pm_value q) \<and>
      (case pm_supersedes_id q of None \<Rightarrow> True | Some i \<Rightarrow> has_fact ws i s)"
  shows "wp (promote_each E ws (pr_id p) rv file ids k ps)
    (\<lambda>_ s'. facts_ok bound s' \<and> profiles s' = profiles s) (\<lambda>_ _. True) s"
  using assms
proof (induction ps arbitrary: k s)
  case (Cons q ps)
  let ?r = "promoted_fact E ws (pr_id p) rv file (ids k) q"
  let ?s = "profile_facts_update (insert_row ?r) s"
  have fresh: "facts_ok bound ?s" if "ids k \<notin> fa_id ` set (profile_facts s)"
  proof (rule facts_ok_insert [OF Cons.prems(1)])
    have "\<exists>x \<in> set (profile_facts s). fa_id x = i \<and> fa_workspace_id x = ws" if "pm_supersedes_id q = Some i" for i
      using Cons.prems(5) [of q] that by (simp add: has_fact_def)
    moreover have "fa_id x \<noteq> ids k" if "x \<in> set (profile_facts s)" for x
      using \<open>ids k \<notin> fa_id ` set (profile_facts s)\<close> that by (metis image_eqI)
    ultimately show "fact_check bound s ?r"
      using Cons.prems(2-4) Cons.prems(5) [of q]
      by (fastforce simp: fact_check_def promoted_fact_def split: option.split)
    show "fa_id ?r \<notin> fa_id ` set (profile_facts s)" using that by (simp add: promoted_fact_def)
  qed
  have rest: "wp (promote_each E ws (pr_id p) rv file ids (Suc k) ps)
      (\<lambda>_ s'. facts_ok bound s' \<and> profiles s' = profiles s) (\<lambda>_ _. True) u"
    if u: "facts_ok bound u" "profiles u = profiles s" "\<And>i. has_fact ws i s \<Longrightarrow> has_fact ws i u" for u
  proof (rule wp_mono [OF Cons.IH [of u "Suc k"]])
    show "find_profile ws u = Some p" using find_profile_cong [OF u(2)] Cons.prems(2) by simp
    show "valid_fact (df_kind (pm_draft x)) (pm_value x) \<and>
        (case pm_supersedes_id x of None \<Rightarrow> True | Some i \<Rightarrow> has_fact ws i u)" if "x \<in> set ps" for x
      using Cons.prems(5) [of x] that u(3) by (auto split: option.splits)
  qed (use u Cons.prems in auto)
  have plain: "wp (promote_each E ws (pr_id p) rv file ids (Suc k) ps)
      (\<lambda>_ s'. facts_ok bound s' \<and> profiles s' = profiles s) (\<lambda>_ _. True) ?s"
    if "ids k \<notin> fa_id ` set (profile_facts s)"
    using rest [OF fresh [OF that]] has_fact_insert by simp
  have after: "wp (promote_each E ws (pr_id p) rv file ids (Suc k) ps)
      (\<lambda>_ s'. facts_ok bound s' \<and> profiles s' = profiles s) (\<lambda>_ _. True)
      (profile_facts_update (scoped_update fa_workspace_id ws (\<lambda>r. fa_id r = i) (retired E)) ?s)"
    if "ids k \<notin> fa_id ` set (profile_facts s)" for i
    by (intro rest retire_ok [OF fresh [OF that]] has_fact_retire has_fact_insert) simp_all
  have id: "fa_id ?r = ids k" by (simp add: promoted_fact_def)
  show ?case
    unfolding promote_each.simps update_fact_def wp_andThen wp_insert_fact id
    using plain after by (auto split: option.split)
qed simp

definition confirmed_profile :: "promoted_field list \<Rightarrow> profile_row \<Rightarrow> profile_row" where
  "confirmed_profile ps p =
     (let p1 = p \<lparr> pr_revision := pr_revision p + 1, pr_confirmed_revision := Some (pr_revision p + 1) \<rparr>
      in case latest_contact ps of None \<Rightarrow> p1 | Some c \<Rightarrow> p1 \<lparr> pr_contact := Some c \<rparr>)"

lemma profile_imports_frames [simp]:
  "profile_ok (profile_imports_update f s) = profile_ok s"
  "find_profile w (profile_imports_update f s) = find_profile w s"
  by (rule profile_ok_cong; simp) (simp add: find_profile_def)

lemma profile_ok_contact:
  assumes ok: "profile_ok s" and p: "find_profile ws s = Some p"
  shows "profile_ok (profiles_update (scoped_update pr_workspace_id ws (\<lambda>r. pr_id r = pr_id p) (\<lambda>r. r \<lparr> pr_contact := Some c \<rparr>)) s)"
proof -
  have "facts_ok ((reached s)(ws := pr_revision p)) s"
    using ok p by (simp add: profile_ok_def reached_def fun_upd_idem)
  moreover have "profile_check p" using ok find_profileD [OF p] by (simp add: profile_ok_def list_all_iff)
  ultimately show ?thesis
    using ok p by (intro profile_ok_update_profile [where n = "pr_revision p"]) (simp_all add: profile_ok_def profile_check_def split: option.splits)
qed

lemma profile_ok_revise:
  assumes ok: "profile_ok s" and p: "find_profile ws s = Some p" and f: "facts_ok ((reached s)(ws := pr_revision p + 1)) u"
    and u: "profiles u = profiles s"
  shows "profile_ok (profiles_update (scoped_update pr_workspace_id ws (\<lambda>r. pr_id r = pr_id p)
    (\<lambda>r. r \<lparr> pr_revision := pr_revision p + 1, pr_confirmed_revision := Some (pr_revision p + 1) \<rparr>)) u)"
proof (rule profile_ok_update_profile [where n = "pr_revision p + 1"])
  have "profile_check p" using ok find_profileD [OF p] by (simp add: profile_ok_def list_all_iff)
  then show "profile_check (p \<lparr> pr_revision := pr_revision p + 1, pr_confirmed_revision := Some (pr_revision p + 1) \<rparr>)"
    by (simp add: profile_check_def)
  show "distinct (map pr_id (profiles u))" "distinct (map pr_workspace_id (profiles u))" "list_all profile_check (profiles u)"
    using ok by (simp_all add: profile_ok_def u)
  have "reached u = reached s" by (simp add: reached_def fun_eq_iff find_profile_cong [OF u])
  then show "facts_ok ((reached u)(ws := pr_revision p + 1)) u" using f by simp
  show "find_profile ws u = Some p" using find_profile_cong [OF u] p by simp
qed simp_all

lemma facts_loaded_have: "r \<in> set (loadFacts ws i s) \<Longrightarrow> has_fact ws (fa_id r) s"
  by (auto simp: loadFacts_def scoped_filter_def has_fact_def)

text \<open>A confirmation that promotes nothing leaves the profile alone; any other moves both
  revisions by one.\<close>

lemma confirm_wp:
  assumes ok: "profile_ok s" and p: "find_profile ws s = Some p"
  shows "wp (confirm_transaction E ws user ids row stored b)
    (\<lambda>v s'. profile_ok s' \<and> find_profile ws s' = Some v \<and> pr_revision p = ci_expected_profile_revision b \<and>
       (\<exists>ps. promote (ed_draft_facts stored) (loadFacts ws (pr_id p) s) [] (ci_accepted_fields b) = Inr ps \<and>
          v = (if ps = [] then p else confirmed_profile ps p)))
    (\<lambda>_ s'. s' = s) s"
proof (cases "promote (ed_draft_facts stored) (loadFacts ws (pr_id p) s) [] (ci_accepted_fields b)")
  case (Inl e)
  then show ?thesis by (simp add: confirm_transaction_def lockProfile_def assertProfileRevision_def p)
next
  case (Inr ps)
  show ?thesis
  proof (cases "ps = []")
    case True
    then show ?thesis
      using ok Inr p
      by (simp add: confirm_transaction_def lockProfile_def assertProfileRevision_def closeImport_def update_import_def
          confirm_audit_def recordAuditEvent_def)
  next
    case False
    let ?rv = "pr_revision p + 1" and ?bound = "(reached s)(ws := pr_revision p + 1)"
    let ?rev = "scoped_update pr_workspace_id ws (\<lambda>r. pr_id r = pr_id p)
      (\<lambda>r. r \<lparr> pr_revision := ?rv, pr_confirmed_revision := Some ?rv \<rparr>)"
    let ?con = "\<lambda>c. scoped_update pr_workspace_id ws (\<lambda>r. pr_id r = pr_id p) (\<lambda>r. r \<lparr> pr_contact := Some c \<rparr>)"
    have p_check: "profile_check p" using ok find_profileD [OF p] by (simp add: profile_ok_def list_all_iff)
    have weak: "facts_ok ?bound s"
    proof (rule facts_ok_weaken)
      show "facts_ok (reached s) s" using ok by (simp add: profile_ok_def)
    qed (use p in \<open>simp add: reached_def\<close>)
    have each: "valid_fact (df_kind (pm_draft q)) (pm_value q) \<and>
        (case pm_supersedes_id q of None \<Rightarrow> True | Some i \<Rightarrow> has_fact ws i s)" if "q \<in> set ps" for q
      using promote_sound(2) [OF Inr] that facts_loaded_have
      by (fastforce simp: list_all_iff promotion_ok_def split: option.splits)
    have revised: "profile_ok (profiles_update ?rev u)"
      "find_profile ws (profiles_update ?rev u) = Some (p \<lparr> pr_revision := ?rv, pr_confirmed_revision := Some ?rv \<rparr>)"
      if u: "facts_ok ?bound u" "profiles u = profiles s" for u
    proof -
      show "profile_ok (profiles_update ?rev u)" by (rule profile_ok_revise [OF ok p u])
      show "find_profile ws (profiles_update ?rev u) = Some (p \<lparr> pr_revision := ?rv, pr_confirmed_revision := Some ?rv \<rparr>)"
        using find_profile_cong [OF u(2)] p by (intro find_profile_update) simp_all
    qed
    have contact: "profile_ok (profiles_update (?con c \<circ> ?rev) u)"
      "find_profile ws (profiles_update (?con c \<circ> ?rev) u) =
         Some (p \<lparr> pr_revision := ?rv, pr_confirmed_revision := Some ?rv, pr_contact := Some c \<rparr>)"
      if u: "facts_ok ?bound u" "profiles u = profiles s" for u c
      using profile_ok_contact [OF revised [OF u]] find_profile_update [OF revised(2) [OF u], of "\<lambda>r. r \<lparr> pr_contact := Some c \<rparr>"]
      by simp_all
    show ?thesis
    proof (cases "ci_expected_profile_revision b = pr_revision p")
      case True
      have rv: "1 \<le> ?rv" using p_check by (simp add: profile_check_def)
      show ?thesis
        unfolding confirm_transaction_def lockProfile_def assertProfileRevision_def closeImport_def update_import_def
          confirm_audit_def recordAuditEvent_def update_profile_def syncConfirmedContact_def Let_def
        using p Inr False True
        apply simp
        apply (rule wp_mono [OF promote_each_wp [OF weak p rv _ each]])
           apply (auto simp: confirmed_profile_def revised contact split: option.split)
        done
    next
      case False
      then show ?thesis by (simp add: confirm_transaction_def lockProfile_def assertProfileRevision_def p)
    qed
  qed
qed

end
