(* ===== verification/Resumes.thy ===== *)
theory Resumes
  imports ProfileImports
begin

text \<open>
  \<open>apps/api/src/resumes/service.ts\<close> and \<open>routes/resumes.ts\<close>: a CV is an uploaded file
  sent as it is, or a document generated from confirmed facts by a \<open>render_cv\<close> task.  A
  generation is a new row; only a ready row can be approved.
\<close>

section \<open>The context of a generation\<close>

record resume_context =
  rc_profile_revision :: int
  rc_locale :: locale_id
  rc_confirmed_facts :: "profile_fact list"
  rc_preferences :: preferences

definition readResumeContext :: "uuid \<Rightarrow> preferences \<Rightarrow> (db, resume_context) handler" where
  "readResumeContext ws prefs =
     gets (\<lambda>s.
       \<lparr> rc_profile_revision = (case find_profile ws s of None \<Rightarrow> 1 | Some p \<Rightarrow> pr_revision p),
         rc_locale = (case find_profile ws s of None \<Rightarrow> En | Some p \<Rightarrow> pr_locale p),
         rc_confirmed_facts = confirmed_facts ws s, rc_preferences = prefs \<rparr>)"

definition assertModeShape :: "create_resume_request \<Rightarrow> api_error + unit" where
  "assertModeShape b =
     (if cr_mode b = OriginalMode then
        if cr_input_file_id b = None then Inl Unprocessable else Inr ()
      else if cr_input_file_id b \<noteq> None then Inl Unprocessable else Inr ())"

definition render_job_of :: "job_row \<Rightarrow> render_job" where
  "render_job_of j =
     \<lparr> rj_job_id = j_id j, rj_job_revision = j_revision j, rj_company = j_company j, rj_title = j_title j,
       rj_requirements = j_requirements j \<rparr>"

definition buildRenderInput ::
  "uuid \<Rightarrow> resume_context \<Rightarrow> locale_id \<Rightarrow> int \<Rightarrow> job_row option \<Rightarrow> render_cv_input" where
  "buildRenderInput resume_id c language page_target job =
     \<lparr> rci_resume_id = resume_id, rci_profile_revision = rc_profile_revision c, rci_language = language,
       rci_template_id = ''simple'', rci_page_target = page_target,
       rci_confirmed_facts = rc_confirmed_facts c, rci_job = map_option render_job_of job,
       rci_prompt_style_suffix = prompt_style_suffix (rc_preferences c) \<rparr>"

definition assertContactFact :: "resume_context \<Rightarrow> api_error + unit" where
  "assertContactFact c =
     (if list_ex (\<lambda>f. fact_kind f = KContact \<and> fact_confirmed f) (rc_confirmed_facts c) then Inr ()
      else Inl Unprocessable)"

definition resolvePageTarget :: "int option \<Rightarrow> int" where
  "resolvePageTarget requested = (case requested of None \<Rightarrow> resume_page_target_default | Some n \<Rightarrow> n)"

section \<open>Rows and their constraints\<close>

text \<open>The CHECK constraints of migration 0004.\<close>

definition resume_check :: "resume_row \<Rightarrow> bool" where
  "resume_check r \<longleftrightarrow>
     1 \<le> r_page_target r \<and> r_page_target r \<le> 3 \<and> 1 \<le> r_profile_revision r \<and>
     (case r_job_revision r of None \<Rightarrow> True | Some n \<Rightarrow> 1 \<le> n) \<and>
     (r_job_id r = None \<longleftrightarrow> r_job_revision r = None) \<and>
     (r_mode r = OriginalMode \<longrightarrow> r_input_file_id r \<noteq> None \<and> r_document_json r = None) \<and>
     (r_mode r = TailoredMode \<longrightarrow>
        r_input_file_id r = None \<and> (r_status r = ResumeReady \<longrightarrow> r_document_json r \<noteq> None)) \<and>
     (r_approved_at r \<noteq> None \<longrightarrow> r_status r = ResumeReady)"

text \<open>A statement that would leave a row against a CHECK fails as a whole.\<close>

definition update_resume :: "uuid \<Rightarrow> uuid \<Rightarrow> (resume_row \<Rightarrow> resume_row) \<Rightarrow> (db, unit) handler" where
  "update_resume ws i f =
     andThen (gets (\<lambda>s. list_ex (\<lambda>r. \<not> resume_check (f r))
       (scoped_filter r_workspace_id ws (\<lambda>r. r_id r = i) (resumes s)))) (\<lambda>refused.
     andThen (throw_if refused InternalError) (\<lambda>_.
     modify (resumes_update (scoped_update r_workspace_id ws (\<lambda>r. r_id r = i) f))))"

definition insert_resume :: "resume_row \<Rightarrow> (db, unit) handler" where
  "insert_resume r =
     andThen (gets (\<lambda>s. r_id r \<in> r_id ` set (resumes s) \<or> \<not> resume_check r)) (\<lambda>refused.
     andThen (throw_if refused InternalError) (\<lambda>_.
     modify (resumes_update (insert_row r))))"

section \<open>Creating\<close>

definition new_resume ::
  "env \<Rightarrow> uuid \<Rightarrow> uuid \<Rightarrow> create_resume_request \<Rightarrow> resume_context \<Rightarrow> locale_id \<Rightarrow> job_row option \<Rightarrow> resume_row" where
  "new_resume E ws new_id b c language job =
     \<lparr> r_id = new_id, r_workspace_id = ws, r_mode = cr_mode b,
       r_status = (if cr_mode b = OriginalMode then ResumeReady else ResumeQueued),
       r_job_id = map_option j_id job, r_job_revision = map_option j_revision job,
       r_profile_revision = rc_profile_revision c, r_language = language,
       r_template_id = (case cr_template_id b of None \<Rightarrow> ''simple'' | Some t \<Rightarrow> t),
       r_page_target = resolvePageTarget (cr_page_target b), r_document_json = None, r_validation = None,
       r_input_file_id = cr_input_file_id b, r_pdf_file_id = None, r_docx_file_id = None,
       r_approved_at = None, r_task_id = None, r_error_code = None, r_error_message = None,
       r_created_at = now E, r_updated_at = now E \<rparr>"

fun resume_mode_text :: "resume_mode \<Rightarrow> string" where
  "resume_mode_text OriginalMode = ''original''"
| "resume_mode_text TailoredMode = ''tailored''"

fun language_text :: "locale_id \<Rightarrow> string" where
  "language_text En = ''en''"
| "language_text Es = ''es''"

definition requested_job :: "uuid \<Rightarrow> uuid option \<Rightarrow> (db, job_row option) handler" where
  "requested_job ws job_id =
     (case job_id of None \<Rightarrow> ret None
      | Some i \<Rightarrow> andThen (gets (find_job ws i)) (\<lambda>j. andThen (require j NotFound) (\<lambda>j. ret (Some j))))"

definition check_input_file :: "uuid \<Rightarrow> create_resume_request \<Rightarrow> (db, unit) handler" where
  "check_input_file ws b =
     (case cr_input_file_id b of
        Some i \<Rightarrow>
          if cr_mode b = OriginalMode then
            andThen (gets (find_file ws i)) (\<lambda>found.
            andThen (require found NotFound) (\<lambda>f.
            throw_if (f_state f \<noteq> Ready) Unprocessable))
          else ret ()
      | None \<Rightarrow> ret ())"

definition createResume ::
  "env \<Rightarrow> uuid \<Rightarrow> uuid \<Rightarrow> uuid \<Rightarrow> uuid \<Rightarrow> string option \<Rightarrow> json \<Rightarrow> create_resume_request \<Rightarrow> (db, outcome) handler" where
  "createResume E ws user resume_id task_id header body b =
     andThen (reads (\<lambda>_. readIdempotencyKey header)) (\<lambda>key.
     andThen (reads (\<lambda>_. assertModeShape b)) (\<lambda>_.
     andThen (workspacePreferences ws) (\<lambda>prefs.
     andThen (readResumeContext ws prefs) (\<lambda>c.
       let language = (case cr_language b of None \<Rightarrow> cv_language prefs | Some l \<Rightarrow> l);
           page_target = resolvePageTarget (cr_page_target b)
       in
     andThen (if cr_mode b = TailoredMode then reads (\<lambda>_. assertContactFact c) else ret ()) (\<lambda>_.
     andThen (requested_job ws (cr_job_id b)) (\<lambda>job.
     andThen (check_input_file ws b) (\<lambda>_.
     withIdempotency E ws header body ''POST /resumes''
       (transaction (
         andThen (insert_resume (new_resume E ws resume_id b c language job)) (\<lambda>_.
         andThen (if cr_mode b = TailoredMode then
             andThen (enqueueTask E ws task_id (plain_task RenderCv
               (RenderPayload (buildRenderInput resume_id c language page_target job)) (Some key))) (\<lambda>task.
             andThen (update_resume ws resume_id (\<lambda>r. r \<lparr> r_task_id := Some (t_id task), r_updated_at := now E \<rparr>)) (\<lambda>_.
             ret (Some (t_id task))))
           else ret None) (\<lambda>queued.
         andThen (recordAuditEvent ws ''resume.created'' (Some user) (Some resume_id) (Some ''resume'')
           (JObj [(''mode'', JStr (resume_mode_text (cr_mode b))), (''language'', JStr (language_text language)),
                  (''job_id'', jopt JStr (map_option j_id job)),
                  (''confirmed_fact_count'', JNum (int (length (rc_confirmed_facts c))))])) (\<lambda>_.
         ret (accepted (case queued of None \<Rightarrow> resume_id | Some t \<Rightarrow> t))))))))))))))"

section \<open>Reading and approving\<close>

definition requireResume :: "uuid \<Rightarrow> uuid \<Rightarrow> (db, resume_row) handler" where
  "requireResume ws i = andThen (gets (find_resume ws i)) (\<lambda>r. require r NotFound)"

definition resume_after_cursor :: "(timestamp \<times> uuid) option \<Rightarrow> resume_row \<Rightarrow> bool" where
  "resume_after_cursor cursor r \<longleftrightarrow>
     (case cursor of None \<Rightarrow> True
      | Some (t, i) \<Rightarrow> r_created_at r < t \<or> (r_created_at r = t \<and> r_id r < i))"

text \<open>A CV that is tied to no job is offered for every job.\<close>

definition listed_resumes ::
  "uuid \<Rightarrow> uuid option \<Rightarrow> resume_status option \<Rightarrow> (timestamp \<times> uuid) option \<Rightarrow> db \<Rightarrow> resume_row list" where
  "listed_resumes ws job status cursor s =
     rev (sort_key r_created_at (sort_key r_id
       (scoped_filter r_workspace_id ws
         (\<lambda>r. (case status of None \<Rightarrow> True | Some st \<Rightarrow> r_status r = st) \<and>
              (case job of None \<Rightarrow> True | Some j \<Rightarrow> r_job_id r = Some j \<or> r_job_id r = None) \<and>
              resume_after_cursor cursor r) (resumes s))))"

definition resumes_limit :: "nat option \<Rightarrow> nat" where
  "resumes_limit l = min (max (case l of None \<Rightarrow> 25 | Some n \<Rightarrow> n) 1) 100"

definition listResumes ::
  "uuid \<Rightarrow> uuid option \<Rightarrow> resume_status option \<Rightarrow> (timestamp \<times> uuid) option \<Rightarrow> nat option
     \<Rightarrow> (db, resume_row list \<times> (timestamp \<times> uuid) option) handler" where
  "listResumes ws job status cursor max_rows =
     (let limit = resumes_limit max_rows in
      andThen (gets (\<lambda>s. take (limit + 1) (listed_resumes ws job status cursor s))) (\<lambda>rows.
        let page = take limit rows in
        ret (page, if length rows > limit \<and> page \<noteq> []
                   then Some (r_created_at (last page), r_id (last page)) else None)))"

definition getResume :: "uuid \<Rightarrow> uuid \<Rightarrow> (db, resume_row) handler" where
  "getResume ws i =
     andThen (gets (find_resume ws i)) (\<lambda>by_id.
       case by_id of
         Some r \<Rightarrow> ret r
       | None \<Rightarrow>
           andThen (gets (\<lambda>s. scoped_find r_workspace_id ws (\<lambda>r. r_task_id r = Some i) (resumes s))) (\<lambda>via.
           require via NotFound))"

definition approved_resume :: "env \<Rightarrow> bool \<Rightarrow> resume_row \<Rightarrow> resume_row" where
  "approved_resume E approved r =
     r \<lparr> r_approved_at := (if approved then Some (now E) else None), r_updated_at := now E \<rparr>"

definition approveResume :: "env \<Rightarrow> uuid \<Rightarrow> uuid \<Rightarrow> uuid \<Rightarrow> bool \<Rightarrow> (db, resume_row) handler" where
  "approveResume E ws user i approved =
     andThen (requireResume ws i) (\<lambda>existing.
     andThen (throw_if (r_status existing \<noteq> ResumeReady) Conflict) (\<lambda>_.
     transaction (
       andThen (update_resume ws i (approved_resume E approved)) (\<lambda>_.
       andThen (recordAuditEvent ws (if approved then ''resume.approved'' else ''resume.approval_withdrawn'')
         (Some user) (Some i) (Some ''resume'') (JObj [(''mode'', JStr (resume_mode_text (r_mode existing)))])) (\<lambda>_.
       andThen (gets (find_resume ws i)) (\<lambda>stored.
       require stored InternalError))))))"

section \<open>The result of a generation\<close>

definition rendered_resume :: "env \<Rightarrow> render_cv_result \<Rightarrow> resume_row \<Rightarrow> resume_row" where
  "rendered_resume E result r =
     r \<lparr> r_status := ResumeReady, r_document_json := Some (rcr_document_json result),
         r_validation := Some (rcr_validation result), r_pdf_file_id := rcr_pdf_file_id result,
         r_docx_file_id := rcr_docx_file_id result, r_error_code := None, r_error_message := None,
         r_updated_at := now E \<rparr>"

text \<open>The file columns are references into the workspace's files.\<close>

definition applyRenderCvResult :: "env \<Rightarrow> task_row \<Rightarrow> render_cv_result \<Rightarrow> (db, unit) handler" where
  "applyRenderCvResult E task result =
     (case t_payload task of
        RenderPayload input \<Rightarrow>
          let ws = t_workspace_id task in
          andThen (gets (\<lambda>s. has_file ws (rcr_pdf_file_id result) s \<and> has_file ws (rcr_docx_file_id result) s)) (\<lambda>present.
          andThen (throw_if (\<not> present) InternalError) (\<lambda>_.
          update_resume ws (rci_resume_id input) (rendered_resume E result)))
      | _ \<Rightarrow> fail InternalError)"

definition failed_resume :: "env \<Rightarrow> string \<Rightarrow> string \<Rightarrow> resume_row \<Rightarrow> resume_row" where
  "failed_resume E code message r =
     r \<lparr> r_status := ResumeFailed, r_error_code := Some (slice 60 code),
         r_error_message := Some (slice 600 message), r_updated_at := now E \<rparr>"

definition applyRenderCvFailure :: "env \<Rightarrow> task_row \<Rightarrow> string \<Rightarrow> string \<Rightarrow> (db, unit) handler" where
  "applyRenderCvFailure E task code message =
     (case t_payload task of
        RenderPayload input \<Rightarrow> update_resume (t_workspace_id task) (rci_resume_id input) (failed_resume E code message)
      | _ \<Rightarrow> fail InternalError)"

section \<open>Frames\<close>

lemma scoped_update_resume: "(\<And>r. r_workspace_id (f r) = r_workspace_id r) \<Longrightarrow> scoped ws (update_resume ws i f)"
  unfolding update_resume_def by (intro scope.obeys_rules scoped_modify) (simp_all add: outside_def)

lemma scoped_insert_resume: "r_workspace_id r = ws \<Longrightarrow> scoped ws (insert_resume r)"
  unfolding insert_resume_def by (intro scope.obeys_rules scoped_modify) (simp_all add: outside_def)

lemma scoped_createResume [handler_steps]: "scoped ws (createResume E ws user i k header body b)"
  unfolding createResume_def readResumeContext_def requested_job_def check_input_file_def Let_def
  by (intro scope.obeys_rules scoped_workspacePreferences scoped_withIdempotency scoped_insert_resume
      scoped_enqueueTask scoped_update_resume scoped_recordAuditEvent) (simp_all add: new_resume_def)

lemma scoped_listResumes [handler_steps]: "scoped ws (listResumes ws job status cursor n)"
  unfolding listResumes_def Let_def by (intro scope.obeys_rules)

lemma scoped_getResume [handler_steps]: "scoped ws (getResume ws i)"
  unfolding getResume_def by (intro scope.obeys_rules)

lemma scoped_approveResume [handler_steps]: "scoped ws (approveResume E ws user i approved)"
  unfolding approveResume_def requireResume_def
  by (intro scope.obeys_rules scoped_update_resume scoped_recordAuditEvent) (simp_all add: approved_resume_def)

lemma scoped_applyRenderCvResult [handler_steps]: "scoped (t_workspace_id task) (applyRenderCvResult E task r)"
  unfolding applyRenderCvResult_def Let_def
  by (cases "t_payload task") (auto intro!: scope.obeys_rules scoped_update_resume simp: rendered_resume_def)

lemma scoped_applyRenderCvFailure [handler_steps]:
  "scoped (t_workspace_id task) (applyRenderCvFailure E task code message)"
  unfolding applyRenderCvFailure_def
  by (cases "t_payload task") (auto intro!: scope.obeys_rules scoped_update_resume simp: failed_resume_def)

section \<open>The constraints hold\<close>

definition resumes_ok :: "db \<Rightarrow> bool" where
  "resumes_ok s \<longleftrightarrow> distinct (map r_id (resumes s)) \<and> list_all resume_check (resumes s)"

lemma resumes_ok_cong: "resumes s' = resumes s \<Longrightarrow> resumes_ok s' = resumes_ok s"
  by (simp add: resumes_ok_def)

lemma wp_update_resume:
  "wp (update_resume ws i f) Q F s \<longleftrightarrow>
     (if list_ex (\<lambda>r. \<not> resume_check (f r)) (scoped_filter r_workspace_id ws (\<lambda>r. r_id r = i) (resumes s))
      then F InternalError s
      else Q () (resumes_update (scoped_update r_workspace_id ws (\<lambda>r. r_id r = i) f) s))"
  by (simp add: update_resume_def)

lemma keeps_update_resume:
  assumes "\<And>r. r_id (f r) = r_id r"
  shows "obeys (keeps resumes_ok) (update_resume ws i f)"
proof (rule obeysI)
  fix s :: db
  let ?rows = "scoped_update r_workspace_id ws (\<lambda>r. r_id r = i) f (resumes s)"
  have "wp (update_resume ws i f) (\<lambda>_. resumes_ok) (\<lambda>_. resumes_ok) s" if ok: "resumes_ok s"
  proof -
    have "map r_id ?rows = map r_id (resumes s)" by (rule map_scoped_update) (simp add: assms)
    moreover have "list_all resume_check ?rows"
      if "\<not> list_ex (\<lambda>r. \<not> resume_check (f r)) (scoped_filter r_workspace_id ws (\<lambda>r. r_id r = i) (resumes s))"
      using that ok by (auto simp: resumes_ok_def list_all_iff list_ex_iff scoped_filter_def scoped_update_def)
    ultimately show ?thesis using ok by (simp add: wp_update_resume resumes_ok_def)
  qed
  then show "keeps resumes_ok s (snd (update_resume ws i f s))" by (simp add: keeps_def wp_state)
qed

lemma keeps_applyRenderCvResult: "obeys (keeps resumes_ok) (applyRenderCvResult E task r)"
  unfolding applyRenderCvResult_def Let_def
  by (cases "t_payload task") (auto intro!: inv.obeys_rules keeps_update_resume simp: rendered_resume_def)

lemma keeps_applyRenderCvFailure: "obeys (keeps resumes_ok) (applyRenderCvFailure E task code message)"
  unfolding applyRenderCvFailure_def
  by (cases "t_payload task") (auto intro!: inv.obeys_rules keeps_update_resume simp: failed_resume_def)

text \<open>An approval stands on a ready CV and can be withdrawn.\<close>

lemma approve_resume_wp:
  assumes ok: "resumes_ok s"
  shows "wp (approveResume E ws user i approved)
    (\<lambda>r s'. resumes_ok s' \<and> (\<exists>q. find_resume ws i s = Some q \<and> r_status q = ResumeReady \<and> r = approved_resume E approved q) \<and>
       find_resume ws i s' = Some r)
    (\<lambda>e s'. s' = s \<and> (e = NotFound \<or> e = Conflict)) s"
proof (cases "find_resume ws i s")
  case None
  then show ?thesis by (simp add: approveResume_def requireResume_def)
next
  case (Some q)
  let ?f = "approved_resume E approved"
  have q: "q \<in> set (resumes s)" "r_id q = i" "r_workspace_id q = ws" "resume_check q"
    using Some ok by (auto simp: find_resume_def resumes_ok_def list_all_iff dest!: scoped_find_SomeD)
  have one: "r = q" if "r \<in> set (resumes s)" "r_id r = i" for r
    using that q ok by (auto simp: resumes_ok_def distinct_map inj_on_def)
  have fine: "\<not> list_ex (\<lambda>r. \<not> resume_check (?f r)) (scoped_filter r_workspace_id ws (\<lambda>r. r_id r = i) (resumes s))"
    if "r_status q = ResumeReady"
    using that q(4) one by (auto simp: list_ex_iff scoped_filter_def resume_check_def approved_resume_def)
  have found: "find_resume ws i (resumes_update (scoped_update r_workspace_id ws (\<lambda>r. r_id r = i) ?f) s) = Some (?f q)"
    using scoped_find_update [of r_workspace_id ws "\<lambda>r. r_id r = i" "resumes s" q ?f "\<lambda>r. r_id r = i"] Some q
    by (simp add: find_resume_def approved_resume_def)
  have audit: "find_resume ws i (audit_events_update g u) = find_resume ws i u"
    "resumes_ok (audit_events_update g u) = resumes_ok u" for g and u :: db
    by (simp_all add: find_resume_def resumes_ok_def)
  have kept: "resumes_ok (resumes_update (scoped_update r_workspace_id ws (\<lambda>r. r_id r = i) ?f) s)" if "r_status q = ResumeReady"
  proof -
    have "keeps resumes_ok s (snd (update_resume ws i ?f s))"
      using keeps_update_resume [of ?f ws i] by (simp add: obeys_def approved_resume_def)
    then show ?thesis
      using ok fine [OF that] by (simp add: keeps_def update_resume_def andThen_def gets_def throw_if_def ret_def)
  qed
  show ?thesis
    using Some fine found kept
    by (auto simp: approveResume_def requireResume_def wp_update_resume recordAuditEvent_def audit)
qed

end
