(* ===== verification/Effects.thy ===== *)
theory Effects
  imports Database
begin

text \<open>
  Which tables a handler writes.  \<open>only W\<close> relates two states that agree on every table
  outside \<open>W\<close>; a handler that obeys it leaves every invariant of the other tables
  alone, so an invariant needs an argument only about the handlers that write its
  tables.
\<close>

datatype table =
    TSystemFlags | TUsers | TWorkspaces | TMemberships | TSessions | TFiles
  | TTasks | TTaskArtifacts | TIdempotencyRecords | TAuditEvents | TProfiles | TProfileFacts
  | TPreferencesRows | TProfileImports | TProviderSettings | TUsageLedger | TSources | TScans
  | TJobs | TJobSources | TJobImports | TMatches | TResumes | TAnswerBank
  | TApplications | TApplicationPackets | TApplicationEvents | TPairedDevices | TFillSessions | TDeletionLedger
  | TWorkspaceDeletions

fun agree :: "table \<Rightarrow> db \<Rightarrow> db \<Rightarrow> bool" where
  "agree TSystemFlags s t \<longleftrightarrow> system_flags t = system_flags s"
| "agree TUsers s t \<longleftrightarrow> users t = users s"
| "agree TWorkspaces s t \<longleftrightarrow> workspaces t = workspaces s"
| "agree TMemberships s t \<longleftrightarrow> memberships t = memberships s"
| "agree TSessions s t \<longleftrightarrow> sessions t = sessions s"
| "agree TFiles s t \<longleftrightarrow> files t = files s"
| "agree TTasks s t \<longleftrightarrow> tasks t = tasks s"
| "agree TTaskArtifacts s t \<longleftrightarrow> task_artifacts t = task_artifacts s"
| "agree TIdempotencyRecords s t \<longleftrightarrow> idempotency_records t = idempotency_records s"
| "agree TAuditEvents s t \<longleftrightarrow> audit_events t = audit_events s"
| "agree TProfiles s t \<longleftrightarrow> profiles t = profiles s"
| "agree TProfileFacts s t \<longleftrightarrow> profile_facts t = profile_facts s"
| "agree TPreferencesRows s t \<longleftrightarrow> preferences_rows t = preferences_rows s"
| "agree TProfileImports s t \<longleftrightarrow> profile_imports t = profile_imports s"
| "agree TProviderSettings s t \<longleftrightarrow> provider_settings t = provider_settings s"
| "agree TUsageLedger s t \<longleftrightarrow> usage_ledger t = usage_ledger s"
| "agree TSources s t \<longleftrightarrow> sources t = sources s"
| "agree TScans s t \<longleftrightarrow> scans t = scans s"
| "agree TJobs s t \<longleftrightarrow> jobs t = jobs s"
| "agree TJobSources s t \<longleftrightarrow> job_sources t = job_sources s"
| "agree TJobImports s t \<longleftrightarrow> job_imports t = job_imports s"
| "agree TMatches s t \<longleftrightarrow> matches t = matches s"
| "agree TResumes s t \<longleftrightarrow> resumes t = resumes s"
| "agree TAnswerBank s t \<longleftrightarrow> answer_bank t = answer_bank s"
| "agree TApplications s t \<longleftrightarrow> applications t = applications s"
| "agree TApplicationPackets s t \<longleftrightarrow> application_packets t = application_packets s"
| "agree TApplicationEvents s t \<longleftrightarrow> application_events t = application_events s"
| "agree TPairedDevices s t \<longleftrightarrow> paired_devices t = paired_devices s"
| "agree TFillSessions s t \<longleftrightarrow> fill_sessions t = fill_sessions s"
| "agree TDeletionLedger s t \<longleftrightarrow> deletion_ledger t = deletion_ledger s"
| "agree TWorkspaceDeletions s t \<longleftrightarrow> workspace_deletions t = workspace_deletions s"

definition only :: "table set \<Rightarrow> db \<Rightarrow> db \<Rightarrow> bool" where
  "only W s t \<longleftrightarrow> (\<forall>x. x \<notin> W \<longrightarrow> agree x s t)"

lemma agree_refl [simp]: "agree x s s"
  by (cases x) simp_all

lemma agree_trans: "agree x s t \<Longrightarrow> agree x t u \<Longrightarrow> agree x s u"
  by (cases x) simp_all

interpretation writes: step_relation "only W" for W
  by unfold_locales (auto simp: only_def intro: agree_trans)

lemma only_mono: "only W s t \<Longrightarrow> W \<subseteq> W' \<Longrightarrow> only W' s t"
  by (auto simp: only_def)

lemma writes_mono: "obeys (only W) m \<Longrightarrow> W \<subseteq> W' \<Longrightarrow> obeys (only W') m"
  by (auto simp: obeys_def intro: only_mono)

lemma only_update:
  "TSystemFlags \<in> W \<Longrightarrow> only W s (system_flags_update f1 s)"
  "TUsers \<in> W \<Longrightarrow> only W s (users_update f2 s)"
  "TWorkspaces \<in> W \<Longrightarrow> only W s (workspaces_update f3 s)"
  "TMemberships \<in> W \<Longrightarrow> only W s (memberships_update f4 s)"
  "TSessions \<in> W \<Longrightarrow> only W s (sessions_update f5 s)"
  "TFiles \<in> W \<Longrightarrow> only W s (files_update f6 s)"
  "TTasks \<in> W \<Longrightarrow> only W s (tasks_update f7 s)"
  "TTaskArtifacts \<in> W \<Longrightarrow> only W s (task_artifacts_update f8 s)"
  "TIdempotencyRecords \<in> W \<Longrightarrow> only W s (idempotency_records_update f9 s)"
  "TAuditEvents \<in> W \<Longrightarrow> only W s (audit_events_update f10 s)"
  "TProfiles \<in> W \<Longrightarrow> only W s (profiles_update f11 s)"
  "TProfileFacts \<in> W \<Longrightarrow> only W s (profile_facts_update f12 s)"
  "TPreferencesRows \<in> W \<Longrightarrow> only W s (preferences_rows_update f13 s)"
  "TProfileImports \<in> W \<Longrightarrow> only W s (profile_imports_update f14 s)"
  "TProviderSettings \<in> W \<Longrightarrow> only W s (provider_settings_update f15 s)"
  "TUsageLedger \<in> W \<Longrightarrow> only W s (usage_ledger_update f16 s)"
  "TSources \<in> W \<Longrightarrow> only W s (sources_update f17 s)"
  "TScans \<in> W \<Longrightarrow> only W s (scans_update f18 s)"
  "TJobs \<in> W \<Longrightarrow> only W s (jobs_update f19 s)"
  "TJobSources \<in> W \<Longrightarrow> only W s (job_sources_update f20 s)"
  "TJobImports \<in> W \<Longrightarrow> only W s (job_imports_update f21 s)"
  "TMatches \<in> W \<Longrightarrow> only W s (matches_update f22 s)"
  "TResumes \<in> W \<Longrightarrow> only W s (resumes_update f23 s)"
  "TAnswerBank \<in> W \<Longrightarrow> only W s (answer_bank_update f24 s)"
  "TApplications \<in> W \<Longrightarrow> only W s (applications_update f25 s)"
  "TApplicationPackets \<in> W \<Longrightarrow> only W s (application_packets_update f26 s)"
  "TApplicationEvents \<in> W \<Longrightarrow> only W s (application_events_update f27 s)"
  "TPairedDevices \<in> W \<Longrightarrow> only W s (paired_devices_update f28 s)"
  "TFillSessions \<in> W \<Longrightarrow> only W s (fill_sessions_update f29 s)"
  "TDeletionLedger \<in> W \<Longrightarrow> only W s (deletion_ledger_update f30 s)"
  "TWorkspaceDeletions \<in> W \<Longrightarrow> only W s (workspace_deletions_update f31 s)"
  unfolding only_def by (safe; case_tac x; simp)+

lemma onlyD: "only W s t \<Longrightarrow> x \<notin> W \<Longrightarrow> agree x s t"
  by (simp add: only_def)

text \<open>An invariant of the tables \<open>V\<close> is kept by whatever writes none of them.\<close>

definition about :: "table set \<Rightarrow> (db \<Rightarrow> bool) \<Rightarrow> bool" where
  "about V I \<longleftrightarrow> (\<forall>s t. (\<forall>x \<in> V. agree x s t) \<longrightarrow> I t = I s)"

lemma about_keeps: "about V I \<Longrightarrow> obeys (only W) m \<Longrightarrow> V \<inter> W = {} \<Longrightarrow> obeys (keeps I) m"
  unfolding about_def obeys_def only_def keeps_def by (metis disjoint_iff)

lemma about_conj: "about V I \<Longrightarrow> about W J \<Longrightarrow> about (V \<union> W) (\<lambda>s. I s \<and> J s)"
  unfolding about_def by blast

named_theorems table_steps

lemmas writes_rules = writes.obeys_rules

lemma writes_modify: "(\<And>s. only W s (f s)) \<Longrightarrow> obeys (only W) (modify f)"
  by (rule writes.obeys_modify)

lemma writes_audit [table_steps]: "TAuditEvents \<in> W \<Longrightarrow> obeys (only W) (recordAuditEvent ws a b c d m)"
  unfolding recordAuditEvent_def by (intro writes_modify only_update)

end
