(* ===== verification/Dispatch.thy ===== *)
theory Dispatch
  imports Queue JobRoutes Resumes Effects
begin

text \<open>
  \<open>applyDomainResult\<close> and \<open>applyDomainFailure\<close> of \<open>apps/api/src/tasks/queue.ts\<close>: the handler
  of each task type, inside the transaction that completes or fails the task.  Together
  they are the \<open>task_domains\<close> of the queue; the interpretations below discharge what the
  queue assumes of them.
\<close>

section \<open>Dispatch\<close>

text \<open>Fresh ids come from \<open>ids\<close>, the paths of a schema error from \<open>paths\<close>.  A decoded result
  has the constructor of its task type.\<close>

definition applyDomainResult ::
  "env \<Rightarrow> (schema \<Rightarrow> json \<Rightarrow> string list) \<Rightarrow> (nat \<Rightarrow> uuid \<times> uuid) \<Rightarrow> task_row \<Rightarrow> task_result \<Rightarrow> (db, unit) handler" where
  "applyDomainResult E paths ids task result =
     (case (t_type task, result) of
        (ParseProfile, ParseResult r) \<Rightarrow> applyParseProfileResult E paths task r
      | (FetchBoard, FetchBoardResult r) \<Rightarrow> applyFetchBoardResult E ids task r
      | (FetchJob, FetchJobResult r) \<Rightarrow> applyFetchJobResult E (fst (ids 0)) (snd (ids 0)) task r
      | (MatchJob, MatchResult r) \<Rightarrow> applyMatchJobResult E (fst (ids 0)) task r
      | (RenderCv, RenderResult r) \<Rightarrow> applyRenderCvResult E task r
      | (FillLocal, FillResult r) \<Rightarrow> applyFillLocalResult E (fst (ids 0)) task r
      | (ObserveConfirmation, ObserveResult r) \<Rightarrow> applyObserveConfirmationResult E task r
      | _ \<Rightarrow> ret ())"

definition applyDomainFailure :: "env \<Rightarrow> task_row \<Rightarrow> string \<Rightarrow> string \<Rightarrow> (db, unit) handler" where
  "applyDomainFailure E task code message =
     (case t_type task of
        ParseProfile \<Rightarrow> applyParseProfileFailure E task code message
      | FetchBoard \<Rightarrow> applyFetchBoardFailure E task code message
      | FetchJob \<Rightarrow> applyFetchJobFailure E task code message
      | RenderCv \<Rightarrow> applyRenderCvFailure E task code message
      | FillLocal \<Rightarrow> applyFillLocalFailure E task code message
      | ObserveConfirmation \<Rightarrow> applyObserveConfirmationFailure E task code message
      | _ \<Rightarrow> ret ())"

definition domains ::
  "env \<Rightarrow> (schema \<Rightarrow> json \<Rightarrow> string list) \<Rightarrow> (nat \<Rightarrow> uuid \<times> uuid) \<Rightarrow> task_domains" where
  "domains E paths ids =
     \<lparr> dom_result = applyDomainResult E paths ids, dom_failure = applyDomainFailure E \<rparr>"

lemma domains_simps [simp]:
  "dom_result (domains E paths ids) = applyDomainResult E paths ids"
  "dom_failure (domains E paths ids) = applyDomainFailure E"
  by (simp_all add: domains_def)

section \<open>What the domains write\<close>

definition application_tables :: "table set" where
  "application_tables =
     {TApplications, TApplicationPackets, TApplicationEvents, TAuditEvents, TPreferencesRows, TIdempotencyRecords}"

definition discovery_tables :: "table set" where
  "discovery_tables = {TJobs, TJobSources, TScans, TSources, TJobImports}"

lemma writes_of_rest: "keeps_rest m \<Longrightarrow> obeys (only application_tables) m"
proof -
  have "agree x s t" if "rest t = rest s" "x \<notin> application_tables" for x s t
  proof -
    have "agree x s t = agree x (rest s) (rest t)"
      using that(2) by (cases x) (simp_all add: application_tables_def rest_def)
    then show ?thesis using that(1) by simp
  qed
  then show "keeps_rest m \<Longrightarrow> obeys (only application_tables) m"
    by (auto simp: obeys_def same_def only_def)
qed

lemma writes_upsert: "obeys (only {TJobs, TJobSources}) (upsertNormalizedJob E ws i k job og t)"
proof -
  have prov: "obeys (only {TJobs, TJobSources}) (upsert_provenance E ws k j job og)" for j
    unfolding upsert_provenance_def by (intro writes_rules writes_modify only_update) simp_all
  show ?thesis
    unfolding upsertNormalizedJob_def Let_def
    by (intro writes_rules prov) (auto intro!: writes_rules writes_modify only_update split: option.split)
qed

lemma writes_fetch_board: "obeys (only discovery_tables) (applyFetchBoardResult E ids task r)"
proof -
  have each: "obeys (only discovery_tables) (upsert_each E ws ids og t k postings c)" for ws og t k postings c
    by (induction postings arbitrary: k c)
       (auto intro!: writes_rules writes_mono [OF writes_upsert] simp: discovery_tables_def)
  have absences: "obeys (only discovery_tables) (applyAbsences E ws src seen t)" for ws src seen t
    unfolding applyAbsences_def mark_absent_def closeIfGone_def
    by (intro writes_rules writes_modify only_update) (simp_all add: discovery_tables_def)
  show ?thesis
    unfolding applyFetchBoardResult_def lockScanForTask_def lockSource_def Let_def update_scan_def
      recordSourceSuccess_def recordSourceFailure_def update_source_def
    by (intro writes_rules each absences writes_modify only_update) (simp_all add: discovery_tables_def)
qed

lemma writes_fetch_board_failure: "obeys (only discovery_tables) (applyFetchBoardFailure E task code message)"
  unfolding applyFetchBoardFailure_def lockScanForTask_def lockSource_def Let_def update_scan_def
    recordSourceFailure_def update_source_def
  by (intro writes_rules writes_modify only_update) (simp_all add: discovery_tables_def)

lemma writes_fetch_job: "obeys (only (insert TTasks discovery_tables)) (applyFetchJobResult E i k task r)"
  unfolding applyFetchJobResult_def lockImportForTask_def Let_def update_job_import_def extendTaskResult_def
  by (intro writes_rules writes_modify only_update writes_mono [OF writes_upsert]) (simp_all add: discovery_tables_def)

lemma writes_fetch_job_failure: "obeys (only discovery_tables) (applyFetchJobFailure E task code message)"
  unfolding applyFetchJobFailure_def update_job_import_def
  by (intro writes_modify only_update) (simp add: discovery_tables_def)

lemma writes_match: "obeys (only {TMatches}) (applyMatchJobResult E i task r)"
  unfolding applyMatchJobResult_def Let_def
  by (cases "t_payload task") (auto intro!: writes_rules writes_modify only_update)

lemma writes_parse:
  "obeys (only {TProfileImports}) (applyParseProfileResult E paths task r)"
  "obeys (only {TProfileImports}) (applyParseProfileFailure E task code message)"
  unfolding applyParseProfileResult_def applyParseProfileFailure_def update_import_def
  by (intro writes_modify only_update, simp)+

lemma writes_update_resume: "obeys (only {TResumes}) (update_resume ws i f)"
  unfolding update_resume_def by (intro writes_rules writes_modify only_update) simp

lemma writes_render:
  "obeys (only {TResumes}) (applyRenderCvResult E task r)"
  "obeys (only {TResumes}) (applyRenderCvFailure E task code message)"
  unfolding applyRenderCvResult_def applyRenderCvFailure_def Let_def
  by (cases "t_payload task"; auto intro!: writes_rules writes_update_resume)+

section \<open>The contract of the queue\<close>

lemma tasks_agree: "TTasks \<notin> W \<Longrightarrow> obeys (only W) m \<Longrightarrow> obeys (same tasks) m"
proof -
  assume "TTasks \<notin> W" and m: "obeys (only W) m"
  then have "agree TTasks s (snd (m s))" for s using onlyD [of W s "snd (m s)" TTasks] by (simp add: obeys_def)
  then show ?thesis by (simp add: obeys_def same_def)
qed

lemma extends_fetch_job: "obeys (extends_result (t_id task)) (applyFetchJobResult E i k task r)"
proof -
  have ext: "extends_result (t_id task) s (tasks_update (scoped_update t_workspace_id ws (\<lambda>t. t_id t = t_id task) (extended_task E r x)) s)"
    for s :: db and ws x
    unfolding extends_result_def
  proof (intro exI conjI allI)
    let ?f = "\<lambda>q. if t_workspace_id q = ws then extended_task E r x q else q"
    show "tasks (tasks_update (scoped_update t_workspace_id ws (\<lambda>t. t_id t = t_id task) (extended_task E r x)) s) =
        map (\<lambda>q. if t_id q = t_id task then ?f q else q) (tasks s)"
      by (simp add: scoped_update_def)
    show "result_extended q (?f q)" for q
      by (cases "t_workspace_id q = ws") (auto simp: result_extended_def extended_task_def)
  qed
  have up: "obeys (extends_result (t_id task)) (upsertNormalizedJob E ws a b job og t)" for ws a b job og t
    by (rule obeys_same_tasks, rule tasks_agree [OF _ writes_upsert]) simp
  show ?thesis
    unfolding applyFetchJobResult_def lockImportForTask_def Let_def update_job_import_def extendTaskResult_def
    by (intro result_extension.obeys_rules result_extension.obeys_modify up ext extends_result_same) simp_all
qed

lemma domain_result_tasks: "obeys (extends_result (t_id task)) (applyDomainResult E paths ids task result)"
  using extends_fetch_job [of task] tasks_agree [OF _ writes_fetch_board, THEN obeys_same_tasks]
    tasks_agree [OF _ writes_match, THEN obeys_same_tasks] tasks_agree [OF _ writes_parse(1), THEN obeys_same_tasks]
    tasks_agree [OF _ writes_render(1), THEN obeys_same_tasks]
    tasks_agree [OF _ writes_of_rest, OF _ keeps_rest_fill_result, THEN obeys_same_tasks]
    tasks_agree [OF _ writes_of_rest, OF _ keeps_rest_observe_result, THEN obeys_same_tasks]
  unfolding applyDomainResult_def
  by (auto intro: result_extension.obeys_ret simp: discovery_tables_def application_tables_def
      split: task_type.split task_result.split)

lemma domain_failure_tasks: "obeys (same tasks) (applyDomainFailure E task code message)"
  using tasks_agree [OF _ writes_fetch_board_failure] tasks_agree [OF _ writes_fetch_job_failure]
    tasks_agree [OF _ writes_parse(2)] tasks_agree [OF _ writes_render(2)]
    tasks_agree [OF _ writes_of_rest, OF _ keeps_rest_fill_failure]
    tasks_agree [OF _ writes_of_rest, OF _ keeps_rest_observe_failure]
  unfolding applyDomainFailure_def
  by (auto intro: frame.obeys_ret simp: discovery_tables_def application_tables_def split: task_type.split)

lemma scoped_applyDomainResult [handler_steps]: "scoped (t_workspace_id task) (applyDomainResult E paths ids task result)"
  unfolding applyDomainResult_def
  by (auto intro!: handler_steps scope.obeys_ret split: task_type.split task_result.split)

lemma scoped_applyDomainFailure [handler_steps]: "scoped (t_workspace_id task) (applyDomainFailure E task code message)"
  unfolding applyDomainFailure_def
  by (auto intro!: handler_steps scope.obeys_ret split: task_type.split)

interpretation api_queue: task_handlers "domains E paths ids" for E paths ids
  by unfold_locales
     (simp_all add: domain_result_tasks domain_failure_tasks scoped_applyDomainResult scoped_applyDomainFailure)

section \<open>The invariant of the whole database\<close>

definition imports_parsed :: "db \<Rightarrow> bool" where
  "imports_parsed s \<longleftrightarrow> list_all drafts_ok (profile_imports s)"

definition domain_ok :: "(string \<Rightarrow> string) \<Rightarrow> db \<Rightarrow> bool" where
  "domain_ok sha s \<longleftrightarrow>
     db_ok sha s \<and> devices_ok s \<and> sessions_ok s \<and> import_state_ok s \<and> matches_ok s \<and> profile_ok s \<and>
     resumes_ok s \<and> imports_parsed s"

lemma about_db_ok: "about {TApplications, TApplicationPackets} (db_ok sha)"
  by (simp add: about_def db_ok_def)

lemma about_devices_ok: "about {TPairedDevices} devices_ok"
  by (simp add: about_def devices_ok_def)

lemma about_sessions_ok: "about {TFillSessions} sessions_ok"
  by (simp add: about_def sessions_ok_def)

lemma about_import_state_ok: "about discovery_tables import_state_ok"
  unfolding about_def discovery_tables_def
  by (auto simp: import_state_ok_def imports_ok_def intro: discovery_ok_cong [THEN iffD1] discovery_ok_cong [THEN iffD2])

lemma about_matches_ok: "about {TMatches} matches_ok"
  by (simp add: about_def matches_ok_def)

lemma about_profile_ok: "about {TProfiles, TProfileFacts} profile_ok"
  unfolding about_def by (auto intro: profile_ok_cong [THEN iffD1] profile_ok_cong [THEN iffD2])

lemma about_resumes_ok: "about {TResumes} resumes_ok"
  by (simp add: about_def resumes_ok_def)

lemma about_imports_parsed: "about {TProfileImports} imports_parsed"
  by (simp add: about_def imports_parsed_def)

lemmas about_parts =
  about_db_ok about_devices_ok about_sessions_ok about_import_state_ok about_matches_ok about_profile_ok
  about_resumes_ok about_imports_parsed

definition domain_tables :: "table set" where
  "domain_tables = {TApplications, TApplicationPackets, TPairedDevices, TFillSessions} \<union> discovery_tables \<union>
     {TMatches, TProfiles, TProfileFacts, TResumes, TProfileImports}"

lemma about_domain_ok: "about domain_tables (domain_ok sha)"
proof -
  have sub: "about V I \<Longrightarrow> V \<subseteq> domain_tables \<Longrightarrow> about domain_tables I" for V I
    unfolding about_def by blast
  have "about domain_tables (db_ok sha)" "about domain_tables devices_ok" "about domain_tables sessions_ok"
    "about domain_tables import_state_ok" "about domain_tables matches_ok" "about domain_tables profile_ok"
    "about domain_tables resumes_ok" "about domain_tables imports_parsed"
    by (rule sub [OF about_db_ok] sub [OF about_devices_ok] sub [OF about_sessions_ok] sub [OF about_import_state_ok]
        sub [OF about_matches_ok] sub [OF about_profile_ok] sub [OF about_resumes_ok] sub [OF about_imports_parsed];
        simp add: domain_tables_def discovery_tables_def)+
  then show ?thesis unfolding about_def domain_ok_def by metis
qed

text \<open>A handler that writes the tables of one part keeps the others, so only its own part is
  left to show.\<close>

lemma keeps_domain_ok:
  assumes w: "obeys (only W) m"
    and "TApplications \<in> W \<or> TApplicationPackets \<in> W \<Longrightarrow> obeys (keeps (db_ok sha)) m"
    and "TPairedDevices \<in> W \<Longrightarrow> obeys (keeps devices_ok) m"
    and "TFillSessions \<in> W \<Longrightarrow> obeys (keeps sessions_ok) m"
    and "discovery_tables \<inter> W \<noteq> {} \<Longrightarrow> obeys (keeps import_state_ok) m"
    and "TMatches \<in> W \<Longrightarrow> obeys (keeps matches_ok) m"
    and "TProfiles \<in> W \<or> TProfileFacts \<in> W \<Longrightarrow> obeys (keeps profile_ok) m"
    and "TResumes \<in> W \<Longrightarrow> obeys (keeps resumes_ok) m"
    and "TProfileImports \<in> W \<Longrightarrow> obeys (keeps imports_parsed) m"
  shows "obeys (keeps (domain_ok sha)) m"
proof -
  have part: "obeys (keeps I) m" if "about V I" "V \<inter> W \<noteq> {} \<Longrightarrow> obeys (keeps I) m" for V I
    using about_keeps [OF that(1) w] that(2) by blast
  have "obeys (keeps (db_ok sha)) m" "obeys (keeps devices_ok) m" "obeys (keeps sessions_ok) m"
    "obeys (keeps import_state_ok) m" "obeys (keeps matches_ok) m" "obeys (keeps profile_ok) m"
    "obeys (keeps resumes_ok) m" "obeys (keeps imports_parsed) m"
    using assms(2-) by (blast intro: part about_parts)+
  then show ?thesis by (simp add: obeys_def keeps_def domain_ok_def)
qed

section \<open>The domains keep it\<close>

lemma keeps_discovery_import:
  assumes "obeys (keeps discovery_ok) m" and "obeys (same job_imports) m"
  shows "obeys (keeps import_state_ok) m"
proof (rule obeysI)
  fix s
  have "job_imports (snd (m s)) = job_imports s" using assms(2) by (simp add: obeys_def same_def)
  from imports_ok_cong [OF this] show "keeps import_state_ok s (snd (m s))"
    using assms(1) by (simp add: obeys_def keeps_def import_state_ok_def)
qed

lemma keeps_fetch_board: "obeys (keeps import_state_ok) (applyFetchBoardResult E ids task r)"
proof (rule keeps_discovery_import)
  show "obeys (keeps discovery_ok) (applyFetchBoardResult E ids task r)"
  proof (rule obeysI)
    fix s
    have "wp (applyFetchBoardResult E ids task r) (\<lambda>_. discovery_ok) (\<lambda>_. discovery_ok) s" if "discovery_ok s"
      using fetch_board_result_wp [OF that] by (rule wp_mono) simp_all
    then show "keeps discovery_ok s (snd (applyFetchBoardResult E ids task r s))" by (simp add: keeps_def wp_state)
  qed
  have absences: "obeys (same job_imports) (applyAbsences E ws src seen t)" for ws src seen t
    unfolding applyAbsences_def mark_absent_def closeIfGone_def
    by (intro frame.obeys_rules frame.obeys_modify) (simp_all add: same_def)
  have each: "obeys (same job_imports) (upsert_each E ws ids og t k postings c)" for ws og t k postings c
    by (induction postings arbitrary: k c) (auto intro!: frame.obeys_rules upsert_same_imports)
  show "obeys (same job_imports) (applyFetchBoardResult E ids task r)"
    unfolding applyFetchBoardResult_def lockScanForTask_def lockSource_def Let_def update_scan_def
      recordSourceSuccess_def recordSourceFailure_def update_source_def
    by (intro frame.obeys_rules frame.obeys_modify each absences) (simp_all add: same_def)
qed

lemma keeps_fetch_board_failure: "obeys (keeps import_state_ok) (applyFetchBoardFailure E task code message)"
proof (rule keeps_discovery_import)
  show "obeys (keeps discovery_ok) (applyFetchBoardFailure E task code message)"
    using fetch_board_failure_ok by (intro obeysI) (simp add: keeps_def wp_state)
  show "obeys (same job_imports) (applyFetchBoardFailure E task code message)"
    unfolding applyFetchBoardFailure_def lockScanForTask_def lockSource_def Let_def update_scan_def
      recordSourceFailure_def update_source_def
    by (intro frame.obeys_rules frame.obeys_modify) (simp_all add: same_def)
qed

lemma keeps_match: "obeys (keeps matches_ok) (applyMatchJobResult E i task r)"
proof (rule obeysI)
  fix s
  have "wp (applyMatchJobResult E i task r) (\<lambda>_. matches_ok) (\<lambda>_. matches_ok) s" if ok: "matches_ok s"
  proof (cases "t_payload task")
    case (MatchPayload input)
    show ?thesis by (rule wp_mono [OF apply_match_wp [OF ok MatchPayload]]) (use ok in auto)
  qed (use ok in \<open>simp_all add: applyMatchJobResult_def\<close>)
  then show "keeps matches_ok s (snd (applyMatchJobResult E i task r s))" by (simp add: keeps_def wp_state)
qed

lemma keeps_update_import:
  "(\<And>r. P r \<Longrightarrow> drafts_ok r \<Longrightarrow> drafts_ok (f r)) \<Longrightarrow> obeys (keeps imports_parsed) (update_import ws P f)"
  unfolding update_import_def
  by (rule inv.obeys_modify) (auto simp: keeps_def imports_parsed_def list_all_iff scoped_update_def)

lemma keeps_parse:
  "obeys (keeps imports_parsed) (applyParseProfileResult E paths task r)"
  "obeys (keeps imports_parsed) (applyParseProfileFailure E task code message)"
  unfolding applyParseProfileResult_def applyParseProfileFailure_def
  by (rule keeps_update_import, simp add: drafts_ok_parsed)
     (rule keeps_update_import, simp add: drafts_ok_def failed_parse_def)

lemma keeps_state: "(\<And>s. I s \<Longrightarrow> I (snd (m s))) \<Longrightarrow> obeys (keeps I) m"
  by (rule obeysI) (simp add: keeps_def)

lemma application_writes:
  assumes "keeps_rest m" and "\<And>s. db_ok sha s \<Longrightarrow> db_ok sha (snd (m s))"
  shows "obeys (keeps (domain_ok sha)) m"
  using assms(2)
  by (intro keeps_domain_ok [OF writes_of_rest [OF assms(1)]] keeps_state)
     (simp_all add: application_tables_def discovery_tables_def)

lemma domain_result_keeps: "obeys (keeps (domain_ok (sha256Hex E))) (applyDomainResult E paths ids task result)"
proof -
  have board: "obeys (keeps (domain_ok (sha256Hex E))) (applyFetchBoardResult E ids task r)" for r
    using keeps_fetch_board by (intro keeps_domain_ok [OF writes_fetch_board]) (simp_all add: discovery_tables_def)
  have import_job: "obeys (keeps (domain_ok (sha256Hex E))) (applyFetchJobResult E i k task r)" for i k r
    using keeps_applyFetchJobResult by (intro keeps_domain_ok [OF writes_fetch_job]) (simp_all add: discovery_tables_def)
  have match: "obeys (keeps (domain_ok (sha256Hex E))) (applyMatchJobResult E i task r)" for i r
    using keeps_match by (intro keeps_domain_ok [OF writes_match]) (simp_all add: discovery_tables_def)
  have parse: "obeys (keeps (domain_ok (sha256Hex E))) (applyParseProfileResult E paths task r)" for r
    using keeps_parse by (intro keeps_domain_ok [OF writes_parse(1)]) (simp_all add: discovery_tables_def)
  have render: "obeys (keeps (domain_ok (sha256Hex E))) (applyRenderCvResult E task r)" for r
    using keeps_applyRenderCvResult by (intro keeps_domain_ok [OF writes_render(1)]) (simp_all add: discovery_tables_def)
  have fill: "obeys (keeps (domain_ok (sha256Hex E))) (applyFillLocalResult E i task r)" for i r
    by (rule application_writes [OF keeps_rest_fill_result db_ok_applyFillLocalResult])
  have observe: "obeys (keeps (domain_ok (sha256Hex E))) (applyObserveConfirmationResult E task r)" for r
    by (rule application_writes [OF keeps_rest_observe_result db_ok_applyObserveResult])
  show ?thesis
    unfolding applyDomainResult_def
    by (auto intro: inv.obeys_ret board import_job match parse render fill observe split: task_type.split task_result.split)
qed

lemma domain_failure_keeps: "obeys (keeps (domain_ok sha)) (applyDomainFailure E task code message)"
proof -
  have board: "obeys (keeps (domain_ok sha)) (applyFetchBoardFailure E task code message)"
    using keeps_fetch_board_failure by (intro keeps_domain_ok [OF writes_fetch_board_failure]) (simp_all add: discovery_tables_def)
  have import_job: "obeys (keeps (domain_ok sha)) (applyFetchJobFailure E task code message)"
    using keeps_applyFetchJobFailure by (intro keeps_domain_ok [OF writes_fetch_job_failure]) (simp_all add: discovery_tables_def)
  have parse: "obeys (keeps (domain_ok sha)) (applyParseProfileFailure E task code message)"
    using keeps_parse by (intro keeps_domain_ok [OF writes_parse(2)]) (simp_all add: discovery_tables_def)
  have render: "obeys (keeps (domain_ok sha)) (applyRenderCvFailure E task code message)"
    using keeps_applyRenderCvFailure by (intro keeps_domain_ok [OF writes_render(2)]) (simp_all add: discovery_tables_def)
  have fill: "obeys (keeps (domain_ok sha)) (applyFillLocalFailure E task code message)"
    by (rule application_writes [OF keeps_rest_fill_failure db_ok_applyFillLocalFailure])
  have observe: "obeys (keeps (domain_ok sha)) (applyObserveConfirmationFailure E task code message)"
    by (rule application_writes [OF keeps_rest_observe_failure db_ok_applyObserveFailure])
  show ?thesis
    unfolding applyDomainFailure_def
    by (auto intro: inv.obeys_ret board import_job parse render fill observe split: task_type.split)
qed

lemma domain_ok_elsewhere: "only W s t \<Longrightarrow> W \<inter> domain_tables = {} \<Longrightarrow> domain_ok sha t = domain_ok sha s"
proof -
  assume "only W s t" and "W \<inter> domain_tables = {}"
  then have "\<forall>x \<in> domain_tables. agree x s t" by (auto simp: only_def)
  then show ?thesis using about_domain_ok unfolding about_def by blast
qed

interpretation api_domains: domain_invariant "domains E paths ids" "domain_ok (sha256Hex E)" for E paths ids
proof
  fix t r c m and s :: db and f g k l
  show "obeys (keeps (domain_ok (sha256Hex E))) (dom_result (domains E paths ids) t r)"
    by (simp add: domain_result_keeps)
  show "obeys (keeps (domain_ok (sha256Hex E))) (dom_failure (domains E paths ids) t c m)"
    by (simp add: domain_failure_keeps)
  show "domain_ok (sha256Hex E) (tasks_update f s) = domain_ok (sha256Hex E) s"
    by (rule domain_ok_elsewhere [OF only_update(7) [OF singletonI]]) (simp add: domain_tables_def discovery_tables_def)
  show "domain_ok (sha256Hex E) (files_update g s) = domain_ok (sha256Hex E) s"
    by (rule domain_ok_elsewhere [OF only_update(6) [OF singletonI]]) (simp add: domain_tables_def discovery_tables_def)
  show "domain_ok (sha256Hex E) (task_artifacts_update k s) = domain_ok (sha256Hex E) s"
    by (rule domain_ok_elsewhere [OF only_update(8) [OF singletonI]]) (simp add: domain_tables_def discovery_tables_def)
  show "domain_ok (sha256Hex E) (audit_events_update l s) = domain_ok (sha256Hex E) s"
    by (rule domain_ok_elsewhere [OF only_update(10) [OF singletonI]]) (simp add: domain_tables_def discovery_tables_def)
qed

end
