(* ===== verification/QueueProperties.thy ===== *)
theory QueueProperties
  imports Dispatch Samples
begin

text \<open>
  What the task queue promises with the domain handlers of the API plugged in: a lease is
  held by one worker at a time, a lost lease has no effect, a result or a failure lands
  exactly once, retries are bounded and the sweep leaves no expired lease behind.
\<close>

section \<open>Samples\<close>

definition sample_paths :: "schema \<Rightarrow> json \<Rightarrow> string list" where
  "sample_paths c v = []"

definition sample_ids :: "nat \<Rightarrow> uuid \<times> uuid" where
  "sample_ids n = (''new'' @ replicate n CHR ''x'', ''prov'' @ replicate n CHR ''x'')"

abbreviation sample_domains :: task_domains where
  "sample_domains \<equiv> domains sample_env sample_paths sample_ids"

definition sample_queued :: task_row where
  "sample_queued = sample_task NoopEcho"

definition sample_second :: task_row where
  "sample_second = sample_queued \<lparr> t_id := ''task2'', t_created_at := sample_now + 1 \<rparr>"

definition sample_leased :: task_row where
  "sample_leased = leased_row sample_env ''w'' ''lease-1'' sample_queued"

definition sample_decode :: "task_type \<Rightarrow> json \<Rightarrow> task_result option" where
  "sample_decode ty raw = (if ty = NoopEcho \<and> raw = JObj [] then Some (OtherResult raw) else None)"

lemmas sample_task_defs =
  sample_queued_def sample_second_def sample_leased_def sample_task_def new_task_def sample_now_def sample_env_def

section \<open>Leases\<close>

text \<open>C7: While a lease runs, no worker is handed the same task again: of two claims, the second
  made before the first lease ends, each returns a different task.\<close>

theorem claims_exclusive:
  assumes "tasks_ok s"
    and "claimTask E (domains E paths ids) who worker caps version token s = (Inr (Some c), s1)"
    and "claimTask E' (domains E' paths' ids') who' worker' caps' version' token' s1 = (Inr (Some c'), s2)"
    and "now E' < now E + lease_ms"
  shows "cl_task_id c' \<noteq> cl_task_id c"
proof -
  have one: "tasks_ok s1" "claimed E worker caps (claim_workspace who) token s (Some c) s1"
    using wp_okD [OF api_queue.claim_wp [OF assms(1)] assms(2)] by simp_all
  have "claimed E' worker' caps' (claim_workspace who') token' s1 (Some c') s2"
    using wp_okD [OF api_queue.claim_wp [OF one(1)] assms(3)] by simp
  with one assms(4) show ?thesis by (intro no_double_lease)
qed


lemma sample_pair_ok: "tasks_ok (empty_db \<lparr> tasks := [sample_queued, sample_second] \<rparr>)"
  by (simp add: tasks_ok_def task_check_def sample_task_defs empty_db_def no_retry_task_types_def)

lemma sample_pair_select:
  "selectClaimCandidate sample_env [NoopEcho] None (empty_db \<lparr> tasks := [sample_queued, sample_second] \<rparr>) = Some sample_queued"
  "selectClaimCandidate sample_env [NoopEcho] None (empty_db \<lparr> tasks := [sample_leased, sample_second] \<rparr>) = Some sample_second"
  by (simp_all add: selectClaimCandidate_def claimable_def sample_task_defs empty_db_def lease_ms_def lease_seconds_def leased_row_def)


lemma claim_first:
  assumes "selectClaimCandidate E caps (claim_workspace who) s = Some t" and "t_state t = Queued" and "\<not> t_cancel_requested t"
    and "assertCapabilitiesAllowed who caps s = (Inr (), s)"
  shows "claimTask E h who worker caps protocol_version token s =
    (Inr (Some (claim_of token (now E + lease_ms) (leased_row E worker token t) (loadInputFiles t
       (tasks_update (map (\<lambda>q. if t_id q = t_id t then leased_row E worker token q else q)) s)))),
     tasks_update (map (\<lambda>q. if t_id q = t_id t then leased_row E worker token q else q)) s)"
  using assms
  by (simp add: claimTask_def transaction_def andThen_def eval_nat_numeral throw_if_apply update_task_def ret_def)

lemma sample_claims:
  "\<exists>c c' s2. claimTask sample_env sample_domains (WorkerPrincipal ''w'') ''w'' [NoopEcho] protocol_version ''lease-1''
      (empty_db \<lparr> tasks := [sample_queued, sample_second] \<rparr>) = (Inr (Some c), empty_db \<lparr> tasks := [sample_leased, sample_second] \<rparr>) \<and>
     claimTask sample_env sample_domains (WorkerPrincipal ''v'') ''v'' [NoopEcho] protocol_version ''lease-2''
      (empty_db \<lparr> tasks := [sample_leased, sample_second] \<rparr>) = (Inr (Some c'), s2) \<and> cl_task_id c = ''task'' \<and> cl_task_id c' = ''task2''"
proof -
  have ids: "t_id sample_queued = ''task''" "t_id sample_second = ''task2''" "t_id sample_leased = ''task''"
    by (simp_all add: sample_task_defs leased_row_def)
  have caps: "assertCapabilitiesAllowed (WorkerPrincipal w) [NoopEcho] s = (Inr (), s)" for w and s :: db
    by (simp add: isRunnerOnlyCapability_def runner_only_capabilities_def)
  have rows: "t_state sample_queued = Queued \<and> \<not> t_cancel_requested sample_queued"
    "t_state sample_second = Queued \<and> \<not> t_cancel_requested sample_second"
    by (simp_all add: sample_task_defs)
  have ws: "claim_workspace (WorkerPrincipal w) = None" for w by (simp add: claim_workspace_def)
  show ?thesis
    using rows claim_first [OF sample_pair_select(1) [folded ws [of "''w''"]] _ _ caps, of sample_domains "''w''" "''lease-1''"]
      claim_first [OF sample_pair_select(2) [folded ws [of "''v''"]] _ _ caps, of sample_domains "''v''" "''lease-2''"]
    by (simp add: ids sample_leased_def [symmetric] claim_of_def empty_db_def)
qed

theorem claims_exclusive_witness:
  "\<exists>c c' s2. claimTask sample_env sample_domains (WorkerPrincipal ''w'') ''w'' [NoopEcho]
       protocol_version ''lease-1'' (empty_db \<lparr> tasks := [sample_queued, sample_second] \<rparr>) =
       (Inr (Some c), empty_db \<lparr> tasks := [sample_leased, sample_second] \<rparr>) \<and>
     claimTask sample_env sample_domains (WorkerPrincipal ''v'') ''v'' [NoopEcho]
       protocol_version ''lease-2'' (empty_db \<lparr> tasks := [sample_leased, sample_second] \<rparr>) = (Inr (Some c'), s2) \<and>
     cl_task_id c' \<noteq> cl_task_id c"
proof -
  obtain c c' s2 where runs:
    "claimTask sample_env sample_domains (WorkerPrincipal ''w'') ''w'' [NoopEcho]
       protocol_version ''lease-1'' (empty_db \<lparr> tasks := [sample_queued, sample_second] \<rparr>) =
       (Inr (Some c), empty_db \<lparr> tasks := [sample_leased, sample_second] \<rparr>)"
    "claimTask sample_env sample_domains (WorkerPrincipal ''v'') ''v'' [NoopEcho]
       protocol_version ''lease-2'' (empty_db \<lparr> tasks := [sample_leased, sample_second] \<rparr>) = (Inr (Some c'), s2)"
    using sample_claims by blast
  have "now sample_env < now sample_env + lease_ms" by (simp add: lease_ms_def lease_seconds_def)
  from claims_exclusive [OF sample_pair_ok runs this] runs show ?thesis by blast
qed


text \<open>Whoever has lost a lease changes nothing: with another token, after the task left the
  leased state, or once the lease has run out, a heartbeat, a result and a failure are all
  refused as conflicts and leave the whole database as it was.\<close>

theorem stale_lease_inert:
  assumes "find_task i s = Some t"
    and "t_lease_token_hash t \<noteq> Some (sha256Hex E token) \<or> t_state t \<noteq> Leased \<or>
      (\<exists>x. t_lease_expires_at t = Some x \<and> x \<le> now E)"
  shows "heartbeatTask E i token progress s = (Inl Conflict, s) \<and>
     completeTask E (domains E paths ids) decode i token raw s = (Inl Conflict, s) \<and>
     failTask E (domains E paths ids) i token code retryable message retry_after rnd s = (Inl Conflict, s)"
  using stale_effects [OF lock_stale [OF assms]] by simp_all

theorem stale_lease_inert_witness:
  "completeTask sample_env sample_domains sample_decode ''task'' ''stolen'' (JObj []) (empty_db \<lparr> tasks := [sample_leased] \<rparr>)
     = (Inl Conflict, empty_db \<lparr> tasks := [sample_leased] \<rparr>)"
proof -
  have "find_task ''task'' (empty_db \<lparr> tasks := [sample_leased] \<rparr>) = Some sample_leased"
    and "t_lease_token_hash sample_leased \<noteq> Some (sha256Hex sample_env ''stolen'')"
    by (simp_all add: find_task_def sample_task_defs leased_row_def)
  from stale_lease_inert [OF this(1) disjI1 [OF this(2)]] show ?thesis by blast
qed

section \<open>Results and failures\<close>



lemma sample_leased_ok: "tasks_ok (empty_db \<lparr> tasks := [sample_leased] \<rparr>)"
  by (simp add: tasks_ok_def task_check_def sample_task_defs leased_row_def empty_db_def no_retry_task_types_def)


text \<open>A reported failure puts the task back into the queue only when the worker and the server
  agree that it can be retried, the task may be repeated and has attempts left, and then not
  before the backoff (or the longer wait a rate limit asks for) has passed; otherwise the
  task ends as failed, or as cancelled when that was asked for.\<close>

theorem failure_sound:
  assumes "tasks_ok s" and "0 \<le> rnd" and "rnd \<le> 1"
    and "failTask E (domains E paths ids) i token code retryable message retry_after rnd s = (Inr r, s')"
  shows "\<exists>t. holds_lease E i token s t \<and> find_task i s' = Some r \<and>
     (if t_state r = Queued
      then \<not> t_cancel_requested t \<and> retryable \<and> code \<in> set server_retryable_codes \<and>
           t_type t \<notin> set no_retry_task_types \<and> t_attempt r = t_attempt t \<and> t_attempt r < t_max_attempts r \<and>
           now E + 2000 \<le> t_run_after r \<and>
           (code = RateLimited \<longrightarrow> (\<forall>ms. retry_after = Some ms \<longrightarrow> now E + ms \<le> t_run_after r)) \<and>
           (code \<noteq> RateLimited \<longrightarrow> t_run_after r \<le> now E + 375000)
      else t_state r = (if t_cancel_requested t then TaskCancelled else TaskFailed))"
proof -
  have "failure_handled E i token code retryable message retry_after rnd s r s'"
    using wp_okD [OF api_queue.fail_wp [OF assms(1)] assms(4)] by simp
  then obtain t where t: "holds_lease E i token s t" "find_task i s' = Some r"
    and out: "if \<not> t_cancel_requested t \<and> isRetryableFailure (t_type t) code retryable (t_attempt t) (t_max_attempts t)
         then r = requeued_row E (failure_delay E t code retry_after rnd) code (truncateMessage message) t
         else t_state r = (if t_cancel_requested t then TaskCancelled else TaskFailed)"
    unfolding failure_handled_def by blast
  have low: "2000 \<le> backoffMs a rnd" and high: "backoffMs a rnd \<le> 375000" for a
    using backoff_lower [of a rnd] backoff_upper [OF assms(2,3)] by (simp_all add: backoff_base_ms_def)
  have wait: "2000 \<le> failure_delay E t code retry_after rnd"
    "code = RateLimited \<Longrightarrow> retry_after = Some ms \<Longrightarrow> ms \<le> failure_delay E t code retry_after rnd"
    "code \<noteq> RateLimited \<Longrightarrow> failure_delay E t code retry_after rnd \<le> 375000" for ms
    using low [of "t_attempt t"] high [of "t_attempt t"] by (auto simp: failure_delay_def Let_def split: option.split)
  show ?thesis
  proof (cases "\<not> t_cancel_requested t \<and> isRetryableFailure (t_type t) code retryable (t_attempt t) (t_max_attempts t)")
    case True
    with out have "r = requeued_row E (failure_delay E t code retry_after rnd) code (truncateMessage message) t" by simp
    with t True wait show ?thesis
      by (intro exI [of _ t])
         (auto simp: requeued_row_def with_error_def release_lease_def isRetryableFailure_def split: if_splits)
  next
    case False
    with out t show ?thesis by (intro exI [of _ t]) auto
  qed
qed

lemma sample_failure:
  "\<exists>r s'. failTask sample_env sample_domains ''task'' ''lease-1'' RateLimited True ''slow down'' (Some 60000) 0
     (empty_db \<lparr> tasks := [sample_leased] \<rparr>) = (Inr r, s') \<and> t_state r = Queued"
proof -
  have "wp (failTask sample_env sample_domains ''task'' ''lease-1'' RateLimited True ''slow down'' (Some 60000) 0)
     (\<lambda>r s'. t_state r = Queued) (\<lambda>_ _. False) (empty_db \<lparr> tasks := [sample_leased] \<rparr>)"
    by (simp add: failTask_def lockLeasedTask_def find_task_def sample_task_defs leased_row_def lease_ms_def
        lease_seconds_def isRetryableFailure_def server_retryable_codes_def no_retry_task_types_def
        requeued_row_def with_error_def release_lease_def Let_def)
  from wp_total [OF this] show ?thesis by auto
qed

theorem failure_sound_witness:
  "\<exists>r s'. failTask sample_env sample_domains ''task'' ''lease-1'' RateLimited True ''slow down'' (Some 60000) 0
       (empty_db \<lparr> tasks := [sample_leased] \<rparr>) = (Inr r, s') \<and>
     t_state r = Queued \<and> t_attempt r < t_max_attempts r \<and> sample_now + 60000 \<le> t_run_after r"
proof -
  obtain r s' where run: "failTask sample_env sample_domains ''task'' ''lease-1'' RateLimited True ''slow down'' (Some 60000) 0
       (empty_db \<lparr> tasks := [sample_leased] \<rparr>) = (Inr r, s')" "t_state r = Queued"
    using sample_failure by blast
  have "t_attempt r < t_max_attempts r \<and> now sample_env + 60000 \<le> t_run_after r"
    using failure_sound [OF sample_leased_ok _ _ run(1)] run(2) by (auto split: if_splits)
  then show ?thesis using run by (auto simp: sample_env_def)
qed



section \<open>The sweep and cancellation\<close>

text \<open>The sweep releases every expired lease it takes up: afterwards such a task is no longer
  leased, and a task whose type must never be repeated is not queued again either.  A sweep
  that fails changes nothing.\<close>

theorem sweep_releases:
  assumes "tasks_ok s"
  shows "case reclaimExpiredLeases E (domains E paths ids) rnd n s of
      (Inl e, s') \<Rightarrow> s' = s
    | (Inr out, s') \<Rightarrow> tasks_ok s' \<and>
        (\<forall>t \<in> set (take n (filter (expired_lease E) (tasks s))).
           \<exists>t'. find_task (t_id t) s' = Some t' \<and> t_state t' \<noteq> Leased \<and>
             (t_type t \<in> set no_retry_task_types \<longrightarrow> t_state t' \<noteq> Queued))"
  by (rule wp_cases [OF api_queue.reclaim_wp [OF assms]]) (simp_all add: swept_def)

theorem sweep_releases_witness:
  "case reclaimExpiredLeases (sample_env \<lparr> now := sample_now + 1000000 \<rparr>)
      (domains (sample_env \<lparr> now := sample_now + 1000000 \<rparr>) sample_paths sample_ids) (\<lambda>_. 0) 50
      (empty_db \<lparr> tasks := [sample_leased] \<rparr>) of
      (Inl e, s') \<Rightarrow> s' = empty_db \<lparr> tasks := [sample_leased] \<rparr>
    | (Inr out, s') \<Rightarrow> \<exists>t'. find_task ''task'' s' = Some t' \<and> t_state t' \<noteq> Leased"
proof -
  let ?E = "sample_env \<lparr> now := sample_now + 1000000 \<rparr>"
  have "take 50 (filter (expired_lease ?E) [sample_leased]) = [sample_leased]" and "t_id sample_leased = ''task''"
    by (simp_all add: expired_lease_def sample_task_defs leased_row_def lease_ms_def lease_seconds_def)
  then show ?thesis
    using sweep_releases [OF sample_leased_ok, where E = ?E and paths = sample_paths and ids = sample_ids
        and rnd = "\<lambda>_. 0" and n = 50]
    by (auto split: prod.splits sum.splits)
qed




end
