(* ===== verification/SessionProperties.thy ===== *)
theory SessionProperties
  imports Samples
begin

text \<open>
  What pairing, fill sessions, fill requests and replayed requests promise, each promise
  with a concrete instance.
\<close>

section \<open>Devices\<close>

text \<open>A pairing code works once: after an exchange succeeded, no later exchange with the same
  code succeeds, whatever device presents it and whatever token is drawn.\<close>

theorem pairing_single_use:
  assumes "devices_ok s"
    and "exchangeDevicePairing E protocol token b s = (Inr r, s')"
    and "sha256Hex E' = sha256Hex E" and "now E \<le> now E'"
    and "dx_pairing_code b' = dx_pairing_code b"
  shows "exchangeDevicePairing E' protocol' token' b' s' \<noteq> (Inr r', s'')"
proof
  assume again: "exchangeDevicePairing E' protocol' token' b' s' = (Inr r', s'')"
  have rows: "paired_devices s' = map (\<lambda>d. if exchangeable E (dx_pairing_code b) d
      then exchanged E token (dx_device_public_id b) d else d) (paired_devices s)"
    using exchange_ok [OF assms(2)] by blast
  have "list_all device_check (paired_devices s)" using assms(1) by (simp add: devices_ok_def)
  from not_exchangeable_later [OF this assms(3,4)] have "filter (exchangeable E' (dx_pairing_code b')) (paired_devices s') = []"
    by (simp add: rows assms(5))
  with exchange_ok [OF again] show False by simp
qed

definition sample_pending :: paired_device_row where
  "sample_pending = (sample_device Extension) \<lparr> d_pairing_code_hash := Some (sha256Hex sample_env ''ABCD-1234''),
     d_pairing_expires_at := Some (sample_now + 60000), d_pairing_consumed_at := None, d_token_hash := None,
     d_device_public_id := None, d_expires_at := None \<rparr>"

definition sample_exchange :: device_exchange_request where
  "sample_exchange = \<lparr> dx_pairing_code = ''ABCD-1234'', dx_device_public_id = ''pub'' \<rparr>"

definition sample_pairing_db :: db where
  "sample_pairing_db = empty_db \<lparr> paired_devices := [sample_pending] \<rparr>"

lemma sample_pairing_ok: "devices_ok sample_pairing_db"
  by (simp add: devices_ok_def device_check_def sample_pairing_db_def sample_pending_def sample_device_def)

lemma sample_pairs:
  "fst (exchangeDevicePairing sample_env (Some ''1.0'') ''a-device-token-of-thirty-two-chars'' sample_exchange sample_pairing_db) =
     Inr (''device'', ''a-device-token-of-thirty-two-chars'', sample_now + device_token_ttl_ms, [''https://jobs.example''])"
  by code_simp

theorem pairing_single_use_witness:
  "\<exists>r s'. exchangeDevicePairing sample_env (Some ''1.0'') ''a-device-token-of-thirty-two-chars'' sample_exchange
       sample_pairing_db = (Inr r, s') \<and>
     exchangeDevicePairing sample_env (Some ''1.0'') ''another-token-of-thirty-two-chars'' sample_exchange s' \<noteq> (Inr r, s')"
proof -
  obtain r s' where run: "exchangeDevicePairing sample_env (Some ''1.0'') ''a-device-token-of-thirty-two-chars'' sample_exchange
       sample_pairing_db = (Inr r, s')"
    using sample_pairs by (metis prod.collapse)
  from pairing_single_use [OF sample_pairing_ok run refl order_refl refl] run show ?thesis by blast
qed

text \<open>A revoked device is shut out at once: no token authenticates it any more, and every fill
  session it still held open has ended.\<close>

theorem revoked_locked_out:
  assumes "revokeDevice E ws user i s = (Inr u, s')"
  shows "authenticateDevice E' header s' \<noteq> (Inr (Some (DevicePrincipal i ws)), s'') \<and>
     (\<forall>r \<in> set (fill_sessions s'). fs_workspace_id r = ws \<longrightarrow> fs_device_id r = i \<longrightarrow> fs_ended_at r \<noteq> None)"
proof -
  have devices: "paired_devices s' = scoped_update d_workspace_id ws (\<lambda>d. d_id d = i) (revoked E) (paired_devices s)"
    and sessions: "fill_sessions s' = scoped_update fs_workspace_id ws
        (\<lambda>r. fs_device_id r = i \<and> fs_ended_at r = None) (end_session E EndDeviceRevoked) (fill_sessions s)"
    using revoke_ok [OF assms] by simp_all
  have "authenticateDevice E' header s' \<noteq> (Inr (Some (DevicePrincipal i ws)), s'')"
  proof
    assume "authenticateDevice E' header s' = (Inr (Some (DevicePrincipal i ws)), s'')"
    from authenticateDevice_ok [OF this] obtain d raw where "resolveDeviceToken E' (trim raw) s' = Some d"
      and d: "d_id d = i" "d_workspace_id d = ws" by auto
    then have "d \<in> set (paired_devices s')" and token: "d_token_hash d \<noteq> None"
      using resolveDeviceToken_Some by blast+
    then obtain q where "d = (if d_workspace_id q = ws \<and> d_id q = i then revoked E q else q)"
      unfolding devices by (elim scoped_updateE)
    with d token show False by (auto simp: revoked_def split: if_splits)
  qed
  moreover have "fs_ended_at r \<noteq> None" if "r \<in> set (fill_sessions s')" "fs_workspace_id r = ws" "fs_device_id r = i" for r
    using that unfolding sessions by (elim scoped_updateE) (auto simp: end_session_def split: if_splits)
  ultimately show ?thesis by blast
qed

lemma sample_revokes:
  "fst (revokeDevice sample_env ''ws'' ''user'' ''device'' (sample_db Filling sample_approved Extension \<lparr> fill_sessions := [sample_session] \<rparr>))
     = Inr ()"
  by code_simp

theorem revoked_locked_out_witness:
  "\<exists>s'. revokeDevice sample_env ''ws'' ''user'' ''device''
       (sample_db Filling sample_approved Extension \<lparr> fill_sessions := [sample_session] \<rparr>) = (Inr (), s') \<and>
     authenticateDevice sample_env (Some ''device-token'') s' \<noteq> (Inr (Some (DevicePrincipal ''device'' ''ws'')), s')"
proof -
  obtain s' where run: "revokeDevice sample_env ''ws'' ''user'' ''device''
       (sample_db Filling sample_approved Extension \<lparr> fill_sessions := [sample_session] \<rparr>) = (Inr (), s')"
    using sample_revokes by (metis prod.collapse)
  from revoked_locked_out [OF run] run show ?thesis by blast
qed

section \<open>Fill sessions\<close>

text \<open>C2: A fill session is only granted to a paired extension, for an approved application whose
  current packet is the one named by its content hash, is not stale and has no open
  question, at the packet's own destination origin, which the device may visit; no other
  live session of the application exists, the session expires within ten minutes, and the
  application is being filled from then on.\<close>

theorem fill_session_granted:
  assumes "db_ok sha s"
    and "createFillSession E protocol (Some (DevicePrincipal device ws)) new_id nonce b s = (Inr g, s')"
  shows "\<exists>app p d job r.
     find_application ws (cs_application_id b) s = Some app \<and> may_fill E ws s app p job \<and>
     p_content_hash p = cs_content_hash b \<and> find_device ws device s = Some d \<and> d_kind d = Extension \<and>
     normalizeOrigin E (cs_origin b) = Inr (p_destination_origin p) \<and> devicePermitsOrigin d (p_destination_origin p) \<and>
     (\<forall>q \<in> set (fill_sessions s). live_session ws (a_id app) q \<longrightarrow> fs_expires_at q \<le> now E) \<and>
     find_session ws new_id s' = Some r \<and> fs_device_id r = d_id d \<and> fs_nonce_hash r = sha256Hex E nonce \<and>
     fs_packet_id r = p_id p \<and> fs_expires_at r = now E + 600000 \<and> gr_session_id g = new_id \<and> gr_nonce g = nonce \<and>
     (\<exists>app'. find_application ws (a_id app) s' = Some app' \<and> a_status app' = Filling)"
proof -
  have "session_granted E ws device new_id nonce b s g s'"
    using wp_okD [OF create_session_wp [OF assms(1)] assms(2)] by simp
  then show ?thesis
    unfolding session_granted_def Let_def session_opened_def
    by (fastforce simp: new_session_def session_grant_def fill_session_ttl_seconds_def patch_application_def no_options_def)
qed

definition sample_session_request :: create_fill_session_request where
  "sample_session_request = \<lparr> cs_application_id = ''app'', cs_origin = ''https://jobs.example/apply'',
     cs_content_hash = p_content_hash sample_approved \<rparr>"

lemma sample_grants:
  "case createFillSession sample_env (Some ''1.0'') (Some (DevicePrincipal ''device'' ''ws'')) ''fs'' ''nonce'' sample_session_request
     (sample_db Approved sample_approved Extension) of (Inr g, s') \<Rightarrow> gr_session_id g = ''fs'' | _ \<Rightarrow> False"
  by code_simp

theorem fill_session_granted_witness:
  "\<exists>g s' app'. createFillSession sample_env (Some ''1.0'') (Some (DevicePrincipal ''device'' ''ws'')) ''fs'' ''nonce''
       sample_session_request (sample_db Approved sample_approved Extension) = (Inr g, s') \<and>
     find_application ''ws'' ''app'' s' = Some app' \<and> a_status app' = Filling"
proof -
  obtain g s' where run: "createFillSession sample_env (Some ''1.0'') (Some (DevicePrincipal ''device'' ''ws'')) ''fs'' ''nonce''
       sample_session_request (sample_db Approved sample_approved Extension) = (Inr g, s')"
    using sample_grants by (auto split: prod.splits sum.splits)
  have "find_application ''ws'' ''app'' (sample_db Approved sample_approved Extension) = Some (sample_application Approved)"
    and "a_id (sample_application Approved) = ''app''"
    by (simp_all add: find_application_def sample_db_def sample_application_def scoped_find_def)
  with fill_session_granted [OF sample_db_ok [OF disjI2 [OF refl]] run] run show ?thesis
    by (auto simp: sample_session_request_def)
qed

text \<open>C10: A report ends its session and is taken once: it comes from the device that holds the
  session, with the session's nonce, while the session is active and from a page of its
  origin; it moves the application to the status its outcome names, changes no packet, and
  every later report for the session is refused.\<close>

theorem session_reported_once:
  assumes "db_ok sha s"
    and "reportFillSession E protocol (Some (DevicePrincipal device ws)) nonce i b s = (Inr r', s')"
  shows "\<exists>r n app app'. find_session ws i s = Some r \<and> fs_device_id r = device \<and> fillSessionState r (now E) = SessionActive \<and>
     nonce = Some n \<and> sha256Hex E (trim n) = fs_nonce_hash r \<and>
     (\<forall>u. rf_page_url b = Some u \<longrightarrow> normalizeOrigin E u = Inr (fs_origin r)) \<and>
     find_application ws (fs_application_id r) s = Some app \<and>
     isAllowedApplicationTransition (a_status app) (pause_status (rf_outcome b)) \<and>
     find_application ws (a_id app) s' = Some app' \<and> a_status app' = pause_status (rf_outcome b) \<and>
     application_packets s' = application_packets s \<and>
     (\<forall>E' protocol' nonce' b' out s''.
        reportFillSession E' protocol' (Some (DevicePrincipal device ws)) nonce' i b' s' \<noteq> (Inr out, s''))"
proof -
  have ok: "db_ok sha s'" and one: "session_reported E ws device nonce i b s r' s'"
    using wp_okD [OF report_session_wp [OF assms(1)] assms(2)] by simp_all
  from one obtain r where "r' = report_session E r" "find_session ws i s' = Some r'"
    unfolding session_reported_def by blast
  then have "fillSessionState q t \<noteq> SessionActive" if "find_session ws i s' = Some q" for q t
    using that by (simp add: fillSessionState_def report_session_def end_session_def)
  then have "reportFillSession E' protocol' (Some (DevicePrincipal device ws)) nonce' i b' s' \<noteq> (Inr out, s'')"
    for E' protocol' nonce' b' out s''
    using wp_okD [OF report_session_wp [OF ok, of E' protocol' device ws nonce' i b']] by (auto simp: session_reported_def)
  with one show ?thesis
    unfolding session_reported_def by (fastforce simp: patch_application_def no_options_def)
qed

definition sample_report :: report_fill_session_request where
  "sample_report = \<lparr> rf_filled_fields = [], rf_unresolved_fields = [], rf_page_url = Some ''https://jobs.example/apply'',
     rf_form_fingerprint = None, rf_outcome = FillAwaitingUserSubmit, rf_adapter = None, rf_adapter_version = None \<rparr>"

definition sample_filling :: db where
  "sample_filling = sample_db Filling sample_approved Extension \<lparr> fill_sessions := [sample_session] \<rparr>"

lemma sample_filling_ok: "db_ok (sha256Hex sample_env) sample_filling"
  using sample_db_ok [OF disjI2 [OF refl], of Filling Extension] by (simp add: sample_filling_def)

lemma sample_reports:
  "case reportFillSession sample_env (Some ''1.0'') (Some (DevicePrincipal ''device'' ''ws'')) (Some ''nonce'') ''session'' sample_report
     sample_filling of (Inr r, s') \<Rightarrow> True | _ \<Rightarrow> False"
  by code_simp

theorem session_reported_once_witness:
  "\<exists>r s'. reportFillSession sample_env (Some ''1.0'') (Some (DevicePrincipal ''device'' ''ws'')) (Some ''nonce'') ''session''
       sample_report sample_filling = (Inr r, s') \<and>
     reportFillSession sample_env (Some ''1.0'') (Some (DevicePrincipal ''device'' ''ws'')) (Some ''nonce'') ''session''
       sample_report s' \<noteq> (Inr r, s')"
proof -
  obtain r s' where run: "reportFillSession sample_env (Some ''1.0'') (Some (DevicePrincipal ''device'' ''ws'')) (Some ''nonce'')
       ''session'' sample_report sample_filling = (Inr r, s')"
    using sample_reports by (auto split: prod.splits sum.splits)
  from session_reported_once [OF sample_filling_ok run] run show ?thesis by blast
qed

section \<open>Fill requests\<close>

text \<open>A fill task is only started for the approved, current and fresh packet the request names,
  at the revision the caller read, on a paired local runner that may visit the packet's
  destination, while no other fill runs and the daily limit is not used up; the task
  carries that packet, at most one attempt and nothing beyond the packet's own origin.
  The only other successful answer is the stored reply to the same request.\<close>

theorem fill_started_soundly:
  assumes "db_ok sha s"
    and "fillApplication E ws user new_id header body app_id b s = (Inr out, s')"
  shows "(\<exists>app p d job file. find_application ws app_id s = Some app \<and> a_revision app = fq_expected_revision b \<and>
       may_fill E ws s app p job \<and> p_id p = fq_packet_id b \<and>
       find_device ws (fq_device_id b) s = Some d \<and> d_kind d = LocalRunner \<and> deviceStatus d (now E) = DevicePaired \<and>
       (d_allowed_origins d = [] \<or> p_destination_origin p \<in> set (d_allowed_origins d)) \<and>
       \<not> has_live_task ws [FillLocal] s \<and>
       fills_today E ws s < fill_attempts_per_day (limits (stored_preferences ws s)) \<and>
       tasks s' = insert_row (new_task E ws new_id
         (fill_task (fill_payload app p d [p_destination_origin p] job file) file)) (tasks s) \<and>
       application_packets s' = application_packets s \<and>
       (\<exists>app'. find_application ws (a_id app) s' = Some app' \<and> a_status app' = Filling) \<and> out = accepted new_id) \<or>
     replayed header ''POST /applications/:id/fill'' ws out s"
proof -
  have "fill_post E ws new_id app_id b s s' \<and> out = accepted new_id \<or>
      replayed header ''POST /applications/:id/fill'' ws out s"
    using wp_okD [OF fill_wp [OF assms(1)] assms(2)] by simp
  then show ?thesis
    unfolding fill_post_def fill_granted_def task_started_def
    by (elim disjE exE conjE) (fastforce simp: may_fill_def patch_application_def no_options_def)+
qed

definition sample_fill_request :: fill_application_request where
  "sample_fill_request = \<lparr> fq_expected_revision = 3, fq_packet_id = ''packet'', fq_device_id = ''device'' \<rparr>"

lemma sample_fill_starts:
  "fst (fillApplication sample_env ''ws'' ''user'' ''t1'' (Some ''0123456789abcdef'') JNull ''app'' sample_fill_request
     (sample_db Approved sample_approved LocalRunner)) = Inr (accepted ''t1'')"
  by code_simp

theorem fill_started_soundly_witness:
  "\<exists>s'. fillApplication sample_env ''ws'' ''user'' ''t1'' (Some ''0123456789abcdef'') JNull ''app'' sample_fill_request
       (sample_db Approved sample_approved LocalRunner) = (Inr (accepted ''t1''), s') \<and>
     (\<exists>t \<in> set (tasks s'). t_type t = FillLocal \<and> t_max_attempts t = 1)"
proof -
  obtain s' where run: "fillApplication sample_env ''ws'' ''user'' ''t1'' (Some ''0123456789abcdef'') JNull ''app'' sample_fill_request
       (sample_db Approved sample_approved LocalRunner) = (Inr (accepted ''t1''), s')"
    using sample_fill_starts by (metis prod.collapse)
  have "\<not> replayed (Some ''0123456789abcdef'') ''POST /applications/:id/fill'' ''ws'' out (sample_db Approved sample_approved LocalRunner)" for out
    by (simp add: replayed_def find_replay_def scoped_find_def sample_db_def empty_db_def)
  with fill_started_soundly [OF sample_db_ok [OF disjI2 [OF refl]] run]
  have "\<exists>i. tasks s' = insert_row (new_task sample_env ''ws'' ''t1'' i) (tasks (sample_db Approved sample_approved LocalRunner)) \<and>
      en_type i = FillLocal \<and> en_max_attempts i = 1"
    by (auto simp: fill_task_def)
  with run show ?thesis by (force simp: new_task_def)
qed

section \<open>Replayed requests\<close>

text \<open>C26: A request is carried out once per idempotency key: after it succeeded, the same request
  within the retention time gets the same answer and changes nothing, and another request
  body under the same key is refused without any effect.\<close>

theorem replay_exact:
  assumes "readIdempotencyKey header = Inr key" and "find_replay ws route key s = None"
    and "withIdempotency E ws header body route h s = (Inr out, s')"
    and "sha256Hex E' = sha256Hex E" and "now E' < now E + idempotency_ttl_ms"
  shows "withIdempotency E' ws header body route h' s' = (Inr out, s') \<and>
     (hashRequestBody (sha256Hex E) other \<noteq> hashRequestBody (sha256Hex E) body \<longrightarrow>
        withIdempotency E' ws header other route h' s' = (Inl IdempotencyMismatch, s'))"
proof -
  obtain t where "s' = store_replay E ws route key (hashRequestBody (sha256Hex E) body) out t"
    using assms(1-3) by (auto simp: withIdempotency_def Let_def andThen_ok)
  then have stored: "find_replay ws route key s' =
      Some (replay_row E ws route key (hashRequestBody (sha256Hex E) body) out)"
    by (simp add: find_replay_store)
  then show ?thesis
    using assms(1,4,5)
    by (auto simp: withIdempotency_def andThen_def throw_if_apply replay_row_def Let_def)
qed

lemma sample_first:
  "fst (withIdempotency sample_env ''ws'' (Some ''0123456789abcdef'') JNull ''POST /x'' (ret (accepted ''t'')) empty_db) = Inr (accepted ''t'')"
  by code_simp

theorem replay_exact_witness:
  "\<exists>s'. withIdempotency sample_env ''ws'' (Some ''0123456789abcdef'') JNull ''POST /x'' (ret (accepted ''t'')) empty_db = (Inr (accepted ''t''), s') \<and>
     withIdempotency sample_env ''ws'' (Some ''0123456789abcdef'') JNull ''POST /x'' (fail Conflict) s' = (Inr (accepted ''t''), s') \<and>
     withIdempotency sample_env ''ws'' (Some ''0123456789abcdef'') (JBool True) ''POST /x'' (fail Conflict) s' = (Inl IdempotencyMismatch, s')"
proof -
  obtain s' where run: "withIdempotency sample_env ''ws'' (Some ''0123456789abcdef'') JNull ''POST /x'' (ret (accepted ''t'')) empty_db = (Inr (accepted ''t''), s')"
    using sample_first by (metis prod.collapse)
  have key: "readIdempotencyKey (Some ''0123456789abcdef'') = Inr ''0123456789abcdef''" by code_simp
  have none: "find_replay ''ws'' ''POST /x'' ''0123456789abcdef'' empty_db = None" by code_simp
  have other: "hashRequestBody (sha256Hex sample_env) (JBool True) \<noteq> hashRequestBody (sha256Hex sample_env) JNull" by code_simp
  have ttl: "now sample_env < now sample_env + idempotency_ttl_ms" by code_simp
  from replay_exact [OF key none run refl ttl, of "fail Conflict" "JBool True"] run other show ?thesis by blast
qed

end
