(* ===== verification/DiscoveryProperties.thy ===== *)
theory DiscoveryProperties
  imports Dispatch Samples
begin

text \<open>
  What discovery promises: a posting never overrules the person, a job is only closed by
  the absence that every enabled board agrees on, a board that refuses is left alone, and
  the listing shows every job exactly once.
\<close>

section \<open>Identity\<close>

text \<open>Two postings of boards get the same canonical key exactly when they are the same
  requisition of the same board of the same connector, and no posting of a page or of a
  pasted text ever gets the key of a board's posting.  A board key has no colon.\<close>

theorem canonical_key_binds:
  assumes "isBoardConnector (og_connector o1)" and "og_board_key o1 = Some b1" and "CHR '':'' \<notin> set b1"
    and "\<And>b2. og_board_key o2 = Some b2 \<Longrightarrow> CHR '':'' \<notin> set b2"
  shows "canonicalKeyFor E j1 o1 = canonicalKeyFor E j2 o2 \<longleftrightarrow>
     og_connector o2 = og_connector o1 \<and> og_board_key o2 = Some b1 \<and> nj_external_id j1 = nj_external_id j2"
proof -
  have kind: "connector_text (og_connector o1) \<in> {''greenhouse'', ''lever''}"
    using assms(1) by (auto simp: isBoardConnector_def board_connector_ids_def)
  have key1: "canonicalKeyFor E j1 o1 = connector_text (og_connector o1) @ '':'' @ b1 @ '':'' @ nj_external_id j1"
    using assms by (simp add: canonicalKeyFor_def)
  show ?thesis
  proof (cases "isBoardConnector (og_connector o2) \<and> og_board_key o2 \<noteq> None")
    case True
    then obtain b2 where b2: "og_board_key o2 = Some b2" by blast
    then show ?thesis
      using canonicalKeyFor_board [OF assms(1) conjunct1 [OF True] assms(2) b2 assms(3) assms(4) [OF b2], of E j1 j2] by auto
  next
    case False
    then have "\<exists>x. canonicalKeyFor E j2 o2 = ''url:'' @ x \<or> canonicalKeyFor E j2 o2 = ''manual:'' @ x"
      unfolding canonicalKeyFor_def Let_def by (auto split: option.split)
    then show ?thesis unfolding key1 using kind False assms(1) by auto
  qed
qed

section \<open>Seeing a posting\<close>

text \<open>A posting that is seen again updates the one job it belongs to and no other: the fields
  a person corrected and a job a person closed stay as they are, another identity of the
  job never rewrites its content or its revision, the job's own identity does so exactly
  when the content changed, and the posting's provenance row points to the job with its
  absences forgotten.\<close>

theorem seen_posting_respects_user:
  assumes "jobs_ok s" and "findExistingJob E ws job (canonicalKeyFor E job og) og s = Some (j, why)"
    and "upsertNormalizedJob E ws new_id prov_id job og t s = (Inr out, s')"
  shows "\<exists>j'. find_job ws (j_id j) s' = Some j' \<and>
     (j_title_edited_at j \<noteq> None \<longrightarrow> j_title j' = j_title j) \<and>
     (j_company_edited_at j \<noteq> None \<longrightarrow> j_company j' = j_company j) \<and>
     (j_closed_reason j = Some ClosedByUser \<longrightarrow> j_status j' = j_status j \<and> j_closed_at j' = j_closed_at j) \<and>
     (j_canonical_key j = canonicalKeyFor E job og \<and> j_content_hash j \<noteq> nj_content_hash job
        \<longrightarrow> j_revision j' = j_revision j + 1 \<and> j_content_hash j' = nj_content_hash job) \<and>
     (\<not> (j_canonical_key j = canonicalKeyFor E job og \<and> j_content_hash j \<noteq> nj_content_hash job)
        \<longrightarrow> j_revision j' = j_revision j \<and> j_content_hash j' = j_content_hash j \<and> j_title j' = j_title j \<and>
            j_company j' = j_company j \<and> j_description_text j' = j_description_text j) \<and>
     j_saved j' = j_saved j \<and> j_last_seen_at j \<le> j_last_seen_at j' \<and> t \<le> j_last_seen_at j' \<and>
     (\<forall>w i. i \<noteq> j_id j \<longrightarrow> find_job w i s' = find_job w i s) \<and>
     (\<exists>q. by_source_key ws (nj_source_key job) s' = Some q \<and> js_job_id q = j_id j \<and> js_missing_snapshots q = 0)"
proof -
  have post: "upsert_post E ws new_id job og t s out s'"
    using wp_okD [OF upsert_wp [OF assms(1)] assms(3)] by simp
  let ?j = "seen_job E (canonicalKeyFor E job og) job t j j"
  have "find_job ws (j_id j) s' = Some ?j" and id: "uo_job_id out = j_id j"
    using post assms(2) by (simp_all add: upsert_post_def Let_def)
  moreover have "(j_title_edited_at j \<noteq> None \<longrightarrow> j_title ?j = j_title j) \<and>
     (j_company_edited_at j \<noteq> None \<longrightarrow> j_company ?j = j_company j) \<and>
     (j_closed_reason j = Some ClosedByUser \<longrightarrow> j_status ?j = j_status j \<and> j_closed_at ?j = j_closed_at j)"
    by (simp add: seen_job_def sourceContent_def reopens_def Let_def)
  moreover have "(j_canonical_key j = canonicalKeyFor E job og \<and> j_content_hash j \<noteq> nj_content_hash job
        \<longrightarrow> j_revision ?j = j_revision j + 1 \<and> j_content_hash ?j = nj_content_hash job) \<and>
     (\<not> (j_canonical_key j = canonicalKeyFor E job og \<and> j_content_hash j \<noteq> nj_content_hash job)
        \<longrightarrow> j_revision ?j = j_revision j \<and> j_content_hash ?j = j_content_hash j \<and> j_title ?j = j_title j \<and>
            j_company ?j = j_company j \<and> j_description_text ?j = j_description_text j)"
    by (simp add: seen_job_def sourceContent_def rewrites_content_def Let_def)
  moreover have "j_saved ?j = j_saved j \<and> j_last_seen_at j \<le> j_last_seen_at ?j \<and> t \<le> j_last_seen_at ?j"
    by (simp add: seen_job_def sourceContent_def Let_def)
  moreover have "(\<forall>w i. i \<noteq> j_id j \<longrightarrow> find_job w i s' = find_job w i s) \<and>
     (\<exists>q. by_source_key ws (nj_source_key job) s' = Some q \<and> js_job_id q = j_id j \<and> js_missing_snapshots q = 0)"
    using post unfolding upsert_post_def Let_def id by blast
  ultimately show ?thesis by blast
qed

definition sample_origin :: job_origin where
  "sample_origin = \<lparr> og_connector = Greenhouse, og_source_id = Some ''src'', og_board_key = Some ''board'' \<rparr>"

definition sample_edited_job :: job_row where
  "sample_edited_job = sample_job \<lparr> j_title := ''My title'', j_title_edited_at := Some 3 \<rparr>"

definition sample_edited_db :: db where
  "sample_edited_db = empty_db \<lparr> jobs := [sample_edited_job] \<rparr>"

lemma sample_edited_ok: "jobs_ok sample_edited_db"
  by (simp add: jobs_ok_def sample_edited_db_def sample_edited_job_def sample_job_def job_check_def empty_db_def)

lemma sample_sees:
  "findExistingJob sample_env ''ws'' sample_posting (canonicalKeyFor sample_env sample_posting sample_origin) sample_origin
     sample_edited_db = Some (sample_edited_job, SameCanonicalKey)"
  "case upsertNormalizedJob sample_env ''ws'' ''n'' ''p'' sample_posting sample_origin 9 sample_edited_db of
     (Inr out, s') \<Rightarrow> True | _ \<Rightarrow> False"
  by code_simp+

theorem seen_posting_respects_user_witness:
  "\<exists>out s' j'. upsertNormalizedJob sample_env ''ws'' ''n'' ''p'' sample_posting sample_origin 9 sample_edited_db = (Inr out, s') \<and>
     find_job ''ws'' ''job'' s' = Some j' \<and> j_title j' = ''My title'' \<and> j_revision j' = 2"
proof -
  obtain out s' where run: "upsertNormalizedJob sample_env ''ws'' ''n'' ''p'' sample_posting sample_origin 9 sample_edited_db = (Inr out, s')"
    using sample_sees(2) by (auto split: prod.splits sum.splits)
  have key: "j_canonical_key sample_edited_job = canonicalKeyFor sample_env sample_posting sample_origin"
    by code_simp
  from seen_posting_respects_user [OF sample_edited_ok sample_sees(1) run] key run show ?thesis
    by (auto simp: sample_edited_job_def sample_job_def sample_posting_def)
qed

section \<open>Closing jobs\<close>

text \<open>C11: Applying a board's answer closes a job only on the strength of a complete snapshot the
  board did not refuse, and only when every enabled board that ever listed the job has
  missed it in at least two complete snapshots far enough apart; whether the task succeeds
  or fails, jobs, provenance, scans and sources stay well formed.\<close>

theorem closed_only_when_gone:
  assumes "discovery_ok s" and "applyFetchBoardResult E ids task r s = (res, s')"
  shows "discovery_ok s' \<and>
     (\<forall>w i j. find_job w i s' = Some j \<and> j_status j = JobClosed \<longrightarrow>
        (\<exists>j0. find_job w i s = Some j0 \<and> j_status j0 = JobClosed) \<or>
        fb_complete_snapshot r \<and> denialFrom r = None \<and> votes_of w i s' \<noteq> [] \<and>
        (\<forall>v \<in> set (votes_of w i s'). missing_complete_snapshots_to_close \<le> js_missing_snapshots v \<and>
           (\<exists>since til. js_missing_since v = Some since \<and> js_last_missing_at v = Some til \<and>
              of_int min_hours_between_snapshots \<le> hoursBetween since til)))"
proof -
  have post: "discovery_ok s' \<and> closes_soundly r s s'"
    using fetch_board_result_wp [OF assms(1), of E ids task r] assms(2)
    by (cases res) (auto dest: wp_okD wp_errD)
  then have closed: "closed_in w i s' \<Longrightarrow> closed_in w i s \<or> (fb_complete_snapshot r \<and> denialFrom r = None \<and> gone_votes w i s')" for w i
    unfolding closes_soundly_def by blast
  have "missing_complete_snapshots_to_close \<le> js_missing_snapshots v \<and>
      (\<exists>since til. js_missing_since v = Some since \<and> js_last_missing_at v = Some til \<and>
        of_int min_hours_between_snapshots \<le> hoursBetween since til)" if "vote_gone v" for v
    using that by (auto simp: vote_gone_def split: option.splits)
  then have "gone_votes w i s' \<Longrightarrow> votes_of w i s' \<noteq> [] \<and>
        (\<forall>v \<in> set (votes_of w i s'). missing_complete_snapshots_to_close \<le> js_missing_snapshots v \<and>
           (\<exists>since til. js_missing_since v = Some since \<and> js_last_missing_at v = Some til \<and>
              of_int min_hours_between_snapshots \<le> hoursBetween since til))" for w i
    by (auto simp: gone_votes_def list_all_iff)
  with closed have "closed_in w i s' \<Longrightarrow> closed_in w i s \<or> fb_complete_snapshot r \<and> denialFrom r = None \<and> votes_of w i s' \<noteq> [] \<and>
        (\<forall>v \<in> set (votes_of w i s'). missing_complete_snapshots_to_close \<le> js_missing_snapshots v \<and>
           (\<exists>since til. js_missing_since v = Some since \<and> js_last_missing_at v = Some til \<and>
              of_int min_hours_between_snapshots \<le> hoursBetween since til))" for w i
    by blast
  with post show ?thesis unfolding closed_in_def by blast
qed

definition sample_source :: source_row where
  "sample_source = new_source sample_env ''ws'' ''src'' Greenhouse ''board'' None"

definition sample_scan :: scan_row where
  "sample_scan = (new_scan sample_env ''ws'' ''scan'' ''src'') \<lparr> sn_task_id := Some ''task'' \<rparr>"

definition sample_missed :: job_source_row where
  "sample_missed = sample_job_source \<lparr> js_source_id := Some ''src'', js_missing_snapshots := 1, js_missing_since := Some 0,
     js_last_missing_at := Some 0 \<rparr>"

definition sample_board_db :: db where
  "sample_board_db = empty_db \<lparr> jobs := [sample_job], job_sources := [sample_missed], sources := [sample_source],
     scans := [sample_scan], tasks := [sample_task FetchBoard] \<rparr>"

definition sample_snapshot :: fetch_board_result where
  "sample_snapshot = \<lparr> fb_jobs = [], fb_complete_snapshot = True, fb_next_cursor = None, fb_pages_fetched = 1, fb_etag = None,
     fb_last_modified = None, fb_state = HealthOk, fb_http_status = Some 200, fb_retry_after_seconds = None, fb_warnings = [],
     fb_fetched_at = sample_now \<rparr>"

lemma sample_board_ok: "discovery_ok sample_board_db"
proof -
  have "jobs_ok sample_board_db"
    by (simp add: jobs_ok_def sample_board_db_def sample_missed_def sample_job_def sample_job_source_def job_check_def
        provenance_check_def empty_db_def find_job_def scoped_find_def)
  moreover have "scans_ok sample_board_db"
    by (simp add: scans_ok_def sample_board_db_def)
  moreover have "sources_ok sample_board_db"
    using check_new [of sample_env "''ws''" "''src''" Greenhouse "''board''" None]
    by (simp add: sources_ok_def sample_board_db_def sample_source_def)
  ultimately show ?thesis by (simp add: discovery_ok_def)
qed

lemma sample_closes:
  "case applyFetchBoardResult sample_env (\<lambda>_. (''n'', ''p'')) (sample_task FetchBoard) sample_snapshot sample_board_db of
     (Inr u, s') \<Rightarrow> map j_status (jobs s') = [JobClosed] | _ \<Rightarrow> False"
  by code_simp

theorem closed_only_when_gone_witness:
  "\<exists>s' j v. applyFetchBoardResult sample_env (\<lambda>_. (''n'', ''p'')) (sample_task FetchBoard) sample_snapshot sample_board_db = (Inr (), s') \<and>
     j \<in> set (jobs s') \<and> j_status j = JobClosed \<and> v \<in> set (votes_of ''ws'' ''job'' s') \<and>
     missing_complete_snapshots_to_close \<le> js_missing_snapshots v"
proof -
  obtain s' where run: "applyFetchBoardResult sample_env (\<lambda>_. (''n'', ''p'')) (sample_task FetchBoard) sample_snapshot sample_board_db
      = (Inr (), s')" and closed: "map j_status (jobs s') = [JobClosed]"
    using sample_closes by (auto split: prod.splits sum.splits)
  have "map (\<lambda>j. (j_workspace_id j, j_id j)) (jobs (snd (applyFetchBoardResult sample_env (\<lambda>_. (''n'', ''p'')) (sample_task FetchBoard)
      sample_snapshot sample_board_db))) = [(''ws'', ''job'')]" by code_simp
  with run closed obtain j where j: "jobs s' = [j]" "j_status j = JobClosed" "j_workspace_id j = ''ws''" "j_id j = ''job''"
    by (auto simp: map_eq_Cons_conv)
  then have "find_job ''ws'' ''job'' s' = Some j" by (simp add: find_job_def scoped_find_def)
  moreover have "find_job ''ws'' ''job'' sample_board_db = Some sample_job" "j_status sample_job \<noteq> JobClosed"
    by (simp_all add: find_job_def scoped_find_def sample_board_db_def sample_job_def)
  moreover have sound: "\<forall>w i j. find_job w i s' = Some j \<and> j_status j = JobClosed \<longrightarrow>
        (\<exists>j0. find_job w i sample_board_db = Some j0 \<and> j_status j0 = JobClosed) \<or>
        votes_of w i s' \<noteq> [] \<and> (\<forall>v \<in> set (votes_of w i s'). missing_complete_snapshots_to_close \<le> js_missing_snapshots v)"
    using closed_only_when_gone [OF sample_board_ok run] by fast
  ultimately have "votes_of ''ws'' ''job'' s' \<noteq> [] \<and>
      (\<forall>v \<in> set (votes_of ''ws'' ''job'' s'). missing_complete_snapshots_to_close \<le> js_missing_snapshots v)"
    using j(2) sound [THEN spec [of _ "''ws''"], THEN spec [of _ "''job''"]] by auto
  then obtain v where "v \<in> set (votes_of ''ws'' ''job'' s')" "missing_complete_snapshots_to_close \<le> js_missing_snapshots v"
    by (meson last_in_set)
  with run j show ?thesis by auto
qed

section \<open>Boards that refuse\<close>

text \<open>A refused or failed fetch never brings the next scan forward, waits at least as long as
  the board asked for, and blocks the source exactly at the third refusal in a row; a
  blocked source is not scanned again.\<close>

theorem refusal_recorded:
  assumes "sources_ok s" and "find_source ws (so_id row) s = Some row"
  shows "\<exists>r s'. recordSourceFailure E ws row ob s = (Inr (), s') \<and> find_source ws (so_id row) s' = Some r \<and>
     (so_health_state r = HealthBlocked \<longleftrightarrow> 3 \<le> so_consecutive_denials r) \<and>
     so_consecutive_denials r = (if fo_code ob \<in> set denial_codes then so_consecutive_denials row + 1 else 0) \<and>
     (\<forall>t. so_next_scan_after row = Some t \<longrightarrow> (\<exists>u. so_next_scan_after r = Some u \<and> t \<le> u)) \<and>
     (\<forall>n. fo_retry_after_seconds ob = Some n \<longrightarrow> (\<exists>u. so_next_scan_after r = Some u \<and> fo_at ob + n * 1000 \<le> u)) \<and>
     (so_health_state r = HealthBlocked \<longrightarrow>
        startScan E' ws rnd scan_id task_id r key s' = (Inl Unprocessable, s'))"
proof -
  let ?r = "failed_source E row ob row"
  let ?s = "sources_update (scoped_update so_workspace_id ws (\<lambda>r. so_id r = so_id row) (failed_source E row ob)) s"
  have run: "recordSourceFailure E ws row ob s = (Inr (), ?s)"
    by (simp add: recordSourceFailure_def update_source_def)
  have "find_source ws (so_id row) ?s = Some ?r"
    using assms(2) unfolding find_source_def
    by (simp, subst scoped_find_update [OF assms(2) [unfolded find_source_def]]) simp_all
  moreover have "so_health_state ?r = HealthBlocked \<longleftrightarrow> 3 \<le> so_consecutive_denials ?r"
    by (simp add: failed_source_def blocks_def block_after_consecutive_denials_def)
  moreover have "so_consecutive_denials ?r = (if fo_code ob \<in> set denial_codes then so_consecutive_denials row + 1 else 0)"
    by (simp add: failed_source_def denials_after_def)
  moreover have "so_next_scan_after ?r = next_scan_after_failure row ob" by (simp add: failed_source_def)
  moreover have "startScan E' ws rnd scan_id task_id ?r key ?s = (Inl Unprocessable, ?s)" if "so_health_state ?r = HealthBlocked"
    using that by (simp add: startScan_def isScannable_def andThen_def throw_if_apply)
  moreover have "\<forall>t. so_next_scan_after row = Some t \<longrightarrow> (\<exists>u. next_scan_after_failure row ob = Some u \<and> t \<le> u)"
    and "\<forall>n. fo_retry_after_seconds ob = Some n \<longrightarrow> (\<exists>u. next_scan_after_failure row ob = Some u \<and> fo_at ob + n * 1000 \<le> u)"
    using next_scan_monotone retry_after_respected by blast+
  ultimately show ?thesis
    by (intro exI [of _ ?r] exI [of _ ?s] conjI run) simp_all
qed

lemma sample_source_ok: "sources_ok sample_board_db" and sample_scans_ok: "scans_ok sample_board_db"
  using sample_board_ok by (simp_all add: discovery_ok_def)

theorem refusal_recorded_witness:
  "\<exists>r s'. recordSourceFailure sample_env ''ws'' (sample_source \<lparr> so_consecutive_denials := 2 \<rparr>)
      \<lparr> fo_at = sample_now, fo_code = ''RATE_LIMITED'', fo_detail = None, fo_retry_after_seconds = Some 60 \<rparr>
      (sample_board_db \<lparr> sources := [sample_source \<lparr> so_consecutive_denials := 2 \<rparr>] \<rparr>) = (Inr (), s') \<and>
    find_source ''ws'' ''src'' s' = Some r \<and> so_health_state r = HealthBlocked"
proof -
  let ?row = "sample_source \<lparr> so_consecutive_denials := 2 \<rparr>"
  let ?s = "sample_board_db \<lparr> sources := [?row] \<rparr>"
  have row: "find_source ''ws'' (so_id ?row) ?s = Some ?row" and id: "so_id ?row = ''src''"
    by (simp_all add: find_source_def scoped_find_def sample_source_def new_source_def)
  have "source_check ?row"
    by (simp add: source_check_def sample_source_def new_source_def block_after_consecutive_denials_def)
  then have ok: "sources_ok ?s" by (simp add: sources_ok_def)
  show ?thesis
    using refusal_recorded [OF ok row, where E = sample_env and ob = "\<lparr> fo_at = sample_now, fo_code = ''RATE_LIMITED'',
        fo_detail = None, fo_retry_after_seconds = Some 60 \<rparr>"] id
    by (fastforce simp: denial_codes_def)
qed

section \<open>Scans\<close>

text \<open>A scan is only started for an enabled source that is not blocked and has no scan in
  flight; it queues exactly one fetch of that source's own board within the limits of the
  program and of the workspace, the source is not due again before its interval has
  passed, and afterwards it still has at most one scan in flight.\<close>

theorem scan_started_soundly:
  assumes "scans_ok s" and "sources_ok s" and "find_source ws (so_id source) s = Some source"
    and "0 \<le> rnd" and "rnd \<le> 1"
    and "startScan E ws rnd scan_id task_id source key s = (Inr out, s')"
  shows "so_enabled source \<and> so_health_state source \<noteq> HealthBlocked \<and> in_flight_of ws (so_id source) s = None \<and>
     scans_ok s' \<and> sources_ok s' \<and>
     (\<exists>input r. tasks s' = insert_row (new_task E ws task_id (plain_task FetchBoard (FetchBoardPayload input) key)) (tasks s) \<and>
        fbi_source_id input = so_id source \<and> fbi_board_key input = so_board_key source \<and> fbi_scan_id input = scan_id \<and>
        fl_max_jobs (fbi_limits input) \<le> max_jobs_per_scan \<and>
        fl_max_jobs (fbi_limits input) \<le> scan_max_jobs (limits (stored_preferences ws s)) \<and>
        find_source ws (so_id source) s' = Some r \<and> so_last_scan_id r = Some scan_id \<and>
        (\<exists>t. so_next_scan_after r = Some t \<and>
           now E + scan_interval_hours (stored_preferences ws s) * 60 * 60 * 1000 \<le> t \<and>
           t \<le> now E + scan_interval_hours (stored_preferences ws s) * 60 * 60 * 1000 + scan_interval_jitter_minutes * 60 * 1000))"
proof -
  have post: "scans_ok s'" "sources_ok s'" "scan_started E ws rnd scan_id task_id source key s s'"
    using wp_okD [OF start_scan_wp [OF assms(1-3)] assms(6)] by simp_all
  have jitter: "from + hours * 60 * 60 * 1000 \<le> hoursFromNowWithJitter from hours rnd"
    "hoursFromNowWithJitter from hours rnd \<le> from + hours * 60 * 60 * 1000 + scan_interval_jitter_minutes * 60 * 1000" for "from" hours
  proof -
    have pos: "(0::rat) \<le> of_int (scan_interval_jitter_minutes * 60 * 1000)" by (simp add: scan_interval_jitter_minutes_def)
    have "0 \<le> rnd * of_int (scan_interval_jitter_minutes * 60 * 1000)" using assms(4) pos by (rule mult_nonneg_nonneg)
    moreover have "rnd * of_int (scan_interval_jitter_minutes * 60 * 1000) \<le> of_int (scan_interval_jitter_minutes * 60 * 1000)"
      using mult_right_mono [OF assms(5) pos] by simp
    ultimately show "from + hours * 60 * 60 * 1000 \<le> hoursFromNowWithJitter from hours rnd"
      and "hoursFromNowWithJitter from hours rnd \<le> from + hours * 60 * 60 * 1000 + scan_interval_jitter_minutes * 60 * 1000"
      by (simp_all add: hoursFromNowWithJitter_def floor_le_iff)
  qed
  show ?thesis
    using post jitter unfolding scan_started_def Let_def
    by (auto simp: isScannable_def board_payload_def)
qed

lemma sample_starts_scan:
  "case startScan sample_env ''ws'' 0 ''scan2'' ''task2'' sample_source None (sample_board_db \<lparr> scans := [] \<rparr>) of
     (Inr out, s') \<Rightarrow> True | _ \<Rightarrow> False"
  by code_simp

theorem scan_started_soundly_witness:
  "\<exists>out s'. startScan sample_env ''ws'' 0 ''scan2'' ''task2'' sample_source None (sample_board_db \<lparr> scans := [] \<rparr>) = (Inr out, s') \<and>
     scans_ok s'"
proof -
  obtain out s' where run: "startScan sample_env ''ws'' 0 ''scan2'' ''task2'' sample_source None (sample_board_db \<lparr> scans := [] \<rparr>) = (Inr out, s')"
    using sample_starts_scan by (auto split: prod.splits sum.splits)
  have "scans_ok (sample_board_db \<lparr> scans := [] \<rparr>)" "sources_ok (sample_board_db \<lparr> scans := [] \<rparr>)"
    "find_source ''ws'' (so_id sample_source) (sample_board_db \<lparr> scans := [] \<rparr>) = Some sample_source"
    using sample_source_ok
    by (simp_all add: scans_ok_def sources_ok_def find_source_def scoped_find_def sample_board_db_def sample_source_def new_source_def)
  from scan_started_soundly [OF this _ _ run] run show ?thesis by auto
qed


theorem canonical_key_binds_witness:
  "canonicalKeyFor sample_env sample_posting sample_origin =
     canonicalKeyFor sample_env (sample_posting \<lparr> nj_title := ''Other'' \<rparr>) (sample_origin \<lparr> og_source_id := None \<rparr>) \<and>
   canonicalKeyFor sample_env sample_posting sample_origin \<noteq>
     canonicalKeyFor sample_env sample_posting (sample_origin \<lparr> og_board_key := None \<rparr>)"
proof -
  have board: "isBoardConnector (og_connector sample_origin)" "og_board_key sample_origin = Some ''board''" "CHR '':'' \<notin> set ''board''"
    by (simp_all add: sample_origin_def isBoardConnector_def board_connector_ids_def)
  show ?thesis
    using canonical_key_binds [OF board, of "sample_origin \<lparr> og_source_id := None \<rparr>" sample_env sample_posting "sample_posting \<lparr> nj_title := ''Other'' \<rparr>"]
      canonical_key_binds [OF board, of "sample_origin \<lparr> og_board_key := None \<rparr>" sample_env sample_posting sample_posting] board
    by simp
qed

text \<open>The normal form of a URL forgets what does not name a posting: two URLs with the same
  protocol, the same host up to letter case, the same path up to one trailing slash, and
  the same parameters with distinct names, in any order and whatever tracking parameters
  stand between them, have the same normal form.\<close>

theorem url_normal_form:
  assumes "parse_url E (trim a) = Some u" and "parse_url E (trim b) = Some v" and "is_http u"
    and "url_protocol v = url_protocol u" and "toLowerCase (url_host v) = toLowerCase (url_host u)"
    and "url_pathname u \<noteq> []" and "\<not> endsWith (url_pathname u) ''/''"
    and "url_pathname v = url_pathname u \<or> url_pathname v = url_pathname u @ ''/''"
    and "mset (filter (\<lambda>e. \<not> tracking_param (fst e)) (url_params u)) = mset (filter (\<lambda>e. \<not> tracking_param (fst e)) (url_params v))"
    and "distinct (map fst (filter (\<lambda>e. \<not> tracking_param (fst e)) (url_params u)))"
  shows "normalizeJobUrl E a = normalizeJobUrl E b"
proof -
  have "kept_params v = kept_params u"
    using kept_params_perm [of u v] assms(9,10) by (simp add: stated_params_def)
  moreover have "normalized_path v = normalized_path u"
    using assms(6-8) by (auto simp: normalized_path_def endsWith_def)
  ultimately show ?thesis using normalizeJobUrl_equal [OF assms(1-5)] by blast
qed

definition sample_parser :: "string \<Rightarrow> url option" where
  "sample_parser text =
     (if text = ''https://Jobs.example/1/?b=2&utm_source=x&a=1'' then
        Some ((sample_url text) \<lparr> url_host := ''Jobs.example'', url_pathname := ''/1/'',
          url_params := [(''b'', ''2''), (''utm_source'', ''x''), (''a'', ''1'')] \<rparr>)
      else Some ((sample_url text) \<lparr> url_pathname := ''/1'', url_params := [(''a'', ''1''), (''b'', ''2'')] \<rparr>))"


theorem url_normal_form_witness:
  "normalizeJobUrl (sample_env \<lparr> parse_url := sample_parser \<rparr>) ''https://jobs.example/1?a=1&b=2'' =
     normalizeJobUrl (sample_env \<lparr> parse_url := sample_parser \<rparr>) ''https://Jobs.example/1/?b=2&utm_source=x&a=1''"
proof -
  let ?E = "sample_env \<lparr> parse_url := sample_parser \<rparr>"
  let ?u = "(sample_url ''https://jobs.example/1?a=1&b=2'') \<lparr> url_pathname := ''/1'', url_params := [(''a'', ''1''), (''b'', ''2'')] \<rparr>"
  let ?v = "(sample_url ''https://Jobs.example/1/?b=2&utm_source=x&a=1'') \<lparr> url_host := ''Jobs.example'', url_pathname := ''/1/'',
          url_params := [(''b'', ''2''), (''utm_source'', ''x''), (''a'', ''1'')] \<rparr>"
  have "parse_url ?E (trim ''https://jobs.example/1?a=1&b=2'') = Some ?u"
    and "parse_url ?E (trim ''https://Jobs.example/1/?b=2&utm_source=x&a=1'') = Some ?v"
    by code_simp+
  moreover have "is_http ?u \<and> toLowerCase (url_host ?v) = toLowerCase (url_host ?u) \<and> \<not> endsWith (url_pathname ?u) ''/'' \<and>
      filter (\<lambda>e. \<not> tracking_param (fst e)) (url_params ?u) = [(''a'', ''1''), (''b'', ''2'')] \<and>
      filter (\<lambda>e. \<not> tracking_param (fst e)) (url_params ?v) = [(''b'', ''2''), (''a'', ''1'')]"
    by code_simp
  ultimately show ?thesis
    by (intro url_normal_form [of ?E _ ?u _ ?v]) (simp_all add: sample_url_def add_mset_commute)
qed

section \<open>The listing\<close>

text \<open>Following the cursor of a page shows the rest of the listing: a page and the page its
  cursor leads to are together the first two pages of the whole listing, without a gap or
  a repetition, and a page without a cursor ends it.\<close>

theorem job_pages_continue:
  assumes "jobs_ok s"
    and "listJobs ws q s = (Inr (items, Some c), s1)"
    and "listJobs ws (q \<lparr> jl_cursor := Some c \<rparr>) s1 = (Inr (later, c2), s2)"
  shows "map jv_row (items @ later) = take (2 * jobs_limit (jl_limit q)) (listed_jobs ws (stored_preferences ws s) q s) \<and>
     length items = jobs_limit (jl_limit q) \<and>
     (c2 = None \<longrightarrow> map jv_row (items @ later) = listed_jobs ws (stored_preferences ws s) q s)"
proof -
  let ?n = "jobs_limit (jl_limit q)" and ?L = "listed_jobs ws (stored_preferences ws s) q s"
  note first = listJobs_page [OF assms(2)] and second = listJobs_page [OF assms(3)]
  obtain f where s1: "s1 = preferences_rows_update f s" using first(1) by blast
  have c: "?n < length ?L" "c = row_key (last (take ?n ?L))" using first(4) by (auto split: if_splits)
  have "0 < ?n" by (simp add: jobs_limit_def)
  with c have rest: "listed_jobs ws (stored_preferences ws s1) (q \<lparr> jl_cursor := Some c \<rparr>) s1 = drop ?n ?L"
    using listed_after_cursor [OF assms(1)] first(2) s1 by simp
  have items: "map jv_row items = take ?n ?L" and later: "map jv_row later = take ?n (drop ?n ?L)"
    using first(3) second(3) rest by simp_all
  have "length items = ?n" using arg_cong [OF items, of length] c(1) by simp
  moreover have "map jv_row (items @ later) = take (2 * ?n) ?L"
    by (simp add: items later mult_2 take_add)
  moreover have "map jv_row (items @ later) = ?L" if "c2 = None"
  proof -
    have "length (drop ?n ?L) \<le> ?n" using second(4) rest that by (auto split: if_splits)
    then show ?thesis by (simp add: items later)
  qed
  ultimately show ?thesis by blast
qed

definition sample_listing :: db where
  "sample_listing = empty_db \<lparr> jobs := [sample_job, sample_job \<lparr> j_id := ''job2'', j_canonical_key := ''k2'', j_last_seen_at := 5 \<rparr>] \<rparr>"

definition sample_query :: jobs_query where
  "sample_query = \<lparr> jl_query = None, jl_status = None, jl_min_score = None, jl_eligible = None, jl_include_excluded = True,
     jl_saved = None, jl_cursor = None, jl_limit = Some 1 \<rparr>"

lemma sample_listing_ok: "jobs_ok sample_listing"
  by (simp add: jobs_ok_def sample_listing_def sample_job_def job_check_def job_key_def empty_db_def)

lemma listJobs_succeeds: "\<exists>items c s'. listJobs ws q s = (Inr (items, c), s')"
proof -
  have "wp (listJobs ws q) (\<lambda>_ _. True) (\<lambda>_ _. False) s"
    unfolding listJobs_def Let_def wp_andThen by (rule wp_workspacePreferences) (simp add: readMatchContext_def)
  from wp_total [OF this] show ?thesis by auto
qed

lemma sample_listed:
  "map j_id (listed_jobs ''ws'' (stored_preferences ''ws'' sample_listing) sample_query sample_listing) = [''job2'', ''job'']"
  by code_simp

theorem job_pages_continue_witness:
  "\<exists>items c s1 later s2. listJobs ''ws'' sample_query sample_listing = (Inr (items, Some c), s1) \<and>
     listJobs ''ws'' (sample_query \<lparr> jl_cursor := Some c \<rparr>) s1 = (Inr (later, None), s2) \<and>
     map jv_row (items @ later) = listed_jobs ''ws'' (stored_preferences ''ws'' sample_listing) sample_query sample_listing"
proof -
  let ?L = "listed_jobs ''ws'' (stored_preferences ''ws'' sample_listing) sample_query sample_listing"
  have two: "length ?L = 2" using arg_cong [OF sample_listed, of length] by simp
  have n: "jobs_limit (jl_limit sample_query) = 1" "jobs_limit (jl_limit (sample_query \<lparr> jl_cursor := x \<rparr>)) = 1" for x
    by (simp_all add: jobs_limit_def sample_query_def)
  obtain items c1 s1 where one: "listJobs ''ws'' sample_query sample_listing = (Inr (items, c1), s1)"
    using listJobs_succeeds by blast
  then obtain c where c: "c1 = Some c" using listJobs_page(4) [OF one] two n by simp
  obtain later c2 s2 where run: "listJobs ''ws'' (sample_query \<lparr> jl_cursor := Some c \<rparr>) s1 = (Inr (later, c2), s2)"
    using listJobs_succeeds by blast
  note both = job_pages_continue [OF sample_listing_ok one [unfolded c] run]
  then have "map jv_row (items @ later) = ?L" using n two by simp
  moreover from this have "length later = 1"
    using both n two by (metis add_left_cancel length_append length_map one_add_one)
  moreover have "c2 = None"
  proof -
    obtain f where "s1 = preferences_rows_update f sample_listing" using listJobs_page(1) [OF one] by blast
    moreover have "c = row_key (last (take 1 ?L))" using listJobs_page(4) [OF one] c n two by simp
    ultimately have "length (listed_jobs ''ws'' (stored_preferences ''ws'' s1) (sample_query \<lparr> jl_cursor := Some c \<rparr>) s1) = 1"
      using listed_after_cursor [OF sample_listing_ok, of 1] listJobs_page(2) [OF one] two by simp
    then show ?thesis using listJobs_page(4) [OF run] n by simp
  qed
  ultimately show ?thesis using one run c by blast
qed

section \<open>Imports and matches\<close>

text \<open>A match result is stored once for the revisions it was computed from: a repetition for
  the same job, profile, preferences and algorithm replaces the result in place, results for
  other revisions stay as they are, and a result the database refuses changes nothing.\<close>

theorem match_stored_once:
  assumes "matches_ok s" and "t_payload task = MatchPayload input"
  shows "case applyMatchJobResult E new_id task r s of
      (Inl e, s') \<Rightarrow> s' = s
    | (Inr u, s') \<Rightarrow> matches_ok s' \<and>
        (\<exists>!m. m \<in> set (matches s') \<and> match_tuple m = result_tuple (t_workspace_id task) input r) \<and>
        (\<exists>m \<in> set (matches s'). match_tuple m = result_tuple (t_workspace_id task) input r \<and>
           m_eligible m = mr_eligible r \<and> m_score m = mr_score r \<and> m_computed_at m = mr_computed_at r) \<and>
        (\<forall>m \<in> set (matches s). match_tuple m \<noteq> result_tuple (t_workspace_id task) input r \<longrightarrow> m \<in> set (matches s'))"
proof (rule wp_cases [OF apply_match_wp [OF assms]])
  fix u s' assume post: "matches_ok s' \<and> match_stored (t_workspace_id task) input r s s'"
  then have "distinct (map match_tuple (matches s'))" by (simp add: matches_ok_def)
  then have "a = b" if "a \<in> set (matches s')" "b \<in> set (matches s')" "match_tuple a = match_tuple b" for a b
    using that by (simp add: distinct_map inj_on_def)
  with post show "matches_ok s' \<and>
        (\<exists>!m. m \<in> set (matches s') \<and> match_tuple m = result_tuple (t_workspace_id task) input r) \<and>
        (\<exists>m \<in> set (matches s'). match_tuple m = result_tuple (t_workspace_id task) input r \<and>
           m_eligible m = mr_eligible r \<and> m_score m = mr_score r \<and> m_computed_at m = mr_computed_at r) \<and>
        (\<forall>m \<in> set (matches s). match_tuple m \<noteq> result_tuple (t_workspace_id task) input r \<longrightarrow> m \<in> set (matches s'))"
    unfolding match_stored_def by (metis (no_types, lifting))
qed

definition sample_match_task :: task_row where
  "sample_match_task = (sample_task MatchJob) \<lparr> t_payload := MatchPayload
     (buildMatchInput sample_job \<lparr> mc_profile_revision = 1, mc_preferences_revision = 1,
        mc_preferences = stored_preferences ''ws'' sample_listing, mc_locale = En, mc_confirmed_facts = [] \<rparr>) \<rparr>"

definition sample_match_result :: match_job_result where
  "sample_match_result = \<lparr> mr_eligible = TriYes, mr_score = Some 80, mr_coverage_percent = 60,
     mr_explanation = \<lparr> me_algorithm_version = ''v1'', me_body = JNull \<rparr>, mr_computed_at = 7 \<rparr>"

theorem match_stored_once_witness:
  "\<exists>s' m. applyMatchJobResult sample_env ''match'' sample_match_task sample_match_result sample_listing = (Inr (), s') \<and>
     matches_ok s' \<and> matches s' = [m] \<and> m_score m = Some 80"
proof -
  have ok: "matches_ok sample_listing" by (simp add: matches_ok_def sample_listing_def empty_db_def)
  have payload: "t_payload sample_match_task = MatchPayload (buildMatchInput sample_job
      \<lparr> mc_profile_revision = 1, mc_preferences_revision = 1,
        mc_preferences = stored_preferences ''ws'' sample_listing, mc_locale = En, mc_confirmed_facts = [] \<rparr>)"
    by (simp add: sample_match_task_def)
  have "(case applyMatchJobResult sample_env ''match'' sample_match_task sample_match_result sample_listing of
      (Inr _, s') \<Rightarrow> map m_score (matches s') = [Some 80] | _ \<Rightarrow> False)"
    by code_simp
  then obtain u s' where run: "applyMatchJobResult sample_env ''match'' sample_match_task sample_match_result sample_listing = (Inr u, s')"
    and rows: "map m_score (matches s') = [Some 80]"
    by (auto split: prod.splits sum.splits)
  have "matches_ok s'"
    using match_stored_once [OF ok payload, where E = sample_env and new_id = "''match''" and r = sample_match_result] run by simp
  then show ?thesis using run rows by (auto simp: map_eq_Cons_conv)
qed

end
