(* ===== verification/ProfileProperties.thy ===== *)
theory ProfileProperties
  imports Dispatch Samples
begin

text \<open>
  What the profile promises: a patch is refused whole or moves the revision by one, an
  import only ever holds valid drafts, and nothing becomes a confirmed fact that the
  person did not accept by name.
\<close>

section \<open>Editing\<close>

text \<open>A patch is applied whole or not at all: an accepted one was written against the
  current revision, moves it by one and leaves every fact valid, and it moves the confirmed
  revision exactly when the contact or a confirmed fact is touched; a refused one changes
  nothing.  A patch against another revision is always refused as stale.\<close>

theorem patch_atomic:
  assumes "profile_ok s" and "find_profile ws s = Some p"
  shows "case patchProfile E ws user i ids b s of
      (Inl e, s') \<Rightarrow> s' = s
    | (Inr view, s') \<Rightarrow> profile_ok s' \<and> pq_expected_revision b = pr_revision p \<and>
        find_profile ws s' = Some (fst view) \<and> pr_revision (fst view) = pr_revision p + 1 \<and>
        pr_confirmed_revision (fst view) =
          (if pq_contact b \<noteq> None \<or>
              (\<exists>c \<in> set (pq_changes b). touches_confirmed (referenced_facts ws (pr_id p) s) c)
           then Some (pr_revision p + 1) else pr_confirmed_revision p)"
proof (rule wp_cases [OF patch_profile_wp [OF assms]])
  fix view s'
  assume "profile_ok s' \<and> pr_revision p = pq_expected_revision b \<and> find_profile ws s' = Some (fst view) \<and>
       fst view = patched_profile b (confirmed_changed (referenced_facts ws (pr_id p) s) b) p p"
  then show "profile_ok s' \<and> pq_expected_revision b = pr_revision p \<and>
        find_profile ws s' = Some (fst view) \<and> pr_revision (fst view) = pr_revision p + 1 \<and>
        pr_confirmed_revision (fst view) =
          (if pq_contact b \<noteq> None \<or>
              (\<exists>c \<in> set (pq_changes b). touches_confirmed (referenced_facts ws (pr_id p) s) c)
           then Some (pr_revision p + 1) else pr_confirmed_revision p)"
    by (simp add: patched_profile_def confirmed_changed_def list_ex_iff)
qed

text \<open>A sample profile with one confirmed fact, and a newer fact that supersedes an older.\<close>

definition sample_profile :: profile_row where
  "sample_profile = \<lparr> pr_id = ''profile'', pr_workspace_id = ''ws'', pr_revision = 3, pr_confirmed_revision = Some 3,
     pr_contact = None, pr_locale = En \<rparr>"

definition sample_fact :: "uuid \<Rightarrow> bool \<Rightarrow> uuid option \<Rightarrow> profile_fact_row" where
  "sample_fact i confirmed older = \<lparr> fa_id = i, fa_workspace_id = ''ws'', fa_profile_id = ''profile'', fa_kind = KSummary,
     fa_value = JObj [(''text'', JStr ''Builds services'')], fa_source_file_id = None, fa_source_excerpt = None,
     fa_confirmed = confirmed, fa_revision = 2, fa_supersedes_id = older, fa_created_at = 1, fa_updated_at = 1 \<rparr>"

definition sample_profile_db :: db where
  "sample_profile_db = empty_db \<lparr> profiles := [sample_profile],
     profile_facts := [sample_fact ''old'' False None, sample_fact ''new'' True (Some ''old'')] \<rparr>"

lemma sample_profile_ok: "profile_ok sample_profile_db"
  by code_simp

definition sample_deletion :: profile_patch_request where
  "sample_deletion = \<lparr> pq_expected_revision = 3, pq_contact = None, pq_locale = None, pq_changes = [DeleteFact ''new''] \<rparr>"

theorem patch_atomic_witness:
  "\<exists>view s'. patchProfile sample_env ''ws'' ''user'' ''unused'' (\<lambda>_. ''unused'') sample_deletion sample_profile_db = (Inr view, s') \<and>
     profile_ok s' \<and> pr_revision (fst view) = 4 \<and> pr_confirmed_revision (fst view) = Some 4"
proof -
  have p: "find_profile ''ws'' sample_profile_db = Some sample_profile"
    by (simp add: find_profile_def scoped_find_def sample_profile_db_def sample_profile_def)
  have "fst (patchProfile sample_env ''ws'' ''user'' ''unused'' (\<lambda>_. ''unused'') sample_deletion sample_profile_db) =
      Inr (sample_profile \<lparr> pr_revision := 4, pr_confirmed_revision := Some 4 \<rparr>, [toProfileFact (sample_fact ''old'' False None)])"
    by code_simp
  then obtain s' where run: "patchProfile sample_env ''ws'' ''user'' ''unused'' (\<lambda>_. ''unused'') sample_deletion sample_profile_db =
      (Inr (sample_profile \<lparr> pr_revision := 4, pr_confirmed_revision := Some 4 \<rparr>, [toProfileFact (sample_fact ''old'' False None)]), s')"
    by (metis prod.collapse)
  from patch_atomic [OF sample_profile_ok p, where E = sample_env and user = "''user''" and i = "''unused''"
      and ids = "\<lambda>_. ''unused''" and b = sample_deletion] run
  show ?thesis by simp
qed

section \<open>Deleting\<close>

text \<open>C38: A fact that a newer one supersedes cannot be deleted: the request names a fact of
  the profile at its current revision, and still the server answers with an internal error
  and changes nothing, whatever else the profile holds.\<close>

theorem superseded_undeletable:
  assumes "find_profile ws s = Some p" and "pq_changes b = [DeleteFact old]" and "pq_expected_revision b = pr_revision p"
    and "referenced_facts ws (pr_id p) s old \<noteq> None"
    and "r \<in> set (profile_facts s)" and "fa_workspace_id r = ws" and "fa_supersedes_id r = Some old" and "fa_id r \<noteq> old"
  shows "patchProfile E ws user i ids b s = (Inl InternalError, s)"
proof (rule delete_superseded_fails [OF assms(1-4)])
  show "superseded ws old s" using assms(5-8) by (auto simp: superseded_def list_ex_iff)
qed

theorem superseded_undeletable_witness:
  "patchProfile sample_env ''ws'' ''user'' ''unused'' (\<lambda>_. ''unused'')
     (sample_deletion \<lparr> pq_changes := [DeleteFact ''old''] \<rparr>) sample_profile_db = (Inl InternalError, sample_profile_db)"
proof (rule superseded_undeletable)
  show "find_profile ''ws'' sample_profile_db = Some sample_profile"
    by (simp add: find_profile_def scoped_find_def sample_profile_db_def sample_profile_def)
  show "referenced_facts ''ws'' (pr_id sample_profile) sample_profile_db ''old'' \<noteq> None" by code_simp
  show "sample_fact ''new'' True (Some ''old'') \<in> set (profile_facts sample_profile_db)"
    by (simp add: sample_profile_db_def)
qed (simp_all add: sample_deletion_def sample_profile_def sample_fact_def)

section \<open>Importing\<close>

text \<open>C40: Whatever a parser returns, a parsed import only holds drafts the parser sent, in its
  order, each valid for its kind and with ids of their own; the drafts left out are counted,
  and no profile or fact changes.\<close>

theorem parsed_drafts_valid:
  assumes "applyParseProfileResult E paths task r s = (Inr u, s')"
    and "row \<in> set (profile_imports s')" and "im_workspace_id row = t_workspace_id task" and "im_task_id row = Some (t_id task)"
  shows "im_status row = ImportReady \<and>
     (\<exists>d. im_extracted_draft row = Some d \<and> subseq (ed_draft_facts d) (ppr_draft_facts r) \<and>
        distinct (map df_draft_id (ed_draft_facts d)) \<and>
        (\<forall>x \<in> set (ed_draft_facts d). valid_fact (df_kind x) (df_value x)) \<and>
        length (ed_draft_facts d) + ed_dropped_invalid d = length (ppr_draft_facts r)) \<and>
     profile_facts s' = profile_facts s \<and> profiles s' = profiles s"
proof -
  obtain kept warnings dropped where out: "accept_drafts paths (ppr_draft_facts r) [] = (kept, warnings, dropped)"
    by (metis prod_cases3)
  have s': "s' = profile_imports_update (scoped_update im_workspace_id (t_workspace_id task)
      (\<lambda>q. im_task_id q = Some (t_id task)) (parsed_import E paths r)) s"
    using assms(1) by (simp add: applyParseProfileResult_def update_import_def modify_def)
  have task: "im_task_id (parsed_import E paths r q) = im_task_id q" for q
    by (simp add: parsed_import_def split: prod.split)
  obtain q where "row = parsed_import E paths r q"
    using assms(2-4) s' by (auto simp: scoped_update_def task split: if_splits)
  then show ?thesis
    using accept_drafts_sound [of "ppr_draft_facts r" "[]" paths] s'
    by (simp add: out drafts_kept_def parsed_import_def)
qed

text \<open>Where the facts come from: every fact a promotion leaves is one of the old ones, as it
  was or retired, or the fact of one promoted field, perhaps retired by a later one.\<close>

lemma promote_each_origin:
  "wp (promote_each E ws p rv file ids k ps)
    (\<lambda>_ s'. profile_imports s' = profile_imports s \<and>
       (\<forall>r \<in> set (profile_facts s'). fa_confirmed r \<longrightarrow> r \<in> set (profile_facts s) \<or>
         (\<exists>q \<in> set ps. \<exists>n. r = promoted_fact E ws p rv file (ids n) q))) (\<lambda>_ _. True) s"
proof (induction ps arbitrary: k s)
  case (Cons q ps)
  let ?r = "promoted_fact E ws p rv file (ids k) q"
  let ?from = "\<lambda>qs s s'. profile_imports s' = profile_imports s \<and>
     (\<forall>r \<in> set (profile_facts s'). fa_confirmed r \<longrightarrow> r \<in> set (profile_facts s) \<or>
       (\<exists>q \<in> set qs. \<exists>n. r = promoted_fact E ws p rv file (ids n) q))"
  have step: "wp (promote_each E ws p rv file ids (Suc k) ps) (\<lambda>_. ?from (q # ps) s) (\<lambda>_ _. True) u"
    if u: "profile_imports u = profile_imports s"
      "\<And>r. r \<in> set (profile_facts u) \<Longrightarrow> fa_confirmed r \<Longrightarrow> r \<in> set (profile_facts s) \<or> r = ?r" for u
  proof (rule wp_mono [OF Cons.IH [of "Suc k" u]])
    fix a s'
    assume new: "?from ps u s'"
    have "\<forall>r \<in> set (profile_facts s'). fa_confirmed r \<longrightarrow> r \<in> set (profile_facts s) \<or>
       (\<exists>q \<in> set (q # ps). \<exists>n. r = promoted_fact E ws p rv file (ids n) q)"
      using new u(2) by (meson list.set_intros)
    then show "?from (q # ps) s s'" using new u(1) by simp
  qed
  show ?case
    unfolding promote_each.simps update_fact_def wp_andThen wp_insert_fact
    by (auto split: option.split intro!: step [simplified] simp: insert_row_def scoped_update_def split: if_splits)
qed simp

lemma promote_accepts:
  assumes "promote ds facts seen chosen = Inr ps" and "q \<in> set ps"
  shows "\<exists>f \<in> set chosen. \<exists>d \<in> set ds. df_draft_id d = af_draft_id f \<and>
     pm_draft q = d \<and> pm_value q = accepted_value f d \<and> valid_fact (df_kind d) (pm_value q)"
  using assms
proof (induction ds facts seen chosen arbitrary: ps rule: promote.induct)
  case (2 ds facts seen f fs)
  then show ?case
    by (fastforce dest: stored_draftD split: if_splits option.splits sum.splits)
qed simp

lemma confirm_origin:
  assumes p: "find_profile ws s = Some p"
  shows "wp (confirm_transaction E ws user ids row stored b)
    (\<lambda>v s'. (\<exists>kept. profile_imports s' =
         scoped_update im_workspace_id ws (\<lambda>r. im_id r = im_id row) (closed_import E stored kept) (profile_imports s)) \<and>
       (\<exists>ps. promote (ed_draft_facts stored) (loadFacts ws (pr_id p) s) [] (ci_accepted_fields b) = Inr ps \<and>
         (\<forall>r \<in> set (profile_facts s'). fa_confirmed r \<longrightarrow> r \<in> set (profile_facts s) \<or>
           (\<exists>q \<in> set ps. \<exists>n. r = promoted_fact E ws (pr_id p) (pr_revision p + 1) (im_file_id row) (ids n) q))))
    (\<lambda>_ _. True) s"
proof (cases "promote (ed_draft_facts stored) (loadFacts ws (pr_id p) s) [] (ci_accepted_fields b)")
  case (Inl e)
  then show ?thesis by (simp add: confirm_transaction_def lockProfile_def assertProfileRevision_def p)
next
  case (Inr ps)
  show ?thesis
    unfolding confirm_transaction_def lockProfile_def assertProfileRevision_def closeImport_def update_import_def
      confirm_audit_def recordAuditEvent_def update_profile_def syncConfirmedContact_def Let_def
    using p Inr
    apply simp
    apply (intro conjI impI)
     apply blast
    apply (rule wp_mono [OF promote_each_origin])
     apply (auto split: option.split)
    done
qed

text \<open>C12: A confirmation is granted only for an import that was parsed and waits for review, at
  the profile's current revision.  Every confirmed fact afterwards was there before, or is
  a draft of this import that the request accepted by name, with the value the request gave
  it or else the draft's, valid for its kind; the revision moves by one unless nothing was
  accepted, and the import cannot be confirmed again.\<close>

theorem import_confirmed_soundly:
  assumes "profile_ok s" and "find_profile ws s = Some p"
    and "findImport ws i s = (Inr row, s)" and "distinct (map im_id (profile_imports s))"
    and "confirmProfileImport E ws user k ids i b s = (Inr view, s')"
  shows "\<exists>stored. im_status row = ImportReady \<and> im_extracted_draft row = Some stored \<and>
     ci_expected_profile_revision b = pr_revision p \<and> profile_ok s' \<and>
     (\<forall>r \<in> set (profile_facts s'). fa_confirmed r \<longrightarrow> r \<in> set (profile_facts s) \<or>
        (\<exists>f \<in> set (ci_accepted_fields b). \<exists>d \<in> set (ed_draft_facts stored). df_draft_id d = af_draft_id f \<and>
           fa_kind r = df_kind d \<and> fa_value r = accepted_value f d \<and> valid_fact (fa_kind r) (fa_value r) \<and>
           fa_revision r = pr_revision p + 1)) \<and>
     pr_revision (fst view) = (if ci_accepted_fields b = [] then pr_revision p else pr_revision p + 1) \<and>
     fst (confirmProfileImport E' ws user' k' ids' (im_id row) b' s') = Inl Conflict"
proof -
  let ?same = "\<lambda>r. im_id r = im_id row"
  obtain stored where row: "im_status row = ImportReady" "im_extracted_draft row = Some stored"
    and run: "andThen (confirm_transaction E ws user ids row stored b) (\<lambda>updated. gets (buildProfileView ws updated)) s = (Inr view, s')"
    using assms(2,3,5)
    by (auto simp: confirmProfileImport_def andThen_def ensureProfile_def gets_def ret_def throw_if_def require_def fail_def
        split: if_splits option.splits)
  obtain v where trans: "confirm_transaction E ws user ids row stored b s = (Inr v, s')" and view: "fst view = v"
    using run by (auto simp: andThen_def gets_def buildProfileView_def split: prod.splits sum.splits)
  note kept = wp_okD [OF confirm_wp [OF assms(1,2)] trans] and origin = wp_okD [OF confirm_origin [OF assms(2)] trans]
  obtain ps where ps: "promote (ed_draft_facts stored) (loadFacts ws (pr_id p) s) [] (ci_accepted_fields b) = Inr ps"
      "v = (if ps = [] then p else confirmed_profile ps p)"
    using kept by auto
  have none: "ps = [] \<longleftrightarrow> ci_accepted_fields b = []"
    using arg_cong [OF promote_sound(1) [OF ps(1)], of length] by auto
  have accepted: "\<exists>f \<in> set (ci_accepted_fields b). \<exists>d \<in> set (ed_draft_facts stored). df_draft_id d = af_draft_id f \<and>
      pm_draft q = d \<and> pm_value q = accepted_value f d \<and> valid_fact (df_kind d) (pm_value q)" if "q \<in> set ps" for q
    using promote_accepts [OF ps(1) that] .
  have facts: "\<exists>f \<in> set (ci_accepted_fields b). \<exists>d \<in> set (ed_draft_facts stored). df_draft_id d = af_draft_id f \<and>
      fa_kind r = df_kind d \<and> fa_value r = accepted_value f d \<and> valid_fact (fa_kind r) (fa_value r) \<and>
      fa_revision r = pr_revision p + 1"
    if "q \<in> set ps" "r = promoted_fact E ws (pr_id p) (pr_revision p + 1) (im_file_id row) n q" for r q n
    using accepted [OF that(1)] that(2) by (fastforce simp: promoted_fact_def)
  have found: "scoped_find im_workspace_id ws ?same (profile_imports s) = Some row"
  proof -
    have "row \<in> set (profile_imports s)" "im_workspace_id row = ws"
      using assms(3)
      by (auto simp: findImport_def andThen_def gets_def ret_def require_def fail_def split: option.splits dest!: scoped_find_SomeD)
    then show ?thesis using assms(4) by (rule scoped_find_key)
  qed
  obtain stale where "scoped_find im_workspace_id ws ?same (profile_imports s') = Some stale" "im_status stale = ImportConfirmed"
    using origin scoped_find_update [OF found, of "closed_import E stored kept" ?same for kept] by (auto simp: closed_import_def)
  then have again: "fst (confirmProfileImport E' ws user' k' ids' (im_id row) b' s') = Inl Conflict"
    by (simp add: confirmProfileImport_def findImport_def andThen_def gets_def ret_def throw_if_def fail_def)
  show ?thesis
  proof (intro exI conjI)
    show "\<forall>r \<in> set (profile_facts s'). fa_confirmed r \<longrightarrow> r \<in> set (profile_facts s) \<or>
        (\<exists>f \<in> set (ci_accepted_fields b). \<exists>d \<in> set (ed_draft_facts stored). df_draft_id d = af_draft_id f \<and>
           fa_kind r = df_kind d \<and> fa_value r = accepted_value f d \<and> valid_fact (fa_kind r) (fa_value r) \<and>
           fa_revision r = pr_revision p + 1)"
      using origin ps(1) facts by fastforce
  qed (use row kept view ps(2) none again in \<open>simp_all add: confirmed_profile_def Let_def split: option.split\<close>)
qed

text \<open>A sample import: three parsed drafts, of which one is invalid and one repeats an id.\<close>

definition sample_draft :: "string \<Rightarrow> json \<Rightarrow> draft_fact" where
  "sample_draft i v = \<lparr> df_draft_id = i, df_kind = KSummary, df_value = v, df_source_excerpt = None,
     df_source_locator = None, df_confidence = 1 \<rparr>"

definition sample_parse :: parse_profile_result where
  "sample_parse = \<lparr> ppr_draft_facts =
       [sample_draft ''d1'' (JObj [(''text'', JStr ''Leads'')]), sample_draft ''d2'' JNull, sample_draft ''d1'' (JObj [(''text'', JStr ''Other'')])],
     ppr_warnings = [], ppr_extracted_chars = 10,
     ppr_provider = \<lparr> pv_id = ''local'', pv_model = ''rules'', pv_input_tokens = None, pv_output_tokens = None \<rparr> \<rparr>"

definition sample_import_row :: profile_import_row where
  "sample_import_row = new_import sample_env ''ws'' ''import'' None HintPlainText \<lparr> im_task_id := Some ''task'' \<rparr>"

definition sample_parsed :: db where
  "sample_parsed = snd (applyParseProfileResult sample_env (\<lambda>_ _. []) (sample_task ParseProfile) sample_parse
     (sample_profile_db \<lparr> profile_imports := [sample_import_row] \<rparr>))"

theorem parsed_drafts_valid_witness:
  "\<exists>row d. profile_imports sample_parsed = [row] \<and> im_extracted_draft row = Some d \<and>
     map df_draft_id (ed_draft_facts d) = [''d1''] \<and> ed_dropped_invalid d = 2 \<and>
     (\<forall>x \<in> set (ed_draft_facts d). valid_fact (df_kind x) (df_value x))"
proof -
  have run: "applyParseProfileResult sample_env (\<lambda>_ _. []) (sample_task ParseProfile) sample_parse
      (sample_profile_db \<lparr> profile_imports := [sample_import_row] \<rparr>) = (Inr (), sample_parsed)"
    by (simp add: sample_parsed_def applyParseProfileResult_def update_import_def modify_def)
  have "map (\<lambda>r. (im_workspace_id r, im_task_id r, map_option (\<lambda>d. (map df_draft_id (ed_draft_facts d), ed_dropped_invalid d)) (im_extracted_draft r)))
      (profile_imports sample_parsed) = [(''ws'', Some ''task'', Some ([''d1''], 2))]"
    by code_simp
  then obtain row where row: "profile_imports sample_parsed = [row]" "im_workspace_id row = ''ws''" "im_task_id row = Some ''task''"
    "map_option (\<lambda>d. (map df_draft_id (ed_draft_facts d), ed_dropped_invalid d)) (im_extracted_draft row) = Some ([''d1''], 2)"
    by (auto simp: map_eq_Cons_conv)
  have "im_workspace_id row = t_workspace_id (sample_task ParseProfile)" "im_task_id row = Some (t_id (sample_task ParseProfile))"
    using row by (simp_all add: sample_task_def new_task_def)
  from parsed_drafts_valid [OF run _ this] row show ?thesis by auto
qed

definition sample_confirmation :: confirm_import_request where
  "sample_confirmation = \<lparr> ci_expected_profile_revision = 3,
     ci_accepted_fields = [\<lparr> af_draft_id = ''d1'', af_edited_value = None, af_supersedes_fact_id = Some (Some ''new'') \<rparr>] \<rparr>"

lemma sample_confirms:
  "case confirmProfileImport sample_env ''ws'' ''user'' ''unused'' (\<lambda>_. ''fresh'') ''import'' sample_confirmation sample_parsed of
     (Inr view, s') \<Rightarrow> map (\<lambda>r. (fa_id r, fa_confirmed r)) (profile_facts s') = [(''old'', False), (''new'', False), (''fresh'', True)]
   | _ \<Rightarrow> False"
  by code_simp

theorem import_confirmed_soundly_witness:
  "\<exists>view s'. confirmProfileImport sample_env ''ws'' ''user'' ''unused'' (\<lambda>_. ''fresh'') ''import'' sample_confirmation sample_parsed = (Inr view, s') \<and>
     pr_revision (fst view) = 4 \<and> profile_ok s' \<and>
     map (\<lambda>r. (fa_id r, fa_confirmed r)) (profile_facts s') = [(''old'', False), (''new'', False), (''fresh'', True)]"
proof -
  obtain view s' where run: "confirmProfileImport sample_env ''ws'' ''user'' ''unused'' (\<lambda>_. ''fresh'') ''import'' sample_confirmation sample_parsed
      = (Inr view, s')"
    and facts: "map (\<lambda>r. (fa_id r, fa_confirmed r)) (profile_facts s') = [(''old'', False), (''new'', False), (''fresh'', True)]"
    using sample_confirms by (auto split: prod.splits sum.splits)
  have base: "profiles sample_parsed = [sample_profile]" "profile_facts sample_parsed = profile_facts sample_profile_db"
    by (simp_all add: sample_parsed_def applyParseProfileResult_def update_import_def modify_def sample_profile_db_def)
  have ok: "profile_ok sample_parsed"
    using sample_profile_ok profile_ok_cong [of sample_parsed sample_profile_db] base by (simp add: sample_profile_db_def)
  have p: "find_profile ''ws'' sample_parsed = Some sample_profile"
    by (simp add: find_profile_def scoped_find_def base) (simp add: sample_profile_def)
  have one: "length (profile_imports sample_parsed) = 1" "map (\<lambda>r. (im_id r, im_workspace_id r)) (profile_imports sample_parsed) = [(''import'', ''ws'')]"
    by code_simp+
  have row: "findImport ''ws'' ''import'' sample_parsed = (Inr (hd (profile_imports sample_parsed)), sample_parsed)"
    using one by (auto simp: findImport_def andThen_def gets_def ret_def scoped_find_def length_Suc_conv)
  have "distinct (map im_id (profile_imports sample_parsed))" using one by auto
  from import_confirmed_soundly [OF ok p row this run, where E' = sample_env and user' = "''u''" and k' = "''k''"
      and ids' = "\<lambda>_. ''x''" and b' = sample_confirmation]
  have "profile_ok s'" and "pr_revision (fst view) = 4" by (auto simp: sample_confirmation_def sample_profile_def)
  then show ?thesis using run facts by (intro exI [of _ view] exI [of _ s'] conjI)
qed

end
