(* ===== verification/RouteFrames.thy ===== *)
theory RouteFrames
  imports Dispatch
begin

text \<open>
  What each route writes and what it keeps.  A route's write set decides which invariants
  need an argument at all; the others follow from the frame.  The last lemmas show, for
  every route that writes one of its tables, that the table's invariant survives.
\<close>

section \<open>What the routes write\<close>

lemma writes_preferences [table_steps]: "TPreferencesRows \<in> W \<Longrightarrow> obeys (only W) (workspacePreferences ws)"
  unfolding workspacePreferences_def ensurePreferences_def Let_def
  by (intro writes_rules writes_modify only_update)

lemma writes_enqueue [table_steps]: "TTasks \<in> W \<Longrightarrow> obeys (only W) (enqueueTask E ws k i)"
  unfolding enqueueTask_def by (intro writes_rules writes_modify only_update)

lemma writes_idempotent [table_steps]:
  "TIdempotencyRecords \<in> W \<Longrightarrow> obeys (only W) h \<Longrightarrow> obeys (only W) (withIdempotency E ws header body route h)"
proof -
  assume W: "TIdempotencyRecords \<in> W" and h: "obeys (only W) h"
  have "only W s (store_replay E ws route key hash out s)" for key hash out and s :: db
    using only_update(9) [OF W] writes.step_refl by (simp add: store_replay_def split: option.split)
  then show ?thesis
    unfolding withIdempotency_def Let_def using h by (intro writes_rules writes_modify)
qed

lemma writes_deletion [table_steps]: "TDeletionLedger \<in> W \<Longrightarrow> obeys (only W) (recordDeletion ws k i r)"
  unfolding recordDeletion_def by (intro writes_modify only_update)

lemma writes_ensureProfile [table_steps]: "TProfiles \<in> W \<Longrightarrow> obeys (only W) (ensureProfile ws i l)"
  unfolding ensureProfile_def by (intro writes_rules writes_modify only_update)

lemma writes_lockProfile [table_steps]: "obeys (only W) (lockProfile ws)"
  unfolding lockProfile_def by (intro writes_rules)

lemma writes_requireJob [table_steps]: "obeys (only W) (requireJob ws i)"
  unfolding requireJob_def by (intro writes_rules)

lemma writes_source_reads [table_steps]:
  "obeys (only W) (lockSource ws i)" "obeys (only W) (loadSource ws i)" "obeys (only W) (toSourceView ws r)"
  unfolding lockSource_def loadSource_def toSourceView_def by (intro writes_rules)+

abbreviation answer_tables :: "table set" where
  "answer_tables \<equiv> {TAnswerBank, TAuditEvents, TDeletionLedger}"

lemma writes_answers:
  "obeys (only answer_tables) (putAnswerBankEntry E ws user k b)"
  "obeys (only answer_tables) (deleteAnswerBankEntry ws user i)"
  unfolding putAnswerBankEntry_def deleteAnswerBankEntry_def Let_def
  by (intro writes_rules table_steps writes_modify only_update; simp)+

abbreviation device_tables :: "table set" where
  "device_tables \<equiv> {TPairedDevices, TAuditEvents}"

lemma writes_touch: "obeys (only device_tables) (touchDevice E d)"
  unfolding touchDevice_def by (intro writes_rules writes_modify only_update) simp_all

lemma writes_devices:
  "obeys (only device_tables) (createDevicePairing E ws user k code b)"
  "obeys (only device_tables) (exchangeDevicePairing E protocol token x)"
  "obeys (only device_tables) (authenticateDevice E header)"
  "obeys (only (insert TFillSessions device_tables)) (revokeDevice E ws user i)"
  unfolding createDevicePairing_def exchangeDevicePairing_def revokeDevice_def authenticateDevice_def requireDevice_def
    requireSupportedProtocol_def
  by (auto intro!: writes_rules writes_touch table_steps writes_modify only_update split: option.split)

abbreviation source_tables :: "table set" where
  "source_tables \<equiv> {TSources, TScans, TJobSources, TAuditEvents, TDeletionLedger}"

lemma only_without_source: "only source_tables s (without_source ws i s)"
  unfolding only_def by (intro allI impI, case_tac x) (simp_all add: without_source_def)

lemma writes_sources:
  "obeys (only {}) (listSources ws)"
  "obeys (only {TSources, TAuditEvents}) (createSource E ws user k c)"
  "obeys (only {TSources, TAuditEvents}) (patchSource E ws user i p)"
  "obeys (only source_tables) (deleteSource ws user i)"
  unfolding listSources_def createSource_def patchSource_def deleteSource_def update_source_def
  by (auto intro!: writes_rules table_steps writes_modify only_update only_without_source split: option.split)

abbreviation scan_tables :: "table set" where
  "scan_tables \<equiv> {TSources, TScans, TTasks, TPreferencesRows, TAuditEvents, TIdempotencyRecords}"

lemma writes_startScan: "obeys (only scan_tables) (startScan E ws rnd i j source key)"
  unfolding startScan_def insert_scan_def update_scan_def update_source_def
  by (intro writes_rules table_steps writes_modify only_update) simp_all

lemma obeys_skip_conflict: "obeys R m \<Longrightarrow> obeys R (skip_conflict m)"
  unfolding obeys_def skip_conflict_def by (auto split: prod.split sum.split) (metis snd_conv)+

lemma writes_scans:
  "obeys (only scan_tables) (scanSource E ws user rnd i j header body src)"
  "obeys (only scan_tables) (scheduleDueScans E rnds ids n)"
  unfolding scanSource_def scheduleDueScans_def schedule_one_def
  by (intro writes_rules table_steps obeys_skip_conflict writes_startScan; simp)+

abbreviation queue_tables :: "table set" where
  "queue_tables \<equiv> {TTasks, TPreferencesRows, TAuditEvents, TIdempotencyRecords}"

lemma writes_jobs:
  "obeys (only (insert TJobImports queue_tables)) (importJob E ws user i k header body b)"
  "obeys (only {TPreferencesRows}) (listJobs ws q)"
  "obeys (only {TPreferencesRows}) (getJob ws i)"
  "obeys (only {TJobs, TPreferencesRows, TAuditEvents}) (patchJob E ws user i p)"
  "obeys (only queue_tables) (matchJob E ws user k header body i)"
  unfolding importJob_def listJobs_def getJob_def patchJob_def matchJob_def Let_def insert_job_import_def update_job_import_def
    findJob_def readMatchContext_def
  by (intro writes_rules table_steps writes_modify only_update; simp)+

abbreviation profile_tables :: "table set" where
  "profile_tables \<equiv> {TProfiles, TProfileImports, TTasks, TAuditEvents, TIdempotencyRecords}"

abbreviation fact_tables :: "table set" where
  "fact_tables \<equiv> {TProfiles, TProfileFacts}"

lemma writes_fact_updates:
  "obeys (only fact_tables) (insert_fact r)"
  "obeys (only fact_tables) (delete_fact ws i)"
  "obeys (only fact_tables) (update_fact ws i f)"
  "obeys (only fact_tables) (update_profile ws i g)"
  unfolding insert_fact_def delete_fact_def update_fact_def update_profile_def
  by (intro writes_rules writes_modify only_update; simp)+

lemma writes_apply_changes: "obeys (only fact_tables) (apply_changes E ws p rv known ids k cs)"
  by (induction E ws p rv known ids k cs rule: apply_changes.induct)
     (auto intro!: writes_rules writes_fact_updates simp: apply_upsert_def split: option.split)

lemma writes_promote_each: "obeys (only fact_tables) (promote_each E ws p rv f ids k ps)"
  by (induction E ws p rv f ids k ps rule: promote_each.induct)
     (auto intro!: writes_rules writes_fact_updates split: option.split)

lemma writes_profiles:
  "obeys (only {TProfiles}) (getProfile ws k)"
  "obeys (only {TProfiles, TProfileFacts, TAuditEvents}) (patchProfile E ws user k ids b)"
  "obeys (only profile_tables) (createProfileImport E ws user p i t header body c)"
  "obeys (only {TProfiles}) (getProfileImport ws p i)"
  "obeys (only {TProfiles, TProfileFacts, TProfileImports, TAuditEvents}) (confirmProfileImport E ws user p ids i r)"
  unfolding getProfile_def patchProfile_def createProfileImport_def getProfileImport_def confirmProfileImport_def
    assertProfileRevision_def applyProfilePatch_def Let_def import_source_def insert_import_def update_import_def
    findImport_def confirm_transaction_def closeImport_def confirm_audit_def syncConfirmedContact_def
  by (intro writes_rules table_steps writes_modify only_update writes_mono [OF writes_apply_changes]
      writes_mono [OF writes_promote_each] writes_fact_updates [THEN writes_mono]; simp)+

abbreviation resume_tables :: "table set" where
  "resume_tables \<equiv> {TResumes, TTasks, TPreferencesRows, TAuditEvents, TIdempotencyRecords}"

lemma writes_resumes:
  "obeys (only resume_tables) (createResume E ws user i k header body b)"
  "obeys (only {}) (listResumes ws job status cursor n)"
  "obeys (only {}) (getResume ws i)"
  "obeys (only {TResumes, TAuditEvents}) (approveResume E ws user i approved)"
  unfolding createResume_def listResumes_def getResume_def approveResume_def requireResume_def Let_def readResumeContext_def
    requested_job_def check_input_file_def insert_resume_def update_resume_def
  by (intro writes_rules table_steps writes_modify only_update; simp)+

section \<open>Fills, observations and fill sessions\<close>

lemma writes_rest: "keeps_rest m \<Longrightarrow> application_tables \<subseteq> W \<Longrightarrow> obeys (only W) m"
  by (rule writes_mono [OF writes_of_rest])

abbreviation session_tables :: "table set" where
  "session_tables \<equiv> insert TFillSessions application_tables"

lemmas rest_writes = rest_steps [THEN writes_rest]

lemma writes_fill:
  "obeys (only (insert TTasks application_tables)) (fillApplication E ws user k header body i b)"
  "obeys (only (insert TTasks application_tables)) (observeApplication E ws user k header body i c)"
  unfolding fillApplication_def observeApplication_def Let_def require_runner_def start_fill_def start_observation_def
  by (intro writes_rules table_steps rest_writes; auto simp: application_tables_def)+

lemma writes_case [intro]: "(\<And>a b. obeys (only W) (k a b)) \<Longrightarrow> obeys (only W) (case x of (a, b) \<Rightarrow> k a b)"
  by (cases x) simp

lemma writes_sessions:
  "obeys (only session_tables) (createFillSession E protocol who k nonce b)"
  "obeys (only session_tables) (listFillTargets E protocol who)"
  "obeys (only session_tables) (getFillSession E protocol who key i)"
  "obeys (only session_tables) (downloadFillSessionResume E can_open protocol who key i)"
  "obeys (only session_tables) (reportFillSession E protocol who key i r)"
  "obeys (only session_tables) (endFillSession E protocol who key i)"
  "obeys (only session_tables) (reportFillSessionObservation E protocol who i x)"
  unfolding createFillSession_def listFillTargets_def getFillSession_def downloadFillSessionResume_def reportFillSession_def
    endFillSession_def reportFillSessionObservation_def open_session_def supersede_expired_def insert_session_def
    commit_report_def awaitingSubmission_def
  by (intro writes_rules writes_case table_steps rest_writes writes_modify only_update; auto simp: application_tables_def)+

section \<open>The queue's rows\<close>

lemma about_tasks_ok: "about {TTasks} tasks_ok"
  by (simp add: about_def tasks_ok_def)

lemma keeps_tasks_other: "obeys (only (- {TTasks})) m \<Longrightarrow> obeys (keeps tasks_ok) m"
  by (rule about_keeps [OF about_tasks_ok]) auto

lemma keeps_wp: "(\<And>s. I s \<Longrightarrow> wp m (\<lambda>_. I) (\<lambda>_. I) s) \<Longrightarrow> obeys (keeps I) m"
  by (intro keeps_state) (simp add: wp_state)

lemma keeps_tasks_enqueue: "0 < en_max_attempts i \<Longrightarrow> obeys (keeps tasks_ok) (enqueueTask E ws k i)"
  by (rule keeps_wp) (auto simp: enqueueTask_def tasks_ok_def insert_row_def task_check_def new_task_def)

lemma keeps_tasks_idempotent:
  "obeys (keeps tasks_ok) h \<Longrightarrow> obeys (keeps tasks_ok) (withIdempotency E ws header body route h)"
proof -
  assume h: "obeys (keeps tasks_ok) h"
  have "keeps tasks_ok s (store_replay E ws route key hash out s)" for key hash out s
    by (simp add: keeps_def tasks_ok_def store_replay_def split: option.split)
  then show ?thesis
    unfolding withIdempotency_def Let_def using h by (intro inv.obeys_rules inv.obeys_modify)
qed

lemma attempts_positive [simp]:
  "0 < en_max_attempts (plain_task ty payload key)" "0 < en_max_attempts (fill_task fi file)"
  "0 < en_max_attempts (observe_task oi)" "0 < en_max_attempts (parse_task input word file_id)"
  by (simp_all add: plain_task_def fill_task_def observe_task_def parse_task_def default_max_attempts_def)

lemmas other_writes = writes_rules writes_case table_steps rest_writes writes_modify only_update

lemma keeps_tasks_startScan: "obeys (keeps tasks_ok) (startScan E ws rnd i j source key)"
  unfolding startScan_def insert_scan_def update_scan_def update_source_def
  by (intro inv.obeys_rules keeps_tasks_enqueue keeps_tasks_other [OF writes_preferences] keeps_tasks_other [OF writes_modify] only_update)
     simp_all

lemma keeps_tasks_scans:
  "obeys (keeps tasks_ok) (scanSource E ws user rnd i j header body src)"
  "obeys (keeps tasks_ok) (scheduleDueScans E rnds ids n)"
  unfolding scanSource_def scheduleDueScans_def schedule_one_def lockSource_def loadSource_def
  by (intro inv.obeys_rules keeps_tasks_startScan keeps_tasks_idempotent obeys_skip_conflict
      keeps_tasks_other [OF writes_audit]; simp)+

lemma keeps_tasks_jobs:
  "obeys (keeps tasks_ok) (importJob E ws user i k header body b)"
  "obeys (keeps tasks_ok) (matchJob E ws user k header body i)"
  unfolding importJob_def matchJob_def Let_def insert_job_import_def update_job_import_def readMatchContext_def
  by (intro inv.obeys_rules keeps_tasks_enqueue keeps_tasks_idempotent keeps_tasks_other [OF writes_preferences]
      keeps_tasks_other [OF writes_audit] keeps_tasks_other [OF writes_requireJob] keeps_tasks_other [OF writes_modify] only_update; simp)+

lemma keeps_tasks_import: "obeys (keeps tasks_ok) (createProfileImport E ws user p i t header body c)"
  unfolding createProfileImport_def Let_def import_source_def insert_import_def update_import_def
  by (intro inv.obeys_rules keeps_tasks_enqueue keeps_tasks_idempotent keeps_tasks_other [OF writes_ensureProfile]
      keeps_tasks_other [OF writes_audit] keeps_tasks_other [OF writes_modify] only_update; simp)

lemma keeps_tasks_resume: "obeys (keeps tasks_ok) (createResume E ws user i k header body b)"
  unfolding createResume_def Let_def readResumeContext_def requested_job_def check_input_file_def insert_resume_def update_resume_def
  by (intro inv.obeys_rules keeps_tasks_enqueue keeps_tasks_idempotent keeps_tasks_other [OF writes_preferences]
      keeps_tasks_other [OF writes_audit] keeps_tasks_other [OF writes_requireJob] keeps_tasks_other [OF writes_modify] only_update; simp)

lemmas keeps_tasks_rest = rest_steps [THEN writes_rest, THEN keeps_tasks_other]

lemma keeps_tasks_fill:
  "obeys (keeps tasks_ok) (fillApplication E ws user k header body i b)"
  "obeys (keeps tasks_ok) (observeApplication E ws user k header body i c)"
  unfolding fillApplication_def observeApplication_def Let_def require_runner_def start_fill_def start_observation_def
  by (intro inv.obeys_rules keeps_tasks_enqueue keeps_tasks_idempotent keeps_tasks_rest; auto simp: application_tables_def)+

section \<open>The tables of discovery\<close>

lemma about_jobs_ok: "about {TJobs, TJobSources} jobs_ok"
  unfolding about_def by (auto intro: jobs_ok_cong [THEN iffD1] jobs_ok_cong [THEN iffD2])

lemma about_scans_ok: "about {TScans} scans_ok"
  by (simp add: about_def scans_ok_def)

lemma about_sources_ok: "about {TSources} sources_ok"
  by (simp add: about_def sources_ok_def)

lemma about_imports_ok: "about {TJobImports} imports_ok"
  by (simp add: about_def imports_ok_def)

lemma keeps_import_state:
  assumes w: "obeys (only W) m"
    and "TJobs \<in> W \<or> TJobSources \<in> W \<Longrightarrow> obeys (keeps jobs_ok) m"
    and "TScans \<in> W \<or> TSources \<in> W \<Longrightarrow> obeys (keeps (\<lambda>s. scans_ok s \<and> sources_ok s)) m"
    and "TJobImports \<in> W \<Longrightarrow> obeys (keeps imports_ok) m"
  shows "obeys (keeps import_state_ok) m"
proof -
  have part: "obeys (keeps I) m" if "about V I" "V \<inter> W \<noteq> {} \<Longrightarrow> obeys (keeps I) m" for V I
    using about_keeps [OF that(1) w] that(2) by blast
  have "obeys (keeps jobs_ok) m" "obeys (keeps (\<lambda>s. scans_ok s \<and> sources_ok s)) m" "obeys (keeps imports_ok) m"
    using assms(2-) by (blast intro: part about_jobs_ok about_conj [OF about_scans_ok about_sources_ok] about_imports_ok)+
  then show ?thesis by (simp add: obeys_def keeps_def import_state_ok_def discovery_ok_def)
qed

lemma keeps_sources:
  "obeys (keeps import_state_ok) (createSource E ws user k c)"
  "obeys (keeps import_state_ok) (patchSource E ws user i p)"
proof -
  have frame: "obeys (keeps (\<lambda>s. scans_ok s \<and> sources_ok s)) m"
    if "obeys (only {TSources, TAuditEvents}) m" "obeys (keeps sources_ok) m" for m :: "(db, 'x) handler"
    using about_keeps [OF about_scans_ok that(1)] that(2) by (simp add: obeys_def keeps_def)
  have "obeys (keeps sources_ok) (createSource E ws user k c)"
    by (rule keeps_wp) (rule wp_mono [OF create_source_wp], simp_all)
  then show "obeys (keeps import_state_ok) (createSource E ws user k c)"
    by (intro keeps_import_state [OF writes_sources(2)] frame writes_sources) simp_all
  have "obeys (keeps sources_ok) (patchSource E ws user i p)"
    by (rule keeps_wp) (rule wp_mono [OF patch_source_wp], simp_all)
  then show "obeys (keeps import_state_ok) (patchSource E ws user i p)"
    by (intro keeps_import_state [OF writes_sources(3)] frame writes_sources) simp_all
qed

lemma length_filter_twice: "length (filter P (filter Q xs)) \<le> length (filter P xs)"
  by (induction xs) auto

lemma without_source_ok:
  assumes "jobs_ok s" and "scans_ok s" and "sources_ok s"
  shows "jobs_ok (without_source ws i s)" and "scans_ok (without_source ws i s)" and "sources_ok (without_source ws i s)"
proof -
  let ?f = "\<lambda>r. r \<lparr> js_source_id := None \<rparr>"
  let ?rows = "scoped_update js_workspace_id ws (\<lambda>r. js_source_id r = Some i) ?f (job_sources s)"
  have "map js_id ?rows = map js_id (job_sources s)" "map provenance_key ?rows = map provenance_key (job_sources s)"
    by (simp_all add: map_scoped_update provenance_key_def)
  moreover have check: "provenance_check (?f r) = provenance_check r" for r by (simp add: provenance_check_def cong: option.case_cong)
  have "provenance_check r \<and> find_job (js_workspace_id r) (js_job_id r) s \<noteq> None" if "r \<in> set ?rows" for r
    using that assms(1) check by (auto simp: scoped_update_def jobs_ok_def list_all_iff)
  ultimately show "jobs_ok (without_source ws i s)"
    using assms(1) by (auto simp: jobs_ok_def without_source_def list_all_iff find_job_def)
  have "length (filter (\<lambda>r. sn_source_id r = k \<and> in_flight r) (filter P (scans s))) \<le> 1" for k P
  proof (rule order_trans [OF length_filter_twice])
    show "length (filter (\<lambda>r. sn_source_id r = k \<and> in_flight r) (scans s)) \<le> 1"
      using assms(2) by (simp add: scans_ok_def)
  qed
  then show "scans_ok (without_source ws i s)"
    using assms(2) by (simp add: scans_ok_def without_source_def distinct_map_filter)
  show "sources_ok (without_source ws i s)"
    using assms(3) by (auto simp: sources_ok_def without_source_def distinct_map_filter list_all_iff)
qed

lemma ledger_discovery [simp]:
  "jobs_ok (audit_events_update f s) = jobs_ok s" "jobs_ok (deletion_ledger_update g s) = jobs_ok s"
  "scans_ok (audit_events_update f s) = scans_ok s" "scans_ok (deletion_ledger_update g s) = scans_ok s"
  "sources_ok (audit_events_update f s) = sources_ok s" "sources_ok (deletion_ledger_update g s) = sources_ok s"
  by (simp_all add: jobs_ok_def scans_ok_def sources_ok_def find_job_def)

lemma keeps_deleteSource: "obeys (keeps import_state_ok) (deleteSource ws user i)"
proof -
  let ?I = "\<lambda>s. jobs_ok s \<and> scans_ok s \<and> sources_ok s"
  have "obeys (keeps ?I) (deleteSource ws user i)"
    by (rule keeps_wp)
       (auto simp: deleteSource_def recordDeletion_def without_source_ok split: option.split)
  moreover have "obeys (keeps imports_ok) (deleteSource ws user i)"
    by (rule about_keeps [OF about_imports_ok writes_sources(4)]) simp
  ultimately show ?thesis by (simp add: obeys_def keeps_def import_state_ok_def discovery_ok_def)
qed

lemma keeps_startScan:
  assumes "find_source (so_workspace_id src) (so_id src) s = Some src" and "scans_ok s \<and> sources_ok s"
  shows "wp (startScan E (so_workspace_id src) rnd i j src key) (\<lambda>_ s. scans_ok s \<and> sources_ok s) (\<lambda>_ s. scans_ok s \<and> sources_ok s) s"
  by (rule wp_mono [OF start_scan_wp]) (use assms in simp_all)

lemma source_by_id:
  assumes "sources_ok s" and "find (\<lambda>r. so_id r = i) (sources s) = Some r"
  shows "find_source (so_workspace_id r) (so_id r) s = Some r"
proof -
  have r: "r \<in> set (sources s)" "so_id r = i" using find_SomeD [OF assms(2)] by simp_all
  have "distinct (map so_id (sources s))" using assms(1) by (simp add: sources_ok_def)
  from scoped_find_key [OF r(1) refl this] show ?thesis by (simp add: find_source_def)
qed

lemma wp_skip_conflict: "wp m (\<lambda>_. I) (\<lambda>_. I) s \<Longrightarrow> wp (skip_conflict m) (\<lambda>_. I) (\<lambda>_. I) s"
  by (auto simp: wp_def skip_conflict_def split: prod.splits sum.splits)

lemma keeps_scans:
  "obeys (keeps import_state_ok) (scanSource E ws user rnd i j header body src)"
  "obeys (keeps import_state_ok) (scheduleDueScans E rnds ids n)"
proof -
  let ?I = "\<lambda>s. scans_ok s \<and> sources_ok s"
  have replay: "?I (store_replay E ws route key hash out s) = ?I s" for route key hash out s
    by (simp add: scans_ok_def sources_ok_def store_replay_def split: option.split)
  have scan: "wp (transaction (andThen (lockSource ws src) (\<lambda>source.
       andThen (startScan E ws rnd i j source key) (\<lambda>started.
       andThen (recordAuditEvent ws a b (c started) d (m source)) (\<lambda>_. ret (out started)))))) (\<lambda>_. ?I) (\<lambda>_. ?I) s"
    if "?I s" for key a b c d m out s
  proof -
    have "wp (startScan E ws rnd i j source key) (\<lambda>_. ?I) (\<lambda>_. ?I) s" if "find_source ws src s = Some source" for source
    proof -
      have "so_workspace_id source = ws" "so_id source = src"
        using that by (auto simp: find_source_def dest!: scoped_find_SomeD)
      then show ?thesis using keeps_startScan [of source s E rnd i j key] that \<open>?I s\<close> by simp
    qed
    then show ?thesis using that by (auto split: option.split elim!: wp_mono)
  qed
  have "obeys (keeps ?I) (scanSource E ws user rnd i j header body src)"
  proof -
    have inner: "obeys (keeps ?I) (transaction (andThen (lockSource ws src) (\<lambda>source.
       andThen (startScan E ws rnd i j source key) (\<lambda>started.
       andThen (recordAuditEvent ws a b (c started) d (m source)) (\<lambda>_. ret (out started))))))" for key a b c d m out
      by (rule keeps_wp) (rule scan)
    have idem: "obeys (keeps ?I) h \<Longrightarrow> obeys (keeps ?I) (withIdempotency E ws header body route h)" for h route
      unfolding withIdempotency_def Let_def
      by (intro inv.obeys_rules inv.obeys_modify) (use replay in \<open>auto simp: keeps_def\<close>)
    show ?thesis
      unfolding scanSource_def loadSource_def by (intro inv.obeys_rules idem inner)
  qed
  then show "obeys (keeps import_state_ok) (scanSource E ws user rnd i j header body src)"
    by (intro keeps_import_state [OF writes_scans(1)]) simp_all
  have "obeys (keeps ?I) (schedule_one E rnds ids k)" for k
  proof (rule keeps_wp)
    fix s
    assume ok: "?I s"
    have "wp (startScan E (so_workspace_id source) (rnds k) (fst (ids k)) (snd (ids k)) source None) (\<lambda>_. ?I) (\<lambda>_. ?I) s"
      if "find (\<lambda>r. so_id r = k) (sources s) = Some source" for source
      using source_by_id [OF _ that] ok by (intro keeps_startScan) simp_all
    then show "wp (schedule_one E rnds ids k) (\<lambda>_. ?I) (\<lambda>_. ?I) s"
      using ok by (auto simp: schedule_one_def split: option.split intro!: wp_mono [OF wp_skip_conflict])
  qed
  then have "obeys (keeps ?I) (scheduleDueScans E rnds ids n)"
    unfolding scheduleDueScans_def by (intro inv.obeys_rules)
  then show "obeys (keeps import_state_ok) (scheduleDueScans E rnds ids n)"
    by (intro keeps_import_state [OF writes_scans(2)]) simp_all
qed

lemma keeps_jobs:
  "obeys (keeps import_state_ok) (importJob E ws user i k header body b)"
  "obeys (keeps import_state_ok) (patchJob E ws user i p)"
proof -
  have insert: "obeys (keeps imports_ok) (insert_job_import (new_job_import E ws i input))" for input
    by (rule keeps_wp) (auto simp: insert_job_import_def imports_ok_def insert_row_def import_checks)
  have update: "obeys (keeps imports_ok) (update_job_import ws (\<lambda>r. jm_id r = i) (\<lambda>r. r \<lparr> jm_task_id := t, jm_updated_at := u \<rparr>))" for t u
    unfolding update_job_import_def
    by (rule inv.obeys_modify) (auto simp: keeps_def import_check_def intro!: imports_ok_update)
  have other: "obeys (only {TTasks, TAuditEvents, TIdempotencyRecords}) m \<Longrightarrow> obeys (keeps imports_ok) m" for m :: "(db, 'x) handler"
    by (erule about_keeps [OF about_imports_ok]) simp
  have idem: "obeys (keeps imports_ok) h \<Longrightarrow> obeys (keeps imports_ok) (withIdempotency E ws header body route h)" for h route
    unfolding withIdempotency_def Let_def
    by (intro inv.obeys_rules inv.obeys_modify) (simp_all add: keeps_def imports_ok_def store_replay_def split: option.split)
  have "obeys (keeps imports_ok) (importJob E ws user i k header body b)"
    unfolding importJob_def Let_def
    by (intro inv.obeys_rules idem insert update other [OF writes_enqueue] other [OF writes_audit]) simp_all
  then show "obeys (keeps import_state_ok) (importJob E ws user i k header body b)"
    by (intro keeps_import_state [OF writes_jobs(1)]) simp_all
  have "obeys (keeps jobs_ok) (patchJob E ws user i p)"
    by (rule keeps_wp, rule wp_mono [OF patch_job_wp]) auto
  then show "obeys (keeps import_state_ok) (patchJob E ws user i p)"
    by (intro keeps_import_state [OF writes_jobs(4)]) simp_all
qed

section \<open>Profiles and resumes\<close>

lemma ensure_profile_ok:
  assumes "profile_ok s"
  shows "wp (ensureProfile ws i l) (\<lambda>p s'. profile_ok s' \<and> find_profile ws s' = Some p \<and> profile_imports s' = profile_imports s)
    (\<lambda>_ s'. s' = s) s"
proof (cases "find_profile ws s")
  case (Some p)
  then show ?thesis using assms by (simp add: ensureProfile_def)
next
  case None
  let ?p = "new_profile ws i l"
  let ?s = "profiles_update (insert_row ?p) s"
  have new: "find_profile w ?s = (if w = ws then Some ?p else find_profile w s)" for w
    using None by (auto simp: find_profile_def scoped_find_def insert_row_def find_append new_profile_def split: option.split)
  have fresh: "ws \<notin> pr_workspace_id ` set (profiles s)"
    using None by (auto simp: find_profile_def scoped_find_None)
  have "profile_ok ?s" if id: "i \<notin> pr_id ` set (profiles s)"
  proof -
    have "facts_ok (reached s) s" using assms by (simp add: profile_ok_def)
    then have "facts_ok (reached ?s) ?s"
      using None by (fastforce simp: facts_ok_def fact_check_def new reached_def split: option.splits)
    then show ?thesis
      using assms id fresh
      by (simp add: profile_ok_def insert_row_def) (simp add: new_profile_def profile_check_def)
  qed
  then show ?thesis using None new by (auto simp: ensureProfile_def)
qed

lemma keeps_ensure: "obeys (keeps profile_ok) (ensureProfile ws i l)"
  by (rule keeps_wp, rule wp_mono [OF ensure_profile_ok]) auto

lemma keeps_profile_other: "obeys (only {TProfileImports, TTasks, TAuditEvents, TIdempotencyRecords}) m \<Longrightarrow> obeys (keeps profile_ok) m"
  by (erule about_keeps [OF about_profile_ok]) simp

text \<open>A handler that begins by creating a missing profile behaves as on a database that has it.\<close>

lemma wp_ensured:
  assumes ok: "profile_ok s" and err: "\<And>e. F e s"
    and found: "\<And>p u. profile_ok u \<Longrightarrow> find_profile ws u = Some p \<Longrightarrow> profile_imports u = profile_imports s \<Longrightarrow>
      wp (andThen (ensureProfile ws i l) k) Q F u"
  shows "wp (andThen (ensureProfile ws i l) k) Q F s"
  unfolding wp_andThen
proof (rule wp_mono [OF ensure_profile_ok [OF ok]])
  fix p u
  assume u: "profile_ok u \<and> find_profile ws u = Some p \<and> profile_imports u = profile_imports s"
  then have "ensureProfile ws i l u = (Inr p, u)" by (simp add: ensureProfile_def andThen_def gets_def ret_def)
  then show "wp (k p) Q F u" using found [of u p] u by (simp add: wp_def)
qed (use err in simp)

lemma keeps_patchProfile: "obeys (keeps profile_ok) (patchProfile E ws user i ids b)"
proof (rule keeps_wp)
  fix s
  assume ok: "profile_ok s"
  show "wp (patchProfile E ws user i ids b) (\<lambda>_. profile_ok) (\<lambda>_. profile_ok) s"
    unfolding patchProfile_def
    by (rule wp_ensured [OF ok], rule ok, fold patchProfile_def, rule wp_mono [OF patch_profile_wp]) auto
qed

lemma keeps_getProfile: "obeys (keeps profile_ok) (getProfile ws k)"
  unfolding getProfile_def by (intro inv.obeys_rules keeps_ensure)

lemma keeps_confirm: "obeys (keeps profile_ok) (confirm_transaction E ws user ids row stored b)"
proof (rule keeps_wp)
  fix s
  assume ok: "profile_ok s"
  show "wp (confirm_transaction E ws user ids row stored b) (\<lambda>_. profile_ok) (\<lambda>_. profile_ok) s"
  proof (cases "find_profile ws s")
    case None
    then show ?thesis using ok by (simp add: confirm_transaction_def lockProfile_def)
  next
    case (Some p)
    show ?thesis by (rule wp_mono [OF confirm_wp [OF ok Some]]) (use ok in auto)
  qed
qed

lemma keeps_profile_imports:
  "obeys (keeps profile_ok) (createProfileImport E ws user p i t header body c)"
  "obeys (keeps profile_ok) (getProfileImport ws p i)"
  "obeys (keeps profile_ok) (confirmProfileImport E ws user p ids i r)"
proof -
  have "profile_ok (store_replay E ws route key hash out s) = profile_ok s" for route key hash out s
    by (rule profile_ok_cong) (simp_all add: store_replay_def split: option.split)
  then have replay: "obeys (keeps profile_ok) (modify (store_replay E ws route key hash out))" for route key hash out
    by (intro inv.obeys_modify) (simp add: keeps_def)
  have idem: "obeys (keeps profile_ok) h \<Longrightarrow> obeys (keeps profile_ok) (withIdempotency E ws header body route h)" for h route
    unfolding withIdempotency_def Let_def by (intro inv.obeys_rules replay)
  show "obeys (keeps profile_ok) (createProfileImport E ws user p i t header body c)"
    unfolding createProfileImport_def import_source_def Let_def insert_import_def update_import_def
    by (intro inv.obeys_rules keeps_ensure idem keeps_profile_other [OF writes_enqueue] keeps_profile_other [OF writes_audit]
        keeps_profile_other [OF writes_modify] only_update) simp_all
  show "obeys (keeps profile_ok) (getProfileImport ws p i)"
    unfolding getProfileImport_def findImport_def by (intro inv.obeys_rules keeps_ensure)
  show "obeys (keeps profile_ok) (confirmProfileImport E ws user p ids i r)"
    unfolding confirmProfileImport_def findImport_def by (intro inv.obeys_rules keeps_ensure keeps_confirm)
qed

lemma keeps_imports_parsed:
  "obeys (keeps imports_parsed) (createProfileImport E ws user p i t header body c)"
  "obeys (keeps imports_parsed) (confirmProfileImport E ws user p ids i r)"
proof -
  have other: "obeys (only {TProfiles, TProfileFacts, TTasks, TAuditEvents, TIdempotencyRecords}) m \<Longrightarrow> obeys (keeps imports_parsed) m" for m :: "(db, 'x) handler"
    by (erule about_keeps [OF about_imports_parsed]) simp
  have idem: "obeys (keeps imports_parsed) h \<Longrightarrow> obeys (keeps imports_parsed) (withIdempotency E ws header body route h)" for h route
    unfolding withIdempotency_def Let_def
    by (intro inv.obeys_rules inv.obeys_modify) (simp_all add: keeps_def imports_parsed_def store_replay_def split: option.split)
  have insert: "obeys (keeps imports_parsed) (insert_import (new_import E ws i source hint))" for source hint
    by (rule keeps_wp) (auto simp: insert_import_def imports_parsed_def insert_row_def drafts_ok_def new_import_def)
  show "obeys (keeps imports_parsed) (createProfileImport E ws user p i t header body c)"
    unfolding createProfileImport_def import_source_def Let_def
    by (intro inv.obeys_rules other [OF writes_ensureProfile] idem insert other [OF writes_enqueue] other [OF writes_audit]
        keeps_update_import) (simp_all add: drafts_ok_def)
  have confirm: "obeys (keeps imports_parsed) (confirm_transaction E ws user ids row stored b)" for row stored b
    unfolding confirm_transaction_def assertProfileRevision_def closeImport_def confirm_audit_def syncConfirmedContact_def Let_def
    by (intro inv.obeys_rules other [OF writes_lockProfile] other [OF writes_audit] keeps_update_import
        other [OF writes_mono [OF writes_promote_each]] other [OF writes_mono [OF writes_fact_updates(4)]])
       (simp_all add: drafts_ok_def closed_import_def)
  show "obeys (keeps imports_parsed) (confirmProfileImport E ws user p ids i r)"
    unfolding confirmProfileImport_def findImport_def
    by (intro inv.obeys_rules other [OF writes_ensureProfile] confirm) simp
qed

lemma keeps_resumes:
  "obeys (keeps resumes_ok) (createResume E ws user i k header body b)"
  "obeys (keeps resumes_ok) (approveResume E ws user i approved)"
proof -
  have other: "obeys (only queue_tables) m \<Longrightarrow> obeys (keeps resumes_ok) m" for m :: "(db, 'x) handler"
    by (erule about_keeps [OF about_resumes_ok]) simp
  have idem: "obeys (keeps resumes_ok) h \<Longrightarrow> obeys (keeps resumes_ok) (withIdempotency E ws header body route h)" for h route
    unfolding withIdempotency_def Let_def
    by (intro inv.obeys_rules inv.obeys_modify) (simp_all add: keeps_def resumes_ok_def store_replay_def split: option.split)
  have insert: "obeys (keeps resumes_ok) (insert_resume r)" for r
    by (rule keeps_wp) (auto simp: insert_resume_def resumes_ok_def insert_row_def)
  show "obeys (keeps resumes_ok) (createResume E ws user i k header body b)"
    unfolding createResume_def Let_def readResumeContext_def requested_job_def check_input_file_def
    by (intro inv.obeys_rules idem insert other [OF writes_preferences] other [OF writes_enqueue] other [OF writes_audit]
        other [OF writes_requireJob] keeps_update_resume) simp_all
  show "obeys (keeps resumes_ok) (approveResume E ws user i approved)"
    by (rule keeps_wp, rule wp_mono [OF approve_resume_wp]) auto
qed

section \<open>Fills and sessions\<close>

lemma keeps_fills:
  "obeys (keeps (db_ok sha)) (fillApplication E ws user k header body i b)"
  "obeys (keeps (db_ok sha)) (observeApplication E ws user k header body i c)"
  by (rule keeps_wp, rule wp_mono [OF fill_wp], auto)
     (rule keeps_wp, rule wp_mono [OF observe_wp], auto)

lemma keeps_session_routes:
  "obeys (keeps (db_ok sha)) (createFillSession E protocol who k nonce b)"
  "obeys (keeps (db_ok sha)) (listFillTargets E protocol who)"
  "obeys (keeps (db_ok sha)) (getFillSession E protocol who key i)"
  "obeys (keeps (db_ok sha)) (downloadFillSessionResume E can_open protocol who key i)"
  "obeys (keeps (db_ok sha)) (reportFillSession E protocol who key i r)"
  "obeys (keeps (db_ok sha)) (endFillSession E protocol who key i)"
  "obeys (keeps (db_ok sha)) (reportFillSessionObservation E protocol who i x)"
  by (rule keeps_wp, erule db_ok_session_writes db_ok_listFillTargets db_ok_session_reads)+

end
