(* ===== verification/History.thy ===== *)
theory History
  imports RouteFrames
begin

text \<open>
  The status column against the history.  The events of an application are a log of its
  status changes; replaying the log gives the status the table holds, and every change
  the log records is a walk along the allowed transitions.
\<close>

section \<open>Replaying a history\<close>

definition replay_event :: "application_event_row \<Rightarrow> application_status option \<Rightarrow> application_status option" where
  "replay_event e st = (case e_status_after e of None \<Rightarrow> st | Some x \<Rightarrow> Some x)"

definition replay :: "application_event_row list \<Rightarrow> application_status option" where
  "replay es = fold replay_event es None"

definition lawful_event :: "application_event_row \<Rightarrow> bool" where
  "lawful_event e \<longleftrightarrow>
     (case (e_status_before e, e_status_after e) of
        (_, None) \<Rightarrow> True
      | (None, Some x) \<Rightarrow> x = Draft
      | (Some y, Some x) \<Rightarrow> \<exists>path. allowed_path y path \<and> last (y # path) = x)"

text \<open>The abstraction: what the history says of every application is what the table says.\<close>

definition explained :: "db \<Rightarrow> bool" where
  "explained s \<longleftrightarrow>
     distinct (map a_id (applications s)) \<and>
     (\<forall>ws a. replay (events_of ws a s) = map_option a_status (find_application ws a s)) \<and>
     list_all lawful_event (application_events s)"

lemma about_explained: "about {TApplications, TApplicationEvents} explained"
  by (simp add: about_def explained_def events_of_def find_application_def)

lemma keeps_explained_other: "obeys (only (- {TApplications, TApplicationEvents})) m \<Longrightarrow> obeys (keeps explained) m"
  by (erule about_keeps [OF about_explained]) simp

lemma events_of_insert:
  "events_of w a (application_events_update (insert_row e) s) =
     events_of w a s @ (if e_workspace_id e = w \<and> e_application_id e = a then [e] else [])"
  by (simp add: events_of_def scoped_filter_def insert_row_def)

lemma replay_snoc [simp]: "replay (es @ [e]) = replay_event e (replay es)"
  by (simp add: replay_def)

lemma event_row_simps [simp]:
  "e_workspace_id (event_row E ws a ev s) = ws" "e_application_id (event_row E ws a ev s) = a"
  "e_status_before (event_row E ws a ev s) = ev_status_before ev" "e_status_after (event_row E ws a ev s) = ev_status_after ev"
  by (simp_all add: event_row_def)

lemma stamp_simps [simp]:
  "ev_status_before ev = None \<Longrightarrow> ev_status_before (stamp_event app path ev) = Some (a_status app)"
  "ev_status_after ev = None \<Longrightarrow> ev_status_after (stamp_event app path ev) = Some (final_status app path)"
  by (simp_all add: stamp_event_def)

text \<open>A note changes nothing.\<close>

lemma explained_note:
  assumes "explained s" and "e_status_after e = None"
  shows "explained (application_events_update (insert_row e) s)"
  using assms
  by (auto simp: explained_def events_of_insert replay_event_def find_application_def lawful_event_def insert_row_def
      split: option.splits)

lemma keeps_explained_append:
  "ev_status_after ev = None \<Longrightarrow> obeys (keeps explained) (appendApplicationEvent E ws a ev)"
  unfolding appendApplicationEvent_def
  by (rule inv.obeys_modify) (simp add: keeps_def explained_note)

text \<open>A status change is written to both sides.\<close>

lemma update_by_key:
  assumes "distinct (map key rows)" and "r \<in> set rows" and "P r" and "\<And>q. P q \<Longrightarrow> key q = key r"
  shows "scoped_update owner ws P f rows = scoped_update owner ws (\<lambda>q. key q = key r) f rows"
proof -
  have "P q \<longleftrightarrow> key q = key r" if "q \<in> set rows" for q
    using assms(2-4) that inj_onD [of key "set rows" q r] assms(1) unfolding distinct_map by blast
  then show ?thesis unfolding scoped_update_def by (intro map_cong refl) auto
qed

lemma explained_change:
  assumes ok: "explained s" and row: "r \<in> set (applications s)" "a_workspace_id r = ws" "P r"
    and one: "\<And>q. P q \<Longrightarrow> a_id q = a_id r"
    and f: "\<And>q. a_id (f q) = a_id q" "\<And>q. a_workspace_id (f q) = a_workspace_id q" "\<And>q. a_status (f q) = st"
    and e: "e_workspace_id e = ws" "e_application_id e = a_id r" "e_status_after e = Some st" "lawful_event e"
  shows "explained (application_events_update (insert_row e) (applications_update (scoped_update a_workspace_id ws P f) s))"
proof -
  let ?s = "application_events_update (insert_row e) (applications_update (scoped_update a_workspace_id ws P f) s)"
  let ?t = "applications_update (scoped_update a_workspace_id ws (\<lambda>q. a_id q = a_id r) f) s"
  have distinct: "distinct (map a_id (applications s))" using ok by (simp add: explained_def)
  have table: "applications ?s = applications ?t"
    using update_by_key [where P = P, OF distinct row(1,3)] one by simp
  have found: "find_application ws (a_id r) s = Some r"
    using scoped_find_key [where owner = a_workspace_id and key = a_id, OF row(1,2) distinct] by (simp add: find_application_def)
  have find: "find_application w a ?s = (if w = ws \<and> a = a_id r then Some (f r) else find_application w a s)" for w a
    using application_table.lookup_update [of f ws "a_id r" s r] found
      application_table.lookup_update_other [of f a "a_id r" w ws s] f table
    by (auto simp: find_application_def)
  have log: "events_of w a ?s = events_of w a s @ (if w = ws \<and> a = a_id r then [e] else [])" for w a
    using e by (auto simp: events_of_def scoped_filter_def insert_row_def)
  have "distinct (map a_id (applications ?s))" using distinct f(1) by (simp add: map_scoped_update)
  moreover have "replay (events_of w a ?s) = map_option a_status (find_application w a ?s)" for w a
    using ok by (auto simp: log find replay_event_def e f(3) explained_def)
  moreover have "list_all lawful_event (application_events ?s)"
    using ok e(4) by (simp add: explained_def insert_row_def)
  ultimately show ?thesis by (simp add: explained_def)
qed

lemma keeps_explained_transition:
  assumes "ev_status_before ev = None" and "ev_status_after ev = None"
  shows "obeys (keeps explained) (transitionApplication E ws app path ev opts)"
proof (rule keeps_wp)
  fix s
  assume ok: "explained s"
  let ?patch = "patch_application E (final_status app path) (a_revision app + 1) opts"
  have "explained (application_events_update (insert_row (event_row E ws (a_id app) (stamp_event app path ev) u))
      (applications_update (scoped_update a_workspace_id ws (same_revision app) ?patch) s))"
    if "scoped_find a_workspace_id ws (same_revision app) (applications s) = Some r" "allowed_path (a_status app) path" for r u
  proof (rule explained_change [OF ok])
    show "r \<in> set (applications s)" "a_workspace_id r = ws" "same_revision app r"
      using scoped_find_SomeD [OF that(1)] by simp_all
    then have "a_id r = a_id app" by (simp add: same_revision_def)
    then show "a_id q = a_id r" if "same_revision app q" for q using that by (simp add: same_revision_def)
    show "e_application_id (event_row E ws (a_id app) (stamp_event app path ev) u) = a_id r" using \<open>a_id r = a_id app\<close> by simp
    show "lawful_event (event_row E ws (a_id app) (stamp_event app path ev) u)"
      using that(2) assms by (auto simp: lawful_event_def final_status_def)
  qed (simp_all add: patch_application_def assms)
  then show "wp (transitionApplication E ws app path ev opts) (\<lambda>_. explained) (\<lambda>_. explained) s"
    using ok by (auto simp: transitionApplication_def Let_def appendApplicationEvent_def split: option.split)
qed

section \<open>The handlers\<close>

named_theorems explained_steps \<open>handlers that keep the history and the status in step\<close>

lemma plain_event [simp]:
  "ev_status_before (event ty actor reason data) = None" "ev_status_after (event ty actor reason data) = None"
  by (simp_all add: event_def)

lemma other_event [simp]:
  "ev_status_before (fill_requested_event p extra n) = None" "ev_status_after (fill_requested_event p extra n) = None"
  "ev_status_before (packet_created_event i rv answers r) = None" "ev_status_after (packet_created_event i rv answers r) = None"
  "ev_status_before (approved_event p x) = None" "ev_status_after (approved_event p x) = None"
  "ev_status_before (report_event row b) = None" "ev_status_after (report_event row b) = None"
  by (simp_all add: fill_requested_event_def packet_created_event_def approved_event_def report_event_def
      Let_def)

lemma keeps_explained_modify: "(\<And>s. only (- {TApplications, TApplicationEvents}) s (f s)) \<Longrightarrow> obeys (keeps explained) (modify f)"
  by (intro keeps_explained_other writes_modify)

lemmas explained_other = table_steps [THEN keeps_explained_other]

lemma keeps_explained_idempotent:
  "obeys (keeps explained) h \<Longrightarrow> obeys (keeps explained) (withIdempotency E ws header body route h)"
proof -
  assume h: "obeys (keeps explained) h"
  have "keeps explained s (store_replay E ws route key hash out s)" for key hash out s
    by (simp add: keeps_def explained_def events_of_def find_application_def store_replay_def split: option.split)
  then show ?thesis
    unfolding withIdempotency_def Let_def using h by (intro inv.obeys_rules inv.obeys_modify)
qed

lemma keeps_explained_reconcile [explained_steps]: "obeys (keeps explained) (reconcileApplications E ws cs)"
  unfolding reconcileApplications_def reconcile_one_def withdraw_packet_approval_def Let_def
  by (intro inv.obeys_rules keeps_explained_modify only_update keeps_explained_transition) simp_all

lemma keeps_explained_load [explained_steps]: "obeys (keeps explained) (load_reconciled E ws app)"
  unfolding load_reconciled_def loadApplicationContexts_def by (intro inv.obeys_rules keeps_explained_reconcile)

lemma keeps_explained_reads [explained_steps]:
  "obeys (keeps explained) (getApplication E ws i)"
  "obeys (keeps explained) (listApplications E ws status job cursor n)"
  "obeys (keeps explained) (listApplicationEvents ws i c n)"
  unfolding getApplication_def listApplications_def listApplicationEvents_def renderApplication_def requireApplication_def
    loadApplicationContexts_def Let_def
  by (intro inv.obeys_rules keeps_explained_load keeps_explained_reconcile)+

lemma explained_insert:
  assumes ok: "explained s" and fresh: "a_id r \<notin> a_id ` set (applications s)" and r: "a_status r = Draft"
    and e: "e_workspace_id e = a_workspace_id r" "e_application_id e = a_id r" "e_status_before e = None" "e_status_after e = Some Draft"
  shows "explained (application_events_update (insert_row e) (applications_update (insert_row r) s))"
proof -
  let ?s = "application_events_update (insert_row e) (applications_update (insert_row r) s)"
  have none: "find_application w (a_id r) s = None" for w
    unfolding find_application_def scoped_find_None using fresh by (metis image_eqI)
  have find: "find_application w a ?s = (if w = a_workspace_id r \<and> a = a_id r then Some r else find_application w a s)" for w a
    using none [of w] by (auto simp: find_application_def scoped_find_def insert_row_def find_append split: option.splits)
  have log: "events_of w a ?s = events_of w a s @ (if w = a_workspace_id r \<and> a = a_id r then [e] else [])" for w a
    using e by (auto simp: events_of_def scoped_filter_def insert_row_def)
  have "replay (events_of w a ?s) = map_option a_status (find_application w a ?s)" for w a
    using ok r by (auto simp: log find replay_event_def e explained_def)
  then show ?thesis using ok fresh e by (simp add: explained_def insert_row_def lawful_event_def)
qed

lemma keeps_explained_create [explained_steps]: "obeys (keeps explained) (createApplication E ws user k job)"
proof -
  have audit: "explained (audit_events_update f s) = explained s" for f s
    using about_explained only_update(10) [OF singletonI, of s f] unfolding about_def only_def by blast
  have insert: "obeys (keeps explained) (insert_application E ws user k job)" for job
  proof (rule keeps_wp)
    fix s
    assume ok: "explained s"
    have "explained (application_events_update (insert_row (event_row E ws k
        ((event EvCreated ActorUser None [(''job_id'', JStr job)]) \<lparr> ev_status_after := Some Draft \<rparr>) u))
        (applications_update (insert_row (new_application E ws k job)) s))"
      if "k \<notin> a_id ` set (applications s)" for u
      using that by (intro explained_insert [OF ok]) (simp_all add: new_application_def)
    then show "wp (insert_application E ws user k job) (\<lambda>_. explained) (\<lambda>_. explained) s"
      using ok by (auto simp: insert_application_def appendApplicationEvent_def audit split: option.split)
  qed
  then show ?thesis
    unfolding createApplication_def renderApplication_def by (intro inv.obeys_rules insert keeps_explained_load explained_other)
qed

lemma keeps_explained_packet [explained_steps]: "obeys (keeps explained) (createApplicationPacket E ws user k header body i b)"
proof -
  have answers: "obeys (keeps explained) (assertPacketAnswers E ws job answers)" for job answers
    using read_only_assertPacketAnswers [of E ws job answers] by (simp add: obeys_def same_def keeps_def)
  show ?thesis
    unfolding createApplicationPacket_def assertResumeUsable_def resolveDestination_def write_packet_def
      insert_packet_def requireApplication_def Let_def
    by (intro inv.obeys_rules answers keeps_explained_idempotent keeps_explained_transition explained_other keeps_explained_modify only_update)
       simp_all
qed

lemma keeps_explained_approve [explained_steps]: "obeys (keeps explained) (approveApplication E ws user i b)"
  unfolding approveApplication_def commit_approval_def renderApplication_def requireApplication_def Let_def
  by (intro inv.obeys_rules keeps_explained_load keeps_explained_transition explained_other keeps_explained_modify only_update) simp_all

lemma keeps_explained_outcome [explained_steps]: "obeys (keeps explained) (recordApplicationOutcome E ws user i b)"
  unfolding recordApplicationOutcome_def renderApplication_def requireApplication_def
  by (intro inv.obeys_rules keeps_explained_load keeps_explained_transition explained_other) simp_all

lemma keeps_explained_fills [explained_steps]:
  "obeys (keeps explained) (fillApplication E ws user k header body i b)"
  "obeys (keeps explained) (observeApplication E ws user k header body i c)"
  unfolding fillApplication_def observeApplication_def Let_def require_runner_def start_fill_def start_observation_def
    requireApplication_def packetAttachment_def requireDevice_def
  by (intro inv.obeys_rules keeps_explained_load keeps_explained_idempotent keeps_explained_transition explained_other; simp)+

lemma keeps_explained_observation [explained_steps]: "obeys (keeps explained) (applyObservation E ws app r extra)"
  unfolding applyObservation_def superseded_note_def Let_def
  by (intro inv.obeys_rules keeps_explained_append keeps_explained_transition) simp_all

lemma explained_same_status:
  assumes ok: "explained s" and f: "\<And>q. a_id (f q) = a_id q" "\<And>q. a_workspace_id (f q) = a_workspace_id q" "\<And>q. a_status (f q) = a_status q"
  shows "explained (applications_update (scoped_update a_workspace_id ws P f) s)"
proof -
  have "map_option a_status (find (\<lambda>r. a_workspace_id r = w \<and> a_id r = a) (scoped_update a_workspace_id ws P f rows)) =
      map_option a_status (find (\<lambda>r. a_workspace_id r = w \<and> a_id r = a) rows)" for w a rows
    using f by (induction rows) (auto simp: scoped_update_def)
  moreover have "map a_id (scoped_update a_workspace_id ws P f (applications s)) = map a_id (applications s)"
    by (rule map_scoped_update) (simp add: f)
  ultimately show ?thesis
    using ok by (simp add: explained_def find_application_def scoped_find_def events_of_def)
qed

lemma keeps_explained_form: "obeys (keeps explained) (record_observed_form E ws i fp)"
  unfolding record_observed_form_def
  by (cases fp) (auto intro!: inv.obeys_rules inv.obeys_modify explained_same_status simp: keeps_def)

lemma keeps_explained_results [explained_steps]:
  "obeys (keeps explained) (applyFillLocalResult E k task fr)"
  "obeys (keeps explained) (applyFillLocalFailure E task code message)"
  "obeys (keeps explained) (applyObserveConfirmationResult E task r)"
  "obeys (keeps explained) (applyObserveConfirmationFailure E task code message)"
  unfolding applyFillLocalResult_def applyFillLocalFailure_def applyObserveConfirmationResult_def
    applyObserveConfirmationFailure_def superseded_note_def writeDiscoveredPacket_def insert_packet_def
    withdraw_packet_approval_def Let_def
  by (cases "t_payload task";
      auto intro!: inv.obeys_rules keeps_explained_form keeps_explained_append keeps_explained_transition
        keeps_explained_observation keeps_explained_modify only_update)+

lemma keeps_explained_case [intro]: "(\<And>a b. obeys (keeps I) (k a b)) \<Longrightarrow> obeys (keeps I) (case x of (a, b) \<Rightarrow> k a b)"
  by (cases x) simp

lemma explained_reads:
  "obeys (keeps explained) (requireApplication ws i)"
  "obeys (keeps explained) (requireFillablePacket E ws i rv)"
  "obeys (keeps explained) (requireExtension d)"
  "obeys (keeps explained) (loadSession ws i dev)"
  "obeys (keeps explained) (verifyNonce E header row)"
  "obeys (keeps explained) (packetAttachment ws p)"
  "obeys (keeps explained) (requireDeviceScope protocol who)"
  "obeys (keeps explained) (loadApplicationContexts E ws rows)"
  "obeys (keeps explained) (requireDevice ws i)"
  unfolding requireApplication_def requireFillablePacket_def requireExtension_def requireDeviceScope_def requireSupportedProtocol_def
    loadSession_def verifyNonce_def packetAttachment_def loadApplicationContexts_def requireDevice_def Let_def
  by (auto intro!: inv.obeys_rules keeps_explained_case keeps_explained_load split: option.split principal.split)

lemmas session_explained = inv.obeys_rules keeps_explained_case explained_reads keeps_explained_load keeps_explained_reconcile
  keeps_explained_transition keeps_explained_observation keeps_explained_form explained_other keeps_explained_modify only_update

lemma keeps_explained_sessions [explained_steps]:
  "obeys (keeps explained) (createFillSession E protocol who k nonce b)"
  "obeys (keeps explained) (listFillTargets E protocol who)"
  "obeys (keeps explained) (getFillSession E protocol who key i)"
  "obeys (keeps explained) (downloadFillSessionResume E can_open protocol who key i)"
  "obeys (keeps explained) (reportFillSession E protocol who key i r)"
  "obeys (keeps explained) (endFillSession E protocol who key i)"
  "obeys (keeps explained) (reportFillSessionObservation E protocol who i x)"
  unfolding createFillSession_def listFillTargets_def getFillSession_def downloadFillSessionResume_def reportFillSession_def
    endFillSession_def reportFillSessionObservation_def open_session_def supersede_expired_def insert_session_def
    commit_report_def awaitingSubmission_def commit_look_def Let_def
  by (intro session_explained; simp?)+

end
