(* ===== verification/Api.thy ===== *)
theory Api
  imports History
begin

text \<open>
  The API as a whole: every call a person, a paired device, a worker or the scheduler can
  make, one transition relation over them, and what holds in every database the calls can
  reach.  Fresh identifiers, secrets, random numbers and the clock are chosen by the step.
\<close>

section \<open>Calls\<close>

text \<open>The routes behind a session.  Identifiers and secrets that the handler draws come
  first, then the parameters of the request.\<close>

datatype application_call =
    ListApplications "application_status option" "uuid option" "(timestamp \<times> uuid) option" "nat option"
  | GetApplication uuid
  | ListApplicationEvents uuid "int option" "nat option"
  | CreateApplication uuid uuid
  | CreatePacket uuid "string option" json uuid create_packet_request
  | ApproveApplication uuid approve_request
  | RecordOutcome uuid outcome_request
  | FillApplication uuid "string option" json uuid fill_application_request
  | ObserveApplication uuid "string option" json uuid observe_application_request
  | PutAnswer uuid answer_bank_put_request
  | DeleteAnswer uuid

datatype discovery_call =
    ImportJob uuid uuid "string option" json job_import_request
  | ListJobs jobs_query
  | GetJob uuid
  | PatchJob uuid patch_job_request
  | RequestMatch uuid "string option" json uuid
  | ListSources
  | CreateSource uuid create_source_request
  | PatchSource uuid patch_source_request
  | DeleteSource uuid
  | RequestScan rat uuid uuid "string option" json uuid
  | GetScan uuid

datatype profile_call =
    CreateResume uuid uuid "string option" json create_resume_request
  | ListResumes "uuid option" "resume_status option" "(timestamp \<times> uuid) option" "nat option"
  | GetResume uuid
  | ApproveResume uuid bool
  | GetProfile uuid
  | PatchProfile uuid "nat \<Rightarrow> uuid" profile_patch_request
  | CreateProfileImport uuid uuid uuid "string option" json create_import_request
  | GetProfileImport uuid uuid
  | ConfirmProfileImport uuid "nat \<Rightarrow> uuid" uuid confirm_import_request

datatype workspace_call =
    CreatePairing uuid string create_pairing_request
  | RevokeDevice uuid
  | CancelTask uuid

datatype user_call =
    ApplicationCall application_call
  | DiscoveryCall discovery_call
  | ProfileCall profile_call
  | WorkspaceCall workspace_call

definition answered :: "(db, 'a) handler \<Rightarrow> (db, unit) handler" where
  "answered m = andThen m (\<lambda>_. ret ())"

fun run_application :: "env \<Rightarrow> uuid \<Rightarrow> uuid \<Rightarrow> application_call \<Rightarrow> (db, unit) handler" where
  "run_application E ws user (ListApplications status job cursor n) = answered (listApplications E ws status job cursor n)"
| "run_application E ws user (GetApplication i) = answered (getApplication E ws i)"
| "run_application E ws user (ListApplicationEvents i cursor n) = answered (listApplicationEvents ws i cursor n)"
| "run_application E ws user (CreateApplication k job) = answered (createApplication E ws user k job)"
| "run_application E ws user (CreatePacket k header body i b) = answered (createApplicationPacket E ws user k header body i b)"
| "run_application E ws user (ApproveApplication i b) = answered (approveApplication E ws user i b)"
| "run_application E ws user (RecordOutcome i b) = answered (recordApplicationOutcome E ws user i b)"
| "run_application E ws user (FillApplication k header body i b) = answered (fillApplication E ws user k header body i b)"
| "run_application E ws user (ObserveApplication k header body i b) = answered (observeApplication E ws user k header body i b)"
| "run_application E ws user (PutAnswer k b) = answered (putAnswerBankEntry E ws user k b)"
| "run_application E ws user (DeleteAnswer i) = answered (deleteAnswerBankEntry ws user i)"

fun run_discovery :: "env \<Rightarrow> uuid \<Rightarrow> uuid \<Rightarrow> discovery_call \<Rightarrow> (db, unit) handler" where
  "run_discovery E ws user (ImportJob i k header body b) = answered (importJob E ws user i k header body b)"
| "run_discovery E ws user (ListJobs q) = answered (listJobs ws q)"
| "run_discovery E ws user (GetJob i) = answered (getJob ws i)"
| "run_discovery E ws user (PatchJob i b) = answered (patchJob E ws user i b)"
| "run_discovery E ws user (RequestMatch k header body i) = answered (matchJob E ws user k header body i)"
| "run_discovery E ws user ListSources = answered (listSources ws)"
| "run_discovery E ws user (CreateSource k b) = answered (createSource E ws user k b)"
| "run_discovery E ws user (PatchSource i b) = answered (patchSource E ws user i b)"
| "run_discovery E ws user (DeleteSource i) = answered (deleteSource ws user i)"
| "run_discovery E ws user (RequestScan rnd k j header body i) = answered (scanSource E ws user rnd k j header body i)"
| "run_discovery E ws user (GetScan i) = answered (getScan ws i)"

fun run_profile :: "env \<Rightarrow> uuid \<Rightarrow> uuid \<Rightarrow> profile_call \<Rightarrow> (db, unit) handler" where
  "run_profile E ws user (CreateResume i k header body b) = answered (createResume E ws user i k header body b)"
| "run_profile E ws user (ListResumes job status cursor n) = answered (listResumes ws job status cursor n)"
| "run_profile E ws user (GetResume i) = answered (getResume ws i)"
| "run_profile E ws user (ApproveResume i approved) = answered (approveResume E ws user i approved)"
| "run_profile E ws user (GetProfile k) = answered (getProfile ws k)"
| "run_profile E ws user (PatchProfile k ids b) = answered (patchProfile E ws user k ids b)"
| "run_profile E ws user (CreateProfileImport p i t header body b) = answered (createProfileImport E ws user p i t header body b)"
| "run_profile E ws user (GetProfileImport p i) = answered (getProfileImport ws p i)"
| "run_profile E ws user (ConfirmProfileImport p ids i b) = answered (confirmProfileImport E ws user p ids i b)"

fun run_workspace :: "env \<Rightarrow> uuid \<Rightarrow> uuid \<Rightarrow> workspace_call \<Rightarrow> (db, unit) handler" where
  "run_workspace E ws user (CreatePairing k code b) = answered (createDevicePairing E ws user k code b)"
| "run_workspace E ws user (RevokeDevice i) = answered (revokeDevice E ws user i)"
| "run_workspace E ws user (CancelTask i) = answered (cancelTask E ws i)"

fun run_user :: "env \<Rightarrow> uuid \<Rightarrow> uuid \<Rightarrow> user_call \<Rightarrow> (db, unit) handler" where
  "run_user E ws user (ApplicationCall c) = run_application E ws user c"
| "run_user E ws user (DiscoveryCall c) = run_discovery E ws user c"
| "run_user E ws user (ProfileCall c) = run_profile E ws user c"
| "run_user E ws user (WorkspaceCall c) = run_workspace E ws user c"

text \<open>The routes of a paired extension, behind its token and protocol header.\<close>

datatype device_call =
    ListFillTargets
  | CreateFillSession uuid string create_fill_session_request
  | GetFillSession "string option" uuid
  | DownloadFillResume "string \<Rightarrow> bool" "string option" uuid
  | ReportFillSession "string option" uuid report_fill_session_request
  | EndFillSession "string option" uuid
  | ReportObservation uuid report_observation_request

fun run_device :: "env \<Rightarrow> string option \<Rightarrow> principal option \<Rightarrow> device_call \<Rightarrow> (db, unit) handler" where
  "run_device E protocol who ListFillTargets = answered (listFillTargets E protocol who)"
| "run_device E protocol who (CreateFillSession k nonce b) = answered (createFillSession E protocol who k nonce b)"
| "run_device E protocol who (GetFillSession nonce i) = answered (getFillSession E protocol who nonce i)"
| "run_device E protocol who (DownloadFillResume can_open nonce i) =
     answered (downloadFillSessionResume E can_open protocol who nonce i)"
| "run_device E protocol who (ReportFillSession nonce i b) = answered (reportFillSession E protocol who nonce i b)"
| "run_device E protocol who (EndFillSession nonce i) = answered (endFillSession E protocol who nonce i)"
| "run_device E protocol who (ReportObservation i b) = answered (reportFillSessionObservation E protocol who i b)"

text \<open>The internal routes of a worker.  A lease token, not the caller, decides what a worker
  may do with a task.\<close>

datatype worker_call =
    ClaimTask string "task_type list" int string
  | HeartbeatTask uuid string "task_progress option"
  | CompleteTask "task_type \<Rightarrow> json \<Rightarrow> task_result option" uuid string json
  | FailTask uuid string task_failure_code bool string "int option" rat

fun run_worker :: "env \<Rightarrow> task_domains \<Rightarrow> principal \<Rightarrow> worker_call \<Rightarrow> (db, unit) handler" where
  "run_worker E h who (ClaimTask worker caps version token) = answered (claimTask E h who worker caps version token)"
| "run_worker E h who (HeartbeatTask i token progress) = answered (heartbeatTask E i token progress)"
| "run_worker E h who (CompleteTask decode i token raw) = answered (completeTask E h decode i token raw)"
| "run_worker E h who (FailTask i token code retryable message retry_after rnd) =
     answered (failTask E h i token code retryable message retry_after rnd)"

text \<open>The credentials of an internal route: a device token first, else the operator's.\<close>

definition internalPrincipal :: "env \<Rightarrow> string \<Rightarrow> string option \<Rightarrow> string option \<Rightarrow> string \<Rightarrow> (db, principal) handler" where
  "internalPrincipal E configured device_header bearer worker_id =
     andThen (authenticateDevice E device_header) (\<lambda>device.
       case device of Some p \<Rightarrow> ret p | None \<Rightarrow> authenticateWorker E configured bearer worker_id)"

datatype api_call =
    UserCall uuid uuid user_call
  | DeviceCall "string option" "string option" device_call
  | WorkerCall string "string option" "string option" string "schema \<Rightarrow> json \<Rightarrow> string list" "nat \<Rightarrow> uuid \<times> uuid" worker_call
  | ExchangePairing "string option" string device_exchange_request
  | SweepLeases "schema \<Rightarrow> json \<Rightarrow> string list" "nat \<Rightarrow> uuid \<times> uuid" "task_row \<Rightarrow> rat" nat
  | ScheduleScans "uuid \<Rightarrow> rat" "uuid \<Rightarrow> uuid \<times> uuid" nat

fun run_api :: "env \<Rightarrow> api_call \<Rightarrow> (db, unit) handler" where
  "run_api E (UserCall ws user c) = run_user E ws user c"
| "run_api E (DeviceCall header protocol c) =
     andThen (authenticateDevice E header) (\<lambda>who. run_device E protocol who c)"
| "run_api E (WorkerCall configured device_header bearer worker_id paths ids c) =
     andThen (internalPrincipal E configured device_header bearer worker_id) (\<lambda>who.
       run_worker E (domains E paths ids) who c)"
| "run_api E (ExchangePairing protocol token b) = answered (exchangeDevicePairing E protocol token b)"
| "run_api E (SweepLeases paths ids rnd n) = answered (reclaimExpiredLeases E (domains E paths ids) rnd n)"
| "run_api E (ScheduleScans rnd ids n) = answered (scheduleDueScans E rnd ids n)"

section \<open>The invariant\<close>

lemma obeys_answered: "obeys R (answered m) \<longleftrightarrow> obeys R m"
  by (auto simp: obeys_def answered_def andThen_def ret_def split: prod.splits sum.splits) (metis old.sum.exhaust snd_conv surj_pair)+

lemma keeps_answered_wp:
  "(\<And>s. I s \<Longrightarrow> wp m (\<lambda>_. I) (\<lambda>_. I) s) \<Longrightarrow> obeys (keeps I) (answered m)"
  unfolding obeys_answered by (rule keeps_wp)

lemma db_ok_get:
  assumes "db_ok sha s"
  shows "wp (getApplication E ws i) (\<lambda>_. db_ok sha) (\<lambda>_. db_ok sha) s"
proof (cases "find_application ws i s")
  case None
  then show ?thesis using assms by (simp add: getApplication_def requireApplication_def)
next
  case (Some app)
  then have "a_id app = i" by (auto simp: find_application_def dest!: scoped_find_SomeD)
  then show ?thesis using wp_render_db_ok [OF assms, of ws app E] Some by (simp add: getApplication_def requireApplication_def)
qed

lemma keeps_domain_application:
  "obeys (keeps (domain_ok (sha256Hex E))) (run_application E ws user c)"
proof -
  have rest: "obeys (keeps (domain_ok (sha256Hex E))) (answered m)"
    if "keeps_rest m" "\<And>s. db_ok (sha256Hex E) s \<Longrightarrow> wp m (\<lambda>_. db_ok (sha256Hex E)) (\<lambda>_. db_ok (sha256Hex E)) s"
    for m :: "(db, 'a) handler"
    unfolding obeys_answered using that by (intro application_writes) (simp_all add: wp_state)
  have fill: "obeys (keeps (domain_ok (sha256Hex E))) (answered m)"
    if "obeys (only (insert TTasks application_tables)) m" "obeys (keeps (db_ok (sha256Hex E))) m" for m :: "(db, 'a) handler"
    unfolding obeys_answered
    by (rule keeps_domain_ok [OF that(1)]) (simp_all add: that(2) application_tables_def discovery_tables_def)
  have bank: "obeys (keeps (domain_ok (sha256Hex E))) (answered m)" if "obeys (only answer_tables) m" for m :: "(db, 'a) handler"
    unfolding obeys_answered by (rule keeps_domain_ok [OF that]) (simp_all add: discovery_tables_def)
  show ?thesis
  proof (cases c)
    case (ListApplications status job cursor n)
    then show ?thesis by (simp add: rest [OF keeps_rest_list db_ok_listApplications])
  next
    case (GetApplication i)
    then show ?thesis by (simp add: rest [OF keeps_rest_get db_ok_get])
  next
    case (ListApplicationEvents i cursor n)
    have "wp (listApplicationEvents ws i cursor n) (\<lambda>_. db_ok sha) (\<lambda>_. db_ok sha) s" if "db_ok sha s" for sha s
      using that by (simp add: listApplicationEvents_def Let_def requireApplication_def split: option.split)
    then show ?thesis using ListApplicationEvents by (simp add: rest [OF keeps_rest_events])
  next
    case (CreateApplication k job)
    then show ?thesis by (simp add: rest [OF keeps_rest_create db_ok_create])
  next
    case (CreatePacket k header body i b)
    then show ?thesis by (simp add: rest [OF keeps_rest_packet wp_mono [OF create_packet_wp]])
  next
    case (ApproveApplication i b)
    then show ?thesis by (simp add: rest [OF keeps_rest_approve wp_mono [OF approve_wp]])
  next
    case (RecordOutcome i b)
    then show ?thesis by (simp add: rest [OF keeps_rest_outcome wp_mono [OF record_outcome_wp]])
  next
    case (FillApplication k header body i b)
    then show ?thesis by (simp add: fill [OF writes_fill(1) keeps_fills(1)])
  next
    case (ObserveApplication k header body i b)
    then show ?thesis by (simp add: fill [OF writes_fill(2) keeps_fills(2)])
  next
    case (PutAnswer k b)
    then show ?thesis by (simp add: bank [OF writes_answers(1)])
  next
    case (DeleteAnswer i)
    then show ?thesis by (simp add: bank [OF writes_answers(2)])
  qed
qed

lemma keeps_domain_discovery: "obeys (keeps (domain_ok sha)) (run_discovery E ws user c)"
proof -
  have part: "obeys (keeps (domain_ok sha)) (answered m)"
    if "obeys (only W) m" "W \<inter> (domain_tables - discovery_tables) = {}" "obeys (keeps import_state_ok) m" for m :: "(db, 'a) handler" and W
    unfolding obeys_answered
    by (rule keeps_domain_ok [OF that(1)]) (use that(2,3) in \<open>auto simp: domain_tables_def discovery_tables_def\<close>)
  have none: "obeys (keeps (domain_ok sha)) (answered m)"
    if "obeys (only W) m" "W \<inter> domain_tables = {}" for m :: "(db, 'a) handler" and W
    unfolding obeys_answered
    by (rule keeps_domain_ok [OF that(1)]) (use that(2) in \<open>auto simp: domain_tables_def\<close>)
  note tables = domain_tables_def discovery_tables_def
  show ?thesis
  proof (cases c)
    case (ImportJob i k header body b)
    show ?thesis unfolding ImportJob run_discovery.simps
      by (rule part [OF writes_jobs(1) _ keeps_jobs(1)]) (auto simp: tables)
  next
    case (ListJobs q)
    show ?thesis unfolding ListJobs run_discovery.simps by (rule none [OF writes_jobs(2)]) (auto simp: tables)
  next
    case (GetJob i)
    show ?thesis unfolding GetJob run_discovery.simps by (rule none [OF writes_jobs(3)]) (auto simp: tables)
  next
    case (PatchJob i b)
    show ?thesis unfolding PatchJob run_discovery.simps
      by (rule part [OF writes_jobs(4) _ keeps_jobs(2)]) (auto simp: tables)
  next
    case (RequestMatch k header body i)
    show ?thesis unfolding RequestMatch run_discovery.simps by (rule none [OF writes_jobs(5)]) (auto simp: tables)
  next
    case ListSources
    show ?thesis unfolding ListSources run_discovery.simps by (rule none [OF writes_sources(1)]) (auto simp: tables)
  next
    case (CreateSource k b)
    show ?thesis unfolding CreateSource run_discovery.simps
      by (rule part [OF writes_sources(2) _ keeps_sources(1)]) (auto simp: tables)
  next
    case (PatchSource i b)
    show ?thesis unfolding PatchSource run_discovery.simps
      by (rule part [OF writes_sources(3) _ keeps_sources(2)]) (auto simp: tables)
  next
    case (DeleteSource i)
    show ?thesis unfolding DeleteSource run_discovery.simps
      by (rule part [OF writes_sources(4) _ keeps_deleteSource]) (auto simp: tables)
  next
    case (RequestScan rnd k j header body i)
    show ?thesis unfolding RequestScan run_discovery.simps
      by (rule part [OF writes_scans(1) _ keeps_scans(1)]) (auto simp: tables)
  next
    case (GetScan i)
    have "obeys (only {}) (getScan ws i)" unfolding getScan_def findScan_def by (intro writes_rules)
    then show ?thesis unfolding GetScan run_discovery.simps by (rule none) simp
  qed
qed

lemma keeps_domain_profile: "obeys (keeps (domain_ok sha)) (run_profile E ws user c)"
proof -
  have profile: "obeys (keeps (domain_ok sha)) (answered m)"
    if "obeys (only W) m" "W \<inter> (domain_tables - {TProfiles, TProfileFacts, TProfileImports}) = {}" "obeys (keeps profile_ok) m"
      "TProfileImports \<in> W \<Longrightarrow> obeys (keeps imports_parsed) m" for m :: "(db, 'a) handler" and W
    unfolding obeys_answered
    by (rule keeps_domain_ok [OF that(1)]) (use that(2-) in \<open>auto simp: domain_tables_def discovery_tables_def\<close>)
  have resume: "obeys (keeps (domain_ok sha)) (answered m)"
    if "obeys (only W) m" "W \<inter> (domain_tables - {TResumes}) = {}" "TResumes \<in> W \<Longrightarrow> obeys (keeps resumes_ok) m"
    for m :: "(db, 'a) handler" and W
    unfolding obeys_answered
    by (rule keeps_domain_ok [OF that(1)]) (use that(2-) in \<open>auto simp: domain_tables_def discovery_tables_def\<close>)
  note tables = domain_tables_def discovery_tables_def
  show ?thesis
  proof (cases c)
    case (CreateResume i k header body b)
    show ?thesis unfolding CreateResume run_profile.simps
      by (rule resume [OF writes_resumes(1) _ keeps_resumes(1)]) (auto simp: tables)
  next
    case (ListResumes job status cursor n)
    show ?thesis unfolding ListResumes run_profile.simps by (rule resume [OF writes_resumes(2)]) auto
  next
    case (GetResume i)
    show ?thesis unfolding GetResume run_profile.simps by (rule resume [OF writes_resumes(3)]) auto
  next
    case (ApproveResume i approved)
    show ?thesis unfolding ApproveResume run_profile.simps
      by (rule resume [OF writes_resumes(4) _ keeps_resumes(2)]) (auto simp: tables)
  next
    case (GetProfile k)
    show ?thesis unfolding GetProfile run_profile.simps
      by (rule profile [OF writes_profiles(1) _ keeps_getProfile]) (auto simp: tables)
  next
    case (PatchProfile k ids b)
    show ?thesis unfolding PatchProfile run_profile.simps
      by (rule profile [OF writes_profiles(2) _ keeps_patchProfile]) (auto simp: tables)
  next
    case (CreateProfileImport p i t header body b)
    show ?thesis unfolding CreateProfileImport run_profile.simps
      by (rule profile [OF writes_profiles(3) _ keeps_profile_imports(1) keeps_imports_parsed(1)]) (auto simp: tables)
  next
    case (GetProfileImport p i)
    show ?thesis unfolding GetProfileImport run_profile.simps
      by (rule profile [OF writes_profiles(4) _ keeps_profile_imports(2)]) (auto simp: tables)
  next
    case (ConfirmProfileImport p ids i b)
    show ?thesis unfolding ConfirmProfileImport run_profile.simps
      by (rule profile [OF writes_profiles(5) _ keeps_profile_imports(3) keeps_imports_parsed(2)]) (auto simp: tables)
  qed
qed

lemma keeps_devices:
  "obeys (keeps devices_ok) (createDevicePairing E ws user k code b)"
  "obeys (keeps devices_ok) (exchangeDevicePairing E protocol token x)"
  "obeys (keeps devices_ok) (revokeDevice E ws user i)"
  "obeys (keeps devices_ok) (authenticateDevice E header)"
  by (auto intro!: keeps_state devices_ok_create devices_ok_exchange devices_ok_revoke devices_ok_authenticate)

lemma keeps_domain_device:
  assumes "obeys (only device_tables) m" and "obeys (keeps devices_ok) m"
  shows "obeys (keeps (domain_ok sha)) m"
  by (rule keeps_domain_ok [OF assms(1)]) (simp_all add: assms discovery_tables_def)

lemma keeps_domain_workspace: "obeys (keeps (domain_ok (sha256Hex E))) (run_workspace E ws user c)"
proof (cases c)
  case (CreatePairing k code b)
  show ?thesis unfolding CreatePairing run_workspace.simps obeys_answered
    by (rule keeps_domain_device [OF writes_devices(1) keeps_devices(1)])
next
  case (RevokeDevice i)
  show ?thesis unfolding RevokeDevice run_workspace.simps obeys_answered
    by (rule keeps_domain_ok [OF writes_devices(4)]) (simp_all add: keeps_devices keeps_sessions_revoke discovery_tables_def)
next
  case (CancelTask i)
  show ?thesis unfolding CancelTask run_workspace.simps obeys_answered by (rule api_domains.keeps_cancel)
qed

lemma keeps_domain_session: "obeys (keeps (domain_ok sha)) (run_device E protocol who c)"
proof -
  have part: "obeys (keeps (domain_ok sha)) (answered m)"
    if "obeys (only session_tables) m" "obeys (keeps (db_ok sha)) m" "obeys (keeps sessions_ok) m" for m :: "(db, 'a) handler"
    unfolding obeys_answered
    by (rule keeps_domain_ok [OF that(1)]) (simp_all add: that application_tables_def discovery_tables_def)
  show ?thesis
    by (cases c)
       (simp_all add: part [OF writes_sessions(1) keeps_session_routes(1) keeps_sessions_create]
          part [OF writes_sessions(2) keeps_session_routes(2) keeps_sessions_list]
          part [OF writes_sessions(3) keeps_session_routes(3) keeps_sessions_get]
          part [OF writes_sessions(4) keeps_session_routes(4) keeps_sessions_download]
          part [OF writes_sessions(5) keeps_session_routes(5) keeps_sessions_report]
          part [OF writes_sessions(6) keeps_session_routes(6) keeps_sessions_end]
          part [OF writes_sessions(7) keeps_session_routes(7) keeps_sessions_look])
qed

lemma keeps_domain_worker: "obeys (keeps (domain_ok (sha256Hex E))) (run_worker E (domains E paths ids) who c)"
  by (cases c)
     (simp_all add: obeys_answered api_domains.keeps_claim api_domains.keeps_heartbeat api_domains.keeps_complete
        api_domains.keeps_fail)

lemma keeps_domain_authenticate: "obeys (keeps (domain_ok sha)) (authenticateDevice E header)"
  by (rule keeps_domain_device [OF writes_devices(3) keeps_devices(4)])

lemma keeps_domain_internal: "obeys (keeps (domain_ok sha)) (internalPrincipal E configured device_header bearer worker_id)"
  unfolding internalPrincipal_def authenticateWorker_def by (intro inv.obeys_rules keeps_domain_authenticate)

lemma keeps_domain_schedule: "obeys (keeps (domain_ok sha)) (scheduleDueScans E rnd ids n)"
  by (rule keeps_domain_ok [OF writes_scans(2)]) (simp_all add: keeps_scans(2) discovery_tables_def)

lemma run_api_domain: "obeys (keeps (domain_ok (sha256Hex E))) (run_api E c)"
proof (cases c)
  case (UserCall ws user u)
  then show ?thesis
    by (cases u) (simp_all add: keeps_domain_application keeps_domain_discovery keeps_domain_profile keeps_domain_workspace)
next
  case (DeviceCall header protocol d)
  then show ?thesis by (simp add: inv.obeys_andThen keeps_domain_authenticate keeps_domain_session)
next
  case (WorkerCall configured device_header bearer worker_id paths ids w)
  then show ?thesis by (simp add: inv.obeys_andThen keeps_domain_internal keeps_domain_worker)
next
  case (ExchangePairing protocol token b)
  then show ?thesis by (simp add: obeys_answered keeps_domain_device [OF writes_devices(2) keeps_devices(2)])
next
  case (SweepLeases paths ids rnd n)
  then show ?thesis by (simp add: obeys_answered api_domains.keeps_reclaim)
next
  case (ScheduleScans rnd ids n)
  then show ?thesis by (simp add: obeys_answered keeps_domain_schedule)
qed

section \<open>The queue\<close>

lemma keeps_queue:
  "obeys (keeps tasks_ok) (claimTask E (domains E' paths ids) who worker caps version token)"
  "obeys (keeps tasks_ok) (heartbeatTask E i token progress)"
  "obeys (keeps tasks_ok) (completeTask E (domains E' paths ids) decode i token raw)"
  "obeys (keeps tasks_ok) (failTask E (domains E' paths ids) i token code retryable message retry_after rnd)"
  "obeys (keeps tasks_ok) (cancelTask E ws i)"
  "obeys (keeps tasks_ok) (reclaimExpiredLeases E (domains E' paths ids) rnds n)"
       apply (rule keeps_wp, rule wp_mono [OF api_queue.claim_wp]; simp)
      apply (rule keeps_wp, rule wp_mono [OF heartbeat_wp]; simp)
     apply (rule keeps_wp, rule wp_mono [OF api_queue.complete_wp]; simp)
    apply (rule keeps_wp, rule wp_mono [OF api_queue.fail_wp]; simp)
   apply (rule keeps_wp, rule wp_mono [OF cancel_wp]; simp)
  apply (rule keeps_wp, rule wp_mono [OF api_queue.reclaim_wp]; simp)
  done

lemma keeps_tasks_narrow: "obeys (only W) m \<Longrightarrow> TTasks \<notin> W \<Longrightarrow> obeys (keeps tasks_ok) m"
  by (erule keeps_tasks_other [OF writes_mono]) blast

lemma keeps_tasks_user: "obeys (keeps tasks_ok) (run_user E ws user u)"
proof -
  have rest: "obeys (keeps tasks_ok) m" if "keeps_rest m" for m :: "(db, 'a) handler"
    by (rule keeps_tasks_narrow [OF writes_of_rest [OF that]]) (simp add: application_tables_def)
  note narrow = writes_answers [THEN keeps_tasks_narrow] writes_sources [THEN keeps_tasks_narrow]
    writes_jobs(2-4) [THEN keeps_tasks_narrow] writes_profiles(1,2,4,5) [THEN keeps_tasks_narrow]
    writes_resumes(2-4) [THEN keeps_tasks_narrow] writes_devices [THEN keeps_tasks_narrow]
  have "obeys (keeps tasks_ok) (run_application E ws user c)" for c
    by (cases c) (simp_all add: obeys_answered rest rest_steps keeps_tasks_fill narrow)
  moreover have "obeys (keeps tasks_ok) (run_discovery E ws user c)" for c
    by (cases c)
       (simp_all add: obeys_answered keeps_tasks_jobs keeps_tasks_scans narrow getScan_def findScan_def inv.obeys_rules)
  moreover have "obeys (keeps tasks_ok) (run_profile E ws user c)" for c
    by (cases c) (simp_all add: obeys_answered keeps_tasks_import keeps_tasks_resume narrow)
  moreover have "obeys (keeps tasks_ok) (run_workspace E ws user c)" for c
    by (cases c) (simp_all add: obeys_answered keeps_queue narrow)
  ultimately show ?thesis by (cases u) simp_all
qed

lemma run_api_tasks: "obeys (keeps tasks_ok) (run_api E c)"
proof (cases c)
  case (DeviceCall header protocol d)
  have "TTasks \<notin> session_tables" by (simp add: application_tables_def)
  note narrow = writes_sessions [THEN keeps_tasks_narrow, OF this] writes_devices(3) [THEN keeps_tasks_narrow]
  have "obeys (keeps tasks_ok) (run_device E protocol who d)" for who
    by (cases d) (simp_all add: obeys_answered narrow)
  then show ?thesis by (simp add: DeviceCall inv.obeys_andThen narrow)
next
  case (WorkerCall configured device_header bearer worker_id paths ids w)
  have "obeys (keeps tasks_ok) (run_worker E (domains E paths ids) who w)" for who
    by (cases w) (simp_all add: obeys_answered keeps_queue)
  moreover have "obeys (keeps tasks_ok) (internalPrincipal E configured device_header bearer worker_id)"
    unfolding internalPrincipal_def authenticateWorker_def
    by (intro inv.obeys_rules keeps_tasks_narrow [OF writes_devices(3)]) simp
  ultimately show ?thesis by (simp add: WorkerCall inv.obeys_andThen)
qed (simp_all add: obeys_answered keeps_tasks_user keeps_queue keeps_tasks_scans keeps_tasks_narrow [OF writes_devices(2)])

section \<open>Histories\<close>

text \<open>An application's events are numbered without gaps, and no call removes or rewrites one.
  The two halves are invariants, the second relative to a point in time.\<close>

definition histories_dense :: "db \<Rightarrow> bool" where
  "histories_dense s \<longleftrightarrow> (\<forall>ws a. dense_events ws a s)"

definition extends_history :: "application_event_row list \<Rightarrow> db \<Rightarrow> bool" where
  "extends_history old s \<longleftrightarrow> histories_dense s \<and> (\<exists>es. application_events s = old @ es)"

lemma scoped_extends: "scoped ws m \<Longrightarrow> obeys (keeps (extends_history old)) m"
  unfolding obeys_def scoped_step_def keeps_def extends_history_def histories_dense_def by (metis append.assoc)

lemma about_history: "about {TApplicationEvents} (extends_history old)"
  by (simp add: about_def extends_history_def histories_dense_def dense_events_def events_of_def)

interpretation api_history: domain_invariant "domains E paths ids" "extends_history old" for E paths ids old
proof
  fix t r c m and s :: db and f g k l
  show "obeys (keeps (extends_history old)) (dom_result (domains E paths ids) t r)"
    "obeys (keeps (extends_history old)) (dom_failure (domains E paths ids) t c m)"
    by (simp_all add: scoped_extends [OF scoped_applyDomainResult] scoped_extends [OF scoped_applyDomainFailure])
  show "extends_history old (tasks_update f s) = extends_history old s"
    "extends_history old (files_update g s) = extends_history old s"
    "extends_history old (task_artifacts_update k s) = extends_history old s"
    "extends_history old (audit_events_update l s) = extends_history old s"
    by (simp_all add: extends_history_def histories_dense_def dense_events_def events_of_def)
qed

lemma keeps_history_narrow: "obeys (only W) m \<Longrightarrow> TApplicationEvents \<notin> W \<Longrightarrow> obeys (keeps (extends_history old)) m"
  by (erule about_keeps [OF about_history]) blast

lemma scoped_groups:
  "scoped ws (run_application E ws user a)"
  "scoped ws (run_discovery E ws user d)"
  "scoped ws (run_profile E ws user p)"
  "(\<And>i. w \<noteq> CancelTask i) \<Longrightarrow> scoped ws (run_workspace E ws user w)"
proof -
  show "scoped ws (run_application E ws user a)" by (cases a) (simp_all add: obeys_answered handler_steps)
  show "scoped ws (run_discovery E ws user d)" by (cases d) (simp_all add: obeys_answered handler_steps getScan_def)
  show "scoped ws (run_profile E ws user p)" by (cases p) (simp_all add: obeys_answered handler_steps)
  show "scoped ws (run_workspace E ws user w)" if "\<And>i. w \<noteq> CancelTask i"
  proof (cases w)
    case (CancelTask i)
    then show ?thesis using that by blast
  qed (simp_all add: obeys_answered handler_steps)
qed

lemma scoped_device: "device_workspace who ws \<Longrightarrow> scoped ws (run_device E protocol who c)"
  by (cases c) (simp_all add: obeys_answered handler_steps)

lemma run_api_history: "obeys (keeps (extends_history old)) (run_api E c)"
proof (cases c)
  case (UserCall ws user u)
  have "obeys (keeps (extends_history old)) (run_workspace E ws user w)" for w
    by (cases "\<exists>i. w = CancelTask i")
       (auto simp: obeys_answered api_history.keeps_cancel scoped_extends [OF scoped_groups(4)])
  then show ?thesis
    using UserCall by (cases u) (simp_all add: scoped_groups [THEN scoped_extends])
next
  case (DeviceCall header protocol d)
  have "obeys (keeps (extends_history old)) (run_device E protocol who d)" for who
  proof -
    obtain ws where "device_workspace who ws"
      by (metis device_workspace_def option.inject principal.inject(3))
    then show ?thesis by (rule scoped_extends [OF scoped_device])
  qed
  then show ?thesis by (simp add: DeviceCall inv.obeys_andThen keeps_history_narrow [OF writes_devices(3)])
next
  case (WorkerCall configured device_header bearer worker_id paths ids w)
  have "obeys (keeps (extends_history old)) (run_worker E (domains E paths ids) who w)" for who
    by (cases w) (simp_all add: obeys_answered api_history.keeps_claim api_history.keeps_heartbeat
        api_history.keeps_complete api_history.keeps_fail)
  moreover have "obeys (keeps (extends_history old)) (internalPrincipal E configured device_header bearer worker_id)"
    unfolding internalPrincipal_def authenticateWorker_def
    by (intro inv.obeys_rules keeps_history_narrow [OF writes_devices(3)]) simp
  ultimately show ?thesis by (simp add: WorkerCall inv.obeys_andThen)
qed (simp_all add: obeys_answered api_history.keeps_reclaim keeps_history_narrow [OF writes_devices(2)]
    keeps_history_narrow [OF writes_scans(2)])

section \<open>The status column\<close>

lemma keeps_explained_narrow: "obeys (only W) m \<Longrightarrow> W \<inter> {TApplications, TApplicationEvents} = {} \<Longrightarrow> obeys (keeps explained) m"
  by (erule keeps_explained_other [OF writes_mono]) blast

interpretation api_explained: domain_invariant "domains E paths ids" explained for E paths ids
proof
  fix t r c m and s :: db and f g k l
  note narrow = writes_fetch_board writes_fetch_board_failure writes_fetch_job writes_fetch_job_failure writes_match
    writes_parse writes_render
  note steps = narrow [THEN keeps_explained_narrow] explained_steps inv.obeys_ret
  show "obeys (keeps explained) (dom_result (domains E paths ids) t r)"
    by (auto simp: applyDomainResult_def discovery_tables_def intro!: steps split: task_type.split task_result.split)
  show "obeys (keeps explained) (dom_failure (domains E paths ids) t c m)"
    by (auto simp: applyDomainFailure_def discovery_tables_def intro!: steps split: task_type.split)
  show "explained (tasks_update f s) = explained s" "explained (files_update g s) = explained s"
    "explained (task_artifacts_update k s) = explained s" "explained (audit_events_update l s) = explained s"
    by (simp_all add: explained_def events_of_def find_application_def)
qed

lemma run_api_explained: "obeys (keeps explained) (run_api E c)"
proof (cases c)
  case (UserCall ws user u)
  have "obeys (keeps explained) (run_application E ws user a)" for a
    by (cases a) (simp_all add: obeys_answered explained_steps writes_answers [THEN keeps_explained_narrow])
  moreover have "obeys (keeps explained) (run_discovery E ws user d)" for d
    by (cases d) (simp_all add: obeys_answered getScan_def findScan_def inv.obeys_rules writes_jobs [THEN keeps_explained_narrow]
        writes_sources [THEN keeps_explained_narrow] writes_scans [THEN keeps_explained_narrow])
  moreover have "obeys (keeps explained) (run_profile E ws user p)" for p
    by (cases p) (simp_all add: obeys_answered writes_profiles [THEN keeps_explained_narrow] writes_resumes [THEN keeps_explained_narrow])
  moreover have "obeys (keeps explained) (run_workspace E ws user w)" for w
    by (cases w) (simp_all add: obeys_answered api_explained.keeps_cancel writes_devices [THEN keeps_explained_narrow])
  ultimately show ?thesis using UserCall by (cases u) simp_all
next
  case (DeviceCall header protocol d)
  have "obeys (keeps explained) (run_device E protocol who d)" for who
    by (cases d) (simp_all add: obeys_answered explained_steps)
  then show ?thesis by (simp add: DeviceCall inv.obeys_andThen keeps_explained_narrow [OF writes_devices(3)])
next
  case (WorkerCall configured device_header bearer worker_id paths ids w)
  have "obeys (keeps explained) (run_worker E (domains E paths ids) who w)" for who
    by (cases w) (simp_all add: obeys_answered api_explained.keeps_claim api_explained.keeps_heartbeat
        api_explained.keeps_complete api_explained.keeps_fail)
  moreover have "obeys (keeps explained) (internalPrincipal E configured device_header bearer worker_id)"
    unfolding internalPrincipal_def authenticateWorker_def
    by (intro inv.obeys_rules keeps_explained_narrow [OF writes_devices(3)]) simp
  ultimately show ?thesis by (simp add: WorkerCall inv.obeys_andThen)
qed (simp_all add: obeys_answered api_explained.keeps_reclaim keeps_explained_narrow [OF writes_devices(2)]
    keeps_explained_narrow [OF writes_scans(2)])

section \<open>Reachable databases\<close>

text \<open>A database on which no modelled call has run yet: accounts, files and settings may
  exist, the tables the calls maintain are empty.\<close>

definition other_tables :: "table set" where
  "other_tables = {TSystemFlags, TUsers, TWorkspaces, TMemberships, TSessions, TFiles, TProviderSettings}"

definition initial :: "db \<Rightarrow> bool" where
  "initial s \<longleftrightarrow> only other_tables empty_db s"

inductive api_step :: "(string \<Rightarrow> string) \<Rightarrow> db \<Rightarrow> db \<Rightarrow> bool" for sha where
  call: "sha256Hex E = sha \<Longrightarrow> run_api E c s = (r, s') \<Longrightarrow> api_step sha s s'"
| upload: "api_step sha s (files_update (insert_row f) s)"

inductive reachable :: "(string \<Rightarrow> string) \<Rightarrow> db \<Rightarrow> bool" for sha where
  start: "initial s \<Longrightarrow> reachable sha s"
| step: "reachable sha s \<Longrightarrow> api_step sha s s' \<Longrightarrow> reachable sha s'"

inductive_cases api_stepE [elim]: "api_step sha s s'"

definition api_ok :: "(string \<Rightarrow> string) \<Rightarrow> db \<Rightarrow> bool" where
  "api_ok sha s \<longleftrightarrow> domain_ok sha s \<and> tasks_ok s \<and> histories_dense s \<and> explained s"

lemma empty_ok: "domain_ok sha empty_db" "tasks_ok empty_db" "histories_dense empty_db" "explained empty_db"
  by (simp_all add: domain_ok_def db_ok_def tables_ok_def devices_ok_def sessions_ok_def import_state_ok_def discovery_ok_def
      jobs_ok_def scans_ok_def sources_ok_def imports_ok_def matches_ok_def profile_ok_def facts_ok_def resumes_ok_def
      imports_parsed_def tasks_ok_def histories_dense_def dense_events_def events_of_def empty_db_def hash_bound_def
      scoped_filter_def explained_def replay_def find_application_def scoped_find_def)

lemma initial_ok:
  assumes "initial s"
  shows "api_ok sha s"
proof -
  have W: "only other_tables empty_db s" using assms by (simp add: initial_def)
  have "domain_ok sha s = domain_ok sha empty_db"
    by (rule domain_ok_elsewhere [OF W]) (simp add: domain_tables_def discovery_tables_def other_tables_def)
  moreover have "tasks s = tasks empty_db" "application_events s = application_events empty_db"
    "applications s = applications empty_db"
    using onlyD [OF W, of TTasks] onlyD [OF W, of TApplicationEvents] onlyD [OF W, of TApplications]
    by (simp_all add: other_tables_def)
  ultimately show ?thesis
    using empty_ok
    by (simp add: api_ok_def tasks_ok_def histories_dense_def dense_events_def events_of_def explained_def find_application_def)
qed

lemma api_step_ok:
  assumes "api_step sha s s'" and "api_ok sha s"
  shows "api_ok sha s' \<and> (\<exists>es. application_events s' = application_events s @ es)"
  using assms(1)
proof cases
  case (call E c r)
  have s': "s' = snd (run_api E c s)" using call(2) by simp
  have "extends_history (application_events s) s" using assms(2) by (simp add: api_ok_def extends_history_def)
  then have "extends_history (application_events s) s'"
    using run_api_history [of "application_events s" E c] s' by (simp add: obeys_def keeps_def)
  then show ?thesis
    using assms(2) run_api_domain [of E c] run_api_tasks [of E c] run_api_explained [of E c] call(1) s'
    by (simp add: api_ok_def obeys_def keeps_def extends_history_def)
next
  case (upload f)
  have "domain_ok sha s' = domain_ok sha s"
    unfolding upload by (rule domain_ok_elsewhere [OF only_update(6) [OF singletonI]]) (simp add: domain_tables_def discovery_tables_def)
  then show ?thesis
    using assms(2) upload
    by (simp add: api_ok_def tasks_ok_def histories_dense_def dense_events_def events_of_def explained_def find_application_def)
qed

lemma reachable_ok: "reachable sha s \<Longrightarrow> api_ok sha s"
  by (induction rule: reachable.induct) (auto intro: initial_ok dest: api_step_ok)

section \<open>Workspaces\<close>

lemma foreign_map:
  assumes "\<And>q. q \<in> set rows \<Longrightarrow> P q \<Longrightarrow> owner q = ws" and "\<And>q. owner (f q) = owner q"
  shows "foreign_rows owner ws (map (\<lambda>q. if P q then f q else q) rows) = foreign_rows owner ws rows"
  using assms by (induction rows) (auto simp: foreign_rows_def)

lemma cancel_isolated:
  assumes "tasks_ok s"
  shows "outside ws (snd (cancelTask E ws i s)) = outside ws s"
proof -
  have one: "foreign_rows t_workspace_id ws (map (\<lambda>q. if t_id q = t_id t then f q else q) (tasks s)) =
      foreign_rows t_workspace_id ws (tasks s)"
    if t: "scoped_find t_workspace_id ws (\<lambda>q. t_id q = i) (tasks s) = Some t" and f: "\<And>q. t_workspace_id (f q) = t_workspace_id q" for t f
  proof -
    have "t \<in> set (tasks s)" "t_workspace_id t = ws" using scoped_find_SomeD [OF t] by simp_all
    then have "t_workspace_id q = ws" if "q \<in> set (tasks s)" "t_id q = t_id t" for q
      using tasks_ok_unique [OF assms] that by blast
    then show ?thesis by (intro foreign_map f)
  qed
  then have "wp (cancelTask E ws i) (\<lambda>_ s'. outside ws s' = outside ws s) (\<lambda>_ s'. outside ws s' = outside ws s) s"
    by (auto simp: cancelTask_def Let_def update_task_def outside_def split: option.split)
  then show ?thesis by (simp only: wp_state)
qed

lemma user_isolated:
  assumes "tasks_ok s"
  shows "outside ws (snd (run_user E ws user u s)) = outside ws s"
proof -
  have "outside ws (snd (run_workspace E ws user w s)) = outside ws s" for w
  proof (cases "\<exists>i. w = CancelTask i")
    case True
    then show ?thesis
      using cancel_isolated [OF assms] by (auto simp: answered_def andThen_def ret_def split: prod.splits sum.splits) (metis snd_conv)+
  next
    case False
    then show ?thesis by (intro scoped_isolated scoped_groups) blast
  qed
  then show ?thesis by (cases u) (simp_all add: scoped_groups [THEN scoped_isolated])
qed

lemma authenticate_isolated:
  assumes "devices_ok s" and "authenticateDevice E header s = (Inr (Some (DevicePrincipal i ws)), s')"
  shows "outside ws s' = outside ws s"
proof -
  obtain d raw where d: "resolveDeviceToken E (trim raw) s = Some d" "i = d_id d" "ws = d_workspace_id d" "header = Some raw"
    using authenticateDevice_ok [OF assms(2)] by auto
  have "d \<in> set (paired_devices s)" using resolveDeviceToken_Some [OF d(1)] by simp
  then have one: "q = d" if "q \<in> set (paired_devices s)" "d_id q = d_id d" for q
    using that assms(1) by (auto simp: devices_ok_def distinct_map inj_on_def)
  have "foreign_rows d_workspace_id ws (map (\<lambda>q. if d_id q = d_id d then q \<lparr> d_last_seen_at := t, d_updated_at := u \<rparr> else q)
      (paired_devices s)) = foreign_rows d_workspace_id ws (paired_devices s)" for t u
    by (rule foreign_map) (use one d(3) in auto)
  then show ?thesis
    using assms(2) d(1,4)
    by (auto simp: authenticateDevice_def touchDevice_def andThen_def gets_def ret_def require_def modify_def outside_def
        split: if_splits prod.splits sum.splits)
qed

lemma authenticate_cases:
  assumes "authenticateDevice E header s = (r, s')"
  shows "s' = s \<and> (\<forall>p. r \<noteq> Inr (Some p)) \<or> (\<exists>i w. r = Inr (Some (DevicePrincipal i w)))"
  using assms
  by (auto simp: authenticateDevice_def touchDevice_def andThen_def gets_def ret_def require_def fail_def modify_def
      split: option.splits if_splits)

lemma device_call_isolated:
  assumes "devices_ok s"
  shows "\<exists>ws. outside ws (snd (run_api E (DeviceCall header protocol d) s)) = outside ws s \<and>
    (\<forall>i w. fst (authenticateDevice E header s) = Inr (Some (DevicePrincipal i w)) \<longrightarrow> ws = w)"
proof (cases "authenticateDevice E header s")
  case (Pair r s')
  consider (none) "s' = s" "\<And>p. r \<noteq> Inr (Some p)" | (device) i w where "r = Inr (Some (DevicePrincipal i w))"
    using authenticate_cases [OF Pair] by blast
  then show ?thesis
  proof cases
    case none
    have "scoped ws (run_device E protocol None d)" for ws
      by (rule scoped_device) (simp add: device_workspace_def)
    then show ?thesis
      using none Pair scoped_isolated [of _ "run_device E protocol None d"]
      by (cases r; cases "projr r") (auto simp: andThen_def)
  next
    case device
    have "scoped w (run_device E protocol (Some (DevicePrincipal i w)) d)"
      by (rule scoped_device) (simp add: device_workspace_def)
    then have "outside w (snd (run_device E protocol (Some (DevicePrincipal i w)) d s')) = outside w s'"
      by (rule scoped_isolated)
    moreover have "outside w s' = outside w s" using authenticate_isolated [OF assms] Pair device by simp
    ultimately show ?thesis using Pair device by (auto simp: andThen_def)
  qed
qed

end
