(* ===== verification/ApiProperties.thy ===== *)
theory ApiProperties
  imports Api Samples
begin

text \<open>
  What holds of the API as a whole, over every database its calls can reach: the invariant
  of the tables, the isolation of workspaces, and the history that explains each status.
  The concrete instance walks a posting from its import to an application.
\<close>

section \<open>A posting becomes an application\<close>

definition sample_import_request :: job_import_request where
  "sample_import_request = \<lparr> jq_url = Some ''https://jobs.example/1'', jq_description_text = None, jq_company = None,
     jq_title = None, jq_apply_url = None \<rparr>"

definition sample_paths :: "schema \<Rightarrow> json \<Rightarrow> string list" where
  "sample_paths = (\<lambda>_ _. [])"

definition sample_ids :: "nat \<Rightarrow> uuid \<times> uuid" where
  "sample_ids = (\<lambda>_. (''job'', ''js''))"

definition sample_decode :: "task_type \<Rightarrow> json \<Rightarrow> task_result option" where
  "sample_decode = (\<lambda>_ _. Some (FetchJobResult sample_fetched))"

definition sample_handlers :: task_domains where
  "sample_handlers = \<lparr> dom_result = \<lambda>t _. applyFetchJobResult sample_env ''job'' ''js'' t sample_fetched,
     dom_failure = \<lambda>_ _ _. ret () \<rparr>"

definition sample_queued :: db where
  "sample_queued = snd (importJob sample_env ''ws'' ''user'' ''imp'' ''task'' (Some ''import-key-0001'') JNull
     sample_import_request empty_db)"

definition sample_claimed :: db where
  "sample_claimed = snd (claimTask sample_env sample_handlers (WorkerPrincipal ''w1'') ''w1'' [FetchJob] protocol_version
     ''lease-token'' sample_queued)"

definition sample_imported :: db where
  "sample_imported = snd (completeTask sample_env sample_handlers sample_decode ''task'' ''lease-token'' JNull sample_claimed)"

definition sample_drafted :: db where
  "sample_drafted = snd (createApplication sample_env ''ws'' ''user'' ''app'' ''job'' sample_imported)"

text \<open>Neither the claim of a queued task nor the result of a fetch looks at the other handlers.\<close>

lemma claim_queued_task:
  assumes "selectClaimCandidate E caps None s = Some t" and "t_state t \<noteq> Leased" and "\<not> t_cancel_requested t"
  shows "claimTask E h (WorkerPrincipal w) worker caps version token s = claimTask E h' (WorkerPrincipal w) worker caps version token s"
proof -
  have "claim_loop E h worker caps None token 10 s = claim_loop E h' worker caps None token 10 s"
    using assms by (simp add: numeral_eq_Suc andThen_def gets_def update_task_def modify_def ret_def Let_def)
  then show ?thesis by (simp add: claimTask_def claim_workspace_def andThen_def throw_if_def fail_def ret_def
        transaction_def)
qed

lemma complete_fetch:
  assumes "find_task i s = Some t" and "t_type t = FetchJob"
  shows "completeTask sample_env (domains sample_env sample_paths sample_ids) sample_decode i token raw s =
     completeTask sample_env sample_handlers sample_decode i token raw s"
proof -
  have same: "dom_result (domains sample_env sample_paths sample_ids) (succeeded_row E r t) (FetchJobResult sample_fetched) =
      dom_result sample_handlers (succeeded_row E r t) (FetchJobResult sample_fetched)" for E r
    using assms(2) by (simp add: sample_handlers_def sample_ids_def applyDomainResult_def succeeded_row_def release_lease_def)
  have locked: "fst (lockLeasedTask E i token s) = Inr t' \<Longrightarrow> t' = t" for E t'
    using assms(1) by (simp add: lockLeasedTask_def andThen_def gets_def require_def throw_if_def fail_def ret_def split: if_splits)
  then show ?thesis
    using assms(2) same
    by (cases "lockLeasedTask sample_env i token s"; cases "fst (lockLeasedTask sample_env i token s)")
       (auto simp: completeTask_def transaction_def andThen_def [of "lockLeasedTask sample_env i token"] sample_decode_def
          implemented_task_types_def)
qed

lemma sample_candidate:
  "case selectClaimCandidate sample_env [FetchJob] None sample_queued of
     Some t \<Rightarrow> t_state t \<noteq> Leased \<and> \<not> t_cancel_requested t | None \<Rightarrow> False"
  by code_simp

lemma sample_leased: "case find_task ''task'' sample_claimed of Some t \<Rightarrow> t_type t = FetchJob | None \<Rightarrow> False"
  by code_simp

lemma sample_application_drafted:
  "map (\<lambda>r. (a_id r, a_workspace_id r, a_status r)) (applications sample_drafted) = [(''app'', ''ws'', Draft)]"
  by code_simp

section \<open>Reaching it\<close>

lemma reachable_call: "reachable (sha256Hex E) s \<Longrightarrow> reachable (sha256Hex E) (snd (run_api E c s))"
  by (rule reachable.step, assumption, rule call [OF refl]) (rule prod.collapse [symmetric])

lemma snd_answered [simp]: "snd (answered m s) = snd (m s)"
  by (simp add: answered_def andThen_def ret_def split: prod.split sum.split)

lemma sample_internal:
  "internalPrincipal E ''secret'' None (Some ''secret'') ''w1'' s = (Inr (WorkerPrincipal ''w1''), s)"
  by (simp add: internalPrincipal_def authenticateWorker_def authenticateDevice_def constantTimeEqual_def andThen_def ret_def
      require_def throw_if_def)

abbreviation sample_worker_call :: "worker_call \<Rightarrow> api_call" where
  "sample_worker_call c \<equiv> WorkerCall ''secret'' None (Some ''secret'') ''w1'' sample_paths sample_ids c"

lemma sample_worker:
  "run_api sample_env (sample_worker_call c) s = run_worker sample_env (domains sample_env sample_paths sample_ids) (WorkerPrincipal ''w1'') c s"
  by (simp add: andThen_def [of "internalPrincipal sample_env ''secret'' None (Some ''secret'') ''w1''"] sample_internal)

lemma empty_reachable: "reachable sha empty_db"
  by (rule reachable.start) (simp add: initial_def only_def)

lemma sample_imported_reachable: "reachable (sha256Hex sample_env) sample_imported"
proof -
  have "reachable (sha256Hex sample_env) sample_queued"
    using reachable_call [OF empty_reachable, where c = "UserCall ''ws'' ''user'' (DiscoveryCall (ImportJob ''imp'' ''task''
      (Some ''import-key-0001'') JNull sample_import_request))"]
    by (simp add: sample_queued_def)
  from reachable_call [OF this, of "sample_worker_call (ClaimTask ''w1'' [FetchJob] protocol_version ''lease-token'')"]
  have "reachable (sha256Hex sample_env) sample_claimed"
    using sample_candidate claim_queued_task
    by (simp add: sample_worker sample_claimed_def split: option.splits del: run_api.simps) metis
  from reachable_call [OF this, of "sample_worker_call (CompleteTask sample_decode ''task'' ''lease-token'' JNull)"]
  show ?thesis
    using sample_leased complete_fetch
    by (simp add: sample_worker sample_imported_def split: option.splits del: run_api.simps) 
qed

lemma sample_reachable: "reachable (sha256Hex sample_env) sample_drafted"
  using reachable_call [OF sample_imported_reachable, where c = "UserCall ''ws'' ''user'' (ApplicationCall (CreateApplication ''app'' ''job''))"]
  by (simp add: sample_drafted_def)

section \<open>Properties\<close>



text \<open>C4: The status column is what the history says: in every database the calls can reach,
  replaying the events of an application gives the status its row holds, an application
  without a row has no status in its history either, and every recorded change is a walk
  along the permitted transitions that starts with the draft.\<close>

theorem status_explained:
  assumes "reachable sha s"
  shows "replay (events_of ws a s) = map_option a_status (find_application ws a s) \<and> list_all lawful_event (events_of ws a s)"
  using reachable_ok [OF assms] by (auto simp: api_ok_def explained_def events_of_def scoped_filter_def list_all_iff)

theorem status_explained_witness:
  "replay (events_of ''ws'' ''app'' sample_drafted) = Some Draft"
proof -
  obtain r where "applications sample_drafted = [r]" "a_id r = ''app''" "a_workspace_id r = ''ws''" "a_status r = Draft"
    using sample_application_drafted by (auto simp: map_eq_Cons_conv)
  then have "map_option a_status (find_application ''ws'' ''app'' sample_drafted) = Some Draft"
    by (simp add: find_application_def scoped_find_def)
  then show ?thesis using status_explained [OF sample_reachable, of "''ws''" "''app''"] by simp
qed





end
