(* ===== verification/Forms.thy ===== *)
theory Forms
  imports Text TaskContract
begin

text \<open>
  The shared description of an employer's form (\<open>packages/fill-planner/src/forms.ts\<close> and
  \<open>inspect.ts\<close>): what a page reader saw, what a question is called, how a form is
  fingerprinted, and whether the page is the one a packet names.  Rows of a page are
  untrusted JSON; numbers in it are integers.
\<close>

section \<open>Fields\<close>

datatype field_kind =
    TextField | TextareaField | EmailField | TelField | UrlField | NumberField
  | SelectField | RadioField | CheckboxField | FileField | UnsupportedField

fun kind_text :: "field_kind \<Rightarrow> string" where
  "kind_text TextField = ''text''"
| "kind_text TextareaField = ''textarea''"
| "kind_text EmailField = ''email''"
| "kind_text TelField = ''tel''"
| "kind_text UrlField = ''url''"
| "kind_text NumberField = ''number''"
| "kind_text SelectField = ''select''"
| "kind_text RadioField = ''radio''"
| "kind_text CheckboxField = ''checkbox''"
| "kind_text FileField = ''file''"
| "kind_text UnsupportedField = ''unsupported''"

definition choice_kinds :: "field_kind list" where
  "choice_kinds = [SelectField, RadioField, CheckboxField]"

definition free_text_kinds :: "field_kind list" where
  "free_text_kinds = [TextField, TextareaField, EmailField, TelField, UrlField, NumberField]"

record form_field =
  fm_key :: string
  fm_label :: string
  fm_kind :: field_kind
  fm_required :: bool
  fm_options :: "string list"
  fm_option_values :: "string list"
  fm_selector :: string

section \<open>Questions\<close>

definition max_question_key_length :: nat where
  "max_question_key_length = 120"

definition never_reuse_label_fragments :: "string list" where
  "never_reuse_label_fragments =
     [''gender'', ''race'', ''ethnic'', ''hispanic'', ''latino'', ''veteran'', ''disability'', ''disabled'',
      ''sexual orientation'', ''date of birth'', ''birth date'', ''social security'', ''ssn'', ''national id'',
      ''identity verification'', ''passport number'', ''driver'' @ [CHR 0x27] @ ''s license'', ''assessment'',
      ''personality'', ''criminal'', ''background check'', ''medical'', ''pregnan'', ''religio'', ''pronoun'',
      ''age range'', ''self-identif'']"

definition sensitive_label_fragments :: "string list" where
  "sensitive_label_fragments =
     [''phone'', ''address'', ''salary'', ''compensation'', ''visa'', ''sponsor'', ''work authorization'',
      ''right to work'', ''notice period'']"

definition is_key_char :: "char \<Rightarrow> bool" where
  "is_key_char c \<longleftrightarrow> (let n = (of_char c :: nat) in 97 \<le> n \<and> n \<le> 122 \<or> 48 \<le> n \<and> n \<le> 57)"

text \<open>\<open>replace(/[^a-z0-9]+/g, '_')\<close>\<close>

function squash :: "string \<Rightarrow> string" where
  "squash [] = []"
| "squash (c # cs) =
     (if is_key_char c then c # squash cs else CHR ''_'' # squash (dropWhile (\<lambda>c. \<not> is_key_char c) cs))"
  by pat_completeness auto

termination
  by (relation "measure length") (auto simp: le_imp_less_Suc length_dropWhile_le)

definition strip_underscores :: "string \<Rightarrow> string" where
  "strip_underscores s =
     rev (dropWhile (\<lambda>c. c = CHR ''_'') (rev (dropWhile (\<lambda>c. c = CHR ''_'') s)))"

definition normalizeQuestionKey :: "string \<Rightarrow> string" where
  "normalizeQuestionKey label =
     take max_question_key_length (strip_underscores (squash (toLowerCase (trim label))))"

definition sensitivityFor :: "string \<Rightarrow> answer_sensitivity" where
  "sensitivityFor label =
     (let lowered = toLowerCase label in
      if list_ex (\<lambda>f. sublist f lowered) never_reuse_label_fragments then NeverReuse
      else if list_ex (\<lambda>f. sublist f lowered) sensitive_label_fragments then Sensitive
      else Standard)"

section \<open>The fingerprint of a form\<close>

definition field_material :: "form_field \<Rightarrow> string" where
  "field_material f =
     fm_key f @ '':'' @ kind_text (fm_kind f) @ '':'' @ (if fm_required f then ''1'' else ''0'') @ '':'' @
     join ''|'' (sort (fm_options f))"

definition fingerprintMaterial :: "form_field list \<Rightarrow> string" where
  "fingerprintMaterial fs = join [CHR 0x0A] (map field_material (sort_key fm_key fs))"

definition fingerprint :: "form_field list \<Rightarrow> (string \<Rightarrow> string) \<Rightarrow> string" where
  "fingerprint fs digest = ''v1:'' @ take 32 (digest (fingerprintMaterial fs))"

section \<open>What a page reader reports\<close>

text \<open>\<open>String(value)\<close>; within an array \<open>null\<close> is the empty string.\<close>

fun js_string :: "json \<Rightarrow> string" where
  "js_string JNull = ''null''"
| "js_string (JBool b) = (if b then ''true'' else ''false'')"
| "js_string (JNum i) = string_of_int i"
| "js_string (JStr s) = s"
| "js_string (JArr vs) = join '','' (map (\<lambda>v. if v = JNull then [] else js_string v) vs)"
| "js_string (JObj kvs) = ''[object Object]''"

text \<open>Reading a property; \<open>None\<close> is \<open>undefined\<close>, and a later duplicate wins.\<close>

definition get_prop :: "string \<Rightarrow> (string \<times> json) list \<Rightarrow> json option" where
  "get_prop k kvs = map_of (rev kvs) k"

definition js_text :: "json option \<Rightarrow> string" where
  "js_text v = (case v of None \<Rightarrow> []
     | Some x \<Rightarrow> if x = JNull \<or> x = JBool False \<or> x = JNum 0 then [] else js_string x)"

definition js_list :: "json option \<Rightarrow> json list" where
  "js_list v = (case v of Some (JArr vs) \<Rightarrow> vs | _ \<Rightarrow> [])"

definition js_truthy :: "json option \<Rightarrow> bool" where
  "js_truthy v = (case v of None \<Rightarrow> False
     | Some x \<Rightarrow> x \<noteq> JNull \<and> x \<noteq> JBool False \<and> x \<noteq> JNum 0 \<and> x \<noteq> JStr [])"

definition input_kinds :: "(string \<times> field_kind) list" where
  "input_kinds =
     [(''text'', TextField), (''email'', EmailField), (''tel'', TelField), (''url'', UrlField),
      (''number'', NumberField), (''search'', TextField), (''textarea'', TextareaField), (''select'', SelectField),
      (''radio'', RadioField), (''checkbox'', CheckboxField), (''file'', FileField)]"

definition kindFromRaw :: "string \<Rightarrow> field_kind" where
  "kindFromRaw raw = (case map_of input_kinds (toLowerCase (trim raw)) of Some k \<Rightarrow> k | None \<Rightarrow> UnsupportedField)"

text \<open>The options of a row with the values they submit, up to the shorter of the two lists.\<close>

definition row_options :: "(string \<times> json) list \<Rightarrow> (string \<times> string) list" where
  "row_options row =
     (let raw_options = js_list (get_prop ''options'' row);
          raw_values = (if js_list (get_prop ''option_values'' row) = [] then raw_options else js_list (get_prop ''option_values'' row))
      in filter (\<lambda>p. trim (fst p) \<noteq> []) (map (\<lambda>(x, v). (js_string x, js_string v)) (zip raw_options raw_values)))"

definition row_field :: "(string \<Rightarrow> string) \<Rightarrow> string list \<Rightarrow> (string \<times> json) list \<Rightarrow> form_field" where
  "row_field key_for seen row =
     (let label = trim (js_text (get_prop ''label'' row)); key = key_for label; ambiguous = key \<in> set seen in
      \<lparr> fm_key = (if ambiguous then [] else key), fm_label = label,
        fm_kind = (if ambiguous then UnsupportedField else kindFromRaw (js_text (get_prop ''kind'' row))),
        fm_required = js_truthy (get_prop ''required'' row), fm_options = map fst (row_options row),
        fm_option_values = map snd (row_options row), fm_selector = js_text (get_prop ''selector'' row) \<rparr>)"

fun parse_rows :: "(string \<Rightarrow> string) \<Rightarrow> string list \<Rightarrow> json list \<Rightarrow> form_field list" where
  "parse_rows key_for seen [] = []"
| "parse_rows key_for seen (JObj row # rows) =
     (let f = row_field key_for seen row in
      f # parse_rows key_for (if fm_key f \<noteq> [] then fm_key f # seen else seen) rows)"
| "parse_rows key_for seen (_ # rows) = parse_rows key_for seen rows"

definition parseFields :: "json \<Rightarrow> (string \<Rightarrow> string) \<Rightarrow> form_field list" where
  "parseFields raw key_for = parse_rows key_for [] (js_list (Some raw))"

section \<open>The identity of a page\<close>

record page_identity =
  pg_company :: "string option"
  pg_title :: "string option"
  pg_url :: string
  pg_origin :: string

definition parseIdentity :: "json \<Rightarrow> string \<Rightarrow> string \<Rightarrow> page_identity" where
  "parseIdentity raw url origin =
     (let data = (case raw of JObj kvs \<Rightarrow> kvs | _ \<Rightarrow> []);
          company = trim (js_text (get_prop ''company'' data)); title = trim (js_text (get_prop ''title'' data))
      in \<lparr> pg_company = (if company = [] then None else Some company),
           pg_title = (if title = [] then None else Some title), pg_url = url, pg_origin = origin \<rparr>)"

text \<open>\<open>split(/\s+/)\<close>\<close>

function split_spaces :: "string \<Rightarrow> string list" where
  "split_spaces s =
     (case dropWhile (\<lambda>c. \<not> is_space c) s of
        [] \<Rightarrow> [s]
      | _ # rest \<Rightarrow> takeWhile (\<lambda>c. \<not> is_space c) s # split_spaces (dropWhile is_space rest))"
  by pat_completeness auto

termination
proof (relation "measure length", simp)
  fix s c and rest :: string
  assume "dropWhile (\<lambda>c. \<not> is_space c) s = c # rest"
  then have "Suc (length rest) \<le> length s"
    using length_dropWhile_le [of "\<lambda>c. \<not> is_space c" s] by simp
  then show "(dropWhile is_space rest, s) \<in> measure length"
    using length_dropWhile_le [of is_space rest] by simp
qed

declare split_spaces.simps [simp del]

definition normalise_identity :: "string \<Rightarrow> string" where
  "normalise_identity v = toLowerCase (join '' '' (filter (\<lambda>w. w \<noteq> []) (split_spaces v)))"

datatype identity_check = Matches | NothingStated | CompanyDiffers | RoleDiffers

definition agrees :: "string option \<Rightarrow> string \<Rightarrow> bool" where
  "agrees observed expected =
     (case observed of None \<Rightarrow> True
      | Some text \<Rightarrow> trim expected = [] \<or>
          (let left = normalise_identity text; right = normalise_identity expected in sublist left right \<or> sublist right left))"

definition checkIdentity :: "page_identity \<Rightarrow> string \<Rightarrow> string \<Rightarrow> identity_check" where
  "checkIdentity page expected_company expected_title =
     (if pg_company page = None \<and> pg_title page = None then NothingStated
      else if \<not> agrees (pg_company page) expected_company then CompanyDiffers
      else if \<not> agrees (pg_title page) expected_title then RoleDiffers
      else Matches)"

lemma parse_rows_keys:
  "fm_key f \<noteq> [] \<Longrightarrow> f \<in> set (parse_rows key_for seen rows) \<Longrightarrow> fm_key f \<notin> set seen"
proof (induction key_for seen rows rule: parse_rows.induct)
  case (2 key_for seen row rows)
  then show ?case by (auto simp: Let_def row_field_def split: if_splits)
qed auto

text \<open>No two controls of a page carry the same name.\<close>

lemma parse_rows_distinct: "distinct (filter (\<lambda>k. k \<noteq> []) (map fm_key (parse_rows key_for seen rows)))"
proof (induction key_for seen rows rule: parse_rows.induct)
  case (2 key_for seen row rows)
  have "fm_key (row_field key_for seen row) \<notin> fm_key ` set (parse_rows key_for (fm_key (row_field key_for seen row) # seen) rows)"
    if "fm_key (row_field key_for seen row) \<noteq> []"
    using that parse_rows_keys by fastforce
  then show ?case using 2 by (auto simp: Let_def)
qed auto

lemma parse_rows_count: "length (parse_rows key_for seen rows) = length (filter (\<lambda>r. case r of JObj _ \<Rightarrow> True | _ \<Rightarrow> False) rows)"
  by (induction key_for seen rows rule: parse_rows.induct) (auto simp: Let_def)

end
