(* ===== verification/FillPlan.thy ===== *)
theory FillPlan
  imports Forms "HOL-Library.Multiset"
begin

text \<open>
  What a fill client types and what it refuses to type (\<open>packages/fill-planner/src/plan.ts\<close>):
  one decision per field of the form, from the answers of the approved packet alone.  The
  lemmas say what a planned value is entitled to be and what the fingerprint of
  \<open>forms.ts\<close> binds.
\<close>

section \<open>The plan\<close>

record planned_value =
  pv_field :: form_field
  pv_values :: "string list"
  pv_upload :: bool

record fill_plan =
  fp_values :: "planned_value list"
  fp_unresolved :: "unresolved_field list"

definition hasUnresolvedRequired :: "fill_plan \<Rightarrow> bool" where
  "hasUnresolvedRequired p = list_ex uf_required (fp_unresolved p)"

fun asStrings :: "answer_value \<Rightarrow> string list" where
  "asStrings (ABool b) = [if b then ''yes'' else ''no'']"
| "asStrings (AStrings vs) = vs"
| "asStrings (ANumber i) = [string_of_int i]"
| "asStrings (AString s) = [s]"

definition same_option :: "string \<Rightarrow> string \<Rightarrow> bool" where
  "same_option value option = (toLowerCase (trim option) = toLowerCase (trim value))"

definition matchOption :: "string \<Rightarrow> string list \<Rightarrow> string option" where
  "matchOption value options = find (same_option value) options"

definition unresolved_of :: "form_field \<Rightarrow> unresolved_reason \<Rightarrow> unresolved_field" where
  "unresolved_of f reason =
     \<lparr> uf_question_key = fm_key f, uf_label = Some (fm_label f), uf_required = fm_required f, uf_reason = reason,
       uf_options = fm_options f \<rparr>"

definition unnamed_field :: "form_field \<Rightarrow> unresolved_field" where
  "unnamed_field f =
     \<lparr> uf_question_key = ''unnamed_field'', uf_label = (if fm_label f = [] then None else Some (fm_label f)),
       uf_required = fm_required f, uf_reason = UnsupportedWidget, uf_options = fm_options f \<rparr>"

text \<open>\<open>new Map(...)\<close>: the last answer of a key is the one that counts.\<close>

definition answer_for :: "fill_field list \<Rightarrow> string \<Rightarrow> fill_field option" where
  "answer_for answers key = find (\<lambda>a. ff_question_key a = key) (rev answers)"

definition matched_options :: "form_field \<Rightarrow> string list \<Rightarrow> string list" where
  "matched_options f rendered = List.map_filter (\<lambda>v. matchOption v (fm_options f)) rendered"

definition typed_text :: "string list \<Rightarrow> string" where
  "typed_text rendered = trim (join '', '' rendered)"

text \<open>The body of the loop: what is asked, or what is typed.\<close>

definition plan_field :: "fill_field list \<Rightarrow> bool \<Rightarrow> form_field \<Rightarrow> unresolved_field + planned_value" where
  "plan_field answers has_attachment f =
     (if fm_key f = [] then Inl (unnamed_field f)
      else if fm_kind f = UnsupportedField then Inl (unresolved_of f UnsupportedWidget)
      else if fm_kind f = FileField then
        (if has_attachment then Inr \<lparr> pv_field = f, pv_values = [], pv_upload = True \<rparr>
         else Inl (unresolved_of f FileUploadBlocked))
      else if sensitivityFor (fm_label f) = NeverReuse then Inl (unresolved_of f NeverInferable)
      else case answer_for answers (fm_key f) of
        None \<Rightarrow> Inl (unresolved_of f NewQuestion)
      | Some answer \<Rightarrow>
          let rendered = asStrings (ff_answer answer) in
          if fm_kind f \<in> set choice_kinds then
            (let matched = matched_options f rendered in
             if length matched \<noteq> length rendered \<or> length matched = 0 then Inl (unresolved_of f NeedsExactMapping)
             else Inr \<lparr> pv_field = f, pv_values = matched, pv_upload = False \<rparr>)
          else if fm_kind f \<in> set free_text_kinds then
            (if typed_text rendered = [] then Inl (unresolved_of f NoAnswer)
             else Inr \<lparr> pv_field = f, pv_values = [typed_text rendered], pv_upload = False \<rparr>)
          else Inl (unresolved_of f UnsupportedWidget))"

definition add_decision :: "unresolved_field + planned_value \<Rightarrow> fill_plan \<Rightarrow> fill_plan" where
  "add_decision d p =
     (case d of Inl u \<Rightarrow> p \<lparr> fp_unresolved := fp_unresolved p @ [u] \<rparr>
              | Inr v \<Rightarrow> p \<lparr> fp_values := fp_values p @ [v] \<rparr>)"

definition buildPlan :: "form_field list \<Rightarrow> fill_field list \<Rightarrow> bool \<Rightarrow> fill_plan" where
  "buildPlan fs answers has_attachment =
     fold (\<lambda>f. add_decision (plan_field answers has_attachment f)) fs \<lparr> fp_values = [], fp_unresolved = [] \<rparr>"

section \<open>Facts about plans\<close>

lemma fold_decisions:
  "v \<in> set (fp_values (fold (\<lambda>f. add_decision (d f)) fs p)) \<longleftrightarrow> v \<in> set (fp_values p) \<or> (\<exists>f \<in> set fs. d f = Inr v)"
  "u \<in> set (fp_unresolved (fold (\<lambda>f. add_decision (d f)) fs p)) \<longleftrightarrow>
     u \<in> set (fp_unresolved p) \<or> (\<exists>f \<in> set fs. d f = Inl u)"
  "length (fp_values (fold (\<lambda>f. add_decision (d f)) fs p)) + length (fp_unresolved (fold (\<lambda>f. add_decision (d f)) fs p)) =
     length (fp_values p) + length (fp_unresolved p) + length fs"
  by (induction fs arbitrary: p) (auto simp: add_decision_def split: sum.split)

lemma plan_values: "v \<in> set (fp_values (buildPlan fs answers att)) \<longleftrightarrow> (\<exists>f \<in> set fs. plan_field answers att f = Inr v)"
  by (simp add: buildPlan_def fold_decisions)

lemma plan_unresolved: "u \<in> set (fp_unresolved (buildPlan fs answers att)) \<longleftrightarrow> (\<exists>f \<in> set fs. plan_field answers att f = Inl u)"
  by (simp add: buildPlan_def fold_decisions)

lemma plan_length: "length (fp_values (buildPlan fs answers att)) + length (fp_unresolved (buildPlan fs answers att)) = length fs"
  by (simp add: buildPlan_def fold_decisions)

lemma answer_for_Some: "answer_for answers key = Some a \<Longrightarrow> a \<in> set answers \<and> ff_question_key a = key"
  by (auto simp: answer_for_def dest!: find_SomeD)

lemma answer_for_last:
  "answer_for answers key =
     (let own = filter (\<lambda>a. ff_question_key a = key) answers in if own = [] then None else Some (last own))"
  by (induction answers rule: rev_induct) (auto simp: answer_for_def Let_def)

lemma matched_each:
  assumes "length (matched_options f rendered) = length rendered"
  shows "list_all2 (\<lambda>v o'. o' \<in> set (fm_options f) \<and> same_option v o') rendered (matched_options f rendered)"
  using assms
proof (induction rendered)
  case Nil
  then show ?case by (simp add: matched_options_def List.map_filter_simps)
next
  case (Cons v rendered)
  have le: "length (List.map_filter g xs) \<le> length xs" for g and xs :: "string list"
    by (induction xs) (auto simp: List.map_filter_simps split: option.split)
  have "matchOption v (fm_options f) \<noteq> None"
    using Cons.prems le [of "\<lambda>v. matchOption v (fm_options f)" rendered]
    by (auto simp: matched_options_def List.map_filter_simps split: option.splits)
  then obtain o' where o': "matchOption v (fm_options f) = Some o'" by blast
  then show ?case using Cons by (auto simp: matched_options_def List.map_filter_simps matchOption_def dest: find_SomeD)
qed


text \<open>What a planned value is entitled to be.\<close>

definition entitled :: "fill_field list \<Rightarrow> bool \<Rightarrow> planned_value \<Rightarrow> bool" where
  "entitled answers att v \<longleftrightarrow>
     (let f = pv_field v in
      if pv_upload v then fm_kind f = FileField \<and> att \<and> pv_values v = []
      else sensitivityFor (fm_label f) \<noteq> NeverReuse \<and>
        (\<exists>a. answer_for answers (fm_key f) = Some a \<and>
          (if fm_kind f \<in> set choice_kinds
           then pv_values v \<noteq> [] \<and>
             list_all2 (\<lambda>w x. x \<in> set (fm_options f) \<and> same_option w x) (asStrings (ff_answer a)) (pv_values v)
           else fm_kind f \<in> set free_text_kinds \<and> pv_values v = [typed_text (asStrings (ff_answer a))] \<and>
             typed_text (asStrings (ff_answer a)) \<noteq> [])))"

lemma plan_field_entitled:
  assumes "plan_field answers att f = Inr v"
  shows "pv_field v = f \<and> entitled answers att v"
  using assms matched_each
  by (auto simp: plan_field_def entitled_def Let_def split: if_splits option.splits)

lemma plan_field_asked:
  assumes "plan_field answers att f = Inl u"
  shows "uf_required u = fm_required f \<and> uf_options u = fm_options f"
  using assms
  by (auto simp: plan_field_def unresolved_of_def unnamed_field_def Let_def split: if_splits option.splits)

lemma plan_field_never:
  assumes "fm_key f \<noteq> []" and "sensitivityFor (fm_label f) = NeverReuse" and "fm_kind f \<notin> {FileField, UnsupportedField}"
  shows "plan_field answers att f = Inl (unresolved_of f NeverInferable)"
  using assms by (simp add: plan_field_def)

section \<open>Facts about fingerprints\<close>

lemma split_at:
  assumes "a @ c # b = a' @ c # b'" and "c \<notin> set a" and "c \<notin> set a'"
  shows "a = a' \<and> b = b'"
proof -
  have "takeWhile (\<lambda>x. x \<noteq> c) (a @ c # b) = a" "takeWhile (\<lambda>x. x \<noteq> c) (a' @ c # b') = a'"
    using assms(2,3) by (auto simp: takeWhile_append)
  then have "a = a'" using assms(1) by simp
  then show ?thesis using assms(1) by simp
qed

lemma join_Cons: "join [c] (x # xs) = x @ (if xs = [] then [] else c # join [c] xs)"
  by (cases xs) simp_all

definition fits :: "char \<Rightarrow> string list \<Rightarrow> bool" where
  "fits c xs \<longleftrightarrow> list_all (\<lambda>x. x \<noteq> [] \<and> c \<notin> set x) xs"

lemma join_inj:
  assumes "fits c xs" and "fits c ys"
  shows "join [c] xs = join [c] ys \<longleftrightarrow> xs = ys"
  using assms
proof (induction xs arbitrary: ys)
  case Nil
  then show ?case by (cases ys) (auto simp: join_Cons fits_def)
next
  case (Cons x xs)
  show ?case
  proof (cases ys)
    case Nil
    then show ?thesis using Cons.prems by (simp add: join_Cons fits_def)
  next
    case (Cons y ys')
    have "x = y \<and> xs = ys'" if eq: "join [c] (x # xs) = join [c] (y # ys')"
    proof (cases "xs = [] \<or> ys' = []")
      case True
      have "c \<notin> set x" "c \<notin> set y" using Cons.prems Cons by (simp_all add: fits_def)
      moreover have "c \<in> set (join [c] (x # xs)) \<longleftrightarrow> xs \<noteq> []" "c \<in> set (join [c] (y # ys')) \<longleftrightarrow> ys' \<noteq> []"
        using calculation by (auto simp: join_Cons)
      ultimately have "xs = []" "ys' = []" using True eq by auto
      then show ?thesis using eq by (simp add: join_Cons)
    next
      case False
      then have "x @ c # join [c] xs = y @ c # join [c] ys'" using eq by (simp add: join_Cons)
      then have "x = y" "join [c] xs = join [c] ys'"
        using split_at [of x c "join [c] xs" y "join [c] ys'"] Cons.prems Cons by (simp_all add: fits_def)
      then show ?thesis using Cons.IH [of ys'] Cons.prems Cons by (simp add: fits_def)
    qed
    then show ?thesis using Cons by blast
  qed
qed

text \<open>The shape of a form: what the fingerprint is meant to bind.\<close>

definition field_shape :: "form_field \<Rightarrow> string \<times> field_kind \<times> bool \<times> string list" where
  "field_shape f = (fm_key f, fm_kind f, fm_required f, sort (fm_options f))"

definition form_shape :: "form_field list \<Rightarrow> (string \<times> field_kind \<times> bool \<times> string list) list" where
  "form_shape fs = map field_shape (sort_key fm_key fs)"

definition unambiguous :: "form_field \<Rightarrow> bool" where
  "unambiguous f \<longleftrightarrow> CHR '':'' \<notin> set (fm_key f) \<and> CHR 0x0A \<notin> set (fm_key f) \<and> fits CHR ''|'' (fm_options f) \<and>
     list_all (\<lambda>x. CHR 0x0A \<notin> set x) (fm_options f)"

lemma kind_text_inj: "kind_text k = kind_text k' \<longleftrightarrow> k = k'"
  by (cases k; cases k') simp_all

lemma kind_text_plain: "CHR '':'' \<notin> set (kind_text k) \<and> CHR 0x0A \<notin> set (kind_text k)"
  by (cases k) simp_all

lemma fits_sort: "fits c (sort xs) \<longleftrightarrow> fits c xs"
  by (simp add: fits_def list_all_iff)

lemma field_material_parts:
  "field_material f = fm_key f @ CHR '':'' # kind_text (fm_kind f) @ CHR '':'' #
     (if fm_required f then CHR ''1'' else CHR ''0'') # CHR '':'' # join ''|'' (sort (fm_options f))"
  by (simp add: field_material_def)

lemma field_material_shape:
  assumes "unambiguous f" and "unambiguous g"
  shows "field_material f = field_material g \<longleftrightarrow> field_shape f = field_shape g"
proof
  assume eq: "field_material f = field_material g"
  note parts = split_at [OF eq [unfolded field_material_parts]]
  have key: "CHR '':'' \<notin> set (fm_key f)" "CHR '':'' \<notin> set (fm_key g)" using assms by (simp_all add: unambiguous_def)
  have kind: "CHR '':'' \<notin> set (kind_text k)" for k using kind_text_plain by blast
  note rest = split_at [OF conjunct2 [OF parts [OF key]] kind kind]
  have "sort (fm_options f) = sort (fm_options g)"
    using rest join_inj [of "CHR ''|''" "sort (fm_options f)" "sort (fm_options g)"] assms
    by (simp add: unambiguous_def fits_sort)
  then show "field_shape f = field_shape g"
    using parts [OF key] rest by (simp add: field_shape_def kind_text_inj split: if_splits)
qed (simp add: field_material_parts field_shape_def)

lemma set_join: "set (join sep xs) \<subseteq> set sep \<union> \<Union> (set ` set xs)"
  by (induction sep xs rule: join.induct) auto

lemma field_material_line: "unambiguous f \<Longrightarrow> field_material f \<noteq> [] \<and> CHR 0x0A \<notin> set (field_material f)"
  using set_join [of "''|''" "sort (fm_options f)"] kind_text_plain [of "fm_kind f"]
  by (auto simp: field_material_def unambiguous_def list_all_iff)

lemma material_shape:
  assumes "list_all unambiguous fs" and "list_all unambiguous gs"
  shows "fingerprintMaterial fs = fingerprintMaterial gs \<longleftrightarrow> form_shape fs = form_shape gs"
proof -
  have lines: "fits CHR 0x0A (map field_material (sort_key fm_key hs))" if "list_all unambiguous hs" for hs
    using that field_material_line by (auto simp: fits_def list_all_iff)
  have "map field_material xs = map field_material ys \<longleftrightarrow> map field_shape xs = map field_shape ys"
    if "list_all unambiguous xs" "list_all unambiguous ys" for xs ys
    using that
  proof (induction xs arbitrary: ys)
    case (Cons x xs)
    then show ?case by (cases ys) (auto simp: field_material_shape)
  qed auto
  moreover have "list_all unambiguous (sort_key fm_key fs)" "list_all unambiguous (sort_key fm_key gs)"
    using assms by (simp_all add: list_all_iff)
  ultimately show ?thesis
    using join_inj [OF lines [OF assms(1)] lines [OF assms(2)]] by (simp add: fingerprintMaterial_def form_shape_def)
qed

text \<open>The order of the fields on the page does not matter when no two share a key.\<close>

lemma form_shape_order:
  assumes "mset fs = mset gs" and "distinct (map fm_key fs)"
  shows "form_shape fs = form_shape gs"
proof -
  have "sort_key fm_key fs = sort_key fm_key gs"
  proof (rule properties_for_sort_key)
    show "mset (sort_key fm_key gs) = mset fs" using assms by simp
    fix k
    assume k: "k \<in> set (sort_key fm_key gs)"
    have inj: "inj_on fm_key (set fs)" using assms(2) by (simp add: distinct_map)
    have same: "set gs = set fs" using mset_eq_setD [OF assms(1)] by simp
    have "fm_key k = fm_key x \<longleftrightarrow> x = k" if "x \<in> set fs" for x
      using inj_onD [OF inj, of k x] that k same by auto
    then have "filter (\<lambda>x. fm_key k = fm_key x) hs = filter (\<lambda>x. x = k) hs" if "mset hs = mset fs" for hs
      using mset_eq_setD [OF that] by (intro filter_cong [OF refl]) blast
    moreover have "filter (\<lambda>x. x = k) hs = replicate (count (mset hs) k) k" for hs
      by (induction hs) auto
    ultimately show "filter (\<lambda>x. fm_key k = fm_key x) (sort_key fm_key gs) = filter (\<lambda>x. fm_key k = fm_key x) fs"
      using assms(1) by simp
  qed simp
  then show ?thesis by (simp add: form_shape_def)
qed

end
