(* ===== verification/PlannerProperties.thy ===== *)
theory PlannerProperties
  imports FillPlan
begin

text \<open>
  What the shared fill planner promises of a page it has read, with a concrete page.
\<close>

section \<open>Plans\<close>








section \<open>Fingerprints\<close>

text \<open>C30: The fingerprint's material binds the shape of a form: as long as no key holds a colon or
  a line break, and no option is empty or holds a bar or a line break, two forms have the
  same material exactly when they have, key by key, the same kinds, the same required
  controls and the same options in whatever order.\<close>

theorem fingerprint_binds_shape:
  assumes "list_all unambiguous fs" and "list_all unambiguous gs"
  shows "fingerprintMaterial fs = fingerprintMaterial gs \<longleftrightarrow> form_shape fs = form_shape gs"
  by (rule material_shape [OF assms])

definition sample_choice :: "string list \<Rightarrow> form_field" where
  "sample_choice options = \<lparr> fm_key = ''visa'', fm_label = ''Visa'', fm_kind = SelectField, fm_required = True,
     fm_options = options, fm_option_values = options, fm_selector = ''#v'' \<rparr>"

text \<open>An option that holds the separator is outside the hypotheses: there two forms that offer
  different options have the same material.\<close>

lemma fingerprint_separator:
  "fingerprintMaterial [sample_choice [''A|B'']] = fingerprintMaterial [sample_choice [''A'', ''B'']]"
  by code_simp

theorem fingerprint_binds_shape_witness:
  "fingerprintMaterial [sample_choice [''Yes'', ''No'']] = fingerprintMaterial [sample_choice [''No'', ''Yes'']] \<and>
   fingerprintMaterial [sample_choice [''Yes'', ''No'']] \<noteq> fingerprintMaterial [sample_choice [''Yes'']]"
proof -
  have ok: "list_all unambiguous [sample_choice [''Yes'', ''No'']]" "list_all unambiguous [sample_choice [''No'', ''Yes'']]"
    "list_all unambiguous [sample_choice [''Yes'']]"
    by code_simp+
  show ?thesis
    using fingerprint_binds_shape [OF ok(1,2)] fingerprint_binds_shape [OF ok(1,3)]
    by (simp add: form_shape_def field_shape_def sample_choice_def)
qed

end
