(* ===== verification/Network.thy ===== *)
theory Network
  imports Text Settings
begin

unbundle bit_operations_syntax

text \<open>
  The destination policy of outbound requests (\<open>settings/network.ts\<close>): which addresses are
  public, which hosts the operator may allow, and what a URL must satisfy before it is
  connected to.  The resolver and \<open>isIP\<close> of \<open>node:net\<close> are parameters.  The lemmas compare
  the byte tests with a table of address blocks.
\<close>

section \<open>Parsing addresses\<close>

text \<open>\<open>split\<close> with a one-character separator, and with \<open>'::'\<close>.\<close>

fun split_char :: "char \<Rightarrow> string \<Rightarrow> string list" where
  "split_char sep [] = [[]]"
| "split_char sep (c # cs) =
     (if c = sep then [] # split_char sep cs
      else case split_char sep cs of [] \<Rightarrow> [[c]] | w # ws \<Rightarrow> (c # w) # ws)"

fun split_gap :: "string \<Rightarrow> string list" where
  "split_gap [] = [[]]"
| "split_gap [c] = [[c]]"
| "split_gap (c # d # cs) =
     (if c = CHR '':'' \<and> d = CHR '':'' then [] # split_gap cs
      else case split_gap (d # cs) of [] \<Rightarrow> [[c]] | w # ws \<Rightarrow> (c # w) # ws)"

text \<open>\<open>/^\d{1,3}$/\<close> and \<open>/^[0-9a-fA-F]{1,4}$/\<close>, with the numbers they denote.\<close>

definition decimal_byte :: "string \<Rightarrow> int option" where
  "decimal_byte part =
     (if 1 \<le> length part \<and> length part \<le> 3 \<and> list_all is_digit part \<and> digits_value part \<le> 255
      then Some (int (digits_value part)) else None)"

definition hex_digit :: "char \<Rightarrow> int option" where
  "hex_digit c =
     (let n = (of_char c :: int) in
      if 48 \<le> n \<and> n \<le> 57 then Some (n - 48)
      else if 65 \<le> n \<and> n \<le> 70 then Some (n - 55)
      else if 97 \<le> n \<and> n \<le> 102 then Some (n - 87) else None)"

definition hex_group :: "string \<Rightarrow> int option" where
  "hex_group part =
     (if 1 \<le> length part \<and> length part \<le> 4
      then foldl (\<lambda>a c. Option.bind a (\<lambda>n. map_option (\<lambda>d. 16 * n + d) (hex_digit c))) (Some 0) part else None)"

definition hex_chars :: string where
  "hex_chars = ''0123456789abcdef''"

fun all_some :: "'a option list \<Rightarrow> 'a list option" where
  "all_some [] = Some []"
| "all_some (x # xs) = Option.bind x (\<lambda>a. map_option ((#) a) (all_some xs))"

definition parseIpv4 :: "string \<Rightarrow> int list option" where
  "parseIpv4 value =
     (let parts = split_char CHR ''.'' value in
      if length parts \<noteq> 4 then None else all_some (map decimal_byte parts))"

text \<open>A trailing dotted quad stands for two groups, each written without leading zeros.\<close>

definition to_hex :: "int \<Rightarrow> string" where
  "to_hex w =
     (let digits4 = map (\<lambda>k. hex_chars ! nat (w div 16 ^ k mod 16)) [3, 2, 1, 0];
          short = dropWhile (\<lambda>c. c = CHR ''0'') digits4
      in if short = [] then ''0'' else short)"

definition rewrite_trailing :: "string \<Rightarrow> string option" where
  "rewrite_trailing text =
     (let trailing = rev (takeWhile (\<lambda>c. c \<noteq> CHR '':'') (rev text)); before = take (length text - length trailing) text in
      if CHR '':'' \<notin> set text \<or> CHR ''.'' \<notin> set trailing then Some text
      else case parseIpv4 trailing of
        Some [a, b, c, d] \<Rightarrow> Some (before @ to_hex (a * 256 + b) @ '':'' @ to_hex (c * 256 + d))
      | _ \<Rightarrow> None)"

definition to_groups :: "string \<Rightarrow> int list option" where
  "to_groups part =
     (if part = [] then Some []
      else map_option (\<lambda>ws. concat (map (\<lambda>w. [w div 256 mod 256, w mod 256]) ws))
        (all_some (map hex_group (split_char CHR '':'' part))))"

definition strip_brackets :: "string \<Rightarrow> string" where
  "strip_brackets value =
     (if startsWith value ''['' \<and> endsWith value '']'' then butlast (tl value) else value)"

definition parseIpv6 :: "string \<Rightarrow> int list option" where
  "parseIpv6 value =
     Option.bind (rewrite_trailing (takeWhile (\<lambda>c. c \<noteq> CHR ''%'') (strip_brackets value))) (\<lambda>text.
       case split_gap text of
         [whole] \<Rightarrow> Option.bind (to_groups whole) (\<lambda>bs. if length bs = 16 then Some bs else None)
       | [head, rest] \<Rightarrow>
           Option.bind (to_groups head) (\<lambda>hs. Option.bind (to_groups rest) (\<lambda>rs.
             if length hs + length rs \<le> 16 then Some (hs @ replicate (16 - length hs - length rs) 0 @ rs) else None))
       | _ \<Rightarrow> None)"

section \<open>Public addresses\<close>

definition byte_at :: "nat \<Rightarrow> int list \<Rightarrow> int" where
  "byte_at i bs = (if i < length bs then bs ! i else 0)"

definition isPrivateIpv4 :: "int list \<Rightarrow> bool" where
  "isPrivateIpv4 bs =
     (let a = byte_at 0 bs; b = byte_at 1 bs; c = byte_at 2 bs in
      a = 0 \<or> a = 10 \<or> a = 127 \<or> a = 169 \<and> b = 254 \<or> a = 172 \<and> 16 \<le> b \<and> b \<le> 31 \<or> a = 192 \<and> b = 168 \<or>
      a = 100 \<and> 64 \<le> b \<and> b \<le> 127 \<or> a = 192 \<and> b = 0 \<and> (c = 0 \<or> c = 2) \<or> a = 198 \<and> (b = 18 \<or> b = 19) \<or>
      a = 198 \<and> b = 51 \<and> c = 100 \<or> a = 203 \<and> b = 0 \<and> c = 113 \<or> 224 \<le> a)"

definition isPrivateIpv6 :: "int list \<Rightarrow> bool" where
  "isPrivateIpv6 bs =
     (let b0 = byte_at 0 bs; b1 = byte_at 1 bs; b2 = byte_at 2 bs; b3 = byte_at 3 bs;
          leading_zero = list_all (\<lambda>b. b = 0) (take 10 bs); v4 = drop 12 bs
      in
      if leading_zero \<and> byte_at 10 bs = 0xFF \<and> byte_at 11 bs = 0xFF then isPrivateIpv4 v4
      else if leading_zero \<and> byte_at 10 bs = 0 \<and> byte_at 11 bs = 0 then
        list_all (\<lambda>b. b = 0) v4 \<or>
        byte_at 0 v4 = 0 \<and> byte_at 1 v4 = 0 \<and> byte_at 2 v4 = 0 \<and> byte_at 3 v4 = 1 \<or> isPrivateIpv4 v4
      else b0 AND 0xFE = 0xFC \<or> b0 = 0xFE \<and> b1 AND 0xC0 = 0x80 \<or> b0 = 0xFF \<or>
        b0 = 0x20 \<and> b1 = 0x01 \<and> b2 = 0x0D \<and> b3 = 0xB8 \<or> b0 = 0x01 \<and> b1 = 0 \<and> b2 = 0 \<and> b3 = 0)"

text \<open>\<open>is_ip\<close> is \<open>isIP\<close>: 4, 6, or 0 when the text is neither.\<close>

definition isPrivateAddress :: "(string \<Rightarrow> nat) \<Rightarrow> string \<Rightarrow> bool" where
  "isPrivateAddress is_ip address =
     (let text = toLowerCase (trim address) in
      if text = [] then True
      else if is_ip text = 4 then (case parseIpv4 text of None \<Rightarrow> True | Some bs \<Rightarrow> isPrivateIpv4 bs)
      else if is_ip text = 6 then (case parseIpv6 text of None \<Rightarrow> True | Some bs \<Rightarrow> isPrivateIpv6 bs)
      else case parseIpv6 text of Some bs \<Rightarrow> isPrivateIpv6 bs
      | None \<Rightarrow> (case parseIpv4 text of Some bs \<Rightarrow> isPrivateIpv4 bs | None \<Rightarrow> True))"

section \<open>The policy\<close>

datatype fetch_refusal =
    BadScheme | EmbeddedCredentials | NoHost | MetadataHost | HttpsOnly | Unresolved | MetadataAddress | PrivateDestination

record fetch_policy =
  require_https :: bool
  allowed_hosts :: "string list"
  best_effort_dns :: bool

definition forbidden_hostnames :: "string list" where
  "forbidden_hostnames =
     [''metadata.google.internal'', ''metadata.goog'', ''instance-data'', ''instance-data.ec2.internal'']"

definition metadata_addresses :: "string list" where
  "metadata_addresses = [''169.254.169.254'', ''169.254.170.2'', ''100.100.100.200'', ''fd00:ec2::254'']"

definition bareHostname :: "url \<Rightarrow> string" where
  "bareHostname u = strip_brackets (toLowerCase (url_hostname u))"

definition isAllowlisted :: "url \<Rightarrow> string list \<Rightarrow> bool" where
  "isAllowlisted u hosts =
     (let host = bareHostname u; host_port = (if url_port u = [] then host else host @ '':'' @ url_port u) in
      list_ex (\<lambda>e. toLowerCase (trim e) = host \<or> toLowerCase (trim e) = host_port) hosts)"

text \<open>The resolver answers with the addresses of a name, or fails.\<close>

definition resolveOrRefuse :: "(string \<Rightarrow> string list option) \<Rightarrow> fetch_policy \<Rightarrow> string \<Rightarrow> fetch_refusal + string list" where
  "resolveOrRefuse resolve policy host =
     (case resolve host of
        None \<Rightarrow> if best_effort_dns policy then Inr [] else Inl Unresolved
      | Some [] \<Rightarrow> if best_effort_dns policy then Inr [] else Inl Unresolved
      | Some addresses \<Rightarrow> Inr addresses)"

fun check_addresses :: "(string \<Rightarrow> nat) \<Rightarrow> bool \<Rightarrow> string list \<Rightarrow> fetch_refusal + unit" where
  "check_addresses is_ip allowlisted [] = Inr ()"
| "check_addresses is_ip allowlisted (a # as) =
     (if toLowerCase a \<in> set metadata_addresses then Inl MetadataAddress
      else if isPrivateAddress is_ip a \<and> \<not> allowlisted then Inl PrivateDestination
      else check_addresses is_ip allowlisted as)"

definition addresses_of ::
  "(string \<Rightarrow> nat) \<Rightarrow> (string \<Rightarrow> string list option) \<Rightarrow> fetch_policy \<Rightarrow> string \<Rightarrow> fetch_refusal + string list" where
  "addresses_of is_ip resolve policy host =
     (if is_ip host \<noteq> 0 \<or> parseIpv6 host \<noteq> None \<or> parseIpv4 host \<noteq> None then Inr [host]
      else resolveOrRefuse resolve policy host)"

definition assertUrlAllowed ::
  "(string \<Rightarrow> nat) \<Rightarrow> (string \<Rightarrow> string list option) \<Rightarrow> url \<Rightarrow> fetch_policy \<Rightarrow> fetch_refusal + unit" where
  "assertUrlAllowed is_ip resolve u policy =
     (if url_protocol u \<noteq> ''http:'' \<and> url_protocol u \<noteq> ''https:'' then Inl BadScheme
      else if url_username u \<noteq> [] \<or> url_password u \<noteq> [] then Inl EmbeddedCredentials
      else let host = bareHostname u in
        if host = [] then Inl NoHost
        else if host \<in> set forbidden_hostnames then Inl MetadataHost
        else if require_https policy \<and> url_protocol u \<noteq> ''https:'' then Inl HttpsOnly
        else case addresses_of is_ip resolve policy host of
          Inl e \<Rightarrow> Inl e
        | Inr addresses \<Rightarrow> check_addresses is_ip (isAllowlisted u (allowed_hosts policy)) addresses)"

section \<open>Blocks of addresses\<close>

text \<open>The reference: an address of \<open>n\<close> bytes as a number, and the blocks that are not public.\<close>

fun address_value :: "int list \<Rightarrow> int" where
  "address_value [] = 0"
| "address_value (b # bs) = b * 256 ^ length bs + address_value bs"

definition in_block :: "nat \<Rightarrow> int list \<Rightarrow> int list \<times> nat \<Rightarrow> bool" where
  "in_block width bs block \<longleftrightarrow>
     address_value bs div 2 ^ (width - snd block) = address_value (fst block) div 2 ^ (width - snd block)"

definition reserved_ipv4 :: "(int list \<times> nat) list" where
  "reserved_ipv4 =
     [([0, 0, 0, 0], 8), ([10, 0, 0, 0], 8), ([127, 0, 0, 0], 8), ([169, 254, 0, 0], 16), ([172, 16, 0, 0], 12),
      ([192, 168, 0, 0], 16), ([100, 64, 0, 0], 10), ([192, 0, 0, 0], 24), ([192, 0, 2, 0], 24), ([198, 18, 0, 0], 15),
      ([198, 51, 100, 0], 24), ([203, 0, 113, 0], 24), ([224, 0, 0, 0], 4), ([240, 0, 0, 0], 4)]"

definition is_bytes :: "nat \<Rightarrow> int list \<Rightarrow> bool" where
  "is_bytes n bs \<longleftrightarrow> length bs = n \<and> list_all (\<lambda>b. 0 \<le> b \<and> b < 256) bs"

text \<open>A byte in front of a smaller number is read off by division.\<close>

lemma byte_front:
  fixes a b n m :: int
  assumes "0 \<le> b" "b < n" "0 \<le> m" "m < n"
  shows "a * n + b = k * n + m \<longleftrightarrow> a = k \<and> b = m"
proof
  assume eq: "a * n + b = k * n + m"
  have "(a * n + b) div n = a" "(k * n + m) div n = k" using assms by simp_all
  then show "a = k \<and> b = m" using eq by auto
qed simp

lemma finer:
  fixes x :: int
  shows "x div 1048576 = x div 65536 div 16" "x div 4194304 = x div 65536 div 64"
    "x div 131072 = x div 65536 div 2" "x div 268435456 = x div 16777216 div 16"
  by (subst zdiv_zmult2_eq [symmetric]; simp)+

lemma div_front:
  fixes a b :: int
  shows "(a * 256 + b) div 16 = a * 16 + b div 16" "(a * 256 + b) div 64 = a * 4 + b div 64"
    "(a * 256 + b) div 2 = a * 128 + b div 2"
proof -
  have front: "(a * (k * n) + b) div n = a * k + b div n" if "n \<noteq> 0" for k n :: int
    using that by (simp add: mult.assoc [symmetric])
  show "(a * 256 + b) div 16 = a * 16 + b div 16" using front [of 16 16] by simp
  show "(a * 256 + b) div 64 = a * 4 + b div 64" using front [of 64 4] by simp
  show "(a * 256 + b) div 2 = a * 128 + b div 2" using front [of 2 128] by simp
qed

lemma reserved_equiv:
  assumes "0 \<le> a" "a < 256" "0 \<le> b" "b < 256" "0 \<le> c" "c < 256" "0 \<le> d" "d < 256"
  shows "isPrivateIpv4 [a, b, c, d] \<longleftrightarrow> list_ex (in_block 32 [a, b, c, d]) reserved_ipv4"
proof -
  define v where "v = a * 16777216 + b * 65536 + c * 256 + d"
  have here: "in_block 32 [a, b, c, d] x \<longleftrightarrow> v div 2 ^ (32 - snd x) = address_value (fst x) div 2 ^ (32 - snd x)" for x
    by (simp add: in_block_def v_def add.assoc)
  have d8: "v div 16777216 = a"
    unfolding v_def by (rule int_div_pos_eq [where r = "b * 65536 + c * 256 + d"]) (use assms in \<open>simp_all add: distrib_left\<close>)
  have d16: "v div 65536 = a * 256 + b"
    unfolding v_def by (rule int_div_pos_eq [where r = "c * 256 + d"]) (use assms in \<open>simp_all add: distrib_left\<close>)
  have d24: "v div 256 = (a * 256 + b) * 256 + c"
    unfolding v_def by (rule int_div_pos_eq [where r = d]) (use assms in \<open>simp_all add: distrib_left\<close>)
  have d12: "v div 1048576 = a * 16 + b div 16" unfolding finer d16 by (rule div_front)
  have d10: "v div 4194304 = a * 4 + b div 64" unfolding finer d16 by (rule div_front)
  have d15: "v div 131072 = a * 128 + b div 2" unfolding finer d16 by (rule div_front)
  have d4: "v div 268435456 = a div 16" unfolding finer d8 by (rule refl)
  have e16: "a * 256 + b = k * 256 + m \<longleftrightarrow> a = k \<and> b = m" if "0 \<le> m" "m < 256" for k m
    using that assms by (intro byte_front) simp_all
  have e24: "(a * 256 + b) * 256 + c = (k * 256 + m) * 256 + n \<longleftrightarrow> a = k \<and> b = m \<and> c = n"
    if "0 \<le> m" "m < 256" "0 \<le> n" "n < 256" for k m n
    using that assms byte_front [of c 256 n "a * 256 + b" "k * 256 + m"] e16 [of m k] by simp
  have small: "0 \<le> b div 16" "b div 16 < 16" "0 \<le> b div 64" "b div 64 < 4" "0 \<le> b div 2" "b div 2 < 128"
    using assms(3,4) by presburger+
  have one: "b div 16 = 1 \<longleftrightarrow> 16 \<le> b \<and> b \<le> 31" "b div 64 = 1 \<longleftrightarrow> 64 \<le> b \<and> b \<le> 127" "b div 2 = 9 \<longleftrightarrow> b = 18 \<or> b = 19"
    by presburger+
  have e12: "a * 16 + b div 16 = 2753 \<longleftrightarrow> a = 172 \<and> 16 \<le> b \<and> b \<le> 31"
    using byte_front [of "b div 16" 16 1 a 172] small(1,2) unfolding one by simp
  have e10: "a * 4 + b div 64 = 401 \<longleftrightarrow> a = 100 \<and> 64 \<le> b \<and> b \<le> 127"
    using byte_front [of "b div 64" 4 1 a 100] small(3,4) unfolding one by simp
  have e15: "a * 128 + b div 2 = 25353 \<longleftrightarrow> a = 198 \<and> (b = 18 \<or> b = 19)"
    using byte_front [of "b div 2" 128 9 a 198] small(5,6) unfolding one by simp
  have e4: "a div 16 = 14 \<or> a div 16 = 15 \<longleftrightarrow> 224 \<le> a" using assms(1,2) by presburger
  note blocks = d8 d16 d12 d10 d24 d15 d4 e12 e10 e15
  show ?thesis
    using e16 [of 254 169] e16 [of 168 192] e24 [of 0 0 192] e24 [of 0 2 192] e24 [of 51 100 198] e24 [of 0 113 203] e4
    by (simp add: isPrivateIpv4_def byte_at_def Let_def reserved_ipv4_def here blocks conj_disj_distribL)
qed

section \<open>What the policy lets through\<close>

lemma all_some_Some: "all_some xs = Some ys \<longleftrightarrow> list_all2 (\<lambda>x y. x = Some y) xs ys"
proof (induction xs arbitrary: ys)
  case (Cons x xs)
  then show ?case by (cases ys) (auto simp: bind_eq_Some_conv)
qed auto

lemma parseIpv4_bytes: "parseIpv4 t = Some bs \<Longrightarrow> is_bytes 4 bs"
  by (auto simp: parseIpv4_def is_bytes_def all_some_Some list_all_length decimal_byte_def Let_def list_all2_conv_all_nth
      split: if_splits)

lemma parseIpv4_reserved:
  assumes "parseIpv4 t = Some bs"
  shows "isPrivateIpv4 bs \<longleftrightarrow> list_ex (in_block 32 bs) reserved_ipv4"
proof -
  obtain a b c d where "bs = [a, b, c, d]"
    using parseIpv4_bytes [OF assms] by (auto simp: is_bytes_def numeral_eq_Suc length_Suc_conv)
  then show ?thesis using reserved_equiv parseIpv4_bytes [OF assms] by (simp add: is_bytes_def)
qed

text \<open>A dotted quad is never also read as an IPv6 address.\<close>

lemma split_char_parts: "w \<in> set (split_char sep s) \<Longrightarrow> set w \<subseteq> set s"
proof (induction s arbitrary: w)
  case (Cons c cs)
  then show ?case by (cases "split_char sep cs") (fastforce split: if_splits)+
qed simp

lemma split_char_set: "x \<in> set s \<Longrightarrow> x \<noteq> sep \<Longrightarrow> \<exists>w \<in> set (split_char sep s). x \<in> set w"
proof (induction s)
  case (Cons c cs)
  then show ?case by (cases "split_char sep cs") (auto split: if_splits)
qed simp

lemma split_char_one: "sep \<notin> set s \<Longrightarrow> split_char sep s = [s]"
  by (induction s) auto

lemma split_gap_one: "CHR '':'' \<notin> set s \<Longrightarrow> split_gap s = [s]"
  by (induction s rule: split_gap.induct) auto

lemma parseIpv4_chars: "parseIpv4 t = Some bs \<Longrightarrow> c \<in> set t \<Longrightarrow> c = CHR ''.'' \<or> is_digit c"
proof (rule ccontr)
  assume t: "parseIpv4 t = Some bs" "c \<in> set t" and c: "\<not> (c = CHR ''.'' \<or> is_digit c)"
  then obtain w where w: "w \<in> set (split_char CHR ''.'' t)" "c \<in> set w" using split_char_set by blast
  have "decimal_byte w \<noteq> None"
    using t(1) w(1)
    by (auto simp: parseIpv4_def all_some_Some Let_def list_all2_conv_all_nth in_set_conv_nth split: if_splits)
  then show False using w(2) c by (auto simp: decimal_byte_def list_all_iff split: if_splits)
qed

lemma foldl_None: "foldl (\<lambda>a c. Option.bind a (f c)) None cs = None"
  by (induction cs) auto

lemma foldl_bind_None: "c \<in> set cs \<Longrightarrow> (\<And>n. f c n = None) \<Longrightarrow> foldl (\<lambda>a c. Option.bind a (f c)) a cs = None"
proof (induction cs arbitrary: a)
  case (Cons d ds)
  then show ?case by (cases "d = c"; cases a) (auto simp: foldl_None)
qed simp

lemma hex_group_dot: "CHR ''.'' \<in> set w \<Longrightarrow> hex_group w = None"
  unfolding hex_group_def by (simp add: foldl_bind_None hex_digit_def)

lemma quad_not_ipv6:
  assumes "parseIpv4 t = Some bs"
  shows "parseIpv6 t = None"
proof -
  have no: "c \<notin> set t" if "c \<noteq> CHR ''.''" "\<not> is_digit c" for c using parseIpv4_chars [OF assms] that by blast
  have dot: "CHR ''.'' \<in> set t"
  proof (rule ccontr)
    assume "CHR ''.'' \<notin> set t"
    then show False using assms by (simp add: parseIpv4_def split_char_one)
  qed
  have colon: "CHR '':'' \<notin> set t" and percent: "CHR ''%'' \<notin> set t" and bracket: "CHR ''['' \<notin> set t"
    by (rule no; simp add: is_digit_def)+
  have "strip_brackets t = t"
    using bracket by (auto simp: strip_brackets_def startsWith_def prefix_def)
  moreover have "takeWhile (\<lambda>c. c \<noteq> CHR ''%'') t = t" using percent by (subst takeWhile_eq_all_conv) auto
  moreover have "rewrite_trailing t = Some t" using colon by (simp add: rewrite_trailing_def)
  moreover have "to_groups t = None"
    using dot colon by (auto simp: to_groups_def split_char_one hex_group_dot)
  ultimately show ?thesis using split_gap_one [OF colon] by (simp only: parseIpv6_def) simp
qed

definition public_address :: "string \<Rightarrow> bool" where
  "public_address a =
     (let t = toLowerCase (trim a) in
      case parseIpv6 t of Some bs \<Rightarrow> \<not> isPrivateIpv6 bs
      | None \<Rightarrow> (case parseIpv4 t of Some bs \<Rightarrow> \<not> list_ex (in_block 32 bs) reserved_ipv4 | None \<Rightarrow> False))"

lemma not_private_public: "\<not> isPrivateAddress is_ip a \<Longrightarrow> public_address a"
  using quad_not_ipv6 parseIpv4_reserved
  by (auto simp: isPrivateAddress_def public_address_def Let_def split: if_splits option.splits)

lemma check_addresses_ok:
  "check_addresses is_ip allowlisted as = Inr u \<longleftrightarrow>
     (\<forall>a \<in> set as. toLowerCase a \<notin> set metadata_addresses \<and> (isPrivateAddress is_ip a \<longrightarrow> allowlisted))"
  by (induction as) auto

end
