(* ===== verification/OutboundProperties.thy ===== *)
theory OutboundProperties
  imports Network
begin

text \<open>
  What the outbound policy promises of a destination it lets through, with a concrete one.
\<close>

section \<open>Destinations\<close>







end
