(* ===== verification/Zip.thy ===== *)
theory Zip
  imports "HOL-Library.Word"
begin

text \<open>
  The archive writer of the workspace export (\<open>workspace/zip.ts\<close>): stored entries, a local
  header before each, a central directory behind them.  Bytes are 8-bit words, the numbers
  of a header are written little-endian, and a write that does not fit its field is the
  \<open>RangeError\<close> of \<open>Buffer\<close>.  \<open>unzip\<close> is a reader written from the format, against which the
  writer is checked.
\<close>

type_synonym bytes = "8 word list"

record zip_entry =
  ze_path :: string
  ze_data :: bytes

datatype zip_error = ZipTooLarge | RangeError

definition zip_max_entries :: int where
  "zip_max_entries = 10000"

definition zip_max_total_bytes :: int where
  "zip_max_total_bytes = 1024 * 1024 * 1024"

section \<open>Numbers and names\<close>

text \<open>\<open>writeUInt16LE\<close> and \<open>writeUInt32LE\<close>, with 2 and 4 bytes.\<close>

fun le_bytes :: "nat \<Rightarrow> int \<Rightarrow> bytes" where
  "le_bytes 0 n = []"
| "le_bytes (Suc k) n = word_of_int n # le_bytes k (n div 256)"

text \<open>\<open>Buffer.from(path, 'utf8')\<close> of code units below 256.\<close>

definition utf8_char :: "char \<Rightarrow> bytes" where
  "utf8_char c =
     (let n = (of_char c :: int) in
      if n < 128 then [word_of_int n] else [word_of_int (192 + n div 64), word_of_int (128 + n mod 64)])"

definition utf8 :: "string \<Rightarrow> bytes" where
  "utf8 s = concat (map utf8_char s)"

text \<open>\<open>crc32\<close> of \<open>node:zlib\<close>: the reflected polynomial, bit by bit.\<close>

definition crc_bit :: "32 word \<Rightarrow> 32 word" where
  "crc_bit c = (if odd (uint c) then xor (drop_bit 1 c) 0xEDB88320 else drop_bit 1 c)"

definition crc_byte :: "32 word \<Rightarrow> 8 word \<Rightarrow> 32 word" where
  "crc_byte c b = (crc_bit ^^ 8) (xor c (ucast b))"

definition crc32 :: "bytes \<Rightarrow> int" where
  "crc32 bs = uint (not (foldl crc_byte (not 0) bs))"

section \<open>Headers\<close>

definition dos_time :: int where
  "dos_time = 0"

definition dos_date :: int where
  "dos_date = 33"

abbreviation data_length :: "zip_entry \<Rightarrow> int" where
  "data_length e \<equiv> int (length (ze_data e))"

definition localHeader :: "zip_entry \<Rightarrow> bytes \<Rightarrow> int \<Rightarrow> zip_error + bytes" where
  "localHeader e name_bytes checksum =
     (if data_length e \<ge> 2 ^ 32 \<or> int (length name_bytes) \<ge> 2 ^ 16 then Inl RangeError
      else Inr (le_bytes 4 0x04034b50 @ le_bytes 2 20 @ le_bytes 2 0 @ le_bytes 2 0 @ le_bytes 2 dos_time @
        le_bytes 2 dos_date @ le_bytes 4 checksum @ le_bytes 4 (data_length e) @ le_bytes 4 (data_length e) @
        le_bytes 2 (int (length name_bytes)) @ le_bytes 2 0))"

definition centralHeader :: "zip_entry \<Rightarrow> bytes \<Rightarrow> int \<Rightarrow> int \<Rightarrow> zip_error + bytes" where
  "centralHeader e name_bytes checksum offset =
     (if data_length e \<ge> 2 ^ 32 \<or> int (length name_bytes) \<ge> 2 ^ 16 \<or> offset \<ge> 2 ^ 32 then Inl RangeError
      else Inr (le_bytes 4 0x02014b50 @ le_bytes 2 20 @ le_bytes 2 20 @ le_bytes 2 0 @ le_bytes 2 0 @ le_bytes 2 dos_time @
        le_bytes 2 dos_date @ le_bytes 4 checksum @ le_bytes 4 (data_length e) @ le_bytes 4 (data_length e) @
        le_bytes 2 (int (length name_bytes)) @ le_bytes 2 0 @ le_bytes 2 0 @ le_bytes 2 0 @ le_bytes 2 0 @ le_bytes 4 0 @
        le_bytes 4 offset))"

text \<open>The loop: the parts and the central directory of the entries still to write.\<close>

fun zip_loop :: "int \<Rightarrow> zip_entry list \<Rightarrow> zip_error + bytes \<times> bytes" where
  "zip_loop offset [] = Inr ([], [])"
| "zip_loop offset (e # es) =
     (let name_bytes = utf8 (ze_path e); checksum = crc32 (ze_data e) in
      case localHeader e name_bytes checksum of Inl x \<Rightarrow> Inl x
      | Inr header \<Rightarrow>
          (case centralHeader e name_bytes checksum offset of Inl x \<Rightarrow> Inl x
           | Inr entry \<Rightarrow>
               (case zip_loop (offset + int (length header) + int (length name_bytes) + data_length e) es of Inl x \<Rightarrow> Inl x
                | Inr (parts, central) \<Rightarrow> Inr (header @ name_bytes @ ze_data e @ parts, entry @ name_bytes @ central))))"

definition end_record :: "int \<Rightarrow> int \<Rightarrow> int \<Rightarrow> zip_error + bytes" where
  "end_record n len offset =
     (if n \<ge> 2 ^ 16 \<or> len \<ge> 2 ^ 32 \<or> offset \<ge> 2 ^ 32 then Inl RangeError
      else Inr (le_bytes 4 0x06054b50 @ le_bytes 2 0 @ le_bytes 2 0 @ le_bytes 2 n @ le_bytes 2 n @ le_bytes 4 len @
        le_bytes 4 offset @ le_bytes 2 0))"

definition buildZip :: "zip_entry list \<Rightarrow> zip_error + bytes" where
  "buildZip entries =
     (if int (length entries) > zip_max_entries then Inl ZipTooLarge
      else if sum_list (map data_length entries) > zip_max_total_bytes then Inl ZipTooLarge
      else case zip_loop 0 entries of Inl x \<Rightarrow> Inl x
      | Inr (parts, central) \<Rightarrow>
          (case end_record (int (length entries)) (int (length central)) (int (length parts)) of Inl x \<Rightarrow> Inl x
           | Inr end_bytes \<Rightarrow> Inr (parts @ central @ end_bytes)))"

section \<open>A reader\<close>

fun le_value :: "bytes \<Rightarrow> int" where
  "le_value [] = 0"
| "le_value (b # bs) = uint b + 256 * le_value bs"

definition number_at :: "nat \<Rightarrow> nat \<Rightarrow> bytes \<Rightarrow> int" where
  "number_at i k bs = le_value (take k (drop i bs))"

abbreviation index_at :: "nat \<Rightarrow> nat \<Rightarrow> bytes \<Rightarrow> nat" where
  "index_at i k bs \<equiv> nat (number_at i k bs)"

definition read_local :: "bytes \<Rightarrow> int \<Rightarrow> int \<Rightarrow> bytes \<Rightarrow> bytes option" where
  "read_local name len checksum bs =
     (let start = 30 + index_at 26 2 bs + index_at 28 2 bs; data = take (nat len) (drop start bs) in
      if number_at 0 4 bs = 0x04034b50 \<and> number_at 8 2 bs = 0 \<and> number_at 14 4 bs = checksum \<and> number_at 18 4 bs = len \<and>
         number_at 22 4 bs = len \<and> take (index_at 26 2 bs) (drop 30 bs) = name \<and> int (length data) = len \<and> crc32 data = checksum
      then Some data else None)"

fun read_entries :: "nat \<Rightarrow> bytes \<Rightarrow> bytes \<Rightarrow> (bytes \<times> bytes) list option" where
  "read_entries 0 dir archive = (if dir = [] then Some [] else None)"
| "read_entries (Suc n) dir archive =
     (let name_length = index_at 28 2 dir; name = take name_length (drop 46 dir) in
      if number_at 0 4 dir = 0x02014b50 \<and> length name = name_length
      then Option.bind (read_local name (number_at 24 4 dir) (number_at 16 4 dir) (drop (index_at 42 4 dir) archive)) (\<lambda>data.
        map_option (\<lambda>rest. (name, data) # rest) (read_entries n (drop (46 + name_length) dir) archive))
      else None)"

definition unzip :: "bytes \<Rightarrow> (bytes \<times> bytes) list option" where
  "unzip archive =
     (if length archive < 22 then None
      else let end_bytes = drop (length archive - 22) archive in
        if number_at 0 4 end_bytes = 0x06054b50 \<and> index_at 16 4 end_bytes + index_at 12 4 end_bytes + 22 = length archive
        then read_entries (index_at 10 2 end_bytes)
          (take (index_at 12 4 end_bytes) (drop (index_at 16 4 end_bytes) archive)) archive
        else None)"

section \<open>Facts\<close>

lemma length_le_bytes [simp]: "length (le_bytes k n) = k"
  by (induction k arbitrary: n) auto

lemma le_value_le_bytes: "le_value (le_bytes k n) = n mod 256 ^ k"
proof (induction k arbitrary: n)
  case (Suc k)
  have "n mod (256 * 256 ^ k) = 256 * (n div 256 mod 256 ^ k) + n mod 256" by (rule zmod_zmult2_eq) simp
  then show ?case using Suc by (simp add: uint_word_of_int)
qed simp

lemma number_at_here: "0 \<le> n \<Longrightarrow> n < 256 ^ k \<Longrightarrow> number_at 0 k (le_bytes k n @ bs) = n"
  by (simp add: number_at_def le_value_le_bytes)

lemma number_at_skip: "length xs \<le> i \<Longrightarrow> number_at i k (xs @ bs) = number_at (i - length xs) k bs"
  by (simp add: number_at_def)

lemma crc32_bound: "0 \<le> crc32 bs" "crc32 bs < 256 ^ 4"
  unfolding crc32_def by (simp_all add: order_less_le_trans [OF unsigned_less])

lemma read_local_header:
  assumes "localHeader e name checksum = Inr header" and "checksum = crc32 (ze_data e)"
  shows "read_local name (data_length e) checksum (header @ name @ ze_data e @ post) = Some (ze_data e) \<and> length header = 30"
proof -
  have bounds: "data_length e < 256 ^ 4" "int (length name) < 256 ^ 2" "0 \<le> checksum" "checksum < 256 ^ 4"
    using assms crc32_bound by (simp_all add: localHeader_def split: if_splits)
  have header: "header = le_bytes 4 0x04034b50 @ le_bytes 2 20 @ le_bytes 2 0 @ le_bytes 2 0 @ le_bytes 2 dos_time @
        le_bytes 2 dos_date @ le_bytes 4 checksum @ le_bytes 4 (data_length e) @ le_bytes 4 (data_length e) @
        le_bytes 2 (int (length name)) @ le_bytes 2 0"
    using assms(1) by (simp add: localHeader_def split: if_splits)
  then have len: "length header = 30" by simp
  let ?bs = "header @ name @ ze_data e @ post"
  have fields: "number_at 0 4 ?bs = 0x04034b50" "number_at 8 2 ?bs = 0" "number_at 14 4 ?bs = checksum"
    "number_at 18 4 ?bs = data_length e" "number_at 22 4 ?bs = data_length e" "number_at 26 2 ?bs = int (length name)"
    "number_at 28 2 ?bs = 0"
    using bounds by (simp_all add: header number_at_skip number_at_here)
  have "drop 30 ?bs = name @ ze_data e @ post" "drop (30 + length name) ?bs = ze_data e @ post" using len by simp_all
  then show ?thesis using assms(2) len by (simp add: read_local_def fields Let_def)
qed

lemma central_fields:
  assumes "centralHeader e name checksum offset = Inr entry" and "0 \<le> checksum" and "checksum < 256 ^ 4" and "0 \<le> offset"
  shows "number_at 0 4 (entry @ name @ rest) = 0x02014b50" and "number_at 16 4 (entry @ name @ rest) = checksum"
    and "number_at 24 4 (entry @ name @ rest) = data_length e" and "number_at 28 2 (entry @ name @ rest) = int (length name)"
    and "number_at 42 4 (entry @ name @ rest) = offset" and "length entry = 46"
proof -
  have bounds: "data_length e < 256 ^ 4" "int (length name) < 256 ^ 2" "offset < 256 ^ 4"
    using assms by (simp_all add: centralHeader_def split: if_splits)
  have entry: "entry = le_bytes 4 0x02014b50 @ le_bytes 2 20 @ le_bytes 2 20 @ le_bytes 2 0 @ le_bytes 2 0 @ le_bytes 2 dos_time @
        le_bytes 2 dos_date @ le_bytes 4 checksum @ le_bytes 4 (data_length e) @ le_bytes 4 (data_length e) @
        le_bytes 2 (int (length name)) @ le_bytes 2 0 @ le_bytes 2 0 @ le_bytes 2 0 @ le_bytes 2 0 @ le_bytes 4 0 @
        le_bytes 4 offset"
    using assms(1) by (simp add: centralHeader_def split: if_splits)
  show "number_at 0 4 (entry @ name @ rest) = 0x02014b50" "number_at 16 4 (entry @ name @ rest) = checksum"
    "number_at 24 4 (entry @ name @ rest) = data_length e" "number_at 28 2 (entry @ name @ rest) = int (length name)"
    "number_at 42 4 (entry @ name @ rest) = offset" "length entry = 46"
    using bounds assms(2-4) by (simp_all add: entry number_at_skip number_at_here)
qed

lemma read_written:
  assumes "zip_loop (int (length before)) es = Inr (parts, central)"
  shows "read_entries (length es) central (before @ parts @ post) = Some (map (\<lambda>e. (utf8 (ze_path e), ze_data e)) es)"
  using assms
proof (induction es arbitrary: before parts central)
  case (Cons e es)
  let ?name = "utf8 (ze_path e)" and ?sum = "crc32 (ze_data e)"
  obtain header entry parts' central' where h: "localHeader e ?name ?sum = Inr header"
    and c: "centralHeader e ?name ?sum (int (length before)) = Inr entry"
    and loop: "zip_loop (int (length (before @ header @ ?name @ ze_data e))) es = Inr (parts', central')"
    and out: "parts = header @ ?name @ ze_data e @ parts'" "central = entry @ ?name @ central'"
    using Cons.prems by (auto simp: Let_def add.assoc split: sum.splits prod.splits)
  note fields = central_fields [OF c crc32_bound of_nat_0_le_iff]
  have "read_local ?name (data_length e) ?sum (header @ ?name @ ze_data e @ parts' @ post) = Some (ze_data e)"
    using read_local_header [OF h refl] by simp
  moreover have "read_entries (length es) central' (before @ parts @ post) = Some (map (\<lambda>e. (utf8 (ze_path e), ze_data e)) es)"
    using Cons.IH [OF loop] out(1) by simp
  ultimately show ?case by (simp add: Let_def out(2) fields out(1))
qed simp

lemma unzip_end:
  assumes "end_record (int n) (int (length central)) (int (length parts)) = Inr end_bytes"
  shows "unzip (parts @ central @ end_bytes) = read_entries n central (parts @ central @ end_bytes)"
proof -
  have bounds: "int n < 256 ^ 2" "int (length central) < 256 ^ 4" "int (length parts) < 256 ^ 4"
    using assms by (simp_all add: end_record_def split: if_splits)
  have rec: "end_bytes = le_bytes 4 0x06054b50 @ le_bytes 2 0 @ le_bytes 2 0 @ le_bytes 2 (int n) @ le_bytes 2 (int n) @
      le_bytes 4 (int (length central)) @ le_bytes 4 (int (length parts)) @ le_bytes 2 0"
    using assms by (simp add: end_record_def split: if_splits)
  then have "length end_bytes = 22" by simp
  moreover have "number_at 0 4 end_bytes = 0x06054b50" "number_at 10 2 end_bytes = int n" "number_at 12 4 end_bytes = int (length central)"
    "number_at 16 4 end_bytes = int (length parts)"
    using bounds by (simp_all add: rec number_at_skip number_at_here)
  ultimately show ?thesis by (simp add: unzip_def Let_def)
qed

lemma unzip_build:
  assumes "buildZip entries = Inr archive"
  shows "unzip archive = Some (map (\<lambda>e. (utf8 (ze_path e), ze_data e)) entries)"
proof -
  obtain parts central end_bytes where "zip_loop 0 entries = Inr (parts, central)"
    "end_record (int (length entries)) (int (length central)) (int (length parts)) = Inr end_bytes" "archive = parts @ central @ end_bytes"
    using assms by (auto simp: buildZip_def split: if_splits sum.splits prod.splits)
  then show ?thesis using unzip_end read_written [of "[]" entries parts central "central @ end_bytes"] by simp
qed

text \<open>Within the limits nothing overflows: only a name of 64 KiB is refused.\<close>

lemma sum_data_length: "0 \<le> sum_list (map data_length es)"
  by (induction es) auto

lemma zip_loop_total:
  assumes "\<forall>e \<in> set es. int (length (utf8 (ze_path e))) < 2 ^ 16 \<and> data_length e < 2 ^ 32"
    and "offset + sum_list (map data_length es) + int (length es) * (30 + 2 ^ 16) < 2 ^ 32"
  shows "\<exists>parts central. zip_loop offset es = Inr (parts, central) \<and>
    int (length parts) \<le> sum_list (map data_length es) + int (length es) * (30 + 2 ^ 16) \<and>
    int (length central) \<le> int (length es) * (46 + 2 ^ 16)"
  using assms
proof (induction es arbitrary: offset)
  case (Cons e es)
  let ?next = "offset + 30 + int (length (utf8 (ze_path e))) + data_length e"
  have nonneg: "0 \<le> sum_list (map data_length es)" by (rule sum_data_length)
  have name: "int (length (utf8 (ze_path e))) < 2 ^ 16" and data: "data_length e < 2 ^ 32" using Cons.prems by auto
  have offset: "offset < 2 ^ 32" using Cons.prems(2) nonneg by (simp add: algebra_simps)
  have "?next + sum_list (map data_length es) + int (length es) * (30 + 2 ^ 16) < 2 ^ 32"
    using Cons.prems(2) name by (simp add: algebra_simps)
  then obtain parts central where "zip_loop ?next es = Inr (parts, central)"
    "int (length parts) \<le> sum_list (map data_length es) + int (length es) * (30 + 2 ^ 16)"
    "int (length central) \<le> int (length es) * (46 + 2 ^ 16)"
    using Cons.IH [of ?next] Cons.prems(1) by auto
  then show ?case using name data offset by (simp add: localHeader_def centralHeader_def Let_def not_le algebra_simps)
qed simp

lemma build_total:
  assumes "int (length entries) \<le> zip_max_entries" and "sum_list (map data_length entries) \<le> zip_max_total_bytes"
    and "\<forall>e \<in> set entries. int (length (utf8 (ze_path e))) < 2 ^ 16"
  shows "\<exists>archive. buildZip entries = Inr archive"
proof -
  have data: "data_length e \<le> sum_list (map data_length entries)" if "e \<in> set entries" for e
    using that sum_data_length
  proof (induction entries)
    case (Cons x xs)
    then show ?case using sum_data_length [of xs] by auto
  qed simp
  have "\<forall>e \<in> set entries. int (length (utf8 (ze_path e))) < 2 ^ 16 \<and> data_length e < 2 ^ 32"
    using assms(2,3) data by (fastforce simp: zip_max_total_bytes_def)
  moreover have "0 + sum_list (map data_length entries) + int (length entries) * (30 + 2 ^ 16) < 2 ^ 32"
    using assms(1,2) by (simp add: zip_max_entries_def zip_max_total_bytes_def)
  ultimately obtain parts central where "zip_loop 0 entries = Inr (parts, central)"
    "int (length parts) \<le> sum_list (map data_length entries) + int (length entries) * (30 + 2 ^ 16)"
    "int (length central) \<le> int (length entries) * (46 + 2 ^ 16)"
    using zip_loop_total [of entries 0] by auto
  then show ?thesis
    using assms(1,2) by (simp add: buildZip_def end_record_def zip_max_entries_def zip_max_total_bytes_def not_le not_less)
qed

end
