(* ===== verification/PrivacyProperties.thy ===== *)
theory PrivacyProperties
  imports Zip
begin

text \<open>
  What an export archive promises, with a concrete archive.
\<close>

section \<open>Archives\<close>

text \<open>C22: An export archive reads back as what was put in it.  If \<open>buildZip\<close> returns an archive, a reader
  that starts from the end record and follows the central directory finds exactly the given
  entries, in order, each with its name in UTF-8, its bytes and a checksum that agrees with
  them; and \<open>buildZip\<close> refuses only what it must: more than the permitted number of entries or of
  bytes, or a name of 64 KiB or more, so that no length, offset or count ever overflows its
  header field.\<close>

theorem archive_roundtrip:
  "case buildZip entries of
     Inr archive \<Rightarrow> unzip archive = Some (map (\<lambda>e. (utf8 (ze_path e), ze_data e)) entries)
   | Inl x \<Rightarrow> int (length entries) > zip_max_entries \<or> sum_list (map data_length entries) > zip_max_total_bytes \<or>
       list_ex (\<lambda>e. int (length (utf8 (ze_path e))) \<ge> 2 ^ 16) entries"
proof (cases "buildZip entries")
  case (Inl x)
  then show ?thesis using build_total [of entries] by (force simp: list_ex_iff not_less not_le)
next
  case (Inr archive)
  then show ?thesis using unzip_build by simp
qed

definition sample_entry :: zip_entry where
  "sample_entry = \<lparr> ze_path = ''a.md'', ze_data = [35, 32, 79] \<rparr>"

theorem archive_roundtrip_witness:
  "case buildZip [sample_entry, sample_entry] of
     Inr archive \<Rightarrow> unzip archive = Some [(utf8 ''a.md'', [35, 32, 79]), (utf8 ''a.md'', [35, 32, 79])]
   | Inl x \<Rightarrow> False"
proof -
  have "\<not> (int (length [sample_entry, sample_entry]) > zip_max_entries)"
    "\<not> (sum_list (map data_length [sample_entry, sample_entry]) > zip_max_total_bytes)"
    by (simp_all add: sample_entry_def zip_max_entries_def zip_max_total_bytes_def)
  moreover have "\<not> list_ex (\<lambda>e. int (length (utf8 (ze_path e))) \<ge> 2 ^ 16) [sample_entry, sample_entry]" by code_simp
  ultimately show ?thesis
    using archive_roundtrip [of "[sample_entry, sample_entry]"] by (auto simp: sample_entry_def split: sum.splits)
qed

end
