(* ===== verification/Usage.thy ===== *)
theory Usage
  imports Queue
begin

text \<open>
  \<open>apps/api/src/usage/service.ts\<close> and \<open>readValidatedConfig\<close> of \<open>settings/providers.ts\<close>: the daily
  budget of model requests, tokens and money, kept in a ledger of reservations.

  Prices are rationals, so the rounding of binary floating point is not modelled; the
  rounding of the column type \<open>numeric(12,6)\<close>, six decimals and at most six digits before
  the point, is.
\<close>

section \<open>Totals\<close>

record usage_totals =
  ut_requests :: int
  ut_input_tokens :: int
  ut_output_tokens :: int
  ut_tokens :: int
  ut_cost :: rat
  ut_unknown_cost_requests :: int

definition priced :: "usage_ledger_row \<Rightarrow> rat option" where
  "priced r = (case u_measured_cost r of Some c \<Rightarrow> Some c | None \<Rightarrow> u_reserved_cost r)"

fun count_row :: "usage_ledger_row \<Rightarrow> int \<times> int \<times> rat \<times> int \<Rightarrow> int \<times> int \<times> rat \<times> int" where
  "count_row r (inp, out, cost, unknown) =
     (inp + u_input_tokens r, out + u_output_tokens r,
      (case priced r of None \<Rightarrow> cost | Some c \<Rightarrow> cost + c),
      (case priced r of None \<Rightarrow> unknown + 1 | Some _ \<Rightarrow> unknown))"

definition totalsFrom :: "usage_ledger_row list \<Rightarrow> usage_totals" where
  "totalsFrom rows =
     (case fold count_row rows (0, 0, 0, 0) of (inp, out, cost, unknown) \<Rightarrow>
        \<lparr> ut_requests = int (length rows), ut_input_tokens = inp, ut_output_tokens = out, ut_tokens = inp + out,
          ut_cost = cost, ut_unknown_cost_requests = unknown \<rparr>)"

definition usage_window_ms :: int where
  "usage_window_ms = 24 * 60 * 60 * 1000"

definition windowRows :: "uuid \<Rightarrow> timestamp \<Rightarrow> db \<Rightarrow> usage_ledger_row list" where
  "windowRows ws instant s =
     scoped_filter u_workspace_id ws (\<lambda>r. instant - usage_window_ms \<le> u_created_at r \<and> u_status r \<noteq> Released) (usage_ledger s)"

definition priceOf :: "rate_card option \<Rightarrow> int \<Rightarrow> int \<Rightarrow> rat option" where
  "priceOf rates inp out =
     map_option (\<lambda>c. (of_int inp * rc_input_cost_per_million c + of_int out * rc_output_cost_per_million c) / 1000000) rates"

section \<open>The budget\<close>

record workspace_budget =
  wb_provider :: provider_id
  wb_requests_per_day :: int
  wb_daily_token_budget :: "int option"
  wb_daily_cost_budget :: "rat option"
  wb_rate_card :: "rate_card option"
  wb_cost_cap_enforceable :: bool

definition default_provider_limits :: provider_limits where
  "default_provider_limits =
     \<lparr> li_context_limit = 32768, li_output_token_limit = 4096, li_temperature = 0, li_timeout_seconds = 120,
       li_daily_token_budget = None, li_daily_cost_budget = None \<rparr>"

definition empty_provider_config :: validated_provider_config where
  "empty_provider_config =
     \<lparr> vc_limits = None, vc_rate_card = None, vc_api_key_masked = None, vc_key_version = None \<rparr>"

definition provider_limits_of :: "validated_provider_config \<Rightarrow> provider_limits" where
  "provider_limits_of c = (case vc_limits c of Some l \<Rightarrow> l | None \<Rightarrow> default_provider_limits)"

definition readValidatedConfig :: "provider_settings_row option \<Rightarrow> validated_provider_config" where
  "readValidatedConfig row =
     (let raw = (case row of None \<Rightarrow> empty_provider_config | Some r \<Rightarrow> ps_validated_config r)
      in raw \<lparr> vc_limits := Some (provider_limits_of raw) \<rparr>)"

definition loadProviderSettings :: "uuid \<Rightarrow> db \<Rightarrow> provider_settings_row option" where
  "loadProviderSettings ws s = scoped_find ps_workspace_id ws (\<lambda>_. True) (provider_settings s)"

definition budget_from :: "provider_settings_row option \<Rightarrow> preferences \<Rightarrow> workspace_budget" where
  "budget_from row p =
     (let config = readValidatedConfig row; caps = provider_limits_of config in
      \<lparr> wb_provider = (case row of None \<Rightarrow> NoProvider | Some r \<Rightarrow> ps_provider r),
        wb_requests_per_day = ai_requests_per_day (limits p),
        wb_daily_token_budget = li_daily_token_budget caps,
        wb_daily_cost_budget = li_daily_cost_budget caps,
        wb_rate_card = vc_rate_card config,
        wb_cost_cap_enforceable = (li_daily_cost_budget caps \<noteq> None \<and> vc_rate_card config \<noteq> None) \<rparr>)"

definition loadWorkspaceBudget :: "uuid \<Rightarrow> (db, workspace_budget) handler" where
  "loadWorkspaceBudget ws =
     andThen (gets (loadProviderSettings ws)) (\<lambda>row.
     andThen (workspacePreferences ws) (\<lambda>p.
     ret (budget_from row p)))"

text \<open>The currency of the first row that names one stands in for a missing rate card.\<close>

definition summariseUsage :: "env \<Rightarrow> uuid \<Rightarrow> (db, usage_totals \<times> workspace_budget \<times> string option) handler" where
  "summariseUsage E ws =
     andThen (gets (windowRows ws (now E))) (\<lambda>rows.
     andThen (loadWorkspaceBudget ws) (\<lambda>b.
     ret (totalsFrom rows, b,
       (case wb_rate_card b of Some c \<Rightarrow> Some (rc_currency c)
        | None \<Rightarrow> Option.bind (find (\<lambda>r. u_currency r \<noteq> None) rows) u_currency))))"

section \<open>Reservations\<close>

text \<open>What \<open>numeric(12,6)\<close> keeps of a price: six decimals, rounded half up; a million is too much.\<close>

definition stored_cost :: "rat \<Rightarrow> rat" where
  "stored_cost c = of_int \<lfloor>c * 1000000 + 1 / 2\<rfloor> / 1000000"

definition cost_fits :: "rat option \<Rightarrow> bool" where
  "cost_fits c \<longleftrightarrow> (case c of None \<Rightarrow> True | Some x \<Rightarrow> stored_cost x < 1000000)"

record reserve_response =
  rv_reservation_id :: uuid
  rv_reserved_tokens :: int
  rv_reserved_cost :: "rat option"
  rv_currency :: "string option"

definition over_cost :: "workspace_budget \<Rightarrow> rat \<Rightarrow> rat option \<Rightarrow> bool" where
  "over_cost b spent reserved \<longleftrightarrow>
     wb_cost_cap_enforceable b \<and>
     (case (reserved, wb_daily_cost_budget b) of (Some c, Some cap) \<Rightarrow> spent + c > cap | _ \<Rightarrow> False)"

definition reserved_row :: "env \<Rightarrow> uuid \<Rightarrow> task_row \<Rightarrow> workspace_budget \<Rightarrow> int \<Rightarrow> int \<Rightarrow> usage_ledger_row" where
  "reserved_row E new_id t b inp out =
     \<lparr> u_id = new_id, u_workspace_id = t_workspace_id t, u_task_id = Some (t_id t), u_provider = wb_provider b,
       u_input_tokens = inp, u_output_tokens = out, u_measured_cost = None,
       u_reserved_cost = map_option stored_cost (priceOf (wb_rate_card b) inp out),
       u_currency = map_option rc_currency (wb_rate_card b), u_status = Reserved, u_created_at = now E \<rparr>"

definition reserveUsage :: "env \<Rightarrow> uuid \<Rightarrow> uuid \<Rightarrow> string \<Rightarrow> int \<Rightarrow> int \<Rightarrow> (db, reserve_response) handler" where
  "reserveUsage E new_id i token inp out =
     transaction (
       andThen (lockLeasedTask E i token) (\<lambda>t.
       andThen (loadWorkspaceBudget (t_workspace_id t)) (\<lambda>b.
       andThen (gets (\<lambda>s. totalsFrom (windowRows (t_workspace_id t) (now E) s))) (\<lambda>totals.
       andThen (throw_if (ut_requests totals \<ge> wb_requests_per_day b) BudgetExhausted) (\<lambda>_.
       andThen (throw_if (case wb_daily_token_budget b of None \<Rightarrow> False | Some cap \<Rightarrow> ut_tokens totals + (inp + out) > cap)
         BudgetExhausted) (\<lambda>_.
       let reserved = priceOf (wb_rate_card b) inp out in
       andThen (throw_if (over_cost b (ut_cost totals) reserved) BudgetExhausted) (\<lambda>_.
       andThen (throw_if (\<not> cost_fits reserved) InternalError) (\<lambda>_.
       andThen (reads (\<lambda>s. if new_id \<in> u_id ` set (usage_ledger s) then Inl Conflict else Inr ())) (\<lambda>_.
       andThen (modify (usage_ledger_update (insert_row (reserved_row E new_id t b inp out)))) (\<lambda>_.
       ret \<lparr> rv_reservation_id = new_id, rv_reserved_tokens = inp + out, rv_reserved_cost = reserved,
             rv_currency = map_option rc_currency (wb_rate_card b) \<rparr>))))))))))"

definition lockReservation :: "uuid \<Rightarrow> uuid \<Rightarrow> uuid \<Rightarrow> (db, usage_ledger_row) handler" where
  "lockReservation ws reservation task =
     andThen (gets (\<lambda>s. scoped_find u_workspace_id ws (\<lambda>r. u_id r = reservation) (usage_ledger s))) (\<lambda>found.
     andThen (require found NotFound) (\<lambda>row.
     andThen (throw_if (u_task_id row \<noteq> Some task) NotFound) (\<lambda>_.
     ret row)))"

record settle_response =
  st_reservation_id :: uuid
  st_input_tokens :: int
  st_output_tokens :: int
  st_measured_cost :: "rat option"
  st_currency :: "string option"
  st_cost_is_unknown :: bool

definition settle_row :: "rate_card option \<Rightarrow> int \<Rightarrow> int \<Rightarrow> usage_ledger_row \<Rightarrow> usage_ledger_row" where
  "settle_row rates inp out r =
     r \<lparr> u_input_tokens := inp, u_output_tokens := out, u_measured_cost := map_option stored_cost (priceOf rates inp out),
         u_currency := (case rates of Some c \<Rightarrow> Some (rc_currency c) | None \<Rightarrow> u_currency r), u_status := Settled \<rparr>"

definition settleUsage :: "env \<Rightarrow> uuid \<Rightarrow> string \<Rightarrow> uuid \<Rightarrow> int option \<Rightarrow> int option \<Rightarrow> (db, settle_response) handler" where
  "settleUsage E i token reservation reported_in reported_out =
     transaction (
       andThen (lockLeasedTask E i token) (\<lambda>t.
       andThen (lockReservation (t_workspace_id t) reservation (t_id t)) (\<lambda>row.
       andThen (loadWorkspaceBudget (t_workspace_id t)) (\<lambda>b.
       let inp = (case reported_in of Some n \<Rightarrow> n | None \<Rightarrow> u_input_tokens row);
           out = (case reported_out of Some n \<Rightarrow> n | None \<Rightarrow> u_output_tokens row);
           measured = priceOf (wb_rate_card b) inp out in
       andThen (throw_if (\<not> cost_fits measured) InternalError) (\<lambda>_.
       andThen (modify (usage_ledger_update (scoped_update u_workspace_id (t_workspace_id t) (\<lambda>r. u_id r = reservation)
         (settle_row (wb_rate_card b) inp out)))) (\<lambda>_.
       ret \<lparr> st_reservation_id = reservation, st_input_tokens = inp, st_output_tokens = out, st_measured_cost = measured,
             st_currency = (case wb_rate_card b of Some c \<Rightarrow> Some (rc_currency c) | None \<Rightarrow> u_currency row),
             st_cost_is_unknown = (measured = None) \<rparr>))))))"

definition release_row :: "usage_ledger_row \<Rightarrow> usage_ledger_row" where
  "release_row r = r \<lparr> u_status := Released \<rparr>"

definition releaseUsage :: "env \<Rightarrow> uuid \<Rightarrow> string \<Rightarrow> uuid \<Rightarrow> (db, unit) handler" where
  "releaseUsage E i token reservation =
     transaction (
       andThen (lockLeasedTask E i token) (\<lambda>t.
       andThen (lockReservation (t_workspace_id t) reservation (t_id t)) (\<lambda>row.
       modify (usage_ledger_update (scoped_update u_workspace_id (t_workspace_id t) (\<lambda>r. u_id r = reservation) release_row)))))"

section \<open>Facts\<close>

lemma fold_count_row:
  "fold count_row rows (inp, out, cost, unknown) =
     (inp + sum_list (map u_input_tokens rows), out + sum_list (map u_output_tokens rows),
      cost + sum_list (map (\<lambda>r. case priced r of None \<Rightarrow> 0 | Some c \<Rightarrow> c) rows),
      unknown + int (length (filter (\<lambda>r. priced r = None) rows)))"
  by (induction rows arbitrary: inp out cost unknown) (auto split: option.splits)

definition row_tokens :: "usage_ledger_row \<Rightarrow> int" where
  "row_tokens r = u_input_tokens r + u_output_tokens r"

definition row_cost :: "usage_ledger_row \<Rightarrow> rat" where
  "row_cost r = (case priced r of None \<Rightarrow> 0 | Some c \<Rightarrow> c)"

lemma totalsFrom_sums:
  "ut_requests (totalsFrom rows) = int (length rows)"
  "ut_tokens (totalsFrom rows) = sum_list (map row_tokens rows)"
  "ut_cost (totalsFrom rows) = sum_list (map row_cost rows)"
  by (simp_all add: totalsFrom_def fold_count_row row_tokens_def [abs_def] row_cost_def [abs_def] sum_list_addf)

lemma stored_cost_near: "c - 1 / 2000000 < stored_cost c" "stored_cost c \<le> c + 1 / 2000000"
  using floor_correct [of "c * 1000000 + 1 / 2"] by (simp_all add: stored_cost_def field_simps)

lemma windowRows_insert:
  "windowRows ws t (usage_ledger_update (insert_row r) s) =
     windowRows ws t s @ (if u_workspace_id r = ws \<and> t - usage_window_ms \<le> u_created_at r \<and> u_status r \<noteq> Released then [r] else [])"
  by (simp add: windowRows_def scoped_filter_def insert_row_def)

lemma wp_loadWorkspaceBudget:
  assumes "\<And>f. Q (budget_from (loadProviderSettings ws s) (stored_preferences ws s)) (preferences_rows_update f s)"
  shows "wp (loadWorkspaceBudget ws) Q F s"
  using assms unfolding loadWorkspaceBudget_def by (simp add: wp_workspacePreferences)

definition stored_budget :: "uuid \<Rightarrow> db \<Rightarrow> workspace_budget" where
  "stored_budget ws s = budget_from (loadProviderSettings ws s) (stored_preferences ws s)"

lemma wp_lock_held:
  assumes "holds_lease E i token s t"
  shows "wp (lockLeasedTask E i token) Q F s = Q t s"
  using assms by (auto simp: holds_lease_def lockLeasedTask_def split: option.splits)

lemma loadProviderSettings_preferences [simp]:
  "loadProviderSettings ws (preferences_rows_update f s) = loadProviderSettings ws s"
  by (simp add: loadProviderSettings_def)

lemma windowRows_preferences [simp]: "windowRows ws t (preferences_rows_update f s) = windowRows ws t s"
  by (simp add: windowRows_def)

lemma priceOf_None [simp]: "priceOf rates inp out = None \<longleftrightarrow> rates = None"
  by (simp add: priceOf_def)

lemma stored_budget_enforceable:
  "wb_cost_cap_enforceable (stored_budget ws s) \<longleftrightarrow>
     wb_daily_cost_budget (stored_budget ws s) \<noteq> None \<and> wb_rate_card (stored_budget ws s) \<noteq> None"
  by (simp add: stored_budget_def budget_from_def Let_def)

lemma over_cost_stored:
  "over_cost (stored_budget ws s) spent (priceOf (wb_rate_card (stored_budget ws s)) inp out) \<longleftrightarrow>
     (\<exists>cap price. wb_daily_cost_budget (stored_budget ws s) = Some cap \<and>
        priceOf (wb_rate_card (stored_budget ws s)) inp out = Some price \<and> spent + price > cap)"
proof (cases "priceOf (wb_rate_card (stored_budget ws s)) inp out")
  case (Some price)
  then have "wb_rate_card (stored_budget ws s) \<noteq> None" by (auto simp: priceOf_def)
  then show ?thesis using Some by (auto simp: over_cost_def stored_budget_enforceable split: option.splits)
qed (auto simp: over_cost_def priceOf_def)

lemma windowRows_released:
  "windowRows ws t (usage_ledger_update (scoped_update u_workspace_id ws (\<lambda>r. u_id r = i) release_row) s) =
     filter (\<lambda>r. u_id r \<noteq> i) (windowRows ws t s)"
proof -
  have "scoped_filter u_workspace_id ws P (scoped_update u_workspace_id ws (\<lambda>r. u_id r = i) release_row rows) =
      filter (\<lambda>r. u_id r \<noteq> i) (scoped_filter u_workspace_id ws P rows)"
    if "\<And>r. P r \<Longrightarrow> u_status r \<noteq> Released" and "\<And>r. u_id r \<noteq> i \<Longrightarrow> P r = P r" for P rows
    using that(1) by (induction rows) (force simp: scoped_filter_def scoped_update_def release_row_def)+
  from this [of "\<lambda>r. t - usage_window_ms \<le> u_created_at r \<and> u_status r \<noteq> Released"] show ?thesis
    by (simp add: windowRows_def)
qed

lemma wp_lockReservation:
  assumes "\<And>row. row \<in> set (usage_ledger s) \<Longrightarrow> u_id row = i \<Longrightarrow> u_workspace_id row = ws \<Longrightarrow> u_task_id row = Some task \<Longrightarrow> Q row s"
    and "F NotFound s"
  shows "wp (lockReservation ws i task) Q F s"
  using assms by (auto simp: lockReservation_def dest: scoped_find_SomeD split: option.splits)

lemma reserved_row_fields [simp]:
  "u_workspace_id (reserved_row E new_id t b inp out) = t_workspace_id t"
  "u_created_at (reserved_row E new_id t b inp out) = now E"
  "u_status (reserved_row E new_id t b inp out) = Reserved"
  "row_tokens (reserved_row E new_id t b inp out) = inp + out"
  "row_cost (reserved_row E new_id t b inp out) =
     (case priceOf (wb_rate_card b) inp out of None \<Rightarrow> 0 | Some c \<Rightarrow> stored_cost c)"
  by (auto simp: reserved_row_def row_tokens_def row_cost_def priced_def priceOf_def split: option.splits)

lemma windowRows_reserved:
  "windowRows (t_workspace_id t) (now E) (usage_ledger_update (insert_row (reserved_row E new_id t b inp out)) s) =
     windowRows (t_workspace_id t) (now E) s @ [reserved_row E new_id t b inp out]"
  by (simp add: windowRows_insert usage_window_ms_def)

end
