(* ===== verification/UsageProperties.thy ===== *)
theory UsageProperties
  imports Usage Samples
begin

text \<open>
  What the usage ledger promises, with a concrete reservation.
\<close>

section \<open>Reservations\<close>

text \<open>C17: A reservation never takes a workspace over its daily budget, and one is refused only when it
  would.  If a worker that holds the lease is granted a reservation, exactly that row joins
  the rows of the last 24 hours that were not released, and with it they stay within the
  limit of requests, within the budget of tokens and, where the workspace has a cost cap and a rate
  card, within the cap up to the rounding of one stored price.  If it is refused, the
  database is as it was; it is refused for the budget only if the requests of the window
  have reached the limit, or its tokens or its price would exceed what is left.\<close>

theorem budget_respected:
  fixes E i token s t inp out new_id
  defines "ws \<equiv> t_workspace_id t" and "b \<equiv> stored_budget (t_workspace_id t) s"
    and "before \<equiv> windowRows (t_workspace_id t) (now E) s"
  assumes "holds_lease E i token s t"
  shows "case reserveUsage E new_id i token inp out s of
    (Inr v, s') \<Rightarrow>
      windowRows ws (now E) s' = before @ [reserved_row E new_id t b inp out] \<and> rv_reservation_id v = new_id \<and>
      int (length (windowRows ws (now E) s')) \<le> wb_requests_per_day b \<and>
      (\<forall>cap. wb_daily_token_budget b = Some cap \<longrightarrow> sum_list (map row_tokens (windowRows ws (now E) s')) \<le> cap) \<and>
      (\<forall>cap. wb_daily_cost_budget b = Some cap \<longrightarrow> wb_rate_card b \<noteq> None \<longrightarrow>
         sum_list (map row_cost (windowRows ws (now E) s')) \<le> cap + 1 / 2000000)
  | (Inl e, s') \<Rightarrow>
      s' = s \<and> (e = BudgetExhausted \<or> e = Conflict \<or> e = InternalError) \<and>
      (e = BudgetExhausted \<longrightarrow>
         wb_requests_per_day b \<le> int (length before) \<or>
         (\<exists>cap. wb_daily_token_budget b = Some cap \<and> sum_list (map row_tokens before) + (inp + out) > cap) \<or>
         (\<exists>cap price. wb_daily_cost_budget b = Some cap \<and> priceOf (wb_rate_card b) inp out = Some price \<and>
            sum_list (map row_cost before) + price > cap))"
proof (rule wp_cases)
  let ?row = "reserved_row E new_id t b inp out"
  show "wp (reserveUsage E new_id i token inp out)
    (\<lambda>v s'. \<exists>f. s' = usage_ledger_update (insert_row ?row) (preferences_rows_update f s) \<and> rv_reservation_id v = new_id \<and>
       ut_requests (totalsFrom before) < wb_requests_per_day b \<and>
       (\<forall>cap. wb_daily_token_budget b = Some cap \<longrightarrow> ut_tokens (totalsFrom before) + (inp + out) \<le> cap) \<and>
       \<not> over_cost b (ut_cost (totalsFrom before)) (priceOf (wb_rate_card b) inp out))
    (\<lambda>e s'. s' = s \<and> (e = InternalError \<or> e = Conflict \<or> e = BudgetExhausted \<and>
       (wb_requests_per_day b \<le> ut_requests (totalsFrom before) \<or>
        (\<exists>cap. wb_daily_token_budget b = Some cap \<and> ut_tokens (totalsFrom before) + (inp + out) > cap) \<or>
        over_cost b (ut_cost (totalsFrom before)) (priceOf (wb_rate_card b) inp out)))) s"
    unfolding reserveUsage_def Let_def
    by (simp only: wp_transaction wp_andThen wp_lock_held [OF assms(4)], rule wp_loadWorkspaceBudget)
       (auto simp: b_def stored_budget_def before_def split: option.splits)
next
  fix v s'
  assume "\<exists>f. s' = usage_ledger_update (insert_row (reserved_row E new_id t b inp out)) (preferences_rows_update f s) \<and>
    rv_reservation_id v = new_id \<and> ut_requests (totalsFrom before) < wb_requests_per_day b \<and>
    (\<forall>cap. wb_daily_token_budget b = Some cap \<longrightarrow> ut_tokens (totalsFrom before) + (inp + out) \<le> cap) \<and>
    \<not> over_cost b (ut_cost (totalsFrom before)) (priceOf (wb_rate_card b) inp out)"
  then have after: "windowRows ws (now E) s' = before @ [reserved_row E new_id t b inp out]" and id: "rv_reservation_id v = new_id"
    and room: "int (length before) < wb_requests_per_day b"
      "\<And>cap. wb_daily_token_budget b = Some cap \<Longrightarrow> sum_list (map row_tokens before) + (inp + out) \<le> cap"
      "\<not> over_cost b (sum_list (map row_cost before)) (priceOf (wb_rate_card b) inp out)"
    by (auto simp: ws_def before_def windowRows_reserved totalsFrom_sums)
  have "sum_list (map row_cost before) + row_cost (reserved_row E new_id t b inp out) \<le> cap + 1 / 2000000"
    if cap: "wb_daily_cost_budget b = Some cap" "wb_rate_card b \<noteq> None" for cap
  proof -
    obtain price where price: "priceOf (wb_rate_card b) inp out = Some price" using cap(2) by (cases "priceOf (wb_rate_card b) inp out") auto
    then have "sum_list (map row_cost before) + price \<le> cap" using room(3) cap(1) unfolding b_def over_cost_stored by force
    then show ?thesis using stored_cost_near(2) [of price] price by simp
  qed
  then show "windowRows ws (now E) s' = before @ [reserved_row E new_id t b inp out] \<and> rv_reservation_id v = new_id \<and>
    int (length (windowRows ws (now E) s')) \<le> wb_requests_per_day b \<and>
    (\<forall>cap. wb_daily_token_budget b = Some cap \<longrightarrow> sum_list (map row_tokens (windowRows ws (now E) s')) \<le> cap) \<and>
    (\<forall>cap. wb_daily_cost_budget b = Some cap \<longrightarrow> wb_rate_card b \<noteq> None \<longrightarrow>
       sum_list (map row_cost (windowRows ws (now E) s')) \<le> cap + 1 / 2000000)"
    using room(1,2) by (auto simp: after id)
qed (auto simp: totalsFrom_sums over_cost_stored b_def)

definition usage_task :: task_row where
  "usage_task = leased_row sample_env ''w'' ''lease-1'' (sample_task ParseProfile)"

definition usage_settings :: "int \<Rightarrow> provider_settings_row" where
  "usage_settings tokens = \<lparr> ps_workspace_id = ''ws'', ps_provider = Ollama, ps_base_url = Some ''http://localhost'', ps_model = ''m'',
     ps_secret_ciphertext = None, ps_daily_budget = None,
     ps_validated_config = \<lparr> vc_limits = Some (default_provider_limits \<lparr> li_daily_token_budget := Some tokens \<rparr>),
       vc_rate_card = None, vc_api_key_masked = None, vc_key_version = None \<rparr>, ps_updated_at = 0 \<rparr>"

definition usage_db :: "int \<Rightarrow> db" where
  "usage_db tokens = (sample_queue usage_task) \<lparr> provider_settings := [usage_settings tokens] \<rparr>"

lemma usage_held: "holds_lease sample_env ''task'' ''lease-1'' (usage_db n) usage_task"
  by (simp add: holds_lease_def find_task_def usage_db_def usage_task_def sample_queue_def sample_task_def new_task_def
      leased_row_def sample_env_def lease_ms_def lease_seconds_def)

theorem budget_respected_witness:
  "\<exists>v s'. reserveUsage sample_env ''r1'' ''task'' ''lease-1'' 100 50 (usage_db 150) = (Inr v, s') \<and>
     sum_list (map row_tokens (windowRows ''ws'' sample_now s')) \<le> 150"
proof -
  have ran: "case reserveUsage sample_env ''r1'' ''task'' ''lease-1'' 100 50 (usage_db 150) of (Inr _, _) \<Rightarrow> True | _ \<Rightarrow> False"
    by code_simp
  have "t_workspace_id usage_task = ''ws''" "wb_daily_token_budget (stored_budget ''ws'' (usage_db 150)) = Some 150" "now sample_env = sample_now"
    by code_simp+
  then show ?thesis
    using budget_respected [OF usage_held, where inp = 100 and out = 50 and new_id = "''r1''" and n1 = 150] ran
    by (auto split: prod.splits sum.splits)
qed



end
