(* ===== verification/Accounts.thy ===== *)
theory Accounts
  imports Usage Network
begin

text \<open>
  \<open>apps/api/src/auth/sessions.ts\<close>, \<open>password.ts\<close> and \<open>csrf.ts\<close>, and the routes \<open>setup.ts\<close>, \<open>auth.ts\<close> and
  \<open>me.ts\<close>: the one-time setup of a local installation, sessions and their cookies, the
  forgery defences, and what a signed-in user is told about the installation.

  Argon2 and HMAC are the parameters \<open>account_library\<close>.  The cookies themselves, the equal timing of failed
  logins and the worker registrations behind \<open>worker_online\<close> are not modelled; whether a worker is online
  is an argument.
\<close>

section \<open>Configuration and libraries\<close>

record account_config =
  app_origin :: string
  is_hosted :: bool
  setup_token :: "string option"
  session_secret :: string

record account_library =
  hmacHex :: "string \<Rightarrow> string \<Rightarrow> string"
  argon2_hash :: "string \<Rightarrow> string"
  argon2_verify :: "string \<Rightarrow> string \<Rightarrow> bool"

definition normalizeEmail :: "string \<Rightarrow> string" where
  "normalizeEmail email = toLowerCase (trim email)"

section \<open>Sessions\<close>

definition session_ttl_ms :: int where
  "session_ttl_ms = 14 * 24 * 60 * 60 * 1000"

definition session_touch_interval_ms :: int where
  "session_touch_interval_ms = 15 * 60 * 1000"

definition hashSessionToken :: "env \<Rightarrow> string \<Rightarrow> string" where
  "hashSessionToken E token = sha256Hex E token"

definition deriveCsrfToken :: "account_library \<Rightarrow> string \<Rightarrow> string \<Rightarrow> string" where
  "deriveCsrfToken L secret token = hmacHex L secret (''jg-csrf:'' @ token)"

record created_session =
  nc_token :: string
  nc_csrf_token :: string
  nc_session_id :: uuid
  nc_expires_at :: timestamp

definition session_row_for :: "env \<Rightarrow> uuid \<Rightarrow> string \<Rightarrow> uuid \<Rightarrow> uuid \<Rightarrow> session_row" where
  "session_row_for E new_id token user ws =
     \<lparr> ss_id = new_id, ss_token_hash = hashSessionToken E token, ss_user_id = user, ss_workspace_id = ws,
       ss_expires_at = now E + session_ttl_ms, ss_revoked_at = None, ss_last_seen_at = now E, ss_created_at = now E \<rparr>"

definition createSession ::
  "env \<Rightarrow> account_library \<Rightarrow> account_config \<Rightarrow> uuid \<Rightarrow> string \<Rightarrow> uuid \<Rightarrow> uuid \<Rightarrow> (db, created_session) handler" where
  "createSession E L cfg new_id token user ws =
     andThen (reads (\<lambda>s. if new_id \<in> ss_id ` set (sessions s) \<or> hashSessionToken E token \<in> ss_token_hash ` set (sessions s)
       then Inl Conflict else Inr ())) (\<lambda>_.
     andThen (modify (sessions_update (insert_row (session_row_for E new_id token user ws)))) (\<lambda>_.
     ret \<lparr> nc_token = token, nc_csrf_token = deriveCsrfToken L (session_secret cfg) token, nc_session_id = new_id,
           nc_expires_at = now E + session_ttl_ms \<rparr>))"

record session_principal =
  sp_user_id :: uuid
  sp_workspace_id :: uuid
  sp_session_id :: uuid
  sp_session_token :: string

text \<open>\<open>sessions INNER JOIN users\<close>, by the digest of the token.\<close>

definition find_session_user :: "env \<Rightarrow> string \<Rightarrow> db \<Rightarrow> (session_row \<times> user_row) option" where
  "find_session_user E token s =
     (case find (\<lambda>r. ss_token_hash r = hashSessionToken E token) (sessions s) of
        None \<Rightarrow> None
      | Some r \<Rightarrow> map_option (Pair r) (find (\<lambda>u. us_id u = ss_user_id r) (users s)))"

definition touch_session :: "env \<Rightarrow> uuid \<Rightarrow> db \<Rightarrow> db" where
  "touch_session E i = sessions_update (map (\<lambda>r. if ss_id r = i
     then r \<lparr> ss_last_seen_at := now E, ss_expires_at := now E + session_ttl_ms \<rparr> else r))"

definition resolveSession :: "env \<Rightarrow> string option \<Rightarrow> (db, session_principal option) handler" where
  "resolveSession E cookie =
     (case cookie of None \<Rightarrow> ret None
      | Some token \<Rightarrow>
          if length token < 16 then ret None
          else andThen (gets (find_session_user E token)) (\<lambda>found.
            case found of None \<Rightarrow> ret None
            | Some (r, u) \<Rightarrow>
                if ss_revoked_at r \<noteq> None then ret None
                else if us_disabled_at u \<noteq> None then ret None
                else if ss_expires_at r \<le> now E then ret None
                else andThen (if now E - ss_last_seen_at r > session_touch_interval_ms
                       then modify (touch_session E (ss_id r)) else ret ()) (\<lambda>_.
                  ret (Some \<lparr> sp_user_id = ss_user_id r, sp_workspace_id = ss_workspace_id r, sp_session_id = ss_id r,
                              sp_session_token = token \<rparr>))))"

definition revoke_row :: "timestamp \<Rightarrow> session_row \<Rightarrow> session_row" where
  "revoke_row t r = r \<lparr> ss_revoked_at := Some t \<rparr>"

definition revokeSession :: "env \<Rightarrow> uuid \<Rightarrow> (db, unit) handler" where
  "revokeSession E i =
     modify (sessions_update (map (\<lambda>r. if ss_id r = i \<and> ss_revoked_at r = None then revoke_row (now E) r else r)))"

definition revokeAllUserSessions :: "env \<Rightarrow> uuid \<Rightarrow> (db, unit) handler" where
  "revokeAllUserSessions E user =
     modify (sessions_update (map (\<lambda>r. if ss_user_id r = user \<and> ss_revoked_at r = None then revoke_row (now E) r else r)))"

section \<open>Cross-site requests\<close>

definition csrfTokenMatches :: "env \<Rightarrow> account_library \<Rightarrow> account_config \<Rightarrow> session_principal \<Rightarrow> string option \<Rightarrow> bool" where
  "csrfTokenMatches E L cfg who presented =
     (case presented of None \<Rightarrow> False
      | Some token \<Rightarrow> token \<noteq> [] \<and>
          constantTimeEqual E token (deriveCsrfToken L (session_secret cfg) (sp_session_token who)))"

definition originOf :: "env \<Rightarrow> string option \<Rightarrow> string option" where
  "originOf E value =
     (case value of None \<Rightarrow> None
      | Some text \<Rightarrow> if text = [] then None else map_option url_origin (parse_url E text))"

definition verifyOrigin :: "env \<Rightarrow> account_config \<Rightarrow> string option \<Rightarrow> string option \<Rightarrow> ('s, unit) handler" where
  "verifyOrigin E cfg origin referer =
     (case originOf E origin of
        Some x \<Rightarrow> throw_if (x \<noteq> app_origin cfg) Forbidden
      | None \<Rightarrow>
          (case originOf E referer of
             Some x \<Rightarrow> throw_if (x \<noteq> app_origin cfg) Forbidden
           | None \<Rightarrow> fail Forbidden))"

definition verifyCsrfToken ::
  "env \<Rightarrow> account_library \<Rightarrow> account_config \<Rightarrow> session_principal option \<Rightarrow> string option \<Rightarrow> ('s, unit) handler" where
  "verifyCsrfToken E L cfg who presented =
     (case who of None \<Rightarrow> fail Forbidden
      | Some p \<Rightarrow> throw_if (\<not> csrfTokenMatches E L cfg p presented) Forbidden)"

section \<open>Who is asking\<close>

fun creating_operation :: "task_type \<Rightarrow> string option" where
  "creating_operation NoopEcho = Some ''createDiagnosticTask''"
| "creating_operation ParseProfile = Some ''createProfileImport''"
| "creating_operation FetchBoard = Some ''scanSource''"
| "creating_operation FetchJob = Some ''importJob''"
| "creating_operation MatchJob = Some ''matchJob''"
| "creating_operation RenderCv = Some ''createResume''"
| "creating_operation FillLocal = Some ''fillApplication''"
| "creating_operation ObserveConfirmation = Some ''observeApplication''"
| "creating_operation _ = None"

definition deferred_operations :: "string list" where
  "deferred_operations = [''register'', ''requestPasswordReset'', ''confirmPasswordReset'']"

definition enqueueableTaskTypes :: "task_type list" where
  "enqueueableTaskTypes =
     filter (\<lambda>ty. case creating_operation ty of None \<Rightarrow> False | Some op \<Rightarrow> op \<notin> set deferred_operations) implemented_task_types"

record capabilities_view =
  ca_implemented_task_types :: "task_type list"
  ca_ai_provider_configured :: bool
  ca_profile_import :: bool
  ca_job_discovery :: bool
  ca_cv_generation :: bool
  ca_applications :: bool
  ca_browser_filling :: bool
  ca_extension :: bool
  ca_worker_online :: bool

record usage_view =
  uv_requests_today :: int
  uv_requests_per_day_limit :: int
  uv_input_tokens_today :: int
  uv_output_tokens_today :: int
  uv_measured_cost_today :: "rat option"
  uv_currency :: "string option"
  uv_daily_cost_budget :: "rat option"

record me_view =
  me_user_id :: uuid
  me_email :: string
  me_verified_at :: "timestamp option"
  me_workspace_id :: uuid
  me_mode :: workspace_mode
  me_locale :: locale_id
  me_capabilities :: capabilities_view
  me_usage :: usage_view

definition buildUsage :: "env \<Rightarrow> uuid \<Rightarrow> (db, usage_view) handler" where
  "buildUsage E ws =
     andThen (summariseUsage E ws) (\<lambda>(totals, b, currency).
     ret \<lparr> uv_requests_today = ut_requests totals, uv_requests_per_day_limit = wb_requests_per_day b,
           uv_input_tokens_today = ut_input_tokens totals, uv_output_tokens_today = ut_output_tokens totals,
           uv_measured_cost_today = (if wb_rate_card b = None then None else Some (ut_cost totals)),
           uv_currency = currency, uv_daily_cost_budget = wb_daily_cost_budget b \<rparr>)"

definition buildCapabilities :: "bool \<Rightarrow> uuid \<Rightarrow> db \<Rightarrow> capabilities_view" where
  "buildCapabilities worker_online ws s =
     \<lparr> ca_implemented_task_types = enqueueableTaskTypes,
       ca_ai_provider_configured = (case loadProviderSettings ws s of None \<Rightarrow> False | Some r \<Rightarrow> ps_provider r \<noteq> NoProvider),
       ca_profile_import = True, ca_job_discovery = True, ca_cv_generation = False, ca_applications = False,
       ca_browser_filling = False, ca_extension = False, ca_worker_online = worker_online \<rparr>"

definition buildMeResponse :: "env \<Rightarrow> bool \<Rightarrow> uuid \<Rightarrow> string \<Rightarrow> timestamp option \<Rightarrow> workspace_row \<Rightarrow> (db, me_view) handler" where
  "buildMeResponse E worker_online user email verified w =
     andThen (gets (buildCapabilities worker_online (w_id w))) (\<lambda>capabilities.
     andThen (buildUsage E (w_id w)) (\<lambda>usage.
     ret \<lparr> me_user_id = user, me_email = email, me_verified_at = verified, me_workspace_id = w_id w, me_mode = w_mode w,
           me_locale = w_locale w, me_capabilities = capabilities, me_usage = usage \<rparr>))"

definition getMe :: "env \<Rightarrow> bool \<Rightarrow> session_principal \<Rightarrow> (db, me_view) handler" where
  "getMe E worker_online who =
     andThen (gets (\<lambda>s. find (\<lambda>u. us_id u = sp_user_id who) (users s))) (\<lambda>user.
     andThen (gets (\<lambda>s. find (\<lambda>w. w_id w = sp_workspace_id who) (workspaces s))) (\<lambda>workspace.
     andThen (require user NotFound) (\<lambda>u.
     andThen (require workspace NotFound) (\<lambda>w.
     buildMeResponse E worker_online (us_id u) (us_email u) (us_verified_at u) w))))"

section \<open>Signing in and out\<close>

definition owned_workspace :: "uuid \<Rightarrow> db \<Rightarrow> workspace_row option" where
  "owned_workspace user s =
     (case find (\<lambda>m. mb_user_id m = user \<and> mb_workspace_id m \<in> w_id ` set (workspaces s)) (memberships s) of
        None \<Rightarrow> None
      | Some m \<Rightarrow> find (\<lambda>w. w_id w = mb_workspace_id m) (workspaces s))"

record login_request =
  lr_email :: string
  lr_password :: string

text \<open>Whatever is wrong, the answer is the same.\<close>

definition login ::
  "env \<Rightarrow> account_library \<Rightarrow> account_config \<Rightarrow> bool \<Rightarrow> uuid \<Rightarrow> string \<Rightarrow> login_request \<Rightarrow> (db, created_session \<times> me_view) handler" where
  "login E L cfg worker_online new_id token b =
     andThen (gets (\<lambda>s. find (\<lambda>u. us_normalized_email u = normalizeEmail (lr_email b)) (users s))) (\<lambda>found.
     andThen (require found Unauthenticated) (\<lambda>u.
     andThen (throw_if (\<not> argon2_verify L (us_password_hash u) (lr_password b)) Unauthenticated) (\<lambda>_.
     andThen (throw_if (us_disabled_at u \<noteq> None) Unauthenticated) (\<lambda>_.
     andThen (throw_if (is_hosted cfg \<and> us_verified_at u = None) Unauthenticated) (\<lambda>_.
     andThen (gets (owned_workspace (us_id u))) (\<lambda>owned.
     andThen (require owned Unauthenticated) (\<lambda>w.
     andThen (throw_if (w_deletion_state w \<noteq> ActiveWorkspace) Unauthenticated) (\<lambda>_.
     andThen (createSession E L cfg new_id token (us_id u) (w_id w)) (\<lambda>session.
     andThen (buildMeResponse E worker_online (us_id u) (us_email u) (us_verified_at u) w) (\<lambda>me.
     ret (session, me)))))))))))"

definition logout :: "env \<Rightarrow> session_principal \<Rightarrow> (db, unit) handler" where
  "logout E who = revokeSession E (sp_session_id who)"

section \<open>One-time setup\<close>

definition setup_completed_flag :: string where
  "setup_completed_flag = ''setup_completed''"

definition isSetupClosed :: "db \<Rightarrow> bool" where
  "isSetupClosed s \<longleftrightarrow> setup_completed_flag \<in> sf_key ` set (system_flags s)"

definition code_between :: "char \<Rightarrow> char \<Rightarrow> char \<Rightarrow> bool" where
  "code_between lo hi c \<longleftrightarrow> (of_char lo :: nat) \<le> of_char c \<and> (of_char c :: nat) \<le> of_char hi"

definition is_hex :: "char \<Rightarrow> bool" where
  "is_hex c \<longleftrightarrow> code_between CHR ''0'' CHR ''9'' c \<or> code_between CHR ''a'' CHR ''f'' c"

text \<open>\<open>PRIVATE_IPV4\<close>: a match of the text before a dot, anchored at the start.\<close>

fun private_second :: "string \<Rightarrow> string \<Rightarrow> bool" where
  "private_second first [c, d] \<longleftrightarrow>
     (first = ''172'' \<and> (c = CHR ''1'' \<and> code_between CHR ''6'' CHR ''9'' d \<or> c = CHR ''2'' \<and> is_digit d \<or>
        c = CHR ''3'' \<and> (d = CHR ''0'' \<or> d = CHR ''1''))) \<or>
     (first = ''100'' \<and> (c = CHR ''6'' \<and> code_between CHR ''4'' CHR ''9'' d \<or> code_between CHR ''7'' CHR ''9'' c \<and> is_digit d))"
| "private_second first [c, d, e] \<longleftrightarrow>
     (first = ''169'' \<and> [c, d, e] = ''254'') \<or> (first = ''192'' \<and> [c, d, e] = ''168'') \<or>
     (first = ''100'' \<and> c = CHR ''1'' \<and>
        ((d = CHR ''0'' \<or> d = CHR ''1'') \<and> is_digit e \<or> d = CHR ''2'' \<and> code_between CHR ''0'' CHR ''7'' e))"
| "private_second first _ \<longleftrightarrow> False"

definition private_ipv4 :: "string \<Rightarrow> bool" where
  "private_ipv4 text =
     (case split_char CHR ''.'' text of
        a # b # tail \<Rightarrow> a = ''10'' \<or> a = ''127'' \<or> (tail \<noteq> [] \<and> private_second a b)
      | _ \<Rightarrow> False)"

fun private_ipv6 :: "string \<Rightarrow> bool" where
  "private_ipv6 (a # b # c # d # e # tail) \<longleftrightarrow>
     a = CHR ''f'' \<and> e = CHR '':'' \<and>
     ((b = CHR ''c'' \<or> b = CHR ''d'') \<and> is_hex c \<and> is_hex d \<or>
      b = CHR ''e'' \<and> c \<in> set ''89ab'' \<and> is_hex d)"
| "private_ipv6 _ \<longleftrightarrow> False"

definition isTrustedSetupSource :: "string option \<Rightarrow> bool" where
  "isTrustedSetupSource address =
     (case address of None \<Rightarrow> False
      | Some text \<Rightarrow>
          let lowered = toLowerCase text;
              normalised = (if startsWith lowered ''::ffff:'' then drop 7 lowered else lowered) in
          text \<noteq> [] \<and>
          (normalised = ''::1'' \<or> normalised = ''localhost'' \<or> private_ipv4 normalised \<or> private_ipv6 normalised))"

record setup_status =
  sus_hosted :: bool
  sus_setup_required :: bool
  sus_registration_open :: bool

definition getSetupStatus :: "account_config \<Rightarrow> db \<Rightarrow> setup_status" where
  "getSetupStatus cfg s =
     \<lparr> sus_hosted = is_hosted cfg, sus_setup_required = (\<not> isSetupClosed s \<and> \<not> is_hosted cfg), sus_registration_open = False \<rparr>"

record setup_request =
  sr_setup_token :: string
  sr_email :: string
  sr_password :: string
  sr_locale :: "locale_id option"

record setup_ids =
  si_user :: uuid
  si_workspace :: uuid
  si_profile :: uuid
  si_session :: uuid
  si_token :: string

definition setup_user :: "env \<Rightarrow> account_library \<Rightarrow> setup_ids \<Rightarrow> setup_request \<Rightarrow> user_row" where
  "setup_user E L k b =
     \<lparr> us_id = si_user k, us_normalized_email = normalizeEmail (sr_email b), us_email = trim (sr_email b),
       us_password_hash = argon2_hash L (sr_password b), us_verified_at = Some (now E), us_disabled_at = None \<rparr>"

definition setup_locale :: "setup_request \<Rightarrow> locale_id" where
  "setup_locale b = (case sr_locale b of Some l \<Rightarrow> l | None \<Rightarrow> En)"

definition setup_workspace :: "setup_ids \<Rightarrow> setup_request \<Rightarrow> workspace_row" where
  "setup_workspace k b =
     \<lparr> w_id = si_workspace k, w_owner_user_id = si_user k, w_mode = LocalMode, w_locale = setup_locale b,
       w_deletion_state = ActiveWorkspace \<rparr>"

definition insert_unless :: "(db \<Rightarrow> bool) \<Rightarrow> (db \<Rightarrow> db) \<Rightarrow> (db, unit) handler" where
  "insert_unless clashes f =
     andThen (reads (\<lambda>s. if clashes s then Inl Conflict else Inr ())) (\<lambda>_. modify f)"

definition setup_transaction ::
  "env \<Rightarrow> account_library \<Rightarrow> account_config \<Rightarrow> setup_ids \<Rightarrow> setup_request \<Rightarrow> (db, created_session) handler" where
  "setup_transaction E L cfg k b =
     (let user = setup_user E L k b; w = setup_workspace k b in
      andThen (insert_unless isSetupClosed
        (system_flags_update (insert_row \<lparr> sf_key = setup_completed_flag, sf_value = JObj [(''completed_at'', JNum (now E))] \<rparr>))) (\<lambda>_.
      andThen (insert_unless (\<lambda>s. us_id user \<in> us_id ` set (users s) \<or> us_normalized_email user \<in> us_normalized_email ` set (users s))
        (users_update (insert_row user))) (\<lambda>_.
      andThen (insert_unless (\<lambda>s. w_id w \<in> w_id ` set (workspaces s)) (workspaces_update (insert_row w))) (\<lambda>_.
      andThen (insert_unless (\<lambda>s. w_id w \<in> mb_workspace_id ` set (memberships s))
        (memberships_update (insert_row \<lparr> mb_workspace_id = w_id w, mb_user_id = us_id user \<rparr>))) (\<lambda>_.
      andThen (insert_unless (\<lambda>s. si_profile k \<in> pr_id ` set (profiles s) \<or> w_id w \<in> pr_workspace_id ` set (profiles s))
        (profiles_update (insert_row \<lparr> pr_id = si_profile k, pr_workspace_id = w_id w, pr_revision = 1,
           pr_confirmed_revision = None, pr_contact = None, pr_locale = setup_locale b \<rparr>))) (\<lambda>_.
      andThen (insert_unless (\<lambda>s. w_id w \<in> pf_workspace_id ` set (preferences_rows s))
        (preferences_rows_update (insert_row \<lparr> pf_workspace_id = w_id w, pf_revision = 1,
           pf_config = Some (default_preferences \<lparr> cv_language := setup_locale b \<rparr>) \<rparr>))) (\<lambda>_.
      andThen (createSession E L cfg (si_session k) (si_token k) (us_id user) (w_id w)) (\<lambda>session.
      andThen (recordAuditEvent (w_id w) ''setup.completed'' (Some (us_id user)) (Some (w_id w)) (Some ''workspace'')
        (JObj [(''locale'', JStr (case setup_locale b of En \<Rightarrow> ''en'' | Es \<Rightarrow> ''es'')), (''mode'', JStr ''local'')])) (\<lambda>_.
      ret session)))))))))"

definition completeSetup ::
  "env \<Rightarrow> account_library \<Rightarrow> account_config \<Rightarrow> bool \<Rightarrow> setup_ids \<Rightarrow> string option \<Rightarrow> setup_request \<Rightarrow> (db, created_session \<times> me_view) handler" where
  "completeSetup E L cfg worker_online k ip b =
     andThen (throw_if (is_hosted cfg) SetupClosed) (\<lambda>_.
     andThen (throw_if (\<not> isTrustedSetupSource ip) Forbidden) (\<lambda>_.
     andThen (gets isSetupClosed) (\<lambda>closed.
     andThen (throw_if closed SetupClosed) (\<lambda>_.
     andThen (throw_if (case setup_token cfg of None \<Rightarrow> True | Some expected \<Rightarrow> \<not> constantTimeEqual E (sr_setup_token b) expected)
       Unauthenticated) (\<lambda>_.
     andThen (transaction (setup_transaction E L cfg k b)) (\<lambda>session.
     andThen (buildMeResponse E worker_online (si_user k) (trim (sr_email b)) (Some (now E)) (setup_workspace k b)) (\<lambda>me.
     ret (session, me))))))))"

section \<open>Facts\<close>

text \<open>A session that counts: the digest of the presented token, neither revoked nor expired, of a user who
  is not disabled.\<close>

definition live_session :: "env \<Rightarrow> string \<Rightarrow> db \<Rightarrow> session_row \<Rightarrow> user_row \<Rightarrow> bool" where
  "live_session E token s r u \<longleftrightarrow>
     16 \<le> length token \<and> find_session_user E token s = Some (r, u) \<and> ss_revoked_at r = None \<and> us_disabled_at u = None \<and>
     now E < ss_expires_at r"

definition principal_of :: "string \<Rightarrow> session_row \<Rightarrow> session_principal" where
  "principal_of token r =
     \<lparr> sp_user_id = ss_user_id r, sp_workspace_id = ss_workspace_id r, sp_session_id = ss_id r, sp_session_token = token \<rparr>"

lemma wp_resolveSession:
  assumes "\<And>token r u t. cookie = Some token \<Longrightarrow> live_session E token s r u \<Longrightarrow> t \<in> {s, touch_session E (ss_id r) s} \<Longrightarrow>
      Q (Some (principal_of token r)) t"
    and "(\<And>token r u. cookie = Some token \<Longrightarrow> \<not> live_session E token s r u) \<Longrightarrow> Q None s"
  shows "wp (resolveSession E cookie) Q F s"
proof (cases cookie)
  case (Some token)
  show ?thesis
  proof (cases "\<exists>r u. live_session E token s r u")
    case True
    then obtain r u where live: "live_session E token s r u" by blast
    then show ?thesis
      using assms(1) [OF Some live]
      by (simp add: resolveSession_def Some live_session_def principal_of_def)
  next
    case False
    then show ?thesis
      using assms(2) by (auto simp: resolveSession_def Some live_session_def split: option.splits)
  qed
qed (use assms(2) in \<open>simp add: resolveSession_def\<close>)

lemma find_session_userD:
  "find_session_user E token s = Some (r, u) \<Longrightarrow>
     r \<in> set (sessions s) \<and> ss_token_hash r = hashSessionToken E token \<and> u \<in> set (users s) \<and> us_id u = ss_user_id r"
  by (auto simp: find_session_user_def dest: find_SomeD split: option.splits)

lemma find_last:
  assumes "\<forall>x \<in> set xs. \<not> P x" and "P y"
  shows "find P (xs @ [y]) = Some y"
proof -
  have "find P xs = None" using assms(1) by (simp add: find_None_iff)
  then show ?thesis using assms(2) by (simp add: find_append)
qed

lemma find_unique:
  assumes "x \<in> set xs" and "distinct (map key xs)"
  shows "find (\<lambda>y. key y = key x) xs = Some x"
  using assms by (induction xs) force+

text \<open>A session that was just created is found under its token.\<close>

lemma wp_createSession:
  assumes "hashSessionToken E token \<notin> ss_token_hash ` set (sessions s) \<Longrightarrow>
      Q \<lparr> nc_token = token, nc_csrf_token = deriveCsrfToken L (session_secret cfg) token, nc_session_id = new_id,
          nc_expires_at = now E + session_ttl_ms \<rparr> (sessions_update (insert_row (session_row_for E new_id token user ws)) s)"
    and "F Conflict s"
  shows "wp (createSession E L cfg new_id token user ws) Q F s"
  using assms by (simp add: createSession_def)

lemma new_session_found:
  assumes "sessions s' = sessions s @ [session_row_for E new_id token user ws]"
    and "hashSessionToken E token \<notin> ss_token_hash ` set (sessions s)" and "hashSessionToken E' token = hashSessionToken E token"
    and "find (\<lambda>u. us_id u = user) (users s') = Some u"
  shows "find_session_user E' token s' = Some (session_row_for E new_id token user ws, u)"
proof -
  have "find (\<lambda>r. ss_token_hash r = hashSessionToken E' token) (sessions s') = Some (session_row_for E new_id token user ws)"
    unfolding assms(1,3) using assms(2) by (intro find_last) (auto simp: session_row_for_def image_iff eq_commute)
  then show ?thesis using assms(4) by (simp add: find_session_user_def session_row_for_def)
qed

lemma wp_buildMeResponse:
  assumes "\<And>me f. me_user_id me = user \<Longrightarrow> me_workspace_id me = w_id w \<Longrightarrow> Q me (preferences_rows_update f s)"
  shows "wp (buildMeResponse E worker_online user email verified w) Q F s"
  using assms unfolding buildMeResponse_def buildUsage_def summariseUsage_def
  by (simp, intro wp_loadWorkspaceBudget) simp

lemma live_after_resolve:
  assumes "live_session E token s r u"
  shows "fst (resolveSession E (Some token) s) = Inr (Some (principal_of token r))"
  using assms by (simp add: resolveSession_def live_session_def principal_of_def andThen_def gets_def ret_def modify_def)

end
