(* ===== verification/Routes.thy ===== *)
theory Routes
  imports Accounts
begin

text \<open>
  \<open>packages/contracts/src/routes.ts\<close>: the manifest every public route is registered from, in the
  order of the source, and the guard \<open>buildPreHandler\<close> of \<open>apps/api/src/routes/index.ts\<close> that runs before each handler.
  A request or response schema is the name of the contract it refers to; the one-line
  summaries are left out.  Rate limits and the framework's own parsing are not modelled.
\<close>

section \<open>Route definitions\<close>

datatype http_method = GetM | PostM | PatchM | PutM | DeleteM

datatype auth_mode = PublicAuth | SessionAuth | DeviceAuth | WorkerAuth

datatype schema_ref = Named string | PageOf string | StatusObject string | EmptyObject | UploadForm | AnyValue | NoContent

record route_definition =
  rd_operation_id :: string
  rd_method :: http_method
  rd_path :: string
  rd_auth :: auth_mode
  rd_params :: "schema_ref option"
  rd_query :: "schema_ref option"
  rd_body :: "schema_ref option"
  rd_response :: schema_ref
  rd_success_status :: int
  rd_requires_idempotency_key :: bool
  rd_multipart :: bool
  rd_binary_response :: bool
  rd_csrf :: "bool option"
  rd_origin_exempt :: bool

definition route ::
  "string \<Rightarrow> http_method \<Rightarrow> string \<Rightarrow> auth_mode \<Rightarrow> schema_ref option \<Rightarrow> schema_ref option \<Rightarrow> schema_ref option \<Rightarrow>
     schema_ref \<Rightarrow> int \<Rightarrow> route_definition" where
  "route operation method path auth params query body response status =
     \<lparr> rd_operation_id = operation, rd_method = method, rd_path = path, rd_auth = auth, rd_params = params,
       rd_query = query, rd_body = body, rd_response = response, rd_success_status = status,
       rd_requires_idempotency_key = False, rd_multipart = False, rd_binary_response = False, rd_csrf = None,
       rd_origin_exempt = False \<rparr>"

abbreviation named :: "string \<Rightarrow> schema_ref option" where
  "named name \<equiv> Some (Named name)"

abbreviation id_param :: "schema_ref option" where
  "id_param \<equiv> Some (Named ''IdParam'')"

section \<open>The manifest\<close>

definition account_routes :: "route_definition list" where
  "account_routes = [
     route ''getSetupStatus'' GetM ''/setup'' PublicAuth
       None None None (Named ''SetupStatus'') 200,
     (route ''completeSetup'' PostM ''/setup'' PublicAuth
       None None (named ''SetupRequest'') (Named ''MeResponse'') 201) \<lparr> rd_csrf := Some False \<rparr>,
     route ''register'' PostM ''/auth/register'' PublicAuth
       None None (named ''RegisterRequest'') (StatusObject ''verification_pending'') 202,
     route ''login'' PostM ''/auth/login'' PublicAuth
       None None (named ''LoginRequest'') (Named ''MeResponse'') 200,
     (route ''logout'' PostM ''/auth/logout'' SessionAuth
       None None (Some EmptyObject) NoContent 204) \<lparr> rd_csrf := Some True \<rparr>,
     route ''requestPasswordReset'' PostM ''/auth/password-reset/request'' PublicAuth
       None None (named ''PasswordResetRequest'') (StatusObject ''accepted'') 202,
     route ''confirmPasswordReset'' PostM ''/auth/password-reset/confirm'' PublicAuth
       None None (named ''PasswordResetConfirm'') NoContent 204,
     route ''getMe'' GetM ''/me'' SessionAuth
       None None None (Named ''MeResponse'') 200]"

definition profile_routes :: "route_definition list" where
  "profile_routes = [
     route ''getProfile'' GetM ''/profile'' SessionAuth
       None None None (Named ''Profile'') 200,
     (route ''patchProfile'' PatchM ''/profile'' SessionAuth
       None None (named ''ProfilePatchRequest'') (Named ''Profile'') 200) \<lparr> rd_csrf := Some True \<rparr>,
     (route ''uploadFile'' PostM ''/files'' SessionAuth
       None None (Some UploadForm) (Named ''FileUploadResponse'') 201) \<lparr> rd_multipart := True, rd_csrf := Some True \<rparr>,
     (route ''downloadFile'' GetM ''/files/:id/download'' SessionAuth
       id_param None None AnyValue 200) \<lparr> rd_binary_response := True \<rparr>,
     (route ''createProfileImport'' PostM ''/profile/imports'' SessionAuth
       None None (named ''CreateProfileImportRequest'') (Named ''AcceptedResponse'') 202) \<lparr> rd_requires_idempotency_key := True, rd_csrf := Some True \<rparr>,
     route ''getProfileImport'' GetM ''/profile/imports/:id'' SessionAuth
       id_param None None (Named ''ProfileImportView'') 200,
     (route ''confirmProfileImport'' PostM ''/profile/imports/:id/confirm'' SessionAuth
       id_param None (named ''ConfirmImportRequest'') (Named ''Profile'') 200) \<lparr> rd_csrf := Some True \<rparr>,
     route ''getPreferences'' GetM ''/preferences'' SessionAuth
       None None None (Named ''PreferencesView'') 200,
     (route ''putPreferences'' PutM ''/preferences'' SessionAuth
       None None (named ''PreferencesPutRequest'') (Named ''PreferencesView'') 200) \<lparr> rd_csrf := Some True \<rparr>,
     route ''exportSettings'' GetM ''/settings/export'' SessionAuth
       None None None (Named ''SettingsFile'') 200,
     (route ''importSettings'' PostM ''/settings/import'' SessionAuth
       None None (named ''SettingsImportRequest'') (Named ''SettingsImportResult'') 200) \<lparr> rd_csrf := Some True \<rparr>]"

definition provider_routes :: "route_definition list" where
  "provider_routes = [
     route ''getProviderSettings'' GetM ''/settings/providers'' SessionAuth
       None None None (Named ''ProviderSettingsView'') 200,
     (route ''putProviderSettings'' PutM ''/settings/providers'' SessionAuth
       None None (named ''ProviderSettingsPutRequest'') (Named ''ProviderSettingsView'') 200) \<lparr> rd_csrf := Some True \<rparr>,
     (route ''testProviderSettings'' PostM ''/settings/providers/test'' SessionAuth
       None None (Some EmptyObject) (Named ''ProviderTestResult'') 200) \<lparr> rd_csrf := Some True \<rparr>]"

definition task_routes :: "route_definition list" where
  "task_routes = [
     route ''getTask'' GetM ''/tasks/:id'' SessionAuth
       id_param None None (Named ''TaskView'') 200,
     (route ''cancelTask'' PostM ''/tasks/:id/cancel'' SessionAuth
       id_param None (Some EmptyObject) (Named ''TaskView'') 200) \<lparr> rd_csrf := Some True \<rparr>,
     route ''listTasks'' GetM ''/tasks'' SessionAuth
       None (named ''PaginationQuery'') None (PageOf ''TaskView'') 200,
     (route ''createDiagnosticTask'' PostM ''/diagnostics/echo'' SessionAuth
       None None (named ''NoopEchoInput'') (Named ''AcceptedResponse'') 202) \<lparr> rd_requires_idempotency_key := True, rd_csrf := Some True \<rparr>]"

definition discovery_routes :: "route_definition list" where
  "discovery_routes = [
     route ''listSources'' GetM ''/sources'' SessionAuth
       None None None (PageOf ''SourceView'') 200,
     (route ''createSource'' PostM ''/sources'' SessionAuth
       None None (named ''CreateSourceRequest'') (Named ''SourceView'') 201) \<lparr> rd_csrf := Some True \<rparr>,
     (route ''patchSource'' PatchM ''/sources/:id'' SessionAuth
       id_param None (named ''PatchSourceRequest'') (Named ''SourceView'') 200) \<lparr> rd_csrf := Some True \<rparr>,
     (route ''deleteSource'' DeleteM ''/sources/:id'' SessionAuth
       id_param None None NoContent 204) \<lparr> rd_csrf := Some True \<rparr>,
     (route ''scanSource'' PostM ''/sources/:id/scan'' SessionAuth
       id_param None (Some EmptyObject) (Named ''AcceptedResponse'') 202) \<lparr> rd_requires_idempotency_key := True, rd_csrf := Some True \<rparr>,
     route ''getScan'' GetM ''/scans/:id'' SessionAuth
       id_param None None (Named ''ScanView'') 200,
     (route ''importJob'' PostM ''/jobs/import'' SessionAuth
       None None (named ''JobImportRequest'') (Named ''AcceptedResponse'') 202) \<lparr> rd_requires_idempotency_key := True, rd_csrf := Some True \<rparr>,
     route ''listJobs'' GetM ''/jobs'' SessionAuth
       None (named ''JobsListQuery'') None (PageOf ''JobView'') 200,
     route ''getJob'' GetM ''/jobs/:id'' SessionAuth
       id_param None None (Named ''JobDetailView'') 200,
     (route ''matchJob'' PostM ''/jobs/:id/match'' SessionAuth
       id_param None (Some EmptyObject) (Named ''AcceptedResponse'') 202) \<lparr> rd_requires_idempotency_key := True, rd_csrf := Some True \<rparr>,
     (route ''patchJob'' PatchM ''/jobs/:id'' SessionAuth
       id_param None (named ''PatchJobRequest'') (Named ''JobView'') 200) \<lparr> rd_csrf := Some True \<rparr>]"

definition resume_routes :: "route_definition list" where
  "resume_routes = [
     (route ''createResume'' PostM ''/resumes'' SessionAuth
       None None (named ''CreateResumeRequest'') (Named ''AcceptedResponse'') 202) \<lparr> rd_requires_idempotency_key := True, rd_csrf := Some True \<rparr>,
     route ''listResumes'' GetM ''/resumes'' SessionAuth
       None (named ''ResumesListQuery'') None (PageOf ''ResumeView'') 200,
     route ''getResume'' GetM ''/resumes/:id'' SessionAuth
       id_param None None (Named ''ResumeView'') 200,
     (route ''approveResume'' PostM ''/resumes/:id/approve'' SessionAuth
       id_param None (named ''ApproveResumeRequest'') (Named ''ResumeView'') 200) \<lparr> rd_csrf := Some True \<rparr>]"

definition application_routes :: "route_definition list" where
  "application_routes = [
     (route ''createApplication'' PostM ''/applications'' SessionAuth
       None None (named ''CreateApplicationRequest'') (Named ''ApplicationView'') 200) \<lparr> rd_csrf := Some True \<rparr>,
     route ''listApplications'' GetM ''/applications'' SessionAuth
       None (named ''ApplicationsListQuery'') None (PageOf ''ApplicationView'') 200,
     route ''getApplication'' GetM ''/applications/:id'' SessionAuth
       id_param None None (Named ''ApplicationView'') 200,
     (route ''createApplicationPacket'' PostM ''/applications/:id/packets'' SessionAuth
       id_param None (named ''CreatePacketRequest'') (Named ''AcceptedResponse'') 202) \<lparr> rd_requires_idempotency_key := True, rd_csrf := Some True \<rparr>,
     (route ''approveApplication'' PostM ''/applications/:id/approve'' SessionAuth
       id_param None (named ''ApproveApplicationRequest'') (Named ''ApplicationView'') 200) \<lparr> rd_csrf := Some True \<rparr>,
     (route ''recordApplicationOutcome'' PostM ''/applications/:id/outcome'' SessionAuth
       id_param None (named ''ApplicationOutcomeRequest'') (Named ''ApplicationView'') 200) \<lparr> rd_csrf := Some True \<rparr>,
     route ''listApplicationEvents'' GetM ''/applications/:id/events'' SessionAuth
       id_param (named ''PaginationQuery'') None (PageOf ''ApplicationEventView'') 200,
     route ''listAnswerBank'' GetM ''/answer-bank'' SessionAuth
       None (named ''AnswerBankListQuery'') None (PageOf ''AnswerBankEntry'') 200,
     (route ''putAnswerBankEntry'' PutM ''/answer-bank'' SessionAuth
       None None (named ''AnswerBankPutRequest'') (Named ''AnswerBankEntry'') 200) \<lparr> rd_csrf := Some True \<rparr>,
     (route ''fillApplication'' PostM ''/applications/:id/fill'' SessionAuth
       id_param None (named ''FillApplicationRequest'') (Named ''AcceptedResponse'') 202) \<lparr> rd_requires_idempotency_key := True, rd_csrf := Some True \<rparr>,
     (route ''observeApplication'' PostM ''/applications/:id/observe'' SessionAuth
       id_param None (named ''ObserveApplicationRequest'') (Named ''AcceptedResponse'') 202) \<lparr> rd_requires_idempotency_key := True, rd_csrf := Some True \<rparr>]"

definition device_routes :: "route_definition list" where
  "device_routes = [
     route ''listDevices'' GetM ''/devices'' SessionAuth
       None None None (PageOf ''DeviceView'') 200,
     (route ''createDevicePairing'' PostM ''/devices/pairing'' SessionAuth
       None None (named ''CreatePairingRequest'') (Named ''PairingCodeResponse'') 201) \<lparr> rd_csrf := Some True \<rparr>,
     (route ''exchangeDevicePairing'' PostM ''/devices/exchange'' PublicAuth
       None None (named ''DeviceExchangeRequest'') (Named ''DeviceExchangeResponse'') 200) \<lparr> rd_origin_exempt := True \<rparr>,
     route ''getDevice'' GetM ''/devices/:id'' SessionAuth
       id_param None None (Named ''DeviceView'') 200,
     (route ''revokeDevice'' DeleteM ''/devices/:id'' SessionAuth
       id_param None None NoContent 204) \<lparr> rd_csrf := Some True \<rparr>]"

definition fill_session_routes :: "route_definition list" where
  "fill_session_routes = [
     route ''listFillTargets'' GetM ''/fill-targets'' DeviceAuth
       None None None (Named ''FillTargetList'') 200,
     (route ''createFillSession'' PostM ''/fill-sessions'' DeviceAuth
       None None (named ''CreateFillSessionRequest'') (Named ''FillSessionGrant'') 201) \<lparr> rd_origin_exempt := True \<rparr>,
     route ''getFillSession'' GetM ''/fill-sessions/:id'' DeviceAuth
       id_param None None (Named ''FillSessionView'') 200,
     (route ''downloadFillSessionResume'' GetM ''/fill-sessions/:id/resume'' DeviceAuth
       id_param None None AnyValue 200) \<lparr> rd_binary_response := True \<rparr>,
     (route ''reportFillSession'' PostM ''/fill-sessions/:id/report'' DeviceAuth
       id_param None (named ''ReportFillSessionRequest'') (Named ''FillSessionView'') 200) \<lparr> rd_origin_exempt := True \<rparr>,
     (route ''reportFillSessionObservation'' PostM ''/fill-sessions/:id/observation'' DeviceAuth
       id_param None (named ''ReportObservationRequest'') (Named ''ObservationRecorded'') 200) \<lparr> rd_origin_exempt := True \<rparr>,
     (route ''endFillSession'' DeleteM ''/fill-sessions/:id'' DeviceAuth
       id_param None None NoContent 204) \<lparr> rd_origin_exempt := True \<rparr>]"

definition workspace_routes :: "route_definition list" where
  "workspace_routes = [
     (route ''exportWorkspace'' PostM ''/workspace/export'' SessionAuth
       None None (Some EmptyObject) (Named ''AcceptedResponse'') 202) \<lparr> rd_requires_idempotency_key := True, rd_csrf := Some True \<rparr>,
     (route ''deleteWorkspace'' DeleteM ''/workspace'' SessionAuth
       None None (named ''DeleteWorkspaceRequest'') (Named ''WorkspaceDeletionView'') 202) \<lparr> rd_csrf := Some True \<rparr>,
     route ''getWorkspaceDeletion'' GetM ''/workspace/deletions/:id'' PublicAuth
       id_param None None (Named ''WorkspaceDeletionView'') 200,
     (route ''deleteAnswerBankEntry'' DeleteM ''/answer-bank/:id'' SessionAuth
       id_param None None NoContent 204) \<lparr> rd_csrf := Some True \<rparr>]"

definition routes :: "route_definition list" where
  "routes = account_routes @ profile_routes @ provider_routes @ task_routes @ discovery_routes @
     resume_routes @ application_routes @ device_routes @ fill_session_routes @ workspace_routes"

section \<open>The guard\<close>

definition isStateChanging :: "http_method \<Rightarrow> bool" where
  "isStateChanging m \<longleftrightarrow> m \<noteq> GetM"

text \<open>What a request brings: its headers and its session cookie.\<close>

record request_headers =
  rh_origin :: "string option"
  rh_referer :: "string option"
  rh_device_token :: "string option"
  rh_csrf_token :: "string option"
  rh_session_cookie :: "string option"

datatype request_principal = NoPrincipal | SessionOf session_principal | DeviceOf principal

definition session_of :: "request_principal \<Rightarrow> session_principal option" where
  "session_of p = (case p of SessionOf who \<Rightarrow> Some who | _ \<Rightarrow> None)"

definition buildPreHandler ::
  "env \<Rightarrow> account_library \<Rightarrow> account_config \<Rightarrow> route_definition \<Rightarrow> request_headers \<Rightarrow> (db, request_principal) handler" where
  "buildPreHandler E L cfg r h =
     andThen (if isStateChanging (rd_method r) \<and> \<not> rd_origin_exempt r then verifyOrigin E cfg (rh_origin h) (rh_referer h) else ret ()) (\<lambda>_.
     if rd_auth r = DeviceAuth then
       andThen (authenticateDevice E (rh_device_token h)) (\<lambda>device.
       andThen (require device Unauthenticated) (\<lambda>d.
       ret (DeviceOf d)))
     else
       andThen (resolveSession E (rh_session_cookie h)) (\<lambda>session.
       let p = (case session of None \<Rightarrow> NoPrincipal | Some who \<Rightarrow> SessionOf who) in
       andThen (throw_if (rd_auth r = SessionAuth \<and> p = NoPrincipal) Unauthenticated) (\<lambda>_.
       andThen (if rd_csrf r = Some True then verifyCsrfToken E L cfg (session_of p) (rh_csrf_token h) else ret ()) (\<lambda>_.
       ret p))))"

end
