(* ===== verification/AccountsProperties.thy ===== *)
theory AccountsProperties
  imports Routes
begin

text \<open>
  What the accounts and the guard of the public routes promise, with a concrete installation.
\<close>

section \<open>The manifest\<close>

definition same_origin :: "env \<Rightarrow> account_config \<Rightarrow> request_headers \<Rightarrow> bool" where
  "same_origin E cfg h =
     (case originOf E (rh_origin h) of Some x \<Rightarrow> x = app_origin cfg
      | None \<Rightarrow> originOf E (rh_referer h) = Some (app_origin cfg))"

definition open_commands :: "string list" where
  "open_commands = [''completeSetup'', ''register'', ''login'', ''requestPasswordReset'', ''confirmPasswordReset'']"

definition guarded_route :: "route_definition \<Rightarrow> bool" where
  "guarded_route r \<longleftrightarrow>
     isStateChanging (rd_method r) \<longrightarrow>
       rd_auth r = SessionAuth \<and> rd_csrf r = Some True \<and> \<not> rd_origin_exempt r \<or>
       rd_auth r = DeviceAuth \<or>
       rd_auth r = PublicAuth \<and> rd_csrf r \<noteq> Some True \<and> \<not> rd_origin_exempt r \<and> rd_operation_id r \<in> set open_commands \<or>
       rd_auth r = PublicAuth \<and> rd_operation_id r = ''exchangeDevicePairing''"

lemma manifest_guarded: "list_all guarded_route routes"
  by code_simp

lemma wp_verifyOrigin:
  assumes "same_origin E cfg h \<Longrightarrow> Q () s" and "F Forbidden s"
  shows "wp (verifyOrigin E cfg (rh_origin h) (rh_referer h)) Q F s"
  using assms by (auto simp: verifyOrigin_def same_origin_def split: option.splits)

definition device_proof :: "env \<Rightarrow> request_headers \<Rightarrow> db \<Rightarrow> request_principal \<Rightarrow> bool" where
  "device_proof E h s p \<longleftrightarrow>
     (\<exists>raw d. rh_device_token h = Some raw \<and> d \<in> set (paired_devices s) \<and> d_token_hash d = Some (sha256Hex E (trim raw)) \<and>
        deviceStatus d (now E) = DevicePaired \<and> p = DeviceOf (DevicePrincipal (d_id d) (d_workspace_id d)))"

definition session_proof :: "env \<Rightarrow> request_headers \<Rightarrow> db \<Rightarrow> request_principal \<Rightarrow> bool" where
  "session_proof E h s p \<longleftrightarrow>
     (\<exists>token row user. rh_session_cookie h = Some token \<and> live_session E token s row user \<and> p = SessionOf (principal_of token row))"

definition forgery_proof :: "env \<Rightarrow> account_library \<Rightarrow> account_config \<Rightarrow> request_headers \<Rightarrow> request_principal \<Rightarrow> bool" where
  "forgery_proof E L cfg h p \<longleftrightarrow> (\<exists>who. p = SessionOf who \<and> csrfTokenMatches E L cfg who (rh_csrf_token h))"

lemma wp_authenticateDevice:
  assumes "\<And>d t. device_proof E h s (DeviceOf d) \<Longrightarrow> Q (Some d) t" and "Q None s" and "F Unauthenticated s"
  shows "wp (authenticateDevice E (rh_device_token h)) Q F s"
proof -
  have "device_proof E h s (DeviceOf (DevicePrincipal (d_id d) (d_workspace_id d)))"
    if "rh_device_token h = Some raw" "resolveDeviceToken E (trim raw) s = Some d" for raw d
    using that resolveDeviceToken_Some [OF that(2)] by (auto simp: device_proof_def)
  then show ?thesis using assms by (auto simp: authenticateDevice_def touchDevice_def split: option.splits)
qed

lemma guard_wp:
  "wp (buildPreHandler E L cfg r h) (\<lambda>p s'.
     (isStateChanging (rd_method r) \<and> \<not> rd_origin_exempt r \<longrightarrow> same_origin E cfg h) \<and>
     (rd_auth r = DeviceAuth \<longrightarrow> device_proof E h s p) \<and> (rd_auth r = SessionAuth \<longrightarrow> session_proof E h s p) \<and>
     (rd_auth r \<noteq> DeviceAuth \<and> rd_csrf r = Some True \<longrightarrow> forgery_proof E L cfg h p)) (\<lambda>_ _. True) s"
  (is "wp _ ?Q _ s")
proof -
  let ?after = "if rd_auth r = DeviceAuth then
       andThen (authenticateDevice E (rh_device_token h)) (\<lambda>device.
       andThen (require device Unauthenticated) (\<lambda>d.
       ret (DeviceOf d)))
     else
       andThen (resolveSession E (rh_session_cookie h)) (\<lambda>session.
       let p = (case session of None \<Rightarrow> NoPrincipal | Some who \<Rightarrow> SessionOf who) in
       andThen (throw_if (rd_auth r = SessionAuth \<and> p = NoPrincipal) Unauthenticated) (\<lambda>_.
       andThen (if rd_csrf r = Some True then verifyCsrfToken E L cfg (session_of p) (rh_csrf_token h) else ret ()) (\<lambda>_.
       ret p)))"
  have after: "wp ?after ?Q (\<lambda>_ _. True) s"
    if origin: "isStateChanging (rd_method r) \<and> \<not> rd_origin_exempt r \<longrightarrow> same_origin E cfg h"
  proof (cases "rd_auth r = DeviceAuth")
    case True
    then show ?thesis using origin by (simp, intro wp_authenticateDevice) auto
  next
    case False
    then show ?thesis
      using origin
      by (simp add: Let_def, intro wp_resolveSession)
         (auto simp: verifyCsrfToken_def session_of_def session_proof_def forgery_proof_def)
  qed
  show ?thesis
  proof (cases "isStateChanging (rd_method r) \<and> \<not> rd_origin_exempt r")
    case True
    then show ?thesis
      unfolding buildPreHandler_def wp_andThen using after by (simp only: if_True simp_thms, intro wp_verifyOrigin) simp_all
  next
    case False
    then show ?thesis unfolding buildPreHandler_def wp_andThen using after by (simp only: if_False wp_ret) simp
  qed
qed

text \<open>C14: No request changes anything without the proof its route demands.  Of the routes of the manifest, one
  that changes state and lets a request through to its handler is one of four: a session route, and
  then the request came from the application's own origin, its cookie names a live session of an
  enabled user, whose principal the handler gets, and its anti-forgery header is the token derived
  from that session; a device route, and then its header holds the token of a paired device that is
  neither revoked nor expired; one of the five open commands, setup, sign-in, sign-up and password
  reset, from the application's own origin; or the exchange of a pairing code.\<close>

theorem state_changes_guarded:
  assumes "r \<in> set routes" and "isStateChanging (rd_method r)" and "buildPreHandler E L cfg r h s = (Inr p, s')"
  shows "(rd_auth r = SessionAuth \<and> same_origin E cfg h \<and> session_proof E h s p \<and> forgery_proof E L cfg h p) \<or>
    (rd_auth r = DeviceAuth \<and> device_proof E h s p) \<or>
    (rd_operation_id r \<in> set open_commands \<and> same_origin E cfg h) \<or>
    rd_operation_id r = ''exchangeDevicePairing''"
proof -
  have "guarded_route r" using manifest_guarded assms(1) by (simp add: list_all_iff)
  then show ?thesis
    using assms(2) wp_okD [OF guard_wp assms(3)] unfolding guarded_route_def by auto
qed

section \<open>A concrete installation\<close>

definition account_url :: "string \<Rightarrow> url" where
  "account_url text = \<lparr> url_protocol = ''http:'', url_username = [], url_password = [], url_host = ''localhost'',
     url_hostname = ''localhost'', url_port = [], url_pathname = ''/'', url_params = [], url_origin = text, url_href = text \<rparr>"

definition account_env :: "int \<Rightarrow> env" where
  "account_env t = \<lparr> now = t, sha256Hex = (\<lambda>text. ''h'' @ text), parse_url = (\<lambda>text. Some (account_url text)) \<rparr>"

definition plain_library :: account_library where
  "plain_library = \<lparr> hmacHex = (\<lambda>key text. key @ text), argon2_hash = (\<lambda>text. ''a'' @ text),
     argon2_verify = (\<lambda>stored text. stored = ''a'' @ text) \<rparr>"

definition local_config :: account_config where
  "local_config = \<lparr> app_origin = ''http://localhost'', is_hosted = False, setup_token = Some ''one-time-secret-1'',
     session_secret = ''k'' \<rparr>"

definition owner_ids :: setup_ids where
  "owner_ids = \<lparr> si_user = ''u'', si_workspace = ''ws'', si_profile = ''pr'', si_session = ''s1'', si_token = ''0123456789abcdef'' \<rparr>"

definition owner_request :: setup_request where
  "owner_request = \<lparr> sr_setup_token = ''one-time-secret-1'', sr_email = '' Ann@x.org'', sr_password = ''correct horse'', sr_locale = None \<rparr>"

definition installed :: db where
  "installed = snd (completeSetup (account_env 0) plain_library local_config False owner_ids (Some ''127.0.0.1'') owner_request empty_db)"

section \<open>Setup\<close>

theorem state_changes_guarded_witness:
  "\<exists>p s' r. r \<in> set routes \<and> isStateChanging (rd_method r) \<and>
     buildPreHandler (account_env 5) plain_library local_config r
       \<lparr> rh_origin = Some ''http://localhost'', rh_referer = None, rh_device_token = None,
         rh_csrf_token = Some ''kjg-csrf:0123456789abcdef'', rh_session_cookie = Some ''0123456789abcdef'' \<rparr> installed = (Inr p, s') \<and>
     (\<exists>who. p = SessionOf who \<and> sp_workspace_id who = ''ws'')"
proof -
  let ?h = "\<lparr> rh_origin = Some ''http://localhost'', rh_referer = None, rh_device_token = None,
    rh_csrf_token = Some ''kjg-csrf:0123456789abcdef'', rh_session_cookie = Some ''0123456789abcdef'' \<rparr>"
  let ?r = "hd workspace_routes"
  have r: "?r \<in> set routes" by (simp add: routes_def workspace_routes_def)
  have m: "isStateChanging (rd_method ?r)" "rd_auth ?r = SessionAuth" by code_simp+
  have ok: "case buildPreHandler (account_env 5) plain_library local_config ?r ?h installed of (Inr _, _) \<Rightarrow> True | _ \<Rightarrow> False"
    by code_simp
  then obtain p s' where run: "buildPreHandler (account_env 5) plain_library local_config ?r ?h installed = (Inr p, s')"
    by (auto split: prod.splits sum.splits)
  have ws: "list_all (\<lambda>r. ss_workspace_id r = ''ws'') (sessions installed)" by code_simp
  have "session_proof (account_env 5) ?h installed p"
    using state_changes_guarded [OF r m(1) run] m(2) by (auto simp: workspace_routes_def open_commands_def route_def)
  then have "\<exists>who. p = SessionOf who \<and> sp_workspace_id who = ''ws''"
    using ws by (auto simp: session_proof_def live_session_def principal_of_def list_all_iff dest: find_session_userD)
  then show ?thesis using r m run by blast
qed



section \<open>Sessions\<close>

text \<open>Signing in proves the password and opens a session that signing out ends.  If a login succeeds, the
  password verifies against the stored hash of the user with that normalised address, who is
  not disabled and, on a hosted installation, verified, and who owns a workspace that is not being deleted;
  the new session's token is then honoured, as that user in that workspace, until its time runs out,
  and, once the session has been signed out, never again.\<close>

theorem login_opens_session:
  assumes "login E L cfg worker_online k token b s = (Inr (session, me), s')" and "16 \<le> length token" and "distinct (map us_id (users s))"
  shows "\<exists>u \<in> set (users s). \<exists>w \<in> set (workspaces s).
    us_normalized_email u = normalizeEmail (lr_email b) \<and> argon2_verify L (us_password_hash u) (lr_password b) \<and> us_disabled_at u = None \<and>
    (is_hosted cfg \<longrightarrow> us_verified_at u \<noteq> None) \<and> (\<exists>m \<in> set (memberships s). mb_user_id m = us_id u \<and> mb_workspace_id m = w_id w) \<and>
    w_deletion_state w = ActiveWorkspace \<and> nc_token session = token \<and>
    (\<forall>E'. hashSessionToken E' token = hashSessionToken E token \<longrightarrow> now E' < now E + session_ttl_ms \<longrightarrow>
       fst (resolveSession E' (Some token) s') = Inr (Some
         \<lparr> sp_user_id = us_id u, sp_workspace_id = w_id w, sp_session_id = k, sp_session_token = token \<rparr>)) \<and>
    (\<forall>E' E'' who. hashSessionToken E' token = hashSessionToken E token \<longrightarrow> sp_session_id who = k \<longrightarrow>
       fst (resolveSession E' (Some token) (snd (logout E'' who s'))) = Inr None)"
proof -
  have "wp (login E L cfg worker_online k token b) (\<lambda>(session, me) s'. \<exists>u \<in> set (users s). \<exists>w \<in> set (workspaces s).
      us_normalized_email u = normalizeEmail (lr_email b) \<and> argon2_verify L (us_password_hash u) (lr_password b) \<and> us_disabled_at u = None \<and>
      (is_hosted cfg \<longrightarrow> us_verified_at u \<noteq> None) \<and> (\<exists>m \<in> set (memberships s). mb_user_id m = us_id u \<and> mb_workspace_id m = w_id w) \<and>
      w_deletion_state w = ActiveWorkspace \<and> nc_token session = token \<and> users s' = users s \<and>
      hashSessionToken E token \<notin> ss_token_hash ` set (sessions s) \<and>
      sessions s' = sessions s @ [session_row_for E k token (us_id u) (w_id w)]) (\<lambda>_ _. True) s"
    unfolding login_def owned_workspace_def
    by (auto simp: insert_row_def dest!: find_SomeD split: option.splits intro!: wp_createSession wp_buildMeResponse) metis+
  from wp_okD [OF this assms(1)] obtain u w where u: "u \<in> set (users s)" and w: "w \<in> set (workspaces s)"
    and facts: "us_normalized_email u = normalizeEmail (lr_email b)" "argon2_verify L (us_password_hash u) (lr_password b)"
      "us_disabled_at u = None" "is_hosted cfg \<longrightarrow> us_verified_at u \<noteq> None"
      "\<exists>m \<in> set (memberships s). mb_user_id m = us_id u \<and> mb_workspace_id m = w_id w" "w_deletion_state w = ActiveWorkspace"
      "nc_token session = token" "users s' = users s"
    and fresh: "hashSessionToken E token \<notin> ss_token_hash ` set (sessions s)"
    and row: "sessions s' = sessions s @ [session_row_for E k token (us_id u) (w_id w)]"
    by auto
  have user: "find (\<lambda>x. us_id x = us_id u) (users s) = Some u" using find_unique [OF u assms(3)] .
  have found: "find_session_user E' token s' = Some (session_row_for E k token (us_id u) (w_id w), u)"
    if "hashSessionToken E' token = hashSessionToken E token" for E'
    using new_session_found [OF row fresh that] user facts by simp
  have open_until: "fst (resolveSession E' (Some token) s') = Inr (Some
         \<lparr> sp_user_id = us_id u, sp_workspace_id = w_id w, sp_session_id = k, sp_session_token = token \<rparr>)"
    if "hashSessionToken E' token = hashSessionToken E token" "now E' < now E + session_ttl_ms" for E'
    using live_after_resolve [of E' token s' "session_row_for E k token (us_id u) (w_id w)" u] found [OF that(1)] that(2) assms(2) facts
    by (simp add: live_session_def session_row_for_def principal_of_def)
  have closed: "fst (resolveSession E' (Some token) (snd (logout E'' who s'))) = Inr None"
    if "hashSessionToken E' token = hashSessionToken E token" "sp_session_id who = k" for E' E'' who
  proof -
    let ?s = "snd (logout E'' who s')" and ?r = "session_row_for E k token (us_id u) (w_id w)"
    have "sessions ?s = map (\<lambda>r. if ss_id r = k \<and> ss_revoked_at r = None then revoke_row (now E'') r else r) (sessions s) @ [revoke_row (now E'') ?r]"
      using row that(2) by (simp add: logout_def revokeSession_def modify_def session_row_for_def)
    then have "find (\<lambda>r. ss_token_hash r = hashSessionToken E' token) (sessions ?s) = Some (revoke_row (now E'') ?r)"
      using fresh that(1) by (simp, intro find_last) (auto simp: revoke_row_def session_row_for_def image_iff eq_commute)
    then show ?thesis
      using assms(2) user facts
      by (simp add: resolveSession_def find_session_user_def andThen_def gets_def ret_def revoke_row_def session_row_for_def
          logout_def revokeSession_def modify_def split: option.splits)
  qed
  show ?thesis using u w facts open_until closed by blast
qed

theorem login_opens_session_witness:
  "\<exists>session me s'. login (account_env 7) plain_library local_config False ''s2'' ''fedcba9876543210''
       \<lparr> lr_email = ''ann@X.org '', lr_password = ''correct horse'' \<rparr> installed = (Inr (session, me), s') \<and>
     fst (resolveSession (account_env 8) (Some ''fedcba9876543210'') s') \<noteq> Inr None \<and>
     fst (resolveSession (account_env 8) (Some ''fedcba9876543210'') (snd (logout (account_env 8)
       \<lparr> sp_user_id = ''u'', sp_workspace_id = ''ws'', sp_session_id = ''s2'', sp_session_token = ''fedcba9876543210'' \<rparr> s'))) = Inr None"
proof -
  let ?b = "\<lparr> lr_email = ''ann@X.org '', lr_password = ''correct horse'' \<rparr>"
  have "case login (account_env 7) plain_library local_config False ''s2'' ''fedcba9876543210'' ?b installed of
      (Inr _, _) \<Rightarrow> True | _ \<Rightarrow> False" by code_simp
  then obtain session me s' where
    run: "login (account_env 7) plain_library local_config False ''s2'' ''fedcba9876543210'' ?b installed = (Inr (session, me), s')"
    by (auto split: prod.splits sum.splits)
  have "distinct (map us_id (users installed))" by code_simp
  note facts = login_opens_session [OF run _ this]
  have "hashSessionToken (account_env 8) token = hashSessionToken (account_env 7) token" for token
    by (simp add: hashSessionToken_def account_env_def)
  moreover have "now (account_env 8) < now (account_env 7) + session_ttl_ms" by (simp add: account_env_def session_ttl_ms_def)
  ultimately show ?thesis using facts run by auto
qed

end
