(* ===== verification/Storage.thy ===== *)
theory Storage
  imports Accounts Zip
begin

text \<open>
  \<open>apps/api/src/files/storage.ts\<close> and \<open>files/service.ts\<close> with the routes of \<open>routes/files.ts\<close>: objects under
  keys of the form \<open>workspace/file\<close>, the validation of an upload and the names a download carries.

  The local driver is a map from keys to bytes: a valid key cannot leave the root, so the
  second containment check never fires.  The detection of file types (a third-party package) is a
  parameter; text is in code units below 256.
\<close>

section \<open>Keys\<close>

text \<open>\<open>UUID_PATTERN\<close> of \<open>validation.ts\<close>, in either case.\<close>

definition uuid_hyphens :: "nat set" where
  "uuid_hyphens = {8, 13, 18, 23}"

definition isUuid :: "string \<Rightarrow> bool" where
  "isUuid text \<longleftrightarrow>
     length text = 36 \<and>
     list_all (\<lambda>(i, c). if i \<in> uuid_hyphens then c = CHR ''-'' else is_hex (lower_char c)) (enumerate 0 text)"

definition generateStorageKey :: "uuid \<Rightarrow> uuid \<Rightarrow> string option" where
  "generateStorageKey ws file = (if isUuid ws \<and> isUuid file then Some (ws @ ''/'' @ file) else None)"

definition assertValidKey :: "string \<Rightarrow> (string \<times> string) option" where
  "assertValidKey key =
     (case split_char CHR ''/'' key of
        [ws, file] \<Rightarrow> if isUuid ws \<and> isUuid file then Some (ws, file) else None
      | _ \<Rightarrow> None)"

section \<open>The local driver\<close>

type_synonym objects = "string \<Rightarrow> bytes option"

definition put_object :: "string \<Rightarrow> bytes \<Rightarrow> objects \<Rightarrow> objects option" where
  "put_object key data os = (if assertValidKey key = None then None else Some (os(key \<mapsto> data)))"

definition read_object :: "string \<Rightarrow> objects \<Rightarrow> bytes option" where
  "read_object key os = (if assertValidKey key = None then None else os key)"

definition delete_object :: "string \<Rightarrow> objects \<Rightarrow> objects option" where
  "delete_object key os = (if assertValidKey key = None then None else Some (os(key := None)))"

definition deleteWorkspaceObjects :: "uuid \<Rightarrow> objects \<Rightarrow> objects option" where
  "deleteWorkspaceObjects ws os =
     (if \<not> isUuid ws then None else Some (\<lambda>key. if startsWith key (ws @ ''/'') then None else os key))"

section \<open>Names\<close>

definition is_alphanumeric :: "char \<Rightarrow> bool" where
  "is_alphanumeric c \<longleftrightarrow>
     code_between CHR ''0'' CHR ''9'' c \<or> code_between CHR ''a'' CHR ''z'' c \<or> code_between CHR ''A'' CHR ''Z'' c"

definition extensionOf :: "string \<Rightarrow> string option" where
  "extensionOf filename =
     (let back = takeWhile (\<lambda>c. c \<noteq> CHR ''.'') (rev filename) in
      if length back < length filename \<and> back \<noteq> [] \<and> length back \<le> 10 \<and> list_all is_alphanumeric back
      then Some (toLowerCase (rev back)) else None)"

text \<open>A run of separators becomes one underscore; \<open>squeeze\<close> collapses runs of underscores.\<close>

fun replace_runs :: "(char \<Rightarrow> bool) \<Rightarrow> string \<Rightarrow> string" where
  "replace_runs P [] = []"
| "replace_runs P [c] = (if P c then ''_'' else [c])"
| "replace_runs P (c # d # cs) =
     (if P c then (if P d then replace_runs P (d # cs) else CHR ''_'' # replace_runs P (d # cs)) else c # replace_runs P (d # cs))"

definition stripped_char :: "char \<Rightarrow> bool" where
  "stripped_char c \<longleftrightarrow>
     (of_char c :: nat) < 32 \<or> (of_char c :: nat) = 127 \<or> c = CHR 0x22 \<or> c = CHR 0x27 \<or> c = CHR '';''"

definition safe_char :: "char \<Rightarrow> bool" where
  "safe_char c \<longleftrightarrow> is_alphanumeric c \<or> c \<in> set ''._()-''"

definition sanitizeFilename :: "string \<Rightarrow> string" where
  "sanitizeFilename original =
     (let without_path = replace_runs (\<lambda>c. c = CHR 0x5C \<or> c = CHR ''/'') original;
          kept = filter (\<lambda>c. \<not> stripped_char c) without_path;
          plain = map (\<lambda>c. if safe_char c then c else CHR ''_'') kept;
          cleaned = trim (dropWhile (\<lambda>c. c \<in> set ''._ '') (replace_runs (\<lambda>c. c = CHR ''_'') plain));
          bounded = take 100 cleaned in
      if bounded \<noteq> [] then bounded else ''download'')"

definition upper_hex :: "nat \<Rightarrow> char" where
  "upper_hex d = (if d < 10 then char_of (48 + d) else char_of (55 + d))"

definition percent :: "8 word \<Rightarrow> string" where
  "percent b = [CHR ''%'', upper_hex (nat (uint b) div 16), upper_hex (nat (uint b) mod 16)]"

definition encodeURIComponent :: "string \<Rightarrow> string" where
  "encodeURIComponent text =
     concat (map (\<lambda>c. if is_alphanumeric c \<or> c \<in> set ''-_.!~*()'' \<or> c = CHR 0x27 then [c] else concat (map percent (utf8_char c))) text)"

definition contentDispositionFor :: "string \<Rightarrow> string" where
  "contentDispositionFor original =
     (let encoded = concat (map (\<lambda>c. if c \<in> set ''()*'' \<or> c = CHR 0x27
         then CHR ''%'' # [upper_hex (of_char c div 16), upper_hex (of_char c mod 16)] else [c]) (encodeURIComponent original)) in
      ''attachment; filename='' @ [CHR 0x22] @ sanitizeFilename original @ [CHR 0x22] @ ''; filename*=UTF-8'' @ [CHR 0x27, CHR 0x27] @ encoded)"

definition mime_pdf :: string where
  "mime_pdf = ''application/pdf''"

definition mime_docx :: string where
  "mime_docx = ''application/vnd.openxmlformats-officedocument.wordprocessingml.document''"

definition safe_download_mime :: "string list" where
  "safe_download_mime = [mime_pdf, mime_docx, ''text/plain'', ''application/zip'']"

definition downloadContentType :: "string \<Rightarrow> string" where
  "downloadContentType mime = (if mime \<in> set safe_download_mime then mime else ''application/octet-stream'')"

section \<open>Uploads\<close>

definition extension_by_mime :: "string \<Rightarrow> string list option" where
  "extension_by_mime mime =
     (if mime = mime_pdf then Some [''pdf''] else if mime = mime_docx then Some [''docx'']
      else if mime = ''text/plain'' then Some [''txt'', ''md''] else if mime = ''application/zip'' then Some [''zip'']
      else if mime = ''application/json'' then Some [''json''] else None)"

definition user_uploadable_purposes :: "file_purpose list" where
  "user_uploadable_purposes = [CvOriginal, ProfileText]"

fun accepted_upload_mime_types :: "file_purpose \<Rightarrow> string list option" where
  "accepted_upload_mime_types CvOriginal = Some [mime_pdf, mime_docx]"
| "accepted_upload_mime_types ProfileText = Some [''text/plain'']"
| "accepted_upload_mime_types _ = None"

text \<open>Well-formed UTF-8 that contains neither a zero byte nor the encoding of U+FFFD.\<close>

definition byte_between :: "int \<Rightarrow> int \<Rightarrow> 8 word \<Rightarrow> bool" where
  "byte_between lo hi b \<longleftrightarrow> lo \<le> uint b \<and> uint b \<le> hi"

definition tail_byte :: "8 word \<Rightarrow> bool" where
  "tail_byte b \<longleftrightarrow> byte_between 0x80 0xBF b"

definition second_ok :: "8 word \<Rightarrow> 8 word \<Rightarrow> bool" where
  "second_ok a b \<longleftrightarrow>
     (if uint a = 0xE0 then byte_between 0xA0 0xBF b else if uint a = 0xED then byte_between 0x80 0x9F b
      else if uint a = 0xF0 then byte_between 0x90 0xBF b else if uint a = 0xF4 then byte_between 0x80 0x8F b else tail_byte b)"

fun well_formed_utf8 :: "nat \<Rightarrow> bytes \<Rightarrow> bool" where
  "well_formed_utf8 _ [] = True"
| "well_formed_utf8 0 (_ # _) = False"
| "well_formed_utf8 (Suc n) (a # bs) =
     (if uint a < 0x80 then well_formed_utf8 n bs
      else if byte_between 0xC2 0xDF a then
        (case bs of b # cs \<Rightarrow> tail_byte b \<and> well_formed_utf8 n cs | _ \<Rightarrow> False)
      else if byte_between 0xE0 0xEF a then
        (case bs of b # c # cs \<Rightarrow> second_ok a b \<and> tail_byte c \<and> \<not> (uint a = 0xEF \<and> uint b = 0xBF \<and> uint c = 0xBD) \<and> well_formed_utf8 n cs
         | _ \<Rightarrow> False)
      else if byte_between 0xF0 0xF4 a then
        (case bs of b # c # d # cs \<Rightarrow> second_ok a b \<and> tail_byte c \<and> tail_byte d \<and> well_formed_utf8 n cs | _ \<Rightarrow> False)
      else False)"

definition looksLikeUtf8Text :: "bytes \<Rightarrow> bool" where
  "looksLikeUtf8Text data \<longleftrightarrow> 0 \<notin> set data \<and> well_formed_utf8 (length data) data"

definition word_byte :: "8 word \<Rightarrow> bool" where
  "word_byte b \<longleftrightarrow> byte_between 48 57 b \<or> byte_between 65 90 b \<or> byte_between 97 122 b \<or> uint b = 95"

definition encrypt_mark :: bytes where
  "encrypt_mark = [47, 69, 110, 99, 114, 121, 112, 116]"

fun has_encrypt :: "bytes \<Rightarrow> bool" where
  "has_encrypt [] = False"
| "has_encrypt (b # bs) =
     (take 8 (b # bs) = encrypt_mark \<and> (case drop 8 (b # bs) of [] \<Rightarrow> True | c # _ \<Rightarrow> \<not> word_byte c) \<or> has_encrypt bs)"

definition pdfLooksEncrypted :: "bytes \<Rightarrow> bool" where
  "pdfLooksEncrypted data \<longleftrightarrow> has_encrypt (drop (length data - 4096) data) \<or> has_encrypt (take 4096 data)"

record validated_upload =
  vu_mime :: string
  vu_sha256 :: string
  vu_bytes :: int
  vu_encrypted :: bool
  vu_decoded :: bool

text \<open>\<open>vu_decoded\<close> stands for the warning that a text was validated by decoding it.\<close>

definition upload_kind ::
  "(bytes \<Rightarrow> (string \<times> string) option) \<Rightarrow> bytes \<Rightarrow> string \<Rightarrow> file_purpose \<Rightarrow> api_error + string \<times> bool" where
  "upload_kind detect data name purpose =
     (let extension = extensionOf name in
      case detect data of
        Some (mime, ext) \<Rightarrow>
          Inr (mime, case extension of None \<Rightarrow> False
            | Some x \<Rightarrow> x \<in> set (case extension_by_mime mime of Some xs \<Rightarrow> xs | None \<Rightarrow> [ext]))
      | None \<Rightarrow>
          if purpose = ProfileText then
            (if \<not> looksLikeUtf8Text data then Inl Unprocessable
             else Inr (''text/plain'', case extension of None \<Rightarrow> True | Some x \<Rightarrow> x \<in> {''txt'', ''md''}))
          else Inl Unprocessable)"

definition validateUpload ::
  "(bytes \<Rightarrow> string) \<Rightarrow> (bytes \<Rightarrow> (string \<times> string) option) \<Rightarrow> int \<Rightarrow> bytes \<Rightarrow> string \<Rightarrow> file_purpose \<Rightarrow> bool \<Rightarrow>
     api_error + validated_upload" where
  "validateUpload digest detect limit data name purpose truncated =
     (if truncated \<or> int (length data) > limit then Inl PayloadTooLarge
      else if data = [] then Inl Unprocessable
      else case upload_kind detect data name purpose of
        Inl e \<Rightarrow> Inl e
      | Inr (mime, agreeing) \<Rightarrow>
          if \<not> agreeing then Inl Unprocessable
          else if (case accepted_upload_mime_types purpose of None \<Rightarrow> False | Some xs \<Rightarrow> mime \<notin> set xs) then Inl Unprocessable
          else Inr \<lparr> vu_mime = mime, vu_sha256 = digest data, vu_bytes = int (length data),
                     vu_encrypted = (mime = mime_pdf \<and> pdfLooksEncrypted data), vu_decoded = (detect data = None) \<rparr>)"

section \<open>The server\<close>

text \<open>The database and the object store.  A handler of the database runs on the first component.\<close>

record server =
  sv_db :: db
  sv_objects :: objects

definition in_db :: "(db, 'a) handler \<Rightarrow> (server, 'a) handler" where
  "in_db m w = (case m (sv_db w) of (r, s) \<Rightarrow> (r, w \<lparr> sv_db := s \<rparr>))"

definition try_catch :: "('s, 'a) handler \<Rightarrow> (api_error \<Rightarrow> ('s, 'a) handler) \<Rightarrow> ('s, 'a) handler" where
  "try_catch m h s = (case m s of (Inl e, s') \<Rightarrow> h e s' | (Inr a, s') \<Rightarrow> (Inr a, s'))"

text \<open>One operation of the driver: \<open>broken\<close> says whether the operating system fails it, and an
  invalid key is refused.  Either way the caller sees an exception that no handler maps.\<close>

definition on_objects :: "bool \<Rightarrow> (objects \<Rightarrow> objects option) \<Rightarrow> (server, unit) handler" where
  "on_objects broken f w =
     (if broken then (Inl InternalError, w)
      else case f (sv_objects w) of None \<Rightarrow> (Inl InternalError, w) | Some os \<Rightarrow> (Inr (), w \<lparr> sv_objects := os \<rparr>))"

definition stored_file_row ::
  "uuid \<Rightarrow> uuid \<Rightarrow> string \<Rightarrow> validated_upload \<Rightarrow> string \<Rightarrow> file_purpose \<Rightarrow> file_state \<Rightarrow> timestamp option \<Rightarrow> file_row" where
  "stored_file_row ws i key v name purpose state expires =
     \<lparr> f_id = i, f_workspace_id = ws, f_storage_key = key, f_original_name = take 255 name, f_mime = vu_mime v,
       f_bytes = vu_bytes v, f_sha256 = vu_sha256 v, f_state = state, f_purpose = purpose, f_expires_at = expires \<rparr>"

definition storeFile ::
  "bool \<Rightarrow> bool \<Rightarrow> uuid \<Rightarrow> uuid \<Rightarrow> bytes \<Rightarrow> validated_upload \<Rightarrow> string \<Rightarrow> file_purpose \<Rightarrow> file_state \<Rightarrow> timestamp option \<Rightarrow>
     (server, file_row) handler" where
  "storeFile put_broken delete_broken new_id ws data v name purpose state expires =
     andThen (require (generateStorageKey ws new_id) InternalError) (\<lambda>key.
     andThen (on_objects put_broken (put_object key data)) (\<lambda>_.
     let row = stored_file_row ws new_id key v name purpose state expires in
     try_catch
       (in_db (andThen (reads (\<lambda>s. if new_id \<in> f_id ` set (files s) \<or> key \<in> f_storage_key ` set (files s) then Inl Conflict else Inr ())) (\<lambda>_.
          andThen (modify (files_update (insert_row row))) (\<lambda>_. ret row))))
       (\<lambda>e. andThen (try_catch (on_objects delete_broken (delete_object key)) (\<lambda>_. ret ())) (\<lambda>_. fail e))))"

section \<open>Routes\<close>

text \<open>A multipart body: the file parts in order, whether the last one was cut off, and the purpose
  field.\<close>

record upload_request =
  up_parts :: "(string \<times> bytes \<times> bool) list"
  up_purpose :: "file_purpose option"

definition file_purpose_text :: "file_purpose \<Rightarrow> string" where
  "file_purpose_text p =
     (case p of CvOriginal \<Rightarrow> ''cv_original'' | ProfileText \<Rightarrow> ''profile_text'' | GeneratedCv \<Rightarrow> ''generated_cv''
      | ExportFile \<Rightarrow> ''export'' | EvidenceFile \<Rightarrow> ''evidence'')"

definition single_part :: "(string \<times> bytes \<times> bool) list \<Rightarrow> api_error + string \<times> bytes" where
  "single_part parts =
     (case parts of [] \<Rightarrow> Inl Unprocessable
      | (name, data, truncated) # others \<Rightarrow>
          if truncated then Inl PayloadTooLarge else if others \<noteq> [] then Inl Unprocessable else Inr (name, data))"

definition uploadFile ::
  "(bytes \<Rightarrow> string) \<Rightarrow> (bytes \<Rightarrow> (string \<times> string) option) \<Rightarrow> int \<Rightarrow> bool \<Rightarrow> bool \<Rightarrow> uuid \<Rightarrow> uuid \<Rightarrow> uuid \<Rightarrow> upload_request \<Rightarrow>
     (server, file_row \<times> validated_upload) handler" where
  "uploadFile digest detect limit put_broken delete_broken new_id ws user b =
     andThen (reads (\<lambda>_. single_part (up_parts b))) (\<lambda>(name, data).
     andThen (require (up_purpose b) Unprocessable) (\<lambda>purpose.
     andThen (throw_if (purpose \<notin> set user_uploadable_purposes) Unprocessable) (\<lambda>_.
     andThen (reads (\<lambda>_. validateUpload digest detect limit data name purpose False)) (\<lambda>v.
     andThen (storeFile put_broken delete_broken new_id ws data v name purpose Ready None) (\<lambda>row.
     andThen (in_db (recordAuditEvent ws ''file.uploaded'' (Some user) (Some (f_id row)) (Some ''file'')
       (JObj [(''purpose'', JStr (file_purpose_text purpose)), (''mime'', JStr (vu_mime v)), (''bytes'', JNum (vu_bytes v))]))) (\<lambda>_.
     ret (row, v)))))))"

record download_view =
  dv_content_type :: string
  dv_content_disposition :: string
  dv_content_length :: int
  dv_data :: bytes

definition downloadFile :: "bool \<Rightarrow> uuid \<Rightarrow> uuid \<Rightarrow> (server, download_view) handler" where
  "downloadFile broken ws i =
     andThen (gets (\<lambda>w. scoped_find f_workspace_id ws (\<lambda>f. f_id f = i \<and> f_state f \<noteq> Deleting) (files (sv_db w)))) (\<lambda>found.
     andThen (require found NotFound) (\<lambda>f.
     andThen (gets (\<lambda>w. if broken then None else read_object (f_storage_key f) (sv_objects w))) (\<lambda>stored.
     andThen (require stored NotFound) (\<lambda>data.
     ret \<lparr> dv_content_type = downloadContentType (f_mime f), dv_content_disposition = contentDispositionFor (f_original_name f),
           dv_content_length = f_bytes f, dv_data = data \<rparr>))))"

section \<open>Facts\<close>

lemma wp_in_db [simp]: "wp (in_db m) Q F w \<longleftrightarrow> wp m (\<lambda>a s. Q a (w \<lparr> sv_db := s \<rparr>)) (\<lambda>e s. F e (w \<lparr> sv_db := s \<rparr>)) (sv_db w)"
  by (auto simp: wp_def in_db_def split: prod.splits sum.splits)

lemma wp_try_catch [simp]: "wp (try_catch m h) Q F s \<longleftrightarrow> wp m Q (\<lambda>e. wp (h e) Q F) s"
  by (auto simp: wp_def try_catch_def split: prod.splits sum.splits)

lemma wp_on_objects [simp]:
  "wp (on_objects broken f) Q F w \<longleftrightarrow>
     (if broken then F InternalError w
      else case f (sv_objects w) of None \<Rightarrow> F InternalError w | Some os \<Rightarrow> Q () (w \<lparr> sv_objects := os \<rparr>))"
  by (auto simp: wp_def on_objects_def split: option.splits)

lemma split_uuid:
  assumes "isUuid ws"
  shows "CHR ''/'' \<notin> set ws"
proof
  assume "CHR ''/'' \<in> set ws"
  then obtain i where i: "i < length ws" "ws ! i = CHR ''/''" by (auto simp: in_set_conv_nth)
  then have "(i, CHR ''/'') \<in> set (enumerate 0 ws)" by (simp add: in_set_enumerate_eq)
  then show False
    using assms by (fastforce simp: isUuid_def list_all_iff is_hex_def code_between_def lower_char_def is_upper_def split: if_splits)
qed

lemma split_char_append: "sep \<notin> set a \<Longrightarrow> split_char sep (a @ sep # b) = a # split_char sep b"
  by (induction a) auto

lemma split_char_none: "sep \<notin> set a \<Longrightarrow> split_char sep a = [a]"
  by (induction a) auto

lemma generated_key_valid: "generateStorageKey ws i = Some key \<Longrightarrow> key = ws @ ''/'' @ i \<and> assertValidKey key = Some (ws, i)"
  using split_uuid by (auto simp: generateStorageKey_def assertValidKey_def split_char_append split_char_none split: if_splits)

end
