(* ===== verification/Erasure.thy ===== *)
theory Erasure
  imports Storage
begin

text \<open>
  \<open>apps/api/src/privacy/workspace-deletion.ts\<close>, the deletion routes of \<open>routes/workspace.ts\<close> and the sweeps of
  \<open>tasks/scheduler.ts\<close>: a deletion revokes access in one transaction and then erases in passes
  that may fail and are repeated.

  What can fail in a pass is the argument \<open>fails\<close>: a call of the object store or the transaction that
  removes the rows.  \<open>DELETE FROM workspaces\<close> cascades to every private table, so what is left is
  \<open>outside\<close> of theory \<open>Database\<close> with the two tables that outlive a workspace.
\<close>

section \<open>Requesting a deletion\<close>

definition max_erase_attempts :: int where
  "max_erase_attempts = 5"

definition erase_resume_after_ms :: int where
  "erase_resume_after_ms = 30000"

definition findDeletionReceipt :: "uuid \<Rightarrow> db \<Rightarrow> workspace_deletion_row option" where
  "findDeletionReceipt i s = find (\<lambda>r. wd_id r = i) (workspace_deletions s)"

definition close_device :: "env \<Rightarrow> paired_device_row \<Rightarrow> paired_device_row" where
  "close_device E d =
     d \<lparr> d_revoked_at := Some (now E), d_token_hash := None, d_expires_at := None, d_pairing_code_hash := None,
         d_pairing_expires_at := None, d_updated_at := now E \<rparr>"

definition abandon_task :: "env \<Rightarrow> task_row \<Rightarrow> task_row" where
  "abandon_task E t =
     t \<lparr> t_state := TaskCancelled, t_cancel_requested := True, t_lease_token_hash := None, t_lease_expires_at := None,
         t_leased_by := None, t_updated_at := now E \<rparr>"

definition new_receipt :: "env \<Rightarrow> uuid \<Rightarrow> uuid \<Rightarrow> workspace_deletion_row" where
  "new_receipt E i ws =
     \<lparr> wd_id = i, wd_workspace_id = ws, wd_state = DeletionErasing, wd_requested_at = now E, wd_completed_at = None,
       wd_attempts = 0, wd_files_erased = 0, wd_failure_code = None, wd_setup_reopened = False, wd_updated_at = now E \<rparr>"

definition latest_receipt :: "uuid \<Rightarrow> db \<Rightarrow> workspace_deletion_row option" where
  "latest_receipt ws s =
     (case rev (sort_key wd_requested_at (filter (\<lambda>r. wd_workspace_id r = ws) (workspace_deletions s))) of
        [] \<Rightarrow> None | r # _ \<Rightarrow> Some r)"

definition revoke_access :: "env \<Rightarrow> uuid \<Rightarrow> db \<Rightarrow> db" where
  "revoke_access E ws s =
     s \<lparr> workspaces := map (\<lambda>w. if w_id w = ws then w \<lparr> w_deletion_state := DeletingWorkspace \<rparr> else w) (workspaces s),
         sessions := scoped_update ss_workspace_id ws (\<lambda>r. ss_revoked_at r = None) (revoke_row (now E)) (sessions s),
         paired_devices := scoped_update d_workspace_id ws (\<lambda>d. d_revoked_at d = None) (close_device E) (paired_devices s),
         tasks := scoped_update t_workspace_id ws (\<lambda>t. t_state t \<in> {Queued, Leased}) (abandon_task E) (tasks s) \<rparr>"

definition requestWorkspaceDeletion :: "env \<Rightarrow> uuid \<Rightarrow> uuid \<Rightarrow> (db, workspace_deletion_row) handler" where
  "requestWorkspaceDeletion E new_id ws =
     transaction (
       andThen (gets (\<lambda>s. find (\<lambda>w. w_id w = ws) (workspaces s))) (\<lambda>found.
       andThen (require found InternalError) (\<lambda>w.
       if w_deletion_state w \<noteq> ActiveWorkspace then
         andThen (gets (latest_receipt ws)) (\<lambda>existing. require existing InternalError)
       else
         andThen (modify (revoke_access E ws)) (\<lambda>_.
         andThen (recordDeletion ws DelWorkspace None UserRequest) (\<lambda>_.
         let receipt = new_receipt E new_id ws in
         andThen (insert_unless (\<lambda>s. new_id \<in> wd_id ` set (workspace_deletions s) \<or>
             (\<exists>r \<in> set (workspace_deletions s). wd_workspace_id r = ws \<and> wd_state r = DeletionErasing))
           (workspace_deletions_update (insert_row receipt))) (\<lambda>_.
         ret receipt))))))"

section \<open>Erasing\<close>

datatype erase_step = DeleteFile string | SweepBefore | EraseRows | SweepAfter

definition update_receipt ::
  "uuid \<Rightarrow> (workspace_deletion_row \<Rightarrow> workspace_deletion_row) \<Rightarrow> db \<Rightarrow> db" where
  "update_receipt i f = workspace_deletions_update (map (\<lambda>r. if wd_id r = i then f r else r))"

definition cascade_workspace :: "uuid \<Rightarrow> db \<Rightarrow> db" where
  "cascade_workspace ws s =
     (outside ws s) \<lparr> deletion_ledger := deletion_ledger s, workspace_deletions := workspace_deletions s \<rparr>"

text \<open>Deleting a user takes their sessions and memberships along and leaves the audit trail without an
  actor.\<close>

definition delete_user :: "uuid \<Rightarrow> db \<Rightarrow> db" where
  "delete_user u s =
     s \<lparr> users := filter (\<lambda>r. us_id r \<noteq> u) (users s),
         memberships := filter (\<lambda>m. mb_user_id m \<noteq> u) (memberships s),
         sessions := filter (\<lambda>r. ss_user_id r \<noteq> u) (sessions s),
         audit_events := map (\<lambda>a. if au_actor_id a = Some u then a \<lparr> au_actor_id := None \<rparr> else a) (audit_events s) \<rparr>"

definition is_member :: "uuid \<Rightarrow> db \<Rightarrow> bool" where
  "is_member u s \<longleftrightarrow> u \<in> mb_user_id ` set (memberships s)"

definition erase_owner :: "uuid \<Rightarrow> (db, unit) handler" where
  "erase_owner u =
     andThen (gets (is_member u)) (\<lambda>member.
     if member then ret ()
     else andThen (reads (\<lambda>s. if u \<in> w_owner_user_id ` set (workspaces s) then Inl NotFound else Inr ())) (\<lambda>_.
       modify (delete_user u)))"

definition reopenSetupIfEmpty :: "account_config \<Rightarrow> (db, bool) handler" where
  "reopenSetupIfEmpty cfg =
     (if is_hosted cfg then ret False
      else andThen (gets (\<lambda>s. users s \<noteq> [])) (\<lambda>any.
        if any then ret False
        else andThen (gets isSetupClosed) (\<lambda>closed.
          andThen (modify (system_flags_update (filter (\<lambda>f. sf_key f \<noteq> setup_completed_flag)))) (\<lambda>_.
          ret closed))))"

definition completed_receipt :: "env \<Rightarrow> int \<Rightarrow> bool \<Rightarrow> workspace_deletion_row \<Rightarrow> workspace_deletion_row" where
  "completed_receipt E erased reopened r =
     r \<lparr> wd_state := DeletionCompleted, wd_completed_at := Some (now E), wd_files_erased := erased,
         wd_setup_reopened := reopened, wd_updated_at := now E \<rparr>"

definition erase_rows :: "env \<Rightarrow> account_config \<Rightarrow> uuid \<Rightarrow> uuid \<Rightarrow> int \<Rightarrow> (db, workspace_deletion_row) handler" where
  "erase_rows E cfg i ws erased =
     transaction (
       andThen (gets (findDeletionReceipt i)) (\<lambda>found.
       andThen (require found InternalError) (\<lambda>locked.
       if wd_state locked \<noteq> DeletionErasing then ret locked
       else
         andThen (gets (\<lambda>s. find (\<lambda>w. w_id w = ws) (workspaces s))) (\<lambda>workspace.
         andThen (modify (cascade_workspace ws)) (\<lambda>_.
         andThen (case workspace of None \<Rightarrow> ret () | Some w \<Rightarrow> erase_owner (w_owner_user_id w)) (\<lambda>_.
         andThen (reopenSetupIfEmpty cfg) (\<lambda>reopened.
         andThen (modify (update_receipt i (completed_receipt E erased reopened))) (\<lambda>_.
         ret (completed_receipt E erased reopened locked)))))))))"

definition storage_keys :: "uuid \<Rightarrow> db \<Rightarrow> string list" where
  "storage_keys ws s = map f_storage_key (filter (\<lambda>f. f_workspace_id f = ws) (files s))"

definition erase_pass ::
  "env \<Rightarrow> account_config \<Rightarrow> (erase_step \<Rightarrow> bool) \<Rightarrow> uuid \<Rightarrow> uuid \<Rightarrow> (server, workspace_deletion_row) handler" where
  "erase_pass E cfg fails i ws =
     andThen (gets (\<lambda>w. storage_keys ws (sv_db w))) (\<lambda>keys.
     andThen (for_each (\<lambda>key. on_objects (fails (DeleteFile key)) (delete_object key)) keys) (\<lambda>_.
     andThen (on_objects (fails SweepBefore) (deleteWorkspaceObjects ws)) (\<lambda>_.
     andThen (in_db (if fails EraseRows then fail InternalError else erase_rows E cfg i ws (int (length keys)))) (\<lambda>finished.
     andThen (on_objects (fails SweepAfter) (deleteWorkspaceObjects ws)) (\<lambda>_.
     ret finished)))))"

definition start_attempt :: "env \<Rightarrow> workspace_deletion_row \<Rightarrow> workspace_deletion_row" where
  "start_attempt E r = r \<lparr> wd_attempts := wd_attempts r + 1, wd_updated_at := now E \<rparr>"

definition failed_receipt :: "env \<Rightarrow> workspace_deletion_row \<Rightarrow> workspace_deletion_row" where
  "failed_receipt E r =
     r \<lparr> wd_state := DeletionFailed, wd_failure_code := Some ''erasure_failed'', wd_updated_at := now E \<rparr>"

definition record_failure :: "env \<Rightarrow> uuid \<Rightarrow> workspace_deletion_row \<Rightarrow> (db, workspace_deletion_row) handler" where
  "record_failure E i receipt =
     (if wd_attempts receipt < max_erase_attempts then ret receipt
      else andThen (gets (findDeletionReceipt i)) (\<lambda>found.
        case found of None \<Rightarrow> ret receipt
        | Some r \<Rightarrow>
            if wd_state r \<noteq> DeletionErasing then ret receipt
            else andThen (modify (update_receipt i (failed_receipt E))) (\<lambda>_. ret (failed_receipt E r))))"

definition eraseWorkspace ::
  "env \<Rightarrow> account_config \<Rightarrow> (erase_step \<Rightarrow> bool) \<Rightarrow> uuid \<Rightarrow> (server, workspace_deletion_row) handler" where
  "eraseWorkspace E cfg fails i =
     andThen (gets (\<lambda>w. findDeletionReceipt i (sv_db w))) (\<lambda>found.
     case found of None \<Rightarrow> fail InternalError
     | Some r \<Rightarrow>
         if wd_state r \<noteq> DeletionErasing then ret r
         else
           let receipt = start_attempt E r in
           andThen (in_db (modify (update_receipt i (start_attempt E)))) (\<lambda>_.
           try_catch (erase_pass E cfg fails i (wd_workspace_id r)) (\<lambda>_. in_db (record_failure E i receipt))))"

definition pending_erasures :: "env \<Rightarrow> db \<Rightarrow> uuid list" where
  "pending_erasures E s =
     map wd_id (take 20 (sort_key wd_requested_at (filter (\<lambda>r. wd_state r = DeletionErasing \<and>
       wd_updated_at r \<le> now E - erase_resume_after_ms) (workspace_deletions s))))"

definition resumePendingErasures ::
  "env \<Rightarrow> account_config \<Rightarrow> (uuid \<Rightarrow> erase_step \<Rightarrow> bool) \<Rightarrow> (server, nat) handler" where
  "resumePendingErasures E cfg fails =
     andThen (gets (\<lambda>w. pending_erasures E (sv_db w))) (\<lambda>pending.
     andThen (for_each (\<lambda>i. andThen (eraseWorkspace E cfg (fails i) i) (\<lambda>_. ret ())) pending) (\<lambda>_.
     ret (length pending)))"

section \<open>Routes\<close>

definition deleteWorkspace ::
  "env \<Rightarrow> account_library \<Rightarrow> account_config \<Rightarrow> (erase_step \<Rightarrow> bool) \<Rightarrow> uuid \<Rightarrow> session_principal \<Rightarrow> string \<Rightarrow>
     (server, workspace_deletion_row) handler" where
  "deleteWorkspace E L cfg fails new_id who password =
     andThen (gets (\<lambda>w. find (\<lambda>u. us_id u = sp_user_id who) (users (sv_db w)))) (\<lambda>found.
     andThen (require found InternalError) (\<lambda>user.
     andThen (throw_if (\<not> argon2_verify L (us_password_hash user) password) Forbidden) (\<lambda>_.
     andThen (in_db (requestWorkspaceDeletion E new_id (sp_workspace_id who))) (\<lambda>requested.
     eraseWorkspace E cfg fails (wd_id requested)))))"

definition getWorkspaceDeletion :: "uuid \<Rightarrow> (db, workspace_deletion_row) handler" where
  "getWorkspaceDeletion i = andThen (gets (findDeletionReceipt i)) (\<lambda>found. require found NotFound)"

section \<open>Sweeps\<close>

definition is_committed :: "file_row \<Rightarrow> db \<Rightarrow> bool" where
  "is_committed f s \<longleftrightarrow> (\<exists>a \<in> set (task_artifacts s). ta_file_id a = f_id f \<and> ta_committed a)"

definition stale_artifact :: "env \<Rightarrow> db \<Rightarrow> file_row \<Rightarrow> bool" where
  "stale_artifact E s f \<longleftrightarrow>
     f_state f = Staging \<and> (case f_expires_at f of None \<Rightarrow> False | Some t \<Rightarrow> t \<le> now E) \<and> \<not> is_committed f s"

definition drop_file :: "uuid \<Rightarrow> db \<Rightarrow> db" where
  "drop_file i s =
     s \<lparr> task_artifacts := filter (\<lambda>a. ta_file_id a \<noteq> i) (task_artifacts s), files := filter (\<lambda>f. f_id f \<noteq> i) (files s) \<rparr>"

definition sweep_file :: "(string \<Rightarrow> bool) \<Rightarrow> file_row \<Rightarrow> (server, unit) handler" where
  "sweep_file broken f =
     andThen (try_catch (on_objects (broken (f_storage_key f)) (delete_object (f_storage_key f))) (\<lambda>_. ret ())) (\<lambda>_.
     in_db (modify (drop_file (f_id f))))"

definition sweepStaleArtifacts :: "env \<Rightarrow> (string \<Rightarrow> bool) \<Rightarrow> (server, nat) handler" where
  "sweepStaleArtifacts E broken =
     andThen (gets (\<lambda>w. take 500 (filter (stale_artifact E (sv_db w)) (files (sv_db w))))) (\<lambda>stale.
     andThen (for_each (sweep_file broken) stale) (\<lambda>_.
     ret (length stale)))"

definition week_ms :: int where
  "week_ms = 7 * 24 * 60 * 60 * 1000"

definition prunable :: "env \<Rightarrow> session_row \<Rightarrow> bool" where
  "prunable E r \<longleftrightarrow>
     ss_expires_at r \<le> now E - week_ms \<or> (case ss_revoked_at r of None \<Rightarrow> False | Some t \<Rightarrow> t \<le> now E - week_ms)"

definition pruneSessions :: "env \<Rightarrow> (db, nat) handler" where
  "pruneSessions E =
     andThen (gets (\<lambda>s. length (filter (prunable E) (sessions s)))) (\<lambda>n.
     andThen (modify (sessions_update (filter (\<lambda>r. \<not> prunable E r)))) (\<lambda>_.
     ret n))"

section \<open>Facts\<close>

lemma receipt_update [simp]:
  assumes "\<And>r. wd_id (f r) = wd_id r"
  shows "findDeletionReceipt i (update_receipt i f s) = map_option f (findDeletionReceipt i s)"
proof -
  have "find (\<lambda>r. wd_id r = i) (map (\<lambda>r. if wd_id r = i then f r else r) rows) = map_option f (find (\<lambda>r. wd_id r = i) rows)" for rows
    using assms by (induction rows) auto
  then show ?thesis by (simp add: findDeletionReceipt_def update_receipt_def)
qed

lemma wd_id_updates [simp]:
  "wd_id (start_attempt E r) = wd_id r" "wd_id (failed_receipt E r) = wd_id r" "wd_id (completed_receipt E n b r) = wd_id r"
  by (simp_all add: start_attempt_def failed_receipt_def completed_receipt_def)

lemma receipt_kept [simp]:
  "findDeletionReceipt i (cascade_workspace ws s) = findDeletionReceipt i s"
  "findDeletionReceipt i (delete_user u s) = findDeletionReceipt i s"
  "findDeletionReceipt i (system_flags_update f s) = findDeletionReceipt i s"
  by (simp_all add: findDeletionReceipt_def cascade_workspace_def outside_def delete_user_def)

text \<open>The stored objects a pass removes by name.\<close>

lemma wp_delete_files:
  "wp (for_each (\<lambda>key. on_objects (fails (DeleteFile key)) (delete_object key)) keys)
     (\<lambda>_ w'. sv_db w' = sv_db w \<and> (\<forall>key. sv_objects w' key = (if key \<in> set keys then None else sv_objects w key)))
     (\<lambda>_ w'. sv_db w' = sv_db w) w"
proof (induction keys arbitrary: w)
  case (Cons key keys)
  have "wp (for_each (\<lambda>key. on_objects (fails (DeleteFile key)) (delete_object key)) keys)
      (\<lambda>_ w'. sv_db w' = sv_db w \<and> (\<forall>k. sv_objects w' k = (if k \<in> set (key # keys) then None else sv_objects w k)))
      (\<lambda>_ w'. sv_db w' = sv_db w) (w \<lparr> sv_objects := (sv_objects w)(key := None) \<rparr>)"
    by (rule wp_mono [OF Cons.IH]) auto
  moreover have "os = (sv_objects w)(key := None)" if "delete_object key (sv_objects w) = Some os" for os
    using that by (simp add: delete_object_def split: if_splits)
  ultimately show ?case
    by (cases "fails (DeleteFile key)"; cases "delete_object key (sv_objects w)") (simp_all split del: if_split)
qed simp

text \<open>What removing the rows comes to.\<close>

definition rows_erased :: "account_config \<Rightarrow> uuid \<Rightarrow> db \<Rightarrow> db \<Rightarrow> bool" where
  "rows_erased cfg ws s s' \<longleftrightarrow>
     (\<exists>mid. (mid = cascade_workspace ws s \<or> (\<exists>u. mid = delete_user u (cascade_workspace ws s))) \<and>
        (\<forall>w. find (\<lambda>w. w_id w = ws) (workspaces s) = Some w \<longrightarrow>
           is_member (w_owner_user_id w) mid \<or> mid = delete_user (w_owner_user_id w) (cascade_workspace ws s)) \<and>
        (s' = mid \<or> \<not> is_hosted cfg \<and> users mid = [] \<and> s' = system_flags_update (filter (\<lambda>f. sf_key f \<noteq> setup_completed_flag)) mid))"

lemma system_flags_id [simp]: "system_flags_update (\<lambda>x. x) s = s"
  by (cases s) simp

lemma wp_reopenSetup:
  assumes "\<And>b. Q b s" and "\<And>b. \<not> is_hosted cfg \<Longrightarrow> users s = [] \<Longrightarrow>
      Q b (system_flags_update (filter (\<lambda>f. sf_key f \<noteq> setup_completed_flag)) s)"
  shows "wp (reopenSetupIfEmpty cfg) Q F s"
  using assms by (simp add: reopenSetupIfEmpty_def)

lemma wp_erase_rows:
  assumes found: "findDeletionReceipt i s = Some r" and erasing: "wd_state r = DeletionErasing"
    and Q: "\<And>reopened t. rows_erased cfg ws s t \<Longrightarrow>
      Q (completed_receipt E n reopened r) (update_receipt i (completed_receipt E n reopened) t)"
    and F: "\<And>e. F e s"
  shows "wp (erase_rows E cfg i ws n) Q F s"
proof -
  let ?s = "cascade_workspace ws s"
  have finish: "wp (andThen (reopenSetupIfEmpty cfg) (\<lambda>reopened.
      andThen (modify (update_receipt i (completed_receipt E n reopened))) (\<lambda>_. ret (completed_receipt E n reopened r)))) Q (\<lambda>e _. F e s) mid"
    if mid: "mid = ?s \<or> (\<exists>u. mid = delete_user u ?s)" and owner: "\<And>w. find (\<lambda>w. w_id w = ws) (workspaces s) = Some w \<Longrightarrow>
        is_member (w_owner_user_id w) mid \<or> mid = delete_user (w_owner_user_id w) ?s" for mid
  proof -
    have "rows_erased cfg ws s mid" using mid owner unfolding rows_erased_def by blast
    moreover have "rows_erased cfg ws s (system_flags_update (filter (\<lambda>f. sf_key f \<noteq> setup_completed_flag)) mid)"
      if "\<not> is_hosted cfg" "users mid = []"
      using mid owner that unfolding rows_erased_def by blast
    ultimately show ?thesis by (simp, intro wp_reopenSetup) (simp_all add: Q)
  qed
  show ?thesis
  proof (cases "find (\<lambda>w. w_id w = ws) (workspaces s)")
    case None
    then show ?thesis using finish [of ?s] erasing by (simp add: erase_rows_def found)
  next
    case (Some w)
    show ?thesis
    proof (cases "is_member (w_owner_user_id w) ?s")
      case True
      then show ?thesis using finish [of ?s] erasing Some by (simp add: erase_rows_def found erase_owner_def)
    next
      case False
      then show ?thesis
        using finish [of "delete_user (w_owner_user_id w) ?s"] erasing F Some
        by (auto simp add: erase_rows_def found erase_owner_def)
    qed
  qed
qed

text \<open>One pass over a receipt that is still erasing: it either removes everything, or fails with the rows
  untouched or, when only the last sweep failed, already gone.\<close>

definition objects_erased :: "uuid \<Rightarrow> server \<Rightarrow> server \<Rightarrow> bool" where
  "objects_erased ws w w' \<longleftrightarrow>
     (\<forall>key. sv_objects w' key = (if startsWith key (ws @ ''/'') \<or> key \<in> set (storage_keys ws (sv_db w)) then None else sv_objects w key))"

lemma wp_sweep:
  assumes "\<And>w'. sv_db w' = sv_db w \<Longrightarrow> (\<forall>key. sv_objects w' key = (if startsWith key (ws @ ''/'') then None else sv_objects w key)) \<Longrightarrow> Q () w'"
    and "F InternalError w"
  shows "wp (on_objects broken (deleteWorkspaceObjects ws)) Q F w"
  using assms by (simp add: deleteWorkspaceObjects_def)

lemma wp_erase_pass:
  assumes found: "findDeletionReceipt i (sv_db w) = Some r" and erasing: "wd_state r = DeletionErasing"
  shows "wp (erase_pass E cfg fails i ws)
    (\<lambda>r' w'. wd_state r' = DeletionCompleted \<and> objects_erased ws w w' \<and> wd_id r' = wd_id r \<and>
       (\<exists>reopened t. rows_erased cfg ws (sv_db w) t \<and> sv_db w' = update_receipt i (completed_receipt E (int (length (storage_keys ws (sv_db w)))) reopened) t))
    (\<lambda>_ w'. sv_db w' = sv_db w \<or> (\<exists>n reopened t. rows_erased cfg ws (sv_db w) t \<and> sv_db w' = update_receipt i (completed_receipt E n reopened) t)) w"
proof -
  let ?keys = "storage_keys ws (sv_db w)"
  let ?F = "\<lambda>e :: api_error. \<lambda>w'. sv_db w' = sv_db w \<or>
    (\<exists>n reopened t. rows_erased cfg ws (sv_db w) t \<and> sv_db w' = update_receipt i (completed_receipt E n reopened) t)"
  show ?thesis
    unfolding erase_pass_def wp_andThen wp_gets
  proof (rule wp_mono [OF wp_delete_files], goal_cases)
    case (1 _ w1)
    then have db1: "sv_db w1 = sv_db w" and objects1: "\<And>key. sv_objects w1 key = (if key \<in> set ?keys then None else sv_objects w key)"
      by simp_all
    show ?case
    proof (rule wp_sweep, goal_cases)
      case (1 w2)
      then have w2: "sv_db w2 = sv_db w1" "\<forall>key. sv_objects w2 key = (if startsWith key (ws @ ''/'') then None else sv_objects w1 key)"
        by simp_all
      have rows: "wp (erase_rows E cfg i ws n) (\<lambda>r' s. \<exists>reopened t. rows_erased cfg ws (sv_db w) t \<and>
          r' = completed_receipt E n reopened r \<and> s = update_receipt i (completed_receipt E n reopened) t) (\<lambda>_ s. s = sv_db w) (sv_db w2)" for n
        using found erasing w2(1) db1 by (intro wp_erase_rows [where r = r]) auto
      show ?case
      proof (cases "fails EraseRows")
        case True
        then show ?thesis using w2(1) db1 by simp
      next
        case False
        then show ?thesis
        proof (simp only: if_False wp_in_db wp_ret, intro wp_mono [OF rows], goal_cases)
          case (1 r' s')
          then obtain reopened t where "rows_erased cfg ws (sv_db w) t" "r' = completed_receipt E (int (length ?keys)) reopened r"
            "s' = update_receipt i (completed_receipt E (int (length ?keys)) reopened) t" by blast
          then show ?case
            using w2(2) objects1 by (intro wp_sweep) (simp_all add: objects_erased_def completed_receipt_def [where r = r], blast+)
        next
          case (2 e s')
          then show ?case by simp
        qed
      qed
    next
      case 2
      then show ?case using db1 by simp
    qed
  next
    case (2 e w1)
    then show ?case by simp
  qed
qed

lemma receipt_rows_erased: "rows_erased cfg ws s t \<Longrightarrow> findDeletionReceipt i t = findDeletionReceipt i s"
  unfolding rows_erased_def by (elim exE conjE disjE) simp_all

lemma storage_keys_receipt [simp]: "storage_keys ws (update_receipt i f s) = storage_keys ws s"
  by (simp add: storage_keys_def update_receipt_def)

lemma server_db_same [simp]: "w \<lparr> sv_db := sv_db w \<rparr> = w"
  by (cases w) simp

lemma wp_record_failure:
  assumes found: "findDeletionReceipt i s = Some q"
    and keep: "wd_attempts receipt < max_erase_attempts \<or> wd_state q \<noteq> DeletionErasing \<Longrightarrow> Q receipt s"
    and give_up: "\<not> wd_attempts receipt < max_erase_attempts \<Longrightarrow> wd_state q = DeletionErasing \<Longrightarrow>
      Q (failed_receipt E q) (update_receipt i (failed_receipt E) s)"
  shows "wp (record_failure E i receipt) Q F s"
  using assms by (simp add: record_failure_def)

definition pass_reached :: "account_config \<Rightarrow> env \<Rightarrow> uuid \<Rightarrow> workspace_deletion_row \<Rightarrow> server \<Rightarrow> workspace_deletion_row \<Rightarrow> server \<Rightarrow> bool" where
  "pass_reached cfg E i r w r' w' \<longleftrightarrow>
     (wd_state r' = DeletionCompleted \<longrightarrow> objects_erased (wd_workspace_id r) w w' \<and>
        (\<exists>n reopened t. rows_erased cfg (wd_workspace_id r) (update_receipt i (start_attempt E) (sv_db w)) t \<and>
           sv_db w' = update_receipt i (completed_receipt E n reopened) t)) \<and>
     (\<exists>q. findDeletionReceipt i (sv_db w') = Some q \<and> wd_workspace_id q = wd_workspace_id r \<and>
        (wd_state q \<noteq> DeletionErasing \<or> wd_attempts q = wd_attempts r + 1 \<and> wd_attempts q < max_erase_attempts))"

lemma wp_eraseWorkspace:
  assumes found: "findDeletionReceipt i (sv_db w) = Some r" and erasing: "wd_state r = DeletionErasing"
  shows "wp (eraseWorkspace E cfg fails i) (pass_reached cfg E i r w) (\<lambda>_ _. False) w"
proof -
  let ?s = "update_receipt i (start_attempt E) (sv_db w)" and ?r = "start_attempt E r" and ?ws = "wd_workspace_id r"
  let ?w = "w \<lparr> sv_db := ?s \<rparr>"
  have started: "findDeletionReceipt i (sv_db ?w) = Some ?r" "wd_state ?r = DeletionErasing"
    using found erasing by (simp_all add: start_attempt_def)
  have kept: "findDeletionReceipt i t = Some ?r" if "rows_erased cfg ?ws ?s t" for t
    using receipt_rows_erased [OF that, of i] found by simp
  have "wp (try_catch (erase_pass E cfg fails i ?ws) (\<lambda>_. in_db (record_failure E i ?r))) (pass_reached cfg E i r w) (\<lambda>_ _. False) ?w"
    unfolding wp_try_catch wp_in_db
  proof (rule wp_mono [OF wp_erase_pass [OF started]], goal_cases)
    case (1 r' w')
    then obtain n reopened t where erased: "rows_erased cfg ?ws ?s t" "sv_db w' = update_receipt i (completed_receipt E n reopened) t"
      and objects: "objects_erased ?ws ?w w'" by auto
    then have "\<exists>q. findDeletionReceipt i (sv_db w') = Some q \<and> wd_workspace_id q = ?ws \<and> wd_state q \<noteq> DeletionErasing"
      using kept [OF erased(1)] by (simp add: erased(2) completed_receipt_def start_attempt_def)
    moreover have "objects_erased ?ws w w'" using objects by (simp add: objects_erased_def)
    ultimately show ?case unfolding pass_reached_def using erased by blast
  next
    case (2 e w')
    have failed: "pass_reached cfg E i r w q' w''"
      if "findDeletionReceipt i (sv_db w'') = Some q" "wd_state q' \<noteq> DeletionCompleted" "wd_workspace_id q = ?ws"
        "wd_state q \<noteq> DeletionErasing \<or> wd_attempts q = wd_attempts r + 1 \<and> wd_attempts q < max_erase_attempts" for q q' w''
      using that unfolding pass_reached_def by blast
    have r: "wd_attempts ?r = wd_attempts r + 1" "wd_workspace_id ?r = ?ws" by (simp_all add: start_attempt_def)
    from 2 show ?case
    proof
      assume db: "sv_db w' = sv_db ?w"
      then have f: "findDeletionReceipt i (sv_db w') = Some ?r" using started by simp
      show ?thesis
      proof (rule wp_record_failure [OF f])
        assume "wd_attempts ?r < max_erase_attempts \<or> wd_state ?r \<noteq> DeletionErasing"
        then show "pass_reached cfg E i r w ?r (w' \<lparr> sv_db := sv_db w' \<rparr>)"
          using started(2) r by (intro failed [OF _ _ r(2)]) (simp_all add: f)
      next
        show "pass_reached cfg E i r w (failed_receipt E ?r) (w' \<lparr> sv_db := update_receipt i (failed_receipt E) (sv_db w') \<rparr>)"
          by (rule failed [where q = "failed_receipt E ?r"]) (simp_all add: f failed_receipt_def r)
      qed
    next
      assume "\<exists>n reopened t. rows_erased cfg ?ws (sv_db ?w) t \<and> sv_db w' = update_receipt i (completed_receipt E n reopened) t"
      then obtain n reopened t where erased: "rows_erased cfg ?ws ?s t" "sv_db w' = update_receipt i (completed_receipt E n reopened) t" by auto
      then have f: "findDeletionReceipt i (sv_db w') = Some (completed_receipt E n reopened ?r)" using kept by simp
      show ?thesis
      proof (rule wp_record_failure [OF f])
        show "pass_reached cfg E i r w ?r (w' \<lparr> sv_db := sv_db w' \<rparr>)"
          using started(2) r by (intro failed [where q = "completed_receipt E n reopened ?r"]) (simp_all add: f completed_receipt_def)
      qed (simp add: completed_receipt_def)
    qed
  qed
  then show ?thesis by (simp add: eraseWorkspace_def found erasing Let_def)
qed

end
