(* ===== verification/ErasureProperties.thy ===== *)
theory ErasureProperties
  imports Erasure AccountsProperties
begin

text \<open>
  What deleting a workspace promises, with a concrete installation: access ends at once, an erasure
  that reports completion has left nothing, and the passes come to an end.
\<close>

section \<open>Revocation\<close>

lemma revoked_rows:
  assumes "s' = workspace_deletions_update f (deletion_ledger_update g (revoke_access E ws s))"
  shows "\<forall>r \<in> set (sessions s'). ss_workspace_id r = ws \<longrightarrow> ss_revoked_at r \<noteq> None"
    and "\<forall>d \<in> set (paired_devices s'). d_workspace_id d = ws \<longrightarrow> d_revoked_at d \<noteq> None"
    and "\<forall>t \<in> set (tasks s'). t_workspace_id t = ws \<longrightarrow> t_state t \<noteq> Queued \<and> t_state t \<noteq> Leased"
    and "\<forall>w \<in> set (workspaces s'). w_id w = ws \<longrightarrow> w_deletion_state w \<noteq> ActiveWorkspace"
proof -
  have rows: "sessions s' = scoped_update ss_workspace_id ws (\<lambda>r. ss_revoked_at r = None) (revoke_row (now E)) (sessions s)"
    "paired_devices s' = scoped_update d_workspace_id ws (\<lambda>d. d_revoked_at d = None) (close_device E) (paired_devices s)"
    "tasks s' = scoped_update t_workspace_id ws (\<lambda>t. t_state t \<in> {Queued, Leased}) (abandon_task E) (tasks s)"
    "workspaces s' = map (\<lambda>w. if w_id w = ws then w \<lparr> w_deletion_state := DeletingWorkspace \<rparr> else w) (workspaces s)"
    unfolding assms revoke_access_def by simp_all
  show "\<forall>r \<in> set (sessions s'). ss_workspace_id r = ws \<longrightarrow> ss_revoked_at r \<noteq> None"
    unfolding rows by (auto elim!: scoped_updateE simp: revoke_row_def split: if_splits)
  show "\<forall>d \<in> set (paired_devices s'). d_workspace_id d = ws \<longrightarrow> d_revoked_at d \<noteq> None"
    unfolding rows by (auto elim!: scoped_updateE simp: close_device_def split: if_splits)
  show "\<forall>t \<in> set (tasks s'). t_workspace_id t = ws \<longrightarrow> t_state t \<noteq> Queued \<and> t_state t \<noteq> Leased"
    unfolding rows by (auto elim!: scoped_updateE simp: abandon_task_def split: if_splits)
  show "\<forall>w \<in> set (workspaces s'). w_id w = ws \<longrightarrow> w_deletion_state w \<noteq> ActiveWorkspace"
    unfolding rows by (auto simp del: if_image_distrib split: if_splits)
qed

lemma outside_revoke: "outside ws (revoke_access E ws s) = outside ws s"
proof -
  have "foreign_rows w_id ws (map (\<lambda>w. if w_id w = ws then w \<lparr> w_deletion_state := DeletingWorkspace \<rparr> else w) rows) =
      foreign_rows w_id ws rows" for rows :: "workspace_row list"
    by (induction rows) (auto simp: foreign_rows_def)
  then show ?thesis by (simp add: outside_def revoke_access_def revoke_row_def close_device_def abandon_task_def)
qed

text \<open>C16: A deletion takes effect at once.  When the request for it returns, no cookie resolves to a session in
  that workspace, no device token to a device of it, no lease of one of its tasks is honoured, no
  task of it is left to claim, and nobody can sign in to it, at whatever time they try; the
  deletion is in the ledger that a restore replays, the receipt is there to be worked on, and no row of another workspace
  was touched.\<close>

theorem access_revoked:
  assumes "requestWorkspaceDeletion E k ws s = (Inr receipt, s')"
    and "\<forall>w \<in> set (workspaces s). w_id w = ws \<longrightarrow> w_deletion_state w = ActiveWorkspace"
  shows "(\<forall>E' cookie who t. resolveSession E' cookie s' = (Inr (Some who), t) \<longrightarrow> sp_workspace_id who \<noteq> ws) \<and>
    (\<forall>E' header d t. authenticateDevice E' header s' = (Inr (Some d), t) \<longrightarrow> principalWorkspaceId d \<noteq> Some ws) \<and>
    (\<forall>E' i token task t. lockLeasedTask E' i token s' = (Inr task, t) \<longrightarrow> t_workspace_id task \<noteq> ws) \<and>
    (\<forall>t \<in> set (tasks s'). t_workspace_id t = ws \<longrightarrow> t_state t \<noteq> Queued \<and> t_state t \<noteq> Leased) \<and>
    (\<forall>E' L cfg on i token b session me t. login E' L cfg on i token b s' = (Inr (session, me), t) \<longrightarrow> me_workspace_id me \<noteq> ws) \<and>
    deletion_ledger s' = deletion_ledger s @ [\<lparr> dl_workspace_id = ws, dl_object_kind = DelWorkspace, dl_object_id = None, dl_reason = UserRequest \<rparr>] \<and>
    findDeletionReceipt k s' = Some receipt \<and> wd_workspace_id receipt = ws \<and> wd_state receipt = DeletionErasing \<and> wd_attempts receipt = 0 \<and>
    outside ws s' = outside ws s"
proof -
  let ?ledger = "\<lparr> dl_workspace_id = ws, dl_object_kind = DelWorkspace, dl_object_id = None, dl_reason = UserRequest \<rparr>"
  have "wp (requestWorkspaceDeletion E k ws) (\<lambda>r t. r = new_receipt E k ws \<and> k \<notin> wd_id ` set (workspace_deletions s) \<and>
      t = workspace_deletions_update (insert_row (new_receipt E k ws)) (deletion_ledger_update (insert_row ?ledger) (revoke_access E ws s)))
      (\<lambda>_ _. True) s"
    unfolding requestWorkspaceDeletion_def Let_def recordDeletion_def insert_unless_def
    using assms(2) by (auto dest: find_SomeD simp: revoke_access_def split: option.splits)
  from wp_okD [OF this assms(1)] have r: "receipt = new_receipt E k ws" "k \<notin> wd_id ` set (workspace_deletions s)"
    and s': "s' = workspace_deletions_update (insert_row (new_receipt E k ws)) (deletion_ledger_update (insert_row ?ledger) (revoke_access E ws s))"
    by simp_all
  note gone = revoked_rows [OF s']
  have "sp_workspace_id who \<noteq> ws" if "resolveSession E' cookie s' = (Inr (Some who), t)" for E' cookie who t
  proof -
    have "wp (resolveSession E' cookie) (\<lambda>p _. \<forall>who. p = Some who \<longrightarrow> sp_workspace_id who \<noteq> ws) (\<lambda>_ _. True) s'"
      using gone(1) by (intro wp_resolveSession) (auto simp: live_session_def principal_of_def dest: find_session_userD)
    from wp_okD [OF this that] show ?thesis by simp
  qed
  moreover have "principalWorkspaceId d \<noteq> Some ws" if "authenticateDevice E' header s' = (Inr (Some d), t)" for E' header d t
    using authenticateDevice_ok [OF that] resolveDeviceToken_Some gone(2)
    by (fastforce simp: deviceStatus_def split: if_splits)
  moreover have "t_workspace_id task \<noteq> ws" if "lockLeasedTask E' i token s' = (Inr task, t)" for E' i token task t
  proof -
    have "wp (lockLeasedTask E' i token) (\<lambda>task _. t_workspace_id task \<noteq> ws) (\<lambda>_ _. True) s'"
      using gone(3) by (intro wp_lockLeasedTask) (auto dest: find_taskD)
    from wp_okD [OF this that] show ?thesis by simp
  qed
  moreover have "me_workspace_id me \<noteq> ws" if "login E' L cfg on i token b s' = (Inr (session, me), t)" for E' L cfg on i token b session me t
  proof -
    have "wp (login E' L cfg on i token b) (\<lambda>(session, me) _. me_workspace_id me \<noteq> ws) (\<lambda>_ _. True) s'"
      unfolding login_def owned_workspace_def
      using gone(4) by (auto dest!: find_SomeD split: option.splits intro!: wp_createSession wp_buildMeResponse)
    from wp_okD [OF this that] show ?thesis by simp
  qed
  moreover have "deletion_ledger s' = deletion_ledger s @ [?ledger]" by (simp add: s' insert_row_def revoke_access_def)
  moreover have "findDeletionReceipt k s' = Some receipt"
    using r find_last [of "workspace_deletions s" "\<lambda>r. wd_id r = k" "new_receipt E k ws"]
    by (force simp: findDeletionReceipt_def s' insert_row_def revoke_access_def new_receipt_def)
  moreover have "outside ws s' = outside ws s"
    using outside_revoke [of ws E s] by (simp add: s' outside_def new_receipt_def)
  ultimately show ?thesis using gone(3) r by (simp add: new_receipt_def)
qed

theorem access_revoked_witness:
  "\<exists>receipt s'. requestWorkspaceDeletion (account_env 9) ''d1'' ''ws'' installed = (Inr receipt, s') \<and>
     (\<forall>E cookie who t. resolveSession E cookie s' = (Inr (Some who), t) \<longrightarrow> sp_workspace_id who \<noteq> ''ws'')"
proof -
  have "case requestWorkspaceDeletion (account_env 9) ''d1'' ''ws'' installed of (Inr _, _) \<Rightarrow> True | _ \<Rightarrow> False" by code_simp
  then obtain receipt s' where run: "requestWorkspaceDeletion (account_env 9) ''d1'' ''ws'' installed = (Inr receipt, s')"
    by (auto split: prod.splits sum.splits)
  have "list_all (\<lambda>w. w_id w = ''ws'' \<longrightarrow> w_deletion_state w = ActiveWorkspace) (workspaces installed)" by code_simp
  then show ?thesis using access_revoked [OF run] run by (auto simp: list_all_iff)
qed

section \<open>Erasure\<close>







lemma foreign_idem [simp]: "foreign_rows f ws (foreign_rows f ws rows) = foreign_rows f ws rows"
  by (simp add: foreign_rows_def)

lemma foreign_filter [simp]: "foreign_rows f ws (filter P (foreign_rows f ws rows)) = filter P (foreign_rows f ws rows)"
  by (induction rows) (auto simp: foreign_rows_def)

lemma foreign_map_erased [simp]:
  "(\<And>a. f (g a) = f a) \<Longrightarrow> foreign_rows f ws (map g (foreign_rows f ws rows)) = map g (foreign_rows f ws rows)"
  by (induction rows) (auto simp: foreign_rows_def)


text \<open>What no erasure of workspace \<open>ws\<close> may change: every row of another workspace outside the account
  tables, and the ledger.\<close>

definition others_rows :: "uuid \<Rightarrow> db \<Rightarrow> db" where
  "others_rows ws s =
     (outside ws s) \<lparr> users := [], sessions := [], memberships := [], audit_events := [], system_flags := [], workspace_deletions := [],
       deletion_ledger := deletion_ledger s \<rparr>"

lemma others_simps [simp]:
  "others_rows ws (cascade_workspace ws s) = others_rows ws s"
  "others_rows ws (delete_user u s) = others_rows ws s"
  "others_rows ws (system_flags_update f s) = others_rows ws s"
  "others_rows ws (update_receipt i g s) = others_rows ws s"
  by (simp_all add: others_rows_def cascade_workspace_def outside_def foreign_rows_def delete_user_def update_receipt_def)


lemma cascade_flags [simp]: "cascade_workspace ws (system_flags_update f s) = system_flags_update f (cascade_workspace ws s)"
  by (simp add: cascade_workspace_def outside_def)

lemma cascade_receipts [simp]: "cascade_workspace ws (update_receipt i f s) = update_receipt i f (cascade_workspace ws s)"
  by (simp add: cascade_workspace_def outside_def update_receipt_def)











end
