(* ===== verification/Extension.thy ===== *)
theory Extension
  imports FillPlan FillSessions Network
begin

text \<open>
  The browser extension (\<open>apps/extension/src\<close>): what it does with a session it was granted
  (\<open>session.ts\<close>), which tabs and addresses it accepts (\<open>targets.ts\<close>, \<open>messages.ts\<close>,
  \<open>adapters\<close>), and the runs of its service worker (\<open>background.ts\<close>) as sequences of calls to
  the API and to the tab.

  What the API and the page answer is a parameter of a run, a \<open>world\<close>: one function per call,
  which may depend on everything called before.  A call that throws is a \<open>Refused\<close> answer of
  the API or a \<open>Broken\<close> connection or tab.  The texts shown to the user are not modelled.
\<close>

section \<open>Addresses\<close>

definition originOf_url :: "env \<Rightarrow> string \<Rightarrow> string option" where
  "originOf_url E raw = map_option url_origin (parse_url E raw)"

definition strip_slashes :: "string \<Rightarrow> string" where
  "strip_slashes s = rev (dropWhile (\<lambda>c. c = CHR ''/'') (rev s))"

text \<open>\<open>has_suffix\<close>: whether the parsed address has a query or a fragment.\<close>

definition normaliseBaseUrl :: "env \<Rightarrow> (string \<Rightarrow> bool) \<Rightarrow> string \<Rightarrow> string option" where
  "normaliseBaseUrl E has_suffix raw =
     (case parse_url E (trim raw) of
        None \<Rightarrow> None
      | Some u \<Rightarrow>
          if url_protocol u \<noteq> ''https:'' \<and> url_protocol u \<noteq> ''http:'' then None
          else if url_username u \<noteq> [] \<or> url_password u \<noteq> [] then None
          else if has_suffix (trim raw) then None
          else Some (strip_slashes (url_origin u @ url_pathname u)))"

definition normalisePairingCode :: "string \<Rightarrow> string" where
  "normalisePairingCode raw = filter (\<lambda>c. \<not> is_space c) raw"

definition on_origin :: "string option \<Rightarrow> packet_destination \<Rightarrow> bool" where
  "on_origin tab_origin d \<longleftrightarrow> tab_origin \<noteq> None \<and> Some (pd_origin d) = tab_origin"

definition arrangeTargets :: "fill_target list \<Rightarrow> string option \<Rightarrow> fill_target list \<times> fill_target list" where
  "arrangeTargets targets tab_origin =
     (filter (\<lambda>t. on_origin tab_origin (tg_destination t)) targets, filter (\<lambda>t. \<not> on_origin tab_origin (tg_destination t)) targets)"

definition checkableHere :: "awaiting_submission \<Rightarrow> string option \<Rightarrow> bool" where
  "checkableHere item tab_origin = on_origin tab_origin (aw_destination item)"

definition openableUrl :: "env \<Rightarrow> fill_target \<Rightarrow> string option" where
  "openableUrl E t =
     (case parse_url E (pd_url (tg_destination t)) of
        None \<Rightarrow> None
      | Some u \<Rightarrow>
          if url_protocol u \<noteq> ''https:'' \<and> url_protocol u \<noteq> ''http:'' then None
          else if url_origin u \<noteq> pd_origin (tg_destination t) then None
          else Some (url_href u))"

section \<open>Adapters\<close>

definition greenhouse_hosts :: "string list" where
  "greenhouse_hosts = [''boards.greenhouse.io'', ''job-boards.greenhouse.io'', ''my.greenhouse.io'']"

definition lever_hosts :: "string list" where
  "lever_hosts = [''jobs.lever.co'', ''jobs.eu.lever.co'']"

definition greenhouse_handles :: "env \<Rightarrow> string \<Rightarrow> bool \<Rightarrow> bool" where
  "greenhouse_handles E raw marker =
     (case parse_url E raw of
        None \<Rightarrow> False
      | Some u \<Rightarrow>
          let host = toLowerCase (url_hostname u) in
          if host \<in> set greenhouse_hosts then True else if host \<in> set lever_hosts then False else marker)"

definition lever_handles :: "env \<Rightarrow> string \<Rightarrow> bool \<Rightarrow> bool" where
  "lever_handles E raw marker =
     (marker \<or> (case parse_url E raw of None \<Rightarrow> False | Some u \<Rightarrow> toLowerCase (url_hostname u) \<in> set lever_hosts))"

text \<open>The markers are what the two form selectors found on the page: a Greenhouse form, and
  the questions only Lever draws.\<close>

definition greenhouse_marker :: "bool \<Rightarrow> bool \<Rightarrow> bool" where
  "greenhouse_marker form_found lever_found \<longleftrightarrow> form_found \<and> \<not> lever_found"

definition pick :: "env \<Rightarrow> string \<Rightarrow> bool \<Rightarrow> bool \<Rightarrow> string option" where
  "pick E raw form_found lever_found =
     (if greenhouse_handles E raw (greenhouse_marker form_found lever_found) then Some ''greenhouse''
      else if lever_handles E raw lever_found then Some ''lever''
      else None)"

definition known_adapters :: "(string \<times> string) list" where
  "known_adapters = [(''greenhouse'', ''v1''), (''lever'', ''v1'')]"

definition knownAdapter :: "json \<Rightarrow> (string \<times> string) option" where
  "knownAdapter claimed =
     (let value = (case claimed of JObj kvs \<Rightarrow> kvs | _ \<Rightarrow> []) in
      find (\<lambda>(name, version). get_prop ''name'' value = Some (JStr name) \<and> get_prop ''version'' value = Some (JStr version))
        known_adapters)"

section \<open>Messages\<close>

record fill_instruction =
  ix_selector :: string
  ix_kind :: field_kind
  ix_values :: "string list"

record page_report =
  px_key :: string
  px_outcome :: string
  px_label :: "string option"

record resume_bytes =
  rb_name :: string
  rb_bytes :: "int list"

datatype content_message =
    PageInspected (cm_url: string) json json json
  | PageFilled (cm_url: string) "page_report list" "string list"
  | PageUnsupported (cm_url: string) string
  | PageConfirmation (cm_url: string) json "(string \<times> string option) option"

datatype worker_message =
    PageInspect
  | PageReadConfirmation
  | PageFill "fill_instruction list" "resume_bytes option" "string option"

record sender_facts =
  sx_tab_id :: "int option"
  sx_frame_id :: "int option"
  sx_url :: "string option"

type_synonym session_binding = "int \<times> string"

datatype sender_verdict = SenderOk | NotATab | OtherTab | Subframe | NoUrl | NotAUrl | OtherOrigin

definition verifySender :: "env \<Rightarrow> sender_facts \<Rightarrow> session_binding \<Rightarrow> sender_verdict" where
  "verifySender E who b =
     (case sx_tab_id who of None \<Rightarrow> NotATab
      | Some tab \<Rightarrow>
          if tab \<noteq> fst b then OtherTab
          else if sx_frame_id who \<noteq> Some 0 then Subframe
          else case sx_url who of None \<Rightarrow> NoUrl
          | Some raw \<Rightarrow>
              case originOf_url E raw of None \<Rightarrow> NotAUrl
              | Some x \<Rightarrow> if x \<noteq> snd b then OtherOrigin else SenderOk)"

section \<open>The decision\<close>

record inspected_page =
  ip_url :: string
  ip_identity :: json
  ip_fields :: json

record planned_attachment =
  pa_selector :: string
  pa_question_key :: string
  pa_label :: "string option"
  pa_required :: bool

datatype decision =
    DoFill "fill_instruction list" "planned_attachment option" report_fill_session_request
  | Refuse report_fill_session_request

definition page_fields :: "inspected_page \<Rightarrow> form_field list" where
  "page_fields page = parseFields (ip_fields page) normalizeQuestionKey"

definition formFingerprintMaterial :: "inspected_page \<Rightarrow> string" where
  "formFingerprintMaterial page = fingerprintMaterial (page_fields page)"

definition formFingerprint :: "string \<Rightarrow> string" where
  "formFingerprint digest = ''v1:'' @ take 32 digest"

definition toInstruction :: "planned_value \<Rightarrow> fill_instruction" where
  "toInstruction v = \<lparr> ix_selector = fm_selector (pv_field v), ix_kind = fm_kind (pv_field v), ix_values = pv_values v \<rparr>"

definition label_or_null :: "form_field \<Rightarrow> string option" where
  "label_or_null f = (if fm_label f = [] then None else Some (fm_label f))"

definition planned_fill :: "planned_value \<Rightarrow> filled_field" where
  "planned_fill v =
     \<lparr> fd_question_key = fm_key (pv_field v), fd_outcome = FieldFilled, fd_matched_label = label_or_null (pv_field v) \<rparr>"

definition attachment_of :: "planned_value \<Rightarrow> planned_attachment" where
  "attachment_of v =
     \<lparr> pa_selector = fm_selector (pv_field v), pa_question_key = fm_key (pv_field v), pa_label = label_or_null (pv_field v),
       pa_required = fm_required (pv_field v) \<rparr>"

text \<open>The report with nothing in it, and the one of a plan.\<close>

definition base_report ::
  "inspected_page \<Rightarrow> string option \<Rightarrow> (string \<times> string) option \<Rightarrow> report_fill_session_request" where
  "base_report page fp adapter =
     \<lparr> rf_filled_fields = [], rf_unresolved_fields = [], rf_page_url = Some (ip_url page),
       rf_form_fingerprint = (if page_fields page = [] then None else fp), rf_outcome = FillUnsupported,
       rf_adapter = map_option fst adapter, rf_adapter_version = map_option snd adapter \<rparr>"

definition plan_report :: "fill_plan \<Rightarrow> report_fill_session_request \<Rightarrow> report_fill_session_request" where
  "plan_report p base = base
     \<lparr> rf_filled_fields := map planned_fill (filter (\<lambda>v. \<not> pv_upload v) (fp_values p)),
       rf_unresolved_fields := fp_unresolved p,
       rf_outcome := (if hasUnresolvedRequired p then FillNeedsInput else FillAwaitingUserSubmit) \<rparr>"

definition decide ::
  "env \<Rightarrow> fill_session_grant \<Rightarrow> inspected_page \<Rightarrow> string option \<Rightarrow> (string \<times> string) option \<Rightarrow> decision" where
  "decide E g page fp adapter =
     (let fields = page_fields page;
          page_origin = originOf_url E (ip_url page);
          identity = parseIdentity (ip_identity page) (ip_url page) (case page_origin of None \<Rightarrow> [] | Some x \<Rightarrow> x);
          base = base_report page fp adapter
      in if page_origin \<noteq> Some (gr_origin g) then Refuse base
         else if fields = [] then Refuse base
         else if checkIdentity identity (fj_company (gr_job g)) (fj_title (gr_job g)) \<noteq> Matches then Refuse base
         else
           let plan = buildPlan fields (gr_fields g) (gr_resume_file_id g \<noteq> None) in
           DoFill (map toInstruction (filter (\<lambda>v. \<not> pv_upload v) (fp_values plan)))
             (map_option attachment_of (find pv_upload (fp_values plan))) (plan_report plan base))"

definition withBlockedAttachment :: "report_fill_session_request \<Rightarrow> planned_attachment \<Rightarrow> report_fill_session_request" where
  "withBlockedAttachment r a = r
     \<lparr> rf_unresolved_fields := rf_unresolved_fields r @
         [\<lparr> uf_question_key = pa_question_key a, uf_label = pa_label a, uf_required = pa_required a,
            uf_reason = FileUploadBlocked, uf_options = [] \<rparr>],
       rf_outcome := (if pa_required a then FillNeedsInput else rf_outcome r) \<rparr>"

section \<open>Runs of the service worker\<close>

record api_options =
  ao_base_url :: string
  ao_token :: string

datatype ext_call =
    ExchangeCode string device_exchange_request
  | ListTargets api_options
  | OpenSession api_options create_fill_session_request
  | FetchResume api_options uuid string string
  | SendReport api_options uuid string report_fill_session_request
  | EndSession api_options uuid string
  | SendObservation api_options uuid report_observation_request
  | InjectScript int
  | SendTab int worker_message

datatype ext_failure = Refused nat | Broken

record exchange_reply =
  xr_token :: string
  xr_device_id :: uuid
  xr_expires_at :: string

record browser_tab =
  bt_id :: "int option"
  bt_url :: "string option"

record world =
  active_tabs :: "browser_tab list"
  tab_by_id :: "int \<Rightarrow> browser_tab option"
  on_exchange :: "ext_call list \<Rightarrow> ext_call \<Rightarrow> ext_failure + exchange_reply"
  on_list :: "ext_call list \<Rightarrow> ext_call \<Rightarrow> ext_failure + fill_target list \<times> awaiting_submission list option"
  on_open :: "ext_call list \<Rightarrow> ext_call \<Rightarrow> ext_failure + fill_session_grant"
  on_resume :: "ext_call list \<Rightarrow> ext_call \<Rightarrow> ext_failure + resume_bytes"
  on_done :: "ext_call list \<Rightarrow> ext_call \<Rightarrow> ext_failure + unit"
  on_observed :: "ext_call list \<Rightarrow> ext_call \<Rightarrow> ext_failure + application_status"
  on_tab :: "ext_call list \<Rightarrow> ext_call \<Rightarrow> ext_failure + content_message"

text \<open>The state of the service worker: the pairing in local storage, the module variable
  \<open>binding\<close>, and the calls made so far.\<close>

record stored_pairing =
  st_base_url :: string
  st_token :: string
  st_device_id :: uuid
  st_expires_at :: string

record extension =
  ex_pairing :: "stored_pairing option"
  ex_binding :: "session_binding option"
  ex_log :: "ext_call list"

type_synonym 'a run = "extension \<Rightarrow> (ext_failure + 'a) \<times> extension"

definition finish :: "'a \<Rightarrow> 'a run" where
  "finish x s = (Inr x, s)"

definition next_step :: "'a run \<Rightarrow> ('a \<Rightarrow> 'b run) \<Rightarrow> 'b run" where
  "next_step m f s = (case m s of (Inl e, t) \<Rightarrow> (Inl e, t) | (Inr x, t) \<Rightarrow> f x t)"

definition attempt :: "'a run \<Rightarrow> (ext_failure \<Rightarrow> 'a run) \<Rightarrow> 'a run" where
  "attempt m h s = (case m s of (Inl e, t) \<Rightarrow> h e t | (Inr x, t) \<Rightarrow> (Inr x, t))"

definition observe_state :: "(extension \<Rightarrow> 'a) \<Rightarrow> 'a run" where
  "observe_state f s = (Inr (f s), s)"

definition change :: "(extension \<Rightarrow> extension) \<Rightarrow> unit run" where
  "change f s = (Inr (), f s)"

definition call :: "(ext_call list \<Rightarrow> ext_call \<Rightarrow> ext_failure + 'a) \<Rightarrow> ext_call \<Rightarrow> 'a run" where
  "call answer c s = (answer (ex_log s) c, s\<lparr>ex_log := ex_log s @ [c]\<rparr>)"

lemmas run_simps = finish_def next_step_def attempt_def observe_state_def change_def call_def

section \<open>Pairing\<close>

definition readPairing :: "api_options option run" where
  "readPairing = observe_state (\<lambda>s. map_option (\<lambda>p. \<lparr> ao_base_url = st_base_url p, ao_token = st_token p \<rparr>) (ex_pairing s))"

definition forgetPairing :: "unit run" where
  "forgetPairing = change (ex_pairing_update (\<lambda>_. None))"

datatype pair_result = PairOk | NotAnAddress | NoCode | PairRefused | PairUnreachable

definition pairWithCode :: "env \<Rightarrow> (string \<Rightarrow> bool) \<Rightarrow> world \<Rightarrow> string \<Rightarrow> string \<Rightarrow> string \<Rightarrow> pair_result run" where
  "pairWithCode E has_suffix W public_id base_url code =
     (case normaliseBaseUrl E has_suffix base_url of None \<Rightarrow> finish NotAnAddress
      | Some base \<Rightarrow>
          if normalisePairingCode code = [] then finish NoCode
          else attempt
            (next_step (call (on_exchange W) (ExchangeCode base
                \<lparr> dx_pairing_code = normalisePairingCode code, dx_device_public_id = public_id \<rparr>)) (\<lambda>x.
             next_step (change (ex_pairing_update (\<lambda>_. Some
                \<lparr> st_base_url = base, st_token = xr_token x, st_device_id = xr_device_id x, st_expires_at = xr_expires_at x \<rparr>))) (\<lambda>_.
             finish PairOk)))
            (\<lambda>e. finish (case e of Refused _ \<Rightarrow> PairRefused | Broken \<Rightarrow> PairUnreachable)))"

datatype targets_result =
    Unpaired bool
  | Targets string "fill_target list" "awaiting_submission list"
  | TargetsError string

definition loadTargets :: "world \<Rightarrow> targets_result run" where
  "loadTargets W =
     next_step readPairing (\<lambda>pairing.
       case pairing of None \<Rightarrow> finish (Unpaired False)
       | Some o' \<Rightarrow> attempt
           (next_step (call (on_list W) (ListTargets o')) (\<lambda>(items, awaiting).
            finish (Targets (ao_base_url o') items (case awaiting of None \<Rightarrow> [] | Some xs \<Rightarrow> xs))))
           (\<lambda>e. if e = Refused 401 then next_step forgetPairing (\<lambda>_. finish (Unpaired True))
                else finish (TargetsError (ao_base_url o'))))"

section \<open>Filling the tab\<close>

datatype fill_report =
    FillDone report_fill_session_request
  | FillStopped
  | NotStarted

definition chosen_tab :: "world \<Rightarrow> int option \<Rightarrow> (int \<times> string) option" where
  "chosen_tab W choice =
     (case (case choice of None \<Rightarrow> (case active_tabs W of [] \<Rightarrow> None | t # _ \<Rightarrow> Some t) | Some i \<Rightarrow> tab_by_id W i) of
        None \<Rightarrow> None
      | Some t \<Rightarrow> (case (bt_id t, bt_url t) of (Some i, Some u) \<Rightarrow> Some (i, u) | _ \<Rightarrow> None))"

definition unsupported_report :: "string \<Rightarrow> report_fill_session_request" where
  "unsupported_report url =
     \<lparr> rf_filled_fields = [], rf_unresolved_fields = [], rf_page_url = Some url, rf_form_fingerprint = None,
       rf_outcome = FillUnsupported, rf_adapter = None, rf_adapter_version = None \<rparr>"

definition end_session_call :: "world \<Rightarrow> api_options \<Rightarrow> fill_session_grant \<Rightarrow> unit run" where
  "end_session_call W o' g = call (on_done W) (EndSession o' (gr_session_id g) (gr_nonce g))"

definition report_call :: "world \<Rightarrow> api_options \<Rightarrow> fill_session_grant \<Rightarrow> report_fill_session_request \<Rightarrow> unit run" where
  "report_call W o' g r = call (on_done W) (SendReport o' (gr_session_id g) (gr_nonce g) r)"

definition fetch_attachment :: "world \<Rightarrow> api_options \<Rightarrow> fill_session_grant \<Rightarrow> planned_attachment option \<Rightarrow> resume_bytes option run" where
  "fetch_attachment W o' g planned =
     (if planned \<noteq> None \<and> gr_resume_file_id g \<noteq> None then
        attempt
          (next_step (call (on_resume W) (FetchResume o' (gr_session_id g) (gr_nonce g)
             (case gr_resume_filename g of None \<Rightarrow> ''cv.pdf'' | Some n \<Rightarrow> n))) (\<lambda>b. finish (Some b)))
          (\<lambda>_. finish None)
      else finish None)"

definition attached :: "planned_attachment option \<Rightarrow> page_report list \<Rightarrow> bool" where
  "attached planned filled =
     (case planned of None \<Rightarrow> True
      | Some a \<Rightarrow> list_ex (\<lambda>f. px_key f = pa_selector a \<and> px_outcome f = ''filled'') filled)"

definition final_report :: "planned_attachment option \<Rightarrow> page_report list \<Rightarrow> report_fill_session_request \<Rightarrow> report_fill_session_request" where
  "final_report planned filled r =
     (case planned of None \<Rightarrow> r | Some a \<Rightarrow> if attached planned filled then r else withBlockedAttachment r a)"

text \<open>From the injected script to the report.\<close>

definition fill_page ::
  "env \<Rightarrow> (string \<Rightarrow> string) \<Rightarrow> world \<Rightarrow> api_options \<Rightarrow> fill_session_grant \<Rightarrow> int \<Rightarrow> fill_report run" where
  "fill_page E digest W o' g tab =
     next_step (call (on_done W) (InjectScript tab)) (\<lambda>_.
     next_step (call (on_tab W) (SendTab tab PageInspect)) (\<lambda>inspected.
       case inspected of
         PageUnsupported url _ \<Rightarrow> next_step (report_call W o' g (unsupported_report url)) (\<lambda>_. finish FillStopped)
       | PageInspected url adapter stated rows \<Rightarrow>
           let page = \<lparr> ip_url = url, ip_identity = stated, ip_fields = rows \<rparr>;
               material = formFingerprintMaterial page in
           (case decide E g page (if material = [] then None else Some (formFingerprint (digest material))) (knownAdapter adapter) of
              Refuse r \<Rightarrow> next_step (report_call W o' g r) (\<lambda>_. finish FillStopped)
            | DoFill instructions planned r \<Rightarrow>
                next_step (fetch_attachment W o' g planned) (\<lambda>bytes.
                next_step (call (on_tab W) (SendTab tab (PageFill instructions bytes (map_option pa_selector planned)))) (\<lambda>answer.
                  case answer of
                    PageFilled _ filled _ \<Rightarrow>
                      next_step (report_call W o' g (final_report planned filled r)) (\<lambda>_.
                      finish (FillDone (final_report planned filled r)))
                  | _ \<Rightarrow> next_step (end_session_call W o' g) (\<lambda>_. finish FillStopped))))
       | _ \<Rightarrow> next_step (end_session_call W o' g) (\<lambda>_. finish FillStopped)))"

definition open_call :: "world \<Rightarrow> api_options \<Rightarrow> create_fill_session_request \<Rightarrow> fill_session_grant option run" where
  "open_call W o' b = attempt (next_step (call (on_open W) (OpenSession o' b)) (\<lambda>g. finish (Some g))) (\<lambda>_. finish None)"

text \<open>A failure between the grant and the report ends the session, and whatever happens the
  binding is cleared.\<close>

definition fill_bound ::
  "env \<Rightarrow> (string \<Rightarrow> string) \<Rightarrow> world \<Rightarrow> api_options \<Rightarrow> fill_session_grant \<Rightarrow> int \<Rightarrow> fill_report run" where
  "fill_bound E digest W o' g tab =
     next_step (change (ex_binding_update (\<lambda>_. Some (tab, gr_origin g)))) (\<lambda>_.
     next_step (attempt (fill_page E digest W o' g tab)
       (\<lambda>_. attempt (next_step (end_session_call W o' g) (\<lambda>_. finish FillStopped)) (\<lambda>_. finish FillStopped))) (\<lambda>r.
     next_step (change (ex_binding_update (\<lambda>_. None))) (\<lambda>_.
     finish r)))"

definition fillActiveTab ::
  "env \<Rightarrow> (string \<Rightarrow> string) \<Rightarrow> world \<Rightarrow> uuid \<Rightarrow> string \<Rightarrow> int option \<Rightarrow> fill_report run" where
  "fillActiveTab E digest W application hash choice =
     next_step readPairing (\<lambda>pairing.
       case pairing of None \<Rightarrow> finish NotStarted
       | Some o' \<Rightarrow>
         (case chosen_tab W choice of None \<Rightarrow> finish NotStarted
          | Some (tab, url) \<Rightarrow>
            (case originOf_url E url of None \<Rightarrow> finish NotStarted
             | Some origin \<Rightarrow>
                 next_step (open_call W o' \<lparr> cs_application_id = application, cs_origin = origin, cs_content_hash = hash \<rparr>) (\<lambda>opened.
                   case opened of None \<Rightarrow> finish NotStarted
                   | Some g \<Rightarrow> fill_bound E digest W o' g tab))))"

definition handleContentMessage :: "env \<Rightarrow> sender_facts \<Rightarrow> extension \<Rightarrow> sender_verdict option" where
  "handleContentMessage E who s = map_option (verifySender E who) (ex_binding s)"

section \<open>Looking for a confirmation\<close>

definition settled_look :: "content_message \<Rightarrow> bool" where
  "settled_look m = (case m of PageConfirmation _ _ None \<Rightarrow> False | _ \<Rightarrow> True)"

fun read_loop :: "world \<Rightarrow> int \<Rightarrow> nat \<Rightarrow> content_message option \<Rightarrow> content_message option run" where
  "read_loop W tab 0 seen = finish seen"
| "read_loop W tab (Suc n) seen =
     next_step (call (on_tab W) (SendTab tab PageReadConfirmation)) (\<lambda>answer.
       if settled_look answer then finish (Some answer) else read_loop W tab n (Some answer))"

definition look_report :: "string \<Rightarrow> content_message \<Rightarrow> report_observation_request" where
  "look_report url answer =
     (let (adapter, found, unsupported) =
        (case answer of PageConfirmation _ a f \<Rightarrow> (knownAdapter a, f, False) | _ \<Rightarrow> (None, None, True)) in
      \<lparr> ro_outcome = (if found = None then Unknown else Observed),
        ro_confirmation = map_option (\<lambda>(text, reference).
          \<lparr> xc_confirmation_text = text, xc_reference = reference, xc_url = Some url \<rparr>) found,
        ro_unknown_reason = (if found \<noteq> None then None else Some (if unsupported then UnsupportedPage else NoConfirmationFound)),
        ro_page_url = url, ro_adapter = map_option fst adapter, ro_adapter_version = map_option snd adapter \<rparr>)"

definition is_look :: "content_message \<Rightarrow> bool" where
  "is_look m = (case m of PageConfirmation _ _ _ \<Rightarrow> True | PageUnsupported _ _ \<Rightarrow> True | _ \<Rightarrow> False)"

datatype check_report = NotChecked | CheckRefused | Checked application_status

definition checkConfirmation ::
  "env \<Rightarrow> world \<Rightarrow> awaiting_submission \<Rightarrow> nat \<Rightarrow> int option \<Rightarrow> check_report run" where
  "checkConfirmation E W item attempts choice =
     next_step readPairing (\<lambda>pairing.
       case pairing of None \<Rightarrow> finish NotChecked
       | Some o' \<Rightarrow>
         (case chosen_tab W choice of None \<Rightarrow> finish NotChecked
          | Some (tab, url) \<Rightarrow>
              if originOf_url E url \<noteq> Some (pd_origin (aw_destination item)) then finish NotChecked
              else next_step
                (attempt (next_step (call (on_done W) (InjectScript tab)) (\<lambda>_. read_loop W tab attempts None)) (\<lambda>_. finish None)) (\<lambda>answer.
                  case answer of None \<Rightarrow> finish NotChecked
                  | Some m \<Rightarrow>
                      if \<not> is_look m then finish NotChecked
                      else if originOf_url E (cm_url m) \<noteq> Some (pd_origin (aw_destination item)) then finish NotChecked
                      else attempt
                        (next_step (call (on_observed W) (SendObservation o' (aw_fill_session_id item) (look_report (cm_url m) m))) (\<lambda>status.
                         finish (Checked status)))
                        (\<lambda>_. finish CheckRefused))))"

definition look_attempts :: nat where
  "look_attempts = 5"

end
