(* ===== verification/ExtensionProperties.thy ===== *)
theory ExtensionProperties
  imports Extension Samples
begin

text \<open>
  What the extension does to an employer's page and what it tells the API about it.
\<close>

section \<open>Runs and their calls\<close>








text \<open>What a run answers and the calls it adds to the log.\<close>

definition calls :: "'a run \<Rightarrow> extension \<Rightarrow> (ext_failure + 'a \<Rightarrow> ext_call list \<Rightarrow> bool) \<Rightarrow> bool" where
  "calls m s Q \<longleftrightarrow> (\<exists>work. snd (m s) = s\<lparr>ex_log := ex_log s @ work\<rparr> \<and> Q (fst (m s)) work)"

lemma calls_simps [simp]:
  "calls (finish x) s Q = Q (Inr x) []"
  "calls (call a c) s Q = Q (a (ex_log s) c) [c]"
  by (cases s; auto simp: calls_def finish_def call_def)+

lemma calls_next:
  assumes "calls m s (\<lambda>r w. case r of Inl e \<Rightarrow> Q (Inl e) w
    | Inr x \<Rightarrow> calls (f x) (s\<lparr>ex_log := ex_log s @ w\<rparr>) (\<lambda>r w'. Q r (w @ w')))"
  shows "calls (next_step m f) s Q"
  using assms by (fastforce simp: calls_def next_step_def split: prod.splits sum.splits)

lemma calls_attempt:
  assumes "calls m s (\<lambda>r w. case r of Inr x \<Rightarrow> Q (Inr x) w
    | Inl e \<Rightarrow> calls (h e) (s\<lparr>ex_log := ex_log s @ w\<rparr>) (\<lambda>r w'. Q r (w @ w')))"
  shows "calls (attempt m h) s Q"
  using assms by (fastforce simp: calls_def attempt_def split: prod.splits sum.splits)

lemma calls_mono: "calls m s Q \<Longrightarrow> (\<And>r w. Q r w \<Longrightarrow> Q' r w) \<Longrightarrow> calls m s Q'"
  by (auto simp: calls_def)




section \<open>Filling\<close>








text \<open>C39: A tab that has moved cannot be reported.  If the page a session inspects is on another
  origin, the decision is to refuse and report, but the API rejects every such report without
  effect, with whatever nonce; the end of the session that the extension then requests
  leaves the application as it was, waiting in \<open>filling\<close>.\<close>

theorem moved_tab_unreportable:
  assumes "originOf_url E (ip_url page) \<noteq> Some (gr_origin g)" and "parse_url E' = parse_url E"
    and "find_session ws (gr_session_id g) t = Some row" and "fs_origin row = gr_origin g"
  shows "\<exists>rep. decide E g page fp adapter = Refuse rep \<and>
    (\<exists>e. reportFillSession E' protocol (Some (DevicePrincipal device ws)) nonce (gr_session_id g) rep t = (Inl e, t)) \<and>
    applications (snd (endFillSession E' protocol (Some (DevicePrincipal device ws)) nonce (gr_session_id g) t)) = applications t"
proof (intro exI conjI)
  show "decide E g page fp adapter = Refuse (base_report page fp adapter)"
    using assms(1) by (simp add: decide_def Let_def)
  have "normalizeOrigin E' (ip_url page) \<noteq> Inr (fs_origin row)"
    using assms(1,2,4) by (auto simp: normalizeOrigin_def originOf_url_def split: option.splits)
  then have "wp (reportFillSession E' protocol (Some (DevicePrincipal device ws)) nonce (gr_session_id g) (base_report page fp adapter))
      (\<lambda>_ _. False) (\<lambda>_ s'. s' = t) t"
    using assms(3)
    by (auto simp: reportFillSession_def base_report_def loadSession_def verifyNonce_def split: option.split sum.split)
  then show "reportFillSession E' protocol (Some (DevicePrincipal device ws)) nonce (gr_session_id g) (base_report page fp adapter) t =
      (Inl (case fst (reportFillSession E' protocol (Some (DevicePrincipal device ws)) nonce (gr_session_id g)
         (base_report page fp adapter) t) of Inl e \<Rightarrow> e), t)"
    by (auto simp: wp_def split: prod.splits sum.splits)
  have "wp (endFillSession E' protocol (Some (DevicePrincipal device ws)) nonce (gr_session_id g))
      (\<lambda>_ s'. applications s' = applications t) (\<lambda>_ s'. applications s' = applications t) t"
    by (auto simp: endFillSession_def loadSession_def verifyNonce_def split: option.split)
  then show "applications (snd (endFillSession E' protocol (Some (DevicePrincipal device ws)) nonce (gr_session_id g) t)) = applications t"
    by (auto simp: wp_def split: prod.splits sum.splits)
qed

section \<open>Confirmations\<close>

definition answered :: "world \<Rightarrow> int \<Rightarrow> content_message \<Rightarrow> bool" where
  "answered W tab m \<longleftrightarrow> (\<exists>past. on_tab W past (SendTab tab PageReadConfirmation) = Inr m)"

fun look_call :: "world \<Rightarrow> env \<Rightarrow> api_options \<Rightarrow> awaiting_submission \<Rightarrow> int \<Rightarrow> ext_call \<Rightarrow> bool" where
  "look_call W E o' item tab (InjectScript t) = (t = tab)"
| "look_call W E o' item tab (SendTab t m) = (t = tab \<and> m = PageReadConfirmation)"
| "look_call W E o' item tab (SendObservation p i b) =
     (p = o' \<and> i = aw_fill_session_id item \<and> originOf_url E (ro_page_url b) = Some (pd_origin (aw_destination item)) \<and>
      (\<exists>m. answered W tab m \<and> is_look m \<and> b = look_report (cm_url m) m))"
| "look_call W E o' item tab _ = False"

definition is_observation :: "ext_call \<Rightarrow> bool" where
  "is_observation c = (case c of SendObservation _ _ _ \<Rightarrow> True | _ \<Rightarrow> False)"

definition is_read :: "ext_call \<Rightarrow> bool" where
  "is_read c = (case c of SendTab _ _ \<Rightarrow> True | _ \<Rightarrow> False)"

lemma read_loop_calls:
  assumes "\<forall>m. seen = Some m \<longrightarrow> answered W tab m"
  shows "calls (read_loop W tab n seen) s (\<lambda>r work. list_all (look_call W E o' item tab) work \<and> filter is_observation work = [] \<and>
     length (filter is_read work) \<le> n \<and> (\<forall>m. r = Inr (Some m) \<longrightarrow> answered W tab m))"
  using assms
proof (induction n arbitrary: seen s)
  case (Suc n)
  have again: "calls (read_loop W tab n (Some m)) t (\<lambda>r work. list_all (look_call W E o' item tab) work \<and> filter is_observation work = [] \<and>
      length (filter is_read work) \<le> n \<and> (\<forall>m. r = Inr (Some m) \<longrightarrow> answered W tab m))" if "answered W tab m" for m t
    by (rule Suc.IH) (simp add: that)
  have seen: "answered W tab m" if "on_tab W (ex_log s) (SendTab tab PageReadConfirmation) = Inr m" for m
    using that by (auto simp: answered_def)
  show ?case
    unfolding read_loop.simps
    by (intro calls_next) (auto simp: is_observation_def is_read_def split: sum.split intro!: calls_mono [OF again] seen)
qed simp

lemma look_report_url: "ro_page_url (look_report u m) = u"
  by (simp add: look_report_def split: prod.split)

text \<open>C33: Looking for a confirmation only looks.  It always returns; if the browser is paired, the
  chosen tab is on the employer's site or nothing is called at all; every call injects
  the reader into that tab, reads it, at most as often as there are attempts, or sends the
  one observation, for the session of the item, of a page on the employer's origin.  An
  observation is coherent for the API whatever session it is about, and one that claims a
  confirmation carries the words and the reference the page answered with.\<close>

theorem look_only_looks:
  assumes "checkConfirmation E W item attempts choice s = (r, s')" and "readPairing s = (Inr (Some o'), s)"
    and "chosen_tab W choice = Some (tab, url)"
  shows "\<exists>v work. r = Inr v \<and> s' = s\<lparr>ex_log := ex_log s @ work\<rparr> \<and> list_all (look_call W E o' item tab) work \<and>
    (originOf_url E url \<noteq> Some (pd_origin (aw_destination item)) \<longrightarrow> work = []) \<and>
    length (filter is_read work) \<le> attempts \<and> length (filter is_observation work) \<le> 1 \<and>
    (\<forall>p i b E' row. SendObservation p i b \<in> set work \<longrightarrow> observationResultIsCoherent (look_result E' row b))"
proof -
  have coherent: "observationResultIsCoherent (look_result E' row b)" if "look_call W E o' item tab (SendObservation p i b)" for p i b E' row
    using that by (auto simp: observationResultIsCoherent_def look_result_def look_report_def is_look_def split: content_message.splits prod.splits)
  have "calls (checkConfirmation E W item attempts choice) s (\<lambda>r work. (\<exists>v. r = Inr v) \<and> list_all (look_call W E o' item tab) work \<and>
      (originOf_url E url \<noteq> Some (pd_origin (aw_destination item)) \<longrightarrow> work = []) \<and>
      length (filter is_read work) \<le> attempts \<and> length (filter is_observation work) \<le> 1)"
  proof -
    let ?Q = "\<lambda>r work. (\<exists>v. r = Inr v) \<and> list_all (look_call W E o' item tab) work \<and>
      (originOf_url E url \<noteq> Some (pd_origin (aw_destination item)) \<longrightarrow> work = []) \<and>
      length (filter is_read work) \<le> attempts \<and> length (filter is_observation work) \<le> 1"
    have reading: "calls (attempt (next_step (call (on_done W) (InjectScript tab)) (\<lambda>_. read_loop W tab attempts None)) (\<lambda>_. finish None)) s
        (\<lambda>r work. (\<exists>x. r = Inr x) \<and> list_all (look_call W E o' item tab) work \<and> length (filter is_read work) \<le> attempts \<and>
           filter is_observation work = [] \<and>
           (\<forall>m. r = Inr (Some m) \<longrightarrow> answered W tab m))"
      by (auto intro!: calls_next calls_attempt calls_mono [OF read_loop_calls [where E = E and o' = o' and item = item]]
          simp: is_read_def is_observation_def split: sum.split)
    have paired: "calls (next_step readPairing f) s P = calls (f (Some o')) s P" for f :: "_ \<Rightarrow> check_report run" and P
      using assms(2) by (simp add: calls_def next_step_def)
    have sending: "calls (attempt (next_step (call (on_observed W) (SendObservation o' (aw_fill_session_id item) (look_report (cm_url m) m)))
          (\<lambda>status. finish (Checked status))) (\<lambda>_. finish CheckRefused)) t
        (\<lambda>r work. (\<exists>x. r = Inr x) \<and> list_all (look_call W E o' item tab) work \<and> filter is_read work = [] \<and> length (filter is_observation work) \<le> 1)"
      if "answered W tab m" "is_look m" "originOf_url E (cm_url m) = Some (pd_origin (aw_destination item))" for m t
      using that by (auto intro!: calls_next calls_attempt simp: is_read_def is_observation_def look_report_url split: sum.split)
    show ?thesis
    proof (cases "originOf_url E url = Some (pd_origin (aw_destination item))")
      case True
      show ?thesis
        unfolding checkConfirmation_def paired assms(3) option.case prod.case
        apply (simp add: True)
        apply (rule calls_next, rule calls_mono [OF reading])
        apply (clarsimp split: option.split)
        apply (rule calls_mono [OF sending]; force)
        done
    qed (simp add: checkConfirmation_def paired assms(3))
  qed
  then show ?thesis using assms(1) coherent by (fastforce simp: calls_def list_all_iff)
qed

section \<open>A run\<close>

text \<open>A page with one required question, on which nothing can be typed.\<close>

definition sample_options :: api_options where
  "sample_options = \<lparr> ao_base_url = ''http://localhost'', ao_token = ''device-token'' \<rparr>"

definition sample_extension :: extension where
  "sample_extension = \<lparr> ex_pairing = Some \<lparr> st_base_url = ''http://localhost'', st_token = ''device-token'', st_device_id = ''device'',
     st_expires_at = ''later'' \<rparr>, ex_binding = None, ex_log = [] \<rparr>"

definition sample_grant :: fill_session_grant where
  "sample_grant = \<lparr> gr_session_id = ''session'', gr_nonce = ''nonce'', gr_expires_at = 9, gr_application_id = ''app'',
     gr_packet_id = ''packet'', gr_content_hash = ''h'', gr_origin = ''https://jobs.example'',
     gr_destination = \<lparr> pd_url = ''https://jobs.example/1'', pd_origin = ''https://jobs.example'', pd_connector = None, pd_connector_version = None \<rparr>,
     gr_job = \<lparr> fj_job_id = ''job'', fj_company = ''Acme'', fj_title = ''Engineer'' \<rparr>, gr_resume_file_id = None,
     gr_resume_sha256 = None, gr_resume_filename = None,
     gr_fields = [\<lparr> ff_question_key = ''city'', ff_label = None, ff_answer = AString ''Lima'', ff_required = True,
       ff_sensitivity = Standard \<rparr>], gr_known_form_fingerprint = None, gr_adapter = None \<rparr>"

definition stubborn_page :: content_message where
  "stubborn_page = PageInspected ''https://jobs.example/1'' (JObj [(''name'', JStr ''lever''), (''version'', JStr ''v1'')])
     (JObj [(''company'', JStr ''Acme''), (''title'', JStr ''Engineer'')])
     (JArr [JObj [(''selector'', JStr ''#c''), (''label'', JStr ''City''), (''kind'', JStr ''text''), (''required'', JBool True)]])"

definition stubborn_world :: world where
  "stubborn_world = \<lparr> active_tabs = [\<lparr> bt_id = Some 7, bt_url = Some ''https://jobs.example/1'' \<rparr>], tab_by_id = (\<lambda>_. None),
     on_exchange = (\<lambda>_ _. Inl Broken), on_list = (\<lambda>_ _. Inl Broken), on_open = (\<lambda>_ _. Inr sample_grant),
     on_resume = (\<lambda>_ _. Inl Broken), on_done = (\<lambda>_ _. Inr ()), on_observed = (\<lambda>_ _. Inr Submitted),
     on_tab = (\<lambda>_ c. case c of SendTab _ PageInspect \<Rightarrow> Inr stubborn_page
       | SendTab _ (PageFill _ _ _) \<Rightarrow>
           Inr (PageFilled ''https://jobs.example/1'' [\<lparr> px_key = ''#c'', px_outcome = ''failed'', px_label = None \<rparr>] [''#c''])
       | _ \<Rightarrow> Inr (PageConfirmation ''https://jobs.example/1'' JNull (Some (''Thank you'', Some ''A1'')))) \<rparr>"

lemma sample_parts:
  "readPairing sample_extension = (Inr (Some sample_options), sample_extension)"
  "chosen_tab stubborn_world None = Some (7, ''https://jobs.example/1'')"
  "originOf_url sample_env ''https://jobs.example/1'' = Some ''https://jobs.example''"
  by (simp_all add: readPairing_def observe_state_def sample_extension_def sample_options_def chosen_tab_def stubborn_world_def
      originOf_url_def sample_env_def sample_url_def)



theorem moved_tab_unreportable_witness:
  "\<exists>rep e. decide sample_env (sample_grant\<lparr>gr_origin := ''https://elsewhere''\<rparr>) \<lparr> ip_url = ''https://jobs.example/1'', ip_identity = JNull,
       ip_fields = JNull \<rparr> None None = Refuse rep \<and>
     reportFillSession sample_env (Some ''1.0'') (Some (DevicePrincipal ''device'' ''ws'')) (Some ''nonce'') ''session'' rep
       (empty_db\<lparr>fill_sessions := [sample_session\<lparr>fs_origin := ''https://elsewhere''\<rparr>]\<rparr>) =
     (Inl e, empty_db\<lparr>fill_sessions := [sample_session\<lparr>fs_origin := ''https://elsewhere''\<rparr>]\<rparr>)"
proof -
  let ?t = "empty_db\<lparr>fill_sessions := [sample_session\<lparr>fs_origin := ''https://elsewhere''\<rparr>]\<rparr>"
  have found: "find_session ''ws'' (gr_session_id (sample_grant\<lparr>gr_origin := ''https://elsewhere''\<rparr>)) ?t =
      Some (sample_session\<lparr>fs_origin := ''https://elsewhere''\<rparr>)"
    by (simp add: find_session_def scoped_find_def sample_grant_def sample_session_def new_session_def)
  show ?thesis
    using moved_tab_unreportable [OF _ refl found, of sample_env "\<lparr> ip_url = ''https://jobs.example/1'', ip_identity = JNull, ip_fields = JNull \<rparr>"
        None None "Some ''1.0''" "''device''" "Some ''nonce''"]
    by (auto simp: sample_parts sample_grant_def)
qed

definition sample_awaiting :: awaiting_submission where
  "sample_awaiting = \<lparr> aw_fill_session_id = ''session'', aw_application_id = ''app'', aw_job = gr_job sample_grant,
     aw_destination = gr_destination sample_grant, aw_filled_at = 1 \<rparr>"

theorem look_only_looks_witness:
  "\<exists>v work. fst (checkConfirmation sample_env stubborn_world sample_awaiting look_attempts None sample_extension) = Inr v \<and> v = Checked Submitted \<and>
     list_all (look_call stubborn_world sample_env sample_options sample_awaiting 7) work \<and> length (filter is_observation work) = 1"
proof -
  obtain r s' where run: "checkConfirmation sample_env stubborn_world sample_awaiting look_attempts None sample_extension = (r, s')" by fastforce
  have "fst (checkConfirmation sample_env stubborn_world sample_awaiting look_attempts None sample_extension) = Inr (Checked Submitted) \<and>
      length (filter is_observation (ex_log (snd (checkConfirmation sample_env stubborn_world sample_awaiting look_attempts None sample_extension)))) = 1"
    by code_simp
  then show ?thesis using look_only_looks [OF run sample_parts(1,2)] run by (auto simp: sample_extension_def)
qed

end
