(* ===== verification/Providers.thy ===== *)
theory Providers
  imports Usage Network
begin

text \<open>
  Model provider settings: the sealed API key (\<open>crypto/secrets.ts\<close>), which destinations a
  provider may have (\<open>settings/providers.ts\<close>), the settings routes (\<open>routes/providers.ts\<close>) and
  the connectivity test (\<open>settings/provider-test.ts\<close>).

  Byte strings are strings of characters below 256.  AES-GCM, the text encoder, the URL
  parser, DNS and the network are parameters; random nonces and row identifiers are
  arguments.  The bullet of a masked key stands for U+2022.
\<close>

section \<open>Sealed secrets\<close>

definition key_bytes :: nat where "key_bytes = 32"
definition nonce_bytes :: nat where "nonce_bytes = 12"
definition tag_bytes :: nat where "tag_bytes = 16"
definition nonce_offset :: nat where "nonce_offset = 1"
definition tag_offset :: nat where "tag_offset = nonce_offset + nonce_bytes"
definition ciphertext_offset :: nat where "ciphertext_offset = tag_offset + tag_bytes"
definition current_key_version :: int where "current_key_version = 1"

record cipher =
  gcm_seal :: "string \<Rightarrow> string \<Rightarrow> string \<Rightarrow> string \<times> string"
  gcm_open :: "string \<Rightarrow> string \<Rightarrow> string \<Rightarrow> string \<Rightarrow> string option"
  encode_text :: "string \<Rightarrow> string"
  decode_text :: "string \<Rightarrow> string"

record keyring =
  kr_current_version :: int
  kr_keys :: "(int \<times> string) list"

text \<open>A \<open>SecretCryptoError\<close> is \<open>None\<close>.\<close>

definition keyringFromConfig :: "string \<Rightarrow> keyring option" where
  "keyringFromConfig encryption_key =
     (if length encryption_key \<noteq> key_bytes then None
      else Some \<lparr> kr_current_version = current_key_version, kr_keys = [(current_key_version, encryption_key)] \<rparr>)"

definition keyFor :: "keyring \<Rightarrow> int \<Rightarrow> string option" where
  "keyFor k version = map_of (kr_keys k) version"

definition encryptSecret :: "cipher \<Rightarrow> keyring \<Rightarrow> string \<Rightarrow> string \<Rightarrow> string option" where
  "encryptSecret C k nonce plaintext =
     (case keyFor k (kr_current_version k) of None \<Rightarrow> None
      | Some key \<Rightarrow>
          let (ct, tag) = gcm_seal C key nonce (encode_text C plaintext)
          in Some (char_of (nat (kr_current_version k) mod 256) # nonce @ tag @ ct))"

definition decryptSecret :: "cipher \<Rightarrow> keyring \<Rightarrow> string \<Rightarrow> string option" where
  "decryptSecret C k envelope =
     (if length envelope \<le> ciphertext_offset then None
      else case keyFor k (int (of_char (hd envelope))) of None \<Rightarrow> None
      | Some key \<Rightarrow>
          let nonce = take nonce_bytes (drop nonce_offset envelope);
              tag = take tag_bytes (drop tag_offset envelope);
              ct = drop ciphertext_offset envelope
          in map_option (decode_text C) (gcm_open C key nonce tag ct))"

definition envelopeKeyVersion :: "string \<Rightarrow> int option" where
  "envelopeKeyVersion envelope =
     (if length envelope \<le> ciphertext_offset then None else Some (int (of_char (hd envelope))))"

definition bullets :: string where
  "bullets = replicate 4 (CHR 0x95)"

definition maskSecret :: "string \<Rightarrow> string" where
  "maskSecret plaintext =
     (if length plaintext < 8 then bullets else bullets @ drop (length plaintext - 4) plaintext)"

section \<open>Settings\<close>

record provider_config =
  allowed_fetch_hosts :: "string list"
  local_model_base_url :: "string option"
  encryption_key :: string

record network_library =
  nl_is_ip :: "string \<Rightarrow> nat"
  nl_resolve :: "string \<Rightarrow> string list option"

definition sendsDataExternally :: "provider_id \<Rightarrow> bool" where
  "sendsDataExternally p \<longleftrightarrow> p = OpenaiCompatible"

record provider_settings_view =
  sv_provider :: provider_id
  sv_model :: string
  sv_base_url :: "string option"
  sv_api_key_set :: bool
  sv_api_key_masked :: "string option"
  sv_limits :: provider_limits
  sv_rate_card :: "rate_card option"
  sv_sends_data_externally :: bool
  sv_updated_at :: "timestamp option"

definition toProviderSettingsView :: "provider_settings_row option \<Rightarrow> provider_settings_view" where
  "toProviderSettingsView row =
     (let config = readValidatedConfig row;
          provider = (case row of None \<Rightarrow> NoProvider | Some r \<Rightarrow> ps_provider r);
          secret = (case row of None \<Rightarrow> None | Some r \<Rightarrow> ps_secret_ciphertext r)
      in \<lparr> sv_provider = provider, sv_model = (case row of None \<Rightarrow> [] | Some r \<Rightarrow> ps_model r),
           sv_base_url = (case row of None \<Rightarrow> None | Some r \<Rightarrow> ps_base_url r),
           sv_api_key_set = (secret \<noteq> None),
           sv_api_key_masked = (if secret = None then None else vc_api_key_masked config),
           sv_limits = provider_limits_of config, sv_rate_card = vc_rate_card config,
           sv_sends_data_externally = sendsDataExternally provider, sv_updated_at = map_option ps_updated_at row \<rparr>)"

text \<open>The operator's hosts, and the host of the configured local model, with and without its port.\<close>

definition local_hosts :: "env \<Rightarrow> provider_config \<Rightarrow> string list" where
  "local_hosts E cfg =
     (case local_model_base_url cfg of None \<Rightarrow> []
      | Some raw \<Rightarrow>
          (case parse_url E raw of None \<Rightarrow> []
           | Some u \<Rightarrow>
               let host = bareHostname u in
               host # (if url_port u \<noteq> [] then [host @ '':'' @ url_port u] else [])))"

definition fetchPolicyFor :: "env \<Rightarrow> provider_config \<Rightarrow> provider_id \<Rightarrow> bool \<Rightarrow> fetch_policy" where
  "fetchPolicyFor E cfg provider best_effort =
     (if provider = Ollama
      then \<lparr> require_https = False, allowed_hosts = allowed_fetch_hosts cfg @ local_hosts E cfg, best_effort_dns = best_effort \<rparr>
      else \<lparr> require_https = True, allowed_hosts = [], best_effort_dns = best_effort \<rparr>)"

datatype api_key_change = KeepKey | ClearKey | SetKey string

record provider_put_request =
  pq_provider :: provider_id
  pq_model :: string
  pq_base_url :: "string option"
  pq_api_key :: api_key_change
  pq_limits :: provider_limits
  pq_rate_card :: "rate_card option"

definition parseBaseUrl :: "env \<Rightarrow> string \<Rightarrow> api_error + url" where
  "parseBaseUrl E raw = (case parse_url E raw of None \<Rightarrow> Inl Unprocessable | Some u \<Rightarrow> Inr u)"

definition assertProviderRequestAllowed ::
  "env \<Rightarrow> network_library \<Rightarrow> provider_config \<Rightarrow> provider_put_request \<Rightarrow> api_error + unit" where
  "assertProviderRequestAllowed E N cfg b =
     (if pq_provider b = NoProvider \<or> pq_provider b = FakeProvider then
        (if pq_base_url b \<noteq> None then Inl Unprocessable else Inr ())
      else case pq_base_url b of None \<Rightarrow> Inl Unprocessable
      | Some raw \<Rightarrow>
          case parseBaseUrl E raw of Inl e \<Rightarrow> Inl e
          | Inr u \<Rightarrow>
              let policy = fetchPolicyFor E cfg (pq_provider b) True in
              if pq_provider b = Ollama \<and> \<not> isAllowlisted u (allowed_hosts policy) then Inl Unprocessable
              else case assertUrlAllowed (nl_is_ip N) (nl_resolve N) u policy of
                Inl _ \<Rightarrow> Inl Unprocessable
              | Inr _ \<Rightarrow> Inr ())"

definition getProviderSettings :: "uuid \<Rightarrow> (db, provider_settings_view) handler" where
  "getProviderSettings ws = gets (\<lambda>s. toProviderSettingsView (loadProviderSettings ws s))"

text \<open>What becomes of the ciphertext, the mask and the key version; the first component is
  \<open>None\<close> when the column is left alone.\<close>

definition key_update ::
  "cipher \<Rightarrow> keyring \<Rightarrow> string \<Rightarrow> validated_provider_config \<Rightarrow> api_key_change
     \<Rightarrow> api_error + string option option \<times> string option \<times> int option" where
  "key_update C k nonce existing change =
     (case change of
        KeepKey \<Rightarrow> Inr (None, vc_api_key_masked existing, vc_key_version existing)
      | ClearKey \<Rightarrow> Inr (Some None, None, None)
      | SetKey key \<Rightarrow>
          if key = [] then Inr (Some None, None, None)
          else (case encryptSecret C k nonce key of None \<Rightarrow> Inl InternalError
            | Some sealed \<Rightarrow> Inr (Some (Some sealed), Some (maskSecret key), Some (kr_current_version k))))"

definition mirrored_budget :: "provider_put_request \<Rightarrow> rat option" where
  "mirrored_budget b = (if pq_rate_card b = None then None else li_daily_cost_budget (pq_limits b))"

definition put_row ::
  "env \<Rightarrow> uuid \<Rightarrow> provider_put_request \<Rightarrow> string option \<Rightarrow> string option \<Rightarrow> int option \<Rightarrow> provider_settings_row" where
  "put_row E ws b secret masked version =
     \<lparr> ps_workspace_id = ws, ps_provider = pq_provider b, ps_base_url = pq_base_url b, ps_model = pq_model b,
       ps_secret_ciphertext = secret, ps_daily_budget = mirrored_budget b,
       ps_validated_config = \<lparr> vc_limits = Some (pq_limits b), vc_rate_card = pq_rate_card b,
         vc_api_key_masked = masked, vc_key_version = version \<rparr>,
       ps_updated_at = now E \<rparr>"

fun provider_text :: "provider_id \<Rightarrow> string" where
  "provider_text NoProvider = ''none''"
| "provider_text FakeProvider = ''fake''"
| "provider_text Ollama = ''ollama''"
| "provider_text OpenaiCompatible = ''openai_compatible''"

definition provider_audit :: "provider_put_request \<Rightarrow> bool \<Rightarrow> bool \<Rightarrow> int option \<Rightarrow> json" where
  "provider_audit b present changed version =
     JObj [(''provider'', JStr (provider_text (pq_provider b))), (''model'', JStr (pq_model b)),
           (''api_key_present'', JBool present), (''api_key_changed'', JBool changed),
           (''key_version'', jopt JNum version), (''sends_data_externally'', JBool (sendsDataExternally (pq_provider b)))]"

text \<open>\<open>row_id\<close> is the identifier of the row the audit entry names, if there was one.\<close>

definition store_settings ::
  "env \<Rightarrow> uuid \<Rightarrow> uuid \<Rightarrow> uuid option \<Rightarrow> provider_put_request \<Rightarrow> string option option \<Rightarrow> string option \<Rightarrow> int option
     \<Rightarrow> (db, provider_settings_row option) handler" where
  "store_settings E ws user row_id b secret masked version =
     transaction (
       andThen (gets (loadProviderSettings ws)) (\<lambda>current.
       andThen (case current of
         None \<Rightarrow> modify (provider_settings_update (insert_row (put_row E ws b (case secret of None \<Rightarrow> None | Some x \<Rightarrow> x) masked version)))
       | Some r \<Rightarrow> modify (provider_settings_update (scoped_update ps_workspace_id ws (\<lambda>_. True)
           (\<lambda>r. put_row E ws b (case secret of None \<Rightarrow> ps_secret_ciphertext r | Some x \<Rightarrow> x) masked version)))) (\<lambda>_.
       andThen (recordAuditEvent ws ''provider_settings.updated'' (Some user) row_id (Some ''provider_settings'')
         (provider_audit b
           ((case secret of Some (Some _) \<Rightarrow> True | _ \<Rightarrow> current \<noteq> None \<and> ps_secret_ciphertext (the current) \<noteq> None))
           (secret \<noteq> None) version)) (\<lambda>_.
       gets (loadProviderSettings ws)))))"

definition putProviderSettings ::
  "env \<Rightarrow> network_library \<Rightarrow> cipher \<Rightarrow> provider_config \<Rightarrow> uuid \<Rightarrow> uuid \<Rightarrow> uuid option \<Rightarrow> string \<Rightarrow> provider_put_request
     \<Rightarrow> (db, provider_settings_view) handler" where
  "putProviderSettings E N C cfg ws user row_id nonce b =
     andThen (reads (\<lambda>_. assertProviderRequestAllowed E N cfg b)) (\<lambda>_.
     andThen (require (keyringFromConfig (encryption_key cfg)) InternalError) (\<lambda>k.
     andThen (gets (\<lambda>s. readValidatedConfig (loadProviderSettings ws s))) (\<lambda>existing.
     andThen (reads (\<lambda>_. key_update C k nonce existing (pq_api_key b))) (\<lambda>(secret, masked, version).
     andThen (store_settings E ws user row_id b secret masked version) (\<lambda>updated.
     ret (toProviderSettingsView updated))))))"

section \<open>The connectivity test\<close>

definition max_redirects :: nat where
  "max_redirects = 3"

definition max_body_bytes :: int where
  "max_body_bytes = 2 * 1024 * 1024"

type_synonym headers = "(string \<times> string) list"

record fetch_response =
  fr_status :: int
  fr_location :: "string option"
  fr_declared_length :: "int option"
  fr_text_length :: int
  fr_json :: "json option"

text \<open>The network: \<open>None\<close> is a failure to connect or a timeout.\<close>

record fetcher =
  do_fetch :: "string \<Rightarrow> headers \<Rightarrow> fetch_response option"
  resolve_location :: "string \<Rightarrow> url \<Rightarrow> url option"

datatype probe_failure = NotAllowed | FetchFailed

text \<open>The answer with the requests that were made, in order.\<close>

fun fetch_hops ::
  "network_library \<Rightarrow> fetcher \<Rightarrow> fetch_policy \<Rightarrow> headers \<Rightarrow> nat \<Rightarrow> url \<Rightarrow> (probe_failure + fetch_response) \<times> (string \<times> headers) list" where
  "fetch_hops N F policy hs 0 u = (Inl NotAllowed, [])"
| "fetch_hops N F policy hs (Suc n) u =
     (case assertUrlAllowed (nl_is_ip N) (nl_resolve N) u policy of Inl _ \<Rightarrow> (Inl NotAllowed, [])
      | Inr _ \<Rightarrow>
          (case do_fetch F (url_href u) hs of None \<Rightarrow> (Inl FetchFailed, [(url_href u, hs)])
           | Some r \<Rightarrow>
               if fr_status r < 300 \<or> fr_status r \<ge> 400 then (Inr r, [(url_href u, hs)])
               else case fr_location r of None \<Rightarrow> (Inr r, [(url_href u, hs)])
               | Some location \<Rightarrow>
                   (case resolve_location F location u of None \<Rightarrow> (Inl NotAllowed, [(url_href u, hs)])
                    | Some target \<Rightarrow>
                        let (answer, made) = fetch_hops N F policy hs n target in (answer, (url_href u, hs) # made))))"

definition fetchWithPolicy ::
  "env \<Rightarrow> network_library \<Rightarrow> fetcher \<Rightarrow> provider_config \<Rightarrow> provider_id \<Rightarrow> headers \<Rightarrow> url
     \<Rightarrow> (probe_failure + fetch_response) \<times> (string \<times> headers) list" where
  "fetchWithPolicy E N F cfg provider hs u =
     fetch_hops N F (fetchPolicyFor E cfg provider False) hs (Suc max_redirects) u"

definition readBoundedJson :: "fetch_response \<Rightarrow> json option" where
  "readBoundedJson r =
     (if (case fr_declared_length r of None \<Rightarrow> False | Some n \<Rightarrow> n > max_body_bytes) then None
      else if fr_text_length r > max_body_bytes then None
      else fr_json r)"

definition nullish :: "json option \<Rightarrow> json option \<Rightarrow> json option" where
  "nullish a b = (case a of None \<Rightarrow> b | Some x \<Rightarrow> if x = JNull then b else Some x)"

definition model_name :: "json \<Rightarrow> string list" where
  "model_name entry =
     (case entry of
        JStr s \<Rightarrow> [s]
      | JObj kvs \<Rightarrow>
          (case nullish (map_of (rev kvs) ''name'') (nullish (map_of (rev kvs) ''id'') (map_of (rev kvs) ''model'')) of
             Some (JStr s) \<Rightarrow> [s] | _ \<Rightarrow> [])
      | _ \<Rightarrow> [])"

definition modelNames :: "json option \<Rightarrow> string list option" where
  "modelNames payload =
     (case payload of
        Some (JObj kvs) \<Rightarrow>
          (case map_of (rev kvs) ''models'' of
             Some (JArr xs) \<Rightarrow> Some (concat (map model_name xs))
           | _ \<Rightarrow> (case map_of (rev kvs) ''data'' of Some (JArr xs) \<Rightarrow> Some (concat (map model_name xs)) | _ \<Rightarrow> None))
      | _ \<Rightarrow> None)"

definition endpoint :: "url \<Rightarrow> string \<Rightarrow> url" where
  "endpoint base path =
     (let full = rev (dropWhile (\<lambda>c. c = CHR ''/'') (rev (url_pathname base))) @ path in
      base \<lparr> url_pathname := full, url_params := [], url_href := url_origin base @ full \<rparr>)"

record provider_test_result =
  pt_reachable :: bool
  pt_structured_output_supported :: "bool option"
  pt_model_available :: "bool option"
  pt_latency_known :: bool

definition probe_headers :: "provider_id \<Rightarrow> string option \<Rightarrow> headers" where
  "probe_headers provider key =
     (''accept'', ''application/json'') #
     (case key of Some k \<Rightarrow> if provider = OpenaiCompatible then [(''authorization'', ''Bearer '' @ k)] else [] | None \<Rightarrow> [])"

definition probe_answer :: "string \<Rightarrow> probe_failure + fetch_response \<Rightarrow> api_error + provider_test_result" where
  "probe_answer model answer =
     (case answer of
        Inl NotAllowed \<Rightarrow> Inl Unprocessable
      | Inl FetchFailed \<Rightarrow>
          Inr \<lparr> pt_reachable = False, pt_structured_output_supported = None, pt_model_available = None, pt_latency_known = True \<rparr>
      | Inr r \<Rightarrow>
          Inr \<lparr> pt_reachable = True, pt_structured_output_supported = None,
                pt_model_available =
                  (if fr_status r = 401 \<or> fr_status r = 403 \<or> \<not> (200 \<le> fr_status r \<and> fr_status r < 300) then None
                   else map_option (\<lambda>names. model \<in> set names) (modelNames (readBoundedJson r))),
                pt_latency_known = True \<rparr>)"

definition probeProvider ::
  "env \<Rightarrow> network_library \<Rightarrow> fetcher \<Rightarrow> provider_config \<Rightarrow> provider_settings_row option \<Rightarrow> string option
     \<Rightarrow> (api_error + provider_test_result) \<times> (string \<times> headers) list" where
  "probeProvider E N F cfg row key =
     (case (case row of None \<Rightarrow> NoProvider | Some r \<Rightarrow> ps_provider r) of
        NoProvider \<Rightarrow> (Inr \<lparr> pt_reachable = False, pt_structured_output_supported = None, pt_model_available = None,
          pt_latency_known = False \<rparr>, [])
      | FakeProvider \<Rightarrow> (Inr \<lparr> pt_reachable = True, pt_structured_output_supported = Some True, pt_model_available = Some True,
          pt_latency_known = True \<rparr>, [])
      | provider \<Rightarrow>
          (case ps_base_url (the row) of None \<Rightarrow> (Inl Unprocessable, [])
           | Some raw \<Rightarrow>
               (case parseBaseUrl E raw of Inl e \<Rightarrow> (Inl e, [])
                | Inr base \<Rightarrow>
                    let (answer, made) = fetchWithPolicy E N F cfg provider (probe_headers provider key)
                      (endpoint base (if provider = Ollama then ''/api/tags'' else ''/models''))
                    in (probe_answer (ps_model (the row)) answer, made))))"

definition stored_key :: "cipher \<Rightarrow> provider_config \<Rightarrow> provider_settings_row option \<Rightarrow> api_error + string option" where
  "stored_key C cfg row =
     (case (case row of None \<Rightarrow> None | Some r \<Rightarrow> ps_secret_ciphertext r) of None \<Rightarrow> Inr None
      | Some envelope \<Rightarrow>
          (case keyringFromConfig (encryption_key cfg) of None \<Rightarrow> Inl InternalError
           | Some k \<Rightarrow> (case decryptSecret C k envelope of None \<Rightarrow> Inl InternalError | Some key \<Rightarrow> Inr (Some key))))"

definition testProviderSettings ::
  "env \<Rightarrow> network_library \<Rightarrow> fetcher \<Rightarrow> cipher \<Rightarrow> provider_config \<Rightarrow> uuid \<Rightarrow> (db, provider_test_result) handler" where
  "testProviderSettings E N F C cfg ws =
     andThen (gets (loadProviderSettings ws)) (\<lambda>row.
     andThen (reads (\<lambda>_. stored_key C cfg row)) (\<lambda>key.
     reads (\<lambda>_. fst (probeProvider E N F cfg row key))))"

end
