(* ===== verification/ProviderProperties.thy ===== *)
theory ProviderProperties
  imports Providers Samples
begin

text \<open>
  What the provider settings promise about the API key, and where the connectivity test goes.
\<close>

section \<open>The sealed key\<close>

text \<open>What AES-GCM and the text encoder document: what was sealed opens again under the same key
  and nonce, the tag has sixteen bytes, nothing but the empty text is encoded as nothing.\<close>

definition good_cipher :: "cipher \<Rightarrow> bool" where
  "good_cipher C \<longleftrightarrow>
     (\<forall>key nonce text. case gcm_seal C key nonce text of (ct, tag) \<Rightarrow>
        length tag = tag_bytes \<and> (text \<noteq> [] \<longrightarrow> ct \<noteq> []) \<and> gcm_open C key nonce tag ct = Some text) \<and>
     (\<forall>text. decode_text C (encode_text C text) = text \<and> (text \<noteq> [] \<longrightarrow> encode_text C text \<noteq> []))"

lemma secret_roundtrip:
  assumes "good_cipher C" and "keyringFromConfig config_key = Some k" and "length nonce = nonce_bytes" and "text \<noteq> []"
    and "encryptSecret C k nonce text = Some envelope"
  shows "decryptSecret C k envelope = Some text"
proof -
  obtain ct tag where sealed: "gcm_seal C config_key nonce (encode_text C text) = (ct, tag)" by fastforce
  have k: "k = \<lparr> kr_current_version = 1, kr_keys = [(1, config_key)] \<rparr>"
    using assms(2) by (simp add: keyringFromConfig_def current_key_version_def split: if_splits)
  have envelope: "envelope = char_of (1::nat) # nonce @ tag @ ct"
    using assms(5) sealed by (simp add: encryptSecret_def keyFor_def k del: One_nat_def)
  have "length tag = tag_bytes" "ct \<noteq> []" "gcm_open C config_key nonce tag ct = Some (encode_text C text)"
  proof -
    have "case gcm_seal C config_key nonce (encode_text C text) of (ct, tag) \<Rightarrow>
        length tag = tag_bytes \<and> (encode_text C text \<noteq> [] \<longrightarrow> ct \<noteq> []) \<and> gcm_open C config_key nonce tag ct = Some (encode_text C text)"
      by (rule conjunct1 [OF assms(1) [unfolded good_cipher_def], THEN spec [of _ config_key], THEN spec [of _ nonce],
            THEN spec [of _ "encode_text C text"]])
    moreover have "encode_text C text \<noteq> []" using assms(1,4) by (simp add: good_cipher_def)
    ultimately show "length tag = tag_bytes" "ct \<noteq> []" "gcm_open C config_key nonce tag ct = Some (encode_text C text)"
      using sealed by simp_all
  qed
  then show ?thesis
    using assms(1,3)
    by (simp add: decryptSecret_def envelope k keyFor_def ciphertext_offset_def tag_offset_def nonce_offset_def
        nonce_bytes_def tag_bytes_def good_cipher_def)
qed

lemma loadProviderSettings_put:
  assumes "loadProviderSettings ws s = current"
  shows "current = None \<Longrightarrow> ps_workspace_id r = ws \<Longrightarrow>
      loadProviderSettings ws (provider_settings_update (insert_row r) s) = Some r"
    and "current = Some old \<Longrightarrow> (\<And>x. ps_workspace_id (f x) = ws) \<Longrightarrow>
      loadProviderSettings ws (provider_settings_update (scoped_update ps_workspace_id ws (\<lambda>_. True) f) s) = Some (f old)"
proof -
  have "find P (map (\<lambda>r. if ps_workspace_id r = ws \<and> Q r then f r else r) rows) = Some (f old)"
    if "find (\<lambda>r. ps_workspace_id r = ws) rows = Some old" "\<And>x. ps_workspace_id (f x) = ws"
      "P = (\<lambda>r. ps_workspace_id r = ws)" "Q = (\<lambda>_. True)" for P Q and rows :: "provider_settings_row list"
    using that by (induction rows) (auto split: if_splits)
  then show "current = Some old \<Longrightarrow> (\<And>x. ps_workspace_id (f x) = ws) \<Longrightarrow>
      loadProviderSettings ws (provider_settings_update (scoped_update ps_workspace_id ws (\<lambda>_. True) f) s) = Some (f old)"
    using assms by (auto simp: loadProviderSettings_def scoped_find_def scoped_update_def)
  show "current = None \<Longrightarrow> ps_workspace_id r = ws \<Longrightarrow>
      loadProviderSettings ws (provider_settings_update (insert_row r) s) = Some r"
    using assms by (simp add: loadProviderSettings_def scoped_find_insert_new)
qed

definition kept_secret :: "provider_settings_row option \<Rightarrow> string option option \<Rightarrow> string option" where
  "kept_secret current secret =
     (case secret of Some x \<Rightarrow> x | None \<Rightarrow> (case current of None \<Rightarrow> None | Some r \<Rightarrow> ps_secret_ciphertext r))"

lemma wp_store_settings:
  assumes "\<And>t. loadProviderSettings ws t = Some (put_row E ws b (kept_secret (loadProviderSettings ws s) secret) masked version) \<Longrightarrow>
      Q (Some (put_row E ws b (kept_secret (loadProviderSettings ws s) secret) masked version)) t"
  shows "wp (store_settings E ws user row_id b secret masked version) Q F s"
proof -
  have audit [simp]: "loadProviderSettings ws (audit_events_update f t) = loadProviderSettings ws t" for f t
    by (simp add: loadProviderSettings_def)
  have row: "ps_workspace_id (put_row E ws b x masked version) = ws" for x by (simp add: put_row_def)
  have stored: "Q r t" if "r = Some (put_row E ws b (kept_secret (loadProviderSettings ws s) secret) masked version)"
      "loadProviderSettings ws t = r" for r t
    using assms that by simp
  show ?thesis
  proof (cases "loadProviderSettings ws s")
    case None
    then show ?thesis unfolding store_settings_def
      by simp (rule stored; simp add: row kept_secret_def loadProviderSettings_put [OF refl] split: option.split)
  next
    case (Some r)
    then show ?thesis unfolding store_settings_def
      by simp (rule stored; simp add: row kept_secret_def loadProviderSettings_put [OF refl] split: option.split)
  qed
qed

text \<open>C23: The API key a workspace stores is the one its requests use, and nothing else about it
  gets out.  After settings are stored with a key, that key, sealed under the operator's key,
  opens to exactly what was sent; the view says a key is set and shows its last four
  characters at most, none of a key shorter than eight; storing without a key leaves the
  stored one as it was, and storing \<open>null\<close> or nothing removes it.\<close>

theorem provider_key_roundtrip:
  assumes "good_cipher C" and "length nonce = nonce_bytes"
    and "putProviderSettings E N C cfg ws user row_id nonce b s = (Inr v, s')"
  shows "stored_key C cfg (loadProviderSettings ws s') =
      (case pq_api_key b of
         KeepKey \<Rightarrow> stored_key C cfg (loadProviderSettings ws s)
       | ClearKey \<Rightarrow> Inr None
       | SetKey key \<Rightarrow> Inr (if key = [] then None else Some key)) \<and>
    v = toProviderSettingsView (loadProviderSettings ws s') \<and> assertProviderRequestAllowed E N cfg b = Inr () \<and>
    (\<forall>key. pq_api_key b = SetKey key \<longrightarrow>
       sv_api_key_set v = (key \<noteq> []) \<and> sv_api_key_masked v = (if key = [] then None else Some (maskSecret key)))"
proof -
  have "wp (putProviderSettings E N C cfg ws user row_id nonce b)
    (\<lambda>v s'. stored_key C cfg (loadProviderSettings ws s') =
      (case pq_api_key b of
         KeepKey \<Rightarrow> stored_key C cfg (loadProviderSettings ws s)
       | ClearKey \<Rightarrow> Inr None
       | SetKey key \<Rightarrow> Inr (if key = [] then None else Some key)) \<and>
    v = toProviderSettingsView (loadProviderSettings ws s') \<and> assertProviderRequestAllowed E N cfg b = Inr () \<and>
    (\<forall>key. pq_api_key b = SetKey key \<longrightarrow>
       sv_api_key_set v = (key \<noteq> []) \<and> sv_api_key_masked v = (if key = [] then None else Some (maskSecret key)))) (\<lambda>_ _. True) s"
  proof -
    have opened: "stored_key C cfg (Some (put_row E ws b (Some envelope) m n)) = Inr (Some key)"
      if "keyringFromConfig (encryption_key cfg) = Some k" "key \<noteq> []" "encryptSecret C k nonce key = Some envelope" for k key envelope m n
      using secret_roundtrip [OF assms(1) that(1) assms(2) that(2,3)] that(1)
      by (simp add: stored_key_def put_row_def)
    have kept: "stored_key C cfg (Some (put_row E ws b (kept_secret current None) m n)) = stored_key C cfg current" for current m n
      by (simp add: stored_key_def put_row_def kept_secret_def split: option.split)
    have cleared: "stored_key C cfg (Some (put_row E ws b None m n)) = Inr None" for m n
      by (simp add: stored_key_def put_row_def)
    have shown: "sv_api_key_set (toProviderSettingsView (Some (put_row E ws b x m n))) = (x \<noteq> None)"
      "sv_api_key_masked (toProviderSettingsView (Some (put_row E ws b x m n))) = (if x = None then None else m)" for x m n
      by (simp_all add: toProviderSettingsView_def Let_def put_row_def readValidatedConfig_def)
    show ?thesis
      unfolding putProviderSettings_def
      by (auto simp: key_update_def kept cleared opened shown kept_secret_def [of _ "Some _"] split: sum.split option.split api_key_change.split
          intro!: wp_store_settings)
  qed
  from wp_okD [OF this assms(3)] show ?thesis .
qed

text \<open>The database with the sealed keys taken out.\<close>

definition hide_secrets :: "db \<Rightarrow> db" where
  "hide_secrets s = provider_settings_update (map (\<lambda>r. r\<lparr>ps_secret_ciphertext := None\<rparr>)) s"

lemma hide_secrets_simps:
  "hide_secrets (audit_events_update f s) = audit_events_update f (hide_secrets s)"
  "hide_secrets (provider_settings_update (insert_row (put_row E ws b (Some x) m n)) s) =
     hide_secrets (provider_settings_update (insert_row (put_row E ws b None m n)) s)"
  "hide_secrets (provider_settings_update (scoped_update ps_workspace_id ws P (\<lambda>_. put_row E ws b (Some x) m n)) s) =
     hide_secrets (provider_settings_update (scoped_update ps_workspace_id ws P (\<lambda>_. put_row E ws b None m n)) s)"
  by (simp_all add: hide_secrets_def put_row_def insert_row_def scoped_update_def o_def if_distrib cong: if_cong)

lemma view_hides: "toProviderSettingsView (Some (put_row E ws b (Some x) m n)) = toProviderSettingsView (Some (put_row E ws b (Some y) m n))"
  by (simp add: toProviderSettingsView_def put_row_def readValidatedConfig_def Let_def)

lemma request_without_key:
  "assertProviderRequestAllowed E N cfg (b\<lparr>pq_api_key := x\<rparr>) = assertProviderRequestAllowed E N cfg b"
  "put_row E ws (b\<lparr>pq_api_key := x\<rparr>) = put_row E ws b"
  "provider_audit (b\<lparr>pq_api_key := x\<rparr>) = provider_audit b"
  by (auto simp: assertProviderRequestAllowed_def put_row_def provider_audit_def mirrored_budget_def fun_eq_iff Let_def
      split: option.split sum.split)

definition stored_db :: "env \<Rightarrow> uuid \<Rightarrow> provider_put_request \<Rightarrow> string \<Rightarrow> string option \<Rightarrow> int option \<Rightarrow> db \<Rightarrow> db" where
  "stored_db E ws b x m n s = provider_settings_update
     (if loadProviderSettings ws s = None then insert_row (put_row E ws b (Some x) m n)
      else scoped_update ps_workspace_id ws (\<lambda>_. True) (\<lambda>_. put_row E ws b (Some x) m n)) s"

lemma store_settings_runs:
  "store_settings E ws user row_id b (Some (Some x)) m n s =
     (Inr (Some (put_row E ws b (Some x) m n)),
      audit_events_update (insert_row (audit_row ws ''provider_settings.updated'' (Some user) row_id (Some ''provider_settings'')
        (provider_audit b True True n))) (stored_db E ws b x m n s))"
proof -
  have audit: "loadProviderSettings ws (audit_events_update f t) = loadProviderSettings ws t" for f t
    by (simp add: loadProviderSettings_def)
  have row: "ps_workspace_id (put_row E ws b y m n) = ws" for y by (simp add: put_row_def)
  have new: "loadProviderSettings ws s = None \<Longrightarrow>
      loadProviderSettings ws (provider_settings_update (insert_row (put_row E ws b (Some x) m n)) s) = Some (put_row E ws b (Some x) m n)"
    by (rule loadProviderSettings_put(1) [OF refl]) (simp_all add: row)
  have old: "loadProviderSettings ws s = Some r \<Longrightarrow>
      loadProviderSettings ws (provider_settings_update (scoped_update ps_workspace_id ws (\<lambda>_. True) (\<lambda>_. put_row E ws b (Some x) m n)) s) =
        Some (put_row E ws b (Some x) m n)" for r
    by (rule loadProviderSettings_put(2) [OF refl, of _ _ r]) (simp_all add: row)
  let ?r = "Some (put_row E ws b (Some x) m n)"
  let ?t = "audit_events_update (insert_row (audit_row ws ''provider_settings.updated'' (Some user) row_id (Some ''provider_settings'')
    (provider_audit b True True n))) (stored_db E ws b x m n s)"
  have "wp (store_settings E ws user row_id b (Some (Some x)) m n) (\<lambda>r t. r = ?r \<and> t = ?t) (\<lambda>_ _. False) s"
    by (cases "loadProviderSettings ws s")
       (simp_all add: store_settings_def stored_db_def new old audit)
  from wp_total [OF this] show ?thesis by (elim exE conjE) (simp only:)
qed

lemma stored_db_request: "stored_db E ws (b\<lparr>pq_api_key := c\<rparr>) x m n s = stored_db E ws b x m n s"
  by (simp add: stored_db_def request_without_key)

lemma stored_db_hides: "hide_secrets (stored_db E ws b x m n s) = hide_secrets (stored_db E ws b y m n s)"
  by (simp add: stored_db_def hide_secrets_simps)

text \<open>C24: The API key stays where it is sealed.  Storing two keys that have the same mask answers the
  same, errors included, and leaves the same database but for the sealed column itself:
  no view, audit entry or other row depends on more of a key than its last four characters.\<close>

theorem provider_key_confidential:
  fixes E N C cfg ws user row_id nonce b s
  assumes "key \<noteq> []" and "key' \<noteq> []" and "maskSecret key = maskSecret key'"
  defines "put \<equiv> \<lambda>k. putProviderSettings E N C cfg ws user row_id nonce (b\<lparr>pq_api_key := SetKey k\<rparr>) s"
  shows "fst (put key) = fst (put key') \<and> hide_secrets (snd (put key)) = hide_secrets (snd (put key'))"
proof (cases "keyringFromConfig (encryption_key cfg)")
  case None
  then show ?thesis
    by (simp add: put_def putProviderSettings_def request_without_key handler_simps split: sum.split)
next
  case (Some k)
  have "\<exists>x. encryptSecret C k nonce plain = Some x" for plain
    using Some by (auto simp: keyringFromConfig_def encryptSecret_def keyFor_def split: if_splits prod.split)
  then obtain sealed where "\<And>text. encryptSecret C k nonce text = Some (sealed text)" by metis
  then have run: "put plain =
      (case assertProviderRequestAllowed E N cfg b of Inl e \<Rightarrow> (Inl e, s)
       | Inr _ \<Rightarrow> (Inr (toProviderSettingsView (Some (put_row E ws b (Some (sealed plain)) (Some (maskSecret plain)) (Some (kr_current_version k))))),
           snd (store_settings E ws user row_id (b\<lparr>pq_api_key := SetKey plain\<rparr>) (Some (Some (sealed plain)))
             (Some (maskSecret plain)) (Some (kr_current_version k)) s)))" if "plain \<noteq> []" for plain
    using Some that
    by (simp add: put_def putProviderSettings_def key_update_def request_without_key handler_simps store_settings_runs split: sum.split)
  show ?thesis
    using assms(1-3)
    by (auto simp: run store_settings_runs request_without_key stored_db_request hide_secrets_simps(1) split: sum.split
        intro: view_hides stored_db_hides [THEN arg_cong])
qed

section \<open>The connectivity test\<close>




section \<open>Concrete settings\<close>

definition sample_cipher :: cipher where
  "sample_cipher = \<lparr> gcm_seal = (\<lambda>key nonce plain. (rev plain, replicate 16 (CHR ''t''))),
     gcm_open = (\<lambda>key nonce tag ct. if tag = replicate 16 (CHR ''t'') then Some (rev ct) else None),
     encode_text = id, decode_text = id \<rparr>"

lemma sample_cipher_good: "good_cipher sample_cipher"
  by (simp add: good_cipher_def sample_cipher_def tag_bytes_def numeral_eq_Suc)

definition sample_provider_config :: provider_config where
  "sample_provider_config =
     \<lparr> allowed_fetch_hosts = [], local_model_base_url = None, encryption_key = replicate 32 (CHR ''k'') \<rparr>"

definition sample_network :: network_library where
  "sample_network = \<lparr> nl_is_ip = (\<lambda>_. 0), nl_resolve = (\<lambda>_. Some [''93.184.216.34'']) \<rparr>"

definition sample_put :: "api_key_change \<Rightarrow> provider_put_request" where
  "sample_put change = \<lparr> pq_provider = FakeProvider, pq_model = ''m'', pq_base_url = None, pq_api_key = change,
     pq_limits = default_provider_limits, pq_rate_card = None \<rparr>"

theorem provider_key_roundtrip_witness:
  "\<exists>v s'. putProviderSettings sample_env sample_network sample_cipher sample_provider_config ''ws'' ''user'' None (replicate 12 (CHR ''n''))
       (sample_put (SetKey ''sk-12345678'')) empty_db = (Inr v, s') \<and>
     stored_key sample_cipher sample_provider_config (loadProviderSettings ''ws'' s') = Inr (Some ''sk-12345678'') \<and>
     sv_api_key_masked v = Some (bullets @ ''5678'')"
proof -
  let ?put = "putProviderSettings sample_env sample_network sample_cipher sample_provider_config ''ws'' ''user'' None (replicate 12 (CHR ''n''))
    (sample_put (SetKey ''sk-12345678'')) empty_db"
  have "case ?put of (Inr v, s') \<Rightarrow> True | _ \<Rightarrow> False" by code_simp
  then obtain v s' where run: "?put = (Inr v, s')" by (auto split: prod.splits sum.splits)
  have "length (replicate 12 (CHR ''n'')) = nonce_bytes" by (simp add: nonce_bytes_def)
  from provider_key_roundtrip [OF sample_cipher_good this run] run show ?thesis
    by (auto simp: sample_put_def maskSecret_def)
qed

theorem provider_key_confidential_witness:
  "fst (putProviderSettings sample_env sample_network sample_cipher sample_provider_config ''ws'' ''user'' None (replicate 12 (CHR ''n''))
      (sample_put KeepKey\<lparr>pq_api_key := SetKey ''sk-aaaa5678''\<rparr>) empty_db) =
   fst (putProviderSettings sample_env sample_network sample_cipher sample_provider_config ''ws'' ''user'' None (replicate 12 (CHR ''n''))
      (sample_put KeepKey\<lparr>pq_api_key := SetKey ''sk-bbbb5678''\<rparr>) empty_db)"
  by (rule provider_key_confidential [THEN conjunct1]) (simp_all add: maskSecret_def)




end
