(* ===== verification/SettingsFile.thy ===== *)
theory SettingsFile
  imports Sources "HOL-Library.Product_Lexorder"
begin

text \<open>
  Reading and replacing the preferences (\<open>settings/preferences.ts\<close>, \<open>routes/preferences.ts\<close>)
  and the settings file (\<open>routes/settings-file.ts\<close>): a document with the preferences and the
  watched boards, exported by one workspace and imported by another.

  Identifiers of new rows, and of the preferences row the audit trail names, are arguments.
\<close>

section \<open>Preferences\<close>

definition lockPreferences :: "uuid \<Rightarrow> (db, preferences_row) handler" where
  "lockPreferences ws = andThen (gets (find_preferences ws)) (\<lambda>found. require found NotFound)"

definition assertPreferencesRevision :: "preferences_row \<Rightarrow> int \<Rightarrow> (db, unit) handler" where
  "assertPreferencesRevision row expected = throw_if (pf_revision row \<noteq> expected) StaleRevision"

definition assertPreferencesValid :: "preferences \<Rightarrow> (db, unit) handler" where
  "assertPreferencesValid config = throw_if (matchWeightsSum (weights config) \<noteq> 100) Unprocessable"

text \<open>A configuration that no longer fits its schema is absent from the row.\<close>

definition readStoredConfig :: "preferences_row \<Rightarrow> (db, preferences) handler" where
  "readStoredConfig row = require (pf_config row) Unprocessable"

definition toPreferencesView :: "preferences_row \<Rightarrow> (db, int \<times> preferences) handler" where
  "toPreferencesView row = andThen (readStoredConfig row) (\<lambda>config. ret (pf_revision row, config))"

definition getPreferences :: "uuid \<Rightarrow> (db, int \<times> preferences) handler" where
  "getPreferences ws = andThen (ensurePreferences ws) toPreferencesView"

definition write_preferences :: "uuid \<Rightarrow> preferences_row \<Rightarrow> preferences \<Rightarrow> (db, unit) handler" where
  "write_preferences ws row config =
     modify (preferences_rows_update (scoped_update pf_workspace_id ws (\<lambda>_. True)
       (\<lambda>r. r \<lparr> pf_revision := pf_revision row + 1, pf_config := Some config \<rparr>)))"

text \<open>\<open>weights_changed\<close> compares two texts: the weights as the request wrote them, in an order of
  its own, and as \<open>jsonb\<close> gives them back, shorter keys first.\<close>

definition jsonb_order :: "string list" where
  "jsonb_order = [''skills'', ''industry'', ''seniority'', ''role_title'', ''work_arrangement'']"

definition weight_of :: "match_weights \<Rightarrow> string \<Rightarrow> int" where
  "weight_of w k =
     (if k = ''skills'' then mw_skills w else if k = ''role_title'' then mw_role_title w
      else if k = ''seniority'' then mw_seniority w else if k = ''work_arrangement'' then mw_work_arrangement w
      else mw_industry w)"

definition weights_text :: "string list \<Rightarrow> match_weights \<Rightarrow> (string \<times> int) list" where
  "weights_text order w = map (\<lambda>k. (k, weight_of w k)) order"

definition weights_changed :: "string list \<Rightarrow> preferences \<Rightarrow> preferences_row \<Rightarrow> bool" where
  "weights_changed order config row =
     (Some (weights_text order (weights config)) \<noteq> map_option (\<lambda>c. weights_text jsonb_order (weights c)) (pf_config row))"

definition putPreferences ::
  "uuid \<Rightarrow> uuid \<Rightarrow> uuid \<Rightarrow> string list \<Rightarrow> preferences_put_request \<Rightarrow> (db, int \<times> preferences) handler" where
  "putPreferences ws user row_id order b =
     andThen (assertPreferencesValid (pp_config b)) (\<lambda>_.
     andThen (ensurePreferences ws) (\<lambda>_.
     andThen (transaction (
       andThen (lockPreferences ws) (\<lambda>row.
       andThen (assertPreferencesRevision row (pp_expected_revision b)) (\<lambda>_.
       andThen (write_preferences ws row (pp_config b)) (\<lambda>_.
       andThen (recordAuditEvent ws ''preferences.updated'' (Some user) (Some row_id) (Some ''preferences'')
         (JObj [(''revision'', JNum (pf_revision row + 1)), (''settings_version'', JNum (settings_version (pp_config b))),
                (''weights_changed'', JBool (weights_changed order (pp_config b) row))])) (\<lambda>_.
       lockPreferences ws)))))) (\<lambda>updated.
     toPreferencesView updated)))"

section \<open>The settings file\<close>

record settings_source =
  xs_connector :: connector_id
  xs_board_key :: string
  xs_base_url :: "string option"
  xs_enabled :: bool

record settings_file =
  xf_exported_at :: timestamp
  xf_preferences :: preferences
  xf_sources :: "settings_source list"

record settings_import_request =
  xi_expected_revision :: int
  xi_settings :: settings_file

record settings_import_result =
  xr_preferences :: "int \<times> preferences"
  xr_sources_created :: nat
  xr_sources_already_present :: nat

definition file_source :: "source_row \<Rightarrow> settings_source" where
  "file_source r = \<lparr> xs_connector = so_connector r, xs_board_key = so_board_key r, xs_base_url = so_base_url r, xs_enabled = so_enabled r \<rparr>"

definition source_order :: "source_row \<Rightarrow> string \<times> string" where
  "source_order r = (connector_text (so_connector r), so_board_key r)"

definition board_sources :: "uuid \<Rightarrow> db \<Rightarrow> source_row list" where
  "board_sources ws s =
     sort_key source_order (scoped_filter so_workspace_id ws (\<lambda>r. so_connector r \<in> set board_connector_ids) (sources s))"

definition exportSettings :: "env \<Rightarrow> uuid \<Rightarrow> (db, settings_file) handler" where
  "exportSettings E ws =
     andThen (ensurePreferences ws) (\<lambda>row.
     andThen (readStoredConfig row) (\<lambda>preferences.
     andThen (gets (board_sources ws)) (\<lambda>boards.
     ret \<lparr> xf_exported_at = now E, xf_preferences = preferences, xf_sources = map file_source boards \<rparr>)))"

text \<open>Whether some board is refused, and the boards that are not, with their normal base URL.\<close>

fun check_boards :: "env \<Rightarrow> (connector_id \<times> string) list \<Rightarrow> settings_source list \<Rightarrow> bool \<times> settings_source list" where
  "check_boards E seen [] = (False, [])"
| "check_boards E seen (x # xs) =
     (let identity = (xs_connector x, xs_board_key x) in
      if identity \<in> set seen then (True, snd (check_boards E seen xs))
      else let (bad, boards) = check_boards E (identity # seen) xs in
        (case validateBaseUrl E (xs_connector x) (xs_base_url x) of
           Inl _ \<Rightarrow> (True, boards)
         | Inr base \<Rightarrow> (bad, x\<lparr>xs_base_url := base\<rparr> # boards)))"

definition validateBoards :: "env \<Rightarrow> settings_source list \<Rightarrow> api_error + settings_source list" where
  "validateBoards E xs = (case check_boards E [] xs of (bad, boards) \<Rightarrow> if bad then Inl Unprocessable else Inr boards)"

definition imported_source :: "env \<Rightarrow> uuid \<Rightarrow> uuid \<Rightarrow> settings_source \<Rightarrow> source_row" where
  "imported_source E ws new_id x =
     (new_source E ws new_id (xs_connector x) (xs_board_key x) (xs_base_url x))\<lparr>so_enabled := xs_enabled x\<rparr>"

text \<open>One board: \<open>on conflict do nothing\<close>, then the audit entry of a row that was inserted.  The
  answer is whether it was.\<close>

definition import_board :: "env \<Rightarrow> uuid \<Rightarrow> uuid \<Rightarrow> uuid \<times> settings_source \<Rightarrow> (db, bool) handler" where
  "import_board E ws user entry =
     (case entry of (new_id, x) \<Rightarrow>
        andThen (gets (\<lambda>s. scoped_find so_workspace_id ws (same_board (xs_connector x) (xs_board_key x)) (sources s))) (\<lambda>existing.
        if existing \<noteq> None then ret False
        else
          andThen (gets (\<lambda>s. new_id \<in> so_id ` set (sources s))) (\<lambda>taken.
          andThen (throw_if taken Conflict) (\<lambda>_.
          andThen (modify (sources_update (insert_row (imported_source E ws new_id x)))) (\<lambda>_.
          andThen (recordAuditEvent ws ''source.created'' (Some user) (Some new_id) (Some ''source'')
            (JObj [(''connector'', JStr (connector_text (xs_connector x))), (''has_base_url'', JBool (xs_base_url x \<noteq> None)),
                   (''via'', JStr ''settings_import'')])) (\<lambda>_.
          ret True))))))"

definition import_transaction ::
  "env \<Rightarrow> uuid \<Rightarrow> uuid \<Rightarrow> uuid \<Rightarrow> string list \<Rightarrow> int \<Rightarrow> preferences \<Rightarrow> (uuid \<times> settings_source) list
     \<Rightarrow> (db, preferences_row \<times> nat) handler" where
  "import_transaction E ws user row_id order expected config entries =
     andThen (lockPreferences ws) (\<lambda>row.
     andThen (assertPreferencesRevision row expected) (\<lambda>_.
     andThen (write_preferences ws row config) (\<lambda>_.
     andThen (map_each (import_board E ws user) entries) (\<lambda>inserted.
     let created = length (filter (\<lambda>b. b) inserted) in
     andThen (recordAuditEvent ws ''settings.imported'' (Some user) (Some row_id) (Some ''preferences'')
       (JObj [(''revision'', JNum (pf_revision row + 1)), (''settings_version'', JNum (settings_version config)),
              (''weights_changed'', JBool (weights_changed order config row)),
              (''sources_in_file'', JNum (int (length entries))), (''sources_created'', JNum (int created))])) (\<lambda>_.
     andThen (lockPreferences ws) (\<lambda>after.
     ret (after, created)))))))"

definition importSettings ::
  "env \<Rightarrow> uuid \<Rightarrow> uuid \<Rightarrow> uuid \<Rightarrow> string list \<Rightarrow> uuid list \<Rightarrow> settings_import_request \<Rightarrow> (db, settings_import_result) handler" where
  "importSettings E ws user row_id order new_ids b =
     andThen (assertPreferencesValid (xf_preferences (xi_settings b))) (\<lambda>_.
     andThen (reads (\<lambda>_. validateBoards E (xf_sources (xi_settings b)))) (\<lambda>boards.
     andThen (ensurePreferences ws) (\<lambda>_.
     andThen (transaction (import_transaction E ws user row_id order (xi_expected_revision b) (xf_preferences (xi_settings b))
       (zip new_ids boards))) (\<lambda>(row, created).
     andThen (toPreferencesView row) (\<lambda>view.
     ret \<lparr> xr_preferences = view, xr_sources_created = created, xr_sources_already_present = length boards - created \<rparr>)))))"

end
