(* ===== verification/SettingsProperties.thy ===== *)
theory SettingsProperties
  imports SettingsFile Samples
begin

text \<open>
  What a settings file carries from one workspace to another, and what an import leaves alone.
\<close>

section \<open>Lemmas\<close>





lemma find_preferences_audit [simp]: "find_preferences ws (audit_events_update f s) = find_preferences ws s"
  by (simp add: find_preferences_def)








lemma board_sources_preferences [simp]: "board_sources ws (preferences_rows_update f s) = board_sources ws s"
  by (simp add: board_sources_def)


section \<open>The settings file\<close>





end
