(* ===== verification/Spec2Isabelle.thy ===== *)
theory Spec2Isabelle
  imports ApplicationProperties QueueProperties SessionProperties DiscoveryProperties ProfileProperties ApiProperties
    PlannerProperties OutboundProperties PrivacyProperties UsageProperties AccountsProperties ErasureProperties
    ExtensionProperties ProviderProperties SettingsProperties
begin

text \<open>
  A verification library for the Job Getter API.
\<close>

end
